(* ===== verification/Prelude.thy ===== *)
theory Prelude
  imports Main "HOL-Library.Word" "HOL-Library.Char_ord" "HOL-Library.List_Lexorder"
    "HOL-Library.Multiset"
begin

text \<open>
  Shared foundations of the development: the result of a Go call, computations over an
  explicit state, the loops the components use, Go's slice expressions and 64-bit integer
  arithmetic, and the lemmas about lists and maps that several components need.
\<close>

named_theorems go_simps \<open>unfolding rules for sequencing Go calls\<close>
named_theorems rt_simps \<open>encode/decode round trips\<close>

section \<open>The result of a Go call\<close>

text \<open>
  A Go function with an \<open>error\<close> result returns a value (\<open>Ok\<close>) or an error
  (\<open>Err\<close>); a nil dereference, an index or slice out of range or a failed type assertion
  without the comma-ok form is a run-time panic (\<open>Panic\<close>).
\<close>

datatype ('e, 'a) outcome = Ok 'a | Err 'e | Panic

fun bnd :: "('e, 'a) outcome \<Rightarrow> ('a \<Rightarrow> ('e, 'b) outcome) \<Rightarrow> ('e, 'b) outcome" where
  "bnd (Ok x) f = f x"
| "bnd (Err e) f = Err e"
| "bnd Panic f = Panic"

lemma bnd_eq_Ok [simp]: "bnd m f = Ok y \<longleftrightarrow> (\<exists>x. m = Ok x \<and> f x = Ok y)"
  by (cases m) auto

lemma bnd_assoc: "bnd (bnd m f) g = bnd m (\<lambda>x. bnd (f x) g)"
  by (cases m) auto

lemma bnd_Ok_right [simp]: "bnd m Ok = m"
  by (cases m) auto

text \<open>An error that replaces whatever error a call returned.\<close>

fun map_err :: "('e \<Rightarrow> 'e) \<Rightarrow> ('e, 'a) outcome \<Rightarrow> ('e, 'a) outcome" where
  "map_err f (Ok x) = Ok x"
| "map_err f (Err e) = Err (f e)"
| "map_err f Panic = Panic"

lemma map_err_eq_Ok [simp]: "map_err f m = Ok x \<longleftrightarrow> m = Ok x"
  by (cases m) auto

section \<open>Computations over an explicit state\<close>

text \<open>
  The state is returned on every path: an error does not undo the writes made before it.
\<close>

type_synonym ('s, 'e, 'a) comp = "'s \<Rightarrow> ('e, 'a) outcome \<times> 's"

definition retc :: "'a \<Rightarrow> ('s, 'e, 'a) comp" where
  "retc x = (\<lambda>s. (Ok x, s))"

definition failc :: "'e \<Rightarrow> ('s, 'e, 'a) comp" where
  "failc e = (\<lambda>s. (Err e, s))"

text \<open>A call that reads the state and writes nothing.\<close>

definition readc :: "('s \<Rightarrow> ('e, 'a) outcome) \<Rightarrow> ('s, 'e, 'a) comp" where
  "readc f = (\<lambda>s. (f s, s))"

definition modc :: "('s \<Rightarrow> 's) \<Rightarrow> ('s, 'e, unit) comp" where
  "modc f = (\<lambda>s. (Ok (), f s))"

definition bndc :: "('s, 'e, 'a) comp \<Rightarrow> ('a \<Rightarrow> ('s, 'e, 'b) comp) \<Rightarrow> ('s, 'e, 'b) comp" where
  "bndc m f = (\<lambda>s. case m s of
     (Ok x, s') \<Rightarrow> f x s' | (Err e, s') \<Rightarrow> (Err e, s') | (Panic, s') \<Rightarrow> (Panic, s'))"

definition map_errc :: "('e \<Rightarrow> 'e) \<Rightarrow> ('s, 'e, 'a) comp \<Rightarrow> ('s, 'e, 'a) comp" where
  "map_errc f m = (\<lambda>s. case m s of (r, s') \<Rightarrow> (map_err f r, s'))"

lemma bndc_Ok [go_simps]: "m s = (Ok x, s') \<Longrightarrow> bndc m f s = f x s'"
  by (simp add: bndc_def)

lemma bndc_Err [go_simps]: "m s = (Err e, s') \<Longrightarrow> bndc m f s = (Err e, s')"
  by (simp add: bndc_def)

lemma bndc_Panic [go_simps]: "m s = (Panic, s') \<Longrightarrow> bndc m f s = (Panic, s')"
  by (simp add: bndc_def)

lemma bndc_eq_Ok:
  "bndc m f s = (Ok y, t) \<longleftrightarrow> (\<exists>x s'. m s = (Ok x, s') \<and> f x s' = (Ok y, t))"
  by (auto simp: bndc_def split: prod.splits outcome.splits)

lemma bndc_cases:
  assumes "bndc m f s = (r, t)"
  obtains (ok) x s' where "m s = (Ok x, s')" "f x s' = (r, t)"
  | (err) e where "m s = (Err e, t)" "r = Err e"
  | (panic) "m s = (Panic, t)" "r = Panic"
  using assms by (auto simp: bndc_def split: prod.splits outcome.splits)

lemma readc_apply [simp]: "readc f s = (f s, s)"
  by (simp add: readc_def)

lemma modc_apply [simp]: "modc f s = (Ok (), f s)"
  by (simp add: modc_def)

lemma retc_apply [simp]: "retc x s = (Ok x, s)"
  by (simp add: retc_def)

lemma failc_apply [simp]: "failc e s = (Err e, s)"
  by (simp add: failc_def)

lemma map_errc_eq_Ok [simp]: "map_errc f m s = (Ok x, t) \<longleftrightarrow> m s = (Ok x, t)"
  by (auto simp: map_errc_def split: prod.splits)

lemma snd_map_errc [simp]: "snd (map_errc f m s) = snd (m s)"
  by (simp add: map_errc_def split: prod.splits)

section \<open>Loops that stop at the first error\<close>

fun forc :: "'a list \<Rightarrow> ('a \<Rightarrow> ('s, 'e, unit) comp) \<Rightarrow> ('s, 'e, unit) comp" where
  "forc [] f = retc ()"
| "forc (x # xs) f = bndc (f x) (\<lambda>_. forc xs f)"

fun foldo :: "('a \<Rightarrow> 'b \<Rightarrow> ('e, 'b) outcome) \<Rightarrow> 'a list \<Rightarrow> 'b \<Rightarrow> ('e, 'b) outcome" where
  "foldo f [] b = Ok b"
| "foldo f (x # xs) b = bnd (f x b) (foldo f xs)"

text \<open>
  An invariant of the body is an invariant of the loop, whatever the loop returns; the
  loop returns when every call of the body does.
\<close>

lemma forc_invariant:
  assumes "P s"
    and step: "\<And>x s. x \<in> set xs \<Longrightarrow> P s \<Longrightarrow> P (snd (f x s))"
  shows "P (snd (forc xs f s))"
  using assms
proof (induction xs arbitrary: s)
  case Nil
  then show ?case by simp
next
  case (Cons x xs)
  have fx: "P (snd (f x s))" using Cons.prems by simp
  show ?case
  proof (cases "f x s")
    case (Pair r s')
    then show ?thesis
      using fx Cons.IH[of s'] Cons.prems(2)
      by (cases r) (auto simp: bndc_def)
  qed
qed

lemma forc_total:
  assumes "P s"
    and step: "\<And>x s. x \<in> set xs \<Longrightarrow> P s \<Longrightarrow> \<exists>s'. f x s = (Ok (), s') \<and> P s'"
  shows "\<exists>s'. forc xs f s = (Ok (), s') \<and> P s'"
  using assms
proof (induction xs arbitrary: s)
  case Nil
  then show ?case by simp
next
  case (Cons x xs)
  obtain s' where s': "f x s = (Ok (), s')" "P s'"
    using Cons.prems by fastforce
  then obtain s'' where "forc xs f s' = (Ok (), s'')" "P s''"
    using Cons.IH[OF s'(2)] Cons.prems(2) by fastforce
  then show ?case using s' by (simp add: bndc_Ok)
qed

lemma foldo_Nil_Ok [simp]: "foldo f [] = Ok"
  by (simp add: fun_eq_iff)

lemma foldo_append:
  "foldo f (xs @ ys) b = bnd (foldo f xs b) (foldo f ys)"
proof (induction xs arbitrary: b)
  case (Cons x xs)
  then show ?case by (cases "f x b") auto
qed simp

lemma foldo_invariant:
  assumes "foldo f xs b = Ok b'" "P b"
    and "\<And>x b b'. x \<in> set xs \<Longrightarrow> P b \<Longrightarrow> f x b = Ok b' \<Longrightarrow> P b'"
  shows "P b'"
  using assms by (induction xs arbitrary: b) auto

section \<open>Slices and 64-bit arithmetic\<close>

text \<open>The Go expression \<open>xs[i:j]\<close> panics unless \<open>i \<le> j \<le> len(xs)\<close>.\<close>

definition slice :: "nat \<Rightarrow> nat \<Rightarrow> 'a list \<Rightarrow> ('e, 'a list) outcome" where
  "slice i j xs = (if i \<le> j \<and> j \<le> length xs then Ok (take (j - i) (drop i xs)) else Panic)"

lemma slice_Ok: "i \<le> j \<Longrightarrow> j \<le> length xs \<Longrightarrow> slice i j xs = Ok (take (j - i) (drop i xs))"
  by (simp add: slice_def)

lemma slice_prefix [simp]: "length ys = j \<Longrightarrow> slice 0 j (ys @ zs) = Ok ys"
  by (simp add: slice_def)

text \<open>The Go expression \<open>xs[i]\<close>.\<close>

definition index :: "'a list \<Rightarrow> nat \<Rightarrow> ('e, 'a) outcome" where
  "index xs i = (if i < length xs then Ok (xs ! i) else Panic)"

text \<open>
  An \<open>int64\<close> is an integer; \<open>i64\<close> is the value a sum or difference has after
  two's complement wrap-around.
\<close>

definition i64 :: "int \<Rightarrow> int" where
  "i64 x = (x + 2 ^ 63) mod 2 ^ 64 - 2 ^ 63"

definition in_i64 :: "int \<Rightarrow> bool" where
  "in_i64 x \<longleftrightarrow> - (2 ^ 63) \<le> x \<and> x < 2 ^ 63"

lemma i64_id [simp]: "in_i64 x \<Longrightarrow> i64 x = x"
  by (simp add: i64_def in_i64_def)

lemma in_i64_i64 [simp]: "in_i64 (i64 x)"
proof -
  have "0 \<le> (x + 2 ^ 63) mod 2 ^ 64" "(x + 2 ^ 63) mod 2 ^ 64 < 2 ^ 64"
    by (rule pos_mod_sign pos_mod_bound; simp)+
  then show ?thesis by (simp add: i64_def in_i64_def)
qed

lemma in_i64_between: "0 \<le> x \<Longrightarrow> x \<le> y \<Longrightarrow> in_i64 y \<Longrightarrow> in_i64 x"
  by (simp add: in_i64_def)

section \<open>Lists and finite maps\<close>

text \<open>
  A Go map that is ranged over is an association list with distinct keys; its order is the
  order in which the range visits it, which Go leaves open, so a theorem about every such
  list is a theorem about every order.
\<close>

definition keys :: "('k \<times> 'v) list \<Rightarrow> 'k list" where
  "keys = map fst"

definition distinct_keys :: "('k \<times> 'v) list \<Rightarrow> bool" where
  "distinct_keys m \<longleftrightarrow> distinct (keys m)"

text \<open>\<open>m[k] = v\<close>: the entry of a present key is replaced where it is, a new one is added.\<close>

fun put :: "'k \<Rightarrow> 'v \<Rightarrow> ('k \<times> 'v) list \<Rightarrow> ('k \<times> 'v) list" where
  "put k v [] = [(k, v)]"
| "put k v ((k', v') # m) = (if k = k' then (k, v) # m else (k', v') # put k v m)"

lemma map_of_put [simp]: "map_of (put k v m) = (map_of m)(k \<mapsto> v)"
  by (induction m) (auto simp: fun_eq_iff)

lemma keys_put: "set (keys (put k v m)) = insert k (set (keys m))"
  by (induction k v m rule: put.induct) (auto simp: keys_def)

lemma distinct_keys_put [simp]: "distinct_keys m \<Longrightarrow> distinct_keys (put k v m)"
proof (induction m)
  case Nil
  then show ?case by (simp add: distinct_keys_def keys_def)
next
  case (Cons p m)
  then show ?case
    using keys_put[of k v m] by (cases p) (auto simp: distinct_keys_def keys_def)
qed

lemma distinct_keys_Nil [simp]: "distinct_keys []"
  by (simp add: distinct_keys_def keys_def)

lemma distinct_keys_Cons [simp]:
  "distinct_keys ((k, v) # m) \<longleftrightarrow> k \<notin> set (keys m) \<and> distinct_keys m"
  by (simp add: distinct_keys_def keys_def)

lemma keys_simps [simp]: "keys [] = []" "keys ((k, v) # m) = k # keys m"
  by (simp_all add: keys_def)

lemma map_of_None_keys: "map_of m k = None \<longleftrightarrow> k \<notin> set (keys m)"
  by (simp add: keys_def map_of_eq_None_iff)

lemma map_of_Some_distinct:
  "distinct_keys m \<Longrightarrow> map_of m k = Some v \<longleftrightarrow> (k, v) \<in> set m"
  unfolding distinct_keys_def keys_def by (rule map_of_eq_Some_iff)

text \<open>The sum over a map changes by what the entry changes.\<close>

definition total :: "('k \<times> 'v :: comm_monoid_add) list \<Rightarrow> 'v" where
  "total m = sum_list (map snd m)"

lemma total_simps [simp]: "total [] = 0" "total ((k, v) # m) = v + total m"
  by (simp_all add: total_def)

lemma total_put_new: "map_of m k = None \<Longrightarrow> total (put k v m) = total m + v"
  by (induction m) (auto simp: ac_simps split: if_splits)

lemma total_put_old:
  fixes v :: "'v :: ab_group_add"
  shows "map_of m k = Some v \<Longrightarrow> total (put k w m) = total m - v + w"
  by (induction m) (auto simp: algebra_simps split: if_splits)

text \<open>A strictly sorted list of pairs is determined by its map.\<close>

lemma sorted_wrt_less_distinct:
  "sorted_wrt (<) (xs :: 'a :: linorder list) \<Longrightarrow> distinct xs"
  by (induction xs) auto

end
