(* ===== verification/PoolErrors.thy ===== *)
theory PoolErrors
  imports Prelude
begin

text \<open>
  The error values of the pool (\<open>errors/error.go\<close>). An error carries a kind, or
  wraps another error, or comes from a library and carries no kind of the pool. The
  descriptions, which are read by people only, are left out.
\<close>

section \<open>Kinds\<close>

datatype ErrorKind =
    ValueNotFound | StorageNotFound | CreateStorage | DBOpen | DBClose | DBUpgrade
  | PersistEntry | DeleteEntry | FetchEntry | Backup | Parse | Decode | ValueFound
  | Unsupported
  | GetWork | GetBlock | Disconnected | Listener | HeaderInvalid | MinerUnknown
  | DivideByZero | HexLength | TxConf | BlockConf | BlockNotFound | ClaimShare
  | LimitExceeded | LowDifficulty | PoolDifficulty | NetworkDifficulty | WorkRejected
  | PaymentSourceErr | ShareRatio | CreateHash | Coinbase | CreateTx | SignTx | PublishTx
  | FetchTx | TxOut | TxIn | ContextCancelled | CreateAmount | Rescan

text \<open>
  \<open>Error k\<close> is an \<open>errors.Error\<close> value whose underlying error is the kind
  \<open>k\<close>; \<open>Kind k\<close> is the kind itself used as an error; \<open>Wrapped e\<close> is
  \<open>fmt.Errorf\<close> with the verb w; \<open>Foreign\<close> is an error of a library or one
  made by \<open>fmt.Errorf\<close> without that verb.
\<close>

datatype goerror = Error ErrorKind | Kind ErrorKind | Wrapped goerror | Foreign

type_synonym 'a go = "(goerror, 'a) outcome"

fun Unwrap :: "goerror \<Rightarrow> goerror option" where
  "Unwrap (Error k) = Some (Kind k)"
| "Unwrap (Wrapped e) = Some e"
| "Unwrap _ = None"

definition PoolError :: "ErrorKind \<Rightarrow> goerror" where
  "PoolError kind = Error kind"

definition DBError :: "ErrorKind \<Rightarrow> goerror" where
  "DBError kind = Error kind"

definition MsgError :: "ErrorKind \<Rightarrow> goerror" where
  "MsgError kind = Error kind"

text \<open>\<open>errors.Is(err, kind)\<close>: the kind is met while unwrapping.\<close>

function errors_is :: "goerror \<Rightarrow> ErrorKind \<Rightarrow> bool" where
  "errors_is e k = (e = Kind k \<or> (case Unwrap e of None \<Rightarrow> False | Some e' \<Rightarrow> errors_is e' k))"
  by pat_completeness auto
termination
proof (relation "measure (\<lambda>(e, k). 2 * size e + (case e of Error _ \<Rightarrow> 1 | _ \<Rightarrow> 0))", goal_cases)
  case 1
  then show ?case by simp
next
  case (2 e k e')
  then show ?case by (cases e; cases e') (auto split: goerror.splits)
qed

declare errors_is.simps [simp del]

lemma errors_is_simps [simp]:
  "errors_is (Kind k') k \<longleftrightarrow> k' = k"
  "errors_is (Error k') k \<longleftrightarrow> k' = k"
  "errors_is (Wrapped e) k \<longleftrightarrow> errors_is e k"
  "\<not> errors_is Foreign k"
  by (simp_all add: errors_is.simps[of "Kind k'"] errors_is.simps[of "Error k'"]
      errors_is.simps[of "Wrapped e"] errors_is.simps[of Foreign])

lemmas error_defs [simp] = PoolError_def DBError_def MsgError_def

end
