(* ===== verification/GoBytes.thy ===== *)
theory GoBytes
  imports PoolErrors
begin

text \<open>
  Byte strings: fixed-width big and little endian encodings (\<open>encoding/binary\<close>),
  hexadecimal text (\<open>encoding/hex\<close>) and the order of byte strings
  (\<open>bytes.Compare\<close>), with the two helpers of the pool that build on them. A byte is
  a \<^typ>\<open>char\<close>; \<open>bytes.Compare a b < 0\<close> is \<open>a < b\<close> in the lexicographic order.
\<close>

type_synonym bytes = string

section \<open>Fixed-width integers\<close>

fun be :: "nat \<Rightarrow> nat \<Rightarrow> bytes" where
  "be 0 v = []"
| "be (Suc n) v = be n (v div 256) @ [char_of (v mod 256)]"

definition be_val :: "bytes \<Rightarrow> nat" where
  "be_val bs = foldl (\<lambda>a c. a * 256 + of_char c) 0 bs"

definition le :: "nat \<Rightarrow> nat \<Rightarrow> bytes" where
  "le n v = rev (be n v)"

definition le_val :: "bytes \<Rightarrow> nat" where
  "le_val bs = be_val (rev bs)"

definition heightToBigEndianBytes :: "32 word \<Rightarrow> bytes" where
  "heightToBigEndianBytes height = be 4 (unat height)"

text \<open>An \<open>int64\<close> time is held as its 64 bits, which is what \<open>uint64(nano)\<close> keeps.\<close>

definition nanoToBigEndianBytes :: "64 word \<Rightarrow> bytes" where
  "nanoToBigEndianBytes nano = be 8 (unat nano)"

text \<open>\<open>binary.BigEndian.Uint64\<close> reads the first eight bytes and panics on fewer.\<close>

definition bigEndianBytesToNano :: "bytes \<Rightarrow> 64 word go" where
  "bigEndianBytesToNano b = bnd (slice 0 8 b) (\<lambda>b8. Ok (of_nat (be_val b8)))"

text \<open>\<open>binary.LittleEndian.Uint32\<close> and \<open>PutUint32\<close>.\<close>

definition le32 :: "32 word \<Rightarrow> bytes" where
  "le32 w = le 4 (unat w)"

definition le32_val :: "bytes \<Rightarrow> 32 word go" where
  "le32_val b = bnd (slice 0 4 b) (\<lambda>b4. Ok (of_nat (le_val b4)))"

section \<open>Hexadecimal text\<close>

definition hexdigits :: string where
  "hexdigits = ''0123456789abcdef''"

definition hexchar :: "nat \<Rightarrow> char" where
  "hexchar n = hexdigits ! (n mod 16)"

definition EncodeToString :: "bytes \<Rightarrow> string" where
  "EncodeToString bs =
     concat (map (\<lambda>c. [hexchar (of_char c div 16), hexchar (of_char c mod 16)]) bs)"

definition fromHexChar :: "char \<Rightarrow> nat option" where
  "fromHexChar c = (let n = of_char c in
     if 48 \<le> n \<and> n \<le> 57 then Some (n - 48)
     else if 97 \<le> n \<and> n \<le> 102 then Some (n - 97 + 10)
     else if 65 \<le> n \<and> n \<le> 70 then Some (n - 65 + 10)
     else (None :: nat option))"

text \<open>\<open>hex.DecodeString\<close>: an odd length and a character that is no digit are errors.\<close>

fun DecodeString :: "string \<Rightarrow> bytes go" where
  "DecodeString [] = Ok []"
| "DecodeString [c] = Err Foreign"
| "DecodeString (c # d # s) =
     (case (fromHexChar c, fromHexChar d) of
        (Some a, Some b) \<Rightarrow> bnd (DecodeString s) (\<lambda>bs. Ok (char_of (a * 16 + b) # bs))
      | _ \<Rightarrow> Err Foreign)"

section \<open>Round trips and order\<close>

lemma of_char_lt_256: "of_char c < (256 :: nat)"
  by (metis mod_less_divisor of_char_mod_256 zero_less_numeral)

text \<open>Numbers compare as their quotient and remainder do.\<close>

lemma div_mod_less:
  fixes v w k :: nat
  assumes "0 < k"
  shows "v < w \<longleftrightarrow> v div k < w div k \<or> v div k = w div k \<and> v mod k < w mod k"
proof (cases "v div k" "w div k" rule: linorder_cases)
  case less
  then show ?thesis using div_le_mono[of w v k] by linarith
next
  case equal
  have "v = v div k * k + v mod k" "w = w div k * k + w mod k" by simp_all
  then show ?thesis using equal by (metis less_irrefl nat_add_left_cancel_less)
next
  case greater
  then show ?thesis using div_le_mono[of v w k] by linarith
qed

lemma length_be [simp]: "length (be n v) = n"
  by (induction n arbitrary: v) auto

lemma be_val_snoc [simp]: "be_val (bs @ [c]) = be_val bs * 256 + of_char c"
  by (simp add: be_val_def)

lemma be_val_Nil [simp]: "be_val [] = 0"
  by (simp add: be_val_def)

lemma be_val_be [rt_simps]: "be_val (be n v) = v mod 256 ^ n"
proof (induction n arbitrary: v)
  case (Suc n)
  then show ?case
    by (simp add: mod_mult2_eq mult.commute)
qed simp

lemma be_mod: "be n (v mod 256 ^ n) = be n v"
proof (induction n arbitrary: v)
  case (Suc n)
  have "v mod (256 * 256 ^ n) div 256 = (v div 256) mod 256 ^ n"
    by (simp add: mod_mult2_eq)
  moreover have "v mod (256 * 256 ^ n) mod 256 = v mod 256"
    by (simp add: mod_mult2_eq)
  ultimately show ?case using Suc by simp
qed simp

lemma be_val_bound: "be_val bs < 256 ^ length bs"
proof (induction bs rule: rev_induct)
  case (snoc c bs)
  have "of_char c < (256 :: nat)"
    by (rule of_char_lt_256)
  moreover have "be_val bs * 256 + 256 \<le> 256 * 256 ^ length bs"
    using snoc by (simp add: Suc_leI flip: mult_Suc_right add_mult_distrib2)
  ultimately have "be_val bs * 256 + of_char c < 256 * 256 ^ length bs" by linarith
  then show ?case by simp
qed simp

lemma be_be_val [rt_simps]: "be (length bs) (be_val bs) = bs"
proof (induction bs rule: rev_induct)
  case (snoc c bs)
  have "of_char c < (256 :: nat)"
    by (rule of_char_lt_256)
  then show ?case using snoc by simp
qed simp

text \<open>The lexicographic order of byte strings of one length.\<close>

lemma snoc_less:
  fixes xs ys :: "'a :: linorder list"
  assumes "length xs = length ys"
  shows "xs @ [a] < ys @ [b] \<longleftrightarrow> xs < ys \<or> xs = ys \<and> a < b"
  using assms by (induction xs ys rule: list_induct2) auto

lemma be_less: "v < 256 ^ n \<Longrightarrow> w < 256 ^ n \<Longrightarrow> be n v < be n w \<longleftrightarrow> v < w"
proof (induction n arbitrary: v w)
  case (Suc n)
  have d: "v div 256 < 256 ^ n" "w div 256 < 256 ^ n"
    using Suc.prems by (auto simp: less_mult_imp_div_less mult.commute)
  have inj: "be n (v div 256) = be n (w div 256) \<longleftrightarrow> v div 256 = w div 256"
    using d be_val_be by (metis mod_less)
  have ch: "(char_of (v mod 256) < (char_of (w mod 256) :: char)) \<longleftrightarrow> v mod 256 < w mod 256"
    by (simp add: less_char_def)
  have "be (Suc n) v < be (Suc n) w \<longleftrightarrow>
      v div 256 < w div 256 \<or> v div 256 = w div 256 \<and> v mod 256 < w mod 256"
    using Suc.IH[OF d] inj ch by (simp add: snoc_less)
  also have "\<dots> \<longleftrightarrow> v < w"
    using div_mod_less[of 256 v w] by simp
  finally show ?case .
qed simp

lemma be_le: "v < 256 ^ n \<Longrightarrow> w < 256 ^ n \<Longrightarrow> be n v \<le> be n w \<longleftrightarrow> v \<le> w"
  using be_less[of w n v] by (simp add: linorder_not_less[symmetric])

lemma unat32_be [simp]: "unat (h :: 32 word) < 256 ^ 4"
  using unsigned_less[where 'a = nat and w = h] by simp

lemma unat64_be [simp]: "unat (h :: 64 word) < 256 ^ 8"
  using unsigned_less[where 'a = nat and w = h] by simp

lemma length_heightToBigEndianBytes [simp]: "length (heightToBigEndianBytes h) = 4"
  by (simp add: heightToBigEndianBytes_def)

lemma length_nanoToBigEndianBytes [simp]: "length (nanoToBigEndianBytes n) = 8"
  by (simp add: nanoToBigEndianBytes_def)

lemma heightBE_less [simp]:
  "heightToBigEndianBytes h < heightToBigEndianBytes h' \<longleftrightarrow> h < h'"
  by (simp only: heightToBigEndianBytes_def be_less[OF unat32_be unat32_be] word_less_nat_alt)

lemma nanoBE_less [simp]: "nanoToBigEndianBytes n < nanoToBigEndianBytes n' \<longleftrightarrow> n < n'"
  by (simp only: nanoToBigEndianBytes_def be_less[OF unat64_be unat64_be] word_less_nat_alt)

lemma nanoBE_le [simp]: "nanoToBigEndianBytes n \<le> nanoToBigEndianBytes n' \<longleftrightarrow> n \<le> n'"
  by (simp only: nanoToBigEndianBytes_def be_le[OF unat64_be unat64_be] word_le_nat_alt)

lemma nano_roundtrip [rt_simps]: "bigEndianBytesToNano (nanoToBigEndianBytes n) = Ok n"
  using unat64_be[of n]
  by (simp add: bigEndianBytesToNano_def nanoToBigEndianBytes_def slice_def be_val_be del: be.simps)

lemma le32_roundtrip [rt_simps]: "le32_val (le32 w) = Ok w"
  using unat32_be[of w]
  by (simp add: le32_val_def le32_def le_def le_val_def slice_def be_val_be del: be.simps)

lemma be_inj: "v < 256 ^ n \<Longrightarrow> w < 256 ^ n \<Longrightarrow> be n v = be n w \<longleftrightarrow> v = w"
  using be_val_be by (metis mod_less)

lemma heightBE_inj [simp]:
  "heightToBigEndianBytes h = heightToBigEndianBytes h' \<longleftrightarrow> h = h'"
  by (simp add: heightToBigEndianBytes_def be_inj[OF unat32_be unat32_be] word_unat_eq_iff)

lemma nanoBE_inj [simp]: "nanoToBigEndianBytes n = nanoToBigEndianBytes n' \<longleftrightarrow> n = n'"
  by (simp add: nanoToBigEndianBytes_def be_inj[OF unat64_be unat64_be] word_unat_eq_iff)

subsection \<open>Hexadecimal text\<close>

lemma EncodeToString_simps [simp]:
  "EncodeToString [] = []"
  "EncodeToString (c # bs) = hexchar (of_char c div 16) # hexchar (of_char c mod 16) # EncodeToString bs"
  by (simp_all add: EncodeToString_def)

lemma EncodeToString_append: "EncodeToString (xs @ ys) = EncodeToString xs @ EncodeToString ys"
  by (simp add: EncodeToString_def)

lemma length_EncodeToString [simp]: "length (EncodeToString bs) = 2 * length bs"
  by (induction bs) auto

lemma all_less_16: "(\<forall>n < (16 :: nat). P n) \<longleftrightarrow> (\<forall>n \<in> set [0..<16]. P n)"
  by auto

lemma fromHexChar_hexchar [simp]: "fromHexChar (hexchar n) = Some (n mod 16)"
proof -
  have "\<forall>m < (16 :: nat). fromHexChar (hexchar m) = Some m"
    unfolding all_less_16 by (simp add: upt_rec hexchar_def hexdigits_def fromHexChar_def)
  then have "fromHexChar (hexchar (n mod 16)) = Some (n mod 16)" by simp
  then show ?thesis by (simp add: hexchar_def)
qed

lemma hex_roundtrip [rt_simps, simp]: "DecodeString (EncodeToString bs) = Ok bs"
proof (induction bs)
  case (Cons c bs)
  have "of_char c div 16 mod 16 * 16 + of_char c mod 16 = (of_char c :: nat)"
    using of_char_lt_256[of c] by (simp add: less_mult_imp_div_less)
  then show ?case using Cons by simp
qed simp

lemma EncodeToString_inj [simp]: "EncodeToString xs = EncodeToString ys \<longleftrightarrow> xs = ys"
  by (metis hex_roundtrip outcome.inject(1))

lemma hexchar_less: "hexchar m < hexchar n \<longleftrightarrow> m mod 16 < n mod 16"
proof -
  have "\<forall>m < (16 :: nat). \<forall>n < (16 :: nat). hexchar m < hexchar n \<longleftrightarrow> m < n"
    unfolding all_less_16 by (simp add: upt_rec hexchar_def hexdigits_def less_char_def)
  then have "hexchar (m mod 16) < hexchar (n mod 16) \<longleftrightarrow> m mod 16 < n mod 16" by simp
  then show ?thesis by (simp add: hexchar_def)
qed

lemma of_char_div_mod:
  "of_char x div 16 = (of_char y div 16 :: nat) \<and> of_char x mod 16 = (of_char y mod 16 :: nat)
    \<longleftrightarrow> x = y"
proof
  assume "of_char x div 16 = (of_char y div 16 :: nat) \<and> of_char x mod 16 = (of_char y mod 16 :: nat)"
  then have "of_char x div 16 * 16 + of_char x mod 16 = (of_char y div 16 * 16 + of_char y mod 16 :: nat)"
    by presburger
  then have "of_char x = (of_char y :: nat)" by simp
  then show "x = y" by simp
qed simp

lemma hexchar_eq: "hexchar m = hexchar n \<longleftrightarrow> m mod 16 = n mod 16"
  by (metis fromHexChar_hexchar hexchar_def option.inject)

text \<open>Hexadecimal text of byte strings of one length is ordered as the byte strings are.\<close>

lemma EncodeToString_less:
  "length xs = length ys \<Longrightarrow> EncodeToString xs < EncodeToString ys \<longleftrightarrow> xs < ys"
proof (induction xs ys rule: list_induct2)
  case (Cons x xs y ys)
  let ?hx = "of_char x div 16 :: nat" and ?hy = "of_char y div 16 :: nat"
  let ?lx = "of_char x mod 16 :: nat" and ?ly = "of_char y mod 16 :: nat"
  have b: "?hx mod 16 = ?hx" "?hy mod 16 = ?hy"
    using of_char_lt_256[of x] of_char_lt_256[of y] by (simp_all add: less_mult_imp_div_less)
  have "x < y \<longleftrightarrow> ?hx < ?hy \<or> ?hx = ?hy \<and> ?lx < ?ly"
    unfolding less_char_def by (rule div_mod_less) simp
  moreover have "x = y \<longleftrightarrow> ?hx = ?hy \<and> ?lx = ?ly"
    using of_char_div_mod[of x y] by blast
  moreover have "EncodeToString (x # xs) < EncodeToString (y # ys) \<longleftrightarrow>
      ?hx < ?hy \<or> ?hx = ?hy \<and> (?lx < ?ly \<or> ?lx = ?ly \<and> EncodeToString xs < EncodeToString ys)"
    by (simp only: EncodeToString_simps Cons_less_Cons hexchar_less hexchar_eq b mod_mod_trivial)
  moreover have "x # xs < y # ys \<longleftrightarrow> x < y \<or> x = y \<and> xs < ys"
    by (rule Cons_less_Cons)
  ultimately show ?case using Cons.IH by blast
qed simp

end
