(* ===== verification/GoFloat.thy ===== *)
theory GoFloat
  imports Prelude Complex_Main
begin

text \<open>
  Binary floating point as the pool uses it: \<open>float64\<close> and \<open>big.Float\<close> round to
  the nearest value with a mantissa of \<open>p\<close> bits, ties to even. A finite value is the
  rational number it stands for; where a \<open>float64\<close> may be infinite or no number it is a
  \<open>gofloat\<close>. The exponent is not bounded: the amounts the pool computes
  with, integers below two to the 63 and quotients of two of them, are far inside the range of
  normal \<open>float64\<close> values.
\<close>

section \<open>Rounding\<close>

fun bits :: "nat \<Rightarrow> nat" where
  "bits n = (if n = 0 then 0 else Suc (bits (n div 2)))"

declare bits.simps [simp del]

text \<open>\<open>(*big.Int).BitLen\<close>: the bits of the absolute value.\<close>

definition BitLen :: "int \<Rightarrow> nat" where
  "BitLen x = bits (nat \<bar>x\<bar>)"

definition round_half_even :: "rat \<Rightarrow> int" where
  "round_half_even y = (let n = \<lfloor>y\<rfloor>; d = y - of_int n in
     if d < 1 / 2 then n else if 1 / 2 < d then n + 1 else if even n then n else n + 1)"

text \<open>The exponent of a positive number: \<open>2 powi expo x \<le> x < 2 powi (expo x + 1)\<close>.\<close>

definition expo :: "rat \<Rightarrow> int" where
  "expo x = (case quotient_of x of (a, b) \<Rightarrow>
     let k = int (BitLen a) - int (BitLen b) in
     if (2 :: rat) powi k * of_int b \<le> of_int a then k else k - 1)"

definition ulp :: "nat \<Rightarrow> rat \<Rightarrow> rat" where
  "ulp p x = 2 powi (expo \<bar>x\<bar> - int p + 1)"

definition rnd :: "nat \<Rightarrow> rat \<Rightarrow> rat" where
  "rnd p x = (if x = 0 then 0
     else sgn x * (of_int (round_half_even (\<bar>x\<bar> / ulp p x)) * ulp p x))"

section \<open>Conversions\<close>

text \<open>
  \<open>new(big.Float).SetRat(x)\<close> rounds to the larger of 64 and the bit lengths of the
  numerator and the denominator.
\<close>

definition SetRat_prec :: "rat \<Rightarrow> nat" where
  "SetRat_prec x = (case quotient_of x of (a, b) \<Rightarrow> max 64 (max (BitLen a) (BitLen b)))"

definition SetRat :: "rat \<Rightarrow> rat" where
  "SetRat x = rnd (SetRat_prec x) x"

datatype Accuracy = Below | Exact | Above

text \<open>
  \<open>(*big.Float).Int64\<close> truncates towards zero and says how the result compares with the
  float; a float outside the range of \<open>int64\<close> gives the nearest bound.
\<close>

definition trunc0 :: "rat \<Rightarrow> int" where
  "trunc0 x = (if 0 \<le> x then \<lfloor>x\<rfloor> else \<lceil>x\<rceil>)"

definition Float_Int64 :: "rat \<Rightarrow> int \<times> Accuracy" where
  "Float_Int64 x =
     (let i = trunc0 x in
      if in_i64 i then (i, if of_int i = x then Exact else if x < 0 then Above else Below)
      else if x < 0 then (- (2 ^ 63), Above) else (2 ^ 63 - 1, Below))"

text \<open>\<open>float64\<close> arithmetic on finite operands; the divisor is not zero.\<close>

definition f64 :: "rat \<Rightarrow> rat" where
  "f64 x = rnd 53 x"

definition f64_of_int :: "int \<Rightarrow> rat" where
  "f64_of_int n = f64 (of_int n)"

definition f64_div :: "rat \<Rightarrow> rat \<Rightarrow> rat" where
  "f64_div x y = f64 (x / y)"

definition f64_mul :: "rat \<Rightarrow> rat \<Rightarrow> rat" where
  "f64_mul x y = f64 (x * y)"

text \<open>
  A \<open>float64\<close> that need not be finite. No comparison holds of a value that is no number.
\<close>

datatype gofloat = Finite rat | PosInf | NegInf | NaN

fun float_less :: "gofloat \<Rightarrow> gofloat \<Rightarrow> bool" where
  "float_less NaN _ \<longleftrightarrow> False"
| "float_less _ NaN \<longleftrightarrow> False"
| "float_less NegInf y \<longleftrightarrow> y \<noteq> NegInf"
| "float_less PosInf _ \<longleftrightarrow> False"
| "float_less (Finite _) NegInf \<longleftrightarrow> False"
| "float_less (Finite _) PosInf \<longleftrightarrow> True"
| "float_less (Finite x) (Finite y) \<longleftrightarrow> x < y"

text \<open>The quotient of two finite values, and the product of a finite value and any.\<close>

definition signed_inf :: "rat \<Rightarrow> gofloat" where
  "signed_inf x = (if x = 0 then NaN else if 0 < x then PosInf else NegInf)"

definition float_div :: "rat \<Rightarrow> rat \<Rightarrow> gofloat" where
  "float_div x y = (if y = 0 then signed_inf x else Finite (f64_div x y))"

fun float_mul :: "rat \<Rightarrow> gofloat \<Rightarrow> gofloat" where
  "float_mul x (Finite y) = Finite (f64_mul x y)"
| "float_mul x PosInf = signed_inf x"
| "float_mul x NegInf = signed_inf (- x)"
| "float_mul x NaN = NaN"

text \<open>
  \<open>int64(math.Floor(x))\<close>. Go leaves the result open when it does not fit; it is then what
  \<open>conv\<close> says.
\<close>

definition floor_int64 :: "(gofloat \<Rightarrow> int) \<Rightarrow> gofloat \<Rightarrow> int" where
  "floor_int64 conv x = (case x of Finite q \<Rightarrow> if in_i64 \<lfloor>q\<rfloor> then \<lfloor>q\<rfloor> else conv x | _ \<Rightarrow> conv x)"

section \<open>Bit lengths and exponents\<close>

lemma bits_0 [simp]: "bits 0 = 0"
  by (simp add: bits.simps)

lemma bits_bounds: "0 < n \<Longrightarrow> 0 < bits n \<and> 2 ^ (bits n - 1) \<le> n \<and> n < 2 ^ bits n"
proof (induction n rule: bits.induct)
  case (1 n)
  show ?case
  proof (cases "n div 2 = 0")
    case True
    then have "n = 1" using "1.prems" by simp
    then show ?thesis by (simp add: bits.simps)
  next
    case False
    then have IH: "0 < bits (n div 2)" "2 ^ (bits (n div 2) - 1) \<le> n div 2"
      "n div 2 < 2 ^ bits (n div 2)"
      using "1.IH" "1.prems" by auto
    have b: "bits n = Suc (bits (n div 2))"
      using "1.prems" by (simp add: bits.simps[of n])
    obtain m where m: "bits (n div 2) = Suc m" using IH(1) gr0_implies_Suc by blast
    show ?thesis using IH(2,3) unfolding b m by auto
  qed
qed

lemma BitLen_bounds:
  assumes "0 < a"
  shows "0 < BitLen a" "(2 :: rat) powi (int (BitLen a) - 1) \<le> of_int a"
    "of_int a < (2 :: rat) powi int (BitLen a)"
proof -
  have b: "0 < bits (nat a)" "2 ^ (bits (nat a) - 1) \<le> nat a" "nat a < 2 ^ bits (nat a)"
    using bits_bounds[of "nat a"] assms by auto
  show "0 < BitLen a" using b(1) assms by (simp add: BitLen_def)
  have "(of_nat (2 ^ (bits (nat a) - 1)) :: rat) \<le> of_nat (nat a)"
    using b(2) by (subst of_nat_le_iff)
  moreover have "(2 :: rat) powi (int (BitLen a) - 1) = of_nat (2 ^ (bits (nat a) - 1))"
    using b(1) assms by (simp add: BitLen_def power_int_nonneg_exp nat_diff_distrib)
  ultimately show "(2 :: rat) powi (int (BitLen a) - 1) \<le> of_int a"
    using assms by simp
  have "(of_nat (nat a) :: rat) < of_nat (2 ^ bits (nat a))"
    using b(3) by (subst of_nat_less_iff)
  then show "of_int a < (2 :: rat) powi int (BitLen a)"
    using assms by (simp add: BitLen_def)
qed

lemma two_powi_pos: "0 < (2 :: rat) powi k" "0 \<le> (2 :: rat) powi k"
  by (simp_all add: zero_less_power_int less_imp_le)

lemma two_powi_Suc: "(2 :: rat) powi (k + 1) = 2 * 2 powi k"
  by (simp add: power_int_add_1')

lemma expo_bounds:
  assumes "0 < x"
  shows "2 powi expo x \<le> x" "x < 2 powi (expo x + 1)"
proof -
  obtain a b where q: "quotient_of x = (a, b)" by (cases "quotient_of x")
  have b: "0 < b" using q by (rule quotient_of_denom_pos)
  have x: "x = of_int a / of_int b" using q by (rule quotient_of_div)
  have a: "0 < a" using assms b unfolding x by (simp add: zero_less_divide_iff)
  define k where "k = int (BitLen a) - int (BitLen b)"
  note ba = BitLen_bounds[OF a] and bb = BitLen_bounds[OF b]
  have up: "of_int a < (2 :: rat) powi (k + 1) * of_int b"
  proof -
    have "(2 :: rat) powi int (BitLen a) = 2 powi (k + 1) * 2 powi (int (BitLen b) - 1)"
      by (simp add: k_def flip: power_int_add)
    also have "\<dots> \<le> 2 powi (k + 1) * of_int b"
      using bb(2) by (intro mult_left_mono) auto
    finally show ?thesis using ba(3) by (rule order.strict_trans2[rotated])
  qed
  have lo: "(2 :: rat) powi (k - 1) * of_int b < of_int a"
  proof -
    have "(2 :: rat) powi (k - 1) * of_int b < 2 powi (k - 1) * 2 powi int (BitLen b)"
      using bb(3) by (intro mult_strict_left_mono) auto
    also have "\<dots> = 2 powi (k - 1 + int (BitLen b))"
      by (rule power_int_add[symmetric]) simp
    also have "\<dots> = 2 powi (int (BitLen a) - 1)"
      by (simp add: k_def)
    finally show ?thesis using ba(2) by simp
  qed
  have le: "y * of_int b \<le> of_int a \<longleftrightarrow> y \<le> x" for y
    using b unfolding x by (simp add: pos_le_divide_eq)
  have e: "expo x = (if 2 powi k \<le> x then k else k - 1)"
    by (simp add: expo_def q k_def Let_def le)
  have "x < 2 powi (k + 1)"
    using up le[of "2 powi (k + 1)"] by linarith
  moreover have "2 powi (k - 1) \<le> x"
    using lo le[of "2 powi (k - 1)"] by linarith
  ultimately show "2 powi expo x \<le> x" "x < 2 powi (expo x + 1)"
    unfolding e by auto
qed

section \<open>The rounding error\<close>

lemma ulp_pos [simp]: "0 < ulp p x"
  by (simp add: ulp_def)

lemma round_half_even_bound: "\<bar>of_int (round_half_even y) - y\<bar> \<le> 1 / 2"
proof -
  have "0 \<le> y - of_int \<lfloor>y\<rfloor>" "y - of_int \<lfloor>y\<rfloor> < 1" by linarith+
  then show ?thesis by (auto simp: round_half_even_def Let_def)
qed

lemma round_half_even_ge: "of_int n \<le> y \<Longrightarrow> n \<le> round_half_even y"
  using le_floor_iff[of n y] by (auto simp: round_half_even_def Let_def)

lemma round_half_even_le:
  assumes "y \<le> of_int n"
  shows "round_half_even y \<le> n"
proof (cases "y = of_int n")
  case True
  then show ?thesis by (simp add: round_half_even_def)
next
  case False
  then have "\<lfloor>y\<rfloor> < n" using assms by (simp add: floor_less_iff)
  then show ?thesis by (auto simp: round_half_even_def Let_def)
qed

lemma rnd_0 [simp]: "rnd p 0 = 0"
  by (simp add: rnd_def)

lemma rnd_pos_eq: "0 < x \<Longrightarrow> rnd p x = of_int (round_half_even (x / ulp p x)) * ulp p x"
  by (simp add: rnd_def)

text \<open>Rounding to \<open>p\<close> bits changes a number by at most its \<open>2\<^sup>-\<^sup>p\<close>-th part.\<close>

lemma rnd_error:
  assumes "0 \<le> x"
  shows "\<bar>rnd p x - x\<bar> \<le> x / 2 ^ p"
proof (cases "x = 0")
  case False
  then have x: "0 < x" using assms by simp
  define u where "u = ulp p x"
  have u: "0 < u" by (simp add: u_def)
  have "\<bar>of_int (round_half_even (x / u)) - x / u\<bar> * u \<le> 1 / 2 * u"
    using round_half_even_bound[of "x / u"] u by (intro mult_right_mono) auto
  moreover have "\<bar>of_int (round_half_even (x / u)) - x / u\<bar> * u =
      \<bar>(of_int (round_half_even (x / u)) - x / u) * u\<bar>"
    using u by (simp add: abs_mult)
  moreover have "(of_int (round_half_even (x / u)) - x / u) * u = rnd p x - x"
    using x u unfolding rnd_pos_eq[OF x] u_def[symmetric] by (simp add: left_diff_distrib)
  ultimately have "\<bar>rnd p x - x\<bar> \<le> u / 2" by simp
  also have "u / 2 = 2 powi expo x / 2 ^ p"
    using x by (simp add: u_def ulp_def power_int_add power_int_diff)
  also have "\<dots> \<le> x / 2 ^ p"
    using expo_bounds(1)[OF x] by (simp add: divide_right_mono)
  finally show ?thesis .
qed simp

lemma rnd_nonneg: "0 \<le> x \<Longrightarrow> 0 \<le> rnd p x"
  using round_half_even_ge[of 0 "x / ulp p x"] less_imp_le[OF ulp_pos[of p x]]
  by (cases "x = 0") (auto simp: rnd_pos_eq intro!: mult_nonneg_nonneg divide_nonneg_nonneg)

text \<open>
  Integers up to \<open>2\<^sup>p\<close> are representable, and rounding does not cross a representable
  number.
\<close>

lemma ulp_split:
  assumes "0 < x"
  obtains (fine) k where "ulp p x * 2 ^ k = 1" | (coarse) k where "ulp p x = 2 ^ Suc k" "2 ^ p \<le> x"
proof (cases "expo x - int p + 1 \<le> 0")
  case True
  define k where "k = nat (- (expo x - int p + 1))"
  have "ulp p x * 2 ^ k = 2 powi (expo x - int p + 1) * 2 powi int k"
    using assms by (simp add: ulp_def)
  also have "\<dots> = 1" using True by (simp add: k_def flip: power_int_add)
  finally show ?thesis by (rule fine)
next
  case False
  define k where "k = nat (expo x - int p)"
  have "ulp p x = 2 powi (int (Suc k))"
    using assms False by (simp add: ulp_def k_def add.commute)
  then have u: "ulp p x = 2 ^ Suc k" by (simp only: power_int_of_nat)
  have "(2 :: rat) ^ p = 2 powi int p" by simp
  also have "\<dots> \<le> 2 powi expo x" using False by (intro power_int_increasing) auto
  also have "\<dots> \<le> x" using expo_bounds(1)[OF assms] .
  finally show ?thesis using u coarse by blast
qed

lemma mult_ulp_fine:
  assumes "ulp p x * 2 ^ k = 1"
  shows "of_int (n * 2 ^ k) * ulp p x = of_int n"
proof -
  have "of_int (n * 2 ^ k) * ulp p x = of_int n * (ulp p x * 2 ^ k)" by simp
  then show ?thesis using assms by simp
qed

lemma div_ulp_fine:
  assumes "ulp p x * 2 ^ k = 1"
  shows "of_int n / ulp p x = of_int (n * 2 ^ k)"
proof -
  have "of_int (n * 2 ^ k) * ulp p x = of_int n" by (rule mult_ulp_fine[OF assms])
  then show ?thesis using ulp_pos[of p x] by (metis less_irrefl nonzero_mult_div_cancel_right)
qed

lemma rnd_ge_int:
  assumes "of_int n \<le> x" "0 < x" "n \<le> 2 ^ p" "0 < p"
  shows "of_int n \<le> rnd p x"
  using assms(2)
proof (cases rule: ulp_split[where p = p])
  case (fine k)
  have "of_int n / ulp p x \<le> x / ulp p x"
    using assms(1) by (intro divide_right_mono) (auto intro: less_imp_le)
  then have "n * 2 ^ k \<le> round_half_even (x / ulp p x)"
    using div_ulp_fine[OF fine, of n] round_half_even_ge by simp
  then have "(of_int (n * 2 ^ k) :: rat) \<le> of_int (round_half_even (x / ulp p x))"
    by (simp only: of_int_le_iff)
  then have "of_int (n * 2 ^ k) * ulp p x \<le> rnd p x"
    using assms(2) unfolding rnd_pos_eq[OF assms(2)] by (intro mult_right_mono) (auto intro: less_imp_le)
  then show ?thesis by (simp only: mult_ulp_fine[OF fine])
next
  case (coarse k)
  obtain q where q: "p = Suc q" using assms(4) gr0_implies_Suc by blast
  have e: "ulp p x * 2 ^ q = 2 powi expo x"
    using assms(2) by (simp add: ulp_def q power_int_diff)
  have "of_int (2 ^ q) * ulp p x \<le> x"
    using e expo_bounds(1)[OF assms(2)] by (simp add: mult.commute)
  then have "of_int (2 ^ q) \<le> x / ulp p x" by (simp add: pos_le_divide_eq)
  then have "2 ^ q \<le> round_half_even (x / ulp p x)" by (rule round_half_even_ge)
  then have "(of_int (2 ^ q) :: rat) \<le> of_int (round_half_even (x / ulp p x))"
    by (simp only: of_int_le_iff)
  then have "of_int (2 ^ q) * ulp p x \<le> rnd p x"
    unfolding rnd_pos_eq[OF assms(2)] by (intro mult_right_mono) (auto intro: less_imp_le)
  moreover have "of_int n \<le> (of_int (2 ^ q) * ulp p x :: rat)"
  proof -
    have "(of_int n :: rat) \<le> of_int (2 ^ p)" using assms(3) by (simp only: of_int_le_iff)
    also have "\<dots> = of_int (2 ^ q) * 2" by (simp add: q)
    also have "\<dots> \<le> of_int (2 ^ q) * ulp p x"
      unfolding coarse(1) by (intro mult_left_mono) auto
    finally show ?thesis .
  qed
  ultimately show ?thesis by simp
qed

lemma rnd_le_int:
  assumes "x \<le> of_int n" "0 < x" "n < 2 ^ p"
  shows "rnd p x \<le> of_int n"
  using assms(2)
proof (cases rule: ulp_split[where p = p])
  case (fine k)
  have "x / ulp p x \<le> of_int n / ulp p x"
    using assms(1) by (intro divide_right_mono) (auto intro: less_imp_le)
  then have "round_half_even (x / ulp p x) \<le> n * 2 ^ k"
    using div_ulp_fine[OF fine, of n] round_half_even_le by simp
  then have "(of_int (round_half_even (x / ulp p x)) :: rat) \<le> of_int (n * 2 ^ k)"
    by (simp only: of_int_le_iff)
  then have "rnd p x \<le> of_int (n * 2 ^ k) * ulp p x"
    unfolding rnd_pos_eq[OF assms(2)] by (intro mult_right_mono) (auto intro: less_imp_le)
  then show ?thesis by (simp only: mult_ulp_fine[OF fine])
next
  case (coarse k)
  have "(of_int n :: rat) < of_int (2 ^ p)" using assms(3) by (simp only: of_int_less_iff)
  also have "of_int (2 ^ p) = (2 ^ p :: rat)" by simp
  finally show ?thesis using coarse(2) assms(1) by linarith
qed

lemma rnd_int [simp]: "0 \<le> n \<Longrightarrow> n < 2 ^ p \<Longrightarrow> 0 < p \<Longrightarrow> rnd p (of_int n) = of_int n"
  using rnd_ge_int[of n "of_int n" p] rnd_le_int[of "of_int n" n p]
  by (cases "n = 0") (auto intro: antisym)

text \<open>
  The integer part of the rounded number is the integer part of the number, or the next
  integer.
\<close>

lemma floor_rnd:
  assumes "0 \<le> x" "x < 2 ^ p" "0 < p"
  shows "\<lfloor>x\<rfloor> \<le> \<lfloor>rnd p x\<rfloor>" "rnd p x \<le> of_int \<lceil>x\<rceil> \<or> \<lceil>x\<rceil> = 2 ^ p"
proof -
  have fl: "\<lfloor>x\<rfloor> < 2 ^ p" using assms(2) by (simp add: floor_less_iff)
  show "\<lfloor>x\<rfloor> \<le> \<lfloor>rnd p x\<rfloor>"
    using rnd_ge_int[of "\<lfloor>x\<rfloor>" x p] fl assms by (cases "x = 0") (auto simp: le_floor_iff)
  have "\<lceil>x\<rceil> \<le> 2 ^ p" using assms(2) by (simp add: ceiling_le_iff)
  then consider "\<lceil>x\<rceil> < 2 ^ p" | "\<lceil>x\<rceil> = 2 ^ p" by linarith
  then show "rnd p x \<le> of_int \<lceil>x\<rceil> \<or> \<lceil>x\<rceil> = 2 ^ p"
  proof cases
    case 1
    then have "rnd p x \<le> of_int \<lceil>x\<rceil>"
      using rnd_le_int[of x "\<lceil>x\<rceil>" p] assms by (cases "x = 0") auto
    then show ?thesis ..
  qed simp
qed

text \<open>
  \<open>SetRat\<close> has at least as many bits as the numerator, so it never rounds a fraction up to
  the next integer: the integer part of the float is the integer part of the fraction.
\<close>

lemma floor_SetRat [simp]:
  assumes "0 \<le> x"
  shows "\<lfloor>SetRat x\<rfloor> = \<lfloor>x\<rfloor>"
proof (cases "x = 0")
  case False
  obtain a b where q: "quotient_of x = (a, b)" by (cases "quotient_of x")
  have b: "0 < b" using q by (rule quotient_of_denom_pos)
  have x: "x = of_int a / of_int b" using q by (rule quotient_of_div)
  have a: "0 < a" using assms False b unfolding x by (auto simp: zero_le_divide_iff less_le)
  define p where "p = SetRat_prec x"
  have "int (BitLen a) \<le> int p" by (simp add: p_def SetRat_prec_def q)
  then have "(2 :: rat) powi int (BitLen a) \<le> 2 powi int p"
    by (intro power_int_increasing) auto
  then have ap: "of_int a < (2 :: rat) ^ p"
    using BitLen_bounds(3)[OF a] unfolding power_int_of_nat by (rule less_le_trans[rotated])
  have "1 \<le> b" using b by simp
  then have "x \<le> of_int a" unfolding x using a b by (simp add: divide_le_eq)
  then have xp: "x < 2 ^ p" using ap by (rule le_less_trans)
  have p0: "0 < p" by (simp add: p_def SetRat_prec_def q)
  have lo: "\<lfloor>x\<rfloor> \<le> \<lfloor>SetRat x\<rfloor>"
    using floor_rnd(1)[OF assms xp p0] by (simp add: SetRat_def p_def)
  have "x * of_int b < (of_int \<lfloor>x\<rfloor> + 1) * of_int b"
    using b by (intro mult_strict_right_mono) (simp_all add: floor_less_cancel)
  then have "of_int a < (of_int ((\<lfloor>x\<rfloor> + 1) * b) :: rat)" using b by (simp add: x)
  then have "a + 1 \<le> (\<lfloor>x\<rfloor> + 1) * b" by (simp only: of_int_less_iff)
  then have "of_int (a + 1) \<le> (of_int ((\<lfloor>x\<rfloor> + 1) * b) :: rat)" by (simp only: of_int_le_iff)
  then have up: "x + 1 / of_int b \<le> of_int \<lfloor>x\<rfloor> + 1"
    unfolding x using b by (simp add: field_simps)
  have "x / 2 ^ p < 1 / of_int b"
    unfolding x using ap b by (simp add: field_simps)
  then have "SetRat x < of_int \<lfloor>x\<rfloor> + 1"
    using rnd_error[OF assms, of p] up by (simp add: SetRat_def p_def)
  then have "\<lfloor>SetRat x\<rfloor> \<le> \<lfloor>x\<rfloor>" by (simp add: floor_le_iff)
  then show ?thesis using lo by simp
qed (simp add: SetRat_def rnd_def)

lemma SetRat_nonneg: "0 \<le> x \<Longrightarrow> 0 \<le> SetRat x"
  by (simp add: SetRat_def rnd_nonneg)

lemma Float_Int64_SetRat:
  assumes "0 \<le> x" "x < 2 ^ 63"
  shows "fst (Float_Int64 (SetRat x)) = \<lfloor>x\<rfloor>" "snd (Float_Int64 (SetRat x)) \<noteq> Above"
proof -
  have "0 \<le> \<lfloor>x\<rfloor>" "\<lfloor>x\<rfloor> < 2 ^ 63" using assms by (simp_all add: floor_less_iff)
  then have "in_i64 \<lfloor>x\<rfloor>" by (simp add: in_i64_def)
  then show "fst (Float_Int64 (SetRat x)) = \<lfloor>x\<rfloor>" "snd (Float_Int64 (SetRat x)) \<noteq> Above"
    using assms(1) SetRat_nonneg[OF assms(1)] by (simp_all add: Float_Int64_def trunc0_def Let_def)
qed

end
