(* ===== verification/GoJson.thy ===== *)
theory GoJson
  imports GoBytes GoFloat
begin

text \<open>
  JSON documents (\<open>encoding/json\<close>) as trees, and the decoding of struct fields. A
  document stands for the text \<open>json.Marshal\<close> writes; \<open>JStr\<close> holds a string as the
  decoder returns it, and \<open>JRat\<close> is a string that holds the text of a \<open>big.Rat\<close>, kept
  as the number.
\<close>

datatype json =
    JNull
  | JBool bool
  | JNum rat
  | JStr string
  | JRat rat
  | JArr "json list"
  | JObj "(string \<times> json) list"

section \<open>Scalar fields\<close>

fun dec_str :: "json \<Rightarrow> string go" where
  "dec_str (JStr s) = Ok s"
| "dec_str _ = Err Foreign"

fun dec_bool :: "json \<Rightarrow> bool go" where
  "dec_bool (JBool b) = Ok b"
| "dec_bool _ = Err Foreign"

fun dec_rat :: "json \<Rightarrow> rat go" where
  "dec_rat (JRat q) = Ok q"
| "dec_rat _ = Err Foreign"

text \<open>A number is decoded into an integer field when it is an integer in the field's range.\<close>

definition dec_range :: "int \<Rightarrow> int \<Rightarrow> json \<Rightarrow> int go" where
  "dec_range lo hi j = (case j of
     JNum q \<Rightarrow> if of_int \<lfloor>q\<rfloor> = q \<and> lo \<le> \<lfloor>q\<rfloor> \<and> \<lfloor>q\<rfloor> < hi then Ok \<lfloor>q\<rfloor> else Err Foreign
   | _ \<Rightarrow> Err Foreign)"

definition dec_u32 :: "json \<Rightarrow> 32 word go" where
  "dec_u32 j = bnd (dec_range 0 (2 ^ 32) j) (\<lambda>n. Ok (of_int n))"

definition dec_u64 :: "json \<Rightarrow> 64 word go" where
  "dec_u64 j = bnd (dec_range 0 (2 ^ 64) j) (\<lambda>n. Ok (of_int n))"

definition dec_i64 :: "json \<Rightarrow> int go" where
  "dec_i64 j = dec_range (- (2 ^ 63)) (2 ^ 63) j"

text \<open>An \<open>int64\<close> held as its 64 bits.\<close>

definition dec_nano :: "json \<Rightarrow> 64 word go" where
  "dec_nano j = bnd (dec_i64 j) (\<lambda>n. Ok (of_int n))"

definition enc_u32 :: "32 word \<Rightarrow> json" where
  "enc_u32 w = JNum (of_int (uint w))"

definition enc_u64 :: "64 word \<Rightarrow> json" where
  "enc_u64 w = JNum (of_int (uint w))"

definition enc_nano :: "64 word \<Rightarrow> json" where
  "enc_nano w = JNum (of_int (sint w))"

definition enc_i64 :: "int \<Rightarrow> json" where
  "enc_i64 n = JNum (of_int n)"

section \<open>Struct fields\<close>

definition upper :: "char \<Rightarrow> char" where
  "upper c = (let n = of_char c :: nat in if 97 \<le> n \<and> n \<le> 122 then char_of (n - 32) else c)"

text \<open>
  A key of an object sets the field whose name it equals up to letter case. The keys are
  taken in the order of the text, so the last one wins; \<open>null\<close> leaves the field as it is.
\<close>

definition jfields :: "string \<Rightarrow> (string \<times> json) list \<Rightarrow> json list" where
  "jfields name obj = map snd (filter (\<lambda>(k, v). map upper k = map upper name) obj)"

definition jfield :: "string \<Rightarrow> (json \<Rightarrow> 'a go) \<Rightarrow> 'a \<Rightarrow> (string \<times> json) list \<Rightarrow> 'a go" where
  "jfield name dec zero obj =
     foldo (\<lambda>v x. if v = JNull then Ok x else dec v) (jfields name obj) zero"

text \<open>\<open>json.Unmarshal\<close> into a struct: an object sets fields, \<open>null\<close> sets nothing.\<close>

definition jstruct :: "((string \<times> json) list \<Rightarrow> 'a go) \<Rightarrow> json \<Rightarrow> 'a go" where
  "jstruct dec j = (case j of JObj obj \<Rightarrow> dec obj | JNull \<Rightarrow> dec [] | _ \<Rightarrow> Err Foreign)"

section \<open>Round trips\<close>

lemma dec_range_int:
  "dec_range lo hi (JNum (of_int n)) = (if lo \<le> n \<and> n < hi then Ok n else Err Foreign)"
  by (simp add: dec_range_def)

lemma dec_u32_enc [rt_simps, simp]: "dec_u32 (enc_u32 w) = Ok w"
  using unsigned_less[where 'a = int and w = w]
  by (simp only: dec_u32_def enc_u32_def dec_range_int) simp

lemma dec_u64_enc [rt_simps, simp]: "dec_u64 (enc_u64 w) = Ok w"
  using unsigned_less[where 'a = int and w = w]
  by (simp only: dec_u64_def enc_u64_def dec_range_int) simp

lemma sint64_range: "- (2 ^ 63) \<le> sint (w :: 64 word)" "sint (w :: 64 word) < 2 ^ 63"
  using sint_ge[of w] sint_less[of w] by simp_all

lemma dec_nano_enc [rt_simps, simp]: "dec_nano (enc_nano w) = Ok w"
  using sint64_range[of w]
  by (simp only: dec_nano_def enc_nano_def dec_i64_def dec_range_int) simp

lemma dec_i64_enc [rt_simps, simp]: "in_i64 n \<Longrightarrow> dec_i64 (enc_i64 n) = Ok n"
  by (simp only: enc_i64_def dec_i64_def dec_range_int in_i64_def) simp

lemma enc_not_null [simp]:
  "enc_u32 w \<noteq> JNull" "enc_u64 v \<noteq> JNull" "enc_nano n \<noteq> JNull" "enc_i64 m \<noteq> JNull"
  by (simp_all add: enc_u32_def enc_u64_def enc_nano_def enc_i64_def)

lemma jfields_simps [simp]:
  "jfields name [] = []"
  "jfields name ((k, v) # obj) =
     (if map upper k = map upper name then v # jfields name obj else jfields name obj)"
  by (simp_all add: jfields_def)

lemma jfield_one [simp]:
  "jfields name obj = [v] \<Longrightarrow> v \<noteq> JNull \<Longrightarrow> jfield name dec zero obj = dec v"
  by (simp add: jfield_def)

lemma jfield_null [simp]: "jfields name obj = [JNull] \<Longrightarrow> jfield name dec zero obj = Ok zero"
  by (simp add: jfield_def)

lemma jstruct_JObj [simp]: "jstruct dec (JObj obj) = dec obj"
  by (simp add: jstruct_def)

end
