(* ===== verification/PoolData.thy ===== *)
theory PoolData
  imports GoJson
begin

text \<open>
  The records the pool stores (\<open>payment.go\<close>, \<open>share.go\<close>, \<open>account.go\<close>,
  \<open>job.go\<close>, \<open>acceptedwork.go\<close>, \<open>hashdata.go\<close>), the identifiers they are
  filed under, and their JSON documents. An \<open>int64\<close> time is held as its 64 bits, an
  amount as an integer. The clock and the random generator are arguments: \<open>now\<close> is what
  \<open>time.Now().UnixNano()\<close> returns, \<open>rand\<close> what \<open>uuidPRNG.Uint64()\<close> returns.
\<close>

section \<open>Payments\<close>

record PaymentSource =
  srcBlockHash :: string
  srcCoinbase :: string

record Payment =
  pmUUID :: string
  pmAccount :: string
  pmEstimatedMaturity :: "32 word"
  pmHeight :: "32 word"
  pmAmount :: int
  pmCreatedOn :: "64 word"
  pmPaidOnHeight :: "32 word"
  pmTransactionID :: string
  pmSource :: "PaymentSource option"

text \<open>\<open>PoolFeesK\<close> is the account pool fees are recorded under.\<close>

definition PoolFeesK :: string where
  "PoolFeesK = ''fees''"

definition randValEncoded :: "64 word \<Rightarrow> bytes" where
  "randValEncoded r = be 8 (unat r)"

definition paymentID :: "32 word \<Rightarrow> 64 word \<Rightarrow> string \<Rightarrow> 64 word \<Rightarrow> string" where
  "paymentID height createdOnNano account randVal =
     EncodeToString (heightToBigEndianBytes height)
     @ EncodeToString (nanoToBigEndianBytes createdOnNano)
     @ account
     @ EncodeToString (randValEncoded randVal)"

definition NewPayment :: "string \<Rightarrow> PaymentSource option \<Rightarrow> int \<Rightarrow> 32 word \<Rightarrow> 32 word
    \<Rightarrow> 64 word \<Rightarrow> 64 word \<Rightarrow> Payment" where
  "NewPayment account source amount height estMaturity now rand =
     \<lparr>pmUUID = paymentID height now account rand, pmAccount = account,
      pmEstimatedMaturity = estMaturity, pmHeight = height, pmAmount = amount,
      pmCreatedOn = now, pmPaidOnHeight = 0, pmTransactionID = '''', pmSource = source\<rparr>"

definition marshalPaymentSource :: "PaymentSource \<Rightarrow> json" where
  "marshalPaymentSource s = JObj
     [(''blockhash'', JStr (srcBlockHash s)), (''coinbase'', JStr (srcCoinbase s))]"

definition unmarshalPaymentSource :: "json \<Rightarrow> PaymentSource go" where
  "unmarshalPaymentSource = jstruct (\<lambda>obj.
     bnd (jfield ''blockhash'' dec_str '''' obj) (\<lambda>b.
     bnd (jfield ''coinbase'' dec_str '''' obj) (\<lambda>c.
     Ok \<lparr>srcBlockHash = b, srcCoinbase = c\<rparr>)))"

definition marshalPayment :: "Payment \<Rightarrow> json" where
  "marshalPayment p = JObj
     [(''uuid'', JStr (pmUUID p)), (''account'', JStr (pmAccount p)),
      (''estimatedmaturity'', enc_u32 (pmEstimatedMaturity p)),
      (''height'', enc_u32 (pmHeight p)), (''amount'', enc_i64 (pmAmount p)),
      (''createdon'', enc_nano (pmCreatedOn p)),
      (''paidonheight'', enc_u32 (pmPaidOnHeight p)),
      (''transactionid'', JStr (pmTransactionID p)),
      (''source'', case pmSource p of None \<Rightarrow> JNull | Some s \<Rightarrow> marshalPaymentSource s)]"

definition unmarshalPayment :: "json \<Rightarrow> Payment go" where
  "unmarshalPayment = jstruct (\<lambda>obj.
     bnd (jfield ''uuid'' dec_str '''' obj) (\<lambda>u.
     bnd (jfield ''account'' dec_str '''' obj) (\<lambda>a.
     bnd (jfield ''estimatedmaturity'' dec_u32 0 obj) (\<lambda>m.
     bnd (jfield ''height'' dec_u32 0 obj) (\<lambda>h.
     bnd (jfield ''amount'' dec_i64 0 obj) (\<lambda>v.
     bnd (jfield ''createdon'' dec_nano 0 obj) (\<lambda>c.
     bnd (jfield ''paidonheight'' dec_u32 0 obj) (\<lambda>p.
     bnd (jfield ''transactionid'' dec_str '''' obj) (\<lambda>t.
     bnd (jfield ''source'' (\<lambda>j. bnd (unmarshalPaymentSource j) (\<lambda>s. Ok (Some s))) None obj) (\<lambda>s.
     Ok \<lparr>pmUUID = u, pmAccount = a, pmEstimatedMaturity = m, pmHeight = h, pmAmount = v,
         pmCreatedOn = c, pmPaidOnHeight = p, pmTransactionID = t, pmSource = s\<rparr>))))))))))"

section \<open>Shares\<close>

record Share =
  shUUID :: string
  shAccount :: string
  shWeight :: rat
  shCreatedOn :: "64 word"

definition shareID :: "string \<Rightarrow> 64 word \<Rightarrow> 64 word \<Rightarrow> string" where
  "shareID account createdOn randVal =
     EncodeToString (nanoToBigEndianBytes createdOn) @ account
     @ EncodeToString (randValEncoded randVal)"

definition NewShare :: "string \<Rightarrow> rat \<Rightarrow> 64 word \<Rightarrow> 64 word \<Rightarrow> Share" where
  "NewShare account weight now rand =
     \<lparr>shUUID = shareID account now rand, shAccount = account, shWeight = weight,
      shCreatedOn = now\<rparr>"

definition marshalShare :: "Share \<Rightarrow> json" where
  "marshalShare s = JObj
     [(''uuid'', JStr (shUUID s)), (''account'', JStr (shAccount s)),
      (''weight'', JRat (shWeight s)), (''createdon'', enc_nano (shCreatedOn s))]"

text \<open>A share without a weight has a nil weight, which the model does not represent: its
  document is rejected.\<close>

definition unmarshalShare :: "json \<Rightarrow> Share go" where
  "unmarshalShare = jstruct (\<lambda>obj.
     bnd (jfield ''uuid'' dec_str '''' obj) (\<lambda>u.
     bnd (jfield ''account'' dec_str '''' obj) (\<lambda>a.
     bnd (jfield ''weight'' (\<lambda>j. bnd (dec_rat j) (\<lambda>q. Ok (Some q))) None obj) (\<lambda>w.
     bnd (jfield ''createdon'' dec_nano 0 obj) (\<lambda>c.
     case w of None \<Rightarrow> Err Foreign | Some q \<Rightarrow>
     Ok \<lparr>shUUID = u, shAccount = a, shWeight = q, shCreatedOn = c\<rparr>)))))"

section \<open>Accounts\<close>

record Account =
  acUUID :: string
  acAddress :: string
  acCreatedOn :: "64 word"

text \<open>\<open>blake256\<close> stands for the hash function of the package of that name.\<close>

definition AccountID :: "(bytes \<Rightarrow> bytes) \<Rightarrow> string \<Rightarrow> string" where
  "AccountID blake256 address = EncodeToString (blake256 address)"

definition NewAccount :: "(bytes \<Rightarrow> bytes) \<Rightarrow> string \<Rightarrow> Account" where
  "NewAccount blake256 address =
     \<lparr>acUUID = AccountID blake256 address, acAddress = address, acCreatedOn = 0\<rparr>"

definition marshalAccount :: "Account \<Rightarrow> json" where
  "marshalAccount a = JObj
     [(''uuid'', JStr (acUUID a)), (''address'', JStr (acAddress a)),
      (''createdon'', enc_u64 (acCreatedOn a))]"

definition unmarshalAccount :: "json \<Rightarrow> Account go" where
  "unmarshalAccount = jstruct (\<lambda>obj.
     bnd (jfield ''uuid'' dec_str '''' obj) (\<lambda>u.
     bnd (jfield ''address'' dec_str '''' obj) (\<lambda>a.
     bnd (jfield ''createdon'' dec_u64 0 obj) (\<lambda>c.
     Ok \<lparr>acUUID = u, acAddress = a, acCreatedOn = c\<rparr>))))"

section \<open>Jobs\<close>

record Job =
  jbUUID :: string
  jbHeight :: "32 word"
  jbHeader :: string

definition jobID :: "32 word \<Rightarrow> 64 word \<Rightarrow> string" where
  "jobID height now = EncodeToString (heightToBigEndianBytes height @ nanoToBigEndianBytes now)"

definition NewJob :: "string \<Rightarrow> 32 word \<Rightarrow> 64 word \<Rightarrow> Job" where
  "NewJob header height now = \<lparr>jbUUID = jobID height now, jbHeight = height, jbHeader = header\<rparr>"

definition marshalJob :: "Job \<Rightarrow> json" where
  "marshalJob b = JObj
     [(''uuid'', JStr (jbUUID b)), (''height'', enc_u32 (jbHeight b)),
      (''header'', JStr (jbHeader b))]"

definition unmarshalJob :: "json \<Rightarrow> Job go" where
  "unmarshalJob = jstruct (\<lambda>obj.
     bnd (jfield ''uuid'' dec_str '''' obj) (\<lambda>u.
     bnd (jfield ''height'' dec_u32 0 obj) (\<lambda>h.
     bnd (jfield ''header'' dec_str '''' obj) (\<lambda>e.
     Ok \<lparr>jbUUID = u, jbHeight = h, jbHeader = e\<rparr>))))"

section \<open>Accepted work\<close>

record AcceptedWork =
  awUUID :: string
  awBlockHash :: string
  awPrevHash :: string
  awHeight :: "32 word"
  awMinedBy :: string
  awMiner :: string
  awCreatedOn :: "64 word"
  awConfirmed :: bool

definition AcceptedWorkID :: "string \<Rightarrow> 32 word \<Rightarrow> string" where
  "AcceptedWorkID blockHash blockHeight =
     EncodeToString (heightToBigEndianBytes blockHeight) @ blockHash"

definition NewAcceptedWork :: "string \<Rightarrow> string \<Rightarrow> 32 word \<Rightarrow> string \<Rightarrow> string \<Rightarrow> 64 word
    \<Rightarrow> AcceptedWork" where
  "NewAcceptedWork blockHash prevHash height minedBy miner now =
     \<lparr>awUUID = AcceptedWorkID blockHash height, awBlockHash = blockHash,
      awPrevHash = prevHash, awHeight = height, awMinedBy = minedBy, awMiner = miner,
      awCreatedOn = now, awConfirmed = False\<rparr>"

definition marshalAcceptedWork :: "AcceptedWork \<Rightarrow> json" where
  "marshalAcceptedWork w = JObj
     [(''uuid'', JStr (awUUID w)), (''blockhash'', JStr (awBlockHash w)),
      (''prevhash'', JStr (awPrevHash w)), (''height'', enc_u32 (awHeight w)),
      (''minedby'', JStr (awMinedBy w)), (''miner'', JStr (awMiner w)),
      (''createdon'', enc_nano (awCreatedOn w)), (''confirmed'', JBool (awConfirmed w))]"

definition unmarshalAcceptedWork :: "json \<Rightarrow> AcceptedWork go" where
  "unmarshalAcceptedWork = jstruct (\<lambda>obj.
     bnd (jfield ''uuid'' dec_str '''' obj) (\<lambda>u.
     bnd (jfield ''blockhash'' dec_str '''' obj) (\<lambda>b.
     bnd (jfield ''prevhash'' dec_str '''' obj) (\<lambda>p.
     bnd (jfield ''height'' dec_u32 0 obj) (\<lambda>h.
     bnd (jfield ''minedby'' dec_str '''' obj) (\<lambda>m.
     bnd (jfield ''miner'' dec_str '''' obj) (\<lambda>n.
     bnd (jfield ''createdon'' dec_nano 0 obj) (\<lambda>c.
     bnd (jfield ''confirmed'' dec_bool False obj) (\<lambda>f.
     Ok \<lparr>awUUID = u, awBlockHash = b, awPrevHash = p, awHeight = h, awMinedBy = m,
         awMiner = n, awCreatedOn = c, awConfirmed = f\<rparr>)))))))))"

section \<open>Hash data\<close>

record HashData =
  hdUUID :: string
  hdAccountID :: string
  hdMiner :: string
  hdIP :: string
  hdHashRate :: rat
  hdUpdatedOn :: "64 word"

definition hashDataID :: "string \<Rightarrow> string \<Rightarrow> string" where
  "hashDataID accountID extraNonce1 = extraNonce1 @ accountID"

definition newHashData :: "string \<Rightarrow> string \<Rightarrow> string \<Rightarrow> string \<Rightarrow> rat \<Rightarrow> 64 word \<Rightarrow> HashData" where
  "newHashData miner accountID ip extraNonce1 hashRate nowNano =
     \<lparr>hdUUID = hashDataID accountID extraNonce1, hdAccountID = accountID, hdMiner = miner,
      hdIP = ip, hdHashRate = hashRate, hdUpdatedOn = nowNano\<rparr>"

definition marshalHashData :: "HashData \<Rightarrow> json" where
  "marshalHashData d = JObj
     [(''uuid'', JStr (hdUUID d)), (''accountid'', JStr (hdAccountID d)),
      (''miner'', JStr (hdMiner d)), (''ip'', JStr (hdIP d)),
      (''hashrate'', JRat (hdHashRate d)), (''updatedon'', enc_nano (hdUpdatedOn d))]"

definition unmarshalHashData :: "json \<Rightarrow> HashData go" where
  "unmarshalHashData = jstruct (\<lambda>obj.
     bnd (jfield ''uuid'' dec_str '''' obj) (\<lambda>u.
     bnd (jfield ''accountid'' dec_str '''' obj) (\<lambda>a.
     bnd (jfield ''miner'' dec_str '''' obj) (\<lambda>m.
     bnd (jfield ''ip'' dec_str '''' obj) (\<lambda>i.
     bnd (jfield ''hashrate'' (\<lambda>j. bnd (dec_rat j) (\<lambda>q. Ok (Some q))) None obj) (\<lambda>r.
     bnd (jfield ''updatedon'' dec_nano 0 obj) (\<lambda>t.
     case r of None \<Rightarrow> Err Foreign | Some q \<Rightarrow>
     Ok \<lparr>hdUUID = u, hdAccountID = a, hdMiner = m, hdIP = i, hdHashRate = q,
         hdUpdatedOn = t\<rparr>)))))))"

section \<open>Round trips\<close>

lemma source_roundtrip [rt_simps]: "unmarshalPaymentSource (marshalPaymentSource s) = Ok s"
  by (simp add: unmarshalPaymentSource_def marshalPaymentSource_def upper_def)

lemma marshalPaymentSource_not_null [simp]: "marshalPaymentSource s \<noteq> JNull"
  by (simp add: marshalPaymentSource_def)

lemma payment_roundtrip [rt_simps]:
  "in_i64 (pmAmount p) \<Longrightarrow> unmarshalPayment (marshalPayment p) = Ok p"
  by (cases "pmSource p")
    (simp_all add: unmarshalPayment_def marshalPayment_def upper_def source_roundtrip)

lemma share_roundtrip [rt_simps]: "unmarshalShare (marshalShare s) = Ok s"
  by (simp add: unmarshalShare_def marshalShare_def upper_def)

lemma account_roundtrip [rt_simps]: "unmarshalAccount (marshalAccount a) = Ok a"
  by (simp add: unmarshalAccount_def marshalAccount_def upper_def)

lemma job_roundtrip [rt_simps]: "unmarshalJob (marshalJob b) = Ok b"
  by (simp add: unmarshalJob_def marshalJob_def upper_def)

lemma work_roundtrip [rt_simps]: "unmarshalAcceptedWork (marshalAcceptedWork w) = Ok w"
  by (simp add: unmarshalAcceptedWork_def marshalAcceptedWork_def upper_def)

lemma hashdata_roundtrip [rt_simps]: "unmarshalHashData (marshalHashData d) = Ok d"
  by (simp add: unmarshalHashData_def marshalHashData_def upper_def)

section \<open>Identifiers\<close>

lemma slice_paymentID [simp]:
  "slice 0 8 (paymentID h n a r) = Ok (EncodeToString (heightToBigEndianBytes h))"
  by (simp add: paymentID_def)

lemma slice_shareID [simp]:
  "slice 0 16 (shareID a n r) = Ok (EncodeToString (nanoToBigEndianBytes n))"
  by (simp add: shareID_def)

lemma slice_jobID [simp]:
  "slice 0 8 (jobID h n) = Ok (EncodeToString (heightToBigEndianBytes h))"
  by (simp add: jobID_def EncodeToString_append)

lemma slice_AcceptedWorkID [simp]:
  "slice 0 8 (AcceptedWorkID b h) = Ok (EncodeToString (heightToBigEndianBytes h))"
  by (simp add: AcceptedWorkID_def)

lemma AcceptedWorkID_inj [simp]:
  "AcceptedWorkID b h = AcceptedWorkID b' h' \<longleftrightarrow> b = b' \<and> h = h'"
proof
  assume "AcceptedWorkID b h = AcceptedWorkID b' h'"
  then have "EncodeToString (heightToBigEndianBytes h) = EncodeToString (heightToBigEndianBytes h') \<and> b = b'"
    unfolding AcceptedWorkID_def by (subst (asm) append_eq_append_conv) auto
  then show "b = b' \<and> h = h'" by simp
qed simp

lemma ids_nonempty [simp]:
  "paymentID h n a r \<noteq> []" "shareID a n r \<noteq> []" "jobID h n \<noteq> []" "AcceptedWorkID b h \<noteq> []"
  by (auto simp: paymentID_def shareID_def jobID_def AcceptedWorkID_def
      simp flip: length_0_conv)

end
