(* ===== verification/Database.thy ===== *)
theory Database
  imports PoolData
begin

text \<open>
  The interface \<open>Database\<close> of \<open>database.go\<close>: a record with one field per method,
  over a type of database states. A method that only reads takes the state and returns a
  result; a method that writes is a computation over the state. The components that hold a
  \<open>Database\<close> take the record as an argument, as the Go code calls through the interface
  value. \<open>persistAccount\<close> reads the clock (in seconds) and \<open>ArchivePayment\<close> the
  clock and the random generator: these are arguments. \<open>Backup\<close>, \<open>httpBackup\<close>
  and \<open>Close\<close> copy or close the file and are left out.
\<close>

type_synonym 'db dbop = "('db, goerror, unit) comp"

record 'db Database =
  db_purge :: "'db dbop"
  db_fetchPoolMode :: "'db \<Rightarrow> 32 word go"
  db_persistPoolMode :: "32 word \<Rightarrow> 'db dbop"
  db_fetchCSRFSecret :: "'db \<Rightarrow> bytes go"
  db_persistCSRFSecret :: "bytes \<Rightarrow> 'db dbop"
  db_persistLastPaymentInfo :: "32 word \<Rightarrow> 64 word \<Rightarrow> 'db dbop"
  db_loadLastPaymentInfo :: "'db \<Rightarrow> (32 word \<times> 64 word) go"
  db_persistLastPaymentCreatedOn :: "64 word \<Rightarrow> 'db dbop"
  db_loadLastPaymentCreatedOn :: "'db \<Rightarrow> 64 word go"
  db_fetchAccount :: "string \<Rightarrow> 'db \<Rightarrow> Account go"
  db_persistAccount :: "Account \<Rightarrow> 64 word \<Rightarrow> 'db dbop"
  db_deleteAccount :: "string \<Rightarrow> 'db dbop"
  db_fetchPayment :: "string \<Rightarrow> 'db \<Rightarrow> Payment go"
  db_PersistPayment :: "Payment \<Rightarrow> 'db dbop"
  db_updatePayment :: "Payment \<Rightarrow> 'db dbop"
  db_deletePayment :: "string \<Rightarrow> 'db dbop"
  db_ArchivePayment :: "Payment \<Rightarrow> 64 word \<Rightarrow> 64 word \<Rightarrow> 'db dbop"
  db_fetchPaymentsAtHeight :: "32 word \<Rightarrow> ('db, goerror, Payment list) comp"
  db_fetchPendingPayments :: "'db \<Rightarrow> Payment list go"
  db_pendingPaymentsForBlockHash :: "string \<Rightarrow> 'db \<Rightarrow> 32 word go"
  db_archivedPayments :: "'db \<Rightarrow> Payment list go"
  db_maturePendingPayments :: "32 word \<Rightarrow> 'db \<Rightarrow> (string \<times> Payment list) list go"
  db_PersistShare :: "Share \<Rightarrow> 'db dbop"
  db_fetchShare :: "string \<Rightarrow> 'db \<Rightarrow> Share go"
  db_ppsEligibleShares :: "64 word \<Rightarrow> 'db \<Rightarrow> Share list go"
  db_pplnsEligibleShares :: "64 word \<Rightarrow> 'db \<Rightarrow> Share list go"
  db_pruneShares :: "64 word \<Rightarrow> 'db dbop"
  db_fetchAcceptedWork :: "string \<Rightarrow> 'db \<Rightarrow> AcceptedWork go"
  db_persistAcceptedWork :: "AcceptedWork \<Rightarrow> 'db dbop"
  db_updateAcceptedWork :: "AcceptedWork \<Rightarrow> 'db dbop"
  db_deleteAcceptedWork :: "string \<Rightarrow> 'db dbop"
  db_listMinedWork :: "'db \<Rightarrow> AcceptedWork list go"
  db_fetchUnconfirmedWork :: "32 word \<Rightarrow> 'db \<Rightarrow> AcceptedWork list go"
  db_fetchJob :: "string \<Rightarrow> 'db \<Rightarrow> Job go"
  db_persistJob :: "Job \<Rightarrow> 'db dbop"
  db_deleteJob :: "string \<Rightarrow> 'db dbop"
  db_deleteJobsBeforeHeight :: "32 word \<Rightarrow> 'db dbop"
  db_persistHashData :: "HashData \<Rightarrow> 'db dbop"
  db_updateHashData :: "HashData \<Rightarrow> 'db dbop"
  db_fetchHashData :: "string \<Rightarrow> 'db \<Rightarrow> HashData go"
  db_listHashData :: "64 word \<Rightarrow> 'db \<Rightarrow> (string \<times> HashData) list go"
  db_pruneHashData :: "64 word \<Rightarrow> 'db dbop"

section \<open>What an implementation promises\<close>

text \<open>
  The abstract database: one finite map per table, filed by identifier, and the pool's
  metadata. A row is well formed when its identifier is usable as a key and carries the
  height or time the key ranges are compared by, and the accounts of payments and shares leave
  room in a key for the rest of an identifier; payments name their source, which every payment
  of the pool does.
\<close>

record PoolDB =
  tPayments :: "string \<rightharpoonup> Payment"
  tArchive :: "string \<rightharpoonup> Payment"
  tShares :: "string \<rightharpoonup> Share"
  tWork :: "string \<rightharpoonup> AcceptedWork"
  tJobs :: "string \<rightharpoonup> Job"
  tAccounts :: "string \<rightharpoonup> Account"
  tHashData :: "string \<rightharpoonup> HashData"
  tMode :: "32 word option"
  tCSRF :: "bytes option"
  tLastPaid :: "(32 word \<times> 64 word) option"
  tLastCreated :: "64 word option"

definition wf_key :: "string \<Rightarrow> bool" where
  "wf_key k \<longleftrightarrow> k \<noteq> [] \<and> length k \<le> 32768"

definition wf_payment :: "Payment \<Rightarrow> bool" where
  "wf_payment p \<longleftrightarrow> wf_key (pmUUID p) \<and> in_i64 (pmAmount p) \<and> pmSource p \<noteq> None \<and>
     length (pmAccount p) \<le> 32000"

definition wf_share :: "Share \<Rightarrow> bool" where
  "wf_share s \<longleftrightarrow> wf_key (shUUID s) \<and>
     take 16 (shUUID s) = EncodeToString (nanoToBigEndianBytes (shCreatedOn s)) \<and>
     length (shAccount s) \<le> 32000"

definition wf_work :: "AcceptedWork \<Rightarrow> bool" where
  "wf_work w \<longleftrightarrow> wf_key (awUUID w) \<and>
     take 8 (awUUID w) = EncodeToString (heightToBigEndianBytes (awHeight w))"

definition wf_job :: "Job \<Rightarrow> bool" where
  "wf_job b \<longleftrightarrow> wf_key (jbUUID b) \<and>
     take 8 (jbUUID b) = EncodeToString (heightToBigEndianBytes (jbHeight b))"

definition wf_account :: "Account \<Rightarrow> bool" where
  "wf_account a \<longleftrightarrow> wf_key (acUUID a)"

definition wf_hashdata :: "HashData \<Rightarrow> bool" where
  "wf_hashdata d \<longleftrightarrow> wf_key (hdUUID d)"

lemmas wf_row_defs = wf_payment_def wf_share_def wf_work_def wf_job_def wf_account_def
  wf_hashdata_def

text \<open>
  A write either succeeds, and then has the effect \<open>upd\<close>, or fails and changes nothing.
  \<open>pre\<close> names the error it must fail with; where it names none the write may still fail
  for a reason of the medium, unless the medium is \<open>live\<close>.
\<close>

definition writes :: "('db \<Rightarrow> PoolDB) \<Rightarrow> ('db \<Rightarrow> bool) \<Rightarrow> bool \<Rightarrow> 'db dbop
    \<Rightarrow> (PoolDB \<Rightarrow> ErrorKind option) \<Rightarrow> (PoolDB \<Rightarrow> PoolDB) \<Rightarrow> bool" where
  "writes \<alpha> I live op pre upd \<longleftrightarrow> (\<forall>db r db'. I db \<longrightarrow> op db = (r, db') \<longrightarrow> I db' \<and>
     (case r of
        Ok _ \<Rightarrow> pre (\<alpha> db) = None \<and> \<alpha> db' = upd (\<alpha> db)
      | Err e \<Rightarrow> db' = db \<and> (\<forall>k. pre (\<alpha> db) = Some k \<longrightarrow> e = DBError k) \<and> (live \<longrightarrow> pre (\<alpha> db) \<noteq> None)
      | Panic \<Rightarrow> False))"

lemma writes_keeps: "writes \<alpha> I live op pre upd \<Longrightarrow> I db \<Longrightarrow> I (snd (op db))"
  unfolding writes_def by (metis prod.collapse)

lemma writes_live:
  "writes \<alpha> I live op pre upd \<Longrightarrow> live \<Longrightarrow> I db \<Longrightarrow> pre (\<alpha> db) = None \<Longrightarrow>
    \<exists>db'. op db = (Ok (), db') \<and> I db' \<and> \<alpha> db' = upd (\<alpha> db)"
  unfolding writes_def by (cases "op db"; cases "fst (op db)") fastforce+

text \<open>A listing returns the rows of a table that satisfy a test, each once.\<close>

definition lists_rows :: "(string \<rightharpoonup> 'a) \<Rightarrow> ('a \<Rightarrow> bool) \<Rightarrow> 'a list \<Rightarrow> bool" where
  "lists_rows t P xs \<longleftrightarrow> distinct xs \<and> set xs = {x \<in> ran t. P x}"

definition found :: "'a option \<Rightarrow> 'a go" where
  "found x = (case x of None \<Rightarrow> Err (DBError ValueNotFound) | Some v \<Rightarrow> Ok v)"

definition absent :: "'a option \<Rightarrow> ErrorKind option" where
  "absent x = (if x = None then None else Some ValueFound)"

definition present :: "'a option \<Rightarrow> ErrorKind option" where
  "present x = (if x = None then Some ValueNotFound else None)"

definition pm_pending :: "Payment \<Rightarrow> bool" where
  "pm_pending p \<longleftrightarrow> pmPaidOnHeight p = 0"

definition pm_mature :: "32 word \<Rightarrow> Payment \<Rightarrow> bool" where
  "pm_mature height p \<longleftrightarrow> pm_pending p \<and> pmEstimatedMaturity p + 1 \<le> height"

definition pm_block :: "Payment \<Rightarrow> string" where
  "pm_block p = srcBlockHash (the (pmSource p))"

text \<open>The payments of a listing, grouped by the block they come from.\<close>

definition groups :: "Payment list \<Rightarrow> (string \<times> Payment list) list \<Rightarrow> bool" where
  "groups ps m \<longleftrightarrow> distinct_keys m \<and>
     (\<forall>h. map_of m h = (case filter (\<lambda>p. pm_block p = h) ps of [] \<Rightarrow> None | qs \<Rightarrow> Some qs))"

definition archived :: "Payment \<Rightarrow> 64 word \<Rightarrow> 64 word \<Rightarrow> Payment" where
  "archived p now rand =
     p\<lparr>pmUUID := paymentID (pmHeight p) now (pmAccount p) rand, pmCreatedOn := now\<rparr>"

text \<open>
  The laws both implementations keep: what the metadata, the accounts, the payments that are
  stored, the shares, the work, the jobs and the hash data are read as and how they are changed.
\<close>

locale database_common =
  fixes D :: "'db Database" and \<alpha> :: "'db \<Rightarrow> PoolDB" and I :: "'db \<Rightarrow> bool"
    and live :: bool
  assumes wf_rows: "I db \<Longrightarrow>
      (\<forall>k p. tPayments (\<alpha> db) k = Some p \<longrightarrow> pmUUID p = k \<and> wf_payment p) \<and>
      (\<forall>k w. tWork (\<alpha> db) k = Some w \<longrightarrow> awUUID w = k \<and> wf_work w) \<and>
      (\<forall>k s. tShares (\<alpha> db) k = Some s \<longrightarrow> shUUID s = k \<and> wf_share s) \<and>
      (\<forall>k d. tHashData (\<alpha> db) k = Some d \<longrightarrow> hdUUID d = k \<and> wf_hashdata d)"
    and fetchPoolMode: "I db \<Longrightarrow> db_fetchPoolMode D db = found (tMode (\<alpha> db))"
    and persistPoolMode: "writes \<alpha> I live (db_persistPoolMode D mode) (\<lambda>_. None)
      (\<lambda>s. s\<lparr>tMode := Some mode\<rparr>)"
    and fetchCSRFSecret: "I db \<Longrightarrow> db_fetchCSRFSecret D db = found (tCSRF (\<alpha> db))"
    and persistCSRFSecret: "writes \<alpha> I live (db_persistCSRFSecret D secret) (\<lambda>_. None)
      (\<lambda>s. s\<lparr>tCSRF := Some secret\<rparr>)"
    and loadLastPaymentInfo: "I db \<Longrightarrow> db_loadLastPaymentInfo D db = found (tLastPaid (\<alpha> db))"
    and persistLastPaymentInfo: "writes \<alpha> I live (db_persistLastPaymentInfo D height paidOn) (\<lambda>_. None)
      (\<lambda>s. s\<lparr>tLastPaid := Some (height, paidOn)\<rparr>)"
    and loadLastPaymentCreatedOn: "I db \<Longrightarrow>
      db_loadLastPaymentCreatedOn D db = found (tLastCreated (\<alpha> db))"
    and persistLastPaymentCreatedOn: "writes \<alpha> I live (db_persistLastPaymentCreatedOn D createdOn) (\<lambda>_. None)
      (\<lambda>s. s\<lparr>tLastCreated := Some createdOn\<rparr>)"
    and fetchAccount: "I db \<Longrightarrow> db_fetchAccount D uuid db = found (tAccounts (\<alpha> db) uuid)"
    and deleteAccount: "writes \<alpha> I live (db_deleteAccount D uuid) (\<lambda>_. None)
      (\<lambda>s. s\<lparr>tAccounts := (tAccounts s)(uuid := None)\<rparr>)"
    and fetchPayment: "I db \<Longrightarrow> db_fetchPayment D uuid db = found (tPayments (\<alpha> db) uuid)"
    and deletePayment: "writes \<alpha> I live (db_deletePayment D uuid) (\<lambda>_. None)
      (\<lambda>s. s\<lparr>tPayments := (tPayments s)(uuid := None)\<rparr>)"
    and fetchPendingPayments: "I db \<Longrightarrow>
      \<exists>ps. db_fetchPendingPayments D db = Ok ps \<and> lists_rows (tPayments (\<alpha> db)) pm_pending ps"
    and archivedPayments: "I db \<Longrightarrow>
      \<exists>ps. db_archivedPayments D db = Ok ps \<and> lists_rows (tArchive (\<alpha> db)) (\<lambda>_. True) ps"
    and PersistShare: "wf_share sh \<Longrightarrow> writes \<alpha> I live (db_PersistShare D sh)
      (\<lambda>s. absent (tShares s (shUUID sh)))
      (\<lambda>s. s\<lparr>tShares := (tShares s)(shUUID sh \<mapsto> sh)\<rparr>)"
    and fetchShare: "I db \<Longrightarrow> db_fetchShare D uuid db = found (tShares (\<alpha> db) uuid)"
    and fetchAcceptedWork: "I db \<Longrightarrow> db_fetchAcceptedWork D uuid db = found (tWork (\<alpha> db) uuid)"
    and persistAcceptedWork: "wf_work w \<Longrightarrow> writes \<alpha> I live (db_persistAcceptedWork D w)
      (\<lambda>s. absent (tWork s (awUUID w)))
      (\<lambda>s. s\<lparr>tWork := (tWork s)(awUUID w \<mapsto> w)\<rparr>)"
    and updateAcceptedWork: "wf_work w \<Longrightarrow> writes \<alpha> I live (db_updateAcceptedWork D w)
      (\<lambda>s. present (tWork s (awUUID w)))
      (\<lambda>s. s\<lparr>tWork := (tWork s)(awUUID w \<mapsto> w)\<rparr>)"
    and deleteAcceptedWork: "writes \<alpha> I live (db_deleteAcceptedWork D uuid) (\<lambda>_. None)
      (\<lambda>s. s\<lparr>tWork := (tWork s)(uuid := None)\<rparr>)"
    and listMinedWork: "I db \<Longrightarrow>
      \<exists>ws. db_listMinedWork D db = Ok ws \<and> lists_rows (tWork (\<alpha> db)) (\<lambda>_. True) ws"
    and fetchUnconfirmedWork: "I db \<Longrightarrow> \<exists>ws. db_fetchUnconfirmedWork D height db = Ok ws \<and>
      lists_rows (tWork (\<alpha> db)) (\<lambda>w. awHeight w < height \<and> \<not> awConfirmed w) ws"
    and fetchJob: "I db \<Longrightarrow> db_fetchJob D uuid db = found (tJobs (\<alpha> db) uuid)"
    and persistJob: "wf_job b \<Longrightarrow> writes \<alpha> I live (db_persistJob D b)
      (\<lambda>s. absent (tJobs s (jbUUID b)))
      (\<lambda>s. s\<lparr>tJobs := (tJobs s)(jbUUID b \<mapsto> b)\<rparr>)"
    and deleteJob: "writes \<alpha> I live (db_deleteJob D uuid) (\<lambda>_. None)
      (\<lambda>s. s\<lparr>tJobs := (tJobs s)(uuid := None)\<rparr>)"
    and deleteJobsBeforeHeight: "writes \<alpha> I live (db_deleteJobsBeforeHeight D height) (\<lambda>_. None)
      (\<lambda>s. s\<lparr>tJobs := (\<lambda>k. case tJobs s k of Some b \<Rightarrow> if jbHeight b < height then None else Some b
                                         | None \<Rightarrow> None)\<rparr>)"
    and persistHashData: "wf_hashdata d \<Longrightarrow> writes \<alpha> I live (db_persistHashData D d)
      (\<lambda>s. absent (tHashData s (hdUUID d)))
      (\<lambda>s. s\<lparr>tHashData := (tHashData s)(hdUUID d \<mapsto> d)\<rparr>)"
    and updateHashData: "wf_hashdata d \<Longrightarrow> writes \<alpha> I live (db_updateHashData D d)
      (\<lambda>s. present (tHashData s (hdUUID d)))
      (\<lambda>s. s\<lparr>tHashData := (tHashData s)(hdUUID d \<mapsto> d)\<rparr>)"
    and fetchHashData: "I db \<Longrightarrow> db_fetchHashData D uuid db = found (tHashData (\<alpha> db) uuid)"
    and listHashData: "I db \<Longrightarrow> \<exists>m. db_listHashData D t db = Ok m \<and> distinct_keys m \<and>
      (\<forall>k. map_of m k = (case tHashData (\<alpha> db) k of
         Some d \<Rightarrow> if sint t < sint (hdUpdatedOn d) then Some d else None | None \<Rightarrow> None))"
    and pruneHashData: "writes \<alpha> I live (db_pruneHashData D t) (\<lambda>_. None)
      (\<lambda>s. s\<lparr>tHashData := (\<lambda>k. case tHashData s k of
         Some d \<Rightarrow> if sint (hdUpdatedOn d) < sint t then None else Some d | None \<Rightarrow> None)\<rparr>)"

text \<open>
  The laws of the database the pool uses unless it is told otherwise: a payment is stored under its
  identifier whether there is one or not, and times and heights are compared as the machine
  words they are.
\<close>

locale database_spec = database_common D \<alpha> I live
  for D :: "'db Database" and \<alpha> :: "'db \<Rightarrow> PoolDB" and I :: "'db \<Rightarrow> bool" and live :: bool +
  assumes persistAccount: "wf_account a \<Longrightarrow> writes \<alpha> I live (db_persistAccount D a now)
      (\<lambda>s. absent (tAccounts s (acUUID a)))
      (\<lambda>s. s\<lparr>tAccounts := (tAccounts s)(acUUID a \<mapsto> a\<lparr>acCreatedOn := now\<rparr>)\<rparr>)"
    and PersistPayment: "wf_payment p \<Longrightarrow> writes \<alpha> I live (db_PersistPayment D p) (\<lambda>_. None)
      (\<lambda>s. s\<lparr>tPayments := (tPayments s)(pmUUID p \<mapsto> p)\<rparr>)"
    and updatePayment: "wf_payment p \<Longrightarrow> writes \<alpha> I live (db_updatePayment D p) (\<lambda>_. None)
      (\<lambda>s. s\<lparr>tPayments := (tPayments s)(pmUUID p \<mapsto> p)\<rparr>)"
    and ArchivePayment: "wf_payment p \<Longrightarrow> wf_payment (archived p now rand) \<Longrightarrow>
      writes \<alpha> I live (db_ArchivePayment D p now rand) (\<lambda>_. None)
      (\<lambda>s. s\<lparr>tPayments := (tPayments s)(pmUUID p := None),
             tArchive := (tArchive s)(pmUUID (archived p now rand) \<mapsto> archived p now rand)\<rparr>)"
    and fetchPaymentsAtHeight: "I db \<Longrightarrow> db_fetchPaymentsAtHeight D height db = (r, db') \<Longrightarrow>
      db' = db \<and> (case r of
        Ok ps \<Rightarrow> lists_rows (tPayments (\<alpha> db))
          (\<lambda>p. pm_pending p \<and> pmEstimatedMaturity p + 1 < height) ps
      | Err e \<Rightarrow> \<not> live | Panic \<Rightarrow> False)"
    and pendingPaymentsForBlockHash: "I db \<Longrightarrow> db_pendingPaymentsForBlockHash D h db =
      Ok (of_nat (card {p \<in> ran (tPayments (\<alpha> db)). pm_pending p \<and> pm_block p = h}))"
    and maturePendingPayments: "I db \<Longrightarrow>
      \<exists>ps m. db_maturePendingPayments D height db = Ok m \<and> groups ps m \<and>
        lists_rows (tPayments (\<alpha> db)) (pm_mature height) ps"
    and ppsEligibleShares: "I db \<Longrightarrow> \<exists>ss. db_ppsEligibleShares D t db = Ok ss \<and>
      lists_rows (tShares (\<alpha> db)) (\<lambda>s. shCreatedOn s \<le> t) ss"
    and pplnsEligibleShares: "I db \<Longrightarrow> \<exists>ss. db_pplnsEligibleShares D t db = Ok ss \<and>
      lists_rows (tShares (\<alpha> db)) (\<lambda>s. t < shCreatedOn s) ss"
    and pruneShares: "writes \<alpha> I live (db_pruneShares D t) (\<lambda>_. None)
      (\<lambda>s. s\<lparr>tShares := (\<lambda>k. case tShares s k of Some x \<Rightarrow> if shCreatedOn x < t then None else Some x
                                             | None \<Rightarrow> None)\<rparr>)"

end
