(* ===== verification/PaymentMgr.thy ===== *)
theory PaymentMgr
  imports Database GoFloat
begin

text \<open>
  The payment manager (\<open>paymentmgr.go\<close>): the percentages of the participating accounts, the
  payments of a confirmed block, and the payout of mature payments. The wallet, the daemon, the
  clock, the random generators and the transaction rules are arguments, collected in records.
  Hashes and addresses are the strings and bytes the code passes on.
\<close>

section \<open>Environment\<close>

type_synonym hash = bytes

text \<open>
  Successive readings of the clock and of the identifier generator, the order in which a range
  statement visits the keys of a map, the choice \<open>prng.Intn(n)\<close>, and what a \<open>float64\<close>
  that no \<open>int64\<close> holds is converted to.
\<close>

record Env =
  eNow :: "nat \<Rightarrow> 64 word"
  eRand :: "nat \<Rightarrow> 64 word"
  eOrder :: "string list \<Rightarrow> string list"
  ePick :: "nat \<Rightarrow> nat"
  eConv :: "gofloat \<Rightarrow> int"

definition fair :: "Env \<Rightarrow> bool" where
  "fair e \<longleftrightarrow> (\<forall>ks. mset (eOrder e ks) = mset ks) \<and> (\<forall>n. 0 < n \<longrightarrow> ePick e n < n)"

definition range_map :: "Env \<Rightarrow> (string \<times> 'v) list \<Rightarrow> (string \<times> 'v) list" where
  "range_map e m = concat (map (\<lambda>k. case map_of m k of None \<Rightarrow> [] | Some v \<Rightarrow> [(k, v)]) (eOrder e (keys m)))"

text \<open>\<open>dcrutil\<close>, \<open>txrules\<close>, \<open>txsizes\<close>, \<open>chainhash\<close> and \<open>stdaddr\<close>.\<close>

record TxRules =
  MulF64 :: "int \<Rightarrow> gofloat \<Rightarrow> int"
  NewAmount :: "rat \<Rightarrow> int go"
  IsDustAmount :: "int \<Rightarrow> int \<Rightarrow> int \<Rightarrow> bool"
  DefaultRelayFeePerKb :: int
  P2PKHOutputSize :: int
  RedeemP2PKHSigScriptSize :: int
  EstimateSerializeSizeFromScriptSizes :: "int list \<Rightarrow> int list \<Rightarrow> int \<Rightarrow> int"
  FeeForSerializeSize :: "int \<Rightarrow> int \<Rightarrow> int"
  NewHashFromStr :: "string \<Rightarrow> hash go"
  NewHash :: "bytes \<Rightarrow> hash go"
  HashString :: "hash \<Rightarrow> string"
  DecodeAddress :: "string \<Rightarrow> string go"

record TxOutResult =
  toConfirmations :: int
  toValue :: rat

record TransactionInput =
  tiAmount :: rat
  tiTxid :: string
  tiVout :: "32 word"

record txCreator =
  GetTxOut :: "hash \<Rightarrow> 32 word \<Rightarrow> TxOutResult option go"
  CreateRawTransaction :: "TransactionInput list \<Rightarrow> (string \<times> int) list \<Rightarrow> bytes go"
  TxBytes :: "bytes \<Rightarrow> bytes go"

text \<open>A wallet call fails with the status \<open>NotFound\<close>, or another way.\<close>

datatype txConfs = Confirmations int | NotFound | CallFailed goerror

record txBroadcaster =
  SignTransaction :: "bytes \<Rightarrow> bytes \<Rightarrow> bytes go"
  PublishTransaction :: "bytes \<Rightarrow> bytes go"
  GetTransaction :: "hash \<Rightarrow> txConfs"
  Rescan :: "int \<Rightarrow> (nat \<Rightarrow> int go option) go"

record 'db PaymentMgrConfig =
  cfgDb :: "'db Database"
  CoinbaseMaturity :: "16 word"
  PoolFee :: gofloat
  LastNPeriod :: "64 word"
  SoloPool :: bool
  PaymentMethod :: string
  PoolFeeAddrs :: "string list"
  WalletPass :: bytes
  GetBlockConfirmations :: "hash \<Rightarrow> int go"
  FetchTxCreator :: "txCreator option"
  FetchTxBroadcaster :: "txBroadcaster option"
  cfgRules :: TxRules

record 'db PaymentMgr =
  failedTxConfs :: "32 word"
  txConfHashes :: "(hash \<times> 32 word) list"
  processing :: bool
  pmDb :: 'db
  pmTick :: nat

definition PPS :: string where "PPS = ''pps''"
definition PPLNS :: string where "PPLNS = ''pplns''"
definition maxRoundingDiff :: int where "maxRoundingDiff = 500"
definition maxTxConfThreshold :: "32 word" where "maxTxConfThreshold = 3"

text \<open>A call on the database held by the manager, and a reading of the clock.\<close>

definition on_db :: "('db, goerror, 'a) comp \<Rightarrow> ('db PaymentMgr, goerror, 'a) comp" where
  "on_db c = (\<lambda>pm. case c (pmDb pm) of (r, db) \<Rightarrow> (r, pm\<lparr>pmDb := db\<rparr>))"

definition from_db :: "('db \<Rightarrow> 'a go) \<Rightarrow> ('db PaymentMgr, goerror, 'a) comp" where
  "from_db f = readc (\<lambda>pm. f (pmDb pm))"

definition liftc :: "'a go \<Rightarrow> ('s, goerror, 'a) comp" where
  "liftc r = (\<lambda>s. (r, s))"

definition time_now :: "Env \<Rightarrow> ('db PaymentMgr, goerror, 64 word) comp" where
  "time_now e = (\<lambda>pm. (Ok (eNow e (pmTick pm)), pm\<lparr>pmTick := Suc (pmTick pm)\<rparr>))"

section \<open>Creation\<close>

definition NewPaymentMgr :: "'db PaymentMgrConfig \<Rightarrow> 'db \<Rightarrow> 'db PaymentMgr go \<times> 'db" where
  "NewPaymentMgr cfg db =
     (let D = cfgDb cfg;
          init1 = (case db_loadLastPaymentInfo D db of
            Ok _ \<Rightarrow> (Ok (), db)
          | Err err \<Rightarrow> if errors_is err ValueNotFound then db_persistLastPaymentInfo D 0 0 db
                       else (Err err, db)
          | Panic \<Rightarrow> (Panic, db))
      in case init1 of
        (Err err, db) \<Rightarrow> (Err err, db)
      | (Panic, db) \<Rightarrow> (Panic, db)
      | (Ok _, db) \<Rightarrow>
          (case (case db_loadLastPaymentCreatedOn D db of
                   Ok _ \<Rightarrow> (Ok (), db)
                 | Err err \<Rightarrow> if errors_is err ValueNotFound
                              then db_persistLastPaymentCreatedOn D 0 db else (Err err, db)
                 | Panic \<Rightarrow> (Panic, db)) of
             (Err err, db) \<Rightarrow> (Err err, db)
           | (Panic, db) \<Rightarrow> (Panic, db)
           | (Ok _, db) \<Rightarrow>
               (Ok \<lparr>failedTxConfs = 0, txConfHashes = [], processing = False, pmDb = db, pmTick = 0\<rparr>, db)))"

section \<open>Share percentages\<close>

text \<open>
  The weights are numbers on the heap: \<open>heap ! p\<close> is what the pointer \<open>p\<close> refers to, and
  a share is its account and the pointer \<open>share.Weight\<close>. The tally of an account starts as
  the pointer of its first share, so adding a later weight to the tally changes the weight of
  that share in place.
\<close>

record tallies =
  totalShares :: rat
  weights :: "rat list"
  tally :: "(string \<times> nat) list"

definition tallyShare :: "string \<times> nat \<Rightarrow> tallies \<Rightarrow> tallies" where
  "tallyShare share t = (case share of (account, p) \<Rightarrow>
     (let t = t\<lparr>totalShares := totalShares t + weights t ! p\<rparr> in
      case map_of (tally t) account of
        Some q \<Rightarrow> t\<lparr>weights := (weights t)[q := weights t ! q + weights t ! p]\<rparr>
      | None \<Rightarrow> t\<lparr>tally := put account p (tally t)\<rparr>))"

definition sharePercentages :: "Env \<Rightarrow> Share list \<Rightarrow> (string \<times> rat) list go" where
  "sharePercentages e shares =
     (let t = fold tallyShare (zip (map shAccount shares) [0 ..< length shares])
                \<lparr>totalShares = 0, weights = map shWeight shares, tally = []\<rparr> in
      foldo (\<lambda>(account, p) percentages.
        if weights t ! p = 0 then Err (PoolError DivideByZero)
        else if totalShares t = 0 then Panic
        else Ok (put account (weights t ! p / totalShares t) percentages))
        (range_map e (tally t)) [])"

definition PPSSharePercentages :: "Env \<Rightarrow> 'db PaymentMgrConfig \<Rightarrow> 64 word
    \<Rightarrow> ('db PaymentMgr, goerror, (string \<times> rat) list) comp" where
  "PPSSharePercentages e cfg workCreatedOn =
     bndc (from_db (db_ppsEligibleShares (cfgDb cfg) workCreatedOn)) (\<lambda>shares.
     if shares = [] then retc [] else liftc (sharePercentages e shares))"

definition PPLNSSharePercentages :: "Env \<Rightarrow> 'db PaymentMgrConfig
    \<Rightarrow> ('db PaymentMgr, goerror, (string \<times> rat) list) comp" where
  "PPLNSSharePercentages e cfg =
     bndc (time_now e) (\<lambda>now.
     bndc (from_db (db_pplnsEligibleShares (cfgDb cfg) (now - LastNPeriod cfg))) (\<lambda>shares.
     if shares = [] then retc [] else liftc (sharePercentages e shares)))"

section \<open>Payments of a block\<close>

record portions =
  payments :: "Payment list"
  paymentTotal :: int
  dustTotal :: int
  poTick :: nat

definition addPortion :: "Env \<Rightarrow> TxRules \<Rightarrow> PaymentSource option \<Rightarrow> int \<Rightarrow> 32 word \<Rightarrow> 32 word
    \<Rightarrow> string \<times> rat \<Rightarrow> portions \<Rightarrow> portions" where
  "addPortion e R source amtSansFees height estMaturity ar st = (case ar of (account, ratio) \<Rightarrow>
     (let amtRat = of_int amtSansFees * ratio;
          (amtI, accuracy) = Float_Int64 (SetRat amtRat);
          amt = (if accuracy = Above then i64 (amtI - 1) else amtI);
          st = st\<lparr>paymentTotal := i64 (paymentTotal st + amt)\<rparr>
      in if IsDustAmount R amt (P2PKHOutputSize R) (DefaultRelayFeePerKb R)
         then st\<lparr>dustTotal := i64 (dustTotal st + amt)\<rparr>
         else st\<lparr>payments := payments st @ [NewPayment account source amt height estMaturity
                    (eNow e (poTick st)) (eRand e (poTick st))],
                 poTick := Suc (poTick st)\<rparr>))"

definition calculatePayments :: "Env \<Rightarrow> TxRules \<Rightarrow> (string \<times> rat) list \<Rightarrow> PaymentSource option
    \<Rightarrow> int \<Rightarrow> gofloat \<Rightarrow> 32 word \<Rightarrow> 32 word \<Rightarrow> nat \<Rightarrow> (Payment list \<times> 64 word \<times> nat) go" where
  "calculatePayments e R ratios source tot poolFee height estMaturity tick =
     (if ratios = [] then Err (PoolError ShareRatio)
      else let fee = MulF64 R tot poolFee;
               amtSansFees = i64 (tot - fee);
               st = fold (addPortion e R source amtSansFees height estMaturity) (range_map e ratios)
                      \<lparr>payments = [], paymentTotal = 0, dustTotal = 0, poTick = tick\<rparr>
           in if amtSansFees < paymentTotal st then Err (PoolError PaymentSourceErr)
              else let feePayment = NewPayment PoolFeesK source (i64 (fee + dustTotal st)) height
                                      estMaturity (eNow e (poTick st)) (eRand e (poTick st))
                   in Ok (payments st @ [feePayment], pmCreatedOn feePayment, Suc (poTick st)))"

text \<open>\<open>calculatePayments\<close> as the methods of the manager call it, with the clock of the manager.\<close>

definition pm_calculatePayments :: "Env \<Rightarrow> 'db PaymentMgrConfig \<Rightarrow> (string \<times> rat) list
    \<Rightarrow> PaymentSource option \<Rightarrow> int \<Rightarrow> 32 word \<Rightarrow> ('db PaymentMgr, goerror, Payment list \<times> 64 word) comp" where
  "pm_calculatePayments e cfg percentages source amt height = (\<lambda>pm.
     case calculatePayments e (cfgRules cfg) percentages source amt (PoolFee cfg) height
            (height + ucast (CoinbaseMaturity cfg)) (pmTick pm) of
       Ok (pmts, createdOn, tick) \<Rightarrow> (Ok (pmts, createdOn), pm\<lparr>pmTick := tick\<rparr>)
     | Err err \<Rightarrow> (Err err, pm)
     | Panic \<Rightarrow> (Panic, pm))"

definition payPerShare :: "Env \<Rightarrow> 'db PaymentMgrConfig \<Rightarrow> PaymentSource option \<Rightarrow> int \<Rightarrow> 32 word
    \<Rightarrow> 64 word \<Rightarrow> ('db PaymentMgr, goerror, unit) comp" where
  "payPerShare e cfg source amt height workCreatedOn =
     bndc (PPSSharePercentages e cfg workCreatedOn) (\<lambda>percentages.
     bndc (pm_calculatePayments e cfg percentages source amt height) (\<lambda>(pmts, lastPmtCreatedOn).
     bndc (forc pmts (\<lambda>payment. on_db (db_PersistPayment (cfgDb cfg) payment))) (\<lambda>_.
     bndc (on_db (db_persistLastPaymentCreatedOn (cfgDb cfg) lastPmtCreatedOn)) (\<lambda>_.
     on_db (db_pruneShares (cfgDb cfg) workCreatedOn)))))"

definition payPerLastNShares :: "Env \<Rightarrow> 'db PaymentMgrConfig \<Rightarrow> PaymentSource option \<Rightarrow> int
    \<Rightarrow> 32 word \<Rightarrow> ('db PaymentMgr, goerror, unit) comp" where
  "payPerLastNShares e cfg source amt height =
     bndc (PPLNSSharePercentages e cfg) (\<lambda>percentages.
     bndc (pm_calculatePayments e cfg percentages source amt height) (\<lambda>(pmts, lastPmtCreatedOn).
     bndc (forc pmts (\<lambda>payment. on_db (db_PersistPayment (cfgDb cfg) payment))) (\<lambda>_.
     bndc (on_db (db_persistLastPaymentCreatedOn (cfgDb cfg) lastPmtCreatedOn)) (\<lambda>_.
     bndc (time_now e) (\<lambda>now.
     on_db (db_pruneShares (cfgDb cfg) (now - LastNPeriod cfg)))))))"

definition generatePayments :: "Env \<Rightarrow> 'db PaymentMgrConfig \<Rightarrow> 32 word \<Rightarrow> PaymentSource option \<Rightarrow> int
    \<Rightarrow> 64 word \<Rightarrow> ('db PaymentMgr, goerror, unit) comp" where
  "generatePayments e cfg height source amt workCreatedOn =
     (if PaymentMethod cfg = PPS then payPerShare e cfg source amt height workCreatedOn
      else if PaymentMethod cfg = PPLNS then payPerLastNShares e cfg source amt height
      else failc Foreign)"

section \<open>Payout of mature payments\<close>

type_synonym paymentSets = "(string \<times> Payment list) list"

definition pruneOrphanedPayments :: "Env \<Rightarrow> 'db PaymentMgrConfig \<Rightarrow> paymentSets \<Rightarrow> paymentSets go" where
  "pruneOrphanedPayments e cfg pmts =
     bnd (foldo (\<lambda>(key, _) toDelete.
       bnd (map_err (\<lambda>_. PoolError CreateHash) (NewHashFromStr (cfgRules cfg) key)) (\<lambda>blockHash.
       bnd (GetBlockConfirmations cfg blockHash) (\<lambda>confs.
       Ok (if confs \<le> 0 then toDelete @ [key] else toDelete)))) (range_map e pmts) []) (\<lambda>toDelete.
     Ok (filter (\<lambda>(k, _). k \<notin> set toDelete) pmts))"

definition estimateTxFee :: "TxRules \<Rightarrow> nat \<Rightarrow> nat \<Rightarrow> int" where
  "estimateTxFee R numInputs numOutputs =
     (let inSizes = replicate numInputs (RedeemP2PKHSigScriptSize R);
          outSizes = replicate numOutputs (P2PKHOutputSize R);
          estSize = EstimateSerializeSizeFromScriptSizes R inSizes outSizes 0
      in FeeForSerializeSize R (DefaultRelayFeePerKb R) estSize)"

text \<open>
  The share of the fee one output bears; \<open>float64\<close> quotient and product, then a floor. The
  quotient is no number when the outputs have no value.
\<close>

definition proportionalFee :: "Env \<Rightarrow> int \<Rightarrow> int \<Rightarrow> int \<Rightarrow> int" where
  "proportionalFee e estTxFee outputAmount v =
     (let ratio = float_div (f64_of_int v) (f64_of_int outputAmount)
      in floor_int64 (eConv e) (float_mul (f64_of_int estTxFee) ratio))"

definition applyTxFees :: "Env \<Rightarrow> TxRules \<Rightarrow> TransactionInput list \<Rightarrow> (string \<times> int) list \<Rightarrow> string
    \<Rightarrow> (int \<times> (string \<times> int) list) go" where
  "applyTxFees e R inputs outputs feeAddr =
     (if inputs = [] then Err (PoolError TxIn)
      else if outputs = [] then Err (PoolError TxOut)
      else let estTxFee = estimateTxFee R (length inputs) (length outputs);
               paying = filter (\<lambda>(addr, _). addr \<noteq> feeAddr) outputs;
               outputAmountSansPoolFee = foldl (\<lambda>a (_, v). i64 (a + v)) 0 paying;
               proportionalTxFees =
                 map (\<lambda>(addr, v). (addr, proportionalFee e estTxFee outputAmountSansPoolFee v)) paying;
               txFeesPaid = foldl (\<lambda>a (_, fee). i64 (a + fee)) 0 proportionalTxFees;
               remaining = i64 (estTxFee - txFeesPaid);
               (outputs', _) = fold (\<lambda>(addr, fee) (outs, remaining).
                   let v = i64 (the (map_of outs addr) - fee) in
                   if 0 < remaining then (put addr (i64 (v - 1)) outs, remaining - 1)
                   else (put addr v outs, remaining))
                 (range_map e proportionalTxFees) (outputs, remaining)
           in Ok (estTxFee, outputs'))"

text \<open>
  \<open>confirmCoinbases\<close> deletes the confirmed hashes from the map it is given; the map it leaves
  is returned with the result. \<open>cancelled i\<close> says whether the context is done at the
  \<open>i\<close>-th look at it.
\<close>

fun confirmEach :: "(nat \<Rightarrow> bool) \<Rightarrow> txBroadcaster \<Rightarrow> int \<Rightarrow> nat \<Rightarrow> hash list \<Rightarrow> (hash \<times> 32 word) list
    \<Rightarrow> unit go \<times> (hash \<times> 32 word) list" where
  "confirmEach cancelled txB maxSpendableConfs i [] txHashes = (Ok (), txHashes)"
| "confirmEach cancelled txB maxSpendableConfs i (h # hs) txHashes =
     (if cancelled i then (Err (Kind ContextCancelled), txHashes)
      else case GetTransaction txB h of
        CallFailed err \<Rightarrow> (Err err, txHashes)
      | NotFound \<Rightarrow> confirmEach cancelled txB maxSpendableConfs (Suc i) hs txHashes
      | Confirmations c \<Rightarrow> confirmEach cancelled txB maxSpendableConfs (Suc i) hs
          (if maxSpendableConfs \<le> c then filter (\<lambda>(k, _). k \<noteq> h) txHashes else txHashes))"

definition confirmCoinbases :: "Env \<Rightarrow> (nat \<Rightarrow> bool) \<Rightarrow> 'db PaymentMgrConfig \<Rightarrow> txBroadcaster
    \<Rightarrow> (hash \<times> 32 word) list \<Rightarrow> unit go \<times> (hash \<times> 32 word) list" where
  "confirmCoinbases e cancelled cfg txB txHashes =
     (let maxSpendableConfs = uint (CoinbaseMaturity cfg) + 1
      in case confirmEach cancelled txB maxSpendableConfs 0 (eOrder e (keys txHashes)) txHashes of
        (Ok _, left) \<Rightarrow> (if left \<noteq> [] then Err (Kind TxConf) else Ok (), left)
      | (Err err, left) \<Rightarrow> (Err err, left)
      | (Panic, left) \<Rightarrow> (Panic, left))"

text \<open>
  The \<open>i\<close>-th wait for a rescan response ends with the context (\<open>None\<close>) or with what the
  source returned.
\<close>

definition fetchRescanResponse :: "int go option \<Rightarrow> int go" where
  "fetchRescanResponse response = (case response of
     None \<Rightarrow> Err (Kind ContextCancelled)
   | Some r \<Rightarrow> map_err (\<lambda>_. PoolError ErrorKind.Rescan) r)"

partial_function (option) monitorRescan :: "(nat \<Rightarrow> int go option) \<Rightarrow> int \<Rightarrow> nat \<Rightarrow> unit go option" where
  "monitorRescan recv height i = (case fetchRescanResponse (recv i) of
     Err err \<Rightarrow> Some (Err (if errors_is err ContextCancelled then PoolError ContextCancelled else err))
   | Panic \<Rightarrow> Some Panic
   | Ok rescannedThrough \<Rightarrow>
       if height \<le> rescannedThrough then Some (Ok ()) else monitorRescan recv height (Suc i))"

record payout =
  poInputs :: "TransactionInput list"
  poInputTxHashes :: "(hash \<times> 32 word) list"
  poOutputs :: "(string \<times> int) list"
  poIn :: int
  poOut :: int

definition payoutAddr :: "'db PaymentMgrConfig \<Rightarrow> 'db \<Rightarrow> string \<Rightarrow> Payment \<Rightarrow> string go" where
  "payoutAddr cfg db feeAddr pmt =
     (if pmAccount pmt = PoolFeesK then Ok feeAddr
      else bnd (db_fetchAccount (cfgDb cfg) (pmAccount pmt) db) (\<lambda>acc. Ok (acAddress acc)))"

definition addOutput :: "'db PaymentMgrConfig \<Rightarrow> 'db \<Rightarrow> string \<Rightarrow> Payment \<Rightarrow> payout \<Rightarrow> payout go" where
  "addOutput cfg db feeAddr pmt po =
     bnd (payoutAddr cfg db feeAddr pmt) (\<lambda>addr.
     let sofar = (case map_of (poOutputs po) addr of None \<Rightarrow> 0 | Some v \<Rightarrow> v) in
     Ok (po\<lparr>poOutputs := put addr (i64 (sofar + pmAmount pmt)) (poOutputs po),
            poOut := i64 (poOut po + pmAmount pmt)\<rparr>))"

definition addSet :: "'db PaymentMgrConfig \<Rightarrow> 'db \<Rightarrow> txCreator \<Rightarrow> string \<Rightarrow> 32 word
    \<Rightarrow> string \<times> Payment list \<Rightarrow> payout \<Rightarrow> payout go" where
  "addSet cfg db txC feeAddr coinbaseIndex entry po = (let R = cfgRules cfg; pmtSet = snd entry in
     bnd (index pmtSet 0) (\<lambda>first.
     bnd (case pmSource first of None \<Rightarrow> Panic | Some s \<Rightarrow> Ok (srcCoinbase s)) (\<lambda>coinbaseTx.
     bnd (map_err (\<lambda>_. PoolError CreateHash) (NewHashFromStr R coinbaseTx)) (\<lambda>txHash.
     bnd (map_err (\<lambda>_. PoolError TxOut) (GetTxOut txC txHash coinbaseIndex)) (\<lambda>txOutResult.
     case txOutResult of
       None \<Rightarrow> Err (PoolError TxOut)
     | Some res \<Rightarrow>
         if toConfirmations res < uint (CoinbaseMaturity cfg + 1) then Err (PoolError Coinbase)
         else let inp = \<lparr>tiAmount = toValue res, tiTxid = HashString R txHash, tiVout = coinbaseIndex\<rparr>
              in bnd (map_err (\<lambda>_. PoolError CreateAmount) (NewAmount R (tiAmount inp))) (\<lambda>prevOutV.
                 foldo (addOutput cfg db feeAddr) pmtSet
                   (po\<lparr>poInputs := poInputs po @ [inp],
                       poInputTxHashes := put txHash (pmHeight first) (poInputTxHashes po),
                       poIn := i64 (poIn po + prevOutV)\<rparr>)))))))"

definition generatePayoutTxDetails :: "Env \<Rightarrow> 'db PaymentMgrConfig \<Rightarrow> 'db \<Rightarrow> txCreator \<Rightarrow> string
    \<Rightarrow> paymentSets \<Rightarrow> 32 word \<Rightarrow> payout go" where
  "generatePayoutTxDetails e cfg db txC feeAddr pmts coinbaseIndex =
     bnd (foldo (addSet cfg db txC feeAddr coinbaseIndex) (range_map e pmts)
            \<lparr>poInputs = [], poInputTxHashes = [], poOutputs = [], poIn = 0, poOut = 0\<rparr>) (\<lambda>po.
     if poIn po < poOut po then Err (PoolError CreateTx)
     else if maxRoundingDiff < i64 (poIn po - poOut po) then Err (PoolError CreateTx)
     else Ok po)"

text \<open>The lowest of the recorded heights, zero standing for none seen yet.\<close>

definition rescanBeginHeight :: "'db PaymentMgrConfig \<Rightarrow> (hash \<times> 32 word) list \<Rightarrow> 32 word" where
  "rescanBeginHeight cfg hashes =
     foldl (\<lambda>beginHeight (_, h).
       let b = (if beginHeight = 0 then h else beginHeight) in if h < b then h else b) 0 hashes
     - ucast (CoinbaseMaturity cfg)"

text \<open>The rescan requested when confirmations have failed too often; it may wait for ever.\<close>

definition requestRescan :: "'db PaymentMgrConfig \<Rightarrow> txBroadcaster \<Rightarrow> 32 word \<Rightarrow> 'db PaymentMgr
    \<Rightarrow> unit go option" where
  "requestRescan cfg txB height pm =
     (if maxTxConfThreshold \<le> failedTxConfs pm
      then if txConfHashes pm = [] then Some (Err (PoolError TxConf))
           else case Rescan txB (sint (rescanBeginHeight cfg (txConfHashes pm))) of
             Ok source \<Rightarrow> monitorRescan source (sint height) 0
           | Err _ \<Rightarrow> Some (Err (PoolError ErrorKind.Rescan))
           | Panic \<Rightarrow> Some Panic
      else Some (Ok ()))"

definition markPaid :: "Env \<Rightarrow> 'db PaymentMgrConfig \<Rightarrow> 32 word \<Rightarrow> string \<Rightarrow> Payment
    \<Rightarrow> ('db PaymentMgr, goerror, unit) comp" where
  "markPaid e cfg height txid pmt =
     (let pmt = pmt\<lparr>pmPaidOnHeight := height, pmTransactionID := txid\<rparr> in
      bndc (map_errc (\<lambda>_. PoolError PersistEntry) (on_db (db_updatePayment (cfgDb cfg) pmt))) (\<lambda>_.
      (\<lambda>pm. map_errc (\<lambda>_. PoolError PersistEntry)
        (on_db (db_ArchivePayment (cfgDb cfg) pmt (eNow e (pmTick pm)) (eRand e (pmTick pm))))
        (pm\<lparr>pmTick := Suc (pmTick pm)\<rparr>))))"

text \<open>Signing and publishing the payout transaction, and its identifier.\<close>

definition publishPayout :: "'db PaymentMgrConfig \<Rightarrow> txCreator \<Rightarrow> txBroadcaster \<Rightarrow> TransactionInput list
    \<Rightarrow> (string \<times> int) list \<Rightarrow> string go" where
  "publishPayout cfg txC txB inputs outs =
     bnd (map_err (\<lambda>_. PoolError CreateTx) (CreateRawTransaction txC inputs outs)) (\<lambda>tx.
     bnd (TxBytes txC tx) (\<lambda>txBytes.
     bnd (map_err (\<lambda>_. PoolError SignTx) (SignTransaction txB txBytes (WalletPass cfg))) (\<lambda>signedTx.
     bnd (map_err (\<lambda>_. PoolError PublishTx) (PublishTransaction txB signedTx)) (\<lambda>txHash.
     bnd (map_err (\<lambda>_. PoolError CreateHash) (NewHash (cfgRules cfg) txHash)) (\<lambda>txid.
     Ok (HashString (cfgRules cfg) txid))))))"

definition decodeOutputs :: "Env \<Rightarrow> 'db PaymentMgrConfig \<Rightarrow> (string \<times> int) list \<Rightarrow> (string \<times> int) list go" where
  "decodeOutputs e cfg outputs =
     foldo (\<lambda>(sAddr, amt) outs.
       bnd (map_err (\<lambda>_. PoolError Decode) (DecodeAddress (cfgRules cfg) sAddr)) (\<lambda>addr.
       Ok (outs @ [(addr, amt)]))) (range_map e outputs) []"

text \<open>What follows the rescan: the body of \<open>payDividends\<close> up to its return.\<close>

definition settlePayments :: "Env \<Rightarrow> (nat \<Rightarrow> bool) \<Rightarrow> 'db PaymentMgrConfig \<Rightarrow> txBroadcaster \<Rightarrow> 32 word
    \<Rightarrow> 32 word \<Rightarrow> paymentSets \<Rightarrow> ('db PaymentMgr, goerror, unit) comp" where
  "settlePayments e cancelled cfg txB height coinbaseIndex mPmts =
     bndc (liftc (case FetchTxCreator cfg of None \<Rightarrow> Err (PoolError Disconnected) | Some t \<Rightarrow> Ok t)) (\<lambda>txC.
     bndc (liftc (pruneOrphanedPayments e cfg mPmts)) (\<lambda>pmts.
     bndc (liftc (if PoolFeeAddrs cfg = [] then Panic
                  else index (PoolFeeAddrs cfg) (ePick e (length (PoolFeeAddrs cfg))))) (\<lambda>feeAddr.
     bndc (readc (\<lambda>pm. generatePayoutTxDetails e cfg (pmDb pm) txC feeAddr pmts coinbaseIndex)) (\<lambda>po.
     bndc (liftc (applyTxFees e (cfgRules cfg) (poInputs po) (poOutputs po) feeAddr)) (\<lambda>(estFee, outputs).
     bndc (liftc (decodeOutputs e cfg outputs)) (\<lambda>outs.
     case confirmCoinbases e cancelled cfg txB (poInputTxHashes po) of
       (Panic, left) \<Rightarrow> (\<lambda>pm. (Panic, pm))
     | (Err err, left) \<Rightarrow> (\<lambda>pm.
         (if errors_is err ContextCancelled then Ok () else Err err,
          pm\<lparr>failedTxConfs := failedTxConfs pm + 1,
             txConfHashes := fold (\<lambda>(k, v). put k v) left (txConfHashes pm)\<rparr>))
     | (Ok _, left) \<Rightarrow>
         bndc (liftc (publishPayout cfg txC txB (poInputs po) outs)) (\<lambda>txid.
         bndc (forc (concat (map snd (range_map e pmts))) (markPaid e cfg height txid)) (\<lambda>_.
         bndc (time_now e) (\<lambda>now.
         bndc (on_db (db_persistLastPaymentInfo (cfgDb cfg) height now)) (\<lambda>_.
         modc (\<lambda>pm. pm\<lparr>failedTxConfs := 0, txConfHashes := []\<rparr>)))))))))))"

text \<open>
  \<open>payDividends\<close>: \<open>None\<close> is a call that never returns, which only the rescan can cause.
  The deferred function resets the processing flag on every return.
\<close>

definition payDividends :: "Env \<Rightarrow> (nat \<Rightarrow> bool) \<Rightarrow> 'db PaymentMgrConfig \<Rightarrow> 32 word \<Rightarrow> 32 word
    \<Rightarrow> 'db PaymentMgr \<Rightarrow> (unit go \<times> 'db PaymentMgr) option" where
  "payDividends e cancelled cfg height coinbaseIndex pm =
     (case db_maturePendingPayments (cfgDb cfg) height (pmDb pm) of
        Err err \<Rightarrow> Some (Err err, pm)
      | Panic \<Rightarrow> Some (Panic, pm)
      | Ok mPmts \<Rightarrow>
          if mPmts = [] then Some (Ok (), pm)
          else if processing pm then Some (Ok (), pm)
          else let pm = pm\<lparr>processing := True\<rparr>;
                   finish = (\<lambda>(r, pm). Some (r, pm\<lparr>processing := False\<rparr>))
               in case FetchTxBroadcaster cfg of
                    None \<Rightarrow> finish (Err (PoolError Disconnected), pm)
                  | Some txB \<Rightarrow>
                      (case requestRescan cfg txB height pm of
                         None \<Rightarrow> None
                       | Some (Err err) \<Rightarrow> finish (Err err, pm)
                       | Some Panic \<Rightarrow> finish (Panic, pm)
                       | Some (Ok _) \<Rightarrow>
                           finish (settlePayments e cancelled cfg txB height coinbaseIndex mPmts pm)))"

section \<open>Payment signals\<close>

text \<open>
  One round of \<open>handlePayments\<close> on a message: the new state, whether the cache is signalled
  that dividends were paid, and whether the channel \<open>msg.Done\<close> is closed. In solo mode the
  message is dropped and the channel stays open.
\<close>

record paymentMsg =
  CurrentHeight :: "32 word"
  CoinbaseIndex :: "32 word"

record 'db handled =
  hdPm :: "'db PaymentMgr"
  hdSignalled :: bool
  hdDone :: bool

definition handlePayments :: "Env \<Rightarrow> (nat \<Rightarrow> bool) \<Rightarrow> 'db PaymentMgrConfig \<Rightarrow> paymentMsg
    \<Rightarrow> 'db PaymentMgr \<Rightarrow> 'db handled go option" where
  "handlePayments e cancelled cfg msg pm =
     (if SoloPool cfg then Some (Ok \<lparr>hdPm = pm, hdSignalled = False, hdDone = False\<rparr>)
      else case payDividends e cancelled cfg (CurrentHeight msg) (CoinbaseIndex msg) pm of
        None \<Rightarrow> None
      | Some (Ok _, pm) \<Rightarrow> Some (Ok \<lparr>hdPm = pm, hdSignalled = True, hdDone = True\<rparr>)
      | Some (Err _, pm) \<Rightarrow> Some (Ok \<lparr>hdPm = pm, hdSignalled = False, hdDone = True\<rparr>)
      | Some (Panic, _) \<Rightarrow> Some Panic)"

end
