(* ===== verification/Wire.thy ===== *)
theory Wire
  imports PaymentMgr
begin

text \<open>
  What the pool uses of the packages \<open>wire\<close>, \<open>chainhash\<close> and \<open>standalone\<close>. A
  block header has the fields the pool reads and the bytes of the others; decoding it, encoding
  it, hashing it and reading compact targets are arguments of the model, collected in
  \<open>Wire\<close>.
\<close>

record BlockHeader =
  PrevBlock :: hash
  Bits :: "32 word"
  Height :: "32 word"
  hdrOther :: bytes

record MsgTx =
  txVersion :: "16 word"
  txOuts :: "int list"
  txHash :: hash
  txIsCoinBase :: bool

record MsgBlock =
  bkHeader :: BlockHeader
  bkTransactions :: "MsgTx list"

record Wire =
  FromBytes :: "bytes \<Rightarrow> BlockHeader go"
  HeaderBytes :: "BlockHeader \<Rightarrow> bytes go"
  BlockHash :: "BlockHeader \<Rightarrow> hash"
  PowHashV2 :: "BlockHeader \<Rightarrow> hash"
  HashToBig :: "hash \<Rightarrow> int"
  CompactToBig :: "32 word \<Rightarrow> int"

definition TxVersionTreasury :: "16 word" where "TxVersionTreasury = 3"

definition MaxBlockHeaderPayload :: nat where "MaxBlockHeaderPayload = 180"

text \<open>The events the hub forwards to the cache of the web pages.\<close>

datatype CacheUpdateEvent = Confirmed | Unconfirmed | ClaimedShare | DividendsPaid

definition MaxReorgLimit :: "32 word" where "MaxReorgLimit = 6"

end
