(* ===== verification/Utf8.thy ===== *)
theory Utf8
  imports GoBytes
begin

text \<open>
  The UTF-8 encoding, and what \<open>encoding/json\<close> makes of a string that is none: every byte at
  which no encoded character starts is written as the replacement character. A byte is a
  \<open>char\<close>, a character its number in Unicode.
\<close>

section \<open>The encoding\<close>

text \<open>The characters: the numbers below \<open>0x110000\<close> but the surrogates.\<close>

definition scalar :: "nat \<Rightarrow> bool" where
  "scalar c \<longleftrightarrow> c < 1114112 \<and> \<not> (55296 \<le> c \<and> c < 57344)"

definition encodeRune :: "nat \<Rightarrow> string" where
  "encodeRune c =
     (if c < 128 then [char_of c]
      else if c < 2048 then [char_of (192 + c div 64), char_of (128 + c mod 64)]
      else if c < 65536 then
        [char_of (224 + c div 64 div 64), char_of (128 + c div 64 mod 64), char_of (128 + c mod 64)]
      else [char_of (240 + c div 64 div 64 div 64), char_of (128 + c div 64 div 64 mod 64),
        char_of (128 + c div 64 mod 64), char_of (128 + c mod 64)])"

definition utf8 :: "string \<Rightarrow> bool" where
  "utf8 s \<longleftrightarrow> (\<exists>cs. (\<forall>c \<in> set cs. scalar c) \<and> s = concat (map encodeRune cs))"

definition ascii :: "string \<Rightarrow> bool" where
  "ascii s \<longleftrightarrow> (\<forall>b \<in> set s. of_char b < (128 :: nat))"

section \<open>Decoding\<close>

text \<open>
  \<open>utf8.DecodeRuneInString\<close>: the first byte says in which ranges the bytes that follow it lie;
  no character starts with the other bytes.
\<close>

definition follows :: "nat \<Rightarrow> (nat \<times> nat) list option" where
  "follows n = (let any = (128, 191) in
     if n < 128 then Some []
     else if n < 194 then None
     else if n < 224 then Some [any]
     else if n = 224 then Some [(160, 191), any]
     else if n = 237 then Some [(128, 159), any]
     else if n < 240 then Some [any, any]
     else if n = 240 then Some [(144, 191), any, any]
     else if n < 244 then Some [any, any, any]
     else if n = 244 then Some [(128, 143), any, any]
     else None)"

fun inRanges :: "(nat \<times> nat) list \<Rightarrow> string \<Rightarrow> bool" where
  "inRanges [] s \<longleftrightarrow> True"
| "inRanges (r # rs) [] \<longleftrightarrow> False"
| "inRanges (r # rs) (b # s) \<longleftrightarrow> fst r \<le> of_char b \<and> of_char b \<le> snd r \<and> inRanges rs s"

text \<open>How many bytes follow the first one of the character a string starts with.\<close>

definition runeTail :: "char \<Rightarrow> string \<Rightarrow> nat option" where
  "runeTail b s = (case follows (of_char b) of None \<Rightarrow> None
     | Some rs \<Rightarrow> if inRanges rs s then Some (length rs) else None)"

definition RuneError :: string where "RuneError = encodeRune 65533"

text \<open>A string as \<open>json.Marshal\<close> writes it and \<open>json.Unmarshal\<close> reads it again.\<close>

function goText :: "string \<Rightarrow> string" where
  "goText [] = []"
| "goText (b # s) = (case runeTail b s of
     None \<Rightarrow> RuneError @ goText s
   | Some k \<Rightarrow> b # take k s @ goText (drop k s))"
  by pat_completeness auto
termination by (relation "measure length") auto

section \<open>Valid strings are not changed\<close>

lemma byte_value: "n < 256 \<Longrightarrow> of_char (char_of n :: char) = (n :: nat)"
  by simp

text \<open>The digits of a character in base 64.\<close>

lemma encodeRune_digits:
  assumes "c = d * 64 + z" "z < 64" "d = e * 64 + y" "y < 64" "e = x * 64 + w" "w < (64 :: nat)"
  shows "encodeRune c = (if c < 128 then [char_of c] else if c < 2048 then [char_of (192 + d), char_of (128 + z)]
      else if c < 65536 then [char_of (224 + e), char_of (128 + y), char_of (128 + z)]
      else [char_of (240 + x), char_of (128 + w), char_of (128 + y), char_of (128 + z)])"
proof -
  have "(a * 64 + r) div 64 = a \<and> (a * 64 + r) mod 64 = r" if "r < 64" for a r :: nat using that by simp
  then have "c div 64 = d" "c mod 64 = z" "d div 64 = e" "d mod 64 = y" "e div 64 = x" "e mod 64 = w"
    using assms by (simp_all only:)
  then show ?thesis unfolding encodeRune_def by (simp only:)
qed

lemma runeTail_bytes:
  "of_char b < (128 :: nat) \<Longrightarrow> runeTail b s = Some 0"
  "of_char b = 192 + x \<Longrightarrow> of_char b1 = 128 + z \<Longrightarrow> (2 :: nat) \<le> x \<Longrightarrow> x < 32 \<Longrightarrow> z < (64 :: nat) \<Longrightarrow>
     runeTail b (b1 # s) = Some 1"
  "of_char b = 224 + x \<Longrightarrow> of_char b1 = 128 + y \<Longrightarrow> of_char b2 = 128 + z \<Longrightarrow> x < (16 :: nat) \<Longrightarrow> y < (64 :: nat) \<Longrightarrow> z < (64 :: nat) \<Longrightarrow>
     x = 0 \<longrightarrow> 32 \<le> y \<Longrightarrow> x = 13 \<longrightarrow> y < 32 \<Longrightarrow> runeTail b (b1 # b2 # s) = Some 2"
  "of_char b = 240 + x \<Longrightarrow> of_char b1 = 128 + w \<Longrightarrow> of_char b2 = 128 + y \<Longrightarrow> of_char b3 = 128 + z \<Longrightarrow>
     x < (5 :: nat) \<Longrightarrow> w < (64 :: nat) \<Longrightarrow> y < (64 :: nat) \<Longrightarrow> z < (64 :: nat) \<Longrightarrow> x = 0 \<longrightarrow> 16 \<le> w \<Longrightarrow> x = 4 \<longrightarrow> w < 16 \<Longrightarrow>
     runeTail b (b1 # b2 # b3 # s) = Some 3"
  by (simp_all add: runeTail_def follows_def Let_def) linarith+

lemma runeTail_encode:
  assumes "scalar c" "encodeRune c = b # t"
  shows "runeTail b (t @ s) = Some (length t)"
proof -
  define z d y e w where "z = c mod 64" and "d = c div 64" and "y = d mod 64" and "e = d div 64" and "w = e mod 64"
  define x where "x = e div 64"
  have eq: "c = d * 64 + z" "d = e * 64 + y" "e = x * 64 + w" by (simp_all add: z_def d_def y_def e_def w_def x_def)
  have lt: "z < 64" "y < 64" "w < 64" by (simp_all add: z_def y_def w_def)
  have enc: "b # t = (if c < 128 then [char_of c] else if c < 2048 then [char_of (192 + d), char_of (128 + z)]
      else if c < 65536 then [char_of (224 + e), char_of (128 + y), char_of (128 + z)]
      else [char_of (240 + x), char_of (128 + w), char_of (128 + y), char_of (128 + z)])"
    using assms(2) encodeRune_digits[OF eq(1) lt(1) eq(2) lt(2) eq(3) lt(3)] by (simp only:)
  have sc: "c < 1114112" "\<not> (55296 \<le> c \<and> c < 57344)" using assms(1) by (simp_all add: scalar_def)
  consider "c < 128" | "128 \<le> c" "c < 2048" | "2048 \<le> c" "c < 65536" | "65536 \<le> c" by linarith
  then show ?thesis
  proof cases
    case 1
    then show ?thesis using enc runeTail_bytes(1)[of b] byte_value[of c] by simp
  next
    case 2
    moreover from this have "2 \<le> d" "d < 32" using eq lt by linarith+
    ultimately show ?thesis using enc runeTail_bytes(2)[OF byte_value byte_value, of d z] lt by simp
  next
    case 3
    moreover from this have "e < 16" "e = 0 \<longrightarrow> 32 \<le> y" "e = 13 \<longrightarrow> y < 32" using eq lt sc by linarith+
    ultimately show ?thesis using enc runeTail_bytes(3)[OF byte_value byte_value byte_value, of e y z] lt by simp
  next
    case 4
    moreover from this have "x < 5" "x = 0 \<longrightarrow> 16 \<le> w" "x = 4 \<longrightarrow> w < 16" using eq lt sc by linarith+
    ultimately show ?thesis using enc runeTail_bytes(4)[OF byte_value byte_value byte_value byte_value, of x w y z] lt by simp
  qed
qed

lemma encodeRune_Cons: "\<exists>b t. encodeRune c = b # t"
  by (simp add: encodeRune_def)

lemma goText_encode: "scalar c \<Longrightarrow> goText (encodeRune c @ s) = encodeRune c @ goText s"
  using encodeRune_Cons[of c] runeTail_encode[of c] by auto

lemma goText_utf8: "utf8 s \<Longrightarrow> goText s = s"
proof -
  assume "utf8 s"
  then obtain cs where "\<forall>c \<in> set cs. scalar c" "s = concat (map encodeRune cs)" by (auto simp: utf8_def)
  then show ?thesis by (induction cs arbitrary: s) (simp_all add: goText_encode)
qed

section \<open>What is written is valid\<close>

lemma follows_cases:
  assumes "follows n = Some rs"
  obtains "n < 128" "rs = []"
  | x where "n = 192 + x" "2 \<le> x" "x < 32" "rs = [(128, 191)]"
  | x lo hi where "n = 224 + x" "x < 16" "128 \<le> lo" "hi \<le> 191" "x = 0 \<longrightarrow> 160 \<le> lo" "x = 13 \<longrightarrow> hi < 160" "rs = [(lo, hi), (128, 191)]"
  | x lo hi where "n = 240 + x" "x < 5" "128 \<le> lo" "hi \<le> 191" "x = 0 \<longrightarrow> 144 \<le> lo" "x = 4 \<longrightarrow> hi < 144" "rs = [(lo, hi), (128, 191), (128, 191)]"
proof -
  consider "n < 194" | "194 \<le> n" "n < 224" | "224 \<le> n" "n < 240" | "240 \<le> n" by linarith
  then show ?thesis
  proof cases
    case 1
    then show ?thesis using assms that(1) by (auto simp: follows_def Let_def split: if_splits)
  next
    case 2
    then show ?thesis using assms that(2)[of "n - 192"] by (auto simp: follows_def Let_def split: if_splits)
  next
    case 3
    then show ?thesis using assms that(3)[of "n - 224"] by (auto simp: follows_def Let_def split: if_splits)
  next
    case 4
    then show ?thesis using assms that(4)[of "n - 240"] by (auto simp: follows_def Let_def split: if_splits)
  qed
qed

lemma inRanges_Cons: "inRanges ((lo, hi) # rs) s \<longleftrightarrow>
    (\<exists>b t. s = b # t \<and> lo \<le> of_char b \<and> of_char b \<le> hi \<and> inRanges rs t)"
  by (cases s) auto

lemma byte_char: "of_char b = (n :: nat) \<Longrightarrow> char_of n = b"
  by auto

lemma runeTail_decode:
  assumes "runeTail b s = Some k"
  shows "\<exists>c. scalar c \<and> encodeRune c = b # take k s"
proof -
  obtain rs where rs: "follows (of_char b) = Some rs" "inRanges rs s" "k = length rs"
    using assms by (auto simp: runeTail_def split: option.splits if_splits)
  from rs(1) show ?thesis
  proof (cases rule: follows_cases)
    case 1
    then show ?thesis using rs by (intro exI[of _ "of_char b"]) (simp add: scalar_def encodeRune_def)
  next
    case (2 x)
    then obtain b1 t where s: "s = b1 # t" "128 \<le> (of_char b1 :: nat)" "of_char b1 \<le> (191 :: nat)"
      using rs(2) by (auto simp: inRanges_Cons)
    define z where "z = of_char b1 - (128 :: nat)"
    have z: "of_char b1 = 128 + z" "z < 64" using s by (simp_all add: z_def)
    have "encodeRune (x * 64 + z) = [char_of (192 + x), char_of (128 + z)]" using 2 z by (simp add: encodeRune_def)
    then show ?thesis
      using 2 z s(1) rs(3) byte_char[of b] byte_char[of b1] by (intro exI[of _ "x * 64 + z"]) (auto simp: scalar_def)
  next
    case (3 x lo hi)
    then obtain b1 b2 t where s: "s = b1 # b2 # t" "lo \<le> of_char b1" "of_char b1 \<le> hi" "128 \<le> (of_char b2 :: nat)" "of_char b2 \<le> (191 :: nat)"
      using rs(2) by (auto simp: inRanges_Cons)
    define y z where "y = of_char b1 - (128 :: nat)" and "z = of_char b2 - (128 :: nat)"
    have yz: "of_char b1 = 128 + y" "y < 64" "of_char b2 = 128 + z" "z < 64" "x = 0 \<longrightarrow> 32 \<le> y" "x = 13 \<longrightarrow> y < 32"
      using s 3 by (auto simp: y_def z_def)
    define d c where "d = x * 64 + y" and "c = d * 64 + z"
    have c: "2048 \<le> c" "c < 65536" using 3(2) yz(2,4,5) unfolding c_def d_def by (cases "x = 0"; simp)+
    consider "x \<le> 12" | "x = 13" | "14 \<le> x" by linarith
    then have "c < 55296 \<or> 57344 \<le> c" using yz(2,4,6) unfolding c_def d_def by cases simp_all
    then have "scalar c" using c unfolding scalar_def by linarith
    have "x = 0 * 64 + x" "x < 64" using 3(2) by simp_all
    from encodeRune_digits[OF c_def yz(4) d_def yz(2) this] c
    have "encodeRune c = [char_of (224 + x), char_of (128 + y), char_of (128 + z)]" by simp
    with \<open>scalar c\<close> show ?thesis
      using 3(1,7) yz(1,3) s(1) rs(3) byte_char[of b] byte_char[of b1] byte_char[of b2] by (intro exI[of _ c]) auto
  next
    case (4 x lo hi)
    then obtain b1 b2 b3 t where s: "s = b1 # b2 # b3 # t" "lo \<le> of_char b1" "of_char b1 \<le> hi" "128 \<le> (of_char b2 :: nat)"
      "of_char b2 \<le> (191 :: nat)" "128 \<le> (of_char b3 :: nat)" "of_char b3 \<le> (191 :: nat)"
      using rs(2) by (auto simp: inRanges_Cons)
    define w y z where "w = of_char b1 - (128 :: nat)" and "y = of_char b2 - (128 :: nat)" and "z = of_char b3 - (128 :: nat)"
    have yz: "of_char b1 = 128 + w" "w < 64" "of_char b2 = 128 + y" "y < 64" "of_char b3 = 128 + z" "z < 64"
      "x = 0 \<longrightarrow> 16 \<le> w" "x = 4 \<longrightarrow> w < 16"
      using s 4 by (auto simp: w_def y_def z_def)
    define e d c where "e = x * 64 + w" and "d = e * 64 + y" and "c = d * 64 + z"
    consider "x = 0" | "1 \<le> x" "x \<le> 3" | "x = 4" using 4(2) by linarith
    then have c: "65536 \<le> c" "c < 1114112" using yz(2,4,6-8) unfolding c_def d_def e_def by (cases; simp)+
    from encodeRune_digits[OF c_def yz(6) d_def yz(4) e_def yz(2)] c
    have "encodeRune c = [char_of (240 + x), char_of (128 + w), char_of (128 + y), char_of (128 + z)]" by simp
    moreover have "scalar c" using c by (simp add: scalar_def)
    ultimately show ?thesis
      using 4(1,7) yz(1,3,5) s(1) rs(3) byte_char[of b] byte_char[of b1] byte_char[of b2] byte_char[of b3]
      by (intro exI[of _ c]) auto
  qed
qed

lemma utf8_append: "scalar c \<Longrightarrow> utf8 s \<Longrightarrow> utf8 (encodeRune c @ s)"
  unfolding utf8_def by (elim exE conjE, rename_tac cs, rule_tac x = "c # cs" in exI) auto

lemma utf8_goText [simp]: "utf8 (goText s)"
proof (induction s rule: goText.induct)
  case 1
  show ?case unfolding utf8_def by (rule exI[of _ "[]"]) simp
next
  case (2 b s)
  show ?case
  proof (cases "runeTail b s")
    case None
    then show ?thesis using utf8_append[of 65533 "goText s"] 2(1) by (simp add: RuneError_def scalar_def)
  next
    case (Some k)
    obtain c where "scalar c" "encodeRune c = b # take k s" using runeTail_decode[OF Some] by blast
    then show ?thesis using utf8_append[of c "goText (drop k s)"] 2(2)[OF Some] Some by simp
  qed
qed

text \<open>The strings that are written as they are.\<close>

lemma goText_same_iff: "goText s = s \<longleftrightarrow> utf8 s"
  using goText_utf8 utf8_goText[of s] by metis

section \<open>ASCII\<close>

lemma goText_ascii [simp]: "ascii s \<Longrightarrow> goText s = s"
  by (induction s rule: goText.induct) (auto simp: ascii_def runeTail_def follows_def)

lemma ascii_goText: "ascii (goText s) \<Longrightarrow> goText s = s"
proof (induction s rule: goText.induct)
  case (2 b s)
  show ?case
  proof (cases "runeTail b s")
    case None
    then show ?thesis using 2(3) by (simp add: ascii_def RuneError_def encodeRune_def)
  next
    case (Some k)
    then show ?thesis using 2(2)[OF Some] 2(3) by (auto simp: ascii_def)
  qed
qed simp

lemma goText_eq_ascii: "ascii t \<Longrightarrow> goText s = t \<longleftrightarrow> s = t"
  using ascii_goText[of s] by (metis goText_ascii)

lemma ascii_simps [simp]: "ascii []" "ascii (b # s) \<longleftrightarrow> of_char b < (128 :: nat) \<and> ascii s" "ascii (s @ t) \<longleftrightarrow> ascii s \<and> ascii t"
  by (auto simp: ascii_def)

lemma ascii_part [simp]: "ascii s \<Longrightarrow> ascii (take n s)" "ascii s \<Longrightarrow> ascii (drop n s)"
  by (auto simp: ascii_def dest: in_set_takeD in_set_dropD)

lemma ascii_EncodeToString [simp]: "ascii (EncodeToString bs)"
proof -
  have "\<forall>i < 16. of_char (hexdigits ! i) < (128 :: nat)" unfolding all_less_16 by (simp add: upt_rec hexdigits_def)
  then have "of_char (hexchar n) < (128 :: nat)" for n by (simp add: hexchar_def)
  then show ?thesis by (induction bs) simp_all
qed

declare goText.simps(2) [simp del]

end
