(* ===== verification/Message.thy ===== *)
theory Message
  imports Wire Utf8
begin

text \<open>
  The stratum messages (\<open>message.go\<close>): their construction, their JSON documents, the
  identification of what arrives and the parsers of every message. A value of type
  \<open>interface{}\<close> keeps its dynamic type, because the parsers assert it: what a builder puts
  into a message is a slice of strings, what arrives is a slice of interfaces.
\<close>

section \<open>Dynamic values\<close>

datatype goval =
    GNil
  | GBool bool
  | GFloat rat
  | GInt int
  | GStr string
  | GStrs "string list"
  | GStrss "string list list"
  | GU64s "64 word list"
  | GArr "goval list"
  | GObj "(string \<times> goval) list"

text \<open>
  The document of a value. A string is written as UTF-8: what is not valid in it comes out as the
  replacement character.
\<close>

definition enc_str :: "string \<Rightarrow> json" where
  "enc_str s = JStr (goText s)"

lemma enc_str_ascii: "ascii t \<Longrightarrow> enc_str s = enc_str t \<longleftrightarrow> s = t"
  using goText_eq_ascii[of t s] goText_ascii[of t] by (simp add: enc_str_def)

fun marshal_val :: "goval \<Rightarrow> json" where
  "marshal_val GNil = JNull"
| "marshal_val (GBool b) = JBool b"
| "marshal_val (GFloat q) = JNum q"
| "marshal_val (GInt n) = JNum (of_int n)"
| "marshal_val (GStr s) = enc_str s"
| "marshal_val (GStrs ss) = JArr (map enc_str ss)"
| "marshal_val (GStrss sss) = JArr (map (\<lambda>ss. JArr (map enc_str ss)) sss)"
| "marshal_val (GU64s ns) = JArr (map enc_u64 ns)"
| "marshal_val (GArr vs) = JArr (map marshal_val vs)"
| "marshal_val (GObj kvs) = JObj (map (\<lambda>(k, v). (goText k, marshal_val v)) kvs)"

text \<open>The decimal text of an integer and the text of a \<open>big.Rat\<close>.\<close>

fun show_nat :: "nat \<Rightarrow> string" where
  "show_nat n = (if n < 10 then [char_of (48 + n)] else show_nat (n div 10) @ [char_of (48 + n mod 10)])"

declare show_nat.simps [simp del]

definition show_int :: "int \<Rightarrow> string" where
  "show_int n = (if n < 0 then ''-'' @ show_nat (nat (- n)) else show_nat (nat n))"

definition ratText :: "rat \<Rightarrow> string" where
  "ratText q = (case quotient_of q of (a, b) \<Rightarrow> if b = 1 then show_int a else show_int a @ ''/'' @ show_int b)"

text \<open>
  Decoding into an \<open>interface{}\<close>: a number becomes the nearest \<open>float64\<close>; one that no
  \<open>float64\<close> holds is an error.
\<close>

fun decode_any :: "json \<Rightarrow> goval" where
  "decode_any JNull = GNil"
| "decode_any (JBool b) = GBool b"
| "decode_any (JNum q) = GFloat (f64 q)"
| "decode_any (JStr s) = GStr s"
| "decode_any (JRat q) = GStr (ratText q)"
| "decode_any (JArr js) = GArr (map decode_any js)"
| "decode_any (JObj kvs) = GObj (map (\<lambda>(k, v). (k, decode_any v)) kvs)"

definition maxFloat :: rat where "maxFloat = 2 ^ 1024"

fun any_ok :: "json \<Rightarrow> bool" where
  "any_ok (JNum q) \<longleftrightarrow> \<bar>f64 q\<bar> < maxFloat"
| "any_ok (JArr js) \<longleftrightarrow> (\<forall>j \<in> set js. any_ok j)"
| "any_ok (JObj kvs) \<longleftrightarrow> (\<forall>kv \<in> set kvs. any_ok (snd kv))"
| "any_ok _ \<longleftrightarrow> True"

fun dec_gostr :: "json \<Rightarrow> string go" where
  "dec_gostr (JStr s) = Ok s"
| "dec_gostr (JRat q) = Ok (ratText q)"
| "dec_gostr _ = Err Foreign"

text \<open>
  The conversion of a \<open>float64\<close> to an unsigned integer truncates; Go leaves the value open
  when the result does not fit, and no theorem relies on it.
\<close>

definition to_u32 :: "rat \<Rightarrow> 32 word" where "to_u32 q = of_int (trunc0 q)"
definition to_u64 :: "rat \<Rightarrow> 64 word" where "to_u64 q = of_int (trunc0 q)"

section \<open>Constants\<close>

definition UnknownMessage :: nat where "UnknownMessage = 0"
definition RequestMessage :: nat where "RequestMessage = 1"
definition ResponseMessage :: nat where "ResponseMessage = 2"
definition NotificationMessage :: nat where "NotificationMessage = 3"

definition Authorize :: string where "Authorize = ''mining.authorize''"
definition Subscribe :: string where "Subscribe = ''mining.subscribe''"
definition ExtraNonceSubscribe :: string where "ExtraNonceSubscribe = ''mining.extranonce.subscribe''"
definition SetDifficulty :: string where "SetDifficulty = ''mining.set_difficulty''"
definition Notify :: string where "Notify = ''mining.notify''"
definition Submit :: string where "Submit = ''mining.submit''"

definition Unknown :: "32 word" where "Unknown = 20"
definition StaleJob :: "32 word" where "StaleJob = 21"
definition DuplicateShare :: "32 word" where "DuplicateShare = 22"
definition LowDifficultyShare :: "32 word" where "LowDifficultyShare = 23"
definition UnauthorizedWorker :: "32 word" where "UnauthorizedWorker = 24"
definition NotSubscribed :: "32 word" where "NotSubscribed = 25"

definition ExtraNonce2Size :: int where "ExtraNonce2Size = 4"

lemmas method_defs = Authorize_def Subscribe_def ExtraNonceSubscribe_def SetDifficulty_def Notify_def Submit_def

section \<open>Stratum errors\<close>

record StratumError =
  Code :: "32 word"
  seMessage :: string
  Traceback :: "string option"

text \<open>The error passed in is its text.\<close>

definition NewStratumError :: "32 word \<Rightarrow> string option \<Rightarrow> StratumError" where
  "NewStratumError code err =
     (let msg = if code = StaleJob then ''Stale Job''
                else if code = DuplicateShare then ''Duplicate share''
                else if code = LowDifficultyShare then ''Low difficulty share''
                else if code = UnauthorizedWorker then ''Unauthorized worker''
                else if code = NotSubscribed then ''Not subscribed''
                else ''Other/Unknown''
      in \<lparr>Code = code, seMessage = (case err of None \<Rightarrow> msg | Some e \<Rightarrow> msg @ '': '' @ e), Traceback = None\<rparr>)"

definition marshalStratumError :: "StratumError \<Rightarrow> json" where
  "marshalStratumError s = JArr [enc_u32 (Code s), enc_str (seMessage s),
     (case Traceback s of None \<Rightarrow> JNull | Some t \<Rightarrow> enc_str t)]"

text \<open>A type assertion without the comma-ok form panics.\<close>

fun mustFloat :: "goval \<Rightarrow> rat go" where
  "mustFloat (GFloat q) = Ok q"
| "mustFloat _ = Panic"

fun mustStr :: "goval \<Rightarrow> string go" where
  "mustStr (GStr s) = Ok s"
| "mustStr _ = Panic"

definition unmarshalStratumError :: "StratumError \<Rightarrow> json \<Rightarrow> StratumError go" where
  "unmarshalStratumError s p =
     bnd (case p of JNull \<Rightarrow> Ok []
           | JArr js \<Rightarrow> if any_ok p then Ok (map decode_any js) else Err Foreign
           | _ \<Rightarrow> Err Foreign) (\<lambda>tmp.
     bnd (bnd (index tmp 0) mustFloat) (\<lambda>code.
     bnd (bnd (index tmp 1) mustStr) (\<lambda>msg.
     bnd (index tmp 2) (\<lambda>v.
     if v = GNil then Ok (s\<lparr>Code := to_u32 code, seMessage := msg\<rparr>)
     else bnd (mustStr v) (\<lambda>trace.
       Ok \<lparr>Code = to_u32 code, seMessage = msg, Traceback = Some trace\<rparr>)))))"

definition StratumError_String :: "StratumError \<Rightarrow> string" where
  "StratumError_String s = seMessage s"

section \<open>Requests and responses\<close>

record Request =
  reqID :: "64 word option"
  Method :: string
  Params :: goval

record Response =
  respID :: "64 word"
  respError :: "StratumError option"
  Result :: goval

datatype Message = MReq Request | MResp Response

fun MessageType :: "Message \<Rightarrow> nat" where
  "MessageType (MReq _) = RequestMessage"
| "MessageType (MResp _) = ResponseMessage"

definition NewRequest :: "64 word option \<Rightarrow> string \<Rightarrow> goval \<Rightarrow> Request" where
  "NewRequest ID method params = \<lparr>reqID = ID, Method = method, Params = params\<rparr>"

definition NewResponse :: "64 word \<Rightarrow> goval \<Rightarrow> StratumError option \<Rightarrow> Response" where
  "NewResponse ID result err = \<lparr>respID = ID, respError = err, Result = result\<rparr>"

text \<open>The documents \<open>json.Marshal\<close> writes; a nil result is left out (\<open>omitempty\<close>).\<close>

definition marshalRequest :: "Request \<Rightarrow> json" where
  "marshalRequest req = JObj [(''id'', case reqID req of None \<Rightarrow> JNull | Some n \<Rightarrow> enc_u64 n),
     (''method'', enc_str (Method req)), (''params'', marshal_val (Params req))]"

definition marshalResponse :: "Response \<Rightarrow> json" where
  "marshalResponse resp = JObj ([(''id'', enc_u64 (respID resp)),
     (''error'', case respError resp of None \<Rightarrow> JNull | Some e \<Rightarrow> marshalStratumError e)] @
     (if Result resp = GNil then [] else [(''result'', marshal_val (Result resp))]))"

fun marshalMessage :: "Message \<Rightarrow> json" where
  "marshalMessage (MReq req) = marshalRequest req"
| "marshalMessage (MResp resp) = marshalResponse resp"

text \<open>
  Decoding takes the keys in the order of the text. A value of the wrong type is skipped and
  reported at the end; an error of \<open>UnmarshalJSON\<close> ends the decoding at once.
\<close>

definition keyIs :: "string \<Rightarrow> string \<Rightarrow> bool" where
  "keyIs k name \<longleftrightarrow> map upper k = map upper name"

definition reqEntry :: "string \<times> json \<Rightarrow> Request \<times> bool \<Rightarrow> Request \<times> bool" where
  "reqEntry = (\<lambda>(k, v) (req, bad).
     if keyIs k ''id'' then
       (if v = JNull then (req\<lparr>reqID := None\<rparr>, bad)
        else case dec_u64 v of Ok n \<Rightarrow> (req\<lparr>reqID := Some n\<rparr>, bad) | _ \<Rightarrow> (req, True))
     else if keyIs k ''method'' then
       (if v = JNull then (req, bad)
        else case dec_gostr v of Ok s \<Rightarrow> (req\<lparr>Method := s\<rparr>, bad) | _ \<Rightarrow> (req, True))
     else if keyIs k ''params'' then (req\<lparr>Params := decode_any v\<rparr>, bad \<or> \<not> any_ok v)
     else (req, bad))"

definition unmarshalRequest :: "json \<Rightarrow> Request go" where
  "unmarshalRequest doc = (case doc of
       JObj entries \<Rightarrow> (case fold reqEntry entries (\<lparr>reqID = None, Method = [], Params = GNil\<rparr>, False) of
         (req, bad) \<Rightarrow> if bad then Err Foreign else Ok req)
     | JNull \<Rightarrow> Ok \<lparr>reqID = None, Method = [], Params = GNil\<rparr>
     | _ \<Rightarrow> Err Foreign)"

definition respEntry :: "string \<times> json \<Rightarrow> Response \<times> bool \<Rightarrow> (Response \<times> bool) go" where
  "respEntry = (\<lambda>(k, v) (resp, bad).
     if keyIs k ''id'' then
       (if v = JNull then Ok (resp, bad)
        else case dec_u64 v of Ok n \<Rightarrow> Ok (resp\<lparr>respID := n\<rparr>, bad) | _ \<Rightarrow> Ok (resp, True))
     else if keyIs k ''error'' then
       (if v = JNull then Ok (resp\<lparr>respError := None\<rparr>, bad)
        else bnd (unmarshalStratumError
            (case respError resp of None \<Rightarrow> \<lparr>Code = 0, seMessage = [], Traceback = None\<rparr> | Some s \<Rightarrow> s) v) (\<lambda>s.
          Ok (resp\<lparr>respError := Some s\<rparr>, bad)))
     else if keyIs k ''result'' then Ok (resp\<lparr>Result := decode_any v\<rparr>, bad \<or> \<not> any_ok v)
     else Ok (resp, bad))"

definition unmarshalResponse :: "json \<Rightarrow> Response go" where
  "unmarshalResponse doc = (case doc of
       JObj entries \<Rightarrow> bnd (foldo respEntry entries (\<lparr>respID = 0, respError = None, Result = GNil\<rparr>, False))
         (\<lambda>(resp, bad). if bad then Err Foreign else Ok resp)
     | JNull \<Rightarrow> Ok \<lparr>respID = 0, respError = None, Result = GNil\<rparr>
     | _ \<Rightarrow> Err Foreign)"

text \<open>The data received is a JSON document, or no JSON at all (\<open>None\<close>).\<close>

definition IdentifyMessage :: "json option \<Rightarrow> (Message \<times> nat) go" where
  "IdentifyMessage data = (case data of None \<Rightarrow> Err Foreign | Some doc \<Rightarrow>
     bnd (unmarshalRequest doc) (\<lambda>req.
     if Method req \<noteq> [] then
       (if reqID req = None then Ok (MReq req, NotificationMessage) else Ok (MReq req, RequestMessage))
     else bnd (unmarshalResponse doc) (\<lambda>resp.
       if respID resp = 0 then Err Foreign else Ok (MResp resp, ResponseMessage))))"

section \<open>Builders and parsers\<close>

text \<open>A type assertion with the comma-ok form, whose failure is a parse error.\<close>

fun asArr :: "goval \<Rightarrow> goval list go" where
  "asArr (GArr vs) = Ok vs"
| "asArr _ = Err (MsgError Parse)"

fun asStr :: "goval \<Rightarrow> string go" where
  "asStr (GStr s) = Ok s"
| "asStr _ = Err (MsgError Parse)"

fun asBool :: "goval \<Rightarrow> bool go" where
  "asBool (GBool b) = Ok b"
| "asBool _ = Err (MsgError Parse)"

fun asFloat :: "goval \<Rightarrow> rat go" where
  "asFloat (GFloat q) = Ok q"
| "asFloat _ = Err (MsgError Parse)"

definition strParam :: "goval list \<Rightarrow> nat \<Rightarrow> string go" where
  "strParam params i = bnd (index params i) asStr"

definition AuthorizeRequest :: "64 word option \<Rightarrow> string \<Rightarrow> string \<Rightarrow> Request" where
  "AuthorizeRequest ID name address =
     (let user = if name = [] \<or> address = [] then address @ name else address @ ''.'' @ name
      in \<lparr>reqID = ID, Method = Authorize, Params = GStrs [user, []]\<rparr>)"

definition ParseAuthorizeRequest :: "Request \<Rightarrow> string go" where
  "ParseAuthorizeRequest req =
     (if Method req \<noteq> Authorize then Err (MsgError Parse)
      else bnd (asArr (Params req)) (\<lambda>auth.
        if length auth < 2 then Err (MsgError Parse)
        else strParam auth 0))"

definition AuthorizeResponse :: "64 word \<Rightarrow> bool \<Rightarrow> StratumError option \<Rightarrow> Response" where
  "AuthorizeResponse ID status err = \<lparr>respID = ID, respError = err, Result = GBool status\<rparr>"

definition ParseAuthorizeResponse :: "Response \<Rightarrow> (bool \<times> StratumError option) go" where
  "ParseAuthorizeResponse resp = bnd (asBool (Result resp)) (\<lambda>status. Ok (status, respError resp))"

definition SubscribeRequest :: "64 word option \<Rightarrow> string \<Rightarrow> string \<Rightarrow> Request" where
  "SubscribeRequest ID userAgent notifyID =
     \<lparr>reqID = ID, Method = Subscribe,
      Params = GStrs (if notifyID \<noteq> [] then [userAgent, notifyID] else [userAgent])\<rparr>"

definition ParseSubscribeRequest :: "Request \<Rightarrow> (string \<times> string) go" where
  "ParseSubscribeRequest req =
     (if Method req \<noteq> Subscribe then Err (MsgError Parse)
      else bnd (asArr (Params req)) (\<lambda>params.
        if length params = 0 then Err (MsgError Parse)
        else bnd (strParam params 0) (\<lambda>miner.
          if length params = 2 then bnd (strParam params 1) (\<lambda>ID. Ok (miner, ID))
          else Ok (miner, []))))"

definition SubscribeResponse :: "64 word \<Rightarrow> string \<Rightarrow> string \<Rightarrow> int \<Rightarrow> StratumError option \<Rightarrow> Response" where
  "SubscribeResponse ID notifyID extraNonce1 extraNonce2Size err =
     (if err \<noteq> None then \<lparr>respID = ID, respError = err, Result = GNil\<rparr>
      else \<lparr>respID = ID, respError = None, Result = GArr [
        GStrss [[''mining.set_difficulty'', notifyID], [''mining.notify'', notifyID]],
        GStr extraNonce1, GInt extraNonce2Size]\<rparr>)"

definition ParseExtraNonceSubscribeRequest :: "Request \<Rightarrow> unit go" where
  "ParseExtraNonceSubscribeRequest req =
     (if Method req \<noteq> ExtraNonceSubscribe then Err (MsgError Parse) else Ok ())"

definition ExtraNonceSubscribeResponse :: "64 word \<Rightarrow> Response" where
  "ExtraNonceSubscribeResponse ID = \<lparr>respID = ID, respError = None, Result = GBool False\<rparr>"

text \<open>The loop over the identifiers of a subscribe response, which also looks at the first one.\<close>

fun findNotifyID :: "goval list \<Rightarrow> goval list \<Rightarrow> string go" where
  "findNotifyID ids [] = Ok []"
| "findNotifyID ids (entry # rest) =
     bnd (index ids 0) (\<lambda>first.
     if first = GStr Notify then bnd (index ids 1) mustStr
     else (case entry of
         GArr idSet \<Rightarrow> bnd (index idSet 0) (\<lambda>v. bnd (asStr v) (\<lambda>ID.
           if ID \<noteq> Notify then findNotifyID ids rest else bnd (index idSet 1) mustStr))
       | _ \<Rightarrow> findNotifyID ids rest))"

definition ParseSubscribeResponse :: "Response \<Rightarrow> (string \<times> string \<times> 64 word) go" where
  "ParseSubscribeResponse resp =
     (if respError resp \<noteq> None then Err (MsgError Parse)
      else bnd (asArr (Result resp)) (\<lambda>res.
        bnd (bnd (index res 0) asArr) (\<lambda>ids.
        bnd (findNotifyID ids ids) (\<lambda>nID.
        bnd (strParam res 1) (\<lambda>extraNonce1.
        bnd (bnd (index res 2) asFloat) (\<lambda>nonce2Size.
        Ok (nID, extraNonce1, to_u64 nonce2Size)))))))"

definition SetDifficultyNotification :: "rat \<Rightarrow> Request" where
  "SetDifficultyNotification difficulty =
     \<lparr>reqID = None, Method = SetDifficulty, Params = GU64s [to_u64 (f64 difficulty)]\<rparr>"

definition ParseSetDifficultyNotification :: "Request \<Rightarrow> 64 word go" where
  "ParseSetDifficultyNotification req =
     (if Method req \<noteq> SetDifficulty then Err (MsgError Parse)
      else bnd (asArr (Params req)) (\<lambda>params.
        bnd (bnd (index params 0) mustFloat) (\<lambda>d. Ok (to_u64 d))))"

definition WorkNotification :: "string \<Rightarrow> string \<Rightarrow> string \<Rightarrow> string \<Rightarrow> string \<Rightarrow> string \<Rightarrow> bool \<Rightarrow> Request" where
  "WorkNotification jobId prevBlock genTx1 blockVersion nBits nTime cleanJob =
     \<lparr>reqID = None, Method = Notify,
      Params = GArr [GStr jobId, GStr prevBlock, GStr genTx1, GStr [], GStrs [],
        GStr blockVersion, GStr nBits, GStr nTime, GBool cleanJob]\<rparr>"

definition ParseWorkNotification ::
    "Request \<Rightarrow> (string \<times> string \<times> string \<times> string \<times> string \<times> string \<times> bool) go" where
  "ParseWorkNotification req =
     (if Method req \<noteq> Notify then Err (MsgError Parse)
      else bnd (asArr (Params req)) (\<lambda>params.
        bnd (strParam params 0) (\<lambda>jobId.
        bnd (strParam params 1) (\<lambda>prevBlock.
        bnd (strParam params 2) (\<lambda>genTx1.
        bnd (strParam params 5) (\<lambda>blockVersion.
        bnd (strParam params 6) (\<lambda>nBits.
        bnd (strParam params 7) (\<lambda>nTime.
        bnd (bnd (index params 8) asBool) (\<lambda>cleanJob.
        Ok (jobId, prevBlock, genTx1, blockVersion, nBits, nTime, cleanJob))))))))))"

definition SubmitWorkRequest :: "64 word option \<Rightarrow> string \<Rightarrow> string \<Rightarrow> string \<Rightarrow> string \<Rightarrow> string \<Rightarrow> Request" where
  "SubmitWorkRequest ID workerName jobId extraNonce2 nTime nonce =
     \<lparr>reqID = ID, Method = Submit, Params = GStrs [workerName, jobId, extraNonce2, nTime, nonce]\<rparr>"

definition ParseSubmitWorkRequest :: "Request \<Rightarrow> (string \<times> string \<times> string \<times> string \<times> string) go" where
  "ParseSubmitWorkRequest req =
     (if Method req \<noteq> Submit then Err (MsgError Parse)
      else bnd (asArr (Params req)) (\<lambda>params.
        if length params < 5 then Err (MsgError Parse)
        else bnd (strParam params 0) (\<lambda>workerName.
          bnd (strParam params 1) (\<lambda>jobId.
          bnd (strParam params 2) (\<lambda>extraNonce2.
          bnd (strParam params 3) (\<lambda>nTime.
          bnd (strParam params 4) (\<lambda>nonce.
          Ok (workerName, jobId, extraNonce2, nTime, nonce))))))))"

definition SubmitWorkResponse :: "64 word \<Rightarrow> bool \<Rightarrow> StratumError option \<Rightarrow> Response" where
  "SubmitWorkResponse ID status err = \<lparr>respID = ID, respError = err, Result = GBool status\<rparr>"

definition ParseSubmitWorkResponse :: "Response \<Rightarrow> (bool \<times> StratumError option) go" where
  "ParseSubmitWorkResponse resp = bnd (asBool (Result resp)) (\<lambda>status. Ok (status, respError resp))"

section \<open>Headers\<close>

text \<open>\<open>copy(b[i:j], src)\<close>; the capacity of \<open>b\<close> is taken to be its length.\<close>

definition copyInto :: "nat \<Rightarrow> nat \<Rightarrow> string \<Rightarrow> string \<Rightarrow> string go" where
  "copyInto i j src b = (if i \<le> j \<and> j \<le> length b
     then let n = min (j - i) (length src) in Ok (take i b @ take n src @ drop (i + n) b)
     else Panic)"

definition minGenTx1ELen :: nat where "minGenTx1ELen = 288"

definition GenerateBlockHeader :: "Wire \<Rightarrow> string \<Rightarrow> string \<Rightarrow> string \<Rightarrow> string \<Rightarrow> BlockHeader go" where
  "GenerateBlockHeader W blockVersionE prevBlockE genTx1E extraNonce1E =
     (if length genTx1E < minGenTx1ELen then Err (MsgError Decode)
      else let headerE = blockVersionE @ prevBlockE @ take 216 genTx1E @ extraNonce1E @ drop 224 genTx1E
           in bnd (map_err (\<lambda>_. MsgError Decode) (DecodeString headerE)) (\<lambda>headerD.
              map_err (\<lambda>_. MsgError HeaderInvalid) (FromBytes W headerD)))"

definition CPU :: string where "CPU = ''cpu''"
definition Gominer :: string where "Gominer = ''decred-gominer''"
definition NiceHashValidator :: string where "NiceHashValidator = ''nicehash''"

definition GenerateSolvedBlockHeader ::
    "Wire \<Rightarrow> string \<Rightarrow> string \<Rightarrow> string \<Rightarrow> string \<Rightarrow> string \<Rightarrow> string \<Rightarrow> BlockHeader go" where
  "GenerateSolvedBlockHeader W headerE extraNonce1E extraNonce2E nTimeE nonceE miner =
     bnd (if miner = CPU \<or> miner = Gominer then
            bnd (copyInto 272 280 nTimeE headerE) (\<lambda>b.
            bnd (copyInto 280 288 nonceE b) (\<lambda>b.
            bnd (copyInto 288 296 extraNonce1E b)
              (copyInto 296 304 extraNonce2E)))
          else Err (MsgError MinerUnknown)) (\<lambda>headerEB.
     bnd (map_err (\<lambda>_. MsgError Decode) (DecodeString headerEB)) (\<lambda>solvedHeaderD.
     map_err (\<lambda>_. MsgError Parse) (FromBytes W solvedHeaderD)))"

end
