(* ===== verification/PayShares.thy ===== *)
theory PayShares
  imports PaymentMgr
begin

text \<open>
  The percentages computed from the shares of a batch: the tally kept through shared pointers
  is the sum of the weights of each account, and the percentages are positive and sum to one.
\<close>

section \<open>Ranging over maps\<close>

lemma range_map_mset:
  assumes "fair e" "distinct_keys m"
  shows "mset (range_map e m) = mset m"
proof -
  let ?f = "\<lambda>k. case map_of m k of None \<Rightarrow> [] | Some v \<Rightarrow> [(k, v)]"
  have "mset (range_map e m) = (\<Sum>k\<in>#mset (eOrder e (keys m)). mset (?f k))"
    by (simp add: range_map_def mset_concat comp_def flip: mset_map sum_mset_sum_list)
  also have "\<dots> = (\<Sum>k\<in>#mset (keys m). mset (?f k))"
    using assms(1) by (simp add: fair_def)
  also have "\<dots> = mset (concat (map ?f (keys m)))"
    by (simp add: mset_concat comp_def flip: mset_map sum_mset_sum_list)
  also have "concat (map ?f (keys m)) = m"
    using assms(2)
  proof (induction m)
    case (Cons p m)
    obtain k v where p: "p = (k, v)" by (cases p)
    have "concat (map (\<lambda>k'. case map_of (p # m) k' of None \<Rightarrow> [] | Some v \<Rightarrow> [(k', v)]) (keys m)) =
      concat (map (\<lambda>k'. case map_of m k' of None \<Rightarrow> [] | Some v \<Rightarrow> [(k', v)]) (keys m))"
      using Cons.prems p by (intro arg_cong[where f = concat] map_cong) auto
    then show ?case using Cons p by simp
  qed simp
  finally show ?thesis .
qed

lemma range_map_set: "fair e \<Longrightarrow> distinct_keys m \<Longrightarrow> set (range_map e m) = set m"
  using range_map_mset[of e m] by (metis set_mset_mset)

lemma range_map_keys:
  assumes "fair e" "distinct_keys m"
  shows "distinct_keys (range_map e m)" "set (keys (range_map e m)) = set (keys m)"
proof -
  have "mset (keys (range_map e m)) = mset (keys m)"
    using range_map_mset[OF assms] by (simp add: keys_def)
  then show "distinct_keys (range_map e m)" "set (keys (range_map e m)) = set (keys m)"
    using assms(2) mset_eq_imp_distinct_iff unfolding distinct_keys_def
    by (blast, metis set_mset_mset)
qed

lemma range_map_length: "fair e \<Longrightarrow> distinct_keys m \<Longrightarrow> length (range_map e m) = length m"
  using range_map_mset[of e m] by (metis size_mset)

lemma range_map_of:
  assumes "fair e" "distinct_keys m"
  shows "map_of (range_map e m) = map_of m"
proof
  fix k
  show "map_of (range_map e m) k = map_of m k"
    using range_map_set[OF assms] range_map_keys[OF assms] assms(2)
    by (metis map_of_None_keys map_of_Some_distinct not_Some_eq)
qed

section \<open>The tally\<close>

definition accWeight :: "string \<Rightarrow> Share list \<Rightarrow> rat" where
  "accWeight a shares = sum_list (map shWeight (filter (\<lambda>s. shAccount s = a) shares))"

definition totalWeight :: "Share list \<Rightarrow> rat" where
  "totalWeight shares = sum_list (map shWeight shares)"

definition tallied :: "Share list \<Rightarrow> nat \<Rightarrow> tallies \<Rightarrow> bool" where
  "tallied shares n t \<longleftrightarrow>
     totalShares t = totalWeight (take n shares) \<and> length (weights t) = length shares \<and>
     (\<forall>i. n \<le> i \<longrightarrow> i < length shares \<longrightarrow> weights t ! i = shWeight (shares ! i)) \<and>
     distinct_keys (tally t) \<and>
     (\<forall>a. case map_of (tally t) a of
        None \<Rightarrow> a \<notin> shAccount ` set (take n shares)
      | Some p \<Rightarrow> p < n \<and> shAccount (shares ! p) = a \<and> weights t ! p = accWeight a (take n shares))"

lemma accWeight_snoc:
  "accWeight a (xs @ [s]) = accWeight a xs + (if shAccount s = a then shWeight s else 0)"
  by (simp add: accWeight_def)

lemma totalWeight_snoc: "totalWeight (xs @ [s]) = totalWeight xs + shWeight s"
  by (simp add: totalWeight_def)

lemma tallied_step:
  assumes t: "tallied shares n t" and n: "n < length shares"
  shows "tallied shares (Suc n) (tallyShare (shAccount (shares ! n), n) t)"
proof -
  let ?s = "shares ! n" and ?a = "shAccount (shares ! n)"
  have tk: "take (Suc n) shares = take n shares @ [?s]"
    using n by (simp add: take_Suc_conv_app_nth)
  have w: "weights t ! n = shWeight ?s" "length (weights t) = length shares"
    "totalShares t = totalWeight (take n shares)" "distinct_keys (tally t)"
    "\<And>i. n \<le> i \<Longrightarrow> i < length shares \<Longrightarrow> weights t ! i = shWeight (shares ! i)"
    using t n by (auto simp: tallied_def)
  have m: "case map_of (tally t) a of
        None \<Rightarrow> a \<notin> shAccount ` set (take n shares)
      | Some p \<Rightarrow> p < n \<and> shAccount (shares ! p) = a \<and> weights t ! p = accWeight a (take n shares)" for a
    using t by (simp add: tallied_def)
  have zero: "a \<notin> shAccount ` set xs \<Longrightarrow> accWeight a xs = 0" for a xs
    by (induction xs) (auto simp: accWeight_def)
  show ?thesis
  proof (cases "map_of (tally t) ?a")
    case None
    then have na: "?a \<notin> shAccount ` set (take n shares)" using m[of ?a] by simp
    have "case map_of (put ?a n (tally t)) a of
        None \<Rightarrow> a \<notin> shAccount ` set (take (Suc n) shares)
      | Some p \<Rightarrow> p < Suc n \<and> shAccount (shares ! p) = a \<and>
          weights t ! p = accWeight a (take (Suc n) shares)" for a
    proof (cases "a = ?a")
      case True
      then show ?thesis using w(1) zero[OF na] by (simp add: tk accWeight_snoc)
    next
      case False
      then show ?thesis using m[of a] by (auto simp: tk accWeight_snoc split: option.splits)
    qed
    then show ?thesis
      using w None unfolding tallied_def
      by (simp add: tallyShare_def Let_def tk totalWeight_snoc del: map_of_put cong: option.case_cong)
  next
    case (Some q)
    then have q: "q < n" "shAccount (shares ! q) = ?a" "weights t ! q = accWeight ?a (take n shares)"
      using m[of ?a] by simp_all
    have ql: "q < length (weights t)" using q(1) n w(2) by simp
    have "case map_of (tally t) a of
        None \<Rightarrow> a \<notin> shAccount ` set (take (Suc n) shares)
      | Some p \<Rightarrow> p < Suc n \<and> shAccount (shares ! p) = a \<and>
          (weights t)[q := weights t ! q + weights t ! n] ! p = accWeight a (take (Suc n) shares)" for a
    proof (cases "a = ?a")
      case True
      then show ?thesis using Some q ql w(1) by (simp add: tk accWeight_snoc)
    next
      case False
      then show ?thesis
        using m[of a] q(2) ql by (auto simp: tk accWeight_snoc nth_list_update split: option.splits)
    qed
    then show ?thesis
      using w Some q(1) unfolding tallied_def
      by (simp add: tallyShare_def Let_def tk totalWeight_snoc cong: option.case_cong)
  qed
qed

lemma tallied_fold:
  "n \<le> length shares \<Longrightarrow> tallied shares n (fold tallyShare (map (\<lambda>i. (shAccount (shares ! i), i)) [0 ..< n])
     \<lparr>totalShares = 0, weights = map shWeight shares, tally = []\<rparr>)"
proof (induction n)
  case 0
  then show ?case by (simp add: tallied_def totalWeight_def)
next
  case (Suc n)
  then show ?case using tallied_step[of shares n] by simp
qed

lemma zip_upt: "zip (map f xs) [0 ..< length xs] = map (\<lambda>i. (f (xs ! i), i)) [0 ..< length xs]"
  by (rule nth_equalityI) auto

section \<open>The percentages\<close>

lemma sum_accWeight:
  assumes "finite A" "shAccount ` set shares \<subseteq> A"
  shows "(\<Sum>a\<in>A. accWeight a shares) = totalWeight shares"
  using assms(2)
proof (induction shares)
  case (Cons s shares)
  have "accWeight a (s # shares) = (if a = shAccount s then shWeight s else 0) + accWeight a shares" for a
    by (simp add: accWeight_def)
  then have "(\<Sum>a\<in>A. accWeight a (s # shares)) =
      (\<Sum>a\<in>A. if a = shAccount s then shWeight s else 0) + (\<Sum>a\<in>A. accWeight a shares)"
    by (simp add: sum.distrib)
  then show ?case using Cons assms(1) by (simp add: totalWeight_def)
qed (simp add: accWeight_def totalWeight_def)

lemma total_as_sum: "distinct_keys m \<Longrightarrow> total m = (\<Sum>k\<in>set (keys m). the (map_of m k))"
proof (induction m)
  case (Cons p m)
  obtain k v where p: "p = (k, v)" by (cases p)
  have "(\<Sum>k'\<in>set (keys m). the (map_of (p # m) k')) = (\<Sum>k'\<in>set (keys m). the (map_of m k'))"
    using Cons.prems p by (intro sum.cong) auto
  then show ?case using Cons p by simp
qed simp

lemma map_of_fst_fun: "map_of (map (\<lambda>x. (fst x, g (fst x))) xs) a = (if a \<in> set (map fst xs) then Some (g a) else None)"
  by (induction xs) auto

lemma foldo_put_all:
  assumes "distinct (map fst xs)" "\<And>x. x \<in> set xs \<Longrightarrow> f x = (\<lambda>m. Ok (put (fst x) (g x) m))"
  shows "\<exists>m'. foldo f xs m = (Ok m' :: _ go) \<and> (distinct_keys m \<longrightarrow> distinct_keys m') \<and>
    map_of m' = map_of m ++ map_of (map (\<lambda>x. (fst x, g x)) xs)"
  using assms
proof (induction xs arbitrary: m)
  case (Cons x xs)
  let ?M = "map_of (map (\<lambda>x. (fst x, g x)) xs)"
  have d: "distinct (map fst xs)" using Cons.prems(1) by simp
  have f: "\<And>y. y \<in> set xs \<Longrightarrow> f y = (\<lambda>m. Ok (put (fst y) (g y) m))"
    using Cons.prems(2) by simp
  obtain m' where m': "foldo f xs (put (fst x) (g x) m) = Ok m'"
    "distinct_keys (put (fst x) (g x) m) \<longrightarrow> distinct_keys m'"
    "map_of m' = map_of (put (fst x) (g x) m) ++ ?M"
    using Cons.IH[of "put (fst x) (g x) m", OF d f] by blast
  have "fst x \<notin> dom ?M"
    using Cons.prems(1) by (simp add: dom_map_of_conv_image_fst image_image)
  then have eq: "map_of m' = map_of m ++ map_of (map (\<lambda>x. (fst x, g x)) (x # xs))"
    by (simp add: m'(3) map_add_upd_left)
  have "foldo f (x # xs) m = Ok m'" using m'(1) Cons.prems(2)[of x] by simp
  moreover have "distinct_keys m \<longrightarrow> distinct_keys m'" using m'(2) by simp
  ultimately show ?case using eq by blast
qed simp

lemma sharePercentages_tally:
  assumes "t = fold tallyShare (zip (map shAccount shares) [0 ..< length shares])
    \<lparr>totalShares = 0, weights = map shWeight shares, tally = []\<rparr>"
  shows "totalShares t = totalWeight shares" "distinct_keys (tally t)"
    "set (keys (tally t)) = shAccount ` set shares"
    "(a, p) \<in> set (tally t) \<Longrightarrow> weights t ! p = accWeight a shares"
proof -
  have t: "tallied shares (length shares) t"
    using tallied_fold[of "length shares" shares] by (simp add: assms zip_upt)
  show "totalShares t = totalWeight shares" "distinct_keys (tally t)"
    using t by (simp_all add: tallied_def)
  then show w: "(a, p) \<in> set (tally t) \<Longrightarrow> weights t ! p = accWeight a shares"
    using t map_of_Some_distinct[of "tally t" a p] unfolding tallied_def by (auto dest!: spec[of _ a])
  have "a \<in> set (keys (tally t)) \<longleftrightarrow> a \<in> shAccount ` set shares" for a
  proof (cases "map_of (tally t) a")
    case None
    then show ?thesis
      using t map_of_None_keys[of "tally t" a] unfolding tallied_def by (auto dest!: spec[of _ a])
  next
    case (Some p)
    then have "p < length shares" "shAccount (shares ! p) = a"
      using t unfolding tallied_def by (auto dest!: spec[of _ a])
    then show ?thesis
      using Some map_of_None_keys[of "tally t" a] by (auto intro!: image_eqI[where x = "shares ! p"])
  qed
  then show "set (keys (tally t)) = shAccount ` set shares" by blast
qed

text \<open>Positive weights.\<close>

lemma totalWeight_pos:
  "shares \<noteq> [] \<Longrightarrow> (\<And>s. s \<in> set shares \<Longrightarrow> 0 < shWeight s) \<Longrightarrow> 0 < totalWeight shares"
  by (induction shares rule: list_nonempty_induct) (auto simp: totalWeight_def intro: add_pos_pos)

lemma accWeight_pos:
  "a \<in> shAccount ` set shares \<Longrightarrow> (\<And>s. s \<in> set shares \<Longrightarrow> 0 < shWeight s) \<Longrightarrow> 0 < accWeight a shares"
  using totalWeight_pos[of "filter (\<lambda>s. shAccount s = a) shares"]
  by (auto simp: accWeight_def totalWeight_def filter_empty_conv)

lemma sharePercentages_ok:
  assumes e: "fair e" and ne: "shares \<noteq> []" and pos: "\<And>s. s \<in> set shares \<Longrightarrow> 0 < shWeight s"
  shows "\<exists>m. sharePercentages e shares = Ok m \<and> distinct_keys m \<and>
    map_of m = (\<lambda>a. if a \<in> shAccount ` set shares
                    then Some (accWeight a shares / totalWeight shares) else None)"
proof -
  define t where "t = fold tallyShare (zip (map shAccount shares) [0 ..< length shares])
    \<lparr>totalShares = 0, weights = map shWeight shares, tally = []\<rparr>"
  note T = sharePercentages_tally[OF t_def]
  let ?f = "\<lambda>(account, p) percentages.
        if weights t ! p = 0 then Err (PoolError DivideByZero)
        else if totalShares t = 0 then Panic
        else Ok (put account (weights t ! p / totalShares t) percentages)"
  let ?xs = "range_map e (tally t)"
  have xs: "distinct (map fst ?xs)" "set ?xs = set (tally t)" "map_of ?xs = map_of (tally t)"
    using range_map_keys(1)[OF e T(2)] range_map_set[OF e T(2)] range_map_of[OF e T(2)]
    by (simp_all add: distinct_keys_def keys_def)
  have W: "0 < totalShares t" using totalWeight_pos[OF ne pos] T(1) by simp
  have val: "weights t ! p = accWeight a shares \<and> 0 < accWeight a shares" if "(a, p) \<in> set ?xs" for a p
  proof -
    have "a \<in> shAccount ` set shares"
      using that xs(2) T(3) by (force simp: keys_def)
    then show ?thesis using that xs(2) T(4) accWeight_pos[OF _ pos] by auto
  qed
  have step: "?f x = (\<lambda>m. Ok (put (fst x) (accWeight (fst x) shares / totalShares t) m))"
    if "x \<in> set ?xs" for x
    using val[of "fst x" "snd x"] that W by (auto simp: fun_eq_iff split: prod.splits)
  obtain m where m: "foldo ?f ?xs [] = Ok m" "distinct_keys m"
    "map_of m = map_of (map (\<lambda>x. (fst x, accWeight (fst x) shares / totalShares t)) ?xs)"
    using foldo_put_all[OF xs(1) step, of "[]"] by auto
  have "map_of (map (\<lambda>x. (fst x, accWeight (fst x) shares / totalShares t)) ?xs) a =
      (if a \<in> set (map fst ?xs) then Some (accWeight a shares / totalShares t) else None)" for a
    by (rule map_of_fst_fun)
  moreover have "set (map fst ?xs) = shAccount ` set shares"
    using xs(2) T(3) by (simp add: keys_def)
  ultimately show ?thesis
    using m T(1) by (auto simp: sharePercentages_def t_def[symmetric] fun_eq_iff)
qed

lemma foldo_fails:
  assumes "x \<in> set xs" "\<And>b. f x b = Err err"
    "\<And>y b. y \<in> set xs \<Longrightarrow> f y b = Err err \<or> (\<exists>b'. f y b = Ok b')"
  shows "foldo f xs b = Err err"
  using assms
proof (induction xs arbitrary: b)
  case (Cons z zs)
  show ?case
  proof (cases "f z b")
    case (Ok b')
    then have "x \<in> set zs" using Cons.prems(1,2) by (auto)
    then show ?thesis using Cons.IH[of b'] Cons.prems Ok by simp
  next
    case (Err e)
    then show ?thesis using Cons.prems(3)[of z b] by auto
  next
    case Panic
    then show ?thesis using Cons.prems(3)[of z b] by auto
  qed
qed simp

lemma share_percentages_all:
  assumes "fair e" "shares \<noteq> []" "\<forall>s \<in> set shares. 0 < shWeight s"
  shows "\<exists>m. sharePercentages e shares = Ok m \<and> distinct_keys m \<and>
    map_of m = (\<lambda>a. if a \<in> shAccount ` set shares
                    then Some (accWeight a shares / totalWeight shares) else None) \<and>
    (\<forall>(a, r) \<in> set m. 0 < r) \<and> total m = 1"
proof -
  obtain m where m: "sharePercentages e shares = Ok m" "distinct_keys m"
    "map_of m = (\<lambda>a. if a \<in> shAccount ` set shares
                    then Some (accWeight a shares / totalWeight shares) else None)"
    using sharePercentages_ok[OF assms(1,2)] assms(3) by blast
  have W: "0 < totalWeight shares" using totalWeight_pos[OF assms(2)] assms(3) by blast
  have k: "a \<in> set (keys m) \<longleftrightarrow> a \<in> shAccount ` set shares" for a
    using map_of_None_keys[of m a] unfolding m(3) by (simp split: if_splits)
  have "0 < r" if "(a, r) \<in> set m" for a r
  proof -
    have "map_of m a = Some r" using that map_of_Some_distinct[OF m(2)] by blast
    then show ?thesis
      using accWeight_pos[of a shares] assms(3) W by (auto simp: m(3) split: if_splits)
  qed
  moreover have "total m = 1"
  proof -
    have "total m = (\<Sum>a\<in>shAccount ` set shares. accWeight a shares / totalWeight shares)"
      unfolding total_as_sum[OF m(2)] using k by (intro sum.cong) (auto simp: m(3))
    also have "\<dots> = totalWeight shares / totalWeight shares"
      using sum_accWeight[of "shAccount ` set shares" shares] by (simp flip: sum_divide_distrib)
    finally show ?thesis using W by simp
  qed
  ultimately show ?thesis using m by blast
qed

section \<open>Properties\<close>

text \<open>
  C25: \<open>sharePercentages\<close> is correct in spite of the shared pointers. For a non-empty batch of
  shares with positive weights, whatever the order in which Go ranges over its maps, it returns
  for exactly the accounts that hold a share the sum of that account's weights over the sum of
  all weights; every percentage is positive and together they are exactly one.
\<close>

theorem share_percentages_correct:
  assumes "fair e" "shares \<noteq> []" "\<forall>s \<in> set shares. 0 < shWeight s"
  shows "\<exists>m. sharePercentages e shares = Ok m \<and> distinct_keys m \<and>
    map_of m = (\<lambda>a. if a \<in> shAccount ` set shares
                    then Some (accWeight a shares / totalWeight shares) else None) \<and>
    (\<forall>(a, r) \<in> set m. 0 < r) \<and> total m = 1"
  using assms by (rule share_percentages_all)

definition plainEnv :: Env where
  "plainEnv = \<lparr>eNow = (\<lambda>i. of_nat (1000 + i)), eRand = (\<lambda>i. of_nat i), eOrder = rev, ePick = (\<lambda>n. 0), eConv = (\<lambda>_. 0)\<rparr>"

lemma plainEnv_fair: "fair plainEnv"
  by (simp add: fair_def plainEnv_def)

definition demoShares :: "Share list" where
  "demoShares = [NewShare ''x'' 1 5 0, NewShare ''y'' 4 6 0, NewShare ''x'' 3 7 0]"

theorem share_percentages_correct_witness:
  "sharePercentages plainEnv demoShares = Ok [(''y'', 1 / 2), (''x'', 1 / 2)] \<and>
   (\<exists>m. sharePercentages plainEnv demoShares = Ok m \<and> total m = 1)"
proof
  show "sharePercentages plainEnv demoShares = Ok [(''y'', 1 / 2), (''x'', 1 / 2)]"
    by code_simp
  show "\<exists>m. sharePercentages plainEnv demoShares = Ok m \<and> total m = 1"
    using share_percentages_correct[OF plainEnv_fair, of demoShares]
    by (auto simp: demoShares_def NewShare_def)
qed

text \<open>
  An account whose weights sum to zero makes \<open>sharePercentages\<close> return the error
  \<open>DivideByZero\<close>; the division itself is never reached with a zero total.
\<close>

lemma share_percentages_zero:
  assumes "fair e" "a \<in> shAccount ` set shares" "accWeight a shares = 0" "totalWeight shares \<noteq> 0"
  shows "sharePercentages e shares = Err (PoolError DivideByZero)"
proof -
  define t where "t = fold tallyShare (zip (map shAccount shares) [0 ..< length shares])
    \<lparr>totalShares = 0, weights = map shWeight shares, tally = []\<rparr>"
  note T = sharePercentages_tally[OF t_def]
  obtain p where p: "(a, p) \<in> set (range_map e (tally t))"
    using assms(2) T(3) range_map_set[OF assms(1) T(2)] by (force simp: keys_def)
  then have "weights t ! p = 0"
    using T(4) range_map_set[OF assms(1) T(2)] assms(3) by simp
  then show ?thesis
    unfolding sharePercentages_def t_def[symmetric] Let_def
    using T(1) assms(4) by (intro foldo_fails[OF p]) (auto split: prod.splits)
qed

end
