(* ===== verification/Difficulty.thy ===== *)
theory Difficulty
  imports Message PayShares
begin

text \<open>
  Difficulties and share weights (\<open>difficulty.go\<close>, the weights of \<open>share.go\<close>): the
  target and the difficulty of every supported mining client and the weight of its shares. The
  arithmetic of \<open>big.Int\<close> and \<open>big.Rat\<close> is exact.
\<close>

section \<open>Targets\<close>

record Params =
  netName :: string
  PowLimit :: int
  TargetTimePerBlock :: int

definition minerHashes :: "(string \<times> int) list" where
  "minerHashes = [(CPU, 5000), (Gominer, 5000000000), (NiceHashValidator, 200000000000)]"

text \<open>\<open>big.Rat.Quo\<close> panics on a zero divisor.\<close>

definition quo :: "rat \<Rightarrow> rat \<Rightarrow> rat go" where
  "quo x y = (if y = 0 then Panic else Ok (x / y))"

definition DifficultyToTarget :: "Params \<Rightarrow> rat \<Rightarrow> rat go" where
  "DifficultyToTarget net difficulty =
     (let powLimit = of_int (PowLimit net) in
      bnd (quo powLimit difficulty) (\<lambda>target.
      Ok (if powLimit < target then powLimit else target)))"

definition calculatePoolDifficulty :: "Params \<Rightarrow> int \<Rightarrow> int \<Rightarrow> rat go" where
  "calculatePoolDifficulty net hashRate targetTimeSecs =
     (let hashesPerTargetTime = hashRate * targetTimeSecs;
          iterations = 2 powi (256 - int (BitLen (PowLimit net))) in
      bnd (quo (of_int hashesPerTargetTime) iterations) (\<lambda>difficulty.
      Ok (if difficulty < 1 then 1 else difficulty)))"

definition calculatePoolTarget :: "Params \<Rightarrow> int \<Rightarrow> int \<Rightarrow> (rat \<times> rat) go" where
  "calculatePoolTarget net hashRate targetTimeSecs =
     bnd (calculatePoolDifficulty net hashRate targetTimeSecs) (\<lambda>difficulty.
     bnd (DifficultyToTarget net difficulty) (\<lambda>target. Ok (target, difficulty)))"

record DifficultyInfo =
  diTarget :: rat
  diDifficulty :: rat
  diPowLimit :: rat

type_synonym DifficultySet = "(string \<times> DifficultyInfo) list"

text \<open>\<open>int64(maxGenTime.Seconds())\<close> of a duration in nanoseconds.\<close>

definition genTimeSecs :: "int \<Rightarrow> int" where
  "genTimeSecs d = (let sec = trunc0 (of_int d / 1000000000); nsec = d - sec * 1000000000 in
     trunc0 (f64 (f64_of_int sec + f64_div (f64_of_int nsec) 1000000000)))"

definition NewDifficultySet :: "Env \<Rightarrow> Params \<Rightarrow> rat \<Rightarrow> int \<Rightarrow> DifficultySet go" where
  "NewDifficultySet e net powLimit maxGenTime =
     (let genTime = genTimeSecs maxGenTime in
      foldo (\<lambda>(miner, hashrate) diffs.
        bnd (calculatePoolTarget net hashrate genTime) (\<lambda>(target, difficulty).
        Ok (put miner \<lparr>diTarget = target, diDifficulty = difficulty, diPowLimit = powLimit\<rparr> diffs)))
      (range_map e minerHashes) [])"

definition fetchMinerDifficulty :: "DifficultySet \<Rightarrow> string \<Rightarrow> DifficultyInfo go" where
  "fetchMinerDifficulty d miner = (case map_of d miner of
     None \<Rightarrow> Err (PoolError ValueNotFound) | Some diffData \<Rightarrow> Ok diffData)"

section \<open>Share weights\<close>

definition lowestHashRate :: "Env \<Rightarrow> int" where
  "lowestHashRate e = fold (\<lambda>(_, hashRate) lowest.
     if sgn lowest = 0 \<or> hashRate < lowest then hashRate else lowest) (range_map e minerHashes) 0"

definition ShareWeights :: "Env \<Rightarrow> (string \<times> rat) list" where
  "ShareWeights e =
     (if minerHashes = [] then []
      else fold (\<lambda>(miner, hashRate) shareWeights.
        if miner = CPU then put CPU 1 shareWeights
        else put miner (of_int hashRate / of_int (lowestHashRate e)) shareWeights)
      (range_map e minerHashes) [])"

section \<open>Bounds\<close>

lemma iterations_pos: "0 < (2 :: rat) powi (256 - int n)"
  by (rule two_powi_pos)

text \<open>The difficulty before it is raised to one.\<close>

definition rawDifficulty :: "Params \<Rightarrow> int \<Rightarrow> int \<Rightarrow> rat" where
  "rawDifficulty net hashRate secs = of_int (hashRate * secs) / 2 powi (256 - int (BitLen (PowLimit net)))"

definition poolDifficulty :: "Params \<Rightarrow> int \<Rightarrow> int \<Rightarrow> rat" where
  "poolDifficulty net hashRate secs = max 1 (rawDifficulty net hashRate secs)"

lemma calculatePoolDifficulty_eq:
  "calculatePoolDifficulty net hashRate secs = Ok (poolDifficulty net hashRate secs)"
  by (simp add: calculatePoolDifficulty_def quo_def Let_def poolDifficulty_def rawDifficulty_def max_def not_le)

lemma poolDifficulty_ge: "1 \<le> poolDifficulty net hashRate secs"
  by (simp add: poolDifficulty_def)

lemma DifficultyToTarget_ge1:
  assumes "1 \<le> d" "0 \<le> PowLimit net"
  shows "DifficultyToTarget net d = Ok (of_int (PowLimit net) / d)"
proof -
  have "of_int (PowLimit net) / d \<le> of_int (PowLimit net)"
    using assms by (simp add: divide_le_eq mult_le_cancel_left1 not_less)
  then show ?thesis using assms(1) by (simp add: DifficultyToTarget_def quo_def Let_def)
qed

lemma calculatePoolTarget_eq:
  assumes "0 \<le> PowLimit net"
  shows "calculatePoolTarget net hashRate secs =
    Ok (of_int (PowLimit net) / poolDifficulty net hashRate secs, poolDifficulty net hashRate secs)"
  using DifficultyToTarget_ge1[OF poolDifficulty_ge assms]
  by (simp add: calculatePoolTarget_def calculatePoolDifficulty_eq del: bnd_eq_Ok)

lemma minerHashes_keys: "distinct_keys minerHashes"
  by (simp add: minerHashes_def CPU_def Gominer_def NiceHashValidator_def)

lemma fold_put_entries:
  assumes "distinct_keys xs" "\<And>k v b. (k, v) \<in> set xs \<Longrightarrow> f (k, v) b = put k (g v) b"
  shows "map_of (fold f xs b) = (\<lambda>k. case map_of xs k of Some v \<Rightarrow> Some (g v) | None \<Rightarrow> map_of b k)"
  using assms
proof (induction xs arbitrary: b)
  case (Cons x xs)
  obtain k v where x: "x = (k, v)" by force
  have "map_of (fold f xs (put k (g v) b)) =
      (\<lambda>k'. case map_of xs k' of Some v \<Rightarrow> Some (g v) | None \<Rightarrow> map_of (put k (g v) b) k')"
    using Cons.IH[of "put k (g v) b"] Cons.prems by (auto simp: x)
  moreover have "map_of xs k = None" using Cons.prems(1) by (simp add: x map_of_None_keys)
  ultimately show ?case using Cons.prems(2)[of k v b] by (auto simp: x fun_eq_iff split: option.split)
qed simp

text \<open>A loop whose body cannot fail is a fold.\<close>

lemma foldo_total:
  assumes "\<And>x b. x \<in> set xs \<Longrightarrow> f x b = Ok (h x b)"
  shows "foldo f xs b = Ok (fold h xs b)"
  using assms by (induction xs arbitrary: b) simp_all

lemma fold_lowest:
  fixes l :: int
  assumes "\<forall>(k, r) \<in> set xs. 0 < r" "0 < l"
  shows "fold (\<lambda>(_, r) l. if sgn l = 0 \<or> r < l then r else l) xs l = Min (insert l (snd ` set xs))"
  using assms
proof (induction xs arbitrary: l)
  case (Cons x xs)
  obtain k r where x: "x = (k, r)" by force
  have "fold (\<lambda>(_, r) l. if sgn l = 0 \<or> r < l then r else l) xs (min r l) = Min (insert (min r l) (snd ` set xs))"
    using Cons by (auto simp: x)
  moreover have "Min (insert (min r l) (snd ` set xs)) = Min (insert l (insert r (snd ` set xs)))"
    by (cases "xs = []") (simp_all add: ac_simps)
  moreover have "(if sgn l = 0 \<or> r < l then r else l) = min r l"
    using Cons.prems(2) by (auto simp: min_def)
  ultimately show ?case by (simp add: x)
qed simp

lemma lowestHashRate_eq:
  assumes "fair e"
  shows "lowestHashRate e = 5000"
proof -
  have S: "set (range_map e minerHashes) = set minerHashes" by (rule range_map_set[OF assms minerHashes_keys])
  then have "range_map e minerHashes \<noteq> []" by (auto simp: minerHashes_def)
  then obtain k r xs where c: "range_map e minerHashes = (k, r) # xs" by (cases "range_map e minerHashes") auto
  have pos: "\<forall>(k, r) \<in> set (range_map e minerHashes). 0 < r" unfolding S by (simp add: minerHashes_def)
  then have "lowestHashRate e = Min (insert r (snd ` set xs))"
    using fold_lowest[of xs r] by (simp add: lowestHashRate_def c)
  also have "\<dots> = Min (snd ` set minerHashes)" unfolding S[symmetric] c by simp
  also have "\<dots> = 5000" by (simp add: minerHashes_def)
  finally show ?thesis .
qed

section \<open>Properties\<close>

text \<open>
  C34: bounds of the pool difficulty. For any hash rate and any time the difficulty is at least
  one, the target is positive and at most the limit of the network, their product is that limit,
  and above one the difficulty is exactly the hashes expected in the time over the iterations.
\<close>

theorem pool_target_bounds:
  assumes "0 < PowLimit net"
  shows "\<exists>target difficulty. calculatePoolTarget net hashRate secs = Ok (target, difficulty) \<and>
    1 \<le> difficulty \<and> 0 < target \<and> target \<le> of_int (PowLimit net) \<and> target * difficulty = of_int (PowLimit net) \<and>
    (1 < difficulty \<longrightarrow> difficulty = of_int (hashRate * secs) / 2 powi (256 - int (BitLen (PowLimit net))))"
proof -
  let ?d = "poolDifficulty net hashRate secs"
  have d: "1 \<le> ?d" by (rule poolDifficulty_ge)
  have "(0 :: rat) < of_int (PowLimit net)" using assms by simp
  moreover from this d have "0 < of_int (PowLimit net) / ?d" "of_int (PowLimit net) / ?d \<le> of_int (PowLimit net)"
    "of_int (PowLimit net) / ?d * ?d = of_int (PowLimit net)"
    by (simp_all add: divide_le_eq mult_le_cancel_left1 not_less)
  moreover have "1 < ?d \<Longrightarrow> ?d = of_int (hashRate * secs) / 2 powi (256 - int (BitLen (PowLimit net)))"
    by (simp add: poolDifficulty_def rawDifficulty_def max_def split: if_splits)
  ultimately show ?thesis using calculatePoolTarget_eq[of net hashRate secs] d assms by auto
qed

text \<open>A network whose limit has 224 bits.\<close>

definition demoNet :: Params where
  "demoNet = \<lparr>netName = ''simnet'', PowLimit = 2 ^ 224 - 1, TargetTimePerBlock = 300000000000\<rparr>"

theorem pool_target_bounds_witness:
  "\<exists>target difficulty. calculatePoolTarget demoNet 5000000000 15 = Ok (target, difficulty) \<and>
    1 \<le> difficulty \<and> 0 < target \<and> target * difficulty = of_int (PowLimit demoNet)"
  using pool_target_bounds[of demoNet 5000000000 15] by (auto simp: demoNet_def)

text \<open>
  The difficulty set holds exactly the supported clients, whatever order the map of hash
  rates is ranged over: each has the target and the difficulty its hash rate gives, with the
  limit passed in, and any other name is reported as not found.
\<close>

lemma difficulty_set_complete:
  assumes "fair e" "0 \<le> PowLimit net"
  shows "\<exists>set. NewDifficultySet e net powLimit maxGenTime = Ok set \<and>
    (\<forall>miner. fetchMinerDifficulty set miner = (case map_of minerHashes miner of
       None \<Rightarrow> Err (PoolError ValueNotFound)
     | Some rate \<Rightarrow> Ok (let d = poolDifficulty net rate (genTimeSecs maxGenTime) in
         \<lparr>diTarget = of_int (PowLimit net) / d, diDifficulty = d, diPowLimit = powLimit\<rparr>)))"
proof -
  let ?g = "\<lambda>rate. let d = poolDifficulty net rate (genTimeSecs maxGenTime) in
         \<lparr>diTarget = of_int (PowLimit net) / d, diDifficulty = d, diPowLimit = powLimit\<rparr>"
  let ?set = "fold (\<lambda>(k, v). put k (?g v)) (range_map e minerHashes) []"
  have "NewDifficultySet e net powLimit maxGenTime = Ok ?set"
    unfolding NewDifficultySet_def Let_def
    by (rule foldo_total) (auto simp: calculatePoolTarget_eq[OF assms(2)] Let_def simp del: bnd_eq_Ok)
  moreover have "map_of ?set = (\<lambda>k. case map_of minerHashes k of Some v \<Rightarrow> Some (?g v) | None \<Rightarrow> map_of [] k)"
    unfolding range_map_of[OF assms(1) minerHashes_keys, symmetric]
    using range_map_keys(1)[OF assms(1) minerHashes_keys] by (rule fold_put_entries) simp
  ultimately show ?thesis
    by (auto simp: fetchMinerDifficulty_def split: option.split)
qed

text \<open>
  The share weights, whatever order the map is ranged over: each miner weighs its hash rate
  over the lowest one, the lowest weighs one, and every weight is positive.
\<close>

lemma share_weights_relative:
  assumes "fair e"
  shows "map_of (ShareWeights e) = (\<lambda>miner. map_option (\<lambda>rate. of_int rate / 5000) (map_of minerHashes miner)) \<and>
    map_of (ShareWeights e) CPU = Some 1 \<and> (\<forall>miner w. map_of (ShareWeights e) miner = Some w \<longrightarrow> 1 \<le> w)"
proof -
  let ?f = "\<lambda>(miner, hashRate) shareWeights. if miner = CPU then put CPU 1 shareWeights
        else put miner (of_int hashRate / 5000 :: rat) shareWeights"
  have "minerHashes \<noteq> []" by (simp add: minerHashes_def)
  then have sw: "ShareWeights e = fold ?f (range_map e minerHashes) []"
    unfolding ShareWeights_def lowestHashRate_eq[OF assms] of_int_numeral by simp
  have "?f (k, v) b = put k (of_int v / 5000) b" if "(k, v) \<in> set (range_map e minerHashes)" for k v b
    using that unfolding range_map_set[OF assms minerHashes_keys]
    by (auto simp: minerHashes_def Gominer_def CPU_def NiceHashValidator_def)
  then have "map_of (fold ?f (range_map e minerHashes) []) =
      (\<lambda>k. case map_of (range_map e minerHashes) k of Some v \<Rightarrow> Some (of_int v / 5000) | None \<Rightarrow> map_of [] k)"
    by (rule fold_put_entries[OF range_map_keys(1)[OF assms minerHashes_keys]])
  then have eq: "map_of (ShareWeights e) = (\<lambda>miner. map_option (\<lambda>rate. of_int rate / 5000) (map_of minerHashes miner))"
    unfolding range_map_of[OF assms minerHashes_keys] sw by (auto simp: fun_eq_iff split: option.split)
  then show ?thesis
    by (auto simp: minerHashes_def Gominer_def CPU_def NiceHashValidator_def split: if_splits)
qed

end
