(* ===== verification/MinerID.thy ===== *)
theory MinerID
  imports Difficulty
begin

text \<open>
  Mining client identification (\<open>minerid.go\<close>) and the semantic versions it parses
  (\<open>internal/semver/semver.go\<close>). The regular expression of a version is written out as the
  matcher of its parts: a build part starts at the first plus sign, which no other part can
  contain, and a pre-release part at the first hyphen before it, which the core cannot contain.
\<close>

section \<open>Splitting\<close>

text \<open>\<open>strings.Split(s, sep)\<close> and \<open>strings.SplitN(s, sep, 2)\<close> for a one byte separator.\<close>

fun splitOn :: "char \<Rightarrow> string \<Rightarrow> string list" where
  "splitOn c [] = [[]]"
| "splitOn c (x # xs) = (if x = c then [] # splitOn c xs
     else case splitOn c xs of [] \<Rightarrow> [[x]] | p # ps \<Rightarrow> (x # p) # ps)"

fun splitFirst :: "char \<Rightarrow> string \<Rightarrow> string \<times> string option" where
  "splitFirst c [] = ([], None)"
| "splitFirst c (x # xs) = (if x = c then ([], Some xs)
     else case splitFirst c xs of (a, b) \<Rightarrow> (x # a, b))"

section \<open>Semantic versions\<close>

definition isDigit :: "char \<Rightarrow> bool" where
  "isDigit c \<longleftrightarrow> (let n = of_char c :: nat in 48 \<le> n \<and> n \<le> 57)"

definition isLetterHyphen :: "char \<Rightarrow> bool" where
  "isLetterHyphen c \<longleftrightarrow> (let n = of_char c :: nat in 65 \<le> n \<and> n \<le> 90 \<or> 97 \<le> n \<and> n \<le> 122 \<or> n = 45)"

definition isIdChar :: "char \<Rightarrow> bool" where
  "isIdChar c \<longleftrightarrow> isDigit c \<or> isLetterHyphen c"

text \<open>\<open>0|[1-9]\d*\<close>\<close>

definition numericId :: "string \<Rightarrow> bool" where
  "numericId s \<longleftrightarrow> s = ''0'' \<or> (s \<noteq> [] \<and> list_all isDigit s \<and> hd s \<noteq> CHR ''0'')"

text \<open>\<open>0|[1-9]\d*|\d*[a-zA-Z-][0-9a-zA-Z-]*\<close>\<close>

definition preId :: "string \<Rightarrow> bool" where
  "preId s \<longleftrightarrow> numericId s \<or>
     (case dropWhile isDigit s of [] \<Rightarrow> False | c # cs \<Rightarrow> isLetterHyphen c \<and> list_all isIdChar cs)"

text \<open>\<open>[0-9a-zA-Z-]+\<close>\<close>

definition buildId :: "string \<Rightarrow> bool" where
  "buildId s \<longleftrightarrow> s \<noteq> [] \<and> list_all isIdChar s"

definition semverRE :: "string \<Rightarrow> (string \<times> string \<times> string \<times> string \<times> string) option" where
  "semverRE s = (case splitFirst CHR ''+'' s of (a, build) \<Rightarrow>
     case splitFirst CHR ''-'' a of (core, pre) \<Rightarrow>
     case splitOn CHR ''.'' core of
       [x, y, z] \<Rightarrow>
         if numericId x \<and> numericId y \<and> numericId z \<and>
            (case pre of None \<Rightarrow> True | Some p \<Rightarrow> list_all preId (splitOn CHR ''.'' p)) \<and>
            (case build of None \<Rightarrow> True | Some b \<Rightarrow> list_all buildId (splitOn CHR ''.'' b))
         then Some (x, y, z, case pre of None \<Rightarrow> [] | Some p \<Rightarrow> p, case build of None \<Rightarrow> [] | Some b \<Rightarrow> b)
         else None
     | _ \<Rightarrow> None)"

definition semanticAlphabet :: string where
  "semanticAlphabet = ''0123456789ABCDEFGHIJKLMNOPQRSTUVWXYZabcdefghijklmnopqrstuvwxyz-.''"

definition decVal :: "string \<Rightarrow> nat" where
  "decVal s = foldl (\<lambda>n c. 10 * n + (of_char c - 48)) 0 s"

text \<open>\<open>strconv.ParseUint(s, 10, 32)\<close>\<close>

definition parseUint32 :: "string \<Rightarrow> 32 word go" where
  "parseUint32 s = (if s \<noteq> [] \<and> list_all isDigit s \<and> decVal s < 2 ^ 32
     then Ok (of_nat (decVal s)) else Err (Wrapped Foreign))"

text \<open>\<open>strconv.ParseInt\<close> in base ten, before the bounds of the width.\<close>

definition parseInt :: "string \<Rightarrow> int option" where
  "parseInt s = (case s of
     c # ds \<Rightarrow> let neg = (c = CHR ''-''); digits = (if c = CHR ''-'' \<or> c = CHR ''+'' then ds else s) in
       if digits \<noteq> [] \<and> list_all isDigit digits
       then Some (if neg then - int (decVal digits) else int (decVal digits)) else None
   | [] \<Rightarrow> None)"

fun checkSemString :: "string \<Rightarrow> string \<Rightarrow> unit go" where
  "checkSemString [] alphabet = Ok ()"
| "checkSemString (r # s) alphabet = (if r \<notin> set alphabet then Err Foreign else checkSemString s alphabet)"

record ParsedSemVer =
  Major :: "32 word"
  Minor :: "32 word"
  Patch :: "32 word"
  PreRelease :: string
  BuildMetadata :: string

definition Parse_semver :: "string \<Rightarrow> ParsedSemVer go" where
  "Parse_semver s = (case semverRE s of None \<Rightarrow> Err Foreign
     | Some (m1, m2, m3, preRel, build) \<Rightarrow>
         bnd (parseUint32 m1) (\<lambda>major.
         bnd (parseUint32 m2) (\<lambda>minor.
         bnd (parseUint32 m3) (\<lambda>patch.
         bnd (checkSemString preRel semanticAlphabet) (\<lambda>_.
         bnd (checkSemString build semanticAlphabet) (\<lambda>_.
         Ok \<lparr>Major = major, Minor = minor, Patch = patch, PreRelease = preRel, BuildMetadata = build\<rparr>))))))"

section \<open>User agents\<close>

record parsedUserAgent =
  uaVer :: ParsedSemVer
  clientName :: string

definition parseUserAgent :: "string \<Rightarrow> parsedUserAgent option" where
  "parseUserAgent userAgent = (case splitFirst CHR ''/'' userAgent of
       (_, None) \<Rightarrow> None
     | (client, Some clientVer) \<Rightarrow> (case Parse_semver clientVer of
           Ok parsedSemVer \<Rightarrow> Some \<lparr>uaVer = parsedSemVer, clientName = client\<rparr>
         | _ \<Rightarrow> None))"

definition matchesUserAgentMaxMinor :: "string \<Rightarrow> 32 word \<Rightarrow> 32 word \<Rightarrow> parsedUserAgent \<Rightarrow> bool" where
  "matchesUserAgentMaxMinor client requiredMajor maxMinor parsedUA \<longleftrightarrow>
     clientName parsedUA = client \<and> Major (uaVer parsedUA) = requiredMajor \<and> Minor (uaVer parsedUA) \<le> maxMinor"

definition supportedClientUserAgents :: "((parsedUserAgent \<Rightarrow> bool) \<times> string list) list" where
  "supportedClientUserAgents =
     [(matchesUserAgentMaxMinor ''cpuminer'' 1 0, [CPU]),
      (matchesUserAgentMaxMinor ''decred-gominer'' 2 1, [Gominer]),
      (matchesUserAgentMaxMinor ''NiceHash'' 1 0, [NiceHashValidator])]"

definition identifyMiningClients :: "string \<Rightarrow> string list go" where
  "identifyMiningClients userAgent = (case parseUserAgent userAgent of
       None \<Rightarrow> Err (PoolError MinerUnknown)
     | Some parsedUA \<Rightarrow> (case find (\<lambda>(matchFn, _). matchFn parsedUA) supportedClientUserAgents of
           Some (_, clients) \<Rightarrow> Ok clients
         | None \<Rightarrow> Err (PoolError MinerUnknown)))"

section \<open>Decimal numbers\<close>

lemma decVal_snoc [simp]: "decVal (s @ [c]) = 10 * decVal s + (of_char c - 48)"
  by (simp add: decVal_def)

lemma decVal_Nil [simp]: "decVal [] = 0"
  by (simp add: decVal_def)

lemma digit_char [simp]: "n < 10 \<Longrightarrow> isDigit (char_of (48 + n :: nat))" "n < 10 \<Longrightarrow> of_char (char_of (48 + n :: nat)) = 48 + n"
  by (simp_all add: isDigit_def Let_def of_char_of)

lemma digit_val:
  assumes "isDigit c"
  shows "of_char c - 48 < (10 :: nat)" "char_of (48 + (of_char c - 48) :: nat) = c"
proof -
  have b: "48 \<le> (of_char c :: nat)" "of_char c \<le> (57 :: nat)" using assms by (simp_all add: isDigit_def Let_def)
  show "of_char c - 48 < (10 :: nat)" using b by simp
  have "48 + (of_char c - 48) = (of_char c :: nat)" using b(1) by (rule le_add_diff_inverse)
  then show "char_of (48 + (of_char c - 48) :: nat) = c" by (simp only: char_of_char)
qed

lemma show_nat_ne [simp]: "show_nat n \<noteq> []"
  by (subst show_nat.simps) simp

lemma show_nat_digits: "list_all isDigit (show_nat n)"
proof (induction n rule: show_nat.induct)
  case (1 n)
  then show ?case by (subst show_nat.simps) simp
qed

lemma decVal_show_nat [simp]: "decVal (show_nat n) = n"
proof (induction n rule: show_nat.induct)
  case (1 n)
  then show ?case using decVal_snoc[of "[]"] by (subst show_nat.simps) simp
qed

lemma show_nat_Cons: "\<exists>c cs. show_nat n = c # cs \<and> c \<noteq> CHR ''-'' \<and> c \<noteq> CHR ''+''"
  using show_nat_digits[of n] show_nat_ne[of n] by (cases "show_nat n") (auto simp: isDigit_def)

lemma parseInt_show_nat [rt_simps]: "parseInt (show_nat n) = Some (int n)"
proof -
  obtain c cs where c: "show_nat n = c # cs" "c \<noteq> CHR ''-''" "c \<noteq> CHR ''+''" using show_nat_Cons by blast
  have "list_all isDigit (c # cs)" "decVal (c # cs) = n" using show_nat_digits[of n] decVal_show_nat[of n] c(1) by simp_all
  then show ?thesis using c by (simp add: parseInt_def)
qed

lemma parseInt_show_int [rt_simps]: "parseInt (show_int i) = Some i"
proof (cases "i < 0")
  case True
  then show ?thesis using show_nat_digits[of "nat (- i)"] by (simp add: show_int_def parseInt_def)
qed (simp add: show_int_def parseInt_show_nat)

lemma hd_show_nat: "0 < n \<Longrightarrow> hd (show_nat n) \<noteq> CHR ''0''"
proof (induction n rule: show_nat.induct)
  case (1 n)
  show ?case
  proof (cases "n < 10")
    case True
    have "char_of (48 + n) \<noteq> CHR ''0''"
      using digit_char(2)[OF True] 1(2) by (auto dest: arg_cong[where f = "of_char :: char \<Rightarrow> nat"])
    then show ?thesis using True by (subst show_nat.simps) simp
  next
    case False
    then show ?thesis using 1 by (subst show_nat.simps) simp
  qed
qed

lemma show_nat_0: "show_nat 0 = ''0''"
proof -
  have "char_of (48 :: nat) = CHR ''0''" using char_of_char[of "CHR ''0''"] by simp
  then show ?thesis by (subst show_nat.simps) simp
qed

lemma numericId_show_nat: "numericId (show_nat n)"
  using show_nat_digits[of n] hd_show_nat[of n] show_nat_0 by (cases "n = 0") (simp_all add: numericId_def)

lemma numericId_digits: "numericId s \<Longrightarrow> s \<noteq> [] \<and> list_all isDigit s"
  by (auto simp: numericId_def isDigit_def)

lemma show_nat_decVal: "numericId s \<Longrightarrow> show_nat (decVal s) = s"
proof (induction s rule: rev_induct)
  case (snoc c s)
  let ?d = "of_char c - 48 :: nat"
  have "isDigit c" "list_all isDigit s" using numericId_digits[OF snoc.prems] by simp_all
  then have d: "?d < 10" "char_of (48 + ?d) = c" using digit_val by blast+
  show ?case
  proof (cases "s = []")
    case True
    then show ?thesis using d decVal_snoc[of "[]" c] by (simp add: show_nat.simps[of ?d])
  next
    case False
    then have "hd s \<noteq> CHR ''0''" "numericId s"
      using snoc.prems by (auto simp: numericId_def append_eq_Cons_conv)
    then have s: "show_nat (decVal s) = s" using snoc.IH by simp
    then have "0 < decVal s" using \<open>hd s \<noteq> CHR ''0''\<close> show_nat_0 by (metis gr0I list.sel(1))
    then have "\<not> 10 * decVal s + ?d < 10" "(10 * decVal s + ?d) div 10 = decVal s" "(10 * decVal s + ?d) mod 10 = ?d"
      using d(1) by simp_all
    then show ?thesis using s d(2) by (simp add: show_nat.simps[of "10 * decVal s + ?d"])
  qed
qed (simp add: numericId_def)

lemma parseUint32_eq:
  assumes "numericId s"
  shows "parseUint32 s = Ok w \<longleftrightarrow> s = show_nat (unat w)"
proof
  assume "parseUint32 s = Ok w"
  then have "decVal s = unat w" by (auto simp: parseUint32_def unat_of_nat split: if_splits)
  then show "s = show_nat (unat w)" using show_nat_decVal[OF assms] by simp
next
  assume s: "s = show_nat (unat w)"
  have "unat w < 2 ^ 32" using unsigned_less[where 'a = nat and w = w] by simp
  then show "parseUint32 s = Ok w" using numericId_digits[OF assms] by (simp add: s parseUint32_def)
qed

lemma parseUint32_show: "parseUint32 (show_nat (unat w)) = Ok w"
  by (simp add: parseUint32_eq numericId_show_nat)

section \<open>Parts of a version\<close>

lemma splitFirst_append:
  "c \<notin> set a \<Longrightarrow> splitFirst c (a @ c # t) = (a, Some t)" "c \<notin> set a \<Longrightarrow> splitFirst c a = (a, None)"
  by (induction a) auto

lemma splitFirst_parts:
  "c \<notin> set (fst (splitFirst c s)) \<and> s = fst (splitFirst c s) @ (case snd (splitFirst c s) of None \<Rightarrow> [] | Some t \<Rightarrow> c # t)"
  by (induction s) (auto simp: split_beta)

lemma splitOn_append:
  "c \<notin> set a \<Longrightarrow> splitOn c (a @ c # t) = a # splitOn c t" "c \<notin> set a \<Longrightarrow> splitOn c a = [a]"
  by (induction a) auto

lemma splitOn_ne: "splitOn c s \<noteq> []"
  by (induction s) (auto split: list.split)

lemma splitOn_Cons:
  assumes "splitOn c s = a # ps"
  shows "c \<notin> set a \<and> (s = a \<and> ps = [] \<or> (\<exists>t. s = a @ c # t \<and> splitOn c t = ps))"
proof -
  obtain a' b where f: "splitFirst c s = (a', b)" by force
  have p: "c \<notin> set a'" "s = a' @ (case b of None \<Rightarrow> [] | Some t \<Rightarrow> c # t)"
    using splitFirst_parts[of c s] by (simp_all add: f)
  show ?thesis
  proof (cases b)
    case None
    then show ?thesis using p assms splitOn_append(2)[OF p(1)] by simp
  next
    case (Some t)
    then show ?thesis using p assms splitOn_append(1)[OF p(1), of t] by simp
  qed
qed

lemma splitOn_three:
  "splitOn c s = [x, y, z] \<longleftrightarrow> c \<notin> set x \<and> c \<notin> set y \<and> c \<notin> set z \<and> s = x @ c # y @ c # z"
proof
  assume a: "splitOn c s = [x, y, z]"
  obtain t where t: "c \<notin> set x" "s = x @ c # t" "splitOn c t = [y, z]" using splitOn_Cons[OF a] by auto
  obtain u where u: "c \<notin> set y" "t = y @ c # u" "splitOn c u = [z]" using splitOn_Cons[OF t(3)] by auto
  show "c \<notin> set x \<and> c \<notin> set y \<and> c \<notin> set z \<and> s = x @ c # y @ c # z"
    using splitOn_Cons[OF u(3)] t(1,2) u(1,2) splitOn_ne by auto
qed (auto simp: splitOn_append)

lemma set_splitOn: "x \<in> set s \<Longrightarrow> x = c \<or> (\<exists>p \<in> set (splitOn c s). x \<in> set p)"
  by (induction s) (auto split: list.split)

lemma alphabet: "isIdChar c \<Longrightarrow> c \<in> set semanticAlphabet" "isIdChar c \<Longrightarrow> c \<noteq> CHR ''.'' \<and> c \<noteq> CHR ''+''"
proof -
  have a: "map of_char semanticAlphabet = [48..<58] @ [65..<91] @ [97..<123] @ [45, 46 :: nat]"
    by (simp add: semanticAlphabet_def upt_rec)
  show "isIdChar c \<Longrightarrow> c \<in> set semanticAlphabet"
  proof -
    assume "isIdChar c"
    then have "of_char c \<in> set (map of_char semanticAlphabet :: nat list)"
      unfolding a set_append set_upt by (auto simp: isIdChar_def isDigit_def isLetterHyphen_def Let_def)
    then show "c \<in> set semanticAlphabet" unfolding set_map image_iff of_char_eq_iff by blast
  qed
qed (auto simp: isIdChar_def isDigit_def isLetterHyphen_def)

lemma checkSemString_eq: "checkSemString s alphabet = (if set s \<subseteq> set alphabet then Ok () else Err Foreign)"
  by (induction s) auto

lemma digits_idchars: "list_all isDigit s \<Longrightarrow> list_all isIdChar s"
  by (auto simp: list_all_iff isIdChar_def)

lemma part_chars:
  "numericId s \<Longrightarrow> s \<noteq> [] \<and> list_all isIdChar s" "preId s \<Longrightarrow> s \<noteq> [] \<and> list_all isIdChar s"
  "buildId s \<Longrightarrow> s \<noteq> [] \<and> list_all isIdChar s"
proof -
  show n: "numericId s \<Longrightarrow> s \<noteq> [] \<and> list_all isIdChar s" using numericId_digits digits_idchars by blast
  have "list_all isDigit (takeWhile isDigit s)" by (simp add: list_all_iff) (meson set_takeWhileD)
  moreover have "s = takeWhile isDigit s @ dropWhile isDigit s" by simp
  ultimately have "list_all isIdChar s" if "dropWhile isDigit s = c # cs" "isLetterHyphen c" "list_all isIdChar cs" for c cs
    using that digits_idchars by (metis isIdChar_def list_all_append list.pred_inject(2))
  then show "preId s \<Longrightarrow> s \<noteq> [] \<and> list_all isIdChar s" using n by (auto simp: preId_def split: list.splits)
qed (simp add: buildId_def)

text \<open>A dotted part that matches is not empty and within the alphabet.\<close>

lemma dotted_chars:
  assumes "list_all P (splitOn CHR ''.'' s)" "\<And>q. P q \<Longrightarrow> q \<noteq> [] \<and> list_all isIdChar q"
  shows "s \<noteq> []" "set s \<subseteq> set semanticAlphabet" "CHR ''+'' \<notin> set s"
proof -
  show "s \<noteq> []" using assms(1) assms(2)[of "[]"] by auto
  have "x = CHR ''.'' \<or> isIdChar x" if "x \<in> set s" for x
    using set_splitOn[OF that, of "CHR ''.''"] assms by (auto simp: list_all_iff)
  moreover have "CHR ''.'' \<in> set semanticAlphabet" by (simp add: semanticAlphabet_def)
  ultimately show "set s \<subseteq> set semanticAlphabet" "CHR ''+'' \<notin> set s"
    using alphabet by (blast, fastforce)
qed

section \<open>Properties\<close>

definition wfSemVer :: "ParsedSemVer \<Rightarrow> bool" where
  "wfSemVer p \<longleftrightarrow> (PreRelease p = [] \<or> list_all preId (splitOn CHR ''.'' (PreRelease p))) \<and>
     (BuildMetadata p = [] \<or> list_all buildId (splitOn CHR ''.'' (BuildMetadata p)))"

definition formatSemVer :: "ParsedSemVer \<Rightarrow> string" where
  "formatSemVer p = show_nat (unat (Major p)) @ ''.'' @ show_nat (unat (Minor p)) @ ''.'' @ show_nat (unat (Patch p)) @
     (if PreRelease p = [] then [] else ''-'' @ PreRelease p) @
     (if BuildMetadata p = [] then [] else ''+'' @ BuildMetadata p)"

lemma semverRE_eq:
  "semverRE s = Some (x, y, z, pre, build) \<longleftrightarrow> (numericId x \<and> numericId y \<and> numericId z \<and>
     (pre = [] \<or> list_all preId (splitOn CHR ''.'' pre)) \<and>
     (build = [] \<or> list_all buildId (splitOn CHR ''.'' build))) \<and>
     s = x @ ''.'' @ y @ ''.'' @ z @ (if pre = [] then [] else ''-'' @ pre) @ (if build = [] then [] else ''+'' @ build)"
  (is "_ \<longleftrightarrow> ?parts \<and> s = ?text")
proof
  assume m: "semverRE s = Some (x, y, z, pre, build)"
  obtain a b where ab: "splitFirst CHR ''+'' s = (a, b)" by force
  obtain core p where cp: "splitFirst CHR ''-'' a = (core, p)" by force
  have c: "splitOn CHR ''.'' core = [x, y, z]" "numericId x" "numericId y" "numericId z"
    "case p of None \<Rightarrow> pre = [] | Some q \<Rightarrow> pre = q \<and> list_all preId (splitOn CHR ''.'' q)"
    "case b of None \<Rightarrow> build = [] | Some q \<Rightarrow> build = q \<and> list_all buildId (splitOn CHR ''.'' q)"
    using m by (auto simp: semverRE_def ab cp split: list.splits if_splits option.splits)
  have s: "s = a @ (case b of None \<Rightarrow> [] | Some t \<Rightarrow> CHR ''+'' # t)" "a = core @ (case p of None \<Rightarrow> [] | Some t \<Rightarrow> CHR ''-'' # t)"
    using splitFirst_parts[of "CHR ''+''" s] splitFirst_parts[of "CHR ''-''" a] by (simp_all add: ab cp)
  have "core = x @ ''.'' @ y @ ''.'' @ z" using c(1) by (simp add: splitOn_three)
  then show "?parts \<and> s = ?text"
    using c(2-6) s dotted_chars(1)[of preId pre] dotted_chars(1)[of buildId build] part_chars
    by (cases p; cases b) simp_all
next
  assume h: "?parts \<and> s = ?text"
  let ?core = "x @ ''.'' @ y @ ''.'' @ z"
  have d: "list_all isDigit x" "list_all isDigit y" "list_all isDigit z" using h numericId_digits by blast+
  have nd: "c \<notin> set x \<and> c \<notin> set y \<and> c \<notin> set z" if "\<not> isDigit c" for c
    using d that by (auto simp: list_all_iff)
  have core: "splitOn CHR ''.'' ?core = [x, y, z]" "CHR ''-'' \<notin> set ?core" "CHR ''+'' \<notin> set ?core"
    using nd[of "CHR ''.''"] nd[of "CHR ''-''"] nd[of "CHR ''+''"] by (simp_all add: splitOn_three isDigit_def)
  define a where "a = ?core @ (if pre = [] then [] else CHR ''-'' # pre)"
  have "splitFirst CHR ''-'' a = (?core, if pre = [] then None else Some pre)"
    using splitFirst_append[OF core(2)] by (simp add: a_def)
  moreover have "CHR ''+'' \<notin> set a"
    using core(3) h dotted_chars(3)[of preId pre] part_chars(2) by (auto simp: a_def)
  moreover have "s = a @ (if build = [] then [] else CHR ''+'' # build)" using h by (simp add: a_def)
  ultimately have "splitFirst CHR ''-'' a = (?core, if pre = [] then None else Some pre)"
    "splitFirst CHR ''+'' s = (a, if build = [] then None else Some build)"
    using splitFirst_append[of "CHR ''+''" a] by simp_all
  then show "semverRE s = Some (x, y, z, pre, build)"
    using h core(1) by (auto simp: semverRE_def)
qed

lemma parse_exact: "Parse_semver s = Ok p \<longleftrightarrow> wfSemVer p \<and> s = formatSemVer p"
proof
  assume "Parse_semver s = Ok p"
  then obtain x y z where m: "semverRE s = Some (x, y, z, PreRelease p, BuildMetadata p)"
    "parseUint32 x = Ok (Major p)" "parseUint32 y = Ok (Minor p)" "parseUint32 z = Ok (Patch p)"
    by (auto simp: Parse_semver_def split: option.splits)
  note parts = m(1)[unfolded semverRE_eq]
  have "x = show_nat (unat (Major p))" "y = show_nat (unat (Minor p))" "z = show_nat (unat (Patch p))"
    using parts m(2-4) parseUint32_eq by blast+
  then show "wfSemVer p \<and> s = formatSemVer p" using parts by (simp add: wfSemVer_def formatSemVer_def)
next
  assume h: "wfSemVer p \<and> s = formatSemVer p"
  then have "semverRE s = Some (show_nat (unat (Major p)), show_nat (unat (Minor p)), show_nat (unat (Patch p)),
      PreRelease p, BuildMetadata p)"
    unfolding semverRE_eq by (simp add: wfSemVer_def formatSemVer_def numericId_show_nat)
  moreover have "set (PreRelease p) \<subseteq> set semanticAlphabet" "set (BuildMetadata p) \<subseteq> set semanticAlphabet"
    using h dotted_chars(2)[of preId "PreRelease p"] dotted_chars(2)[of buildId "BuildMetadata p"] part_chars(2,3)
    by (auto simp: wfSemVer_def)
  ultimately show "Parse_semver s = Ok p"
    using parseUint32_show by (simp add: Parse_semver_def checkSemString_eq del: bnd_eq_Ok)
qed

lemma parseUserAgent_eq:
  "parseUserAgent ua = Some pu \<longleftrightarrow> CHR ''/'' \<notin> set (clientName pu) \<and> wfSemVer (uaVer pu) \<and>
     ua = clientName pu @ ''/'' @ formatSemVer (uaVer pu)"
proof
  obtain a b where ab: "splitFirst CHR ''/'' ua = (a, b)" by force
  assume "parseUserAgent ua = Some pu"
  then obtain v where "b = Some v" "clientName pu = a" "Parse_semver v = Ok (uaVer pu)"
    by (auto simp: parseUserAgent_def ab split: option.splits outcome.splits)
  then show "CHR ''/'' \<notin> set (clientName pu) \<and> wfSemVer (uaVer pu) \<and>
     ua = clientName pu @ ''/'' @ formatSemVer (uaVer pu)"
    using splitFirst_parts[of "CHR ''/''" ua] by (simp add: ab parse_exact)
next
  assume h: "CHR ''/'' \<notin> set (clientName pu) \<and> wfSemVer (uaVer pu) \<and>
     ua = clientName pu @ ''/'' @ formatSemVer (uaVer pu)"
  then have "Parse_semver (formatSemVer (uaVer pu)) = Ok (uaVer pu)" by (simp add: parse_exact)
  then show "parseUserAgent ua = Some pu" using h by (simp add: parseUserAgent_def splitFirst_append)
qed

text \<open>
  C37: a version string parses exactly when it is a semantic version, and to the version it
  denotes: the parser accepts a string with some result if and only if the string is the canonical
  text of that result, whose parts are well formed.
\<close>

theorem semver_parse_exact: "Parse_semver s = Ok p \<longleftrightarrow> wfSemVer p \<and> s = formatSemVer p"
  by (rule parse_exact)

text \<open>The supported agents: name, major version, largest minor version and client.\<close>

definition agentTable :: "(string \<times> 32 word \<times> 32 word \<times> string) set" where
  "agentTable = {(''cpuminer'', 1, 0, CPU), (''decred-gominer'', 2, 1, Gominer), (''NiceHash'', 1, 0, NiceHashValidator)}"

lemma agentTable_entries:
  "(name, major, maxMinor, miner) \<in> agentTable \<Longrightarrow> CHR ''/'' \<notin> set name"
  "(name, major, maxMinor, miner) \<in> agentTable \<Longrightarrow> map_of minerHashes miner \<noteq> None"
  by (auto simp: agentTable_def minerHashes_def CPU_def Gominer_def NiceHashValidator_def)

lemma identify_table:
  "identifyMiningClients ua = Ok clients \<longleftrightarrow> (\<exists>pu major maxMinor miner. parseUserAgent ua = Some pu \<and>
     (clientName pu, major, maxMinor, miner) \<in> agentTable \<and> Major (uaVer pu) = major \<and> Minor (uaVer pu) \<le> maxMinor \<and>
     clients = [miner])"
  by (auto simp: identifyMiningClients_def supportedClientUserAgents_def matchesUserAgentMaxMinor_def agentTable_def
      split: option.splits)

text \<open>
  What a user agent identifies. A name without a slash and a semantic version are a supported
  agent exactly when the name, the major and the largest minor version are in the table, with the
  one client the table gives; a string that is not of that form is no supported agent. Every identified client has a hash rate, so its
  difficulty and its share weight exist.
\<close>

lemma identify_clients_exact:
  "identifyMiningClients ua = Ok clients \<longleftrightarrow>
     (\<exists>name p miner major maxMinor. (name, major, maxMinor, miner) \<in> agentTable \<and>
        wfSemVer p \<and> ua = name @ ''/'' @ formatSemVer p \<and> Major p = major \<and> Minor p \<le> maxMinor \<and>
        clients = [miner] \<and> map_of minerHashes miner \<noteq> None)"
proof
  assume "identifyMiningClients ua = Ok clients"
  then obtain pu miner major maxMinor where "parseUserAgent ua = Some pu"
    "(clientName pu, major, maxMinor, miner) \<in> agentTable" "Major (uaVer pu) = major" "Minor (uaVer pu) \<le> maxMinor"
    "clients = [miner]" unfolding identify_table by blast
  then show "\<exists>name p miner major maxMinor. (name, major, maxMinor, miner) \<in> agentTable \<and>
        wfSemVer p \<and> ua = name @ ''/'' @ formatSemVer p \<and> Major p = major \<and> Minor p \<le> maxMinor \<and>
        clients = [miner] \<and> map_of minerHashes miner \<noteq> None"
    using agentTable_entries(2) by (auto simp: parseUserAgent_eq)
next
  assume "\<exists>name p miner major maxMinor. (name, major, maxMinor, miner) \<in> agentTable \<and>
        wfSemVer p \<and> ua = name @ ''/'' @ formatSemVer p \<and> Major p = major \<and> Minor p \<le> maxMinor \<and>
        clients = [miner] \<and> map_of minerHashes miner \<noteq> None"
  then obtain name p miner major maxMinor where h: "(name, major, maxMinor, miner) \<in> agentTable"
    "wfSemVer p" "ua = name @ ''/'' @ formatSemVer p" "Major p = major" "Minor p \<le> maxMinor" "clients = [miner]"
    by blast
  have "parseUserAgent ua = Some \<lparr>uaVer = p, clientName = name\<rparr>"
    using h(2,3) agentTable_entries(1)[OF h(1)] by (simp add: parseUserAgent_eq)
  then show "identifyMiningClients ua = Ok clients" unfolding identify_table using h by force
qed

end
