(* ===== verification/Sql.thy ===== *)
theory Sql
  imports MinerID Database
begin

text \<open>
  The tables and statements of the postgres database (\<open>sql_queries.go\<close>). A table is the list
  of its rows, in the order the server keeps them, which no statement may rely on, or does not
  exist yet; an \<open>INT8\<close> column holds an integer, a \<open>TEXT\<close> column a string. Every
  statement is a function on the tables that is named after its text.
\<close>

section \<open>Tables\<close>

record accountRow =
  arUuid :: string
  arAddress :: string
  arCreatedOn :: int

record paymentRow =
  prUuid :: string
  prAccount :: string
  prEstimatedMaturity :: int
  prHeight :: int
  prAmount :: int
  prCreatedOn :: int
  prPaidOnHeight :: int
  prTransactionID :: string
  prSourceBlockHash :: string
  prSourceCoinbase :: string

record jobRow =
  jrUuid :: string
  jrHeight :: int
  jrHeader :: string

record shareRow =
  srUuid :: string
  srAccount :: string
  srWeight :: string
  srCreatedOn :: int

record workRow =
  wrUuid :: string
  wrBlockHash :: string
  wrPrevHash :: string
  wrHeight :: int
  wrMinedBy :: string
  wrMiner :: string
  wrCreatedOn :: int
  wrConfirmed :: bool

record hashRow =
  hrUuid :: string
  hrAccountID :: string
  hrMiner :: string
  hrIP :: string
  hrHashRate :: string
  hrUpdatedOn :: int

record pg =
  pgMetadata :: "(string \<times> string) list option"
  pgAccounts :: "accountRow list option"
  pgPayments :: "paymentRow list option"
  pgArchived :: "paymentRow list option"
  pgJobs :: "jobRow list option"
  pgShares :: "shareRow list option"
  pgWork :: "workRow list option"
  pgHashData :: "hashRow list option"

datatype sqlError = UniqueViolation | SqlFailed

type_synonym 'a sql = "(sqlError, 'a) outcome"

section \<open>Statements\<close>

text \<open>A statement on a table that does not exist fails; the result of a write is the number of
  rows it affected.\<close>

definition table :: "'r list option \<Rightarrow> 'r list sql" where
  "table t = (case t of None \<Rightarrow> Err SqlFailed | Some rows \<Rightarrow> Ok rows)"

definition sqlSelect :: "'r list option \<Rightarrow> ('r \<Rightarrow> bool) \<Rightarrow> 'r list sql" where
  "sqlSelect t P = bnd (table t) (\<lambda>rows. Ok (filter P rows))"

text \<open>The key of a table is unique.\<close>

definition sqlInsert :: "('r \<Rightarrow> string) \<Rightarrow> 'r \<Rightarrow> 'r list option \<Rightarrow> (nat \<times> 'r list option) sql" where
  "sqlInsert key row t = bnd (table t) (\<lambda>rows.
     if key row \<in> key ` set rows then Err UniqueViolation else Ok (1, Some (rows @ [row])))"

definition sqlUpdate :: "('r \<Rightarrow> bool) \<Rightarrow> ('r \<Rightarrow> 'r) \<Rightarrow> 'r list option \<Rightarrow> (nat \<times> 'r list option) sql" where
  "sqlUpdate P f t = bnd (table t) (\<lambda>rows.
     Ok (length (filter P rows), Some (map (\<lambda>r. if P r then f r else r) rows)))"

definition sqlDelete :: "('r \<Rightarrow> bool) \<Rightarrow> 'r list option \<Rightarrow> (nat \<times> 'r list option) sql" where
  "sqlDelete P t = bnd (table t) (\<lambda>rows. Ok (length (filter P rows), Some (filter (\<lambda>r. \<not> P r) rows)))"

definition createTable :: "'r list option \<Rightarrow> 'r list option" where
  "createTable t = (case t of None \<Rightarrow> Some [] | Some rows \<Rightarrow> Some rows)"

type_synonym sqlWrite = "pg \<Rightarrow> (nat \<times> pg) sql"

subsection \<open>Tables as a whole\<close>

definition sql_createTableMetadata :: sqlWrite where
  "sql_createTableMetadata db = Ok (0, db\<lparr>pgMetadata := createTable (pgMetadata db)\<rparr>)"

definition sql_createTableAccounts :: sqlWrite where
  "sql_createTableAccounts db = Ok (0, db\<lparr>pgAccounts := createTable (pgAccounts db)\<rparr>)"

definition sql_createTablePayments :: sqlWrite where
  "sql_createTablePayments db = Ok (0, db\<lparr>pgPayments := createTable (pgPayments db)\<rparr>)"

definition sql_createTableArchivedPayments :: sqlWrite where
  "sql_createTableArchivedPayments db = Ok (0, db\<lparr>pgArchived := createTable (pgArchived db)\<rparr>)"

definition sql_createTableJobs :: sqlWrite where
  "sql_createTableJobs db = Ok (0, db\<lparr>pgJobs := createTable (pgJobs db)\<rparr>)"

definition sql_createTableShares :: sqlWrite where
  "sql_createTableShares db = Ok (0, db\<lparr>pgShares := createTable (pgShares db)\<rparr>)"

definition sql_createTableAcceptedWork :: sqlWrite where
  "sql_createTableAcceptedWork db = Ok (0, db\<lparr>pgWork := createTable (pgWork db)\<rparr>)"

definition sql_createTableHashData :: sqlWrite where
  "sql_createTableHashData db = Ok (0, db\<lparr>pgHashData := createTable (pgHashData db)\<rparr>)"

definition sql_purgeDB :: sqlWrite where
  "sql_purgeDB db = Ok (0, \<lparr>pgMetadata = None, pgAccounts = None, pgPayments = None, pgArchived = None, pgJobs = None,
     pgShares = None, pgWork = None, pgHashData = None\<rparr>)"

subsection \<open>Metadata\<close>

definition selectValue :: "string \<Rightarrow> pg \<Rightarrow> string list sql" where
  "selectValue key db = bnd (sqlSelect (pgMetadata db) (\<lambda>r. fst r = key)) (\<lambda>rows. Ok (map snd rows))"

definition insertValue :: "string \<Rightarrow> string \<Rightarrow> sqlWrite" where
  "insertValue key v db = bnd (table (pgMetadata db)) (\<lambda>rows. Ok (1, db\<lparr>pgMetadata := Some (put key v rows)\<rparr>))"

definition sql_selectPoolMode :: "pg \<Rightarrow> string list sql" where "sql_selectPoolMode = selectValue ''poolmode''"
definition sql_insertPoolMode :: "string \<Rightarrow> sqlWrite" where "sql_insertPoolMode = insertValue ''poolmode''"
definition sql_selectCSRFSecret :: "pg \<Rightarrow> string list sql" where "sql_selectCSRFSecret = selectValue ''csrfsecret''"
definition sql_insertCSRFSecret :: "string \<Rightarrow> sqlWrite" where "sql_insertCSRFSecret = insertValue ''csrfsecret''"
definition sql_selectLastPaymentHeight :: "pg \<Rightarrow> string list sql" where
  "sql_selectLastPaymentHeight = selectValue ''lastpaymentheight''"
definition sql_insertLastPaymentHeight :: "string \<Rightarrow> sqlWrite" where
  "sql_insertLastPaymentHeight = insertValue ''lastpaymentheight''"
definition sql_selectLastPaymentPaidOn :: "pg \<Rightarrow> string list sql" where
  "sql_selectLastPaymentPaidOn = selectValue ''lastpaymentpaidon''"
definition sql_insertLastPaymentPaidOn :: "string \<Rightarrow> sqlWrite" where
  "sql_insertLastPaymentPaidOn = insertValue ''lastpaymentpaidon''"
definition sql_selectLastPaymentCreatedOn :: "pg \<Rightarrow> string list sql" where
  "sql_selectLastPaymentCreatedOn = selectValue ''lastpaymentcreatedon''"
definition sql_insertLastPaymentCreatedOn :: "string \<Rightarrow> sqlWrite" where
  "sql_insertLastPaymentCreatedOn = insertValue ''lastpaymentcreatedon''"

subsection \<open>Accounts\<close>

definition sql_insertAccount :: "accountRow \<Rightarrow> sqlWrite" where
  "sql_insertAccount row db = bnd (sqlInsert arUuid row (pgAccounts db)) (\<lambda>(n, t). Ok (n, db\<lparr>pgAccounts := t\<rparr>))"

definition sql_selectAccount :: "string \<Rightarrow> pg \<Rightarrow> accountRow list sql" where
  "sql_selectAccount uuid db = sqlSelect (pgAccounts db) (\<lambda>r. arUuid r = uuid)"

definition sql_deleteAccount :: "string \<Rightarrow> sqlWrite" where
  "sql_deleteAccount uuid db = bnd (sqlDelete (\<lambda>r. arUuid r = uuid) (pgAccounts db)) (\<lambda>(n, t). Ok (n, db\<lparr>pgAccounts := t\<rparr>))"

subsection \<open>Payments\<close>

definition sql_insertPayment :: "paymentRow \<Rightarrow> sqlWrite" where
  "sql_insertPayment row db = bnd (sqlInsert prUuid row (pgPayments db)) (\<lambda>(n, t). Ok (n, db\<lparr>pgPayments := t\<rparr>))"

definition sql_selectPayment :: "string \<Rightarrow> pg \<Rightarrow> paymentRow list sql" where
  "sql_selectPayment uuid db = sqlSelect (pgPayments db) (\<lambda>r. prUuid r = uuid)"

definition sql_deletePayment :: "string \<Rightarrow> sqlWrite" where
  "sql_deletePayment uuid db = bnd (sqlDelete (\<lambda>r. prUuid r = uuid) (pgPayments db)) (\<lambda>(n, t). Ok (n, db\<lparr>pgPayments := t\<rparr>))"

text \<open>Every column but the key is set.\<close>

definition sql_updatePayment :: "paymentRow \<Rightarrow> sqlWrite" where
  "sql_updatePayment row db = bnd (sqlUpdate (\<lambda>r. prUuid r = prUuid row) (\<lambda>r. row\<lparr>prUuid := prUuid r\<rparr>) (pgPayments db))
     (\<lambda>(n, t). Ok (n, db\<lparr>pgPayments := t\<rparr>))"

definition sql_insertArchivedPayment :: "paymentRow \<Rightarrow> sqlWrite" where
  "sql_insertArchivedPayment row db = bnd (sqlInsert prUuid row (pgArchived db)) (\<lambda>(n, t). Ok (n, db\<lparr>pgArchived := t\<rparr>))"

definition sql_selectPaymentsAtHeight :: "int \<Rightarrow> pg \<Rightarrow> paymentRow list sql" where
  "sql_selectPaymentsAtHeight height db =
     sqlSelect (pgPayments db) (\<lambda>r. prPaidOnHeight r = 0 \<and> height > prEstimatedMaturity r + 1)"

definition sql_selectPendingPayments :: "pg \<Rightarrow> paymentRow list sql" where
  "sql_selectPendingPayments db = sqlSelect (pgPayments db) (\<lambda>r. prPaidOnHeight r = 0)"

definition sql_countPaymentsAtBlockHash :: "string \<Rightarrow> pg \<Rightarrow> int list sql" where
  "sql_countPaymentsAtBlockHash blockHash db =
     bnd (sqlSelect (pgPayments db) (\<lambda>r. prPaidOnHeight r = 0 \<and> prSourceBlockHash r = blockHash)) (\<lambda>rows.
     Ok [int (length rows)])"

definition sql_selectArchivedPayments :: "pg \<Rightarrow> paymentRow list sql" where
  "sql_selectArchivedPayments db = bnd (table (pgArchived db)) (\<lambda>rows. Ok (sort_key (\<lambda>r. - prHeight r) rows))"

definition sql_selectMaturePendingPayments :: "int \<Rightarrow> pg \<Rightarrow> paymentRow list sql" where
  "sql_selectMaturePendingPayments height db =
     sqlSelect (pgPayments db) (\<lambda>r. prPaidOnHeight r = 0 \<and> prEstimatedMaturity r + 1 \<le> height)"

subsection \<open>Shares\<close>

definition sql_selectShare :: "string \<Rightarrow> pg \<Rightarrow> shareRow list sql" where
  "sql_selectShare uuid db = sqlSelect (pgShares db) (\<lambda>r. srUuid r = uuid)"

definition sql_insertShare :: "shareRow \<Rightarrow> sqlWrite" where
  "sql_insertShare row db = bnd (sqlInsert srUuid row (pgShares db)) (\<lambda>(n, t). Ok (n, db\<lparr>pgShares := t\<rparr>))"

definition sql_selectSharesOnOrBeforeTime :: "int \<Rightarrow> pg \<Rightarrow> shareRow list sql" where
  "sql_selectSharesOnOrBeforeTime time db = sqlSelect (pgShares db) (\<lambda>r. srCreatedOn r \<le> time)"

definition sql_selectSharesAfterTime :: "int \<Rightarrow> pg \<Rightarrow> shareRow list sql" where
  "sql_selectSharesAfterTime time db = sqlSelect (pgShares db) (\<lambda>r. srCreatedOn r > time)"

definition sql_deleteShareCreatedBefore :: "int \<Rightarrow> sqlWrite" where
  "sql_deleteShareCreatedBefore time db =
     bnd (sqlDelete (\<lambda>r. srCreatedOn r < time) (pgShares db)) (\<lambda>(n, t). Ok (n, db\<lparr>pgShares := t\<rparr>))"

subsection \<open>Accepted work\<close>

definition sql_selectAcceptedWork :: "string \<Rightarrow> pg \<Rightarrow> workRow list sql" where
  "sql_selectAcceptedWork uuid db = sqlSelect (pgWork db) (\<lambda>r. wrUuid r = uuid)"

definition sql_insertAcceptedWork :: "workRow \<Rightarrow> sqlWrite" where
  "sql_insertAcceptedWork row db = bnd (sqlInsert wrUuid row (pgWork db)) (\<lambda>(n, t). Ok (n, db\<lparr>pgWork := t\<rparr>))"

definition sql_updateAcceptedWork :: "workRow \<Rightarrow> sqlWrite" where
  "sql_updateAcceptedWork row db = bnd (sqlUpdate (\<lambda>r. wrUuid r = wrUuid row) (\<lambda>r. row\<lparr>wrUuid := wrUuid r\<rparr>) (pgWork db))
     (\<lambda>(n, t). Ok (n, db\<lparr>pgWork := t\<rparr>))"

definition sql_deleteAcceptedWork :: "string \<Rightarrow> sqlWrite" where
  "sql_deleteAcceptedWork uuid db = bnd (sqlDelete (\<lambda>r. wrUuid r = uuid) (pgWork db)) (\<lambda>(n, t). Ok (n, db\<lparr>pgWork := t\<rparr>))"

definition sql_selectMinedWork :: "pg \<Rightarrow> workRow list sql" where
  "sql_selectMinedWork db = bnd (table (pgWork db)) (\<lambda>rows. Ok (sort_key (\<lambda>r. - wrHeight r) rows))"

definition sql_selectUnconfirmedWork :: "int \<Rightarrow> pg \<Rightarrow> workRow list sql" where
  "sql_selectUnconfirmedWork height db = sqlSelect (pgWork db) (\<lambda>r. height > wrHeight r \<and> wrConfirmed r = False)"

subsection \<open>Jobs\<close>

definition sql_selectJob :: "string \<Rightarrow> pg \<Rightarrow> jobRow list sql" where
  "sql_selectJob uuid db = sqlSelect (pgJobs db) (\<lambda>r. jrUuid r = uuid)"

definition sql_insertJob :: "jobRow \<Rightarrow> sqlWrite" where
  "sql_insertJob row db = bnd (sqlInsert jrUuid row (pgJobs db)) (\<lambda>(n, t). Ok (n, db\<lparr>pgJobs := t\<rparr>))"

definition sql_deleteJob :: "string \<Rightarrow> sqlWrite" where
  "sql_deleteJob uuid db = bnd (sqlDelete (\<lambda>r. jrUuid r = uuid) (pgJobs db)) (\<lambda>(n, t). Ok (n, db\<lparr>pgJobs := t\<rparr>))"

definition sql_deleteJobBeforeHeight :: "int \<Rightarrow> sqlWrite" where
  "sql_deleteJobBeforeHeight height db =
     bnd (sqlDelete (\<lambda>r. jrHeight r < height) (pgJobs db)) (\<lambda>(n, t). Ok (n, db\<lparr>pgJobs := t\<rparr>))"

subsection \<open>Hash data\<close>

definition sql_selectHashData :: "string \<Rightarrow> pg \<Rightarrow> hashRow list sql" where
  "sql_selectHashData uuid db = sqlSelect (pgHashData db) (\<lambda>r. hrUuid r = uuid)"

definition sql_listHashData :: "int \<Rightarrow> pg \<Rightarrow> hashRow list sql" where
  "sql_listHashData time db = sqlSelect (pgHashData db) (\<lambda>r. hrUpdatedOn r > time)"

definition sql_pruneHashData :: "int \<Rightarrow> sqlWrite" where
  "sql_pruneHashData time db =
     bnd (sqlDelete (\<lambda>r. hrUpdatedOn r < time) (pgHashData db)) (\<lambda>(n, t). Ok (n, db\<lparr>pgHashData := t\<rparr>))"

definition sql_insertHashData :: "hashRow \<Rightarrow> sqlWrite" where
  "sql_insertHashData row db = bnd (sqlInsert hrUuid row (pgHashData db)) (\<lambda>(n, t). Ok (n, db\<lparr>pgHashData := t\<rparr>))"

definition sql_updateHashData :: "hashRow \<Rightarrow> sqlWrite" where
  "sql_updateHashData row db = bnd (sqlUpdate (\<lambda>r. hrUuid r = hrUuid row) (\<lambda>r. row\<lparr>hrUuid := hrUuid r\<rparr>) (pgHashData db))
     (\<lambda>(n, t). Ok (n, db\<lparr>pgHashData := t\<rparr>))"

end
