(* ===== verification/Postgres.thy ===== *)
theory Postgres
  imports Sql Message
begin

text \<open>
  The postgres implementation of the pool database (\<open>postgres.go\<close>). What becomes of a
  statement on its way is an argument of the model, a function of the statement's name and of the
  tables: it is executed and answered, or it never takes effect, or it is executed and the
  answer is lost. In the last two cases, and when the server refuses the statement, the client
  sees an error. A transaction runs its statements on the tables it began with, and only a commit
  that takes effect keeps the result; one that is never committed is undone by the server. The
  server would refuse a text with a zero byte or one that is not UTF-8; the texts of the pool are
  hexadecimal, addresses and names, and the model stores any. \<open>Close\<close> closes the connection and
  \<open>Backup\<close> and \<open>httpBackup\<close> are not supported: they are left out.
\<close>

section \<open>Parameters and columns\<close>

datatype reply = Answered | NoEffect | AnswerLost

type_synonym Conn = "string \<Rightarrow> pg \<Rightarrow> reply"

text \<open>What the client sees of a statement.\<close>

definition send_stmt :: "Conn \<Rightarrow> string \<Rightarrow> (pg \<Rightarrow> 'a sql) \<Rightarrow> pg \<Rightarrow> 'a sql" where
  "send_stmt c name q db = (if c name db = Answered then q db else Err SqlFailed)"

text \<open>What a statement outside a transaction leaves on the server.\<close>

definition server_after :: "Conn \<Rightarrow> string \<Rightarrow> sqlWrite \<Rightarrow> pg \<Rightarrow> pg" where
  "server_after c name q db = (if c name db = NoEffect then db else case q db of Ok (_, db') \<Rightarrow> db' | _ \<Rightarrow> db)"

text \<open>A \<open>TEXT\<close> column read into an \<open>int64\<close> and a \<open>uint32\<close>.\<close>

definition scanTextInt64 :: "string \<Rightarrow> 64 word sql" where
  "scanTextInt64 s = (case parseInt s of
     Some i \<Rightarrow> if in_i64 i then Ok (word_of_int i) else Err SqlFailed | None \<Rightarrow> Err SqlFailed)"

definition scanTextUint32 :: "string \<Rightarrow> 32 word sql" where
  "scanTextUint32 s = (case parseUint32 s of Ok w \<Rightarrow> Ok w | _ \<Rightarrow> Err SqlFailed)"

text \<open>An \<open>INT8\<close> column read into a \<open>uint32\<close>, an \<open>int64\<close> and a \<open>uint64\<close>.\<close>

definition scanUint32 :: "int \<Rightarrow> 32 word sql" where
  "scanUint32 i = (if 0 \<le> i \<and> i < 2 ^ 32 then Ok (word_of_int i) else Err SqlFailed)"

definition scanInt64 :: "int \<Rightarrow> 64 word" where
  "scanInt64 i = word_of_int i"

definition scanUint64 :: "int \<Rightarrow> 64 word sql" where
  "scanUint64 i = (if 0 \<le> i then Ok (word_of_int i) else Err SqlFailed)"

text \<open>A \<open>uint64\<close> parameter with its high bit set is refused by the driver.\<close>

definition argUint64 :: "64 word \<Rightarrow> int sql" where
  "argUint64 w = (if uint w < 2 ^ 63 then Ok (uint w) else Err SqlFailed)"

text \<open>
  \<open>big.Rat.SetString\<close> on the texts \<open>RatString\<close> writes: an integer, or two of them
  separated by a slash.
\<close>

definition SetString :: "string \<Rightarrow> rat option" where
  "SetString s = (case splitFirst CHR ''/'' s of
     (a, None) \<Rightarrow> map_option of_int (parseInt a)
   | (a, Some b) \<Rightarrow> (case (parseInt a, parseInt b) of
         (Some x, Some y) \<Rightarrow> if y = 0 then None else Some (of_int x / of_int y) | _ \<Rightarrow> None))"

section \<open>Calls\<close>

text \<open>\<open>db.DB.Exec\<close> with the error of the method for a failure.\<close>

definition pgExec :: "Conn \<Rightarrow> string \<Rightarrow> sqlWrite \<Rightarrow> (sqlError \<Rightarrow> goerror) \<Rightarrow> pg dbop" where
  "pgExec c name q onErr db = (case send_stmt c name q db of
     Ok _ \<Rightarrow> Ok () | Err e \<Rightarrow> Err (onErr e) | Panic \<Rightarrow> Panic, server_after c name q db)"

definition onInsert :: "sqlError \<Rightarrow> goerror" where
  "onInsert e = (case e of UniqueViolation \<Rightarrow> DBError ValueFound | SqlFailed \<Rightarrow> DBError PersistEntry)"

text \<open>An update that reports the number of rows it affected.\<close>

definition pgUpdate :: "Conn \<Rightarrow> string \<Rightarrow> sqlWrite \<Rightarrow> pg dbop" where
  "pgUpdate c name q db = (case send_stmt c name q db of
     Ok (n, _) \<Rightarrow> if n = 0 then Err (DBError ValueNotFound) else Ok ()
   | Err e \<Rightarrow> Err Foreign | Panic \<Rightarrow> Panic, server_after c name q db)"

text \<open>\<open>db.DB.QueryRow(...).Scan(...)\<close>, with the kind of error for a failure.\<close>

definition queryRow :: "Conn \<Rightarrow> string \<Rightarrow> (pg \<Rightarrow> 'r list sql) \<Rightarrow> ('r \<Rightarrow> 'a sql) \<Rightarrow> ErrorKind \<Rightarrow> pg \<Rightarrow> 'a go" where
  "queryRow c name q scan kind db = (case send_stmt c name q db of
     Ok [] \<Rightarrow> Err (DBError ValueNotFound)
   | Ok (r # _) \<Rightarrow> map_err (\<lambda>_. DBError kind) (case scan r of Ok x \<Rightarrow> Ok x | Err _ \<Rightarrow> Err Foreign | Panic \<Rightarrow> Panic)
   | Err _ \<Rightarrow> Err (DBError kind) | Panic \<Rightarrow> Panic)"

text \<open>\<open>db.DB.Query\<close> and the decoding of every row. The connection may still fail while the rows
  are read, which \<open>rows.Err\<close> reports after the last row that came.\<close>

definition queryRows :: "Conn \<Rightarrow> string \<Rightarrow> (pg \<Rightarrow> 'r list sql) \<Rightarrow> (bool \<Rightarrow> 'r list \<Rightarrow> 'a go) \<Rightarrow> pg \<Rightarrow> 'a go" where
  "queryRows c name q decode db = (case send_stmt c name q db of
     Ok rows \<Rightarrow> decode (c (name @ '' rows'') db \<noteq> Answered) rows | Err _ \<Rightarrow> Err (DBError FetchEntry) | Panic \<Rightarrow> Panic)"

section \<open>Creation\<close>

definition pg_purge :: "Conn \<Rightarrow> pg dbop" where
  "pg_purge c = pgExec c ''purgeDB'' sql_purgeDB (\<lambda>_. DBError DeleteEntry)"

definition createStmts :: "(string \<times> sqlWrite) list" where
  "createStmts = [(''createTableMetadata'', sql_createTableMetadata), (''createTableAccounts'', sql_createTableAccounts),
     (''createTablePayments'', sql_createTablePayments), (''createTableArchivedPayments'', sql_createTableArchivedPayments),
     (''createTableJobs'', sql_createTableJobs), (''createTableShares'', sql_createTableShares),
     (''createTableAcceptedWork'', sql_createTableAcceptedWork), (''createTableHashData'', sql_createTableHashData)]"

definition InitPostgresDB :: "Conn \<Rightarrow> bool \<Rightarrow> bool \<Rightarrow> pg dbop" where
  "InitPostgresDB c opens purge =
     (if \<not> opens then failc (DBError DBOpen) else
      bndc (if purge then pg_purge c else retc ()) (\<lambda>_.
      bndc (pgExec c ''ping'' (\<lambda>db. Ok (0, db)) (\<lambda>_. DBError DBOpen)) (\<lambda>_.
      forc createStmts (\<lambda>(name, q). pgExec c name q (\<lambda>_. DBError CreateStorage)))))"

section \<open>Rows\<close>

text \<open>A payment without a source is a nil dereference.\<close>

definition paymentArgs :: "Payment \<Rightarrow> paymentRow go" where
  "paymentArgs p = (case pmSource p of None \<Rightarrow> Panic
     | Some s \<Rightarrow> Ok \<lparr>prUuid = pmUUID p, prAccount = pmAccount p, prEstimatedMaturity = uint (pmEstimatedMaturity p),
         prHeight = uint (pmHeight p), prAmount = pmAmount p, prCreatedOn = sint (pmCreatedOn p),
         prPaidOnHeight = uint (pmPaidOnHeight p), prTransactionID = pmTransactionID p,
         prSourceBlockHash = srcBlockHash s, prSourceCoinbase = srcCoinbase s\<rparr>)"

definition scanPayment :: "paymentRow \<Rightarrow> Payment sql" where
  "scanPayment r =
     bnd (scanUint32 (prEstimatedMaturity r)) (\<lambda>estimatedMaturity.
     bnd (scanUint32 (prHeight r)) (\<lambda>height.
     bnd (scanUint32 (prPaidOnHeight r)) (\<lambda>paidOnHeight.
     Ok \<lparr>pmUUID = prUuid r, pmAccount = prAccount r, pmEstimatedMaturity = estimatedMaturity, pmHeight = height,
       pmAmount = prAmount r, pmCreatedOn = scanInt64 (prCreatedOn r), pmPaidOnHeight = paidOnHeight,
       pmTransactionID = prTransactionID r,
       pmSource = Some \<lparr>srcBlockHash = prSourceBlockHash r, srcCoinbase = prSourceCoinbase r\<rparr>\<rparr>)))"

definition scanOr :: "ErrorKind \<Rightarrow> 'a sql \<Rightarrow> 'a go" where
  "scanOr kind r = (case r of Ok x \<Rightarrow> Ok x | Err _ \<Rightarrow> Err (DBError kind) | Panic \<Rightarrow> Panic)"

definition rowsDone :: "bool \<Rightarrow> 'a \<Rightarrow> 'a go" where
  "rowsDone rowsErr toReturn = (if rowsErr then Err (DBError Decode) else Ok toReturn)"

definition decodePaymentRows :: "bool \<Rightarrow> paymentRow list \<Rightarrow> Payment list go" where
  "decodePaymentRows rowsErr rows = bnd (foldo (\<lambda>r toReturn.
     bnd (scanOr Decode (scanPayment r)) (\<lambda>payment. Ok (toReturn @ [payment]))) rows [])
     (rowsDone rowsErr)"

definition workArgs :: "AcceptedWork \<Rightarrow> workRow" where
  "workArgs w = \<lparr>wrUuid = awUUID w, wrBlockHash = awBlockHash w, wrPrevHash = awPrevHash w, wrHeight = uint (awHeight w),
     wrMinedBy = awMinedBy w, wrMiner = awMiner w, wrCreatedOn = sint (awCreatedOn w), wrConfirmed = awConfirmed w\<rparr>"

definition scanWork :: "workRow \<Rightarrow> AcceptedWork sql" where
  "scanWork r = bnd (scanUint32 (wrHeight r)) (\<lambda>height.
     Ok \<lparr>awUUID = wrUuid r, awBlockHash = wrBlockHash r, awPrevHash = wrPrevHash r, awHeight = height,
       awMinedBy = wrMinedBy r, awMiner = wrMiner r, awCreatedOn = scanInt64 (wrCreatedOn r), awConfirmed = wrConfirmed r\<rparr>)"

definition decodeWorkRows :: "bool \<Rightarrow> workRow list \<Rightarrow> AcceptedWork list go" where
  "decodeWorkRows rowsErr rows = bnd (foldo (\<lambda>r toReturn.
     bnd (scanOr Decode (scanWork r)) (\<lambda>work. Ok (toReturn @ [work]))) rows [])
     (rowsDone rowsErr)"

definition shareArgs :: "Share \<Rightarrow> shareRow" where
  "shareArgs s = \<lparr>srUuid = shUUID s, srAccount = shAccount s, srWeight = ratText (shWeight s), srCreatedOn = sint (shCreatedOn s)\<rparr>"

definition decodeShare :: "shareRow \<Rightarrow> Share go" where
  "decodeShare r = (case SetString (srWeight r) of
     None \<Rightarrow> Err (DBError Parse)
   | Some weightRat \<Rightarrow> Ok \<lparr>shUUID = srUuid r, shAccount = srAccount r, shWeight = weightRat, shCreatedOn = scanInt64 (srCreatedOn r)\<rparr>)"

definition decodeShareRows :: "bool \<Rightarrow> shareRow list \<Rightarrow> Share list go" where
  "decodeShareRows rowsErr rows = bnd (foldo (\<lambda>r toReturn. bnd (decodeShare r) (\<lambda>share. Ok (toReturn @ [share]))) rows [])
     (rowsDone rowsErr)"

definition hashArgs :: "HashData \<Rightarrow> hashRow" where
  "hashArgs d = \<lparr>hrUuid = hdUUID d, hrAccountID = hdAccountID d, hrMiner = hdMiner d, hrIP = hdIP d,
     hrHashRate = ratText (hdHashRate d), hrUpdatedOn = sint (hdUpdatedOn d)\<rparr>"

definition decodeHashData :: "hashRow \<Rightarrow> HashData go" where
  "decodeHashData r = (case SetString (hrHashRate r) of
     None \<Rightarrow> Err (DBError Parse)
   | Some hashRat \<Rightarrow> Ok \<lparr>hdUUID = hrUuid r, hdAccountID = hrAccountID r, hdMiner = hrMiner r, hdIP = hrIP r,
       hdHashRate = hashRat, hdUpdatedOn = scanInt64 (hrUpdatedOn r)\<rparr>)"

definition decodeHashDataRows :: "bool \<Rightarrow> hashRow list \<Rightarrow> (string \<times> HashData) list go" where
  "decodeHashDataRows rowsErr rows = bnd (foldo (\<lambda>r toReturn. bnd (decodeHashData r) (\<lambda>d. Ok (put (hdUUID d) d toReturn))) rows [])
     (rowsDone rowsErr)"

section \<open>Metadata\<close>

definition pg_fetchPoolMode :: "Conn \<Rightarrow> pg \<Rightarrow> 32 word go" where
  "pg_fetchPoolMode c = queryRow c ''selectPoolMode'' sql_selectPoolMode scanTextUint32 FetchEntry"

definition pg_persistPoolMode :: "Conn \<Rightarrow> 32 word \<Rightarrow> pg dbop" where
  "pg_persistPoolMode c mode = pgExec c ''insertPoolMode'' (sql_insertPoolMode (show_nat (unat mode))) (\<lambda>_. DBError PersistEntry)"

definition pg_fetchCSRFSecret :: "Conn \<Rightarrow> pg \<Rightarrow> bytes go" where
  "pg_fetchCSRFSecret c db = bnd (queryRow c ''selectCSRFSecret'' sql_selectCSRFSecret Ok FetchEntry db) (\<lambda>secret.
     map_err (\<lambda>_. DBError Parse) (DecodeString secret))"

definition pg_persistCSRFSecret :: "Conn \<Rightarrow> bytes \<Rightarrow> pg dbop" where
  "pg_persistCSRFSecret c secret =
     pgExec c ''insertCSRFSecret'' (sql_insertCSRFSecret (EncodeToString secret)) (\<lambda>_. DBError PersistEntry)"

text \<open>A transaction: its statements run one after the other, and the first that fails ends it with
  the error that belongs to it, whether the rollback succeeds or not.\<close>

fun pgTx :: "Conn \<Rightarrow> (string \<times> sqlWrite \<times> goerror \<times> goerror) list \<Rightarrow> goerror \<Rightarrow> pg \<Rightarrow> pg dbop" where
  "pgTx c [] commitErr db0 db = (case c ''commit'' db of
     Answered \<Rightarrow> (Ok (), db) | NoEffect \<Rightarrow> (Err commitErr, db0) | AnswerLost \<Rightarrow> (Err commitErr, db))"
| "pgTx c ((name, q, rollbackErr, err) # stmts) commitErr db0 db =
     (case send_stmt c name q db of
        Ok (_, db') \<Rightarrow> pgTx c stmts commitErr db0 db'
      | Err _ \<Rightarrow> (Err (if c ''rollback'' db = Answered then err else rollbackErr), db0)
      | Panic \<Rightarrow> (Panic, db0))"

definition pg_persistLastPaymentInfo :: "Conn \<Rightarrow> 32 word \<Rightarrow> 64 word \<Rightarrow> pg dbop" where
  "pg_persistLastPaymentInfo c height paidOn db = (if c ''begin'' db \<noteq> Answered then (Err Foreign, db) else
     pgTx c [(''insertLastPaymentHeight'', sql_insertLastPaymentHeight (show_nat (unat height)), DBError PersistEntry, DBError PersistEntry),
       (''insertLastPaymentPaidOn'', sql_insertLastPaymentPaidOn (show_int (sint paidOn)), DBError PersistEntry, DBError PersistEntry)]
       Foreign db db)"

definition pg_loadLastPaymentInfo :: "Conn \<Rightarrow> pg \<Rightarrow> (32 word \<times> 64 word) go" where
  "pg_loadLastPaymentInfo c db =
     bnd (queryRow c ''selectLastPaymentHeight'' sql_selectLastPaymentHeight scanTextUint32 FetchEntry db) (\<lambda>height.
     bnd (queryRow c ''selectLastPaymentPaidOn'' sql_selectLastPaymentPaidOn scanTextInt64 FetchEntry db) (\<lambda>paidOn.
     Ok (height, paidOn)))"

definition pg_persistLastPaymentCreatedOn :: "Conn \<Rightarrow> 64 word \<Rightarrow> pg dbop" where
  "pg_persistLastPaymentCreatedOn c createdOn =
     pgExec c ''insertLastPaymentCreatedOn'' (sql_insertLastPaymentCreatedOn (show_int (sint createdOn))) (\<lambda>_. DBError PersistEntry)"

definition pg_loadLastPaymentCreatedOn :: "Conn \<Rightarrow> pg \<Rightarrow> 64 word go" where
  "pg_loadLastPaymentCreatedOn c =
     queryRow c ''selectLastPaymentCreatedOn'' sql_selectLastPaymentCreatedOn scanTextInt64 PersistEntry"

section \<open>Accounts\<close>

definition pg_persistAccount :: "Conn \<Rightarrow> Account \<Rightarrow> 64 word \<Rightarrow> pg dbop" where
  "pg_persistAccount c acc now = pgExec c ''insertAccount'' (\<lambda>db.
     bnd (argUint64 now) (\<lambda>createdOn.
     sql_insertAccount \<lparr>arUuid = acUUID acc, arAddress = acAddress acc, arCreatedOn = createdOn\<rparr> db)) onInsert"

definition pg_fetchAccount :: "Conn \<Rightarrow> string \<Rightarrow> pg \<Rightarrow> Account go" where
  "pg_fetchAccount c uuid = queryRow c ''selectAccount'' (sql_selectAccount uuid) (\<lambda>r.
     bnd (scanUint64 (arCreatedOn r)) (\<lambda>createdOn.
     Ok \<lparr>acUUID = arUuid r, acAddress = arAddress r, acCreatedOn = createdOn\<rparr>)) FetchEntry"

definition pg_deleteAccount :: "Conn \<Rightarrow> string \<Rightarrow> pg dbop" where
  "pg_deleteAccount c uuid = pgExec c ''deleteAccount'' (sql_deleteAccount uuid) (\<lambda>_. DBError DeleteEntry)"

section \<open>Payments\<close>

definition pg_fetchPayment :: "Conn \<Rightarrow> string \<Rightarrow> pg \<Rightarrow> Payment go" where
  "pg_fetchPayment c uuid = queryRow c ''selectPayment'' (sql_selectPayment uuid) scanPayment FetchEntry"

text \<open>The arguments of the statement are evaluated before the call.\<close>

definition withRow :: "Payment \<Rightarrow> (paymentRow \<Rightarrow> pg dbop) \<Rightarrow> pg dbop" where
  "withRow p f db = (case paymentArgs p of Ok row \<Rightarrow> f row db | Err e \<Rightarrow> (Err e, db) | Panic \<Rightarrow> (Panic, db))"

definition pg_PersistPayment :: "Conn \<Rightarrow> Payment \<Rightarrow> pg dbop" where
  "pg_PersistPayment c p = withRow p (\<lambda>row. pgExec c ''insertPayment'' (sql_insertPayment row) onInsert)"

definition pg_updatePayment :: "Conn \<Rightarrow> Payment \<Rightarrow> pg dbop" where
  "pg_updatePayment c p = withRow p (\<lambda>row. pgExec c ''updatePayment'' (sql_updatePayment row) (\<lambda>_. DBError PersistEntry))"

definition pg_deletePayment :: "Conn \<Rightarrow> string \<Rightarrow> pg dbop" where
  "pg_deletePayment c uuid = pgExec c ''deletePayment'' (sql_deletePayment uuid) (\<lambda>_. DBError DeleteEntry)"

definition pg_ArchivePayment :: "Conn \<Rightarrow> Payment \<Rightarrow> 64 word \<Rightarrow> 64 word \<Rightarrow> pg dbop" where
  "pg_ArchivePayment c p now rand db = (if c ''begin'' db \<noteq> Answered then (Err (DBError PersistEntry), db) else
     case send_stmt c ''deletePayment'' (sql_deletePayment (pmUUID p)) db of
       Err _ \<Rightarrow> (Err (if c ''rollback'' db = Answered then DBError DeleteEntry else DBError PersistEntry), db)
     | Panic \<Rightarrow> (Panic, db)
     | Ok (_, db1) \<Rightarrow>
         let aPmt = (NewPayment (pmAccount p) (pmSource p) (pmAmount p) (pmHeight p) (pmEstimatedMaturity p) now rand)
               \<lparr>pmTransactionID := pmTransactionID p, pmPaidOnHeight := pmPaidOnHeight p\<rparr> in
         (case paymentArgs aPmt of
            Ok row \<Rightarrow> pgTx c [(''insertArchivedPayment'', sql_insertArchivedPayment row, DBError PersistEntry, DBError DeleteEntry)]
              (DBError PersistEntry) db db1
          | Err e \<Rightarrow> (Err e, db)
          | Panic \<Rightarrow> (Panic, db)))"

definition pg_fetchPaymentsAtHeight :: "Conn \<Rightarrow> 32 word \<Rightarrow> (pg, goerror, Payment list) comp" where
  "pg_fetchPaymentsAtHeight c height =
     readc (queryRows c ''selectPaymentsAtHeight'' (sql_selectPaymentsAtHeight (uint height)) decodePaymentRows)"

definition pg_fetchPendingPayments :: "Conn \<Rightarrow> pg \<Rightarrow> Payment list go" where
  "pg_fetchPendingPayments c = queryRows c ''selectPendingPayments'' sql_selectPendingPayments decodePaymentRows"

definition pg_pendingPaymentsForBlockHash :: "Conn \<Rightarrow> string \<Rightarrow> pg \<Rightarrow> 32 word go" where
  "pg_pendingPaymentsForBlockHash c blockHash =
     queryRow c ''countPaymentsAtBlockHash'' (sql_countPaymentsAtBlockHash blockHash) scanUint32 FetchEntry"

definition pg_archivedPayments :: "Conn \<Rightarrow> pg \<Rightarrow> Payment list go" where
  "pg_archivedPayments c = queryRows c ''selectArchivedPayments'' sql_selectArchivedPayments decodePaymentRows"

definition pg_maturePendingPayments :: "Conn \<Rightarrow> 32 word \<Rightarrow> pg \<Rightarrow> (string \<times> Payment list) list go" where
  "pg_maturePendingPayments c height db =
     bnd (queryRows c ''selectMaturePendingPayments'' (sql_selectMaturePendingPayments (uint height)) decodePaymentRows db) (\<lambda>payments.
     foldo (\<lambda>pmt pmts. case pmSource pmt of None \<Rightarrow> Panic | Some s \<Rightarrow>
       Ok (put (srcBlockHash s) ((case map_of pmts (srcBlockHash s) of None \<Rightarrow> [] | Some ps \<Rightarrow> ps) @ [pmt]) pmts)) payments [])"

section \<open>Shares\<close>

definition pg_fetchShare :: "Conn \<Rightarrow> string \<Rightarrow> pg \<Rightarrow> Share go" where
  "pg_fetchShare c uuid db = bnd (queryRow c ''selectShare'' (sql_selectShare uuid) Ok FetchEntry db) decodeShare"

definition pg_PersistShare :: "Conn \<Rightarrow> Share \<Rightarrow> pg dbop" where
  "pg_PersistShare c share = pgExec c ''insertShare'' (sql_insertShare (shareArgs share)) onInsert"

definition pg_ppsEligibleShares :: "Conn \<Rightarrow> 64 word \<Rightarrow> pg \<Rightarrow> Share list go" where
  "pg_ppsEligibleShares c maxNano =
     queryRows c ''selectSharesOnOrBeforeTime'' (sql_selectSharesOnOrBeforeTime (sint maxNano)) decodeShareRows"

definition pg_pplnsEligibleShares :: "Conn \<Rightarrow> 64 word \<Rightarrow> pg \<Rightarrow> Share list go" where
  "pg_pplnsEligibleShares c minNano =
     queryRows c ''selectSharesAfterTime'' (sql_selectSharesAfterTime (sint minNano)) decodeShareRows"

definition pg_pruneShares :: "Conn \<Rightarrow> 64 word \<Rightarrow> pg dbop" where
  "pg_pruneShares c minNano =
     pgExec c ''deleteShareCreatedBefore'' (sql_deleteShareCreatedBefore (sint minNano)) (\<lambda>_. DBError DeleteEntry)"

section \<open>Accepted work\<close>

definition pg_fetchAcceptedWork :: "Conn \<Rightarrow> string \<Rightarrow> pg \<Rightarrow> AcceptedWork go" where
  "pg_fetchAcceptedWork c uuid = queryRow c ''selectAcceptedWork'' (sql_selectAcceptedWork uuid) scanWork FetchEntry"

definition pg_persistAcceptedWork :: "Conn \<Rightarrow> AcceptedWork \<Rightarrow> pg dbop" where
  "pg_persistAcceptedWork c work = pgExec c ''insertAcceptedWork'' (sql_insertAcceptedWork (workArgs work)) onInsert"

definition pg_updateAcceptedWork :: "Conn \<Rightarrow> AcceptedWork \<Rightarrow> pg dbop" where
  "pg_updateAcceptedWork c work = pgUpdate c ''updateAcceptedWork'' (sql_updateAcceptedWork (workArgs work))"

definition pg_deleteAcceptedWork :: "Conn \<Rightarrow> string \<Rightarrow> pg dbop" where
  "pg_deleteAcceptedWork c uuid = pgExec c ''deleteAcceptedWork'' (sql_deleteAcceptedWork uuid) (\<lambda>_. DBError DeleteEntry)"

definition pg_listMinedWork :: "Conn \<Rightarrow> pg \<Rightarrow> AcceptedWork list go" where
  "pg_listMinedWork c = queryRows c ''selectMinedWork'' sql_selectMinedWork decodeWorkRows"

definition pg_fetchUnconfirmedWork :: "Conn \<Rightarrow> 32 word \<Rightarrow> pg \<Rightarrow> AcceptedWork list go" where
  "pg_fetchUnconfirmedWork c height =
     queryRows c ''selectUnconfirmedWork'' (sql_selectUnconfirmedWork (uint height)) decodeWorkRows"

section \<open>Jobs\<close>

definition pg_fetchJob :: "Conn \<Rightarrow> string \<Rightarrow> pg \<Rightarrow> Job go" where
  "pg_fetchJob c uuid = queryRow c ''selectJob'' (sql_selectJob uuid) (\<lambda>r.
     bnd (scanUint32 (jrHeight r)) (\<lambda>height. Ok \<lparr>jbUUID = jrUuid r, jbHeight = height, jbHeader = jrHeader r\<rparr>)) FetchEntry"

definition pg_persistJob :: "Conn \<Rightarrow> Job \<Rightarrow> pg dbop" where
  "pg_persistJob c job = pgExec c ''insertJob''
     (sql_insertJob \<lparr>jrUuid = jbUUID job, jrHeight = uint (jbHeight job), jrHeader = jbHeader job\<rparr>) onInsert"

definition pg_deleteJob :: "Conn \<Rightarrow> string \<Rightarrow> pg dbop" where
  "pg_deleteJob c uuid = pgExec c ''deleteJob'' (sql_deleteJob uuid) (\<lambda>_. DBError DeleteEntry)"

definition pg_deleteJobsBeforeHeight :: "Conn \<Rightarrow> 32 word \<Rightarrow> pg dbop" where
  "pg_deleteJobsBeforeHeight c height =
     pgExec c ''deleteJobBeforeHeight'' (sql_deleteJobBeforeHeight (uint height)) (\<lambda>_. DBError DeleteEntry)"

section \<open>Hash data\<close>

definition pg_persistHashData :: "Conn \<Rightarrow> HashData \<Rightarrow> pg dbop" where
  "pg_persistHashData c hashData = pgExec c ''insertHashData'' (sql_insertHashData (hashArgs hashData)) onInsert"

definition pg_updateHashData :: "Conn \<Rightarrow> HashData \<Rightarrow> pg dbop" where
  "pg_updateHashData c hashData = pgUpdate c ''updateHashData'' (sql_updateHashData (hashArgs hashData))"

definition pg_fetchHashData :: "Conn \<Rightarrow> string \<Rightarrow> pg \<Rightarrow> HashData go" where
  "pg_fetchHashData c uuid db = bnd (queryRow c ''selectHashData'' (sql_selectHashData uuid) Ok FetchEntry db) decodeHashData"

definition pg_listHashData :: "Conn \<Rightarrow> 64 word \<Rightarrow> pg \<Rightarrow> (string \<times> HashData) list go" where
  "pg_listHashData c minNano = queryRows c ''listHashData'' (sql_listHashData (sint minNano)) decodeHashDataRows"

definition pg_pruneHashData :: "Conn \<Rightarrow> 64 word \<Rightarrow> pg dbop" where
  "pg_pruneHashData c minNano = pgExec c ''pruneHashData'' (sql_pruneHashData (sint minNano)) (\<lambda>_. DBError DeleteEntry)"

section \<open>The interface\<close>

definition PostgresDatabase :: "Conn \<Rightarrow> pg Database" where
  "PostgresDatabase c = \<lparr>
     db_purge = pg_purge c,
     db_fetchPoolMode = pg_fetchPoolMode c,
     db_persistPoolMode = pg_persistPoolMode c,
     db_fetchCSRFSecret = pg_fetchCSRFSecret c,
     db_persistCSRFSecret = pg_persistCSRFSecret c,
     db_persistLastPaymentInfo = pg_persistLastPaymentInfo c,
     db_loadLastPaymentInfo = pg_loadLastPaymentInfo c,
     db_persistLastPaymentCreatedOn = pg_persistLastPaymentCreatedOn c,
     db_loadLastPaymentCreatedOn = pg_loadLastPaymentCreatedOn c,
     db_fetchAccount = pg_fetchAccount c,
     db_persistAccount = pg_persistAccount c,
     db_deleteAccount = pg_deleteAccount c,
     db_fetchPayment = pg_fetchPayment c,
     db_PersistPayment = pg_PersistPayment c,
     db_updatePayment = pg_updatePayment c,
     db_deletePayment = pg_deletePayment c,
     db_ArchivePayment = pg_ArchivePayment c,
     db_fetchPaymentsAtHeight = pg_fetchPaymentsAtHeight c,
     db_fetchPendingPayments = pg_fetchPendingPayments c,
     db_pendingPaymentsForBlockHash = pg_pendingPaymentsForBlockHash c,
     db_archivedPayments = pg_archivedPayments c,
     db_maturePendingPayments = pg_maturePendingPayments c,
     db_PersistShare = pg_PersistShare c,
     db_fetchShare = pg_fetchShare c,
     db_ppsEligibleShares = pg_ppsEligibleShares c,
     db_pplnsEligibleShares = pg_pplnsEligibleShares c,
     db_pruneShares = pg_pruneShares c,
     db_fetchAcceptedWork = pg_fetchAcceptedWork c,
     db_persistAcceptedWork = pg_persistAcceptedWork c,
     db_updateAcceptedWork = pg_updateAcceptedWork c,
     db_deleteAcceptedWork = pg_deleteAcceptedWork c,
     db_listMinedWork = pg_listMinedWork c,
     db_fetchUnconfirmedWork = pg_fetchUnconfirmedWork c,
     db_fetchJob = pg_fetchJob c,
     db_persistJob = pg_persistJob c,
     db_deleteJob = pg_deleteJob c,
     db_deleteJobsBeforeHeight = pg_deleteJobsBeforeHeight c,
     db_persistHashData = pg_persistHashData c,
     db_updateHashData = pg_updateHashData c,
     db_fetchHashData = pg_fetchHashData c,
     db_listHashData = pg_listHashData c,
     db_pruneHashData = pg_pruneHashData c\<rparr>"

end
