(* ===== verification/Bolt.thy ===== *)
theory Bolt
  imports PoolData "HOL-Library.RBT"
begin

text \<open>
  The bolt key/value store (\<open>go.etcd.io/bbolt\<close>), which the pool uses and does not
  contain, is a parameter: a record of the operations the pool calls on a transaction, with
  the documented behaviour of the package as the laws of a locale. A bucket is addressed by
  its path from the root of the file. \<open>Update\<close> and \<open>View\<close> are the two forms in
  which \<open>boltdb.go\<close> runs its transactions.
\<close>

type_synonym path = "bytes list"

datatype bval = Raw bytes | Doc json

record 'db bolt =
  bHas :: "'db \<Rightarrow> path \<Rightarrow> bool"
  bGet :: "'db \<Rightarrow> path \<Rightarrow> bytes \<Rightarrow> bval option"
  bPut :: "'db \<Rightarrow> path \<Rightarrow> bytes \<Rightarrow> bval \<Rightarrow> 'db go"
  bDelete :: "'db \<Rightarrow> path \<Rightarrow> bytes \<Rightarrow> 'db go"
  bCursor :: "'db \<Rightarrow> path \<Rightarrow> (bytes \<times> bval) list"
  bCreateBucket :: "'db \<Rightarrow> path \<Rightarrow> 'db go"
  bDeleteBucket :: "'db \<Rightarrow> path \<Rightarrow> 'db go"
  bCommit :: "'db \<Rightarrow> 'db \<Rightarrow> goerror option"

section \<open>Transactions\<close>

text \<open>
  \<open>DB.Update(fn)\<close> commits when \<open>fn\<close> returns no error and leaves the database as it
  was when \<open>fn\<close> returns one or the commit fails.
\<close>

definition Update :: "'db bolt \<Rightarrow> ('db \<Rightarrow> ('a \<times> 'db) go) \<Rightarrow> ('db, goerror, 'a) comp" where
  "Update B fn = (\<lambda>db. case fn db of
     Ok (x, db') \<Rightarrow> (case bCommit B db db' of None \<Rightarrow> (Ok x, db') | Some e \<Rightarrow> (Err e, db))
   | Err e \<Rightarrow> (Err e, db)
   | Panic \<Rightarrow> (Panic, db))"

definition View :: "'db bolt \<Rightarrow> ('db \<Rightarrow> 'a go) \<Rightarrow> 'db \<Rightarrow> 'a go" where
  "View B fn = fn"

section \<open>The documented behaviour\<close>

text \<open>
  A \<open>Put\<close> or \<open>Delete\<close> that succeeds changes one key of one bucket; a cursor visits
  the pairs of a bucket in byte order of the keys; an operation on an open bucket returns an
  error and does not panic (the cursor is stated for the buckets nested in the pool
  bucket, which hold no bucket themselves).
\<close>

locale bolt_store =
  fixes B :: "'db bolt"
  assumes put_get: "bPut B db p k v = Ok db' \<Longrightarrow> bGet B db' = (bGet B db)(p := (bGet B db p)(k \<mapsto> v))"
    and put_has: "bPut B db p k v = Ok db' \<Longrightarrow> bHas B db' = bHas B db"
    and delete_get: "bDelete B db p k = Ok db' \<Longrightarrow> bGet B db' = (bGet B db)(p := (bGet B db p)(k := None))"
    and delete_has: "bDelete B db p k = Ok db' \<Longrightarrow> bHas B db' = bHas B db"
    and cursor_sorted: "length p = 2 \<Longrightarrow> sorted_wrt (<) (map fst (bCursor B db p))"
    and cursor_get: "length p = 2 \<Longrightarrow> map_of (bCursor B db p) = bGet B db p"
    and create_has: "bCreateBucket B db p = Ok db' \<Longrightarrow> bHas B db' = (bHas B db)(p := True)"
    and create_get: "bCreateBucket B db p = Ok db' \<Longrightarrow>
      bGet B db' = (if bHas B db p then bGet B db else (bGet B db)(p := Map.empty))"
    and delbkt_has: "bDeleteBucket B db p = Ok db' \<Longrightarrow>
      bHas B db' = (\<lambda>q. bHas B db q \<and> take (length p) q \<noteq> p)"
    and delbkt_get: "bDeleteBucket B db p = Ok db' \<Longrightarrow>
      bGet B db' = (\<lambda>q. if take (length p) q = p then Map.empty else bGet B db q)"
    and no_panic: "bPut B db p k v \<noteq> Panic" "bDelete B db p k \<noteq> Panic"
      "bCreateBucket B db p \<noteq> Panic" "bDeleteBucket B db p \<noteq> Panic"
begin

lemmas store_laws = put_get put_has delete_get delete_has create_has create_get delbkt_has delbkt_get

lemma cursor_distinct: "length p = 2 \<Longrightarrow> distinct (map fst (bCursor B db p))"
  using cursor_sorted by (rule sorted_wrt_less_distinct)

lemma cursor_mem: "length p = 2 \<Longrightarrow> (k, v) \<in> set (bCursor B db p) \<longleftrightarrow> bGet B db p k = Some v"
  using cursor_get[of p db] cursor_distinct[of p db] map_of_eq_Some_iff by metis

lemma Update_Ok:
  "Update B fn db = (Ok x, db') \<longleftrightarrow> fn db = Ok (x, db') \<and> bCommit B db db' = None"
  by (auto simp: Update_def split: outcome.splits option.splits)

lemma Update_not_Ok:
  "Update B fn db = (r, db') \<Longrightarrow> \<forall>x. r \<noteq> Ok x \<Longrightarrow> db' = db"
  by (auto simp: Update_def split: outcome.splits option.splits)

end

text \<open>
  A store whose medium does not fail: the documented conditions (an existing bucket, a key of
  1 to 32768 bytes) are enough for a write to succeed, and every commit succeeds.
\<close>

locale bolt_live = bolt_store +
  assumes put_ok: "bHas B db p \<Longrightarrow> k \<noteq> [] \<Longrightarrow> length k \<le> 32768 \<Longrightarrow> \<exists>db'. bPut B db p k v = Ok db'"
    and delete_ok: "bHas B db p \<Longrightarrow> \<exists>db'. bDelete B db p k = Ok db'"
    and create_ok: "p \<noteq> [] \<Longrightarrow> (butlast p = [] \<or> bHas B db (butlast p)) \<Longrightarrow>
      \<exists>db'. bCreateBucket B db p = Ok db'"
    and delbkt_ok: "bHas B db p \<Longrightarrow> \<exists>db'. bDeleteBucket B db p = Ok db'"
    and commit_ok: "bCommit B db db' = None"
begin

lemma Update_live: "fn db = Ok (x, db') \<Longrightarrow> Update B fn db = (Ok x, db')"
  by (simp add: Update_Ok commit_ok)

end

section \<open>An in-memory store\<close>

text \<open>
  The laws can be met: a store that keeps every bucket as a balanced search tree. It is the
  instance on which the witnesses of the development are evaluated.
\<close>

type_synonym memdb = "path \<Rightarrow> (bytes, bval) rbt option"

definition mem_bolt :: "memdb bolt" where
  "mem_bolt = \<lparr>
     bHas = (\<lambda>db p. db p \<noteq> None),
     bGet = (\<lambda>db p k. case db p of None \<Rightarrow> None | Some t \<Rightarrow> RBT.lookup t k),
     bPut = (\<lambda>db p k v. case db p of None \<Rightarrow> Err Foreign | Some t \<Rightarrow>
       if k = [] \<or> 32768 < length k then Err Foreign else Ok (db(p \<mapsto> RBT.insert k v t))),
     bDelete = (\<lambda>db p k. case db p of None \<Rightarrow> Err Foreign | Some t \<Rightarrow>
       Ok (db(p \<mapsto> RBT.delete k t))),
     bCursor = (\<lambda>db p. case db p of None \<Rightarrow> [] | Some t \<Rightarrow> RBT.entries t),
     bCreateBucket = (\<lambda>db p. if p = [] \<or> butlast p \<noteq> [] \<and> db (butlast p) = None then Err Foreign
       else Ok (case db p of None \<Rightarrow> db(p \<mapsto> RBT.empty) | Some _ \<Rightarrow> db)),
     bDeleteBucket = (\<lambda>db p. if db p = None then Err Foreign
       else Ok (\<lambda>q. if take (length p) q = p then None else db q)),
     bCommit = (\<lambda>db db'. None)\<rparr>"

lemma sorted_rbt_keys: "sorted_wrt (<) (map fst (RBT.entries t))"
  using RBT.sorted_entries[of t] RBT.distinct_entries[of t]
  by (simp add: strict_sorted_iff)

interpretation mem: bolt_live mem_bolt
proof (unfold_locales, goal_cases)
  case (1 db p k v db')
  then obtain t where "db p = Some t" "db' = db(p \<mapsto> RBT.insert k v t)"
    by (auto simp: mem_bolt_def split: option.splits if_splits)
  then show ?case by (intro ext) (simp add: mem_bolt_def)
next
  case (2 db p k v db')
  then show ?case
    by (intro ext) (auto simp: mem_bolt_def split: option.splits if_splits)
next
  case (3 db p k db')
  then obtain t where "db p = Some t" "db' = db(p \<mapsto> RBT.delete k t)"
    by (auto simp: mem_bolt_def split: option.splits)
  then show ?case by (intro ext) (simp add: mem_bolt_def restrict_map_def)
next
  case (4 db p k db')
  then show ?case
    by (intro ext) (auto simp: mem_bolt_def split: option.splits if_splits)
next
  case (5 p db)
  then show ?case by (simp add: mem_bolt_def sorted_rbt_keys split: option.split)
next
  case (6 p db)
  then show ?case by (simp add: mem_bolt_def RBT.map_of_entries split: option.split)
next
  case (7 db p db')
  then show ?case by (intro ext) (auto simp: mem_bolt_def split: option.splits if_splits)
next
  case (8 db p db')
  then have "db' = (case db p of None \<Rightarrow> db(p \<mapsto> RBT.empty) | Some _ \<Rightarrow> db)"
    by (auto simp: mem_bolt_def split: if_splits)
  then show ?case
    by (intro ext) (auto simp: mem_bolt_def split: option.splits if_splits)
next
  case (9 db p db')
  then have "db' = (\<lambda>q. if take (length p) q = p then None else db q)"
    by (auto simp: mem_bolt_def split: if_splits)
  then show ?case by (intro ext) (simp add: mem_bolt_def)
next
  case (10 db p db')
  then have "db' = (\<lambda>q. if take (length p) q = p then None else db q)"
    by (auto simp: mem_bolt_def split: if_splits)
  then show ?case by (intro ext) (simp add: mem_bolt_def)
next
  case (11 db p k v)
  then show ?case by (simp add: mem_bolt_def split: option.split)
next
  case (12 db p k)
  then show ?case by (simp add: mem_bolt_def split: option.split)
next
  case (13 db p)
  then show ?case by (simp add: mem_bolt_def)
next
  case (14 db p)
  then show ?case by (simp add: mem_bolt_def)
next
  case (15 db p k v)
  then show ?case by (auto simp: mem_bolt_def split: option.splits)
next
  case (16 db p k)
  then show ?case by (auto simp: mem_bolt_def split: option.splits)
next
  case (17 p db)
  then show ?case by (auto simp: mem_bolt_def)
next
  case (18 db p)
  then show ?case by (auto simp: mem_bolt_def)
next
  case (19 db db')
  then show ?case by (simp add: mem_bolt_def)
qed

end
