(* ===== verification/BoltDB.thy ===== *)
theory BoltDB
  imports Bolt Database
begin

text \<open>
  The bolt implementation of the database interface (\<open>boltdb.go\<close>,
  \<open>boltupgrades.go\<close>), method by method. Every method runs in one transaction; a bucket
  handle is the bucket's path.
\<close>

section \<open>Buckets and keys\<close>

definition poolBkt :: bytes where "poolBkt = ''poolbkt''"
definition accountBkt :: bytes where "accountBkt = ''accountbkt''"
definition shareBkt :: bytes where "shareBkt = ''sharebkt''"
definition jobBkt :: bytes where "jobBkt = ''jobbkt''"
definition workBkt :: bytes where "workBkt = ''workbkt''"
definition paymentBkt :: bytes where "paymentBkt = ''paymentbkt''"
definition paymentArchiveBkt :: bytes where "paymentArchiveBkt = ''paymentarchivebkt''"
definition hashDataBkt :: bytes where "hashDataBkt = ''hashdatabkt''"
definition versionK :: bytes where "versionK = ''version''"
definition lastPaymentCreatedOn :: bytes where "lastPaymentCreatedOn = ''lastpaymentcreatedon''"
definition lastPaymentPaidOn :: bytes where "lastPaymentPaidOn = ''lastpaymentpaidon''"
definition lastPaymentHeight :: bytes where "lastPaymentHeight = ''lastpaymentheight''"
definition soloPoolK :: bytes where "soloPoolK = ''solopool''"
definition csrfSecret :: bytes where "csrfSecret = ''csrfsecret''"

definition initialVersion :: "32 word" where "initialVersion = 1"
definition BoltDBVersion :: "32 word" where "BoltDBVersion = initialVersion"

text \<open>The bytes stored under a key of the pool bucket; a JSON document is none of them.\<close>

fun raw :: "bval \<Rightarrow> bytes" where
  "raw (Raw b) = b"
| "raw (Doc j) = []"

fun json_Unmarshal :: "(json \<Rightarrow> 'a go) \<Rightarrow> bval \<Rightarrow> 'a go" where
  "json_Unmarshal dec (Doc j) = dec j"
| "json_Unmarshal dec (Raw b) = Err Foreign"

definition createNestedBucket :: "'db bolt \<Rightarrow> path \<Rightarrow> bytes \<Rightarrow> 'db \<Rightarrow> 'db go" where
  "createNestedBucket B parent child db =
     map_err (\<lambda>_. DBError CreateStorage) (bCreateBucket B db (parent @ [child]))"

definition createBuckets :: "'db bolt \<Rightarrow> 'db dbop" where
  "createBuckets B = Update B (\<lambda>db.
     bnd (if bHas B db [poolBkt] then Ok db
          else bnd (map_err (\<lambda>_. DBError CreateStorage) (bCreateBucket B db [poolBkt])) (\<lambda>db.
               map_err (\<lambda>_. DBError PersistEntry)
                 (bPut B db [poolBkt] versionK (Raw (le32 BoltDBVersion))))) (\<lambda>db.
     bnd (createNestedBucket B [poolBkt] accountBkt db) (\<lambda>db.
     bnd (createNestedBucket B [poolBkt] shareBkt db) (\<lambda>db.
     bnd (createNestedBucket B [poolBkt] workBkt db) (\<lambda>db.
     bnd (createNestedBucket B [poolBkt] jobBkt db) (\<lambda>db.
     bnd (createNestedBucket B [poolBkt] paymentBkt db) (\<lambda>db.
     bnd (createNestedBucket B [poolBkt] paymentArchiveBkt db) (\<lambda>db.
     bnd (createNestedBucket B [poolBkt] hashDataBkt db) (\<lambda>db. Ok ((), db))))))))))"

text \<open>
  \<open>fetchDBVersion\<close> tests the name of the bucket against nil instead of the bucket, so a
  missing pool bucket is a nil dereference.
\<close>

definition fetchDBVersion :: "'db bolt \<Rightarrow> 'db \<Rightarrow> 32 word go" where
  "fetchDBVersion B db =
     (if \<not> bHas B db [poolBkt] then Panic
      else case bGet B db [poolBkt] versionK of
        None \<Rightarrow> Err (DBError ValueNotFound)
      | Some v \<Rightarrow> le32_val (raw v))"

text \<open>The table of upgrade functions is empty; slicing it beyond its length panics.\<close>

definition upgrades :: "('db \<Rightarrow> 'db go) list" where
  "upgrades = []"

definition upgradeDB :: "'db bolt \<Rightarrow> 'db dbop" where
  "upgradeDB B = bndc (readc (View B (fetchDBVersion B))) (\<lambda>version.
     if version = BoltDBVersion then retc ()
     else if version > BoltDBVersion then failc Foreign
     else Update B (\<lambda>db.
       bnd (slice (unat version) (length (upgrades :: ('db \<Rightarrow> 'db go) list)) upgrades) (\<lambda>us.
       bnd (foldo (\<lambda>upgrade db. upgrade db) us db) (\<lambda>db. Ok ((), db)))))"

text \<open>\<open>InitBoltDB\<close> after \<open>bolt.Open\<close> has returned the database.\<close>

definition InitBoltDB :: "'db bolt \<Rightarrow> 'db dbop" where
  "InitBoltDB B = bndc (createBuckets B) (\<lambda>_. upgradeDB B)"

definition fetchPoolBucket :: "'db bolt \<Rightarrow> 'db \<Rightarrow> path go" where
  "fetchPoolBucket B db =
     (if bHas B db [poolBkt] then Ok [poolBkt] else Err (DBError StorageNotFound))"

definition fetchBucket :: "'db bolt \<Rightarrow> 'db \<Rightarrow> bytes \<Rightarrow> path go" where
  "fetchBucket B db bucketID =
     bnd (fetchPoolBucket B db) (\<lambda>pbkt.
       if bHas B db (pbkt @ [bucketID]) then Ok (pbkt @ [bucketID])
       else Err (DBError StorageNotFound))"

text \<open>The nested bucket is not tested against nil: deleting from a missing one panics.\<close>

definition deleteEntry :: "'db bolt \<Rightarrow> bytes \<Rightarrow> string \<Rightarrow> 'db dbop" where
  "deleteEntry B bucket key = Update B (\<lambda>db.
     if \<not> bHas B db [poolBkt] then Err (DBError StorageNotFound)
     else if \<not> bHas B db [poolBkt, bucket] then Panic
     else bnd (map_err (\<lambda>_. DBError DeleteEntry) (bDelete B db [poolBkt, bucket] key))
            (\<lambda>db. Ok ((), db)))"

section \<open>Pool metadata\<close>

definition fetchPoolMode :: "'db bolt \<Rightarrow> 'db \<Rightarrow> 32 word go" where
  "fetchPoolMode B = View B (\<lambda>db.
     bnd (fetchPoolBucket B db) (\<lambda>pbkt.
     case bGet B db pbkt soloPoolK of
       None \<Rightarrow> Err (DBError ValueNotFound)
     | Some b \<Rightarrow> le32_val (raw b)))"

definition persistPoolMode :: "'db bolt \<Rightarrow> 32 word \<Rightarrow> 'db dbop" where
  "persistPoolMode B mode = Update B (\<lambda>db.
     if \<not> bHas B db [poolBkt] then Panic
     else bnd (bPut B db [poolBkt] soloPoolK (Raw (le32 mode))) (\<lambda>db. Ok ((), db)))"

definition fetchCSRFSecret :: "'db bolt \<Rightarrow> 'db \<Rightarrow> bytes go" where
  "fetchCSRFSecret B = View B (\<lambda>db.
     if \<not> bHas B db [poolBkt] then Err (DBError StorageNotFound)
     else case bGet B db [poolBkt] csrfSecret of
       None \<Rightarrow> Err (DBError ValueNotFound)
     | Some v \<Rightarrow> Ok (raw v))"

definition persistCSRFSecret :: "'db bolt \<Rightarrow> bytes \<Rightarrow> 'db dbop" where
  "persistCSRFSecret B secret = Update B (\<lambda>db.
     if \<not> bHas B db [poolBkt] then Err (DBError StorageNotFound)
     else bnd (bPut B db [poolBkt] csrfSecret (Raw secret)) (\<lambda>db. Ok ((), db)))"

definition persistLastPaymentInfo :: "'db bolt \<Rightarrow> 32 word \<Rightarrow> 64 word \<Rightarrow> 'db dbop" where
  "persistLastPaymentInfo B height paidOn = Update B (\<lambda>db.
     bnd (fetchPoolBucket B db) (\<lambda>pbkt.
     bnd (map_err (\<lambda>_. DBError PersistEntry)
            (bPut B db pbkt lastPaymentHeight (Raw (le32 height)))) (\<lambda>db.
     bnd (map_err (\<lambda>_. DBError PersistEntry)
            (bPut B db pbkt lastPaymentPaidOn (Raw (nanoToBigEndianBytes paidOn)))) (\<lambda>db.
     Ok ((), db)))))"

definition loadLastPaymentInfo :: "'db bolt \<Rightarrow> 'db \<Rightarrow> (32 word \<times> 64 word) go" where
  "loadLastPaymentInfo B = View B (\<lambda>db.
     bnd (fetchPoolBucket B db) (\<lambda>pbkt.
     case (bGet B db pbkt lastPaymentHeight, bGet B db pbkt lastPaymentPaidOn) of
       (Some h, Some p) \<Rightarrow>
         bnd (le32_val (raw h)) (\<lambda>height.
         bnd (bigEndianBytesToNano (raw p)) (\<lambda>paidOn. Ok (height, paidOn)))
     | _ \<Rightarrow> Err (DBError ValueNotFound)))"

definition persistLastPaymentCreatedOn :: "'db bolt \<Rightarrow> 64 word \<Rightarrow> 'db dbop" where
  "persistLastPaymentCreatedOn B createdOn = Update B (\<lambda>db.
     bnd (fetchPoolBucket B db) (\<lambda>pbkt.
     bnd (map_err (\<lambda>_. DBError PersistEntry)
            (bPut B db pbkt lastPaymentCreatedOn (Raw (nanoToBigEndianBytes createdOn)))) (\<lambda>db.
     Ok ((), db))))"

definition loadLastPaymentCreatedOn :: "'db bolt \<Rightarrow> 'db \<Rightarrow> 64 word go" where
  "loadLastPaymentCreatedOn B = View B (\<lambda>db.
     bnd (fetchPoolBucket B db) (\<lambda>pbkt.
     case bGet B db pbkt lastPaymentCreatedOn of
       None \<Rightarrow> Err (DBError ValueNotFound)
     | Some b \<Rightarrow> bigEndianBytesToNano (raw b)))"

text \<open>
  The keys and buckets \<open>purge\<close> deletes, in its order. The hash data bucket is not among
  them.
\<close>

definition purgedKeys :: "bytes list" where
  "purgedKeys = [csrfSecret, soloPoolK, lastPaymentHeight, lastPaymentPaidOn,
     lastPaymentCreatedOn, versionK]"

definition purgedBuckets :: "bytes list" where
  "purgedBuckets = [paymentArchiveBkt, paymentBkt, workBkt, jobBkt, shareBkt, accountBkt]"

definition purge :: "'db bolt \<Rightarrow> 'db dbop" where
  "purge B = Update B (\<lambda>db.
     bnd (fetchPoolBucket B db) (\<lambda>pbkt.
     bnd (foldo (\<lambda>k db. map_err (\<lambda>_. DBError DeleteEntry) (bDelete B db pbkt k)) purgedKeys db) (\<lambda>db.
     bnd (foldo (\<lambda>b db. map_err (\<lambda>_. DBError DeleteEntry) (bDeleteBucket B db (pbkt @ [b])))
            purgedBuckets db) (\<lambda>db.
     Ok ((), db)))))"

section \<open>Accepted work\<close>

definition fetchAcceptedWork :: "'db bolt \<Rightarrow> string \<Rightarrow> 'db \<Rightarrow> AcceptedWork go" where
  "fetchAcceptedWork B uuid = View B (\<lambda>db.
     bnd (fetchBucket B db workBkt) (\<lambda>bkt.
     case bGet B db bkt uuid of
       None \<Rightarrow> Err (DBError ValueNotFound)
     | Some v \<Rightarrow> map_err (\<lambda>_. DBError Parse) (json_Unmarshal unmarshalAcceptedWork v)))"

definition persistAcceptedWork :: "'db bolt \<Rightarrow> AcceptedWork \<Rightarrow> 'db dbop" where
  "persistAcceptedWork B work = Update B (\<lambda>db.
     bnd (fetchBucket B db workBkt) (\<lambda>bkt.
     if bGet B db bkt (awUUID work) \<noteq> None then Err (DBError ValueFound)
     else bnd (map_err (\<lambda>_. DBError PersistEntry)
                 (bPut B db bkt (awUUID work) (Doc (marshalAcceptedWork work)))) (\<lambda>db.
          Ok ((), db))))"

definition updateAcceptedWork :: "'db bolt \<Rightarrow> AcceptedWork \<Rightarrow> 'db dbop" where
  "updateAcceptedWork B work = Update B (\<lambda>db.
     bnd (fetchBucket B db workBkt) (\<lambda>bkt.
     if bGet B db bkt (awUUID work) = None then Err (DBError ValueNotFound)
     else bnd (map_err (\<lambda>_. DBError PersistEntry)
                 (bPut B db bkt (awUUID work) (Doc (marshalAcceptedWork work)))) (\<lambda>db.
          Ok ((), db))))"

definition deleteAcceptedWork :: "'db bolt \<Rightarrow> string \<Rightarrow> 'db dbop" where
  "deleteAcceptedWork B uuid = deleteEntry B workBkt uuid"

definition listMinedWork :: "'db bolt \<Rightarrow> 'db \<Rightarrow> AcceptedWork list go" where
  "listMinedWork B = View B (\<lambda>db.
     bnd (fetchBucket B db workBkt) (\<lambda>bkt.
     foldo (\<lambda>(k, v) minedWork.
       bnd (map_err (\<lambda>_. PoolError Parse) (json_Unmarshal unmarshalAcceptedWork v)) (\<lambda>work.
       Ok (minedWork @ [work]))) (rev (bCursor B db bkt)) []))"

definition fetchUnconfirmedWork :: "'db bolt \<Rightarrow> 32 word \<Rightarrow> 'db \<Rightarrow> AcceptedWork list go" where
  "fetchUnconfirmedWork B height = View B (\<lambda>db.
     bnd (fetchBucket B db workBkt) (\<lambda>bkt.
     foldo (\<lambda>(k, v) toReturn.
       bnd (slice 0 8 k) (\<lambda>k8.
       bnd (DecodeString k8) (\<lambda>heightB.
       if heightB < heightToBigEndianBytes height
       then bnd (json_Unmarshal unmarshalAcceptedWork v) (\<lambda>work.
            Ok (if \<not> awConfirmed work then toReturn @ [work] else toReturn))
       else Ok toReturn))) (bCursor B db bkt) []))"

section \<open>Accounts\<close>

definition fetchAccount :: "'db bolt \<Rightarrow> string \<Rightarrow> 'db \<Rightarrow> Account go" where
  "fetchAccount B uuid = View B (\<lambda>db.
     bnd (fetchBucket B db accountBkt) (\<lambda>bkt.
     case bGet B db bkt uuid of
       None \<Rightarrow> Err (DBError ValueNotFound)
     | Some v \<Rightarrow> map_err (\<lambda>_. DBError Parse) (json_Unmarshal unmarshalAccount v)))"

definition persistAccount :: "'db bolt \<Rightarrow> Account \<Rightarrow> 64 word \<Rightarrow> 'db dbop" where
  "persistAccount B acc nowUnix = Update B (\<lambda>db.
     bnd (fetchBucket B db accountBkt) (\<lambda>bkt.
     if bGet B db bkt (acUUID acc) \<noteq> None then Err (DBError ValueFound)
     else bnd (map_err (\<lambda>_. DBError PersistEntry)
                 (bPut B db bkt (acUUID acc) (Doc (marshalAccount (acc\<lparr>acCreatedOn := nowUnix\<rparr>))))) (\<lambda>db.
          Ok ((), db))))"

definition deleteAccount :: "'db bolt \<Rightarrow> string \<Rightarrow> 'db dbop" where
  "deleteAccount B uuid = deleteEntry B accountBkt uuid"

section \<open>Jobs\<close>

definition fetchJob :: "'db bolt \<Rightarrow> string \<Rightarrow> 'db \<Rightarrow> Job go" where
  "fetchJob B uuid = View B (\<lambda>db.
     bnd (fetchBucket B db jobBkt) (\<lambda>bkt.
     case bGet B db bkt uuid of
       None \<Rightarrow> Err (DBError ValueNotFound)
     | Some v \<Rightarrow> map_err (\<lambda>_. DBError Parse) (json_Unmarshal unmarshalJob v)))"

definition persistJob :: "'db bolt \<Rightarrow> Job \<Rightarrow> 'db dbop" where
  "persistJob B job = Update B (\<lambda>db.
     bnd (fetchBucket B db jobBkt) (\<lambda>bkt.
     if bGet B db bkt (jbUUID job) \<noteq> None then Err (DBError ValueFound)
     else bnd (map_err (\<lambda>_. DBError PersistEntry)
                 (bPut B db bkt (jbUUID job) (Doc (marshalJob job)))) (\<lambda>db.
          Ok ((), db))))"

definition deleteJob :: "'db bolt \<Rightarrow> string \<Rightarrow> 'db dbop" where
  "deleteJob B uuid = deleteEntry B jobBkt uuid"

definition deleteJobsBeforeHeight :: "'db bolt \<Rightarrow> 32 word \<Rightarrow> 'db dbop" where
  "deleteJobsBeforeHeight B height = Update B (\<lambda>db.
     bnd (fetchBucket B db jobBkt) (\<lambda>bkt.
     bnd (foldo (\<lambda>(k, v) toDelete.
            bnd (slice 0 8 k) (\<lambda>k8.
            bnd (DecodeString k8) (\<lambda>heightB.
            Ok (if heightB < heightToBigEndianBytes height then toDelete @ [k] else toDelete))))
          (bCursor B db bkt) []) (\<lambda>toDelete.
     bnd (foldo (\<lambda>entry db. bDelete B db bkt entry) toDelete db) (\<lambda>db.
     Ok ((), db)))))"

section \<open>Payments\<close>

definition fetchPayment :: "'db bolt \<Rightarrow> string \<Rightarrow> 'db \<Rightarrow> Payment go" where
  "fetchPayment B uuid = View B (\<lambda>db.
     bnd (fetchBucket B db paymentBkt) (\<lambda>bkt.
     case bGet B db bkt uuid of
       None \<Rightarrow> Err (DBError ValueNotFound)
     | Some v \<Rightarrow> map_err (\<lambda>_. DBError Parse) (json_Unmarshal unmarshalPayment v)))"

definition PersistPayment :: "'db bolt \<Rightarrow> Payment \<Rightarrow> 'db dbop" where
  "PersistPayment B pmt = Update B (\<lambda>db.
     bnd (fetchBucket B db paymentBkt) (\<lambda>bkt.
     bnd (map_err (\<lambda>_. DBError PersistEntry)
            (bPut B db bkt (pmUUID pmt) (Doc (marshalPayment pmt)))) (\<lambda>db.
     Ok ((), db))))"

definition updatePayment :: "'db bolt \<Rightarrow> Payment \<Rightarrow> 'db dbop" where
  "updatePayment B pmt = PersistPayment B pmt"

definition deletePayment :: "'db bolt \<Rightarrow> string \<Rightarrow> 'db dbop" where
  "deletePayment B uuid = deleteEntry B paymentBkt uuid"

definition ArchivePayment :: "'db bolt \<Rightarrow> Payment \<Rightarrow> 64 word \<Rightarrow> 64 word \<Rightarrow> 'db dbop" where
  "ArchivePayment B pmt now rand = Update B (\<lambda>db.
     bnd (fetchBucket B db paymentBkt) (\<lambda>pbkt.
     bnd (fetchBucket B db paymentArchiveBkt) (\<lambda>abkt.
     bnd (bDelete B db pbkt (pmUUID pmt)) (\<lambda>db.
     let aPmt = (NewPayment (pmAccount pmt) (pmSource pmt) (pmAmount pmt) (pmHeight pmt)
                   (pmEstimatedMaturity pmt) now rand)
                \<lparr>pmTransactionID := pmTransactionID pmt, pmPaidOnHeight := pmPaidOnHeight pmt\<rparr> in
     bnd (map_err (\<lambda>_. DBError PersistEntry)
            (bPut B db abkt (pmUUID aPmt) (Doc (marshalPayment aPmt)))) (\<lambda>db.
     Ok ((), db))))))"

definition fetchPaymentsAtHeight :: "'db bolt \<Rightarrow> 32 word \<Rightarrow> ('db, goerror, Payment list) comp" where
  "fetchPaymentsAtHeight B height = Update B (\<lambda>db.
     bnd (fetchBucket B db paymentBkt) (\<lambda>bkt.
     bnd (foldo (\<lambda>(k, v) toReturn.
            bnd (json_Unmarshal unmarshalPayment v) (\<lambda>payment.
            Ok (if pmPaidOnHeight payment = 0
                then if height > pmEstimatedMaturity payment + 1 then toReturn @ [payment]
                     else toReturn
                else toReturn))) (bCursor B db bkt) []) (\<lambda>toReturn.
     Ok (toReturn, db))))"

definition fetchPendingPayments :: "'db bolt \<Rightarrow> 'db \<Rightarrow> Payment list go" where
  "fetchPendingPayments B = View B (\<lambda>db.
     bnd (fetchBucket B db paymentBkt) (\<lambda>bkt.
     foldo (\<lambda>(k, v) payments.
       bnd (map_err (\<lambda>_. DBError Parse) (json_Unmarshal unmarshalPayment v)) (\<lambda>payment.
       Ok (if pmPaidOnHeight payment = 0 then payments @ [payment] else payments)))
       (bCursor B db bkt) []))"

definition pendingPaymentsForBlockHash :: "'db bolt \<Rightarrow> string \<Rightarrow> 'db \<Rightarrow> 32 word go" where
  "pendingPaymentsForBlockHash B blockHash = View B (\<lambda>db.
     bnd (fetchBucket B db paymentBkt) (\<lambda>bkt.
     foldo (\<lambda>(k, v) count.
       bnd (map_err (\<lambda>_. DBError Parse) (json_Unmarshal unmarshalPayment v)) (\<lambda>payment.
       if pmPaidOnHeight payment = 0
       then case pmSource payment of
              None \<Rightarrow> Panic
            | Some s \<Rightarrow> Ok (if srcBlockHash s = blockHash then count + 1 else count)
       else Ok count)) (bCursor B db bkt) 0))"

definition archivedPayments :: "'db bolt \<Rightarrow> 'db \<Rightarrow> Payment list go" where
  "archivedPayments B = View B (\<lambda>db.
     bnd (fetchBucket B db paymentArchiveBkt) (\<lambda>abkt.
     foldo (\<lambda>(k, v) pmts.
       bnd (map_err (\<lambda>_. DBError Parse) (json_Unmarshal unmarshalPayment v)) (\<lambda>payment.
       Ok (pmts @ [payment]))) (rev (bCursor B db abkt)) []))"

definition maturePendingPayments :: "'db bolt \<Rightarrow> 32 word \<Rightarrow> 'db \<Rightarrow> (string \<times> Payment list) list go" where
  "maturePendingPayments B height = View B (\<lambda>db.
     bnd (bnd (fetchBucket B db paymentBkt) (\<lambda>bkt.
       foldo (\<lambda>(k, v) payments.
         bnd (map_err (\<lambda>_. DBError Parse) (json_Unmarshal unmarshalPayment v)) (\<lambda>payment.
         Ok (if pmPaidOnHeight payment = 0 \<and> pmEstimatedMaturity payment + 1 \<le> height
             then payments @ [payment] else payments))) (bCursor B db bkt) [])) (\<lambda>payments.
     foldo (\<lambda>pmt pmts.
       case pmSource pmt of
         None \<Rightarrow> Panic
       | Some s \<Rightarrow>
           (case map_of pmts (srcBlockHash s) of
              None \<Rightarrow> Ok (put (srcBlockHash s) [pmt] pmts)
            | Some pset \<Rightarrow> Ok (put (srcBlockHash s) (pset @ [pmt]) pmts))) payments []))"

section \<open>Shares\<close>

definition fetchShare :: "'db bolt \<Rightarrow> string \<Rightarrow> 'db \<Rightarrow> Share go" where
  "fetchShare B uuid = View B (\<lambda>db.
     bnd (fetchBucket B db shareBkt) (\<lambda>bkt.
     case bGet B db bkt uuid of
       None \<Rightarrow> Err (DBError ValueNotFound)
     | Some v \<Rightarrow> map_err (\<lambda>_. DBError Parse) (json_Unmarshal unmarshalShare v)))"

definition PersistShare :: "'db bolt \<Rightarrow> Share \<Rightarrow> 'db dbop" where
  "PersistShare B s = Update B (\<lambda>db.
     bnd (fetchBucket B db shareBkt) (\<lambda>bkt.
     if bGet B db bkt (shUUID s) \<noteq> None then Err (DBError ValueFound)
     else bnd (map_err (\<lambda>_. DBError PersistEntry)
                 (bPut B db bkt (shUUID s) (Doc (marshalShare s)))) (\<lambda>db.
          Ok ((), db))))"

text \<open>The creation time a share is filed under: the first sixteen characters of its key.\<close>

definition shareCreatedOnB :: "bytes \<Rightarrow> bytes go" where
  "shareCreatedOnB k = bnd (slice 0 16 k) (\<lambda>k16. map_err (\<lambda>_. DBError Decode) (DecodeString k16))"

definition ppsEligibleShares :: "'db bolt \<Rightarrow> 64 word \<Rightarrow> 'db \<Rightarrow> Share list go" where
  "ppsEligibleShares B maxNano = View B (\<lambda>db.
     bnd (fetchBucket B db shareBkt) (\<lambda>bkt.
     foldo (\<lambda>(k, v) eligibleShares.
       bnd (shareCreatedOnB k) (\<lambda>createdOnB.
       if createdOnB \<le> nanoToBigEndianBytes maxNano
       then bnd (map_err (\<lambda>_. DBError Parse) (json_Unmarshal unmarshalShare v)) (\<lambda>share.
            Ok (eligibleShares @ [share]))
       else Ok eligibleShares)) (bCursor B db bkt) []))"

definition pplnsEligibleShares :: "'db bolt \<Rightarrow> 64 word \<Rightarrow> 'db \<Rightarrow> Share list go" where
  "pplnsEligibleShares B minNano = View B (\<lambda>db.
     bnd (fetchBucket B db shareBkt) (\<lambda>bkt.
     foldo (\<lambda>(k, v) eligibleShares.
       bnd (shareCreatedOnB k) (\<lambda>createdOnB.
       if nanoToBigEndianBytes minNano < createdOnB
       then bnd (map_err (\<lambda>_. DBError Parse) (json_Unmarshal unmarshalShare v)) (\<lambda>share.
            Ok (eligibleShares @ [share]))
       else Ok eligibleShares)) (rev (bCursor B db bkt)) []))"

definition pruneShares :: "'db bolt \<Rightarrow> 64 word \<Rightarrow> 'db dbop" where
  "pruneShares B minNano = Update B (\<lambda>db.
     bnd (fetchBucket B db shareBkt) (\<lambda>bkt.
     bnd (foldo (\<lambda>(k, v) toDelete.
            bnd (shareCreatedOnB k) (\<lambda>createdOnB.
            Ok (if createdOnB < nanoToBigEndianBytes minNano then toDelete @ [k] else toDelete)))
          (bCursor B db bkt) []) (\<lambda>toDelete.
     bnd (foldo (\<lambda>entry db. bDelete B db bkt entry) toDelete db) (\<lambda>db.
     Ok ((), db)))))"

section \<open>Hash data\<close>

definition persistHashData :: "'db bolt \<Rightarrow> HashData \<Rightarrow> 'db dbop" where
  "persistHashData B hashData = Update B (\<lambda>db.
     bnd (fetchBucket B db hashDataBkt) (\<lambda>bkt.
     if bGet B db bkt (hdUUID hashData) \<noteq> None then Err (DBError ValueFound)
     else bnd (map_err (\<lambda>_. DBError PersistEntry)
                 (bPut B db bkt (hdUUID hashData) (Doc (marshalHashData hashData)))) (\<lambda>db.
          Ok ((), db))))"

definition updateHashData :: "'db bolt \<Rightarrow> HashData \<Rightarrow> 'db dbop" where
  "updateHashData B hashData = Update B (\<lambda>db.
     bnd (fetchBucket B db hashDataBkt) (\<lambda>bkt.
     if bGet B db bkt (hdUUID hashData) = None then Err (DBError ValueNotFound)
     else bnd (map_err (\<lambda>_. DBError PersistEntry)
                 (bPut B db bkt (hdUUID hashData) (Doc (marshalHashData hashData)))) (\<lambda>db.
          Ok ((), db))))"

definition fetchHashData :: "'db bolt \<Rightarrow> string \<Rightarrow> 'db \<Rightarrow> HashData go" where
  "fetchHashData B uuid = View B (\<lambda>db.
     bnd (fetchBucket B db hashDataBkt) (\<lambda>bkt.
     case bGet B db bkt uuid of
       None \<Rightarrow> Err (DBError ValueNotFound)
     | Some v \<Rightarrow> map_err (\<lambda>_. DBError Parse) (json_Unmarshal unmarshalHashData v)))"

definition listHashData :: "'db bolt \<Rightarrow> 64 word \<Rightarrow> 'db \<Rightarrow> (string \<times> HashData) list go" where
  "listHashData B minNano = View B (\<lambda>db.
     bnd (fetchBucket B db hashDataBkt) (\<lambda>bkt.
     foldo (\<lambda>(k, v) data.
       bnd (map_err (\<lambda>_. DBError Parse) (json_Unmarshal unmarshalHashData v)) (\<lambda>hashData.
       Ok (if sint minNano < sint (hdUpdatedOn hashData)
           then put (hdUUID hashData) hashData data else data))) (bCursor B db bkt) []))"

definition pruneHashData :: "'db bolt \<Rightarrow> 64 word \<Rightarrow> 'db dbop" where
  "pruneHashData B minNano = Update B (\<lambda>db.
     bnd (fetchBucket B db hashDataBkt) (\<lambda>bkt.
     bnd (foldo (\<lambda>(k, v) toDelete.
            bnd (map_err (\<lambda>_. DBError Parse) (json_Unmarshal unmarshalHashData v)) (\<lambda>hashData.
            Ok (if sint (hdUpdatedOn hashData) < sint minNano then toDelete @ [k] else toDelete)))
          (bCursor B db bkt) []) (\<lambda>toDelete.
     bnd (foldo (\<lambda>entry db. bDelete B db bkt entry) toDelete db) (\<lambda>db.
     Ok ((), db)))))"

section \<open>The bolt database as a \<open>Database\<close>\<close>

definition BoltDatabase :: "'db bolt \<Rightarrow> 'db Database" where
  "BoltDatabase B = \<lparr>
     db_purge = purge B,
     db_fetchPoolMode = fetchPoolMode B,
     db_persistPoolMode = persistPoolMode B,
     db_fetchCSRFSecret = fetchCSRFSecret B,
     db_persistCSRFSecret = persistCSRFSecret B,
     db_persistLastPaymentInfo = persistLastPaymentInfo B,
     db_loadLastPaymentInfo = loadLastPaymentInfo B,
     db_persistLastPaymentCreatedOn = persistLastPaymentCreatedOn B,
     db_loadLastPaymentCreatedOn = loadLastPaymentCreatedOn B,
     db_fetchAccount = fetchAccount B,
     db_persistAccount = persistAccount B,
     db_deleteAccount = deleteAccount B,
     db_fetchPayment = fetchPayment B,
     db_PersistPayment = PersistPayment B,
     db_updatePayment = updatePayment B,
     db_deletePayment = deletePayment B,
     db_ArchivePayment = ArchivePayment B,
     db_fetchPaymentsAtHeight = fetchPaymentsAtHeight B,
     db_fetchPendingPayments = fetchPendingPayments B,
     db_pendingPaymentsForBlockHash = pendingPaymentsForBlockHash B,
     db_archivedPayments = archivedPayments B,
     db_maturePendingPayments = maturePendingPayments B,
     db_PersistShare = PersistShare B,
     db_fetchShare = fetchShare B,
     db_ppsEligibleShares = ppsEligibleShares B,
     db_pplnsEligibleShares = pplnsEligibleShares B,
     db_pruneShares = pruneShares B,
     db_fetchAcceptedWork = fetchAcceptedWork B,
     db_persistAcceptedWork = persistAcceptedWork B,
     db_updateAcceptedWork = updateAcceptedWork B,
     db_deleteAcceptedWork = deleteAcceptedWork B,
     db_listMinedWork = listMinedWork B,
     db_fetchUnconfirmedWork = fetchUnconfirmedWork B,
     db_fetchJob = fetchJob B,
     db_persistJob = persistJob B,
     db_deleteJob = deleteJob B,
     db_deleteJobsBeforeHeight = deleteJobsBeforeHeight B,
     db_persistHashData = persistHashData B,
     db_updateHashData = updateHashData B,
     db_fetchHashData = fetchHashData B,
     db_listHashData = listHashData B,
     db_pruneHashData = pruneHashData B\<rparr>"

end
