(* ===== verification/DocTable.thy ===== *)
theory DocTable
  imports BoltDB
begin

text \<open>
  A bucket as a table of rows: the JSON document of every row is filed under the row's
  identifier. The lemmas are proved once for any kind of row, in a locale with the row's
  encoder and decoder, and instantiated for the rows of the pool.
\<close>

definition tbl :: "(json \<Rightarrow> 'a go) \<Rightarrow> (bytes \<rightharpoonup> bval) \<Rightarrow> string \<rightharpoonup> 'a" where
  "tbl dec m k = (case m k of None \<Rightarrow> None | Some v \<Rightarrow>
     (case json_Unmarshal dec v of Ok x \<Rightarrow> Some x | _ \<Rightarrow> None))"

definition rows_ok :: "('a \<Rightarrow> json) \<Rightarrow> ('a \<Rightarrow> string) \<Rightarrow> ('a \<Rightarrow> bool) \<Rightarrow> (bytes \<rightharpoonup> bval) \<Rightarrow> bool" where
  "rows_ok enc key good m \<longleftrightarrow> (\<forall>k v. m k = Some v \<longrightarrow> (\<exists>x. v = Doc (enc x) \<and> key x = k \<and> good x))"

text \<open>The rows a cursor visits, in its order.\<close>

definition rows :: "(json \<Rightarrow> 'a go) \<Rightarrow> (bytes \<times> bval) list \<Rightarrow> 'a list" where
  "rows dec cs = concat (map (\<lambda>(k, v). case json_Unmarshal dec v of Ok x \<Rightarrow> [x] | _ \<Rightarrow> []) cs)"

lemma tbl_cong_None [simp]: "m k = None \<Longrightarrow> tbl dec m k = None"
  by (simp add: tbl_def)

lemma tbl_empty [simp]: "tbl dec Map.empty = Map.empty"
  by (simp add: tbl_def fun_eq_iff)

lemma rows_ok_empty [simp]: "rows_ok enc key good Map.empty"
  by (simp add: rows_ok_def)

lemma tbl_delete [simp]: "tbl dec (m(k := None)) = (tbl dec m)(k := None)"
  by (auto simp: tbl_def fun_eq_iff)

lemma rows_ok_delete [simp]: "rows_ok enc key good m \<Longrightarrow> rows_ok enc key good (m(k := None))"
  by (simp add: rows_ok_def)

text \<open>Loops over a cursor that collect what passes a test.\<close>

lemma foldo_map: "foldo f (map g xs) b = foldo (\<lambda>x. f (g x)) xs b"
proof (induction xs arbitrary: b)
  case (Cons x xs)
  then show ?case by (cases "f (g x) b") auto
qed simp

lemma foldo_filter:
  assumes "\<And>x acc. x \<in> set xs \<Longrightarrow> f x acc = Ok (if P x then acc @ [g x] else acc)"
  shows "foldo f xs acc = Ok (acc @ map g (filter P xs))"
  using assms by (induction xs arbitrary: acc) auto

lemma foldo_count:
  assumes "\<And>x c. x \<in> set xs \<Longrightarrow> f x c = Ok (if P x then c + 1 else (c :: 'a :: semiring_1))"
  shows "foldo f xs c = Ok (c + of_nat (length (filter P xs)))"
  using assms by (induction xs arbitrary: c) (auto simp: algebra_simps)

locale doc_table =
  fixes enc :: "'a \<Rightarrow> json" and dec :: "json \<Rightarrow> 'a go" and key :: "'a \<Rightarrow> string"
    and good :: "'a \<Rightarrow> bool"
  assumes rt: "good x \<Longrightarrow> dec (enc x) = Ok x"
begin

lemma enc_inj: "good x \<Longrightarrow> good y \<Longrightarrow> enc x = enc y \<Longrightarrow> x = y"
  using rt by (metis outcome.inject(1))

lemma decode:
  assumes "rows_ok enc key good m" "m k = Some v"
  obtains x where "v = Doc (enc x)" "dec (enc x) = Ok x" "key x = k" "good x"
proof -
  obtain x where "v = Doc (enc x)" "key x = k" "good x"
    using assms unfolding rows_ok_def by blast
  then show thesis using that rt by simp
qed

lemma tbl_Some:
  assumes "rows_ok enc key good m"
  shows "tbl dec m k = Some x \<longleftrightarrow> m k = Some (Doc (enc x)) \<and> key x = k \<and> good x"
proof (cases "m k")
  case (Some v)
  then obtain y where "v = Doc (enc y)" "dec (enc y) = Ok y" "key y = k" "good y"
    using decode[OF assms] by blast
  then show ?thesis using Some by (auto simp: tbl_def dest: enc_inj)
qed (simp add: tbl_def)

lemma tbl_None:
  assumes "rows_ok enc key good m"
  shows "tbl dec m k = None \<longleftrightarrow> m k = None"
proof (cases "m k")
  case (Some v)
  then obtain y where "v = Doc (enc y)" "dec (enc y) = Ok y"
    using decode[OF assms] by blast
  then show ?thesis using Some by (simp add: tbl_def)
qed (simp add: tbl_def)

lemma tbl_put: "good x \<Longrightarrow> tbl dec (m(key x \<mapsto> Doc (enc x))) = (tbl dec m)(key x \<mapsto> x)"
  by (auto simp: tbl_def fun_eq_iff rt)

lemma rows_ok_put:
  "rows_ok enc key good m \<Longrightarrow> good x \<Longrightarrow> rows_ok enc key good (m(key x \<mapsto> Doc (enc x)))"
  by (auto simp: rows_ok_def)

lemma lookup:
  assumes "rows_ok enc key good m"
  shows "(case m k of None \<Rightarrow> Err (DBError ValueNotFound)
          | Some v \<Rightarrow> map_err (\<lambda>_. DBError Parse) (json_Unmarshal dec v)) = found (tbl dec m k)"
proof (cases "m k")
  case (Some v)
  then obtain y where "v = Doc (enc y)" "dec (enc y) = Ok y"
    using decode[OF assms] by blast
  then show ?thesis using Some by (simp add: tbl_def found_def)
qed (simp add: tbl_def found_def)

lemma ex_rows:
  assumes "rows_ok enc key good m" "map_of cs = m" "distinct (map fst cs)"
  obtains xs where "cs = map (\<lambda>x. (key x, Doc (enc x))) xs" "\<And>x. x \<in> set xs \<Longrightarrow> good x"
    "distinct xs" "set xs = ran (tbl dec m)" "distinct (map key xs)"
proof -
  have mem: "m k = Some v \<longleftrightarrow> (k, v) \<in> set cs" for k v
    using assms(2,3) map_of_eq_Some_iff by metis
  have "\<forall>(k, v) \<in> set cs. \<exists>x. (k, v) = (key x, Doc (enc x)) \<and> good x"
    using assms(1) mem unfolding rows_ok_def by fastforce
  then have "\<exists>xs. cs = map (\<lambda>x. (key x, Doc (enc x))) xs \<and> (\<forall>x \<in> set xs. good x)"
  proof (induction cs)
    case (Cons c cs)
    then obtain x xs where "c = (key x, Doc (enc x))" "good x"
      "cs = map (\<lambda>x. (key x, Doc (enc x))) xs" "\<forall>x \<in> set xs. good x" by fastforce
    then have "c # cs = map (\<lambda>x. (key x, Doc (enc x))) (x # xs) \<and> (\<forall>x \<in> set (x # xs). good x)"
      by simp
    then show ?case by (intro exI)
  qed simp
  then obtain xs where xs: "cs = map (\<lambda>x. (key x, Doc (enc x))) xs" "\<And>x. x \<in> set xs \<Longrightarrow> good x"
    by blast
  have dk: "distinct (map key xs)"
    using assms(3) xs(1) by (simp add: comp_def)
  have "x \<in> set xs \<longleftrightarrow> x \<in> ran (tbl dec m)" for x
  proof
    assume "x \<in> set xs"
    then have "tbl dec m (key x) = Some x"
      using xs mem tbl_Some[OF assms(1)] by auto
    then show "x \<in> ran (tbl dec m)" by (rule ranI)
  next
    assume "x \<in> ran (tbl dec m)"
    then have "(key x, Doc (enc x)) \<in> set cs" "good x"
      using tbl_Some[OF assms(1)] mem by (auto simp: ran_def)
    then obtain y where y: "y \<in> set xs" "Doc (enc y) = Doc (enc x)" using xs(1) by auto
    then show "x \<in> set xs" using rt[OF \<open>good x\<close>] rt[OF xs(2)[OF y(1)]] by simp
  qed
  then have "set xs = ran (tbl dec m)" by blast
  then show thesis using that xs dk by (auto simp: distinct_map)
qed

lemma rows_map: "(\<And>x. x \<in> set xs \<Longrightarrow> good x) \<Longrightarrow> rows dec (map (\<lambda>x. (key x, Doc (enc x))) xs) = xs"
  by (induction xs) (auto simp: rows_def rt)

lemma cursor:
  assumes "rows_ok enc key good m" "map_of cs = m" "distinct (map fst cs)"
  shows "cs = map (\<lambda>x. (key x, Doc (enc x))) (rows dec cs)"
    "x \<in> set (rows dec cs) \<Longrightarrow> good x" "x \<in> set (rows dec cs) \<Longrightarrow> dec (enc x) = Ok x"
    "distinct (rows dec cs)" "set (rows dec cs) = ran (tbl dec m)"
    "distinct (map key (rows dec cs))"
proof -
  obtain xs where xs: "cs = map (\<lambda>x. (key x, Doc (enc x))) xs" "\<And>x. x \<in> set xs \<Longrightarrow> good x"
    "distinct xs" "set xs = ran (tbl dec m)" "distinct (map key xs)"
    by (rule ex_rows[OF assms]) blast
  have r: "rows dec cs = xs" using xs(1) rows_map[OF xs(2)] by simp
  show "cs = map (\<lambda>x. (key x, Doc (enc x))) (rows dec cs)" unfolding r by (rule xs(1))
  show "x \<in> set (rows dec cs) \<Longrightarrow> good x" using xs(2) by (simp only: r)
  show "x \<in> set (rows dec cs) \<Longrightarrow> dec (enc x) = Ok x" using xs(2) rt by (simp only: r)
  show "distinct (rows dec cs)" "set (rows dec cs) = ran (tbl dec m)" "distinct (map key (rows dec cs))"
    using xs(3-5) by (simp_all only: r)
qed

text \<open>Deleting a set of keys.\<close>

lemma rows_ok_prune:
  "rows_ok enc key good m \<Longrightarrow> rows_ok enc key good (\<lambda>k. if k \<in> K then None else m k)"
  by (auto simp: rows_ok_def)

lemma tbl_prune: "tbl dec (\<lambda>k. if k \<in> K then None else m k) = (\<lambda>k. if k \<in> K then None else tbl dec m k)"
  by (auto simp: tbl_def fun_eq_iff)

lemma tbl_prune_rows:
  assumes ok: "rows_ok enc key good m" and K: "K = {key x |x. x \<in> ran (tbl dec m) \<and> P x}"
  shows "tbl dec (\<lambda>k. if k \<in> K then None else m k) =
    (\<lambda>k. case tbl dec m k of Some x \<Rightarrow> if P x then None else Some x | None \<Rightarrow> None)"
proof
  fix k
  show "tbl dec (\<lambda>k. if k \<in> K then None else m k) k =
    (case tbl dec m k of Some x \<Rightarrow> if P x then None else Some x | None \<Rightarrow> None)"
  proof (cases "tbl dec m k")
    case (Some x)
    have "k \<in> K \<longleftrightarrow> P x"
      using Some tbl_Some[OF ok] unfolding K by (auto simp: ran_def dest: enc_inj)
    then show ?thesis using Some by (simp add: tbl_prune)
  qed (simp add: tbl_prune)
qed

end

interpretation pmt_rows: doc_table marshalPayment unmarshalPayment pmUUID wf_payment
  by unfold_locales (simp add: rt_simps wf_payment_def)

interpretation share_rows: doc_table marshalShare unmarshalShare shUUID wf_share
  by unfold_locales (simp add: rt_simps)

interpretation work_rows: doc_table marshalAcceptedWork unmarshalAcceptedWork awUUID wf_work
  by unfold_locales (simp add: rt_simps)

interpretation job_rows: doc_table marshalJob unmarshalJob jbUUID wf_job
  by unfold_locales (simp add: rt_simps)

interpretation acc_rows: doc_table marshalAccount unmarshalAccount acUUID wf_account
  by unfold_locales (simp add: rt_simps)

interpretation hash_rows: doc_table marshalHashData unmarshalHashData hdUUID wf_hashdata
  by unfold_locales (simp add: rt_simps)

end
