(* ===== verification/BoltSpec.thy ===== *)
theory BoltSpec
  imports DocTable
begin

text \<open>
  The bolt database implements the contract of \<open>Database\<close>: an invariant of the file
  that every method keeps, the abstract database a file stands for, and the proof that each
  method of \<open>boltdb.go\<close> has the promised effect.
\<close>

section \<open>Invariant and abstraction\<close>

definition decoded :: "(bytes \<Rightarrow> 'a go) \<Rightarrow> bval option \<Rightarrow> 'a option" where
  "decoded dec v = (case v of None \<Rightarrow> None | Some b \<Rightarrow>
     (case dec (raw b) of Ok x \<Rightarrow> Some x | _ \<Rightarrow> None))"

definition meta_ok :: "(bytes \<rightharpoonup> bval) \<Rightarrow> bool" where
  "meta_ok m \<longleftrightarrow> m versionK = Some (Raw (le32 BoltDBVersion)) \<and>
     (\<forall>v. m soloPoolK = Some v \<longrightarrow> (\<exists>w. v = Raw (le32 w))) \<and>
     (\<forall>v. m lastPaymentHeight = Some v \<longrightarrow> (\<exists>w. v = Raw (le32 w))) \<and>
     (\<forall>v. m lastPaymentPaidOn = Some v \<longrightarrow> (\<exists>w. v = Raw (nanoToBigEndianBytes w))) \<and>
     (\<forall>v. m lastPaymentCreatedOn = Some v \<longrightarrow> (\<exists>w. v = Raw (nanoToBigEndianBytes w)))"

definition poolBuckets :: "bytes list" where
  "poolBuckets = [accountBkt, shareBkt, workBkt, jobBkt, paymentBkt, paymentArchiveBkt, hashDataBkt]"

definition boltInv :: "'db bolt \<Rightarrow> 'db \<Rightarrow> bool" where
  "boltInv B db \<longleftrightarrow> bHas B db [poolBkt] \<and> (\<forall>b \<in> set poolBuckets. bHas B db [poolBkt, b]) \<and>
     meta_ok (bGet B db [poolBkt]) \<and>
     rows_ok marshalPayment pmUUID wf_payment (bGet B db [poolBkt, paymentBkt]) \<and>
     rows_ok marshalPayment pmUUID wf_payment (bGet B db [poolBkt, paymentArchiveBkt]) \<and>
     rows_ok marshalShare shUUID wf_share (bGet B db [poolBkt, shareBkt]) \<and>
     rows_ok marshalAcceptedWork awUUID wf_work (bGet B db [poolBkt, workBkt]) \<and>
     rows_ok marshalJob jbUUID wf_job (bGet B db [poolBkt, jobBkt]) \<and>
     rows_ok marshalAccount acUUID wf_account (bGet B db [poolBkt, accountBkt]) \<and>
     rows_ok marshalHashData hdUUID wf_hashdata (bGet B db [poolBkt, hashDataBkt])"

definition absdb :: "'db bolt \<Rightarrow> 'db \<Rightarrow> PoolDB" where
  "absdb B db = (let m = bGet B db [poolBkt] in
     \<lparr>tPayments = tbl unmarshalPayment (bGet B db [poolBkt, paymentBkt]),
      tArchive = tbl unmarshalPayment (bGet B db [poolBkt, paymentArchiveBkt]),
      tShares = tbl unmarshalShare (bGet B db [poolBkt, shareBkt]),
      tWork = tbl unmarshalAcceptedWork (bGet B db [poolBkt, workBkt]),
      tJobs = tbl unmarshalJob (bGet B db [poolBkt, jobBkt]),
      tAccounts = tbl unmarshalAccount (bGet B db [poolBkt, accountBkt]),
      tHashData = tbl unmarshalHashData (bGet B db [poolBkt, hashDataBkt]),
      tMode = decoded le32_val (m soloPoolK),
      tCSRF = decoded Ok (m csrfSecret),
      tLastPaid = (case (decoded le32_val (m lastPaymentHeight),
                         decoded bigEndianBytesToNano (m lastPaymentPaidOn)) of
                     (Some h, Some p) \<Rightarrow> Some (h, p) | _ \<Rightarrow> None),
      tLastCreated = decoded bigEndianBytesToNano (m lastPaymentCreatedOn)\<rparr>)"

lemma absdb_sel [simp]:
  "tPayments (absdb B db) = tbl unmarshalPayment (bGet B db [poolBkt, paymentBkt])"
  "tArchive (absdb B db) = tbl unmarshalPayment (bGet B db [poolBkt, paymentArchiveBkt])"
  "tShares (absdb B db) = tbl unmarshalShare (bGet B db [poolBkt, shareBkt])"
  "tWork (absdb B db) = tbl unmarshalAcceptedWork (bGet B db [poolBkt, workBkt])"
  "tJobs (absdb B db) = tbl unmarshalJob (bGet B db [poolBkt, jobBkt])"
  "tAccounts (absdb B db) = tbl unmarshalAccount (bGet B db [poolBkt, accountBkt])"
  "tHashData (absdb B db) = tbl unmarshalHashData (bGet B db [poolBkt, hashDataBkt])"
  by (simp_all add: absdb_def Let_def)

lemmas bkt_names = accountBkt_def shareBkt_def workBkt_def jobBkt_def paymentBkt_def
  paymentArchiveBkt_def hashDataBkt_def

lemmas key_names = versionK_def soloPoolK_def lastPaymentHeight_def lastPaymentPaidOn_def
  lastPaymentCreatedOn_def csrfSecret_def

lemma bkts_distinct:
  "distinct poolBuckets" "distinct (rev poolBuckets)"
  by (simp_all add: poolBuckets_def bkt_names)

lemma keys_distinct:
  "distinct (rev purgedKeys)" "distinct purgedKeys"
  by (simp_all add: purgedKeys_def key_names)

lemmas names_neq [simp] =
  bkts_distinct [unfolded poolBuckets_def, simplified]
  keys_distinct [unfolded purgedKeys_def, simplified]

lemma le32_decoded [simp]:
  "decoded le32_val (Some (Raw (le32 w))) = Some w"
  "decoded bigEndianBytesToNano (Some (Raw (nanoToBigEndianBytes n))) = Some n"
  "decoded dec None = None" "decoded Ok (Some (Raw b)) = Some b"
  by (simp_all add: decoded_def le32_roundtrip nano_roundtrip)

section \<open>Transactions\<close>

text \<open>What the function of a transaction has to return for the transaction to be a write.\<close>

definition tx_ok :: "('db \<Rightarrow> PoolDB) \<Rightarrow> ('db \<Rightarrow> bool) \<Rightarrow> bool \<Rightarrow> 'db bolt \<Rightarrow> ErrorKind option
    \<Rightarrow> PoolDB \<Rightarrow> 'db \<Rightarrow> (unit \<times> 'db) go \<Rightarrow> bool" where
  "tx_ok \<alpha> I live B pre s db r \<longleftrightarrow> (case r of
      Ok (u, db') \<Rightarrow> I db' \<and> pre = None \<and> \<alpha> db' = s \<and> (live \<longrightarrow> bCommit B db db' = None)
    | Err e \<Rightarrow> (\<forall>k. pre = Some k \<longrightarrow> e = DBError k) \<and> (live \<longrightarrow> pre \<noteq> None)
    | Panic \<Rightarrow> False)"

lemma writes_Update:
  assumes "\<And>db. I db \<Longrightarrow> tx_ok \<alpha> I live B (pre (\<alpha> db)) (upd (\<alpha> db)) db (fn db)"
  shows "writes \<alpha> I live (Update B fn) pre upd"
  unfolding writes_def
proof (intro allI impI)
  fix db r db'
  assume "I db" "Update B fn db = (r, db')"
  then show "I db' \<and> (case r of Ok _ \<Rightarrow> pre (\<alpha> db) = None \<and> \<alpha> db' = upd (\<alpha> db)
    | Err e \<Rightarrow> db' = db \<and> (\<forall>k. pre (\<alpha> db) = Some k \<longrightarrow> e = DBError k) \<and> (live \<longrightarrow> pre (\<alpha> db) \<noteq> None)
    | Panic \<Rightarrow> False)"
    using assms[of db]
    by (cases "fn db") (auto simp: Update_def tx_ok_def split: option.splits prod.splits)
qed

lemma boltInv_bkt [simp]:
  assumes "boltInv B db"
  shows "fetchPoolBucket B db = Ok [poolBkt]"
    "b \<in> set poolBuckets \<Longrightarrow> fetchBucket B db b = Ok [poolBkt, b]"
    "b \<in> set poolBuckets \<Longrightarrow> bHas B db [poolBkt, b]" "bHas B db [poolBkt]"
  using assms by (auto simp: boltInv_def fetchPoolBucket_def fetchBucket_def)

lemma mem_poolBuckets [simp]:
  "accountBkt \<in> set poolBuckets" "shareBkt \<in> set poolBuckets" "workBkt \<in> set poolBuckets"
  "jobBkt \<in> set poolBuckets" "paymentBkt \<in> set poolBuckets"
  "paymentArchiveBkt \<in> set poolBuckets" "hashDataBkt \<in> set poolBuckets"
  by (simp_all add: poolBuckets_def)

lemma boltInv_rows:
  assumes "boltInv B db"
  shows "rows_ok marshalPayment pmUUID wf_payment (bGet B db [poolBkt, paymentBkt])"
    "rows_ok marshalPayment pmUUID wf_payment (bGet B db [poolBkt, paymentArchiveBkt])"
    "rows_ok marshalShare shUUID wf_share (bGet B db [poolBkt, shareBkt])"
    "rows_ok marshalAcceptedWork awUUID wf_work (bGet B db [poolBkt, workBkt])"
    "rows_ok marshalJob jbUUID wf_job (bGet B db [poolBkt, jobBkt])"
    "rows_ok marshalAccount acUUID wf_account (bGet B db [poolBkt, accountBkt])"
    "rows_ok marshalHashData hdUUID wf_hashdata (bGet B db [poolBkt, hashDataBkt])"
    "meta_ok (bGet B db [poolBkt])"
  using assms unfolding boltInv_def by blast+

lemmas rows_put = pmt_rows.rows_ok_put share_rows.rows_ok_put work_rows.rows_ok_put
  job_rows.rows_ok_put acc_rows.rows_ok_put hash_rows.rows_ok_put

lemmas tbls_put = pmt_rows.tbl_put share_rows.tbl_put work_rows.tbl_put
  job_rows.tbl_put acc_rows.tbl_put hash_rows.tbl_put

section \<open>Reading\<close>

lemmas lookups = pmt_rows.lookup share_rows.lookup work_rows.lookup job_rows.lookup
  acc_rows.lookup hash_rows.lookup

lemma bolt_fetch:
  assumes "boltInv B db"
  shows "fetchPayment B k db = found (tPayments (absdb B db) k)"
    "fetchShare B k db = found (tShares (absdb B db) k)"
    "fetchAcceptedWork B k db = found (tWork (absdb B db) k)"
    "fetchJob B k db = found (tJobs (absdb B db) k)"
    "fetchAccount B k db = found (tAccounts (absdb B db) k)"
    "fetchHashData B k db = found (tHashData (absdb B db) k)"
  using assms boltInv_rows[OF assms]
  by (simp_all add: View_def fetchPayment_def fetchShare_def fetchAcceptedWork_def fetchJob_def
      fetchAccount_def fetchHashData_def lookups del: error_defs)

lemma bolt_fetch_meta:
  assumes "boltInv B db"
  shows "fetchPoolMode B db = found (tMode (absdb B db))"
    "fetchCSRFSecret B db = found (tCSRF (absdb B db))"
    "loadLastPaymentInfo B db = found (tLastPaid (absdb B db))"
    "loadLastPaymentCreatedOn B db = found (tLastCreated (absdb B db))"
proof -
  have m: "meta_ok (bGet B db [poolBkt])" using boltInv_rows(8)[OF assms] .
  show "fetchPoolMode B db = found (tMode (absdb B db))"
    using assms m by (auto simp: fetchPoolMode_def View_def absdb_def Let_def found_def meta_ok_def
        le32_roundtrip split: option.split)
  show "fetchCSRFSecret B db = found (tCSRF (absdb B db))"
    using assms by (auto simp: fetchCSRFSecret_def View_def absdb_def Let_def found_def decoded_def
        split: option.split)
  show "loadLastPaymentInfo B db = found (tLastPaid (absdb B db))"
    using assms m by (cases "bGet B db [poolBkt] lastPaymentHeight";
        cases "bGet B db [poolBkt] lastPaymentPaidOn")
      (auto simp: loadLastPaymentInfo_def View_def absdb_def Let_def found_def meta_ok_def
        le32_roundtrip nano_roundtrip)
  show "loadLastPaymentCreatedOn B db = found (tLastCreated (absdb B db))"
    using assms m by (auto simp: loadLastPaymentCreatedOn_def View_def absdb_def Let_def found_def
        meta_ok_def nano_roundtrip split: option.split)
qed

text \<open>The prefix of a well-formed identifier decodes to the time or height of its row.\<close>

lemma slice_take: "take n k = p \<Longrightarrow> length p = n \<Longrightarrow> slice 0 n k = Ok p"
  by (auto simp: slice_def)

lemma shareCreatedOnB_ok [simp]:
  "wf_share s \<Longrightarrow> shareCreatedOnB (shUUID s) = Ok (nanoToBigEndianBytes (shCreatedOn s))"
  by (simp add: shareCreatedOnB_def wf_share_def slice_take)

lemma slice_work [simp]:
  "wf_work w \<Longrightarrow> slice 0 8 (awUUID w) = Ok (EncodeToString (heightToBigEndianBytes (awHeight w)))"
  by (simp add: wf_work_def slice_take)

lemma slice_job [simp]:
  "wf_job b \<Longrightarrow> slice 0 8 (jbUUID b) = Ok (EncodeToString (heightToBigEndianBytes (jbHeight b)))"
  by (simp add: wf_job_def slice_take)

lemma foldo_select:
  assumes "\<And>x acc. x \<in> set xs \<Longrightarrow> f x acc = Ok (if P x then acc @ [x] else acc)"
  shows "foldo f xs [] = Ok (filter P xs)"
  using foldo_filter[of xs f P "\<lambda>x. x"] assms by simp

lemma lists_rows_filter:
  "distinct xs \<Longrightarrow> set xs = ran t \<Longrightarrow> lists_rows t P (filter P xs)"
  by (auto simp: lists_rows_def)

text \<open>Grouping in the order of the list.\<close>

definition group_step :: "Payment \<Rightarrow> (string \<times> Payment list) list \<Rightarrow> (string \<times> Payment list) list go" where
  "group_step pmt pmts = (case pmSource pmt of
     None \<Rightarrow> Panic
   | Some s \<Rightarrow>
       (case map_of pmts (srcBlockHash s) of
          None \<Rightarrow> Ok (put (srcBlockHash s) [pmt] pmts)
        | Some pset \<Rightarrow> Ok (put (srcBlockHash s) (pset @ [pmt]) pmts)))"

lemma groups_snoc:
  assumes "groups ps m" "pmSource p \<noteq> None"
  shows "\<exists>m'. group_step p m = Ok m' \<and> groups (ps @ [p]) m'"
proof -
  obtain s where s: "pmSource p = Some s" using assms(2) by blast
  let ?h = "srcBlockHash s"
  have b: "pm_block p = ?h" using s by (simp add: pm_block_def)
  have m: "distinct_keys m" and
    mo: "\<And>h. map_of m h = (case filter (\<lambda>p. pm_block p = h) ps of [] \<Rightarrow> None | qs \<Rightarrow> Some qs)"
    using assms(1) by (simp_all add: groups_def)
  have upd: "map_of (put ?h qs m) h = (if h = ?h then Some qs else map_of m h)" for qs h
    by simp
  show ?thesis
  proof (cases "filter (\<lambda>p. pm_block p = ?h) ps")
    case Nil
    then have "groups (ps @ [p]) (put ?h [p] m)"
      using m mo b unfolding groups_def upd by (auto split: list.split)
    then show ?thesis using s mo[of ?h] Nil by (simp add: group_step_def)
  next
    case (Cons q qs)
    then have "groups (ps @ [p]) (put ?h ((q # qs) @ [p]) m)"
      using m mo b unfolding groups_def upd by (auto split: list.split)
    then show ?thesis using s mo[of ?h] Cons by (simp add: group_step_def)
  qed
qed

lemma groups_foldo:
  assumes "\<forall>p \<in> set ps. pmSource p \<noteq> None"
  shows "\<exists>m. foldo group_step ps [] = Ok m \<and> groups ps m"
  using assms
proof (induction ps rule: rev_induct)
  case Nil
  then show ?case by (simp add: groups_def)
next
  case (snoc p ps)
  then obtain m where "foldo group_step ps [] = Ok m" "groups ps m" by auto
  then show ?case
    using groups_snoc[of ps m p] snoc.prems by (auto simp: foldo_append)
qed

context bolt_store
begin

abbreviation pay_list :: "'db \<Rightarrow> Payment list" where
  "pay_list db \<equiv> rows unmarshalPayment (bCursor B db [poolBkt, paymentBkt])"

abbreviation arch_list :: "'db \<Rightarrow> Payment list" where
  "arch_list db \<equiv> rows unmarshalPayment (bCursor B db [poolBkt, paymentArchiveBkt])"

abbreviation share_list :: "'db \<Rightarrow> Share list" where
  "share_list db \<equiv> rows unmarshalShare (bCursor B db [poolBkt, shareBkt])"

abbreviation work_list :: "'db \<Rightarrow> AcceptedWork list" where
  "work_list db \<equiv> rows unmarshalAcceptedWork (bCursor B db [poolBkt, workBkt])"

abbreviation job_list :: "'db \<Rightarrow> Job list" where
  "job_list db \<equiv> rows unmarshalJob (bCursor B db [poolBkt, jobBkt])"

abbreviation hash_list :: "'db \<Rightarrow> HashData list" where
  "hash_list db \<equiv> rows unmarshalHashData (bCursor B db [poolBkt, hashDataBkt])"

lemmas pay_cursor = pmt_rows.cursor[OF boltInv_rows(1) cursor_get[of "[poolBkt, paymentBkt]", simplified]
    cursor_distinct[of "[poolBkt, paymentBkt]", simplified]]

lemmas arch_cursor = pmt_rows.cursor[OF boltInv_rows(2) cursor_get[of "[poolBkt, paymentArchiveBkt]", simplified]
    cursor_distinct[of "[poolBkt, paymentArchiveBkt]", simplified]]

lemmas share_cursor = share_rows.cursor[OF boltInv_rows(3) cursor_get[of "[poolBkt, shareBkt]", simplified]
    cursor_distinct[of "[poolBkt, shareBkt]", simplified]]

lemmas work_cursor = work_rows.cursor[OF boltInv_rows(4) cursor_get[of "[poolBkt, workBkt]", simplified]
    cursor_distinct[of "[poolBkt, workBkt]", simplified]]

lemmas job_cursor = job_rows.cursor[OF boltInv_rows(5) cursor_get[of "[poolBkt, jobBkt]", simplified]
    cursor_distinct[of "[poolBkt, jobBkt]", simplified]]

lemmas hash_cursor = hash_rows.cursor[OF boltInv_rows(7) cursor_get[of "[poolBkt, hashDataBkt]", simplified]
    cursor_distinct[of "[poolBkt, hashDataBkt]", simplified]]

text \<open>A loop over a bucket is a loop over its rows.\<close>

lemma foldo_pay: "boltInv B db \<Longrightarrow> foldo f (bCursor B db [poolBkt, paymentBkt]) b =
    foldo (\<lambda>x. f (pmUUID x, Doc (marshalPayment x))) (pay_list db) b"
  by (subst pay_cursor(1)) (simp_all add: foldo_map)

lemma foldo_arch: "boltInv B db \<Longrightarrow> foldo f (rev (bCursor B db [poolBkt, paymentArchiveBkt])) b =
    foldo (\<lambda>x. f (pmUUID x, Doc (marshalPayment x))) (rev (arch_list db)) b"
  by (subst arch_cursor(1)) (simp_all add: rev_map foldo_map)

lemma foldo_share: "boltInv B db \<Longrightarrow> foldo f (bCursor B db [poolBkt, shareBkt]) b =
    foldo (\<lambda>x. f (shUUID x, Doc (marshalShare x))) (share_list db) b"
  by (subst share_cursor(1)) (simp_all add: foldo_map)

lemma foldo_share_rev: "boltInv B db \<Longrightarrow> foldo f (rev (bCursor B db [poolBkt, shareBkt])) b =
    foldo (\<lambda>x. f (shUUID x, Doc (marshalShare x))) (rev (share_list db)) b"
  by (subst share_cursor(1)) (simp_all add: rev_map foldo_map)

lemma foldo_work: "boltInv B db \<Longrightarrow> foldo f (bCursor B db [poolBkt, workBkt]) b =
    foldo (\<lambda>x. f (awUUID x, Doc (marshalAcceptedWork x))) (work_list db) b"
  by (subst work_cursor(1)) (simp_all add: foldo_map)

lemma foldo_work_rev: "boltInv B db \<Longrightarrow> foldo f (rev (bCursor B db [poolBkt, workBkt])) b =
    foldo (\<lambda>x. f (awUUID x, Doc (marshalAcceptedWork x))) (rev (work_list db)) b"
  by (subst work_cursor(1)) (simp_all add: rev_map foldo_map)

lemma foldo_job: "boltInv B db \<Longrightarrow> foldo f (bCursor B db [poolBkt, jobBkt]) b =
    foldo (\<lambda>x. f (jbUUID x, Doc (marshalJob x))) (job_list db) b"
  by (subst job_cursor(1)) (simp_all add: foldo_map)

lemma foldo_hash: "boltInv B db \<Longrightarrow> foldo f (bCursor B db [poolBkt, hashDataBkt]) b =
    foldo (\<lambda>x. f (hdUUID x, Doc (marshalHashData x))) (hash_list db) b"
  by (subst hash_cursor(1)) (simp_all add: foldo_map)

lemmas foldo_bkt = foldo_pay foldo_arch foldo_share foldo_share_rev foldo_work foldo_work_rev
  foldo_job foldo_hash

lemmas list_simps = View_def boltInv_bkt mem_poolBuckets foldo_bkt
  pay_cursor(2,3) arch_cursor(2,3) share_cursor(2,3) work_cursor(2,3) job_cursor(2,3) hash_cursor(2,3)

text \<open>What every listing returns, in which order.\<close>

lemma listings:
  assumes "boltInv B db"
  shows "fetchPendingPayments B db = Ok (filter pm_pending (pay_list db))"
    "archivedPayments B db = Ok (rev (arch_list db))"
    "listMinedWork B db = Ok (rev (work_list db))"
    "ppsEligibleShares B t db = Ok (filter (\<lambda>s. shCreatedOn s \<le> t) (share_list db))"
    "pplnsEligibleShares B t db = Ok (rev (filter (\<lambda>s. t < shCreatedOn s) (share_list db)))"
    "fetchUnconfirmedWork B height db =
       Ok (filter (\<lambda>w. awHeight w < height \<and> \<not> awConfirmed w) (work_list db))"
proof -
  show "fetchPendingPayments B db = Ok (filter pm_pending (pay_list db))"
    using assms unfolding fetchPendingPayments_def
    by (simp add: list_simps) (rule foldo_select, simp add: list_simps pm_pending_def)
  have *: "foldo f (rev ys) [] = Ok (rev ys)"
    if "\<And>x acc. x \<in> set ys \<Longrightarrow> f x acc = Ok (acc @ [x])" for f and ys :: "'b list"
    using foldo_select[of "rev ys" f "\<lambda>_. True"] that by simp
  show "archivedPayments B db = Ok (rev (arch_list db))"
    using assms unfolding archivedPayments_def
    by (simp add: list_simps) (rule *, simp add: list_simps)
  show "listMinedWork B db = Ok (rev (work_list db))"
    using assms unfolding listMinedWork_def
    by (simp add: list_simps) (rule *, simp add: list_simps)
  show "ppsEligibleShares B t db = Ok (filter (\<lambda>s. shCreatedOn s \<le> t) (share_list db))"
    using assms unfolding ppsEligibleShares_def
    by (simp add: list_simps) (rule foldo_select, simp add: list_simps)
  show "pplnsEligibleShares B t db = Ok (rev (filter (\<lambda>s. t < shCreatedOn s) (share_list db)))"
    using assms unfolding pplnsEligibleShares_def rev_filter
    by (simp add: list_simps) (rule foldo_select, simp add: list_simps)
  show "fetchUnconfirmedWork B height db =
      Ok (filter (\<lambda>w. awHeight w < height \<and> \<not> awConfirmed w) (work_list db))"
    using assms unfolding fetchUnconfirmedWork_def
    by (simp add: list_simps) (rule foldo_select, simp add: list_simps)
qed

lemma list_hash_step:
  assumes "distinct (map hdUUID xs)"
  shows "\<exists>m. foldo (\<lambda>d m. Ok (if P d then put (hdUUID d) d m else m)) xs [] = (Ok m :: _ go) \<and> distinct_keys m \<and>
    (\<forall>k d. map_of m k = Some d \<longleftrightarrow> d \<in> set xs \<and> hdUUID d = k \<and> P d)"
  using assms
proof (induction xs rule: rev_induct)
  case (snoc x xs)
  then have "distinct (map hdUUID xs)" by simp
  then obtain m where m: "foldo (\<lambda>d m. Ok (if P d then put (hdUUID d) d m else m)) xs [] = (Ok m :: _ go)"
    "distinct_keys m" "\<forall>k d. map_of m k = Some d \<longleftrightarrow> d \<in> set xs \<and> hdUUID d = k \<and> P d"
    using snoc.IH by blast
  let ?m = "if P x then put (hdUUID x) x m else m"
  have fresh: "hdUUID x \<notin> hdUUID ` set xs" using snoc.prems by simp
  have "map_of ?m k = Some d \<longleftrightarrow> d \<in> set (xs @ [x]) \<and> hdUUID d = k \<and> P d" for k d
  proof (cases "P x \<and> k = hdUUID x")
    case True
    then show ?thesis using fresh by (auto simp: image_iff)
  next
    case False
    then have "map_of ?m k = map_of m k" by auto
    then show ?thesis using m(3)[rule_format, of k d] False by auto
  qed
  moreover have "distinct_keys ?m" using m(2) by simp
  ultimately show ?case using m(1) by (simp add: foldo_append)
qed simp

lemma b_fetchPaymentsAtHeight:
  assumes "boltInv B db" "fetchPaymentsAtHeight B height db = (r, db')"
  shows "db' = db \<and> (case r of
        Ok ps \<Rightarrow> lists_rows (tPayments (absdb B db))
          (\<lambda>p. pm_pending p \<and> pmEstimatedMaturity p + 1 < height) ps
      | Err e \<Rightarrow> \<not> bolt_live B | Panic \<Rightarrow> False)"
proof -
  let ?P = "\<lambda>p. pm_pending p \<and> pmEstimatedMaturity p + 1 < height"
  have "foldo (\<lambda>x toReturn. bnd (json_Unmarshal unmarshalPayment (Doc (marshalPayment x))) (\<lambda>payment.
            Ok (if pmPaidOnHeight payment = 0
                then if height > pmEstimatedMaturity payment + 1 then toReturn @ [payment]
                     else toReturn
                else toReturn))) (pay_list db) [] = Ok (filter ?P (pay_list db))"
    by (rule foldo_select) (simp add: pay_cursor(3)[OF assms(1)] pm_pending_def)
  then have "fetchPaymentsAtHeight B height db = Update B (\<lambda>_. Ok (filter ?P (pay_list db), db)) db"
    using assms(1) by (simp add: fetchPaymentsAtHeight_def Update_def list_simps)
  then show ?thesis
    using assms lists_rows_filter[OF pay_cursor(4,5)[OF assms(1)], of ?P] bolt_live.commit_ok[of B db db]
    by (auto simp: Update_def split: option.splits)
qed

lemma b_pendingPaymentsForBlockHash:
  assumes "boltInv B db"
  shows "pendingPaymentsForBlockHash B h db =
      Ok (of_nat (card {p \<in> ran (tPayments (absdb B db)). pm_pending p \<and> pm_block p = h}))"
proof -
  let ?P = "\<lambda>p. pm_pending p \<and> pm_block p = h"
  have "{p \<in> ran (tPayments (absdb B db)). ?P p} = set (filter ?P (pay_list db))"
    using pay_cursor(5)[OF assms] by auto
  then have c: "card {p \<in> ran (tPayments (absdb B db)). ?P p} = length (filter ?P (pay_list db))"
    using distinct_card[OF distinct_filter[OF pay_cursor(4)[OF assms], of ?P]] by simp
  have src: "\<exists>s. pmSource p = Some s" if "p \<in> set (pay_list db)" for p
    using pay_cursor(2)[OF assms that] by (auto simp: wf_payment_def)
  have "foldo (\<lambda>x count. bnd (map_err (\<lambda>_. DBError Parse)
        (json_Unmarshal unmarshalPayment (Doc (marshalPayment x)))) (\<lambda>payment.
       if pmPaidOnHeight payment = 0
       then case pmSource payment of
              None \<Rightarrow> Panic
            | Some s \<Rightarrow> Ok (if srcBlockHash s = h then count + 1 else count)
       else Ok count)) (pay_list db) 0 = Ok (0 + of_nat (length (filter ?P (pay_list db))))"
    by (rule foldo_count) (use src in \<open>force simp: pay_cursor(3)[OF assms] pm_pending_def pm_block_def\<close>)
  then show ?thesis
    using assms unfolding pendingPaymentsForBlockHash_def c by (simp add: list_simps)
qed

lemma b_maturePendingPayments:
  assumes "boltInv B db"
  shows "\<exists>ps m. maturePendingPayments B height db = Ok m \<and> groups ps m \<and>
        lists_rows (tPayments (absdb B db)) (pm_mature height) ps"
proof -
  let ?ps = "filter (pm_mature height) (pay_list db)"
  have sel: "foldo (\<lambda>x payments. bnd (map_err (\<lambda>_. DBError Parse)
        (json_Unmarshal unmarshalPayment (Doc (marshalPayment x)))) (\<lambda>payment.
         Ok (if pmPaidOnHeight payment = 0 \<and> pmEstimatedMaturity payment + 1 \<le> height
             then payments @ [payment] else payments))) (pay_list db) [] = Ok ?ps"
    by (rule foldo_select) (simp add: pay_cursor(3)[OF assms] pm_pending_def pm_mature_def)
  have "\<forall>p \<in> set ?ps. pmSource p \<noteq> None"
    using pay_cursor(2)[OF assms] by (auto simp: wf_payment_def)
  then obtain m where m: "foldo group_step ?ps [] = Ok m" "groups ?ps m"
    using groups_foldo by blast
  have "maturePendingPayments B height db = Ok m"
    using m(1) sel assms unfolding maturePendingPayments_def group_step_def[abs_def]
    by (simp add: list_simps)
  then show ?thesis
    using m(2) lists_rows_filter[OF pay_cursor(4,5)[OF assms]] by (metis absdb_sel(1))
qed

lemma b_listHashData:
  assumes "boltInv B db"
  shows "\<exists>m. listHashData B t db = Ok m \<and> distinct_keys m \<and>
      (\<forall>k. map_of m k = (case tHashData (absdb B db) k of
         Some d \<Rightarrow> if sint t < sint (hdUpdatedOn d) then Some d else None | None \<Rightarrow> None))"
proof -
  let ?P = "\<lambda>d. sint t < sint (hdUpdatedOn d)"
  have "foldo (\<lambda>x data. bnd (map_err (\<lambda>_. DBError Parse)
      (json_Unmarshal unmarshalHashData (Doc (marshalHashData x)))) (\<lambda>hashData.
       Ok (if sint t < sint (hdUpdatedOn hashData)
           then put (hdUUID hashData) hashData data else data))) (hash_list db) []
    = foldo (\<lambda>d m. Ok (if ?P d then put (hdUUID d) d m else m)) (hash_list db) []"
    by (simp add: hashdata_roundtrip)
  then obtain m where m: "listHashData B t db = Ok m" "distinct_keys m"
    "\<forall>k d. map_of m k = Some d \<longleftrightarrow> d \<in> set (hash_list db) \<and> hdUUID d = k \<and> ?P d"
    using list_hash_step[OF hash_cursor(6)[OF assms], of ?P] assms
    by (auto simp: listHashData_def list_simps)
  have "map_of m k = (case tHashData (absdb B db) k of
         Some d \<Rightarrow> if ?P d then Some d else None | None \<Rightarrow> None)" for k
  proof -
    have "d \<in> set (hash_list db) \<and> hdUUID d = k \<longleftrightarrow> tHashData (absdb B db) k = Some d" for d
      using hash_cursor(5)[OF assms] hash_rows.tbl_Some[OF boltInv_rows(7)[OF assms]]
      by (auto simp: ran_def)
    then have iff: "map_of m k = Some d \<longleftrightarrow> tHashData (absdb B db) k = Some d \<and> ?P d" for d
      using m(3) by blast
    show ?thesis
    proof (cases "map_of m k")
      case None
      then show ?thesis using iff by (simp split: option.split)
    next
      case (Some d)
      then show ?thesis using iff[of d] by simp
    qed
  qed
  then show ?thesis using m(1,2) by blast
qed

end

section \<open>Writing\<close>

context bolt_store
begin

text \<open>
  A row written to its bucket changes one entry of one table, and metadata written to the
  pool bucket changes no table.
\<close>

lemma inv_frame:
  assumes "boltInv B db" "bHas B db' = bHas B db"
    "bGet B db' = (bGet B db)([poolBkt, b] := m)" "b \<in> set poolBuckets"
    "rows_ok marshalPayment pmUUID wf_payment (bGet B db' [poolBkt, paymentBkt])"
    "rows_ok marshalPayment pmUUID wf_payment (bGet B db' [poolBkt, paymentArchiveBkt])"
    "rows_ok marshalShare shUUID wf_share (bGet B db' [poolBkt, shareBkt])"
    "rows_ok marshalAcceptedWork awUUID wf_work (bGet B db' [poolBkt, workBkt])"
    "rows_ok marshalJob jbUUID wf_job (bGet B db' [poolBkt, jobBkt])"
    "rows_ok marshalAccount acUUID wf_account (bGet B db' [poolBkt, accountBkt])"
    "rows_ok marshalHashData hdUUID wf_hashdata (bGet B db' [poolBkt, hashDataBkt])"
  shows "boltInv B db'"
  using assms unfolding boltInv_def by (metis fun_upd_other list.distinct(1) list.inject)

lemma set_table:
  assumes "boltInv B db" "bHas B db' = bHas B db" "bGet B db' = (bGet B db)([poolBkt, b] := m)"
  shows "b = paymentBkt \<Longrightarrow> rows_ok marshalPayment pmUUID wf_payment m \<Longrightarrow>
      boltInv B db' \<and> absdb B db' = (absdb B db)\<lparr>tPayments := tbl unmarshalPayment m\<rparr>"
    "b = paymentArchiveBkt \<Longrightarrow> rows_ok marshalPayment pmUUID wf_payment m \<Longrightarrow>
      boltInv B db' \<and> absdb B db' = (absdb B db)\<lparr>tArchive := tbl unmarshalPayment m\<rparr>"
    "b = shareBkt \<Longrightarrow> rows_ok marshalShare shUUID wf_share m \<Longrightarrow>
      boltInv B db' \<and> absdb B db' = (absdb B db)\<lparr>tShares := tbl unmarshalShare m\<rparr>"
    "b = workBkt \<Longrightarrow> rows_ok marshalAcceptedWork awUUID wf_work m \<Longrightarrow>
      boltInv B db' \<and> absdb B db' = (absdb B db)\<lparr>tWork := tbl unmarshalAcceptedWork m\<rparr>"
    "b = jobBkt \<Longrightarrow> rows_ok marshalJob jbUUID wf_job m \<Longrightarrow>
      boltInv B db' \<and> absdb B db' = (absdb B db)\<lparr>tJobs := tbl unmarshalJob m\<rparr>"
    "b = accountBkt \<Longrightarrow> rows_ok marshalAccount acUUID wf_account m \<Longrightarrow>
      boltInv B db' \<and> absdb B db' = (absdb B db)\<lparr>tAccounts := tbl unmarshalAccount m\<rparr>"
    "b = hashDataBkt \<Longrightarrow> rows_ok marshalHashData hdUUID wf_hashdata m \<Longrightarrow>
      boltInv B db' \<and> absdb B db' = (absdb B db)\<lparr>tHashData := tbl unmarshalHashData m\<rparr>"
  by ((intro conjI inv_frame[OF assms]; simp add: assms(3) boltInv_rows[OF assms(1)] absdb_def Let_def)+)

lemma set_meta:
  assumes "boltInv B db" "bHas B db' = bHas B db" "bGet B db' = (bGet B db)([poolBkt] := m)"
    "meta_ok m"
  shows "boltInv B db'"
    "absdb B db' = (absdb B db)\<lparr>tMode := decoded le32_val (m soloPoolK),
      tCSRF := decoded Ok (m csrfSecret),
      tLastPaid := (case (decoded le32_val (m lastPaymentHeight),
                         decoded bigEndianBytesToNano (m lastPaymentPaidOn)) of
                     (Some h, Some p) \<Rightarrow> Some (h, p) | _ \<Rightarrow> None),
      tLastCreated := decoded bigEndianBytesToNano (m lastPaymentCreatedOn)\<rparr>"
proof -
  show "boltInv B db'"
    using assms boltInv_rows[OF assms(1)] unfolding boltInv_def by simp
  show "absdb B db' = (absdb B db)\<lparr>tMode := decoded le32_val (m soloPoolK),
      tCSRF := decoded Ok (m csrfSecret),
      tLastPaid := (case (decoded le32_val (m lastPaymentHeight),
                         decoded bigEndianBytesToNano (m lastPaymentPaidOn)) of
                     (Some h, Some p) \<Rightarrow> Some (h, p) | _ \<Rightarrow> None),
      tLastCreated := decoded bigEndianBytesToNano (m lastPaymentCreatedOn)\<rparr>"
    by (simp add: absdb_def assms(3) Let_def)
qed

abbreviation tx :: "ErrorKind option \<Rightarrow> PoolDB \<Rightarrow> 'db \<Rightarrow> (unit \<times> 'db) go \<Rightarrow> bool" where
  "tx \<equiv> tx_ok (absdb B) (boltInv B) (bolt_live B) B"

abbreviation wr :: "'db dbop \<Rightarrow> (PoolDB \<Rightarrow> ErrorKind option) \<Rightarrow> (PoolDB \<Rightarrow> PoolDB) \<Rightarrow> bool" where
  "wr \<equiv> writes (absdb B) (boltInv B) (bolt_live B)"

lemma put_result:
  assumes "boltInv B db" "b \<in> set poolBuckets" "wf_key k"
  shows "(case bPut B db [poolBkt, b] k v of
      Ok db' \<Rightarrow> bHas B db' = bHas B db \<and>
        bGet B db' = (bGet B db)([poolBkt, b] := (bGet B db [poolBkt, b])(k \<mapsto> v))
    | _ \<Rightarrow> \<not> bolt_live B)"
proof -
  have "bolt_live B \<Longrightarrow> \<exists>db'. bPut B db [poolBkt, b] k v = Ok db'"
    using assms bolt_live.put_ok by (metis boltInv_bkt(3) wf_key_def)
  then show ?thesis using put_get put_has by (auto split: outcome.split)
qed

lemma writes_put:
  assumes b: "b \<in> set poolBuckets" and k: "wf_key k"
    and guard: "\<And>db. boltInv B db \<Longrightarrow> pre (absdb B db) = g (bGet B db [poolBkt, b] k)"
    and upd: "\<And>db db'. boltInv B db \<Longrightarrow> bHas B db' = bHas B db \<Longrightarrow>
      bGet B db' = (bGet B db)([poolBkt, b] := (bGet B db [poolBkt, b])(k \<mapsto> v)) \<Longrightarrow>
      boltInv B db' \<and> absdb B db' = upd (absdb B db)"
  shows "wr (Update B (\<lambda>db. bnd (fetchBucket B db b) (\<lambda>bkt.
       case g (bGet B db bkt k) of Some e \<Rightarrow> Err (DBError e)
       | None \<Rightarrow> bnd (map_err (\<lambda>_. DBError PersistEntry) (bPut B db bkt k v)) (\<lambda>db. Ok ((), db))))) pre upd"
proof (rule writes_Update)
  fix db
  assume I: "boltInv B db"
  show "tx (pre (absdb B db)) (upd (absdb B db)) db (bnd (fetchBucket B db b) (\<lambda>bkt.
       case g (bGet B db bkt k) of Some e \<Rightarrow> Err (DBError e)
       | None \<Rightarrow> bnd (map_err (\<lambda>_. DBError PersistEntry) (bPut B db bkt k v)) (\<lambda>db. Ok ((), db))))"
    using I b guard[OF I] no_panic(1)[of db "[poolBkt, b]" k v] put_result[OF I b k, of v] upd[OF I] bolt_live.commit_ok[of B db]
    by (cases "g (bGet B db [poolBkt, b] k)"; cases "bPut B db [poolBkt, b] k v") (auto simp: tx_ok_def)
qed

lemma guard_case:
  "(if x \<noteq> None then Err (DBError ValueFound) else r) =
     (case absent x of Some e \<Rightarrow> Err (DBError e) | None \<Rightarrow> r)"
  "(if x = None then Err (DBError ValueNotFound) else r) =
     (case present x of Some e \<Rightarrow> Err (DBError e) | None \<Rightarrow> r)"
  by (simp_all add: absent_def present_def)

lemma guard_None: "r = (case None of Some e \<Rightarrow> Err (DBError e) | None \<Rightarrow> r)"
  by simp

lemma guard_rows:
  assumes "boltInv B db"
  shows "absent (tShares (absdb B db) k) = absent (bGet B db [poolBkt, shareBkt] k)"
    "absent (tWork (absdb B db) k) = absent (bGet B db [poolBkt, workBkt] k)"
    "present (tWork (absdb B db) k) = present (bGet B db [poolBkt, workBkt] k)"
    "absent (tJobs (absdb B db) k) = absent (bGet B db [poolBkt, jobBkt] k)"
    "absent (tAccounts (absdb B db) k) = absent (bGet B db [poolBkt, accountBkt] k)"
    "absent (tHashData (absdb B db) k) = absent (bGet B db [poolBkt, hashDataBkt] k)"
    "present (tHashData (absdb B db) k) = present (bGet B db [poolBkt, hashDataBkt] k)"
  using boltInv_rows[OF assms]
  by (simp_all add: absent_def present_def share_rows.tbl_None work_rows.tbl_None
      job_rows.tbl_None acc_rows.tbl_None hash_rows.tbl_None)

lemma set_table_put:
  assumes "boltInv B db" "bHas B db' = bHas B db"
    "bGet B db' = (bGet B db)([poolBkt, b] := (bGet B db [poolBkt, b])(k \<mapsto> v))"
  shows "b = paymentBkt \<Longrightarrow> wf_payment p \<Longrightarrow> k = pmUUID p \<Longrightarrow> v = Doc (marshalPayment p) \<Longrightarrow>
      boltInv B db' \<and> absdb B db' = (absdb B db)\<lparr>tPayments := (tPayments (absdb B db))(pmUUID p \<mapsto> p)\<rparr>"
    "b = paymentArchiveBkt \<Longrightarrow> wf_payment p \<Longrightarrow> k = pmUUID p \<Longrightarrow> v = Doc (marshalPayment p) \<Longrightarrow>
      boltInv B db' \<and> absdb B db' = (absdb B db)\<lparr>tArchive := (tArchive (absdb B db))(pmUUID p \<mapsto> p)\<rparr>"
    "b = shareBkt \<Longrightarrow> wf_share s \<Longrightarrow> k = shUUID s \<Longrightarrow> v = Doc (marshalShare s) \<Longrightarrow>
      boltInv B db' \<and> absdb B db' = (absdb B db)\<lparr>tShares := (tShares (absdb B db))(shUUID s \<mapsto> s)\<rparr>"
    "b = workBkt \<Longrightarrow> wf_work w \<Longrightarrow> k = awUUID w \<Longrightarrow> v = Doc (marshalAcceptedWork w) \<Longrightarrow>
      boltInv B db' \<and> absdb B db' = (absdb B db)\<lparr>tWork := (tWork (absdb B db))(awUUID w \<mapsto> w)\<rparr>"
    "b = jobBkt \<Longrightarrow> wf_job j \<Longrightarrow> k = jbUUID j \<Longrightarrow> v = Doc (marshalJob j) \<Longrightarrow>
      boltInv B db' \<and> absdb B db' = (absdb B db)\<lparr>tJobs := (tJobs (absdb B db))(jbUUID j \<mapsto> j)\<rparr>"
    "b = accountBkt \<Longrightarrow> wf_account a \<Longrightarrow> k = acUUID a \<Longrightarrow> v = Doc (marshalAccount a) \<Longrightarrow>
      boltInv B db' \<and> absdb B db' = (absdb B db)\<lparr>tAccounts := (tAccounts (absdb B db))(acUUID a \<mapsto> a)\<rparr>"
    "b = hashDataBkt \<Longrightarrow> wf_hashdata d \<Longrightarrow> k = hdUUID d \<Longrightarrow> v = Doc (marshalHashData d) \<Longrightarrow>
      boltInv B db' \<and> absdb B db' = (absdb B db)\<lparr>tHashData := (tHashData (absdb B db))(hdUUID d \<mapsto> d)\<rparr>"
  by (simp_all add: set_table[OF assms] boltInv_rows[OF assms(1)] rows_put tbls_put)

lemma b_persistAcceptedWork: "wf_work w \<Longrightarrow> wr (persistAcceptedWork B w)
    (\<lambda>s. absent (tWork s (awUUID w))) (\<lambda>s. s\<lparr>tWork := (tWork s)(awUUID w \<mapsto> w)\<rparr>)"
  unfolding persistAcceptedWork_def guard_case
  by (rule writes_put) (simp_all add: guard_rows set_table_put(4) wf_row_defs(3) del: absdb_sel)

lemma b_updateAcceptedWork: "wf_work w \<Longrightarrow> wr (updateAcceptedWork B w)
    (\<lambda>s. present (tWork s (awUUID w))) (\<lambda>s. s\<lparr>tWork := (tWork s)(awUUID w \<mapsto> w)\<rparr>)"
  unfolding updateAcceptedWork_def guard_case
  by (rule writes_put) (simp_all add: guard_rows set_table_put(4) wf_row_defs(3) del: absdb_sel)

lemma b_persistAccount: "wf_account a \<Longrightarrow> wr (persistAccount B a now)
    (\<lambda>s. absent (tAccounts s (acUUID a)))
    (\<lambda>s. s\<lparr>tAccounts := (tAccounts s)(acUUID a \<mapsto> a\<lparr>acCreatedOn := now\<rparr>)\<rparr>)"
  unfolding persistAccount_def guard_case
  using set_table_put(6)[where a = "a\<lparr>acCreatedOn := now\<rparr>"]
  by (intro writes_put) (simp_all add: guard_rows wf_row_defs(5) del: absdb_sel)

lemma b_persistJob: "wf_job j \<Longrightarrow> wr (persistJob B j)
    (\<lambda>s. absent (tJobs s (jbUUID j))) (\<lambda>s. s\<lparr>tJobs := (tJobs s)(jbUUID j \<mapsto> j)\<rparr>)"
  unfolding persistJob_def guard_case
  by (rule writes_put) (simp_all add: guard_rows set_table_put(5) wf_row_defs(4) del: absdb_sel)

lemma b_PersistShare: "wf_share sh \<Longrightarrow> wr (PersistShare B sh)
    (\<lambda>s. absent (tShares s (shUUID sh))) (\<lambda>s. s\<lparr>tShares := (tShares s)(shUUID sh \<mapsto> sh)\<rparr>)"
  unfolding PersistShare_def guard_case
  by (rule writes_put) (simp_all add: guard_rows set_table_put(3) wf_row_defs(2) del: absdb_sel)

lemma b_persistHashData: "wf_hashdata d \<Longrightarrow> wr (persistHashData B d)
    (\<lambda>s. absent (tHashData s (hdUUID d))) (\<lambda>s. s\<lparr>tHashData := (tHashData s)(hdUUID d \<mapsto> d)\<rparr>)"
  unfolding persistHashData_def guard_case
  by (rule writes_put) (simp_all add: guard_rows set_table_put(7) wf_row_defs(6) del: absdb_sel)

lemma b_updateHashData: "wf_hashdata d \<Longrightarrow> wr (updateHashData B d)
    (\<lambda>s. present (tHashData s (hdUUID d))) (\<lambda>s. s\<lparr>tHashData := (tHashData s)(hdUUID d \<mapsto> d)\<rparr>)"
  unfolding updateHashData_def guard_case
  by (rule writes_put) (simp_all add: guard_rows set_table_put(7) wf_row_defs(6) del: absdb_sel)

lemma b_PersistPayment: "wf_payment p \<Longrightarrow> wr (PersistPayment B p) (\<lambda>_. None)
    (\<lambda>s. s\<lparr>tPayments := (tPayments s)(pmUUID p \<mapsto> p)\<rparr>)"
  unfolding PersistPayment_def
  by (rule writes_put [where g = "\<lambda>_. None" and pre = "\<lambda>_. None", simplified option.case])
    (simp_all add: set_table_put(1) wf_row_defs(1) del: absdb_sel)

text \<open>Deleting one row.\<close>

lemma writes_delete:
  assumes b: "b \<in> set poolBuckets"
    and upd: "\<And>db db'. boltInv B db \<Longrightarrow> bHas B db' = bHas B db \<Longrightarrow>
      bGet B db' = (bGet B db)([poolBkt, b] := (bGet B db [poolBkt, b])(k := None)) \<Longrightarrow>
      boltInv B db' \<and> absdb B db' = upd (absdb B db)"
  shows "wr (deleteEntry B b k) (\<lambda>_. None) upd"
  unfolding deleteEntry_def
proof (rule writes_Update)
  fix db
  assume I: "boltInv B db"
  have live: "bolt_live B \<Longrightarrow> \<exists>db'. bDelete B db [poolBkt, b] k = Ok db'"
    using I b bolt_live.delete_ok by (metis boltInv_bkt(3))
  show "tx None (upd (absdb B db)) db ((if \<not> bHas B db [poolBkt] then Err (DBError StorageNotFound)
     else if \<not> bHas B db [poolBkt, b] then Panic
     else bnd (map_err (\<lambda>_. DBError DeleteEntry) (bDelete B db [poolBkt, b] k))
            (\<lambda>db. Ok ((), db))))"
  proof (cases "bDelete B db [poolBkt, b] k")
    case (Ok db')
    then have "boltInv B db' \<and> absdb B db' = upd (absdb B db)"
      using upd[OF I delete_has delete_get] by blast
    then show ?thesis
      using I b Ok bolt_live.commit_ok[of B db] by (simp add: tx_ok_def del: absdb_sel)
  next
    case (Err e)
    then show ?thesis using I b live by (auto simp: tx_ok_def)
  qed (use no_panic(2) in blast)
qed

lemma set_table_delete:
  assumes "boltInv B db" "bHas B db' = bHas B db"
    "bGet B db' = (bGet B db)([poolBkt, b] := (bGet B db [poolBkt, b])(k := None))"
  shows "b = paymentBkt \<Longrightarrow> boltInv B db' \<and>
      absdb B db' = (absdb B db)\<lparr>tPayments := (tPayments (absdb B db))(k := None)\<rparr>"
    "b = workBkt \<Longrightarrow> boltInv B db' \<and>
      absdb B db' = (absdb B db)\<lparr>tWork := (tWork (absdb B db))(k := None)\<rparr>"
    "b = jobBkt \<Longrightarrow> boltInv B db' \<and>
      absdb B db' = (absdb B db)\<lparr>tJobs := (tJobs (absdb B db))(k := None)\<rparr>"
    "b = accountBkt \<Longrightarrow> boltInv B db' \<and>
      absdb B db' = (absdb B db)\<lparr>tAccounts := (tAccounts (absdb B db))(k := None)\<rparr>"
  by (simp_all add: set_table[OF assms] boltInv_rows[OF assms(1)])

lemma b_deletes:
  "wr (deleteAccount B k) (\<lambda>_. None) (\<lambda>s. s\<lparr>tAccounts := (tAccounts s)(k := None)\<rparr>)"
  "wr (deletePayment B k) (\<lambda>_. None) (\<lambda>s. s\<lparr>tPayments := (tPayments s)(k := None)\<rparr>)"
  "wr (deleteAcceptedWork B k) (\<lambda>_. None) (\<lambda>s. s\<lparr>tWork := (tWork s)(k := None)\<rparr>)"
  "wr (deleteJob B k) (\<lambda>_. None) (\<lambda>s. s\<lparr>tJobs := (tJobs s)(k := None)\<rparr>)"
  unfolding deleteAccount_def deletePayment_def deleteAcceptedWork_def deleteJob_def
  by (rule writes_delete, simp, erule (2) set_table_delete[OF _ _ _ refl])+

text \<open>Deleting the rows a scan has selected.\<close>

lemma delete_all:
  assumes "boltInv B db" "b \<in> set poolBuckets"
  shows "(case foldo (\<lambda>entry db. bDelete B db [poolBkt, b] entry) ks db of
      Ok db' \<Rightarrow> bHas B db' = bHas B db \<and> bGet B db' = (bGet B db)([poolBkt, b] :=
        (\<lambda>k. if k \<in> set ks then None else bGet B db [poolBkt, b] k))
    | Err e \<Rightarrow> \<not> bolt_live B
    | Panic \<Rightarrow> False)"
proof -
  have "bHas B db [poolBkt, b]" using assms by simp
  then show ?thesis
  proof (induction ks arbitrary: db)
    case Nil
    then show ?case by (simp add: fun_upd_idem)
  next
    case (Cons k ks)
    have live: "bolt_live B \<Longrightarrow> \<exists>db'. bDelete B db [poolBkt, b] k = Ok db'"
      using Cons.prems bolt_live.delete_ok by metis
    show ?case
    proof (cases "bDelete B db [poolBkt, b] k")
      case (Ok db1)
      then have db1: "bHas B db1 = bHas B db"
        "bGet B db1 = (bGet B db)([poolBkt, b] := (bGet B db [poolBkt, b])(k := None))"
        using delete_has delete_get by blast+
      have "(\<lambda>x. if x \<in> set ks then None else ((bGet B db [poolBkt, b])(k := None)) x) =
            (\<lambda>x. if x \<in> set (k # ks) then None else bGet B db [poolBkt, b] x)" by auto
      then show ?thesis
        using Cons.IH[of db1] Cons.prems db1 Ok by (auto simp: fun_eq_iff split: outcome.splits)
    next
      case (Err e)
      then show ?thesis using live by auto
    next
      case Panic
      then show ?thesis using no_panic(2) by blast
    qed
  qed
qed

lemma writes_prune:
  assumes b: "b \<in> set poolBuckets"
    and scan: "\<And>db. boltInv B db \<Longrightarrow> sel db [poolBkt, b] = Ok (ks db)"
    and upd: "\<And>db db'. boltInv B db \<Longrightarrow> bHas B db' = bHas B db \<Longrightarrow>
      bGet B db' = (bGet B db)([poolBkt, b] :=
        (\<lambda>k. if k \<in> set (ks db) then None else bGet B db [poolBkt, b] k)) \<Longrightarrow>
      boltInv B db' \<and> absdb B db' = upd (absdb B db)"
  shows "wr (Update B (\<lambda>db. bnd (fetchBucket B db b) (\<lambda>bkt. bnd (sel db bkt) (\<lambda>toDelete.
     bnd (foldo (\<lambda>entry db. bDelete B db bkt entry) toDelete db) (\<lambda>db. Ok ((), db)))))) (\<lambda>_. None) upd"
proof (rule writes_Update)
  fix db
  assume I: "boltInv B db"
  show "tx None (upd (absdb B db)) db (bnd (fetchBucket B db b) (\<lambda>bkt. bnd (sel db bkt) (\<lambda>toDelete.
     bnd (foldo (\<lambda>entry db. bDelete B db bkt entry) toDelete db) (\<lambda>db. Ok ((), db)))))"
    using I b scan[OF I] delete_all[OF I b, of "ks db"] upd[OF I] bolt_live.commit_ok[of B db]
    by (cases "foldo (\<lambda>entry db. bDelete B db [poolBkt, b] entry) (ks db) db") (auto simp: tx_ok_def)
qed

lemma b_pruneShares: "wr (pruneShares B t) (\<lambda>_. None)
    (\<lambda>s. s\<lparr>tShares := (\<lambda>k. case tShares s k of Some x \<Rightarrow> if shCreatedOn x < t then None else Some x
                                             | None \<Rightarrow> None)\<rparr>)"
  unfolding pruneShares_def
proof (rule writes_prune[where ks = "\<lambda>db. map shUUID (filter (\<lambda>x. shCreatedOn x < t) (share_list db))"])
  fix db
  assume I: "boltInv B db"
  show "foldo (\<lambda>(k, v) toDelete. bnd (shareCreatedOnB k) (\<lambda>createdOnB.
      Ok (if createdOnB < nanoToBigEndianBytes t then toDelete @ [k] else toDelete)))
      (bCursor B db [poolBkt, shareBkt]) [] = Ok (map shUUID (filter (\<lambda>x. shCreatedOn x < t) (share_list db)))"
    unfolding foldo_share[OF I]
    by (rule trans[OF foldo_filter[where P = "\<lambda>x. shCreatedOn x < t" and g = shUUID]])
      (simp_all add: share_cursor(2)[OF I])
  fix db'
  let ?K = "set (map shUUID (filter (\<lambda>x. shCreatedOn x < t) (share_list db)))"
  assume h: "bHas B db' = bHas B db" "bGet B db' = (bGet B db)([poolBkt, shareBkt] :=
    (\<lambda>k. if k \<in> ?K then None else bGet B db [poolBkt, shareBkt] k))"
  have K: "?K = {shUUID x |x. x \<in> ran (tbl unmarshalShare (bGet B db [poolBkt, shareBkt])) \<and> shCreatedOn x < t}"
    using share_cursor(5)[OF I] by auto
  show "boltInv B db' \<and> absdb B db' = (absdb B db)\<lparr>tShares := (\<lambda>k. case tShares (absdb B db) k of
      Some x \<Rightarrow> if shCreatedOn x < t then None else Some x | None \<Rightarrow> None)\<rparr>"
    using set_table(3)[OF I h refl share_rows.rows_ok_prune[OF boltInv_rows(3)[OF I]]]
    by (simp only: share_rows.tbl_prune_rows[OF boltInv_rows(3)[OF I] K] absdb_sel)
qed simp

lemma b_deleteJobsBeforeHeight: "wr (deleteJobsBeforeHeight B t) (\<lambda>_. None)
    (\<lambda>s. s\<lparr>tJobs := (\<lambda>k. case tJobs s k of Some b \<Rightarrow> if jbHeight b < t then None else Some b
                                         | None \<Rightarrow> None)\<rparr>)"
  unfolding deleteJobsBeforeHeight_def
proof (rule writes_prune[where ks = "\<lambda>db. map jbUUID (filter (\<lambda>x. jbHeight x < t) (job_list db))"])
  fix db
  assume I: "boltInv B db"
  show "foldo (\<lambda>(k, v) toDelete. bnd (slice 0 8 k) (\<lambda>k8. bnd (DecodeString k8) (\<lambda>heightB.
      Ok (if heightB < heightToBigEndianBytes t then toDelete @ [k] else toDelete))))
      (bCursor B db [poolBkt, jobBkt]) [] = Ok (map jbUUID (filter (\<lambda>x. jbHeight x < t) (job_list db)))"
    unfolding foldo_job[OF I]
    by (rule trans[OF foldo_filter[where P = "\<lambda>x. jbHeight x < t" and g = jbUUID]])
      (simp_all add: job_cursor(2)[OF I])
  fix db'
  let ?K = "set (map jbUUID (filter (\<lambda>x. jbHeight x < t) (job_list db)))"
  assume h: "bHas B db' = bHas B db" "bGet B db' = (bGet B db)([poolBkt, jobBkt] :=
    (\<lambda>k. if k \<in> ?K then None else bGet B db [poolBkt, jobBkt] k))"
  have K: "?K = {jbUUID x |x. x \<in> ran (tbl unmarshalJob (bGet B db [poolBkt, jobBkt])) \<and> jbHeight x < t}"
    using job_cursor(5)[OF I] by auto
  show "boltInv B db' \<and> absdb B db' = (absdb B db)\<lparr>tJobs := (\<lambda>k. case tJobs (absdb B db) k of
      Some b \<Rightarrow> if jbHeight b < t then None else Some b | None \<Rightarrow> None)\<rparr>"
    using set_table(5)[OF I h refl job_rows.rows_ok_prune[OF boltInv_rows(5)[OF I]]]
    by (simp only: job_rows.tbl_prune_rows[OF boltInv_rows(5)[OF I] K] absdb_sel)
qed simp

lemma b_pruneHashData: "wr (pruneHashData B t) (\<lambda>_. None)
    (\<lambda>s. s\<lparr>tHashData := (\<lambda>k. case tHashData s k of
       Some d \<Rightarrow> if sint (hdUpdatedOn d) < sint t then None else Some d | None \<Rightarrow> None)\<rparr>)"
  unfolding pruneHashData_def
proof (rule writes_prune[where ks = "\<lambda>db. map hdUUID (filter (\<lambda>x. sint (hdUpdatedOn x) < sint t) (hash_list db))"])
  fix db
  assume I: "boltInv B db"
  show "foldo (\<lambda>(k, v) toDelete. bnd (map_err (\<lambda>_. DBError Parse) (json_Unmarshal unmarshalHashData v)) (\<lambda>hashData.
      Ok (if sint (hdUpdatedOn hashData) < sint t then toDelete @ [k] else toDelete)))
      (bCursor B db [poolBkt, hashDataBkt]) [] =
      Ok (map hdUUID (filter (\<lambda>x. sint (hdUpdatedOn x) < sint t) (hash_list db)))"
    unfolding foldo_hash[OF I]
    by (rule trans[OF foldo_filter[where P = "\<lambda>x. sint (hdUpdatedOn x) < sint t" and g = hdUUID]])
      (simp_all add: hashdata_roundtrip)
  fix db'
  let ?K = "set (map hdUUID (filter (\<lambda>x. sint (hdUpdatedOn x) < sint t) (hash_list db)))"
  assume h: "bHas B db' = bHas B db" "bGet B db' = (bGet B db)([poolBkt, hashDataBkt] :=
    (\<lambda>k. if k \<in> ?K then None else bGet B db [poolBkt, hashDataBkt] k))"
  have K: "?K = {hdUUID x |x. x \<in> ran (tbl unmarshalHashData (bGet B db [poolBkt, hashDataBkt])) \<and>
      sint (hdUpdatedOn x) < sint t}"
    using hash_cursor(5)[OF I] by auto
  show "boltInv B db' \<and> absdb B db' = (absdb B db)\<lparr>tHashData := (\<lambda>k. case tHashData (absdb B db) k of
       Some d \<Rightarrow> if sint (hdUpdatedOn d) < sint t then None else Some d | None \<Rightarrow> None)\<rparr>"
    using set_table(7)[OF I h refl hash_rows.rows_ok_prune[OF boltInv_rows(7)[OF I]]]
    by (simp only: hash_rows.tbl_prune_rows[OF boltInv_rows(7)[OF I] K] absdb_sel)
qed simp

text \<open>A payment moves from its bucket to the archive in one transaction.\<close>

lemma b_ArchivePayment:
  assumes "wf_payment p" and wfa: "wf_payment (archived p now rand)"
  shows "wr (ArchivePayment B p now rand) (\<lambda>_. None)
      (\<lambda>s. s\<lparr>tPayments := (tPayments s)(pmUUID p := None),
             tArchive := (tArchive s)(pmUUID (archived p now rand) \<mapsto> archived p now rand)\<rparr>)"
proof -
  let ?a = "archived p now rand"
  have a: "(NewPayment (pmAccount p) (pmSource p) (pmAmount p) (pmHeight p)
      (pmEstimatedMaturity p) now rand)
      \<lparr>pmTransactionID := pmTransactionID p, pmPaidOnHeight := pmPaidOnHeight p\<rparr> = ?a"
    by (simp add: NewPayment_def archived_def)
  show ?thesis
    unfolding ArchivePayment_def a Let_def
  proof (rule writes_Update)
    fix db
    assume I: "boltInv B db"
    let ?fin = "\<lambda>db. bnd (map_err (\<lambda>_. DBError PersistEntry)
      (bPut B db [poolBkt, paymentArchiveBkt] (pmUUID ?a) (Doc (marshalPayment ?a)))) (\<lambda>db. Ok ((), db))"
    let ?s = "(absdb B db)\<lparr>tPayments := (tPayments (absdb B db))(pmUUID p := None),
      tArchive := (tArchive (absdb B db))(pmUUID ?a \<mapsto> ?a)\<rparr>"
    have "tx None ?s db (bnd (bDelete B db [poolBkt, paymentBkt] (pmUUID p)) ?fin)"
    proof (cases "bDelete B db [poolBkt, paymentBkt] (pmUUID p)")
      case (Ok db1)
      then have I1: "boltInv B db1 \<and> absdb B db1 =
          (absdb B db)\<lparr>tPayments := (tPayments (absdb B db))(pmUUID p := None)\<rparr>"
        using set_table_delete(1)[OF I delete_has delete_get refl] by blast
      have "wf_key (pmUUID ?a)" using wfa by (simp add: wf_payment_def)
      then have "case bPut B db1 [poolBkt, paymentArchiveBkt] (pmUUID ?a) (Doc (marshalPayment ?a)) of
          Ok db' \<Rightarrow> boltInv B db' \<and> absdb B db' = (absdb B db1)\<lparr>tArchive :=
            (tArchive (absdb B db1))(pmUUID ?a \<mapsto> ?a)\<rparr>
        | _ \<Rightarrow> \<not> bolt_live B"
        using put_result[of db1 paymentArchiveBkt "pmUUID ?a" "Doc (marshalPayment ?a)"] I1
          set_table_put(2)[of db1 _ paymentArchiveBkt, OF _ _ _ refl wfa refl refl]
        by (auto split: outcome.splits simp del: absdb_sel)
      then show ?thesis
        using Ok I1 no_panic(1) bolt_live.commit_ok[of B]
        by (cases "bPut B db1 [poolBkt, paymentArchiveBkt] (pmUUID ?a) (Doc (marshalPayment ?a))")
          (auto simp: tx_ok_def simp del: absdb_sel)
    next
      case (Err e)
      then show ?thesis
        using bolt_live.delete_ok[of B db "[poolBkt, paymentBkt]" "pmUUID p"] I by (auto simp: tx_ok_def)
    qed (use no_panic(2) in blast)
    then show "tx None ?s db (bnd (fetchBucket B db paymentBkt) (\<lambda>pbkt.
       bnd (fetchBucket B db paymentArchiveBkt) (\<lambda>abkt.
       bnd (bDelete B db pbkt (pmUUID p)) (\<lambda>db.
       bnd (map_err (\<lambda>_. DBError PersistEntry)
            (bPut B db abkt (pmUUID ?a) (Doc (marshalPayment ?a)))) (\<lambda>db. Ok ((), db))))))"
      using I by simp
  qed
qed

lemma wr_meta:
  assumes k: "wf_key k"
    and m: "\<And>m. meta_ok m \<Longrightarrow> meta_ok (m(k \<mapsto> v))"
    and upd: "\<And>db db'. boltInv B db \<Longrightarrow> boltInv B db' \<Longrightarrow> bHas B db' = bHas B db \<Longrightarrow>
      bGet B db' = (bGet B db)([poolBkt] := (bGet B db [poolBkt])(k \<mapsto> v)) \<Longrightarrow>
      absdb B db' = upd (absdb B db)"
    and fn: "\<And>db. boltInv B db \<Longrightarrow> fn db = bnd (map_err f (bPut B db [poolBkt] k v)) (\<lambda>db. Ok ((), db))"
  shows "wr (Update B fn) (\<lambda>_. None) upd"
proof (rule writes_Update)
  fix db
  assume I: "boltInv B db"
  have live: "bolt_live B \<Longrightarrow> \<exists>db'. bPut B db [poolBkt] k v = Ok db'"
    using I k bolt_live.put_ok by (metis boltInv_bkt(4) wf_key_def)
  show "tx None (upd (absdb B db)) db (fn db)"
  proof (cases "bPut B db [poolBkt] k v")
    case (Ok db')
    then have h: "bHas B db' = bHas B db"
      "bGet B db' = (bGet B db)([poolBkt] := (bGet B db [poolBkt])(k \<mapsto> v))"
      using put_has put_get by blast+
    have I': "boltInv B db'"
      by (rule set_meta(1)[OF I h m[OF boltInv_rows(8)[OF I]]])
    then have "absdb B db' = upd (absdb B db)" by (rule upd[OF I _ h])
    then show ?thesis
      using Ok I' fn[OF I] bolt_live.commit_ok[of B db] by (simp add: tx_ok_def)
  next
    case (Err e)
    then show ?thesis using live fn[OF I] by (auto simp: tx_ok_def)
  qed (use no_panic(1) in blast)
qed

lemma meta_ok_put:
  assumes "meta_ok m"
  shows "meta_ok (m(soloPoolK \<mapsto> Raw (le32 w)))" "meta_ok (m(csrfSecret \<mapsto> Raw b))"
    "meta_ok (m(lastPaymentHeight \<mapsto> Raw (le32 w)))"
    "meta_ok (m(lastPaymentPaidOn \<mapsto> Raw (nanoToBigEndianBytes n)))"
    "meta_ok (m(lastPaymentCreatedOn \<mapsto> Raw (nanoToBigEndianBytes n)))"
  using assms by (auto simp: meta_ok_def)

lemma wf_key_names [simp]:
  "wf_key soloPoolK" "wf_key csrfSecret" "wf_key lastPaymentHeight" "wf_key lastPaymentPaidOn"
  "wf_key lastPaymentCreatedOn"
  by (simp_all add: wf_key_def key_names)

lemma map_err_id [simp]: "map_err (\<lambda>e. e) m = m"
  by (cases m) auto

lemma b_persistPoolMode: "wr (persistPoolMode B mode) (\<lambda>_. None) (\<lambda>s. s\<lparr>tMode := Some mode\<rparr>)"
  unfolding persistPoolMode_def
  by (rule wr_meta[where k = soloPoolK and v = "Raw (le32 mode)" and f = "\<lambda>e. e"])
    (simp_all add: meta_ok_put absdb_def Let_def cong: option.case_cong)

lemma b_persistCSRFSecret: "wr (persistCSRFSecret B secret) (\<lambda>_. None) (\<lambda>s. s\<lparr>tCSRF := Some secret\<rparr>)"
  unfolding persistCSRFSecret_def
  by (rule wr_meta[where k = csrfSecret and v = "Raw secret" and f = "\<lambda>e. e"])
    (simp_all add: meta_ok_put absdb_def Let_def cong: option.case_cong)

lemma b_persistLastPaymentCreatedOn: "wr (persistLastPaymentCreatedOn B n) (\<lambda>_. None)
    (\<lambda>s. s\<lparr>tLastCreated := Some n\<rparr>)"
  unfolding persistLastPaymentCreatedOn_def
  by (rule wr_meta[where k = lastPaymentCreatedOn and v = "Raw (nanoToBigEndianBytes n)"
        and f = "\<lambda>_. DBError PersistEntry"])
    (simp_all add: meta_ok_put absdb_def Let_def cong: option.case_cong)

text \<open>The height and the time of the last payment are written together.\<close>

lemma b_persistLastPaymentInfo: "wr (persistLastPaymentInfo B h n) (\<lambda>_. None)
    (\<lambda>s. s\<lparr>tLastPaid := Some (h, n)\<rparr>)"
  unfolding persistLastPaymentInfo_def
proof (rule writes_Update)
  fix db
  assume I: "boltInv B db"
  let ?h = "Raw (le32 h)" and ?n = "Raw (nanoToBigEndianBytes n)"
  have live: "bolt_live B \<Longrightarrow> \<exists>db'. bPut B db [poolBkt] k v = Ok db'"
    if "boltInv B db" "wf_key k" for db k v
    using that bolt_live.put_ok by (metis boltInv_bkt(4) wf_key_def)
  have "tx None ((absdb B db)\<lparr>tLastPaid := Some (h, n)\<rparr>) db
     (bnd (map_err (\<lambda>_. DBError PersistEntry) (bPut B db [poolBkt] lastPaymentHeight ?h)) (\<lambda>db.
     bnd (map_err (\<lambda>_. DBError PersistEntry) (bPut B db [poolBkt] lastPaymentPaidOn ?n)) (\<lambda>db.
     Ok ((), db))))"
  proof (cases "bPut B db [poolBkt] lastPaymentHeight ?h")
    case (Ok db1)
    note h1 = put_has[OF Ok] put_get[OF Ok]
    have I1: "boltInv B db1"
      by (rule set_meta(1)[OF I h1 meta_ok_put(3)[OF boltInv_rows(8)[OF I]]])
    show ?thesis
    proof (cases "bPut B db1 [poolBkt] lastPaymentPaidOn ?n")
      case Ok2: (Ok db2)
      note h2 = put_has[OF Ok2] put_get[OF Ok2]
      have "boltInv B db2"
        by (rule set_meta(1)[OF I1 h2 meta_ok_put(4)[OF boltInv_rows(8)[OF I1]]])
      moreover have "absdb B db2 = (absdb B db)\<lparr>tLastPaid := Some (h, n)\<rparr>"
        by (simp add: absdb_def Let_def h1 h2)
      ultimately show ?thesis
        using Ok Ok2 bolt_live.commit_ok[of B db] by (simp add: tx_ok_def)
    next
      case (Err e)
      then show ?thesis using Ok live[OF I1, of lastPaymentPaidOn ?n] by (auto simp: tx_ok_def)
    qed (use no_panic(1) in blast)
  next
    case (Err e)
    then show ?thesis using live[OF I, of lastPaymentHeight ?h] by (auto simp: tx_ok_def)
  qed (use no_panic(1) in blast)
  then show "tx None ((absdb B db)\<lparr>tLastPaid := Some (h, n)\<rparr>) db
    (bnd (fetchPoolBucket B db) (\<lambda>pbkt.
     bnd (map_err (\<lambda>_. DBError PersistEntry) (bPut B db pbkt lastPaymentHeight ?h)) (\<lambda>db.
     bnd (map_err (\<lambda>_. DBError PersistEntry) (bPut B db pbkt lastPaymentPaidOn ?n)) (\<lambda>db.
     Ok ((), db)))))"
    using I by simp
qed

lemma b_listings:
  assumes I: "boltInv B db"
  shows "\<exists>ps. fetchPendingPayments B db = Ok ps \<and> lists_rows (tPayments (absdb B db)) pm_pending ps"
    "\<exists>ps. archivedPayments B db = Ok ps \<and> lists_rows (tArchive (absdb B db)) (\<lambda>_. True) ps"
    "\<exists>ws. listMinedWork B db = Ok ws \<and> lists_rows (tWork (absdb B db)) (\<lambda>_. True) ws"
    "\<exists>ss. ppsEligibleShares B t db = Ok ss \<and> lists_rows (tShares (absdb B db)) (\<lambda>s. shCreatedOn s \<le> t) ss"
    "\<exists>ss. pplnsEligibleShares B t db = Ok ss \<and> lists_rows (tShares (absdb B db)) (\<lambda>s. t < shCreatedOn s) ss"
    "\<exists>ws. fetchUnconfirmedWork B height db = Ok ws \<and>
       lists_rows (tWork (absdb B db)) (\<lambda>w. awHeight w < height \<and> \<not> awConfirmed w) ws"
  using pay_cursor(4,5)[OF I] arch_cursor(4,5)[OF I] work_cursor(4,5)[OF I] share_cursor(4,5)[OF I]
  by (auto simp: listings[OF I] lists_rows_def)

lemma b_wf_rows:
  assumes I: "boltInv B db"
  shows "(\<forall>k p. tPayments (absdb B db) k = Some p \<longrightarrow> pmUUID p = k \<and> wf_payment p) \<and>
      (\<forall>k w. tWork (absdb B db) k = Some w \<longrightarrow> awUUID w = k \<and> wf_work w) \<and>
      (\<forall>k s. tShares (absdb B db) k = Some s \<longrightarrow> shUUID s = k \<and> wf_share s) \<and>
      (\<forall>k d. tHashData (absdb B db) k = Some d \<longrightarrow> hdUUID d = k \<and> wf_hashdata d)"
  using pmt_rows.tbl_Some[OF boltInv_rows(1)[OF I]] work_rows.tbl_Some[OF boltInv_rows(4)[OF I]]
    share_rows.tbl_Some[OF boltInv_rows(3)[OF I]] hash_rows.tbl_Some[OF boltInv_rows(7)[OF I]] by simp

end

lemma BoltDatabase_sel [simp]:
  "db_fetchPoolMode (BoltDatabase B) = fetchPoolMode B"
  "db_persistPoolMode (BoltDatabase B) = persistPoolMode B"
  "db_fetchCSRFSecret (BoltDatabase B) = fetchCSRFSecret B"
  "db_persistCSRFSecret (BoltDatabase B) = persistCSRFSecret B"
  "db_persistLastPaymentInfo (BoltDatabase B) = persistLastPaymentInfo B"
  "db_loadLastPaymentInfo (BoltDatabase B) = loadLastPaymentInfo B"
  "db_persistLastPaymentCreatedOn (BoltDatabase B) = persistLastPaymentCreatedOn B"
  "db_loadLastPaymentCreatedOn (BoltDatabase B) = loadLastPaymentCreatedOn B"
  "db_fetchAccount (BoltDatabase B) = fetchAccount B"
  "db_persistAccount (BoltDatabase B) = persistAccount B"
  "db_deleteAccount (BoltDatabase B) = deleteAccount B"
  "db_fetchPayment (BoltDatabase B) = fetchPayment B"
  "db_PersistPayment (BoltDatabase B) = PersistPayment B"
  "db_updatePayment (BoltDatabase B) = PersistPayment B"
  "db_deletePayment (BoltDatabase B) = deletePayment B"
  "db_ArchivePayment (BoltDatabase B) = ArchivePayment B"
  "db_fetchPaymentsAtHeight (BoltDatabase B) = fetchPaymentsAtHeight B"
  "db_fetchPendingPayments (BoltDatabase B) = fetchPendingPayments B"
  "db_pendingPaymentsForBlockHash (BoltDatabase B) = pendingPaymentsForBlockHash B"
  "db_archivedPayments (BoltDatabase B) = archivedPayments B"
  "db_maturePendingPayments (BoltDatabase B) = maturePendingPayments B"
  "db_PersistShare (BoltDatabase B) = PersistShare B"
  "db_fetchShare (BoltDatabase B) = fetchShare B"
  "db_ppsEligibleShares (BoltDatabase B) = ppsEligibleShares B"
  "db_pplnsEligibleShares (BoltDatabase B) = pplnsEligibleShares B"
  "db_pruneShares (BoltDatabase B) = pruneShares B"
  "db_fetchAcceptedWork (BoltDatabase B) = fetchAcceptedWork B"
  "db_persistAcceptedWork (BoltDatabase B) = persistAcceptedWork B"
  "db_updateAcceptedWork (BoltDatabase B) = updateAcceptedWork B"
  "db_deleteAcceptedWork (BoltDatabase B) = deleteAcceptedWork B"
  "db_listMinedWork (BoltDatabase B) = listMinedWork B"
  "db_fetchUnconfirmedWork (BoltDatabase B) = fetchUnconfirmedWork B"
  "db_fetchJob (BoltDatabase B) = fetchJob B"
  "db_persistJob (BoltDatabase B) = persistJob B"
  "db_deleteJob (BoltDatabase B) = deleteJob B"
  "db_deleteJobsBeforeHeight (BoltDatabase B) = deleteJobsBeforeHeight B"
  "db_persistHashData (BoltDatabase B) = persistHashData B"
  "db_updateHashData (BoltDatabase B) = updateHashData B"
  "db_fetchHashData (BoltDatabase B) = fetchHashData B"
  "db_listHashData (BoltDatabase B) = listHashData B"
  "db_pruneHashData (BoltDatabase B) = pruneHashData B"
  by (simp_all add: BoltDatabase_def updatePayment_def fun_eq_iff)

sublocale bolt_store \<subseteq> bdb: database_spec "BoltDatabase B" "absdb B" "boltInv B" "bolt_live B"
  by (unfold_locales, unfold BoltDatabase_sel)
    (rule b_wf_rows bolt_fetch_meta bolt_fetch b_persistPoolMode b_persistCSRFSecret
      b_persistLastPaymentInfo b_persistLastPaymentCreatedOn b_persistAccount b_deletes
      b_PersistPayment b_ArchivePayment b_fetchPaymentsAtHeight b_listings
      b_pendingPaymentsForBlockHash b_maturePendingPayments b_PersistShare b_pruneShares
      b_persistAcceptedWork b_updateAcceptedWork b_persistJob b_deleteJobsBeforeHeight
      b_persistHashData b_updateHashData b_listHashData b_pruneHashData; assumption)+

section \<open>Opening a database\<close>

definition emptyPoolDB :: PoolDB where
  "emptyPoolDB = \<lparr>tPayments = Map.empty, tArchive = Map.empty, tShares = Map.empty,
     tWork = Map.empty, tJobs = Map.empty, tAccounts = Map.empty, tHashData = Map.empty,
     tMode = None, tCSRF = None, tLastPaid = None, tLastCreated = None\<rparr>"

lemma createBuckets_fold:
  "createBuckets B = Update B (\<lambda>db.
     bnd (if bHas B db [poolBkt] then Ok db
          else bnd (map_err (\<lambda>_. DBError CreateStorage) (bCreateBucket B db [poolBkt])) (\<lambda>db.
               map_err (\<lambda>_. DBError PersistEntry)
                 (bPut B db [poolBkt] versionK (Raw (le32 BoltDBVersion))))) (\<lambda>db.
     bnd (foldo (createNestedBucket B [poolBkt]) poolBuckets db) (\<lambda>db. Ok ((), db))))"
  unfolding createBuckets_def poolBuckets_def by (simp add: bnd_assoc)

context bolt_live
begin

lemma live: "bolt_live B" ..

lemma create_all:
  assumes "bHas B db [poolBkt]"
  shows "\<exists>db'. foldo (createNestedBucket B [poolBkt]) bs db = Ok db' \<and>
    bHas B db' = (\<lambda>p. bHas B db p \<or> (\<exists>b \<in> set bs. p = [poolBkt, b])) \<and>
    bGet B db' = (\<lambda>p. if (\<exists>b \<in> set bs. p = [poolBkt, b]) \<and> \<not> bHas B db p then Map.empty
                      else bGet B db p)"
  using assms
proof (induction bs arbitrary: db)
  case (Cons b bs)
  obtain db1 where c: "bCreateBucket B db [poolBkt, b] = Ok db1"
    using create_ok[of "[poolBkt, b]" db] Cons.prems by auto
  note db1 = create_has[OF c] create_get[OF c]
  have "bHas B db1 [poolBkt]" using Cons.prems db1 by simp
  then obtain db' where f: "foldo (createNestedBucket B [poolBkt]) bs db1 = Ok db'"
    and db': "bHas B db' = (\<lambda>p. bHas B db1 p \<or> (\<exists>b \<in> set bs. p = [poolBkt, b]))"
    "bGet B db' = (\<lambda>p. if (\<exists>b \<in> set bs. p = [poolBkt, b]) \<and> \<not> bHas B db1 p then Map.empty
                      else bGet B db1 p)"
    using Cons.IH by blast
  show ?case
  proof (intro exI conjI)
    show "foldo (createNestedBucket B [poolBkt]) (b # bs) db = Ok db'"
      using f by (simp add: createNestedBucket_def[of B "[poolBkt]" b] c)
    show "bHas B db' = (\<lambda>p. bHas B db p \<or> (\<exists>b \<in> set (b # bs). p = [poolBkt, b]))"
      by (auto simp: db' db1 fun_eq_iff)
    show "bGet B db' = (\<lambda>p. if (\<exists>b \<in> set (b # bs). p = [poolBkt, b]) \<and> \<not> bHas B db p then Map.empty
                      else bGet B db p)"
      by (auto simp: db' db1 fun_eq_iff)
  qed
qed simp

lemma upgradeDB_current:
  assumes "bHas B db [poolBkt]" "bGet B db [poolBkt] versionK = Some (Raw (le32 BoltDBVersion))"
  shows "upgradeDB B db = (Ok (), db)"
  using assms by (simp add: upgradeDB_def bndc_def View_def fetchDBVersion_def le32_roundtrip)

lemma init_fresh:
  assumes "\<not> bHas B db [poolBkt]" "\<And>b. \<not> bHas B db [poolBkt, b]"
  shows "\<exists>db'. InitBoltDB B db = (Ok (), db') \<and> boltInv B db' \<and> absdb B db' = emptyPoolDB"
proof -
  obtain db1 where c: "bCreateBucket B db [poolBkt] = Ok db1"
    using create_ok[of "[poolBkt]" db] by auto
  note db1 = create_has[OF c] create_get[OF c]
  have k: "versionK \<noteq> []" "length versionK \<le> 32768" by (simp_all add: versionK_def)
  obtain db2 where u: "bPut B db1 [poolBkt] versionK (Raw (le32 BoltDBVersion)) = Ok db2"
    using put_ok[OF _ k] db1 by (metis fun_upd_same)
  note db2 = put_has[OF u] put_get[OF u]
  obtain db3 where n: "foldo (createNestedBucket B [poolBkt]) poolBuckets db2 = Ok db3"
    and db3: "bHas B db3 = (\<lambda>p. bHas B db2 p \<or> (\<exists>b \<in> set poolBuckets. p = [poolBkt, b]))"
    "bGet B db3 = (\<lambda>p. if (\<exists>b \<in> set poolBuckets. p = [poolBkt, b]) \<and> \<not> bHas B db2 p
       then Map.empty else bGet B db2 p)"
    using create_all[of db2 poolBuckets] db1 db2 by auto
  have pool: "bGet B db3 [poolBkt] = [versionK \<mapsto> Raw (le32 BoltDBVersion)]"
    using assms(1) by (simp add: db3 db2 db1)
  have nested: "bGet B db3 [poolBkt, b] = Map.empty" if "b \<in> set poolBuckets" for b
    using that assms by (simp add: db3 db2 db1)
  have "createBuckets B db = (Ok (), db3)"
    unfolding createBuckets_fold using assms(1) c u n by (intro Update_live) simp
  moreover have "bHas B db3 [poolBkt]" by (simp add: db3 db2 db1)
  then have "upgradeDB B db3 = (Ok (), db3)" using pool by (simp add: upgradeDB_current)
  moreover have "boltInv B db3"
    unfolding boltInv_def meta_ok_def using pool nested \<open>bHas B db3 [poolBkt]\<close> db3(1) by simp
  moreover have "absdb B db3 = emptyPoolDB"
    by (simp add: absdb_def Let_def pool nested emptyPoolDB_def)
  ultimately show ?thesis by (simp add: InitBoltDB_def bndc_Ok)
qed

lemma init_again:
  assumes I: "boltInv B db"
  shows "\<exists>db'. InitBoltDB B db = (Ok (), db') \<and> boltInv B db' \<and> absdb B db' = absdb B db"
proof -
  obtain db1 where n: "foldo (createNestedBucket B [poolBkt]) poolBuckets db = Ok db1"
    and db1: "bHas B db1 = (\<lambda>p. bHas B db p \<or> (\<exists>b \<in> set poolBuckets. p = [poolBkt, b]))"
    "bGet B db1 = (\<lambda>p. if (\<exists>b \<in> set poolBuckets. p = [poolBkt, b]) \<and> \<not> bHas B db p
       then Map.empty else bGet B db p)"
    using create_all[of db poolBuckets] I by auto
  have eq: "bHas B db1 = bHas B db" "bGet B db1 = bGet B db"
    using I by (auto simp: db1 fun_eq_iff)
  then have "boltInv B db1" "absdb B db1 = absdb B db"
    using I unfolding boltInv_def absdb_def by simp_all
  moreover have "createBuckets B db = (Ok (), db1)"
    unfolding createBuckets_fold using I n by (intro Update_live) simp
  moreover have "upgradeDB B db1 = (Ok (), db1)"
    using boltInv_rows(8)[OF I] I eq by (intro upgradeDB_current) (simp_all add: meta_ok_def)
  ultimately show ?thesis by (simp add: InitBoltDB_def bndc_Ok)
qed

text \<open>What a purge leaves behind.\<close>

lemma purge_keys:
  assumes "bHas B db p"
  shows "\<exists>db'. foldo (\<lambda>k db. map_err (\<lambda>_. DBError DeleteEntry) (bDelete B db p k)) ks db = Ok db' \<and>
    bHas B db' = bHas B db \<and>
    bGet B db' = (bGet B db)(p := (\<lambda>k. if k \<in> set ks then None else bGet B db p k))"
  using assms
proof (induction ks arbitrary: db)
  case Nil
  then show ?case by (simp add: fun_upd_idem)
next
  case (Cons k ks)
  obtain db1 where d: "bDelete B db p k = Ok db1" using delete_ok Cons.prems by blast
  note db1 = delete_has[OF d] delete_get[OF d]
  then show ?case
    using Cons.IH[of db1] Cons.prems d by (auto simp: fun_eq_iff)
qed

lemma purge_buckets:
  assumes "\<And>b. b \<in> set bs \<Longrightarrow> bHas B db [poolBkt, b]" "distinct bs"
  shows "\<exists>db'. foldo (\<lambda>b db. map_err (\<lambda>_. DBError DeleteEntry) (bDeleteBucket B db ([poolBkt] @ [b]))) bs db
      = Ok db' \<and>
    bHas B db' [poolBkt] = bHas B db [poolBkt] \<and> bGet B db' [poolBkt] = bGet B db [poolBkt] \<and>
    (\<forall>b. bHas B db' [poolBkt, b] \<longleftrightarrow> bHas B db [poolBkt, b] \<and> b \<notin> set bs) \<and>
    (\<forall>b. b \<notin> set bs \<longrightarrow> bGet B db' [poolBkt, b] = bGet B db [poolBkt, b])"
  using assms
proof (induction bs arbitrary: db)
  case (Cons b bs)
  obtain db1 where d: "bDeleteBucket B db [poolBkt, b] = Ok db1"
    using delbkt_ok Cons.prems(1)[of b] by auto
  note db1 = delbkt_has[OF d] delbkt_get[OF d]
  have "bHas B db1 [poolBkt, c]" if "c \<in> set bs" for c
    using that Cons.prems db1 by auto
  then obtain db' where db': "foldo (\<lambda>b db. map_err (\<lambda>_. DBError DeleteEntry)
      (bDeleteBucket B db ([poolBkt] @ [b]))) bs db1 = Ok db'"
    "bHas B db' [poolBkt] = bHas B db1 [poolBkt]" "bGet B db' [poolBkt] = bGet B db1 [poolBkt]"
    "\<forall>b. bHas B db' [poolBkt, b] \<longleftrightarrow> bHas B db1 [poolBkt, b] \<and> b \<notin> set bs"
    "\<forall>b. b \<notin> set bs \<longrightarrow> bGet B db' [poolBkt, b] = bGet B db1 [poolBkt, b]"
    using Cons.IH[of db1] Cons.prems(2) by auto
  show ?case using db' d by (intro exI[of _ db']) (auto simp: db1)
qed simp

lemma purge_result:
  assumes I: "boltInv B db"
  shows "\<exists>db'. purge B db = (Ok (), db') \<and> bHas B db' [poolBkt] \<and>
    bGet B db' [poolBkt] versionK = None \<and>
    (\<forall>b. bHas B db' [poolBkt, b] \<longleftrightarrow> bHas B db [poolBkt, b] \<and> b \<notin> set purgedBuckets) \<and>
    bGet B db' [poolBkt, hashDataBkt] = bGet B db [poolBkt, hashDataBkt]"
proof -
  obtain db1 where k: "foldo (\<lambda>k db. map_err (\<lambda>_. DBError DeleteEntry) (bDelete B db [poolBkt] k))
      purgedKeys db = Ok db1"
    and db1: "bHas B db1 = bHas B db" "bGet B db1 = (bGet B db)([poolBkt] :=
      (\<lambda>k. if k \<in> set purgedKeys then None else bGet B db [poolBkt] k))"
    using purge_keys[of db "[poolBkt]" purgedKeys] I by auto
  have mem: "set purgedBuckets \<subseteq> set poolBuckets" "distinct purgedBuckets" "hashDataBkt \<notin> set purgedBuckets"
    by (auto simp: purgedBuckets_def poolBuckets_def)
  then have "bHas B db1 [poolBkt, b]" if "b \<in> set purgedBuckets" for b
    using that I db1(1) by (metis boltInv_bkt(3) subsetD)
  then obtain db2 where b: "foldo (\<lambda>b db. map_err (\<lambda>_. DBError DeleteEntry)
      (bDeleteBucket B db ([poolBkt] @ [b]))) purgedBuckets db1 = Ok db2"
    and db2: "bHas B db2 [poolBkt] = bHas B db1 [poolBkt]" "bGet B db2 [poolBkt] = bGet B db1 [poolBkt]"
    "\<forall>b. bHas B db2 [poolBkt, b] \<longleftrightarrow> bHas B db1 [poolBkt, b] \<and> b \<notin> set purgedBuckets"
    "\<forall>b. b \<notin> set purgedBuckets \<longrightarrow> bGet B db2 [poolBkt, b] = bGet B db1 [poolBkt, b]"
    using purge_buckets[of purgedBuckets db1] mem(2) by blast
  have "purge B db = (Ok (), db2)"
    unfolding purge_def using I k b by (intro Update_live) simp
  then show ?thesis
    using db2 mem(3) I by (intro exI[of _ db2]) (simp add: db1 purgedKeys_def)
qed

lemma purge_reopen:
  assumes "bHas B db [poolBkt]" "bGet B db [poolBkt] versionK = None"
  shows "\<exists>db'. InitBoltDB B db = (Err (DBError ValueNotFound), db')"
proof -
  obtain db1 where n: "foldo (createNestedBucket B [poolBkt]) poolBuckets db = Ok db1"
    and db1: "bHas B db1 = (\<lambda>p. bHas B db p \<or> (\<exists>b \<in> set poolBuckets. p = [poolBkt, b]))"
    "bGet B db1 = (\<lambda>p. if (\<exists>b \<in> set poolBuckets. p = [poolBkt, b]) \<and> \<not> bHas B db p
       then Map.empty else bGet B db p)"
    using create_all[of db poolBuckets] assms by auto
  have "createBuckets B db = (Ok (), db1)"
    unfolding createBuckets_fold using assms n by (intro Update_live) simp
  moreover have "upgradeDB B db1 = (Err (DBError ValueNotFound), db1)"
    using assms by (simp add: upgradeDB_def bndc_def View_def fetchDBVersion_def db1)
  ultimately show ?thesis by (simp add: InitBoltDB_def bndc_Ok)
qed

end

end
