(* ===== verification/BoltProps.thy ===== *)
theory BoltProps
  imports BoltSpec
begin

text \<open>
  The properties of the bolt database: it implements the contract of the interface, opening
  a file establishes the invariant, listings come in the documented order, and what a purge
  leaves behind.
\<close>

section \<open>Order of the listings\<close>

lemma take_le_take:
  fixes xs ys :: "'a :: linorder list"
  shows "xs \<le> ys \<Longrightarrow> take n xs \<le> take n ys"
proof (induction n arbitrary: xs ys)
  case (Suc n)
  then show ?case by (cases xs; cases ys) auto
qed simp

lemma EncodeToString_le:
  "length xs = length ys \<Longrightarrow> EncodeToString xs \<le> EncodeToString ys \<longleftrightarrow> xs \<le> ys"
  using EncodeToString_less[of ys xs] by (simp add: linorder_not_less[symmetric])

lemma share_key_order:
  assumes "wf_share a" "wf_share b" "shUUID a < shUUID b"
  shows "shCreatedOn a \<le> shCreatedOn b"
proof -
  have "take 16 (shUUID a) \<le> take 16 (shUUID b)"
    using assms(3) by (intro take_le_take) simp
  then show ?thesis using assms(1,2) by (simp add: wf_share_def EncodeToString_le)
qed

lemma work_key_order:
  assumes "wf_work a" "wf_work b" "awUUID a < awUUID b"
  shows "awHeight a \<le> awHeight b"
proof -
  have "take 8 (awUUID a) \<le> take 8 (awUUID b)"
    using assms(3) by (intro take_le_take) simp
  then have "heightToBigEndianBytes (awHeight a) \<le> heightToBigEndianBytes (awHeight b)"
    using assms(1,2) by (simp add: wf_work_def EncodeToString_le)
  then show ?thesis using heightBE_less by (metis linorder_not_less)
qed

context bolt_store
begin

lemma share_list_sorted:
  assumes I: "boltInv B db"
  shows "sorted_wrt (\<lambda>a b. shCreatedOn a \<le> shCreatedOn b) (share_list db)"
proof -
  have "map fst (bCursor B db [poolBkt, shareBkt]) = map shUUID (share_list db)"
    by (subst share_cursor(1)[OF I]) simp
  then have "sorted_wrt (\<lambda>a b. shUUID a < shUUID b) (share_list db)"
    using cursor_sorted[of "[poolBkt, shareBkt]" db] by (simp add: sorted_wrt_map)
  then show ?thesis
    by (rule sorted_wrt_mono_rel[rotated]) (use share_cursor(2)[OF I] share_key_order in blast)
qed

lemma work_list_sorted:
  assumes I: "boltInv B db"
  shows "sorted_wrt (\<lambda>a b. awHeight a \<le> awHeight b) (work_list db)"
proof -
  have "map fst (bCursor B db [poolBkt, workBkt]) = map awUUID (work_list db)"
    by (subst work_cursor(1)[OF I]) simp
  then have "sorted_wrt (\<lambda>a b. awUUID a < awUUID b) (work_list db)"
    using cursor_sorted[of "[poolBkt, workBkt]" db] by (simp add: sorted_wrt_map)
  then show ?thesis
    by (rule sorted_wrt_mono_rel[rotated]) (use work_cursor(2)[OF I] work_key_order in blast)
qed

lemma bolt_is_database: "database_spec (BoltDatabase B) (absdb B) (boltInv B) (bolt_live B)"
  by (rule bdb.database_spec_axioms)

end

lemma append_less_append:
  fixes xs ys :: "'a :: linorder list"
  shows "length xs = length ys \<Longrightarrow> xs < ys \<Longrightarrow> xs @ us < ys @ vs"
  by (induction xs ys rule: list_induct2) auto

section \<open>Concrete files for the witnesses\<close>

definition newdb :: memdb where
  "newdb = snd (InitBoltDB mem_bolt (\<lambda>_. None))"

lemma newdb_inv: "boltInv mem_bolt newdb" "absdb mem_bolt newdb = emptyPoolDB"
  using mem.init_fresh[of "\<lambda>_. None"] by (auto simp: newdb_def mem_bolt_def)

definition demo_work :: "32 word \<Rightarrow> AcceptedWork" where
  "demo_work h = NewAcceptedWork ''b'' ''a'' h ''m'' ''cpu'' 7"

lemma demo_work_wf: "wf_work (demo_work h)"
  by (simp add: wf_work_def demo_work_def NewAcceptedWork_def AcceptedWorkID_def wf_key_def
      flip: length_0_conv)

definition workdb :: memdb where
  "workdb = snd (persistAcceptedWork mem_bolt (demo_work 5) (snd (persistAcceptedWork mem_bolt (demo_work 4) newdb)))"

lemmas mem_work_live = mem.b_persistAcceptedWork[THEN writes_live, OF _ mem.live]

lemma demo_work_neq: "awUUID (demo_work 4) \<noteq> awUUID (demo_work 5)"
  by (simp add: demo_work_def NewAcceptedWork_def)

lemma workdb_inv:
  "boltInv mem_bolt workdb"
  "tWork (absdb mem_bolt workdb) =
     [awUUID (demo_work 4) \<mapsto> demo_work 4, awUUID (demo_work 5) \<mapsto> demo_work 5]"
proof -
  obtain db1 where db1: "persistAcceptedWork mem_bolt (demo_work 4) newdb = (Ok (), db1)"
    "boltInv mem_bolt db1" "tWork (absdb mem_bolt db1) = [awUUID (demo_work 4) \<mapsto> demo_work 4]"
    using mem_work_live[OF demo_work_wf newdb_inv(1), of 4] demo_work_wf
    by (auto simp: newdb_inv(2) emptyPoolDB_def absent_def simp del: absdb_sel)
  then obtain db2 where "persistAcceptedWork mem_bolt (demo_work 5) db1 = (Ok (), db2)"
    "boltInv mem_bolt db2" "tWork (absdb mem_bolt db2) =
     [awUUID (demo_work 4) \<mapsto> demo_work 4, awUUID (demo_work 5) \<mapsto> demo_work 5]"
    using mem_work_live[OF demo_work_wf db1(2), of 5] demo_work_wf demo_work_neq
    by (auto simp: absent_def simp del: absdb_sel)
  then show "boltInv mem_bolt workdb" "tWork (absdb mem_bolt workdb) =
     [awUUID (demo_work 4) \<mapsto> demo_work 4, awUUID (demo_work 5) \<mapsto> demo_work 5]"
    using db1(1) by (simp_all add: workdb_def del: absdb_sel)
qed

section \<open>Properties\<close>

text \<open>
  C6: the bolt database implements the database contract. Over any store with the documented
  behaviour of bolt, every method of \<open>boltdb.go\<close> reads or changes the abstract database
  as the interface promises, a failed write changes nothing, the invariant of the file is
  kept, and on a medium that does not fail a write whose precondition holds succeeds.
\<close>

theorem bolt_implements_database:
  "bolt_store B \<Longrightarrow> database_spec (BoltDatabase B) (absdb B) (boltInv B) (bolt_live B)"
  by (rule bolt_store.bolt_is_database)

theorem bolt_implements_database_witness:
  "database_spec (BoltDatabase mem_bolt) (absdb mem_bolt) (boltInv mem_bolt) (bolt_live mem_bolt)"
  by (rule bolt_implements_database) (rule mem.bolt_store_axioms)

text \<open>
  The listings are complete and come in the documented order. \<open>listMinedWork\<close> returns
  every accepted work with the most recent height first, \<open>ppsEligibleShares\<close> the shares
  created at or before the given time, earliest first, and \<open>pplnsEligibleShares\<close> those
  created after it, latest first; each row once.
\<close>

lemma listings_complete_and_ordered:
  assumes "bolt_store B" "boltInv B db"
  shows "\<exists>ws ps ls. listMinedWork B db = Ok ws \<and> lists_rows (tWork (absdb B db)) (\<lambda>_. True) ws \<and>
      sorted_wrt (\<lambda>a b. awHeight b \<le> awHeight a) ws \<and>
    ppsEligibleShares B t db = Ok ps \<and>
      lists_rows (tShares (absdb B db)) (\<lambda>s. shCreatedOn s \<le> t) ps \<and>
      sorted_wrt (\<lambda>a b. shCreatedOn a \<le> shCreatedOn b) ps \<and>
    pplnsEligibleShares B t db = Ok ls \<and>
      lists_rows (tShares (absdb B db)) (\<lambda>s. t < shCreatedOn s) ls \<and>
      sorted_wrt (\<lambda>a b. shCreatedOn b \<le> shCreatedOn a) ls"
  using bolt_store.listings[OF assms] bolt_store.b_listings[OF assms]
    bolt_store.work_list_sorted[OF assms] bolt_store.share_list_sorted[OF assms]
  by (auto simp: sorted_wrt_rev intro: sorted_wrt_filter)

text \<open>
  C35: opening a database. On a medium that does not fail, \<open>InitBoltDB\<close> on a file without
  the pool's buckets succeeds and gives an empty database that satisfies the invariant;
  opening a file that satisfies it succeeds and changes nothing.
\<close>

theorem init_bolt_db:
  assumes "bolt_live B"
  shows "(\<not> bHas B db [poolBkt] \<and> (\<forall>b. \<not> bHas B db [poolBkt, b]) \<longrightarrow>
      (\<exists>db'. InitBoltDB B db = (Ok (), db') \<and> boltInv B db' \<and> absdb B db' = emptyPoolDB)) \<and>
    (boltInv B db \<longrightarrow>
      (\<exists>db'. InitBoltDB B db = (Ok (), db') \<and> boltInv B db' \<and> absdb B db' = absdb B db))"
  using bolt_live.init_fresh[OF assms] bolt_live.init_again[OF assms] by blast

theorem init_bolt_db_witness:
  "(\<exists>db'. InitBoltDB mem_bolt (\<lambda>_. None) = (Ok (), db') \<and> boltInv mem_bolt db' \<and>
      absdb mem_bolt db' = emptyPoolDB) \<and>
   (\<exists>db'. InitBoltDB mem_bolt workdb = (Ok (), db') \<and> boltInv mem_bolt db' \<and>
      absdb mem_bolt db' = absdb mem_bolt workdb)"
  using init_bolt_db[OF mem.bolt_live_axioms, of "\<lambda>_. None"]
    init_bolt_db[OF mem.bolt_live_axioms, of workdb] workdb_inv(1) by (simp add: mem_bolt_def)

text \<open>
  What \<open>purge\<close> does. It removes the metadata and six of the seven nested buckets; the
  hash data stays. Because the version is removed and the pool bucket is not, opening the file
  again fails with \<open>ValueNotFound\<close>.
\<close>

lemma purge_leaves_hash_data:
  assumes "bolt_live B" "boltInv B db"
  shows "\<exists>db'. purge B db = (Ok (), db') \<and>
    (\<forall>b \<in> set poolBuckets. bHas B db' [poolBkt, b] \<longleftrightarrow> b = hashDataBkt) \<and>
    bGet B db' [poolBkt, hashDataBkt] = bGet B db [poolBkt, hashDataBkt] \<and>
    (\<exists>db''. InitBoltDB B db' = (Err (DBError ValueNotFound), db''))"
proof -
  obtain db' where db': "purge B db = (Ok (), db')" "bHas B db' [poolBkt]"
    "bGet B db' [poolBkt] versionK = None"
    "\<forall>b. bHas B db' [poolBkt, b] \<longleftrightarrow> bHas B db [poolBkt, b] \<and> b \<notin> set purgedBuckets"
    "bGet B db' [poolBkt, hashDataBkt] = bGet B db [poolBkt, hashDataBkt]"
    using bolt_live.purge_result[OF assms] by blast
  have "b \<in> set poolBuckets \<Longrightarrow> b \<notin> set purgedBuckets \<longleftrightarrow> b = hashDataBkt" for b
    by (auto simp: poolBuckets_def purgedBuckets_def)
  then show ?thesis
    using db' assms(2) bolt_live.purge_reopen[OF assms(1) db'(2,3)] by auto
qed

text \<open>
  Keys sort as the times and heights they carry. A share created earlier, or a job or
  accepted work at a lower height, has the smaller key, whatever the account, block hash or
  random part.
\<close>

lemma key_order:
  "(n < n' \<longrightarrow> shareID a n r < shareID a' n' r') \<and>
   (h < h' \<longrightarrow> jobID h t < jobID h' t' \<and> AcceptedWorkID b h < AcceptedWorkID b' h')"
  by (simp add: shareID_def jobID_def AcceptedWorkID_def EncodeToString_append
      append_less_append EncodeToString_less)

end
