(* ===== verification/PostgresProps.thy ===== *)
theory PostgresProps
  imports Postgres BoltProps
begin

text \<open>
  The tables of the postgres database as the abstract database of the contract. A table whose rows are encoded records with unique keys is one contract (\<open>sql_table\<close>), its
  place among the tables of the pool another (\<open>pg_table\<close>); every table of the pool but the
  metadata is an instance of both.
\<close>

section \<open>Tables of encoded records\<close>

definition tabOk :: "('a \<Rightarrow> 'r) \<Rightarrow> ('a \<Rightarrow> string) \<Rightarrow> ('a \<Rightarrow> bool) \<Rightarrow> 'r list option \<Rightarrow> bool" where
  "tabOk enc uid V t \<longleftrightarrow> (\<exists>xs. t = Some (map enc xs) \<and> (\<forall>x \<in> set xs. V x) \<and> distinct (map uid xs))"

definition tabAbs :: "('r \<Rightarrow> string) \<Rightarrow> ('r \<Rightarrow> ('e, 'a) outcome) \<Rightarrow> 'r list option \<Rightarrow> (string \<rightharpoonup> 'a)" where
  "tabAbs key dec t k = (case t of None \<Rightarrow> None | Some rs \<Rightarrow>
     (case filter (\<lambda>r. key r = k) rs of [] \<Rightarrow> None
      | r # _ \<Rightarrow> (case dec r of Ok x \<Rightarrow> Some x | _ \<Rightarrow> None)))"

definition filed :: "('a \<Rightarrow> string) \<Rightarrow> 'a list \<Rightarrow> (string \<rightharpoonup> 'a)" where
  "filed uid xs = map_of (map (\<lambda>x. (uid x, x)) xs)"

lemma filed_simps [simp]: "filed uid [] = Map.empty" "filed uid (x # xs) = (filed uid xs)(uid x \<mapsto> x)"
  by (simp_all add: filed_def)

lemma filed_None: "filed uid xs k = None \<longleftrightarrow> k \<notin> uid ` set xs"
  by (simp add: filed_def map_of_eq_None_iff image_image)

lemma filed_Some: "distinct (map uid xs) \<Longrightarrow> filed uid xs k = Some x \<longleftrightarrow> x \<in> set xs \<and> uid x = k"
  by (auto simp: filed_def comp_def map_of_eq_Some_iff)

lemma ran_filed: "distinct (map uid xs) \<Longrightarrow> ran (filed uid xs) = set xs"
  by (auto simp: ran_def filed_Some)

lemma filed_snoc: "uid x \<notin> uid ` set xs \<Longrightarrow> filed uid (xs @ [x]) = (filed uid xs)(uid x \<mapsto> x)"
  by (induction xs) (auto simp: fun_upd_twist)

lemma filed_filter: "distinct (map uid xs) \<Longrightarrow>
    filed uid (filter P xs) = (\<lambda>k. case filed uid xs k of Some x \<Rightarrow> if P x then Some x else None | None \<Rightarrow> None)"
proof (induction xs)
  case (Cons x xs)
  then have "filed uid xs (uid x) = None" by (simp add: filed_None)
  then show ?case using Cons by (auto simp: fun_eq_iff)
qed (simp add: fun_eq_iff)

lemma filed_update: "filed uid (map (\<lambda>y. if uid y = uid x then x else y) xs) =
    (if uid x \<in> uid ` set xs then (filed uid xs)(uid x \<mapsto> x) else filed uid xs)"
  by (induction xs) (auto simp: fun_eq_iff)

lemma decode_rows: "(\<forall>x \<in> set xs. g (enc x) = Ok x) \<Longrightarrow>
    foldo (\<lambda>r acc. bnd (g r) (\<lambda>x. Ok (acc @ [x]))) (map enc xs) ys = Ok (ys @ xs)"
  by (induction xs arbitrary: ys) auto

locale sql_table =
  fixes enc :: "'a \<Rightarrow> 'r" and dec :: "'r \<Rightarrow> ('e, 'a) outcome" and key :: "'r \<Rightarrow> string" and uid :: "'a \<Rightarrow> string"
    and V :: "'a \<Rightarrow> bool"
  assumes dec_enc: "V x \<Longrightarrow> dec (enc x) = Ok x" and key_enc: "key (enc x) = uid x"
begin

lemma filter_key: "distinct (map uid xs) \<Longrightarrow> filter (\<lambda>r. key r = k) (map enc xs) =
    (case filed uid xs k of None \<Rightarrow> [] | Some x \<Rightarrow> [enc x])"
proof (induction xs)
  case (Cons x xs)
  show ?case
  proof (cases "uid x = k")
    case True
    then have "k \<notin> uid ` set xs" using Cons.prems by simp
    then have "filter (\<lambda>r. key r = k) (map enc xs) = []" by (auto simp: filter_empty_conv key_enc)
    then show ?thesis using True by (simp add: key_enc)
  qed (use Cons in \<open>simp add: key_enc\<close>)
qed simp

lemma abs_rows: "distinct (map uid xs) \<Longrightarrow> \<forall>x \<in> set xs. V x \<Longrightarrow> tabAbs key dec (Some (map enc xs)) = filed uid xs"
  by (rule ext) (auto simp: tabAbs_def filter_key dec_enc dest: filed_Some[THEN iffD1] split: option.split)

lemma tab_rows:
  assumes "tabOk enc uid V t"
  obtains xs where "t = Some (map enc xs)" "\<forall>x \<in> set xs. V x" "distinct (map uid xs)" "tabAbs key dec t = filed uid xs"
  using assms abs_rows by (auto simp: tabOk_def)

lemma tab_valid: "tabOk enc uid V t \<Longrightarrow> tabAbs key dec t k = Some x \<Longrightarrow> uid x = k \<and> V x"
  by (erule tab_rows) (auto simp: filed_Some)

lemma select_key:
  assumes "tabOk enc uid V t"
  shows "sqlSelect t (\<lambda>r. key r = k) = Ok (case tabAbs key dec t k of None \<Rightarrow> [] | Some x \<Rightarrow> [enc x])"
  using assms by (elim tab_rows) (simp add: sqlSelect_def table_def filter_key)

lemma select_rows:
  assumes "tabOk enc uid V t"
  shows "\<exists>xs. sqlSelect t P = Ok (map enc xs) \<and> (\<forall>x \<in> set xs. V x) \<and> distinct (map uid xs) \<and>
    lists_rows (tabAbs key dec t) (\<lambda>x. P (enc x)) xs \<and>
    filed uid xs = (\<lambda>k. case tabAbs key dec t k of Some x \<Rightarrow> if P (enc x) then Some x else None | None \<Rightarrow> None)"
proof -
  obtain xs where xs: "t = Some (map enc xs)" "\<forall>x \<in> set xs. V x" "distinct (map uid xs)" "tabAbs key dec t = filed uid xs"
    by (rule tab_rows[OF assms])
  let ?ys = "filter (\<lambda>x. P (enc x)) xs"
  have "sqlSelect t P = Ok (map enc ?ys)" by (simp add: sqlSelect_def table_def xs(1) filter_map comp_def)
  moreover have "lists_rows (tabAbs key dec t) (\<lambda>x. P (enc x)) ?ys"
    using xs(3) by (auto simp: lists_rows_def xs(4) ran_filed distinct_map)
  moreover have "filed uid ?ys = (\<lambda>k. case tabAbs key dec t k of Some x \<Rightarrow> if P (enc x) then Some x else None | None \<Rightarrow> None)"
    by (simp add: filed_filter[OF xs(3)] xs(4))
  ultimately show ?thesis using xs(2,3) distinct_map_filter by (intro exI[of _ ?ys]) auto
qed

lemma select_sorted:
  assumes "tabOk enc uid V t"
  shows "\<exists>xs. bnd (table t) (\<lambda>rs. Ok (sort_key f rs)) = Ok (map enc xs) \<and> (\<forall>x \<in> set xs. V x) \<and>
    lists_rows (tabAbs key dec t) (\<lambda>_. True) xs"
proof -
  obtain xs where xs: "t = Some (map enc xs)" "\<forall>x \<in> set xs. V x" "distinct (map uid xs)" "tabAbs key dec t = filed uid xs"
    by (rule tab_rows[OF assms])
  have "sort_key f (map enc ys) = map enc (sort_key (\<lambda>x. f (enc x)) ys)" for ys
  proof (induction ys)
    case (Cons y ys)
    have "insort_key f (enc y) (map enc zs) = map enc (insort_key (\<lambda>x. f (enc x)) y zs)" for zs by (induction zs) auto
    then show ?case using Cons by simp
  qed simp
  moreover have "lists_rows (tabAbs key dec t) (\<lambda>_. True) (sort_key (\<lambda>x. f (enc x)) xs)"
    using xs(3) by (auto simp: lists_rows_def xs(4) ran_filed distinct_map)
  ultimately show ?thesis using xs(2) by (intro exI[of _ "sort_key (\<lambda>x. f (enc x)) xs"]) (simp add: table_def xs(1))
qed

lemma insert_row:
  assumes "tabOk enc uid V t" "V x"
  shows "if tabAbs key dec t (uid x) = None
    then \<exists>t'. sqlInsert key (enc x) t = Ok (1, t') \<and> tabOk enc uid V t' \<and> tabAbs key dec t' = (tabAbs key dec t)(uid x \<mapsto> x)
    else sqlInsert key (enc x) t = Err UniqueViolation"
proof -
  obtain xs where xs: "t = Some (map enc xs)" "\<forall>x \<in> set xs. V x" "distinct (map uid xs)" "tabAbs key dec t = filed uid xs"
    by (rule tab_rows[OF assms(1)])
  have ins: "sqlInsert key (enc x) t =
      (if uid x \<in> uid ` set xs then Err UniqueViolation else Ok (1, Some (map enc (xs @ [x]))))"
    by (simp add: sqlInsert_def table_def xs(1) key_enc image_image)
  show ?thesis
  proof (cases "uid x \<in> uid ` set xs")
    case False
    then have "distinct (map uid (xs @ [x]))" "\<forall>y \<in> set (xs @ [x]). V y" using xs(2,3) assms(2) by simp_all
    then have "tabAbs key dec (Some (map enc (xs @ [x]))) = (tabAbs key dec t)(uid x \<mapsto> x)"
      and "tabOk enc uid V (Some (map enc (xs @ [x])))"
      using abs_rows[of "xs @ [x]"] filed_snoc[OF False] xs(4) unfolding tabOk_def by (simp, blast)
    then show ?thesis using False ins by (simp add: xs(4) filed_None)
  qed (use ins in \<open>simp add: xs(4) filed_None\<close>)
qed

lemma delete_rows:
  assumes "tabOk enc uid V t"
  shows "\<exists>n t'. sqlDelete P t = Ok (n, t') \<and> tabOk enc uid V t' \<and> tabAbs key dec t' =
    (\<lambda>k. case tabAbs key dec t k of Some x \<Rightarrow> if P (enc x) then None else Some x | None \<Rightarrow> None)"
proof -
  obtain xs where xs: "t = Some (map enc xs)" "\<forall>x \<in> set xs. V x" "distinct (map uid xs)" "tabAbs key dec t = filed uid xs"
    by (rule tab_rows[OF assms])
  let ?ys = "filter (\<lambda>x. \<not> P (enc x)) xs"
  have ys: "distinct (map uid ?ys)" "\<forall>x \<in> set ?ys. V x" using xs(2,3) by (simp_all add: distinct_map_filter)
  have "sqlDelete P t = Ok (length (filter P (map enc xs)), Some (map enc ?ys))"
    by (simp add: sqlDelete_def table_def xs(1) filter_map comp_def)
  moreover have "tabOk enc uid V (Some (map enc ?ys))" using ys unfolding tabOk_def by blast
  ultimately show ?thesis
    using abs_rows[OF ys] filed_filter[OF xs(3), of "\<lambda>x. \<not> P (enc x)"] xs(4)
    by (auto simp: fun_eq_iff split: option.splits if_splits)
qed

lemma delete_key:
  assumes "tabOk enc uid V t"
  shows "\<exists>n t'. sqlDelete (\<lambda>r. key r = k) t = Ok (n, t') \<and> tabOk enc uid V t' \<and> tabAbs key dec t' = (tabAbs key dec t)(k := None)"
proof -
  have "(\<lambda>k'. case tabAbs key dec t k' of Some x \<Rightarrow> if key (enc x) = k then None else Some x | None \<Rightarrow> None) =
      (tabAbs key dec t)(k := None)"
    using tab_valid[OF assms] by (auto simp: fun_eq_iff key_enc split: option.splits)
  then show ?thesis using delete_rows[OF assms, of "\<lambda>r. key r = k"] by simp
qed

lemma update_row:
  assumes "tabOk enc uid V t" "V x" and f: "\<And>r. key r = uid x \<Longrightarrow> f r = enc x"
  shows "\<exists>n t'. sqlUpdate (\<lambda>r. key r = uid x) f t = Ok (n, t') \<and> tabOk enc uid V t' \<and>
    (n = 0 \<longleftrightarrow> tabAbs key dec t (uid x) = None) \<and> (n = 0 \<longrightarrow> t' = t) \<and>
    (n \<noteq> 0 \<longrightarrow> tabAbs key dec t' = (tabAbs key dec t)(uid x \<mapsto> x))"
proof -
  obtain xs where xs: "t = Some (map enc xs)" "\<forall>x \<in> set xs. V x" "distinct (map uid xs)" "tabAbs key dec t = filed uid xs"
    by (rule tab_rows[OF assms(1)])
  define ys where "ys = map (\<lambda>y. if uid y = uid x then x else y) xs"
  define n where "n = length (filter (\<lambda>r. key r = uid x) (map enc xs))"
  have "map uid ys = map uid xs" by (auto simp: ys_def)
  then have ys: "distinct (map uid ys)" using xs(3) by simp
  have v: "\<forall>y \<in> set ys. V y" using xs(2) assms(2) by (auto simp: ys_def)
  have "map (\<lambda>r. if key r = uid x then f r else r) (map enc xs) = map enc ys" by (auto simp: ys_def key_enc f)
  then have u: "sqlUpdate (\<lambda>r. key r = uid x) f t = Ok (n, Some (map enc ys))"
    by (simp add: sqlUpdate_def table_def xs(1) n_def)
  have n: "n = 0 \<longleftrightarrow> uid x \<notin> uid ` set xs" unfolding n_def by (simp add: filter_empty_conv key_enc image_iff) metis
  have "uid x \<notin> uid ` set xs \<Longrightarrow> ys = xs" unfolding ys_def by (rule map_idI) (metis image_eqI)
  then have "n = 0 \<longrightarrow> Some (map enc ys) = t" using n xs(1) by simp
  moreover have "n \<noteq> 0 \<longrightarrow> tabAbs key dec (Some (map enc ys)) = (tabAbs key dec t)(uid x \<mapsto> x)"
    using abs_rows[OF ys v] filed_update[of uid x xs] n xs(4) by (simp add: ys_def)
  moreover have "tabOk enc uid V (Some (map enc ys))" using ys v unfolding tabOk_def by blast
  ultimately show ?thesis using u n by (cases "n = 0") (auto simp: xs(4) filed_None)
qed

end

section \<open>Texts and columns\<close>

lemma splitFirst_other: "c \<notin> set s \<Longrightarrow> splitFirst c s = (s, None)" "c \<notin> set s \<Longrightarrow> splitFirst c (s @ c # t) = (s, Some t)"
  by (induction s) auto

lemma show_int_no_slash: "CHR ''/'' \<notin> set (show_int i)"
proof -
  have "CHR ''/'' \<notin> set (show_nat n)" for n using show_nat_digits[of n] by (auto simp: list_all_iff isDigit_def)
  then show ?thesis by (simp add: show_int_def)
qed

lemma SetString_ratText [rt_simps]: "SetString (ratText q) = Some q"
proof -
  obtain a b where q: "quotient_of q = (a, b)" by fastforce
  have b: "b > 0" "of_int a / of_int b = q" using quotient_of_denom_pos[OF q] quotient_of_div[OF q] by simp_all
  have t: "ratText q = (if b = 1 then show_int a else show_int a @ CHR ''/'' # show_int b)" by (simp add: ratText_def q)
  show ?thesis
    using b unfolding t by (auto simp: SetString_def splitFirst_other[OF show_int_no_slash] parseInt_show_int)
qed

lemma scanUint32_uint [rt_simps]: "scanUint32 (uint w) = Ok w"
  using uint_lt2p[of w] by (simp add: scanUint32_def)

lemma scanInt64_sint [rt_simps]: "scanInt64 (sint w) = w"
  by (simp add: scanInt64_def)

lemma scanUint64_uint [rt_simps]: "scanUint64 (uint w) = Ok w"
  by (simp add: scanUint64_def)

lemma scanTextUint32_show [rt_simps]: "scanTextUint32 (show_nat (unat w)) = Ok w"
  using show_nat_digits[of "unat w"] unsigned_less[of w, where ?'a = nat] by (simp add: scanTextUint32_def parseUint32_def)

lemma scanTextInt64_show [rt_simps]: "scanTextInt64 (show_int (sint w)) = Ok w"
  using sint_range_size[of w] by (simp add: scanTextInt64_def parseInt_show_int in_i64_def word_size)

section \<open>The tables as the abstract database\<close>

text \<open>The row of a payment that names its source, of an account and of a job.\<close>

definition paymentRowOf :: "Payment \<Rightarrow> paymentRow" where
  "paymentRowOf p = \<lparr>prUuid = pmUUID p, prAccount = pmAccount p, prEstimatedMaturity = uint (pmEstimatedMaturity p),
     prHeight = uint (pmHeight p), prAmount = pmAmount p, prCreatedOn = sint (pmCreatedOn p),
     prPaidOnHeight = uint (pmPaidOnHeight p), prTransactionID = pmTransactionID p,
     prSourceBlockHash = srcBlockHash (the (pmSource p)), prSourceCoinbase = srcCoinbase (the (pmSource p))\<rparr>"

definition accountRowOf :: "Account \<Rightarrow> accountRow" where
  "accountRowOf a = \<lparr>arUuid = acUUID a, arAddress = acAddress a, arCreatedOn = uint (acCreatedOn a)\<rparr>"

definition jobRowOf :: "Job \<Rightarrow> jobRow" where
  "jobRowOf b = \<lparr>jrUuid = jbUUID b, jrHeight = uint (jbHeight b), jrHeader = jbHeader b\<rparr>"

definition scanAccount :: "accountRow \<Rightarrow> Account sql" where
  "scanAccount r = bnd (scanUint64 (arCreatedOn r)) (\<lambda>createdOn.
     Ok \<lparr>acUUID = arUuid r, acAddress = arAddress r, acCreatedOn = createdOn\<rparr>)"

definition scanJob :: "jobRow \<Rightarrow> Job sql" where
  "scanJob r = bnd (scanUint32 (jrHeight r)) (\<lambda>height. Ok \<lparr>jbUUID = jrUuid r, jbHeight = height, jbHeader = jrHeader r\<rparr>)"

text \<open>An account that postgres stored has a time below the high bit.\<close>

definition pgAccountOk :: "Account \<Rightarrow> bool" where
  "pgAccountOk a \<longleftrightarrow> wf_account a \<and> uint (acCreatedOn a) < 2 ^ 63"

lemmas pg_row_defs = paymentRowOf_def accountRowOf_def jobRowOf_def scanAccount_def scanJob_def scanPayment_def
  workArgs_def scanWork_def shareArgs_def decodeShare_def hashArgs_def decodeHashData_def

lemma paymentArgs_eq: "wf_payment p \<Longrightarrow> paymentArgs p = Ok (paymentRowOf p)"
  by (auto simp: wf_payment_def paymentArgs_def paymentRowOf_def)

interpretation paymentTable: sql_table paymentRowOf scanPayment prUuid pmUUID wf_payment
  by unfold_locales (auto simp: pg_row_defs rt_simps wf_payment_def)

interpretation shareTable: sql_table shareArgs decodeShare srUuid shUUID wf_share
  by unfold_locales (simp_all add: pg_row_defs rt_simps)

interpretation workTable: sql_table workArgs scanWork wrUuid awUUID wf_work
  by unfold_locales (simp_all add: pg_row_defs rt_simps)

interpretation jobTable: sql_table jobRowOf scanJob jrUuid jbUUID wf_job
  by unfold_locales (simp_all add: pg_row_defs rt_simps)

interpretation accountTable: sql_table accountRowOf scanAccount arUuid acUUID pgAccountOk
  by unfold_locales (simp_all add: pg_row_defs rt_simps)

interpretation hashTable: sql_table hashArgs decodeHashData hrUuid hdUUID wf_hashdata
  by unfold_locales (simp_all add: pg_row_defs rt_simps)

text \<open>A metadata value is absent or a text that parses.\<close>

definition metaText :: "(string \<Rightarrow> ('e, 'a) outcome) \<Rightarrow> string \<Rightarrow> pg \<Rightarrow> 'a option" where
  "metaText parse key db = (case pgMetadata db of None \<Rightarrow> None | Some m \<Rightarrow>
     (case map_of m key of None \<Rightarrow> None | Some s \<Rightarrow> (case parse s of Ok x \<Rightarrow> Some x | _ \<Rightarrow> None)))"

definition metaOk :: "(string \<Rightarrow> ('e, 'a) outcome) \<Rightarrow> string \<Rightarrow> pg \<Rightarrow> bool" where
  "metaOk parse key db \<longleftrightarrow> (\<exists>m. pgMetadata db = Some m \<and> distinct_keys m \<and>
     (\<forall>s. map_of m key = Some s \<longrightarrow> (\<exists>x. parse s = Ok x)))"

definition pgAbs :: "pg \<Rightarrow> PoolDB" where
  "pgAbs db = \<lparr>tPayments = tabAbs prUuid scanPayment (pgPayments db), tArchive = tabAbs prUuid scanPayment (pgArchived db),
     tShares = tabAbs srUuid decodeShare (pgShares db), tWork = tabAbs wrUuid scanWork (pgWork db),
     tJobs = tabAbs jrUuid scanJob (pgJobs db), tAccounts = tabAbs arUuid scanAccount (pgAccounts db),
     tHashData = tabAbs hrUuid decodeHashData (pgHashData db),
     tMode = metaText scanTextUint32 ''poolmode'' db, tCSRF = metaText DecodeString ''csrfsecret'' db,
     tLastPaid = (case (metaText scanTextUint32 ''lastpaymentheight'' db, metaText scanTextInt64 ''lastpaymentpaidon'' db) of
       (Some height, Some paidOn) \<Rightarrow> Some (height, paidOn) | _ \<Rightarrow> None),
     tLastCreated = metaText scanTextInt64 ''lastpaymentcreatedon'' db\<rparr>"

definition pgInv :: "pg \<Rightarrow> bool" where
  "pgInv db \<longleftrightarrow> tabOk paymentRowOf pmUUID wf_payment (pgPayments db) \<and> tabOk paymentRowOf pmUUID wf_payment (pgArchived db) \<and>
     tabOk shareArgs shUUID wf_share (pgShares db) \<and> tabOk workArgs awUUID wf_work (pgWork db) \<and>
     tabOk jobRowOf jbUUID wf_job (pgJobs db) \<and> tabOk accountRowOf acUUID pgAccountOk (pgAccounts db) \<and>
     tabOk hashArgs hdUUID wf_hashdata (pgHashData db) \<and>
     metaOk scanTextUint32 ''poolmode'' db \<and> metaOk DecodeString ''csrfsecret'' db \<and>
     metaOk scanTextUint32 ''lastpaymentheight'' db \<and> metaOk scanTextInt64 ''lastpaymentpaidon'' db \<and>
     metaOk scanTextInt64 ''lastpaymentcreatedon'' db"

lemma metaText_upd [simp]:
  "metaText parse key (db\<lparr>pgPayments := t1\<rparr>) = metaText parse key db"
  "metaText parse key (db\<lparr>pgArchived := t1\<rparr>) = metaText parse key db"
  "metaText parse key (db\<lparr>pgShares := t2\<rparr>) = metaText parse key db"
  "metaText parse key (db\<lparr>pgWork := t3\<rparr>) = metaText parse key db"
  "metaText parse key (db\<lparr>pgJobs := t4\<rparr>) = metaText parse key db"
  "metaText parse key (db\<lparr>pgAccounts := t5\<rparr>) = metaText parse key db"
  "metaText parse key (db\<lparr>pgHashData := t6\<rparr>) = metaText parse key db"
  by (simp_all add: metaText_def)

lemma metaOk_upd [simp]:
  "metaOk parse key (db\<lparr>pgPayments := t1\<rparr>) = metaOk parse key db"
  "metaOk parse key (db\<lparr>pgArchived := t1\<rparr>) = metaOk parse key db"
  "metaOk parse key (db\<lparr>pgShares := t2\<rparr>) = metaOk parse key db"
  "metaOk parse key (db\<lparr>pgWork := t3\<rparr>) = metaOk parse key db"
  "metaOk parse key (db\<lparr>pgJobs := t4\<rparr>) = metaOk parse key db"
  "metaOk parse key (db\<lparr>pgAccounts := t5\<rparr>) = metaOk parse key db"
  "metaOk parse key (db\<lparr>pgHashData := t6\<rparr>) = metaOk parse key db"
  by (simp_all add: metaOk_def)

section \<open>Statements as the methods send them\<close>

lemma pgExec_writes:
  assumes "\<forall>name db. c name db = Answered"
    and "\<And>db. I db \<Longrightarrow> case pre (\<alpha> db) of
      None \<Rightarrow> \<exists>n db'. q db = Ok (n, db') \<and> I db' \<and> \<alpha> db' = upd (\<alpha> db)
    | Some k \<Rightarrow> \<exists>e. q db = Err e \<and> onErr e = DBError k"
  shows "writes \<alpha> I True (pgExec c name q onErr) pre upd"
  unfolding writes_def
proof (intro allI impI)
  fix db r db'
  assume "I db" and op: "pgExec c name q onErr db = (r, db')"
  then show "I db' \<and> (case r of Ok _ \<Rightarrow> pre (\<alpha> db) = None \<and> \<alpha> db' = upd (\<alpha> db)
      | Err e \<Rightarrow> db' = db \<and> (\<forall>k. pre (\<alpha> db) = Some k \<longrightarrow> e = DBError k) \<and> (True \<longrightarrow> pre (\<alpha> db) \<noteq> None) | Panic \<Rightarrow> False)"
    using assms(2)[of db] assms(1) by (cases "pre (\<alpha> db)") (auto simp: pgExec_def send_stmt_def server_after_def)
qed

text \<open>A table of the pool: how its statements read and change the database it abstracts to.\<close>

locale pg_table = sql_table enc dec key uid V
  for enc :: "'a \<Rightarrow> 'r" and dec :: "'r \<Rightarrow> ('e, 'a) outcome" and key :: "'r \<Rightarrow> string" and uid :: "'a \<Rightarrow> string"
    and V :: "'a \<Rightarrow> bool" +
  fixes get :: "pg \<Rightarrow> 'r list option" and upd :: "'r list option \<Rightarrow> pg \<Rightarrow> pg"
    and aget :: "PoolDB \<Rightarrow> (string \<rightharpoonup> 'a)" and aupd :: "(string \<rightharpoonup> 'a) \<Rightarrow> PoolDB \<Rightarrow> PoolDB"
  assumes inv_get: "pgInv db \<Longrightarrow> tabOk enc uid V (get db)"
    and inv_upd: "pgInv db \<Longrightarrow> tabOk enc uid V t \<Longrightarrow> pgInv (upd t db)"
    and abs_get: "tabAbs key dec (get db) = aget (pgAbs db)"
    and abs_upd: "pgAbs (upd t db) = aupd (tabAbs key dec t) (pgAbs db)"
    and upd_same: "upd (get db) db = db"
begin

lemma valid: "pgInv db \<Longrightarrow> aget (pgAbs db) k = Some x \<Longrightarrow> uid x = k \<and> V x"
  using tab_valid[OF inv_get, of db] by (simp add: abs_get)

lemma read_key:
  assumes "\<forall>name db. c name db = Answered" "pgInv db"
  shows "queryRow c name (\<lambda>db. sqlSelect (get db) (\<lambda>r. key r = k)) scan kind db =
    (case aget (pgAbs db) k of None \<Rightarrow> Err (DBError ValueNotFound) | Some x \<Rightarrow> scanOr kind (scan (enc x)))"
  using assms by (auto simp: queryRow_def send_stmt_def server_after_def select_key[OF inv_get] abs_get scanOr_def split: option.split outcome.split)

lemma read_rows:
  assumes "\<forall>name db. c name db = Answered" "pgInv db"
  shows "\<exists>xs. queryRows c name (\<lambda>db. sqlSelect (get db) P) decode db = decode False (map enc xs) \<and> (\<forall>x \<in> set xs. V x) \<and>
    distinct (map uid xs) \<and> lists_rows (aget (pgAbs db)) (\<lambda>x. P (enc x)) xs \<and>
    filed uid xs = (\<lambda>k. case aget (pgAbs db) k of Some x \<Rightarrow> if P (enc x) then Some x else None | None \<Rightarrow> None)"
  using select_rows[OF inv_get[OF assms(2)], of P] assms(1) by (auto simp: queryRows_def send_stmt_def server_after_def abs_get)

lemma read_sorted:
  assumes "\<forall>name db. c name db = Answered" "pgInv db"
  shows "\<exists>xs. queryRows c name (\<lambda>db. bnd (table (get db)) (\<lambda>rs. Ok (sort_key f rs))) decode db = decode False (map enc xs) \<and>
    (\<forall>x \<in> set xs. V x) \<and> lists_rows (aget (pgAbs db)) (\<lambda>_. True) xs"
  using select_sorted[OF inv_get[OF assms(2)], of f] assms(1) by (auto simp: queryRows_def send_stmt_def server_after_def abs_get)

lemma list_rows:
  assumes "\<forall>name db. c name db = Answered" "pgInv db" "\<And>xs. \<forall>x \<in> set xs. V x \<Longrightarrow> decode False (map enc xs) = Ok xs"
  shows "\<exists>xs. queryRows c name (\<lambda>db. sqlSelect (get db) P) decode db = Ok xs \<and> lists_rows (aget (pgAbs db)) (\<lambda>x. P (enc x)) xs"
    and "\<exists>xs. queryRows c name (\<lambda>db. bnd (table (get db)) (\<lambda>rs. Ok (sort_key f rs))) decode db = Ok xs \<and>
      lists_rows (aget (pgAbs db)) (\<lambda>_. True) xs"
  using read_rows[OF assms(1,2), of name P decode] read_sorted[OF assms(1,2), of name f decode] assms(3) by fastforce+

lemma insert_writes:
  assumes "\<forall>name db. c name db = Answered" "V x"
  shows "writes pgAbs pgInv True (pgExec c name (\<lambda>db. bnd (sqlInsert key (enc x) (get db)) (\<lambda>(n, t). Ok (n, upd t db))) onInsert)
    (\<lambda>s. absent (aget s (uid x))) (\<lambda>s. aupd ((aget s)(uid x \<mapsto> x)) s)"
proof (rule pgExec_writes[OF assms(1)])
  fix db
  assume i: "pgInv db"
  show "case absent (aget (pgAbs db) (uid x)) of
      None \<Rightarrow> \<exists>n db'. bnd (sqlInsert key (enc x) (get db)) (\<lambda>(n, t). Ok (n, upd t db)) = Ok (n, db') \<and> pgInv db' \<and>
        pgAbs db' = aupd ((aget (pgAbs db))(uid x \<mapsto> x)) (pgAbs db)
    | Some k \<Rightarrow> \<exists>e. bnd (sqlInsert key (enc x) (get db)) (\<lambda>(n, t). Ok (n, upd t db)) = Err e \<and> onInsert e = DBError k"
    using insert_row[OF inv_get[OF i] assms(2)] inv_upd[OF i]
    by (auto simp: abs_get abs_upd absent_def onInsert_def split: if_splits)
qed

lemma delete_writes:
  assumes "\<forall>name db. c name db = Answered"
  shows "writes pgAbs pgInv True (pgExec c name (\<lambda>db. bnd (sqlDelete P (get db)) (\<lambda>(n, t). Ok (n, upd t db))) onErr) (\<lambda>_. None)
    (\<lambda>s. aupd (\<lambda>k. case aget s k of Some x \<Rightarrow> if P (enc x) then None else Some x | None \<Rightarrow> None) s)"
proof (rule pgExec_writes[OF assms], unfold option.case)
  fix db
  assume i: "pgInv db"
  show "\<exists>n db'. bnd (sqlDelete P (get db)) (\<lambda>(n, t). Ok (n, upd t db)) = Ok (n, db') \<and> pgInv db' \<and> pgAbs db' =
      aupd (\<lambda>k. case aget (pgAbs db) k of Some x \<Rightarrow> if P (enc x) then None else Some x | None \<Rightarrow> None) (pgAbs db)"
    using delete_rows[OF inv_get[OF i], of P] inv_upd[OF i] by (auto simp: abs_get abs_upd)
qed

lemma delete_key_writes:
  assumes "\<forall>name db. c name db = Answered"
  shows "writes pgAbs pgInv True (pgExec c name (\<lambda>db. bnd (sqlDelete (\<lambda>r. key r = k) (get db)) (\<lambda>(n, t). Ok (n, upd t db))) onErr)
    (\<lambda>_. None) (\<lambda>s. aupd ((aget s)(k := None)) s)"
proof (rule pgExec_writes[OF assms], unfold option.case)
  fix db
  assume i: "pgInv db"
  show "\<exists>n db'. bnd (sqlDelete (\<lambda>r. key r = k) (get db)) (\<lambda>(n, t). Ok (n, upd t db)) = Ok (n, db') \<and> pgInv db' \<and>
      pgAbs db' = aupd ((aget (pgAbs db))(k := None)) (pgAbs db)"
    using delete_key[OF inv_get[OF i], of k] inv_upd[OF i] by (auto simp: abs_get abs_upd)
qed

lemma update_writes:
  assumes "\<forall>name db. c name db = Answered" "V x" "\<And>r. key r = uid x \<Longrightarrow> f r = enc x"
  shows "writes pgAbs pgInv True (pgUpdate c name (\<lambda>db. bnd (sqlUpdate (\<lambda>r. key r = uid x) f (get db)) (\<lambda>(n, t). Ok (n, upd t db))))
    (\<lambda>s. present (aget s (uid x))) (\<lambda>s. aupd ((aget s)(uid x \<mapsto> x)) s)"
  unfolding writes_def
proof (intro allI impI)
  fix db r db'
  assume i: "pgInv db" and op: "pgUpdate c name (\<lambda>db. bnd (sqlUpdate (\<lambda>r. key r = uid x) f (get db)) (\<lambda>(n, t). Ok (n, upd t db))) db = (r, db')"
  obtain n t where u: "sqlUpdate (\<lambda>r. key r = uid x) f (get db) = Ok (n, t)" "tabOk enc uid V t"
      "n = 0 \<longleftrightarrow> aget (pgAbs db) (uid x) = None" "n = 0 \<longrightarrow> t = get db"
      "n \<noteq> 0 \<longrightarrow> tabAbs key dec t = (aget (pgAbs db))(uid x \<mapsto> x)"
    using update_row[OF inv_get[OF i] assms(2), of f, OF assms(3)] by (auto simp: abs_get)
  have "r = (if n = 0 then Err (DBError ValueNotFound) else Ok ())" "db' = upd t db"
    using op assms(1) by (auto simp: pgUpdate_def send_stmt_def server_after_def u(1))
  then show "pgInv db' \<and> (case r of Ok _ \<Rightarrow> present (aget (pgAbs db) (uid x)) = None \<and>
        pgAbs db' = aupd ((aget (pgAbs db))(uid x \<mapsto> x)) (pgAbs db)
      | Err e \<Rightarrow> db' = db \<and> (\<forall>k. present (aget (pgAbs db) (uid x)) = Some k \<longrightarrow> e = DBError k) \<and>
        (True \<longrightarrow> present (aget (pgAbs db) (uid x)) \<noteq> None) | Panic \<Rightarrow> False)"
    using u inv_upd[OF i u(2)] by (cases "n = 0") (auto simp: present_def abs_upd upd_same)
qed

end

lemmas pgInvAbs = pgInv_def pgAbs_def

interpretation payments: pg_table paymentRowOf scanPayment prUuid pmUUID wf_payment
  pgPayments "\<lambda>t db. db\<lparr>pgPayments := t\<rparr>" tPayments "\<lambda>m s. s\<lparr>tPayments := m\<rparr>"
  by unfold_locales (simp_all add: pgInvAbs)

interpretation archive: pg_table paymentRowOf scanPayment prUuid pmUUID wf_payment
  pgArchived "\<lambda>t db. db\<lparr>pgArchived := t\<rparr>" tArchive "\<lambda>m s. s\<lparr>tArchive := m\<rparr>"
  by unfold_locales (simp_all add: pgInvAbs)

interpretation shares: pg_table shareArgs decodeShare srUuid shUUID wf_share
  pgShares "\<lambda>t db. db\<lparr>pgShares := t\<rparr>" tShares "\<lambda>m s. s\<lparr>tShares := m\<rparr>"
  by unfold_locales (simp_all add: pgInvAbs)

interpretation work: pg_table workArgs scanWork wrUuid awUUID wf_work
  pgWork "\<lambda>t db. db\<lparr>pgWork := t\<rparr>" tWork "\<lambda>m s. s\<lparr>tWork := m\<rparr>"
  by unfold_locales (simp_all add: pgInvAbs)

interpretation jobs: pg_table jobRowOf scanJob jrUuid jbUUID wf_job
  pgJobs "\<lambda>t db. db\<lparr>pgJobs := t\<rparr>" tJobs "\<lambda>m s. s\<lparr>tJobs := m\<rparr>"
  by unfold_locales (simp_all add: pgInvAbs)

interpretation accounts: pg_table accountRowOf scanAccount arUuid acUUID pgAccountOk
  pgAccounts "\<lambda>t db. db\<lparr>pgAccounts := t\<rparr>" tAccounts "\<lambda>m s. s\<lparr>tAccounts := m\<rparr>"
  by unfold_locales (simp_all add: pgInvAbs)

interpretation hashData: pg_table hashArgs decodeHashData hrUuid hdUUID wf_hashdata
  pgHashData "\<lambda>t db. db\<lparr>pgHashData := t\<rparr>" tHashData "\<lambda>m s. s\<lparr>tHashData := m\<rparr>"
  by unfold_locales (simp_all add: pgInvAbs)

section \<open>Metadata\<close>

lemma filter_fst: "distinct_keys m \<Longrightarrow> filter (\<lambda>r. fst r = k) m = (case map_of m k of None \<Rightarrow> [] | Some v \<Rightarrow> [(k, v)])"
proof (induction m)
  case (Cons p m)
  obtain k' v where p: "p = (k', v)" by (cases p)
  have "filter (\<lambda>r. fst r = k') m = []" using Cons.prems by (force simp: filter_empty_conv Prelude.keys_def p)
  then show ?case using Cons p by auto
qed simp

lemma meta_read:
  assumes "\<forall>name db. c name db = Answered" "metaOk parse key db"
  shows "queryRow c name (selectValue key) parse kind db = found (metaText parse key db)"
proof -
  obtain m where m: "pgMetadata db = Some m" "distinct_keys m" "\<forall>s. map_of m key = Some s \<longrightarrow> (\<exists>x. parse s = Ok x)"
    using assms(2) by (auto simp: metaOk_def)
  show ?thesis using m(1,3) assms(1) filter_fst[OF m(2), of key]
    by (auto simp: queryRow_def send_stmt_def server_after_def selectValue_def sqlSelect_def table_def metaText_def found_def split: option.split)
qed

lemma metaText_put: "pgMetadata db = Some m \<Longrightarrow> metaText parse key' (db\<lparr>pgMetadata := Some (put key v m)\<rparr>) =
    (if key' = key then (case parse v of Ok x \<Rightarrow> Some x | _ \<Rightarrow> None) else metaText parse key' db)"
  by (simp add: metaText_def)

lemma metaOk_put: "pgMetadata db = Some m \<Longrightarrow> metaOk parse key' db \<Longrightarrow> key' = key \<longrightarrow> (\<exists>x. parse v = Ok x) \<Longrightarrow>
    metaOk parse key' (db\<lparr>pgMetadata := Some (put key v m)\<rparr>)"
  by (auto simp: metaOk_def)

lemma metadata_table: "pgInv db \<Longrightarrow> \<exists>m. pgMetadata db = Some m"
  by (auto simp: pgInv_def metaOk_def)

lemma meta_writes:
  assumes "\<forall>name db. c name db = Answered"
    and "\<And>db m. pgInv db \<Longrightarrow> pgMetadata db = Some m \<Longrightarrow> pgInv (db\<lparr>pgMetadata := Some (put key v m)\<rparr>) \<and>
      pgAbs (db\<lparr>pgMetadata := Some (put key v m)\<rparr>) = upd (pgAbs db)"
  shows "writes pgAbs pgInv True (pgExec c name (insertValue key v) onErr) (\<lambda>_. None) upd"
proof (rule pgExec_writes[OF assms(1)], unfold option.case)
  fix db
  assume i: "pgInv db"
  then show "\<exists>n db'. insertValue key v db = Ok (n, db') \<and> pgInv db' \<and> pgAbs db' = upd (pgAbs db)"
    using metadata_table[OF i] assms(2)[OF i] by (auto simp: insertValue_def table_def)
qed

end
