(* ===== verification/PostgresTheorems.thy ===== *)
theory PostgresTheorems
  imports PostgresProps
begin

text \<open>
  What the postgres database promises. On a connection that is up it keeps every law it shares with
  the bolt database; whatever the connection does, a write that fails leaves the tables as
  they were. Its payments are keyed strictly, where bolt overwrites.
\<close>

section \<open>The shared laws\<close>

lemmas pg_meta_defs = pg_fetchPoolMode_def pg_persistPoolMode_def pg_fetchCSRFSecret_def pg_persistCSRFSecret_def
  pg_persistLastPaymentInfo_def pg_loadLastPaymentInfo_def pg_persistLastPaymentCreatedOn_def pg_loadLastPaymentCreatedOn_def
  sql_selectPoolMode_def sql_insertPoolMode_def sql_selectCSRFSecret_def sql_insertCSRFSecret_def
  sql_selectLastPaymentHeight_def sql_insertLastPaymentHeight_def sql_selectLastPaymentPaidOn_def
  sql_insertLastPaymentPaidOn_def sql_selectLastPaymentCreatedOn_def sql_insertLastPaymentCreatedOn_def

lemma pg_meta_writes:
  assumes "\<forall>name db. c name db = Answered"
  shows "writes pgAbs pgInv True (pg_persistPoolMode c mode) (\<lambda>_. None) (\<lambda>s. s\<lparr>tMode := Some mode\<rparr>)"
    and "writes pgAbs pgInv True (pg_persistCSRFSecret c secret) (\<lambda>_. None) (\<lambda>s. s\<lparr>tCSRF := Some secret\<rparr>)"
    and "writes pgAbs pgInv True (pg_persistLastPaymentCreatedOn c createdOn) (\<lambda>_. None) (\<lambda>s. s\<lparr>tLastCreated := Some createdOn\<rparr>)"
  unfolding pg_meta_defs
  by (rule meta_writes[OF assms]; simp add: pgInvAbs metaText_put metaOk_put rt_simps)+

lemma pg_meta_reads:
  assumes "\<forall>name db. c name db = Answered" "pgInv db"
  shows "pg_fetchPoolMode c db = found (tMode (pgAbs db))"
    and "pg_loadLastPaymentInfo c db = found (tLastPaid (pgAbs db))"
    and "pg_loadLastPaymentCreatedOn c db = found (tLastCreated (pgAbs db))"
  unfolding pg_meta_defs using assms(2)
  by (auto simp: pgInvAbs meta_read[OF assms(1)] found_def split: option.split)

lemma pg_csrf_read:
  assumes "\<forall>name db. c name db = Answered" "pgInv db"
  shows "pg_fetchCSRFSecret c db = found (tCSRF (pgAbs db))"
proof -
  have ok: "metaOk (Ok :: string \<Rightarrow> string sql) ''csrfsecret'' db" "metaOk DecodeString ''csrfsecret'' db"
    using assms(2) by (auto simp: pgInv_def metaOk_def)
  show ?thesis using ok(2) unfolding pg_meta_defs meta_read[OF assms(1) ok(1)]
    by (auto simp: pgAbs_def metaText_def metaOk_def found_def split: option.split)
qed

lemma pg_lastPayment_writes:
  assumes "\<forall>name db. c name db = Answered"
  shows "writes pgAbs pgInv True (pg_persistLastPaymentInfo c height paidOn) (\<lambda>_. None)
    (\<lambda>s. s\<lparr>tLastPaid := Some (height, paidOn)\<rparr>)"
  unfolding writes_def
proof (intro allI impI)
  fix db r db'
  assume i: "pgInv db" and op: "pg_persistLastPaymentInfo c height paidOn db = (r, db')"
  obtain m where m: "pgMetadata db = Some m" using metadata_table[OF i] by blast
  define m1 where "m1 = put ''lastpaymentheight'' (show_nat (unat height)) m"
  define db1 where "db1 = db\<lparr>pgMetadata := Some m1\<rparr>"
  let ?db2 = "db1\<lparr>pgMetadata := Some (put ''lastpaymentpaidon'' (show_int (sint paidOn)) m1)\<rparr>"
  have m1: "pgMetadata db1 = Some m1" by (simp add: db1_def)
  have "r = Ok ()" "db' = ?db2"
    using op m assms by (auto simp: pg_meta_defs send_stmt_def server_after_def insertValue_def table_def db1_def m1_def)
  moreover have i1: "pgInv db1" using i by (simp add: pgInv_def db1_def m1_def metaOk_put[OF m] rt_simps)
  moreover have "pgInv ?db2" using i1 by (simp add: pgInv_def metaOk_put[OF m1] rt_simps)
  moreover have "pgAbs ?db2 = (pgAbs db1)\<lparr>tLastPaid := Some (height, paidOn)\<rparr>"
    by (simp add: pgAbs_def metaText_put[OF m1] rt_simps) (simp add: db1_def m1_def metaText_put[OF m] rt_simps)
  moreover have "(pgAbs db1)\<lparr>tLastPaid := x\<rparr> = (pgAbs db)\<lparr>tLastPaid := x\<rparr>" for x
    by (simp add: pgAbs_def db1_def m1_def metaText_put[OF m])
  ultimately show "pgInv db' \<and> (case r of Ok _ \<Rightarrow> None = None \<and> pgAbs db' = (pgAbs db)\<lparr>tLastPaid := Some (height, paidOn)\<rparr>
      | Err e \<Rightarrow> db' = db \<and> (\<forall>k. None = Some k \<longrightarrow> e = DBError k) \<and> (True \<longrightarrow> None \<noteq> None) | Panic \<Rightarrow> False)"
    by simp
qed

text \<open>Rows read back.\<close>

lemma scanOr_Ok [simp]: "scanOr kind (Ok x) = Ok x"
  by (simp add: scanOr_def)

lemma decoded_rows:
  shows "\<forall>p \<in> set ps. wf_payment p \<Longrightarrow> decodePaymentRows False (map paymentRowOf ps) = Ok ps"
    and "\<forall>w \<in> set ws. wf_work w \<Longrightarrow> decodeWorkRows False (map workArgs ws) = Ok ws"
    and "\<forall>s \<in> set ss. wf_share s \<Longrightarrow> decodeShareRows False (map shareArgs ss) = Ok ss"
  unfolding decodePaymentRows_def decodeWorkRows_def decodeShareRows_def rowsDone_def
  by (simp_all add: decode_rows paymentTable.dec_enc workTable.dec_enc shareTable.dec_enc)

lemma decoded_hash_rows:
  assumes "\<forall>d \<in> set ds. wf_hashdata d" "distinct (map hdUUID ds)"
  shows "\<exists>m. decodeHashDataRows False (map hashArgs ds) = Ok m \<and> distinct_keys m \<and> map_of m = filed hdUUID ds"
proof -
  have "\<exists>m'. foldo (\<lambda>r toReturn. bnd (decodeHashData r) (\<lambda>d. Ok (put (hdUUID d) d toReturn))) (map hashArgs ds) m = Ok m' \<and>
      distinct_keys m' \<and> (\<forall>k. map_of m' k = (case filed hdUUID ds k of None \<Rightarrow> map_of m k | Some d \<Rightarrow> Some d))"
    if "distinct_keys m" for m
    using assms that
  proof (induction ds arbitrary: m)
    case (Cons d ds)
    have "filed hdUUID ds (hdUUID d) = None" using Cons.prems(2) by (simp add: filed_None)
    then show ?case using Cons.IH[of "put (hdUUID d) d m"] Cons.prems by (fastforce simp: hashTable.dec_enc split: option.split)
  qed simp
  note rows = this[of "[]"]
  have same: "(case x of None \<Rightarrow> map_of [] k | Some d \<Rightarrow> Some d) = x" for x :: "HashData option" and k :: string
    by (cases x) simp_all
  show ?thesis using rows unfolding same by (auto simp: decodeHashDataRows_def rowsDone_def fun_eq_iff)
qed

lemmas pg_fetch_defs = pg_fetchAccount_def pg_fetchPayment_def pg_fetchShare_def pg_fetchAcceptedWork_def pg_fetchJob_def
  pg_fetchHashData_def sql_selectAccount_def sql_selectPayment_def sql_selectShare_def sql_selectAcceptedWork_def
  sql_selectJob_def sql_selectHashData_def

lemma pg_fetches:
  assumes c: "\<forall>name db. c name db = Answered" and i: "pgInv db"
  shows "pg_fetchAccount c uuid db = found (tAccounts (pgAbs db) uuid)"
    and "pg_fetchPayment c uuid db = found (tPayments (pgAbs db) uuid)"
    and "pg_fetchShare c uuid db = found (tShares (pgAbs db) uuid)"
    and "pg_fetchAcceptedWork c uuid db = found (tWork (pgAbs db) uuid)"
    and "pg_fetchJob c uuid db = found (tJobs (pgAbs db) uuid)"
    and "pg_fetchHashData c uuid db = found (tHashData (pgAbs db) uuid)"
  unfolding pg_fetch_defs scanAccount_def[symmetric] scanJob_def[symmetric]
  using accounts.valid[OF i, of uuid] payments.valid[OF i, of uuid] shares.valid[OF i, of uuid] work.valid[OF i, of uuid]
    jobs.valid[OF i, of uuid] hashData.valid[OF i, of uuid]
  by (auto simp: accounts.read_key[OF c i] payments.read_key[OF c i] shares.read_key[OF c i] work.read_key[OF c i]
      jobs.read_key[OF c i] hashData.read_key[OF c i] accountTable.dec_enc paymentTable.dec_enc shareTable.dec_enc
      workTable.dec_enc jobTable.dec_enc hashTable.dec_enc found_def split: option.split)

lemma row_columns [simp]: "wrUuid (workArgs w) = awUUID w" "hrUuid (hashArgs d) = hdUUID d" "jrHeight (jobRowOf b) = uint (jbHeight b)"
  "hrUpdatedOn (hashArgs d) = sint (hdUpdatedOn d)"
  by (simp_all add: workArgs_def hashArgs_def jobRowOf_def)

lemmas pg_list_defs = pg_fetchPendingPayments_def pg_archivedPayments_def pg_listMinedWork_def pg_fetchUnconfirmedWork_def
  pg_listHashData_def sql_selectPendingPayments_def[abs_def] sql_selectArchivedPayments_def[abs_def] sql_selectMinedWork_def[abs_def]
  sql_selectUnconfirmedWork_def[abs_def] sql_listHashData_def[abs_def]

lemma pg_lists:
  assumes c: "\<forall>name db. c name db = Answered" and i: "pgInv db"
  shows "\<exists>ps. pg_fetchPendingPayments c db = Ok ps \<and> lists_rows (tPayments (pgAbs db)) pm_pending ps"
    and "\<exists>ps. pg_archivedPayments c db = Ok ps \<and> lists_rows (tArchive (pgAbs db)) (\<lambda>_. True) ps"
    and "\<exists>ws. pg_listMinedWork c db = Ok ws \<and> lists_rows (tWork (pgAbs db)) (\<lambda>_. True) ws"
    and "\<exists>ws. pg_fetchUnconfirmedWork c height db = Ok ws \<and>
      lists_rows (tWork (pgAbs db)) (\<lambda>w. awHeight w < height \<and> \<not> awConfirmed w) ws"
proof -
  have p: "pm_pending = (\<lambda>p. prPaidOnHeight (paymentRowOf p) = 0)" by (simp add: fun_eq_iff paymentRowOf_def pm_pending_def uint_0_iff)
  have w: "(\<lambda>w. awHeight w < height \<and> \<not> awConfirmed w) = (\<lambda>w. uint height > wrHeight (workArgs w) \<and> wrConfirmed (workArgs w) = False)"
    by (simp add: fun_eq_iff workArgs_def word_less_def)
  show "\<exists>ps. pg_fetchPendingPayments c db = Ok ps \<and> lists_rows (tPayments (pgAbs db)) pm_pending ps"
    unfolding pg_list_defs p by (rule payments.list_rows(1)[OF c i]) (rule decoded_rows(1))
  show "\<exists>ps. pg_archivedPayments c db = Ok ps \<and> lists_rows (tArchive (pgAbs db)) (\<lambda>_. True) ps"
    unfolding pg_list_defs by (rule archive.list_rows(2)[OF c i]) (rule decoded_rows(1))
  show "\<exists>ws. pg_listMinedWork c db = Ok ws \<and> lists_rows (tWork (pgAbs db)) (\<lambda>_. True) ws"
    unfolding pg_list_defs by (rule work.list_rows(2)[OF c i]) (rule decoded_rows(2))
  show "\<exists>ws. pg_fetchUnconfirmedWork c height db = Ok ws \<and>
      lists_rows (tWork (pgAbs db)) (\<lambda>w. awHeight w < height \<and> \<not> awConfirmed w) ws"
    unfolding pg_list_defs w by (rule work.list_rows(1)[OF c i]) (rule decoded_rows(2))
qed

lemma pg_listHashData_law:
  assumes c: "\<forall>name db. c name db = Answered" and i: "pgInv db"
  shows "\<exists>m. pg_listHashData c t db = Ok m \<and> distinct_keys m \<and> (\<forall>k. map_of m k = (case tHashData (pgAbs db) k of
    Some d \<Rightarrow> if sint t < sint (hdUpdatedOn d) then Some d else None | None \<Rightarrow> None))"
proof -
  obtain ds where "pg_listHashData c t db = decodeHashDataRows False (map hashArgs ds)" "\<forall>d \<in> set ds. wf_hashdata d"
    "distinct (map hdUUID ds)" "filed hdUUID ds = (\<lambda>k. case tHashData (pgAbs db) k of
      Some d \<Rightarrow> if sint t < sint (hdUpdatedOn d) then Some d else None | None \<Rightarrow> None)"
    using hashData.read_rows[OF c i, of _ "\<lambda>r. hrUpdatedOn r > sint t" decodeHashDataRows]
    unfolding pg_list_defs row_columns by blast
  then show ?thesis using decoded_hash_rows[of ds] by (auto simp: fun_eq_iff)
qed

lemmas pg_write_defs = pg_deleteAccount_def pg_deletePayment_def pg_PersistShare_def pg_persistAcceptedWork_def
  pg_updateAcceptedWork_def pg_deleteAcceptedWork_def pg_persistJob_def pg_deleteJob_def pg_deleteJobsBeforeHeight_def
  pg_persistHashData_def pg_updateHashData_def pg_pruneHashData_def jobRowOf_def[symmetric]

lemmas sql_write_defs = sql_deleteAccount_def[abs_def] sql_deletePayment_def[abs_def] sql_insertShare_def[abs_def]
  sql_insertAcceptedWork_def[abs_def] sql_updateAcceptedWork_def[abs_def] sql_deleteAcceptedWork_def[abs_def]
  sql_insertJob_def[abs_def] sql_deleteJob_def[abs_def] sql_deleteJobBeforeHeight_def[abs_def]
  sql_insertHashData_def[abs_def] sql_updateHashData_def[abs_def] sql_pruneHashData_def[abs_def]

lemma pg_inserts:
  assumes c: "\<forall>name db. c name db = Answered"
  shows "wf_share sh \<Longrightarrow> writes pgAbs pgInv True (pg_PersistShare c sh) (\<lambda>s. absent (tShares s (shUUID sh)))
      (\<lambda>s. s\<lparr>tShares := (tShares s)(shUUID sh \<mapsto> sh)\<rparr>)"
    and "wf_work w \<Longrightarrow> writes pgAbs pgInv True (pg_persistAcceptedWork c w) (\<lambda>s. absent (tWork s (awUUID w)))
      (\<lambda>s. s\<lparr>tWork := (tWork s)(awUUID w \<mapsto> w)\<rparr>)"
    and "wf_job b \<Longrightarrow> writes pgAbs pgInv True (pg_persistJob c b) (\<lambda>s. absent (tJobs s (jbUUID b)))
      (\<lambda>s. s\<lparr>tJobs := (tJobs s)(jbUUID b \<mapsto> b)\<rparr>)"
    and "wf_hashdata d \<Longrightarrow> writes pgAbs pgInv True (pg_persistHashData c d) (\<lambda>s. absent (tHashData s (hdUUID d)))
      (\<lambda>s. s\<lparr>tHashData := (tHashData s)(hdUUID d \<mapsto> d)\<rparr>)"
  unfolding pg_write_defs sql_write_defs
  by (rule shares.insert_writes[OF c] work.insert_writes[OF c] jobs.insert_writes[OF c] hashData.insert_writes[OF c]; assumption)+

lemma pg_deletes:
  assumes c: "\<forall>name db. c name db = Answered"
  shows "writes pgAbs pgInv True (pg_deleteAccount c uuid) (\<lambda>_. None) (\<lambda>s. s\<lparr>tAccounts := (tAccounts s)(uuid := None)\<rparr>)"
    and "writes pgAbs pgInv True (pg_deletePayment c uuid) (\<lambda>_. None) (\<lambda>s. s\<lparr>tPayments := (tPayments s)(uuid := None)\<rparr>)"
    and "writes pgAbs pgInv True (pg_deleteAcceptedWork c uuid) (\<lambda>_. None) (\<lambda>s. s\<lparr>tWork := (tWork s)(uuid := None)\<rparr>)"
    and "writes pgAbs pgInv True (pg_deleteJob c uuid) (\<lambda>_. None) (\<lambda>s. s\<lparr>tJobs := (tJobs s)(uuid := None)\<rparr>)"
  unfolding pg_write_defs sql_write_defs
  by (rule accounts.delete_key_writes[OF c] payments.delete_key_writes[OF c] work.delete_key_writes[OF c] jobs.delete_key_writes[OF c])+

lemma pg_prunes:
  assumes c: "\<forall>name db. c name db = Answered"
  shows "writes pgAbs pgInv True (pg_deleteJobsBeforeHeight c height) (\<lambda>_. None) (\<lambda>s. s\<lparr>tJobs := (\<lambda>k. case tJobs s k of
      Some b \<Rightarrow> if jbHeight b < height then None else Some b | None \<Rightarrow> None)\<rparr>)"
    and "writes pgAbs pgInv True (pg_pruneHashData c t) (\<lambda>_. None) (\<lambda>s. s\<lparr>tHashData := (\<lambda>k. case tHashData s k of
      Some d \<Rightarrow> if sint (hdUpdatedOn d) < sint t then None else Some d | None \<Rightarrow> None)\<rparr>)"
  unfolding pg_write_defs sql_write_defs word_less_def row_columns(3,4)[symmetric]
  by (rule jobs.delete_writes[OF c] hashData.delete_writes[OF c])+

lemma pg_updates:
  assumes c: "\<forall>name db. c name db = Answered"
  shows "wf_work w \<Longrightarrow> writes pgAbs pgInv True (pg_updateAcceptedWork c w) (\<lambda>s. present (tWork s (awUUID w)))
      (\<lambda>s. s\<lparr>tWork := (tWork s)(awUUID w \<mapsto> w)\<rparr>)"
    and "wf_hashdata d \<Longrightarrow> writes pgAbs pgInv True (pg_updateHashData c d) (\<lambda>s. present (tHashData s (hdUUID d)))
      (\<lambda>s. s\<lparr>tHashData := (tHashData s)(hdUUID d \<mapsto> d)\<rparr>)"
  unfolding pg_write_defs sql_write_defs row_columns
  by (rule work.update_writes[OF c] hashData.update_writes[OF c]; simp add: workArgs_def hashArgs_def)+

lemma postgres_contract:
  assumes c: "\<forall>name db. c name db = Answered"
  shows "database_common (PostgresDatabase c) pgAbs pgInv True"
proof unfold_locales
qed (simp_all add: PostgresDatabase_def pg_meta_reads[OF c] pg_csrf_read[OF c] pg_meta_writes[OF c] pg_lastPayment_writes[OF c]
    pg_fetches[OF c] pg_lists[OF c] pg_listHashData_law[OF c] pg_inserts[OF c] pg_deletes[OF c] pg_prunes[OF c] pg_updates[OF c]
    payments.valid work.valid shares.valid hashData.valid)

section \<open>Payments and shares\<close>

lemma pg_PersistPayment_law:
  assumes c: "\<forall>name db. c name db = Answered" and p: "wf_payment p"
  shows "writes pgAbs pgInv True (pg_PersistPayment c p) (\<lambda>s. absent (tPayments s (pmUUID p)))
    (\<lambda>s. s\<lparr>tPayments := (tPayments s)(pmUUID p \<mapsto> p)\<rparr>)"
proof -
  have "pg_PersistPayment c p = pgExec c ''insertPayment'' (sql_insertPayment (paymentRowOf p)) onInsert"
    by (simp add: fun_eq_iff pg_PersistPayment_def withRow_def paymentArgs_eq[OF p])
  then show ?thesis using payments.insert_writes[OF c p] by (simp add: sql_insertPayment_def[abs_def])
qed

lemma pg_updatePayment_law:
  assumes c: "\<forall>name db. c name db = Answered" and p: "wf_payment p"
  shows "writes pgAbs pgInv True (pg_updatePayment c p) (\<lambda>_. None)
    (\<lambda>s. if tPayments s (pmUUID p) = None then s else s\<lparr>tPayments := (tPayments s)(pmUUID p \<mapsto> p)\<rparr>)"
proof -
  have "pg_updatePayment c p = pgExec c ''updatePayment'' (sql_updatePayment (paymentRowOf p)) (\<lambda>_. DBError PersistEntry)"
    by (simp add: fun_eq_iff pg_updatePayment_def withRow_def paymentArgs_eq[OF p])
  moreover have "writes pgAbs pgInv True (pgExec c ''updatePayment'' (sql_updatePayment (paymentRowOf p)) (\<lambda>_. DBError PersistEntry))
      (\<lambda>_. None) (\<lambda>s. if tPayments s (pmUUID p) = None then s else s\<lparr>tPayments := (tPayments s)(pmUUID p \<mapsto> p)\<rparr>)"
  proof (rule pgExec_writes[OF c], unfold option.case)
    fix db
    assume i: "pgInv db"
    have same: "prUuid r = pmUUID p \<Longrightarrow> (paymentRowOf p)\<lparr>prUuid := prUuid r\<rparr> = paymentRowOf p" for r :: paymentRow
      by (simp add: paymentRowOf_def)
    have "\<exists>n t. sqlUpdate (\<lambda>r. prUuid r = pmUUID p) (\<lambda>r. (paymentRowOf p)\<lparr>prUuid := prUuid r\<rparr>) (pgPayments db) = Ok (n, t) \<and>
        tabOk paymentRowOf pmUUID wf_payment t \<and> (n = 0 \<longleftrightarrow> tPayments (pgAbs db) (pmUUID p) = None) \<and> (n = 0 \<longrightarrow> t = pgPayments db) \<and>
        (n \<noteq> 0 \<longrightarrow> tabAbs prUuid scanPayment t = (tPayments (pgAbs db))(pmUUID p \<mapsto> p))"
      by (rule paymentTable.update_row[OF payments.inv_get[OF i] p, unfolded payments.abs_get]) (rule same)
    then obtain n t where u: "sqlUpdate (\<lambda>r. prUuid r = pmUUID p) (\<lambda>r. (paymentRowOf p)\<lparr>prUuid := prUuid r\<rparr>) (pgPayments db) = Ok (n, t)"
        "tabOk paymentRowOf pmUUID wf_payment t" "n = 0 \<longleftrightarrow> tPayments (pgAbs db) (pmUUID p) = None" "n = 0 \<longrightarrow> t = pgPayments db"
        "n \<noteq> 0 \<longrightarrow> tabAbs prUuid scanPayment t = (tPayments (pgAbs db))(pmUUID p \<mapsto> p)"
      by (elim exE conjE) (rule that)
    have "prUuid (paymentRowOf p) = pmUUID p" by (simp add: paymentRowOf_def)
    then show "\<exists>n db'. sql_updatePayment (paymentRowOf p) db = Ok (n, db') \<and> pgInv db' \<and> pgAbs db' =
        (if tPayments (pgAbs db) (pmUUID p) = None then pgAbs db else (pgAbs db)\<lparr>tPayments := (tPayments (pgAbs db))(pmUUID p \<mapsto> p)\<rparr>)"
      using u payments.inv_upd[OF i u(2)] payments.abs_upd[of t db] by (cases "n = 0") (auto simp: sql_updatePayment_def)
  qed
  ultimately show ?thesis by simp
qed

lemma pg_ArchivePayment_law:
  assumes c: "\<forall>name db. c name db = Answered" and a: "wf_payment (archived p now rand)"
  shows "writes pgAbs pgInv True (pg_ArchivePayment c p now rand)
    (\<lambda>s. if tArchive s (pmUUID (archived p now rand)) = None then None else Some DeleteEntry)
    (\<lambda>s. s\<lparr>tPayments := (tPayments s)(pmUUID p := None),
      tArchive := (tArchive s)(pmUUID (archived p now rand) \<mapsto> archived p now rand)\<rparr>)"
  (is "writes _ _ _ _ ?pre ?upd")
  unfolding writes_def
proof (intro allI impI)
  fix db r db'
  assume i: "pgInv db" and op: "pg_ArchivePayment c p now rand db = (r, db')"
  let ?a = "archived p now rand"
  have new: "(NewPayment (pmAccount p) (pmSource p) (pmAmount p) (pmHeight p) (pmEstimatedMaturity p) now rand)
      \<lparr>pmTransactionID := pmTransactionID p, pmPaidOnHeight := pmPaidOnHeight p\<rparr> = ?a"
    by (simp add: NewPayment_def archived_def)
  obtain n t where d: "sqlDelete (\<lambda>r. prUuid r = pmUUID p) (pgPayments db) = Ok (n, t)" "tabOk paymentRowOf pmUUID wf_payment t"
      "tabAbs prUuid scanPayment t = (tPayments (pgAbs db))(pmUUID p := None)"
    using paymentTable.delete_key[OF payments.inv_get[OF i], of "pmUUID p"] unfolding payments.abs_get by blast
  let ?db1 = "db\<lparr>pgPayments := t\<rparr>"
  have i1: "pgInv ?db1" "pgAbs ?db1 = (pgAbs db)\<lparr>tPayments := (tPayments (pgAbs db))(pmUUID p := None)\<rparr>"
    using payments.inv_upd[OF i d(2)] payments.abs_upd[of t db] d(3) by simp_all
  have run: "pg_ArchivePayment c p now rand db = (case sql_insertArchivedPayment (paymentRowOf ?a) ?db1 of
      Ok (_, db2) \<Rightarrow> (Ok (), db2) | Err _ \<Rightarrow> (Err (DBError DeleteEntry), db) | Panic \<Rightarrow> (Panic, db))"
    using c by (auto simp: pg_ArchivePayment_def send_stmt_def server_after_def sql_deletePayment_def d(1) new paymentArgs_eq[OF a] split: outcome.split)
  have "if tArchive (pgAbs db) (pmUUID ?a) = None
      then \<exists>t'. sqlInsert prUuid (paymentRowOf ?a) (pgArchived db) = Ok (1, t') \<and> tabOk paymentRowOf pmUUID wf_payment t' \<and>
        tabAbs prUuid scanPayment t' = (tArchive (pgAbs db))(pmUUID ?a \<mapsto> ?a)
      else sqlInsert prUuid (paymentRowOf ?a) (pgArchived db) = Err UniqueViolation"
    using paymentTable.insert_row[OF archive.inv_get[OF i] a] unfolding archive.abs_get .
  then show "pgInv db' \<and> (case r of Ok _ \<Rightarrow> ?pre (pgAbs db) = None \<and> pgAbs db' = ?upd (pgAbs db)
      | Err e \<Rightarrow> db' = db \<and> (\<forall>k. ?pre (pgAbs db) = Some k \<longrightarrow> e = DBError k) \<and> (True \<longrightarrow> ?pre (pgAbs db) \<noteq> None) | Panic \<Rightarrow> False)"
    using i archive.inv_upd[OF i1(1)] archive.abs_upd[of _ ?db1] i1(2) op run
    by (auto simp: sql_insertArchivedPayment_def split: if_splits)
qed

text \<open>The listings of payments and shares compare integers, not machine words.\<close>

lemma pg_payment_lists:
  assumes c: "\<forall>name db. c name db = Answered" and i: "pgInv db"
  shows "\<exists>ps. pg_fetchPaymentsAtHeight c height db = (Ok ps, db) \<and>
      lists_rows (tPayments (pgAbs db)) (\<lambda>p. pm_pending p \<and> uint (pmEstimatedMaturity p) + 1 < uint height) ps"
    and "\<exists>ps m. pg_maturePendingPayments c height db = Ok m \<and> groups ps m \<and>
      lists_rows (tPayments (pgAbs db)) (\<lambda>p. pm_pending p \<and> uint (pmEstimatedMaturity p) + 1 \<le> uint height) ps"
proof -
  have cols: "prPaidOnHeight (paymentRowOf p) = 0 \<longleftrightarrow> pm_pending p" "prEstimatedMaturity (paymentRowOf p) = uint (pmEstimatedMaturity p)" for p
    by (simp_all add: paymentRowOf_def pm_pending_def uint_0_iff)
  show "\<exists>ps. pg_fetchPaymentsAtHeight c height db = (Ok ps, db) \<and>
      lists_rows (tPayments (pgAbs db)) (\<lambda>p. pm_pending p \<and> uint (pmEstimatedMaturity p) + 1 < uint height) ps"
    using payments.read_rows[OF c i, of "''selectPaymentsAtHeight''" "\<lambda>r. prPaidOnHeight r = 0 \<and> uint height > prEstimatedMaturity r + 1" decodePaymentRows]
    unfolding cols by (auto simp: pg_fetchPaymentsAtHeight_def sql_selectPaymentsAtHeight_def[abs_def] decoded_rows(1))
  obtain ps where ps: "queryRows c ''selectMaturePendingPayments'' (sql_selectMaturePendingPayments (uint height)) decodePaymentRows db = Ok ps"
      "\<forall>p \<in> set ps. wf_payment p"
      "lists_rows (tPayments (pgAbs db)) (\<lambda>p. pm_pending p \<and> uint (pmEstimatedMaturity p) + 1 \<le> uint height) ps"
    using payments.read_rows[OF c i, of "''selectMaturePendingPayments''" "\<lambda>r. prPaidOnHeight r = 0 \<and> prEstimatedMaturity r + 1 \<le> uint height" decodePaymentRows]
    unfolding cols by (auto simp: sql_selectMaturePendingPayments_def[abs_def] decoded_rows(1))
  have step: "(\<lambda>pmt pmts. case pmSource pmt of None \<Rightarrow> Panic | Some s \<Rightarrow>
      Ok (put (srcBlockHash s) ((case map_of pmts (srcBlockHash s) of None \<Rightarrow> [] | Some ps \<Rightarrow> ps) @ [pmt]) pmts)) = group_step"
    by (auto simp: fun_eq_iff group_step_def split: option.split)
  have "\<forall>p \<in> set ps. pmSource p \<noteq> None" using ps(2) by (simp add: wf_payment_def)
  then show "\<exists>ps m. pg_maturePendingPayments c height db = Ok m \<and> groups ps m \<and>
      lists_rows (tPayments (pgAbs db)) (\<lambda>p. pm_pending p \<and> uint (pmEstimatedMaturity p) + 1 \<le> uint height) ps"
    using groups_foldo[of ps] ps unfolding pg_maturePendingPayments_def step by auto
qed

lemma share_column: "srCreatedOn (shareArgs s) = sint (shCreatedOn s)"
  by (simp add: shareArgs_def)

lemma pg_share_laws:
  assumes c: "\<forall>name db. c name db = Answered"
  shows "pgInv db \<Longrightarrow> \<exists>ss. pg_ppsEligibleShares c t db = Ok ss \<and>
      lists_rows (tShares (pgAbs db)) (\<lambda>s. sint (shCreatedOn s) \<le> sint t) ss"
    and "pgInv db \<Longrightarrow> \<exists>ss. pg_pplnsEligibleShares c t db = Ok ss \<and>
      lists_rows (tShares (pgAbs db)) (\<lambda>s. sint (shCreatedOn s) > sint t) ss"
    and "writes pgAbs pgInv True (pg_pruneShares c t) (\<lambda>_. None) (\<lambda>s. s\<lparr>tShares := (\<lambda>k. case tShares s k of
      Some x \<Rightarrow> if sint (shCreatedOn x) < sint t then None else Some x | None \<Rightarrow> None)\<rparr>)"
  unfolding pg_ppsEligibleShares_def pg_pplnsEligibleShares_def pg_pruneShares_def sql_selectSharesOnOrBeforeTime_def[abs_def]
    sql_selectSharesAfterTime_def[abs_def] sql_deleteShareCreatedBefore_def[abs_def] share_column[symmetric]
  by (rule shares.list_rows(1)[OF c], assumption, rule decoded_rows(3), assumption)+ (rule shares.delete_writes[OF c])

lemma sint_below: "uint (w :: 64 word) < 2 ^ 63 \<Longrightarrow> sint w = uint w"
  unfolding sint_uint by (rule signed_take_bit_int_eq_self) (rule order_trans[OF _ uint_ge_0], simp, simp)

lemma lists_rows_cong: "lists_rows t P xs \<Longrightarrow> (\<And>k x. t k = Some x \<Longrightarrow> P x = Q x) \<Longrightarrow> lists_rows t Q xs"
  by (auto simp: lists_rows_def ran_def)

text \<open>
  The shares a reward counts. As long as no time has its high bit set, which for
  nanoseconds is until the year 2262, postgres lists and prunes the shares by the same comparison
  as bolt, which compares the times as unsigned words.
\<close>

lemma postgres_shares_as_bolt:
  assumes "\<forall>name db. c name db = Answered" "pgInv db" "uint t < 2 ^ 63"
    and times: "\<forall>k s. tShares (pgAbs db) k = Some s \<longrightarrow> uint (shCreatedOn s) < 2 ^ 63"
  shows "(\<exists>ss. pg_ppsEligibleShares c t db = Ok ss \<and> lists_rows (tShares (pgAbs db)) (\<lambda>s. shCreatedOn s \<le> t) ss) \<and>
    (\<exists>ss. pg_pplnsEligibleShares c t db = Ok ss \<and> lists_rows (tShares (pgAbs db)) (\<lambda>s. t < shCreatedOn s) ss) \<and>
    (\<exists>db'. pg_pruneShares c t db = (Ok (), db') \<and> pgInv db' \<and> pgAbs db' = (pgAbs db)\<lparr>tShares := (\<lambda>k.
      case tShares (pgAbs db) k of Some x \<Rightarrow> if shCreatedOn x < t then None else Some x | None \<Rightarrow> None)\<rparr>)"
proof -
  have w: "tShares (pgAbs db) k = Some s \<Longrightarrow> sint (shCreatedOn s) = uint (shCreatedOn s)" for k s
    using times sint_below by blast
  have t: "sint t = uint t" using assms(3) by (rule sint_below)
  have prune: "(\<lambda>k. case tShares (pgAbs db) k of Some x \<Rightarrow> if sint (shCreatedOn x) < sint t then None else Some x | None \<Rightarrow> None) =
      (\<lambda>k. case tShares (pgAbs db) k of Some x \<Rightarrow> if shCreatedOn x < t then None else Some x | None \<Rightarrow> None)"
    by (auto simp: fun_eq_iff w t word_less_def split: option.split)
  show ?thesis
    using pg_share_laws(1)[OF assms(1,2), of t] pg_share_laws(2)[OF assms(1,2), of t]
      writes_live[OF pg_share_laws(3)[OF assms(1), of t] TrueI assms(2) refl] lists_rows_cong[of "tShares (pgAbs db)"]
    unfolding prune by (metis (no_types, lifting) w t word_less_def word_le_def)
qed

section \<open>Creation\<close>

definition pgEmpty :: pg where
  "pgEmpty = \<lparr>pgMetadata = Some [], pgAccounts = Some [], pgPayments = Some [], pgArchived = Some [], pgJobs = Some [],
     pgShares = Some [], pgWork = Some [], pgHashData = Some []\<rparr>"

lemma pgEmpty_inv: "pgInv pgEmpty" "pgAbs pgEmpty = emptyPoolDB"
  by (simp_all add: pgInvAbs pgEmpty_def tabOk_def metaOk_def metaText_def tabAbs_def[abs_def] emptyPoolDB_def)

lemmas create_defs = createStmts_def sql_createTableMetadata_def sql_createTableAccounts_def sql_createTablePayments_def
  sql_createTableArchivedPayments_def sql_createTableJobs_def sql_createTableShares_def sql_createTableAcceptedWork_def
  sql_createTableHashData_def createTable_def

lemma init_runs:
  assumes "\<forall>name db. c name db = Answered"
  shows "InitPostgresDB c True wipe db = (Ok (), (let db0 = if wipe then db\<lparr>pgMetadata := None, pgAccounts := None, pgPayments := None,
      pgArchived := None, pgJobs := None, pgShares := None, pgWork := None, pgHashData := None\<rparr> else db in
    db0\<lparr>pgMetadata := createTable (pgMetadata db0), pgAccounts := createTable (pgAccounts db0),
      pgPayments := createTable (pgPayments db0), pgArchived := createTable (pgArchived db0), pgJobs := createTable (pgJobs db0),
      pgShares := createTable (pgShares db0), pgWork := createTable (pgWork db0), pgHashData := createTable (pgHashData db0)\<rparr>))"
  using assms
  by (cases wipe) (simp_all add: InitPostgresDB_def bndc_def pg_purge_def pgExec_def send_stmt_def server_after_def sql_purgeDB_def create_defs Let_def)

lemma createTable_ok: "tabOk enc uid V t \<Longrightarrow> createTable t = t"
  by (auto simp: tabOk_def createTable_def)

text \<open>
  Opening the database. On a connection that is up a purge leaves the eight tables empty, all
  of them, and without one the database is as it was, both with the invariant.
\<close>

lemma init_postgres_db:
  assumes "\<forall>name db. c name db = Answered"
  shows "InitPostgresDB c True True db = (Ok (), pgEmpty) \<and> pgInv pgEmpty \<and> pgAbs pgEmpty = emptyPoolDB \<and>
    (pgInv db \<longrightarrow> InitPostgresDB c True False db = (Ok (), db))"
proof (intro conjI impI)
  show "InitPostgresDB c True True db = (Ok (), pgEmpty)" by (simp add: init_runs[OF assms] createTable_def pgEmpty_def)
  assume i: "pgInv db"
  then have "createTable (pgMetadata db) = pgMetadata db" using metadata_table[OF i] by (auto simp: createTable_def)
  moreover have "createTable (pgAccounts db) = pgAccounts db" "createTable (pgPayments db) = pgPayments db"
      "createTable (pgArchived db) = pgArchived db" "createTable (pgJobs db) = pgJobs db" "createTable (pgShares db) = pgShares db"
      "createTable (pgWork db) = pgWork db" "createTable (pgHashData db) = pgHashData db"
    using i unfolding pgInv_def by (auto intro: createTable_ok)
  ultimately show "InitPostgresDB c True False db = (Ok (), db)" by (simp add: init_runs[OF assms])
qed (rule pgEmpty_inv)+

section \<open>What the database promises\<close>

text \<open>
  C8: the postgres database implements the interface. On a connection that is up, from tables
  that hold valid rows, every method of the shared contract returns what it promises or makes
  the change it promises: what is written is read back, listings return every row asked for
  once, and missing and duplicate rows are the errors they are for bolt.
\<close>

theorem postgres_implements_database:
  assumes "\<forall>name db. c name db = Answered"
  shows "database_common (PostgresDatabase c) pgAbs pgInv True"
  using assms by (rule postgres_contract)

interpretation postgres: database_common "PostgresDatabase (\<lambda>_ _. Answered)" pgAbs pgInv True
  by (rule postgres_contract) simp

theorem postgres_implements_database_witness:
  "database_common (PostgresDatabase (\<lambda>_ _. Answered)) pgAbs pgInv True \<and> pgInv pgEmpty \<and>
    (\<exists>db. db_persistPoolMode (PostgresDatabase (\<lambda>_ _. Answered)) 1 pgEmpty = (Ok (), db) \<and>
      db_fetchPoolMode (PostgresDatabase (\<lambda>_ _. Answered)) db = Ok 1)"
proof -
  have d: "database_common (PostgresDatabase (\<lambda>_ _. Answered)) pgAbs pgInv True" by (rule postgres_implements_database) simp
  obtain db where "db_persistPoolMode (PostgresDatabase (\<lambda>_ _. Answered)) 1 pgEmpty = (Ok (), db)" "pgInv db"
      "pgAbs db = (pgAbs pgEmpty)\<lparr>tMode := Some 1\<rparr>"
    using writes_live[OF database_common.persistPoolMode[OF d] TrueI pgEmpty_inv(1)] by auto
  then show ?thesis using d pgEmpty_inv(1) database_common.fetchPoolMode[OF d] by (simp add: found_def)
qed

text \<open>
  C38: payments in postgres. A payment is stored only under a new identifier, an update of a
  payment that is not stored changes nothing, and archiving removes the payment and files its
  copy in one transaction, which fails as a whole when the copy's identifier is taken. Mature
  payments are compared without wrap-around.
\<close>

theorem postgres_payments:
  assumes "\<forall>name db. c name db = Answered" "wf_payment p" "wf_payment (archived p now rand)"
  shows "writes pgAbs pgInv True (pg_PersistPayment c p) (\<lambda>s. absent (tPayments s (pmUUID p)))
      (\<lambda>s. s\<lparr>tPayments := (tPayments s)(pmUUID p \<mapsto> p)\<rparr>) \<and>
    writes pgAbs pgInv True (pg_updatePayment c p) (\<lambda>_. None)
      (\<lambda>s. if tPayments s (pmUUID p) = None then s else s\<lparr>tPayments := (tPayments s)(pmUUID p \<mapsto> p)\<rparr>) \<and>
    writes pgAbs pgInv True (pg_ArchivePayment c p now rand)
      (\<lambda>s. if tArchive s (pmUUID (archived p now rand)) = None then None else Some DeleteEntry)
      (\<lambda>s. s\<lparr>tPayments := (tPayments s)(pmUUID p := None),
        tArchive := (tArchive s)(pmUUID (archived p now rand) \<mapsto> archived p now rand)\<rparr>) \<and>
    (\<forall>db height. pgInv db \<longrightarrow> (\<exists>ps m. pg_maturePendingPayments c height db = Ok m \<and> groups ps m \<and>
      lists_rows (tPayments (pgAbs db)) (\<lambda>p. pm_pending p \<and> uint (pmEstimatedMaturity p) + 1 \<le> uint height) ps))"
  using pg_PersistPayment_law[OF assms(1,2)] pg_updatePayment_law[OF assms(1,2)] pg_ArchivePayment_law[OF assms(1,3)]
    pg_payment_lists(2)[OF assms(1)] by blast

definition demoPay :: Payment where
  "demoPay = \<lparr>pmUUID = ''p'', pmAccount = ''a'', pmEstimatedMaturity = 20, pmHeight = 4, pmAmount = 5, pmCreatedOn = 6,
     pmPaidOnHeight = 0, pmTransactionID = [], pmSource = Some \<lparr>srcBlockHash = ''b'', srcCoinbase = ''c''\<rparr>\<rparr>"

lemma demoPay_wf: "wf_payment demoPay" "wf_payment (archived demoPay 7 9)"
  by (simp_all add: wf_payment_def demoPay_def archived_def wf_key_def in_i64_def paymentID_def randValEncoded_def flip: length_0_conv)

definition payDB :: pg where
  "payDB = pgEmpty\<lparr>pgPayments := Some [paymentRowOf demoPay]\<rparr>"

lemma payDB_inv: "pgInv payDB" "tPayments (pgAbs payDB) = [''p'' \<mapsto> demoPay]" "tArchive (pgAbs payDB) = Map.empty"
proof -
  have t: "tabOk paymentRowOf pmUUID wf_payment (Some [paymentRowOf demoPay])"
    unfolding tabOk_def using demoPay_wf(1) by (intro exI[of _ "[demoPay]"]) simp
  show "pgInv payDB" using payments.inv_upd[OF pgEmpty_inv(1) t] by (simp add: payDB_def)
  show "tPayments (pgAbs payDB) = [''p'' \<mapsto> demoPay]"
    using paymentTable.abs_rows[of "[demoPay]"] demoPay_wf(1) by (simp add: payDB_def pgAbs_def demoPay_def)
  show "tArchive (pgAbs payDB) = Map.empty" by (simp add: payDB_def pgAbs_def pgEmpty_def tabAbs_def[abs_def])
qed

theorem postgres_payments_witness:
  "\<exists>db. pg_ArchivePayment (\<lambda>_ _. Answered) demoPay 7 9 payDB = (Ok (), db) \<and> tPayments (pgAbs db) = Map.empty \<and>
    tArchive (pgAbs db) = [pmUUID (archived demoPay 7 9) \<mapsto> archived demoPay 7 9]"
proof -
  have w: "writes pgAbs pgInv True (pg_ArchivePayment (\<lambda>_ _. Answered) demoPay 7 9)
      (\<lambda>s. if tArchive s (pmUUID (archived demoPay 7 9)) = None then None else Some DeleteEntry)
      (\<lambda>s. s\<lparr>tPayments := (tPayments s)(pmUUID demoPay := None),
        tArchive := (tArchive s)(pmUUID (archived demoPay 7 9) \<mapsto> archived demoPay 7 9)\<rparr>)"
    using postgres_payments[OF _ demoPay_wf, of "\<lambda>_ _. Answered"] by blast
  have "pmUUID demoPay = ''p''" by (simp add: demoPay_def)
  then show ?thesis using writes_live[OF w TrueI payDB_inv(1)] payDB_inv(2,3) by fastforce
qed

section \<open>All or nothing\<close>

text \<open>The methods that write, each on the connection it is given.\<close>

definition pgWriteOps :: "(Conn \<Rightarrow> pg dbop) set" where
  "pgWriteOps = {pg_purge} \<union> {\<lambda>c. pg_persistPoolMode c mode | mode. True} \<union> {\<lambda>c. pg_persistCSRFSecret c secret | secret. True} \<union>
     {\<lambda>c. pg_persistLastPaymentInfo c height paidOn | height paidOn. True} \<union>
     {\<lambda>c. pg_persistLastPaymentCreatedOn c createdOn | createdOn. True} \<union>
     {\<lambda>c. pg_persistAccount c acc now | acc now. True} \<union> {\<lambda>c. pg_deleteAccount c uuid | uuid. True} \<union>
     {\<lambda>c. pg_PersistPayment c p | p. True} \<union> {\<lambda>c. pg_updatePayment c p | p. True} \<union> {\<lambda>c. pg_deletePayment c uuid | uuid. True} \<union>
     {\<lambda>c. pg_ArchivePayment c p now rand | p now rand. True} \<union> {\<lambda>c. pg_PersistShare c share | share. True} \<union>
     {\<lambda>c. pg_pruneShares c minNano | minNano. True} \<union> {\<lambda>c. pg_persistAcceptedWork c work | work. True} \<union>
     {\<lambda>c. pg_updateAcceptedWork c work | work. True} \<union> {\<lambda>c. pg_deleteAcceptedWork c uuid | uuid. True} \<union>
     {\<lambda>c. pg_persistJob c job | job. True} \<union> {\<lambda>c. pg_deleteJob c uuid | uuid. True} \<union>
     {\<lambda>c. pg_deleteJobsBeforeHeight c height | height. True} \<union> {\<lambda>c. pg_persistHashData c d | d. True} \<union>
     {\<lambda>c. pg_updateHashData c d | d. True} \<union> {\<lambda>c. pg_pruneHashData c minNano | minNano. True}"

text \<open>
  The tables are as they were or as the write leaves them on a connection that is up; they are
  the latter if it succeeds, and the former if it fails and no answer was lost.
\<close>

definition outcome_ok :: "Conn \<Rightarrow> (unit go \<times> pg) \<Rightarrow> pg \<Rightarrow> (unit go \<times> pg) \<Rightarrow> bool" where
  "outcome_ok c up db res \<longleftrightarrow> (snd res = db \<or> up = (Ok (), snd res)) \<and> (fst res = Ok () \<longrightarrow> up = (Ok (), snd res)) \<and>
     (fst res \<noteq> Ok () \<longrightarrow> (\<forall>name db. c name db \<noteq> AnswerLost) \<longrightarrow> snd res = db)"

definition atomic :: "(Conn \<Rightarrow> pg dbop) \<Rightarrow> bool" where
  "atomic op \<longleftrightarrow> (\<forall>c db. outcome_ok c (op (\<lambda>_ _. Answered) db) db (op c db))"

lemma atomic_exec [simp]: "atomic (\<lambda>c. pgExec c name q onErr)"
  unfolding atomic_def outcome_ok_def
proof (intro allI conjI)
  fix c db
  show "snd (pgExec c name q onErr db) = db \<or> pgExec (\<lambda>_ _. Answered) name q onErr db = (Ok (), snd (pgExec c name q onErr db))"
    "fst (pgExec c name q onErr db) = Ok () \<longrightarrow> pgExec (\<lambda>_ _. Answered) name q onErr db = (Ok (), snd (pgExec c name q onErr db))"
    "fst (pgExec c name q onErr db) \<noteq> Ok () \<longrightarrow> (\<forall>name db. c name db \<noteq> AnswerLost) \<longrightarrow> snd (pgExec c name q onErr db) = db"
    by (cases "q db"; cases "c name db"; fastforce simp: pgExec_def send_stmt_def server_after_def split: prod.splits)+
qed

lemma atomic_tx: "outcome_ok c (pgTx (\<lambda>_ _. Answered) stmts commitErr db0 db) db0 (pgTx c stmts commitErr db0 db)"
proof (induction c stmts commitErr db0 db rule: pgTx.induct)
  case (1 c commitErr db0 db)
  then show ?case by (cases "c ''commit'' db") (auto simp: outcome_ok_def)
next
  case (2 c name q rollbackErr err stmts commitErr db0 db)
  show ?case
  proof (cases "c name db = Answered")
    case True
    then show ?thesis using 2 by (cases "q db") (auto simp: send_stmt_def outcome_ok_def)
  next
    case False
    then show ?thesis by (simp add: send_stmt_def outcome_ok_def)
  qed
qed

lemma update_none: "sqlUpdate P f t = Ok (0, t') \<Longrightarrow> t' = t"
  by (auto simp: sqlUpdate_def table_def filter_empty_conv intro!: map_idI split: option.splits)

lemma atomic_update:
  assumes "\<And>db db'. q db = Ok (0, db') \<Longrightarrow> db' = db"
  shows "atomic (\<lambda>c. pgUpdate c name q)"
  unfolding atomic_def
proof (intro allI)
  fix c db
  show "outcome_ok c (pgUpdate (\<lambda>_ _. Answered) name q db) db (pgUpdate c name q db)"
    using assms[of db] by (cases "q db"; cases "c name db") (auto simp: outcome_ok_def pgUpdate_def send_stmt_def server_after_def split: if_splits)
qed

lemma atomic_updates: "atomic (\<lambda>c. pg_updateAcceptedWork c w)" "atomic (\<lambda>c. pg_updateHashData c d)"
  unfolding pg_updateAcceptedWork_def pg_updateHashData_def
  by (rule atomic_update; auto simp: sql_updateAcceptedWork_def sql_updateHashData_def dest!: update_none)+

lemma atomic_row: "(\<And>row. atomic (\<lambda>c. f c row)) \<Longrightarrow> atomic (\<lambda>c. withRow p (f c))"
  unfolding atomic_def withRow_def by (cases "paymentArgs p") (auto simp: outcome_ok_def)

lemma atomic_archive: "atomic (\<lambda>c. pg_ArchivePayment c p now rand)"
  unfolding atomic_def
proof (intro allI)
  fix c db
  note tx = atomic_tx[of c _ "DBError PersistEntry" db]
  show "outcome_ok c (pg_ArchivePayment (\<lambda>_ _. Answered) p now rand db) db (pg_ArchivePayment c p now rand db)"
  proof (cases "c ''begin'' db = Answered \<and> c ''deletePayment'' db = Answered")
    case True
    then show ?thesis
      unfolding pg_ArchivePayment_def send_stmt_def Let_def using tx
      by (auto simp: outcome_ok_def split: outcome.splits simp del: pgTx.simps)
  next
    case False
    then show ?thesis by (auto simp: pg_ArchivePayment_def send_stmt_def outcome_ok_def)
  qed
qed

text \<open>
  C9: a write is all or nothing. Whatever becomes of the statements of a method, begin and commit
  of its transaction included, the tables are afterwards as they were or as the method leaves
  them when every statement is answered, never in between. They are the latter when it
  succeeds. When it fails they may be either, since the answer to a statement or a commit that
  took effect may be lost; if none is lost a failed write leaves every table as it was.
\<close>

theorem writes_all_or_nothing:
  assumes "op \<in> pgWriteOps" "op c db = (r, db')"
  shows "(db' = db \<or> op (\<lambda>_ _. Answered) db = (Ok (), db')) \<and> (r = Ok () \<longrightarrow> op (\<lambda>_ _. Answered) db = (Ok (), db')) \<and>
    (r \<noteq> Ok () \<longrightarrow> (\<forall>name db. c name db \<noteq> AnswerLost) \<longrightarrow> db' = db)"
proof -
  have "atomic (\<lambda>c. pg_persistLastPaymentInfo c height paidOn)" for height paidOn
    unfolding atomic_def pg_persistLastPaymentInfo_def using atomic_tx
    by (simp add: outcome_ok_def del: pgTx.simps)
  then have "atomic op" using assms(1)
    unfolding pgWriteOps_def pg_write_defs pg_PersistPayment_def pg_updatePayment_def pg_purge_def pg_persistPoolMode_def
      pg_persistCSRFSecret_def pg_persistLastPaymentCreatedOn_def pg_persistAccount_def pg_pruneShares_def
    by (auto intro: atomic_archive atomic_row atomic_updates[unfolded pg_updateAcceptedWork_def pg_updateHashData_def])
  then show ?thesis using assms(2) unfolding atomic_def outcome_ok_def by (metis fst_conv snd_conv)
qed

text \<open>The copy is refused, and the answer to the commit is lost.\<close>

theorem writes_all_or_nothing_witness:
  "pg_ArchivePayment (\<lambda>name _. if name = ''insertArchivedPayment'' then NoEffect else Answered) demoPay 7 9 payDB =
     (Err (DBError DeleteEntry), payDB) \<and>
   (\<exists>db. pg_ArchivePayment (\<lambda>name _. if name = ''commit'' then AnswerLost else Answered) demoPay 7 9 payDB = (Err (DBError PersistEntry), db) \<and>
     pgPayments db = Some [] \<and> pg_ArchivePayment (\<lambda>_ _. Answered) demoPay 7 9 payDB = (Ok (), db))"
proof -
  let ?c = "\<lambda>name _. if name = ''insertArchivedPayment'' then NoEffect else Answered"
  let ?d = "\<lambda>name _. if name = ''commit'' then AnswerLost else Answered"
  let ?op = "\<lambda>c. pg_ArchivePayment c demoPay 7 9"
  have ops: "?op \<in> pgWriteOps" unfolding pgWriteOps_def by blast
  note defs = pg_ArchivePayment_def send_stmt_def sql_deletePayment_def sqlDelete_def table_def payDB_def paymentArgs_def
      NewPayment_def demoPay_def sql_insertArchivedPayment_def sqlInsert_def pgEmpty_def paymentRowOf_def
  have "fst (?op ?c payDB) = Err (DBError DeleteEntry)" by (simp add: defs)
  then have 1: "?op ?c payDB = (Err (DBError DeleteEntry), payDB)"
    using writes_all_or_nothing[OF ops, of ?c payDB] by (cases "?op ?c payDB") auto
  have "fst (?op ?d payDB) = Err (DBError PersistEntry)" "pgPayments (snd (?op ?d payDB)) = Some []" "pgPayments payDB \<noteq> Some []"
    by (simp_all add: defs)
  then have 2: "?op ?d payDB = (Err (DBError PersistEntry), snd (?op ?d payDB)) \<and> pgPayments (snd (?op ?d payDB)) = Some [] \<and>
      ?op (\<lambda>_ _. Answered) payDB = (Ok (), snd (?op ?d payDB))"
    using writes_all_or_nothing[OF ops, of ?d payDB] by (cases "?op ?d payDB") auto
  show ?thesis using 1 2 by blast
qed

definition oldShare :: Share where
  "oldShare = \<lparr>shUUID = EncodeToString (nanoToBigEndianBytes 3), shAccount = ''a'', shWeight = 1, shCreatedOn = 3\<rparr>"

definition shareDB :: pg where
  "shareDB = pgEmpty\<lparr>pgShares := Some [shareArgs oldShare]\<rparr>"

lemma shareDB_inv: "pgInv shareDB" "tShares (pgAbs shareDB) = [shUUID oldShare \<mapsto> oldShare]"
proof -
  have wf: "wf_share oldShare" by (simp add: wf_share_def oldShare_def wf_key_def flip: length_0_conv)
  then have t: "tabOk shareArgs shUUID wf_share (Some [shareArgs oldShare])"
    unfolding tabOk_def by (intro exI[of _ "[oldShare]"]) simp
  show "pgInv shareDB" using shares.inv_upd[OF pgEmpty_inv(1) t] by (simp add: shareDB_def)
  show "tShares (pgAbs shareDB) = [shUUID oldShare \<mapsto> oldShare]"
    using shareTable.abs_rows[of "[oldShare]"] wf by (simp add: shareDB_def pgAbs_def)
qed

end
