(* ===== verification/Limiter.thy ===== *)
theory Limiter
  imports Prelude Complex_Main
begin

text \<open>
  The request limiter (\<open>limiter.go\<close>): a limiter per client, made when its first request
  comes in. The token bucket is \<open>golang.org/x/time/rate\<close>; its operations are an argument,
  and what they promise, a burst and a rate, is the contract \<open>rateLaw\<close>. Times are in
  nanoseconds.
\<close>

section \<open>Limiters\<close>

record 'l RateLib =
  NewLimiter :: "rat \<Rightarrow> int \<Rightarrow> 'l"
  Allow :: "int \<Rightarrow> 'l \<Rightarrow> bool \<times> 'l"

definition GUIClient :: int where "GUIClient = 0"
definition PoolClient :: int where "PoolClient = 1"
definition clientTokenRate :: rat where "clientTokenRate = 5"
definition clientBurst :: int where "clientBurst = 5"
definition guiTokenRate :: rat where "guiTokenRate = 3"
definition guiBurst :: int where "guiBurst = 7"

record 'l RateLimiter =
  limiters :: "string \<rightharpoonup> 'l"

definition NewRateLimiter :: "'l RateLimiter" where
  "NewRateLimiter = \<lparr>limiters = Map.empty\<rparr>"

definition addRequestLimiter :: "'l RateLib \<Rightarrow> string \<Rightarrow> int \<Rightarrow> 'l RateLimiter \<Rightarrow> 'l option \<times> 'l RateLimiter" where
  "addRequestLimiter lib ip clientType r =
     (case (if clientType = GUIClient then Some (NewLimiter lib guiTokenRate guiBurst)
            else if clientType = PoolClient then Some (NewLimiter lib clientTokenRate clientBurst) else None) of
        None \<Rightarrow> (None, r)
      | Some limiter \<Rightarrow> (Some limiter, r\<lparr>limiters := (limiters r)(ip \<mapsto> limiter)\<rparr>))"

definition fetchLimiter :: "string \<Rightarrow> 'l RateLimiter \<Rightarrow> 'l option" where
  "fetchLimiter ip r = limiters r ip"

definition removeLimiter :: "string \<Rightarrow> 'l RateLimiter \<Rightarrow> 'l RateLimiter" where
  "removeLimiter ip r = r\<lparr>limiters := (limiters r)(ip := None)\<rparr>"

text \<open>\<open>reqLimiter.Allow()\<close> changes the limiter the map refers to.\<close>

definition withinLimit :: "'l RateLib \<Rightarrow> int \<Rightarrow> string \<Rightarrow> int \<Rightarrow> 'l RateLimiter \<Rightarrow> bool \<times> 'l RateLimiter" where
  "withinLimit lib now ip clientType r =
     (case (case fetchLimiter ip r of Some l \<Rightarrow> (Some l, r) | None \<Rightarrow> addRequestLimiter lib ip clientType r) of
        (None, r) \<Rightarrow> (False, r)
      | (Some reqLimiter, r) \<Rightarrow> (case Allow lib now reqLimiter of
          (ok, l) \<Rightarrow> (ok, r\<lparr>limiters := (limiters r)(ip \<mapsto> l)\<rparr>)))"

section \<open>Runs\<close>

text \<open>How many of the requests at these times a limiter allows, and what a run of requests, each a
  time, a client and its type, is answered.\<close>

fun grants :: "'l RateLib \<Rightarrow> 'l \<Rightarrow> int list \<Rightarrow> nat" where
  "grants lib l [] = 0"
| "grants lib l (t # ts) = (case Allow lib t l of (ok, l') \<Rightarrow> (if ok then 1 else 0) + grants lib l' ts)"

type_synonym request = "int \<times> string \<times> int"

fun granted :: "'l RateLib \<Rightarrow> string \<Rightarrow> request list \<Rightarrow> 'l RateLimiter \<Rightarrow> nat" where
  "granted lib ip [] r = 0"
| "granted lib ip ((t, ip', clientType) # reqs) r = (case withinLimit lib t ip' clientType r of
     (ok, r') \<Rightarrow> (if ok \<and> ip' = ip then 1 else 0) + granted lib ip reqs r')"

definition timesOf :: "string \<Rightarrow> request list \<Rightarrow> int list" where
  "timesOf ip reqs = map fst (filter (\<lambda>(_, ip', _). ip' = ip) reqs)"

text \<open>A client that has a limiter is served by it alone.\<close>

lemma granted_known:
  "limiters r ip = Some l \<Longrightarrow> granted lib ip reqs r = grants lib l (timesOf ip reqs)"
proof (induction reqs arbitrary: r l)
  case (Cons q reqs)
  obtain t ip' k where q: "q = (t, ip', k)" by (cases q)
  show ?case
  proof (cases "ip' = ip")
    case True
    obtain ok l' where a: "Allow lib t l = (ok, l')" by fastforce
    then have "withinLimit lib t ip k r = (ok, r\<lparr>limiters := (limiters r)(ip \<mapsto> l')\<rparr>)"
      using Cons.prems by (simp add: withinLimit_def fetchLimiter_def)
    then show ?thesis
      using True a Cons.IH[of "r\<lparr>limiters := (limiters r)(ip \<mapsto> l')\<rparr>" l'] by (simp add: q timesOf_def)
  next
    case False
    obtain ok r' where w: "withinLimit lib t ip' k r = (ok, r')" by fastforce
    then have "limiters r' ip = Some l"
      using False Cons.prems
      by (auto simp: withinLimit_def fetchLimiter_def addRequestLimiter_def split: option.splits prod.splits if_splits)
    then show ?thesis using False w Cons.IH by (simp add: q timesOf_def)
  qed
qed (simp add: timesOf_def)

lemma granted_new:
  assumes "limiters r ip = None" "filter (\<lambda>(_, ip', _). ip' = ip) reqs = (t, ip, k) # rest"
    and "k = PoolClient \<or> k = GUIClient"
  shows "granted lib ip reqs r = grants lib
    (if k = PoolClient then NewLimiter lib clientTokenRate clientBurst else NewLimiter lib guiTokenRate guiBurst) (timesOf ip reqs)"
  using assms
proof (induction reqs arbitrary: r)
  case (Cons q reqs)
  obtain u ip' k' where q: "q = (u, ip', k')" by (cases q)
  show ?case
  proof (cases "ip' = ip")
    case True
    let ?l = "if k = PoolClient then NewLimiter lib clientTokenRate clientBurst else NewLimiter lib guiTokenRate guiBurst"
    let ?r = "r\<lparr>limiters := (limiters r)(ip \<mapsto> ?l)\<rparr>"
    have k: "k' = k" using Cons.prems(2) True by (simp add: q)
    have "withinLimit lib u ip k r = withinLimit lib u ip k ?r"
      using Cons.prems(1,3) by (auto simp: withinLimit_def fetchLimiter_def addRequestLimiter_def PoolClient_def GUIClient_def
          split: option.splits prod.splits if_splits)
    then have "granted lib ip (q # reqs) r = granted lib ip (q # reqs) ?r" using True k by (simp add: q)
    then show ?thesis using granted_known[of ?r ip ?l lib "q # reqs"] by simp
  next
    case False
    obtain ok r' where w: "withinLimit lib u ip' k' r = (ok, r')" by fastforce
    then have "limiters r' ip = None"
      using False Cons.prems(1)
      by (auto simp: withinLimit_def fetchLimiter_def addRequestLimiter_def split: option.splits prod.splits if_splits)
    then show ?thesis using False w Cons.IH[of r'] Cons.prems(2,3) by (simp add: q timesOf_def)
  qed
qed simp

section \<open>Properties\<close>

text \<open>The documented behaviour of \<open>rate.Limiter\<close>: after its burst it allows requests at its rate.\<close>

definition rateLaw :: "'l RateLib \<Rightarrow> bool" where
  "rateLaw lib \<longleftrightarrow> (\<forall>rate burst t ts. 0 \<le> rate \<and> 0 \<le> burst \<and> sorted (t # ts) \<longrightarrow>
     of_nat (grants lib (NewLimiter lib rate burst) (t # ts)) \<le>
       of_int burst + rate * of_int (last (t # ts) - t) / 1000000000)"

text \<open>
  C30: requests are limited per client. In any run of requests of any clients, of the requests of a
  client whose first is a mining client's at most five, and five more for each second between its
  first and its last request, are within the limits; of a web client's at most seven, and three
  more for each second.
\<close>

theorem requests_limited:
  assumes "rateLaw lib" "filter (\<lambda>(_, ip', _). ip' = ip) reqs = (t, ip, k) # rest" "sorted (timesOf ip reqs)"
    and "k = PoolClient \<or> k = GUIClient"
  shows "of_nat (granted lib ip reqs NewRateLimiter) \<le>
    (if k = PoolClient then 5 + 5 * of_int (last (timesOf ip reqs) - t) / 1000000000
     else 7 + 3 * of_int (last (timesOf ip reqs) - t) / (1000000000 :: rat))"
proof -
  obtain ts where ts: "timesOf ip reqs = t # ts" using assms(2) by (simp add: timesOf_def)
  have none: "limiters NewRateLimiter ip = None" by (simp add: NewRateLimiter_def)
  have law: "of_nat (grants lib (NewLimiter lib rate burst) (t # ts)) \<le>
      of_int burst + rate * of_int (last (t # ts) - t) / 1000000000" if "0 \<le> rate" "0 \<le> burst" for rate burst
    using assms(1,3) that unfolding rateLaw_def ts by blast
  show ?thesis
    using granted_new[OF none assms(2,4), of lib] law[of clientTokenRate clientBurst] law[of guiTokenRate guiBurst] unfolding ts
    by (simp add: clientTokenRate_def clientBurst_def guiTokenRate_def guiBurst_def del: grants.simps last.simps)
qed

text \<open>A limiter that hands out its burst and no more keeps the contract.\<close>

definition burstLib :: "int RateLib" where
  "burstLib = \<lparr>NewLimiter = (\<lambda>rate burst. burst), Allow = (\<lambda>now l. (0 < l, l - 1))\<rparr>"

lemma burst_grants: "int (grants burstLib l ts) \<le> max l 0"
proof (induction ts arbitrary: l)
  case (Cons t ts)
  have "Allow burstLib t l = (0 < l, l - 1)" by (simp add: burstLib_def)
  then show ?case using Cons[of "l - 1"] by auto
qed simp

lemma burstLib_law: "rateLaw burstLib"
proof -
  have "(of_nat (grants burstLib (NewLimiter burstLib rate burst) (t # ts)) :: rat) \<le>
      of_int burst + rate * of_int (last (t # ts) - t) / 1000000000"
    if "0 \<le> rate \<and> 0 \<le> burst \<and> sorted (t # ts)" for rate :: rat and burst t ts
  proof -
    have "t \<le> last (t # ts)" using that last_in_set[of "t # ts"] by (auto split: if_splits)
    then have "0 \<le> rate * of_int (last (t # ts) - t) / 1000000000" using that by (simp del: last.simps)
    moreover have "int (grants burstLib burst (t # ts)) \<le> burst" using burst_grants[of burst "t # ts"] that by simp
    then have "(of_nat (grants burstLib burst (t # ts)) :: rat) \<le> of_int burst" by (metis of_int_le_iff of_int_of_nat_eq)
    moreover have l: "NewLimiter burstLib rate burst = burst" by (simp add: burstLib_def)
    ultimately show ?thesis unfolding l by linarith
  qed
  then show ?thesis by (simp add: rateLaw_def)
qed

definition demoRequests :: "request list" where
  "demoRequests = map (\<lambda>t. (t, ''10.0.0.1:1'', 1)) [0, 1, 2, 3, 4, 5, 6] @ [(6, ''10.0.0.2:1'', 0)]"

theorem requests_limited_witness:
  "granted burstLib ''10.0.0.1:1'' demoRequests NewRateLimiter \<le> 5"
proof -
  have f: "filter (\<lambda>(_, ip', _). ip' = ''10.0.0.1:1'') demoRequests =
      (0, ''10.0.0.1:1'', 1) # map (\<lambda>t. (t, ''10.0.0.1:1'', 1)) [1, 2, 3, 4, 5, 6]"
    by (simp add: demoRequests_def)
  have t: "timesOf ''10.0.0.1:1'' demoRequests = [0, 1, 2, 3, 4, 5, 6]" by (simp add: timesOf_def demoRequests_def)
  have "(of_nat (granted burstLib ''10.0.0.1:1'' demoRequests NewRateLimiter) :: rat) < 6"
    using requests_limited[OF burstLib_law f] by (simp add: t PoolClient_def)
  then show ?thesis by simp
qed

end
