(* ===== verification/ChainState.thy ===== *)
theory ChainState
  imports Wire
begin

text \<open>
  The chain state (\<open>chainstate.go\<close>): what connected and disconnected blocks do to the
  accepted work, the jobs, the hash data and the payments of the pool. The state carries the
  database, the events signalled to the cache and the payment messages handed to goroutines;
  the daemon, the generation of payments and the clock are arguments.
\<close>

section \<open>State\<close>

record 'db ChainStateConfig =
  csD :: "'db Database"
  csSoloPool :: bool
  GeneratePayments :: "32 word \<Rightarrow> PaymentSource \<Rightarrow> int \<Rightarrow> 64 word \<Rightarrow> 'db dbop"
  GetBlock :: "hash \<Rightarrow> MsgBlock go"
  csGetBlockConfirmations :: "hash \<Rightarrow> int go"
  csRules :: TxRules
  csWire :: Wire
  csNow :: "nat \<Rightarrow> 64 word"

record 'db ChainState =
  lastWorkHeight :: "32 word"
  currentWork :: string
  csDb :: 'db
  csSignals :: "CacheUpdateEvent list"
  csPaymentMsgs :: "paymentMsg list"
  csTick :: nat

definition NewChainState :: "'db \<Rightarrow> 'db ChainState" where
  "NewChainState db = \<lparr>lastWorkHeight = 0, currentWork = [], csDb = db, csSignals = [],
     csPaymentMsgs = [], csTick = 0\<rparr>"

definition setLastWorkHeight :: "32 word \<Rightarrow> 'db ChainState \<Rightarrow> 'db ChainState" where
  "setLastWorkHeight height cs = cs\<lparr>lastWorkHeight := height\<rparr>"

definition fetchLastWorkHeight :: "'db ChainState \<Rightarrow> 32 word" where
  "fetchLastWorkHeight cs = lastWorkHeight cs"

definition setCurrentWork :: "string \<Rightarrow> 'db ChainState \<Rightarrow> 'db ChainState" where
  "setCurrentWork headerE cs = cs\<lparr>currentWork := headerE\<rparr>"

definition fetchCurrentWork :: "'db ChainState \<Rightarrow> string" where
  "fetchCurrentWork cs = currentWork cs"

type_synonym ('db, 'a) csop = "('db ChainState, goerror, 'a) comp"

text \<open>A write to the database, a call that reads it, and a call that needs no state.\<close>

definition cs_write :: "('db, goerror, 'a) comp \<Rightarrow> ('db, 'a) csop" where
  "cs_write c = (\<lambda>cs. case c (csDb cs) of (r, db) \<Rightarrow> (r, cs\<lparr>csDb := db\<rparr>))"

definition cs_read :: "('db \<Rightarrow> 'a go) \<Rightarrow> ('db, 'a) csop" where
  "cs_read f = readc (\<lambda>cs. f (csDb cs))"

definition cs_signal :: "CacheUpdateEvent \<Rightarrow> ('db, unit) csop" where
  "cs_signal event = modc (\<lambda>cs. cs\<lparr>csSignals := csSignals cs @ [event]\<rparr>)"

section \<open>Pruning\<close>

text \<open>
  The confirmations of a block that is not found are the zero the daemon's wrapper returns with
  that error.
\<close>

definition pruneWork :: "'db ChainStateConfig \<Rightarrow> AcceptedWork \<Rightarrow> ('db, unit) csop" where
  "pruneWork cfg work =
     bndc (liftc (NewHashFromStr (csRules cfg) (awBlockHash work))) (\<lambda>hash.
     bndc (liftc (case csGetBlockConfirmations cfg hash of
         Err err \<Rightarrow> if errors_is err BlockNotFound then Ok 0 else Err err
       | r \<Rightarrow> r)) (\<lambda>confs.
     if confs \<le> 0 then cs_write (db_deleteAcceptedWork (csD cfg) (awUUID work))
     else cs_write (db_updateAcceptedWork (csD cfg) (work\<lparr>awConfirmed := True\<rparr>))))"

definition pruneAcceptedWork :: "'db ChainStateConfig \<Rightarrow> 32 word \<Rightarrow> ('db, unit) csop" where
  "pruneAcceptedWork cfg height =
     bndc (cs_read (db_fetchUnconfirmedWork (csD cfg) height)) (\<lambda>toDelete.
     forc toDelete (pruneWork cfg))"

definition prunePayment :: "'db ChainStateConfig \<Rightarrow> Payment \<Rightarrow> ('db, unit) csop" where
  "prunePayment cfg payment =
     bndc (liftc (case pmSource payment of None \<Rightarrow> Panic | Some s \<Rightarrow> Ok (srcBlockHash s))) (\<lambda>blockHash.
     bndc (liftc (NewHashFromStr (csRules cfg) blockHash)) (\<lambda>hash.
     bndc (liftc (csGetBlockConfirmations cfg hash)) (\<lambda>confs.
     if confs \<le> 0 then cs_write (db_deletePayment (csD cfg) (pmUUID payment)) else retc ())))"

definition prunePayments :: "'db ChainStateConfig \<Rightarrow> 32 word \<Rightarrow> ('db, unit) csop" where
  "prunePayments cfg height =
     bndc (cs_write (db_fetchPaymentsAtHeight (csD cfg) height)) (\<lambda>toDelete.
     forc toDelete (prunePayment cfg))"

section \<open>Coinbases\<close>

definition isTreasuryActive :: "MsgTx \<Rightarrow> bool" where
  "isTreasuryActive tx = (if txVersion tx < TxVersionTreasury then False
     else if \<not> txIsCoinBase tx then False else True)"

definition coinbaseIndex :: "MsgTx \<Rightarrow> 32 word" where
  "coinbaseIndex tx = (if \<not> isTreasuryActive tx then 2 else 1)"

section \<open>Connected blocks\<close>

definition tenMinutes :: "64 word" where "tenMinutes = 600000000000"

text \<open>The pruning a block far enough from the genesis triggers.\<close>

definition pruneAll :: "'db ChainStateConfig \<Rightarrow> 32 word \<Rightarrow> ('db, unit) csop" where
  "pruneAll cfg height =
     (let pruneLimit = height - MaxReorgLimit in
      bndc (map_errc Wrapped (cs_write (db_deleteJobsBeforeHeight (csD cfg) pruneLimit))) (\<lambda>_.
      bndc (\<lambda>cs. map_errc Wrapped
          (cs_write (db_pruneHashData (csD cfg) (csNow cfg (csTick cs) - tenMinutes)))
          (cs\<lparr>csTick := Suc (csTick cs)\<rparr>)) (\<lambda>_.
      bndc (map_errc Wrapped (pruneAcceptedWork cfg pruneLimit)) (\<lambda>_.
      map_errc Wrapped (prunePayments cfg height)))))"

text \<open>The payments for a block confirmed as mined by the pool.\<close>

definition payForBlock :: "'db ChainStateConfig \<Rightarrow> string \<Rightarrow> MsgBlock \<Rightarrow> MsgTx \<Rightarrow> AcceptedWork
    \<Rightarrow> ('db, unit) csop" where
  "payForBlock cfg parentHash block coinbaseTx work =
     bndc (map_errc Wrapped (cs_read (db_pendingPaymentsForBlockHash (csD cfg) parentHash))) (\<lambda>count.
     if 0 < count then retc ()
     else let source = \<lparr>srcBlockHash = HashString (csRules cfg) (BlockHash (csWire cfg) (bkHeader block)),
                        srcCoinbase = HashString (csRules cfg) (txHash coinbaseTx)\<rparr>
          in bndc (liftc (index (txOuts coinbaseTx) (unat (coinbaseIndex coinbaseTx)))) (\<lambda>amt.
             cs_write (GeneratePayments cfg (Height (bkHeader block)) source amt (awCreatedOn work))))"

definition confirmParent :: "'db ChainStateConfig \<Rightarrow> BlockHeader \<Rightarrow> MsgBlock \<Rightarrow> MsgTx \<Rightarrow> ('db, unit) csop" where
  "confirmParent cfg header block coinbaseTx = (\<lambda>cs.
     let parentHeight = Height header - 1;
         parentHash = HashString (csRules cfg) (PrevBlock header);
         parentID = AcceptedWorkID parentHash parentHeight
     in case db_fetchAcceptedWork (csD cfg) parentID (csDb cs) of
          Err err \<Rightarrow> (if errors_is err ValueNotFound then Ok () else Err (Wrapped err), cs)
        | Panic \<Rightarrow> (Panic, cs)
        | Ok work \<Rightarrow>
            if awConfirmed work then (Ok (), cs)
            else bndc (map_errc Wrapped
                   (cs_write (db_updateAcceptedWork (csD cfg) (work\<lparr>awConfirmed := True\<rparr>)))) (\<lambda>_.
                 bndc (cs_signal Confirmed) (\<lambda>_.
                 if csSoloPool cfg then retc ()
                 else payForBlock cfg parentHash block coinbaseTx work)) cs)"

definition blockConnected :: "'db ChainStateConfig \<Rightarrow> bytes \<Rightarrow> ('db, unit) csop" where
  "blockConnected cfg msg = (case FromBytes (csWire cfg) msg of
       Err _ \<Rightarrow> retc ()
     | Panic \<Rightarrow> (\<lambda>cs. (Panic, cs))
     | Ok header \<Rightarrow>
         bndc (map_errc Wrapped (liftc (GetBlock cfg (PrevBlock header)))) (\<lambda>block.
         bndc (liftc (index (bkTransactions block) 0)) (\<lambda>coinbaseTx.
         bndc (modc (\<lambda>cs. if csSoloPool cfg then cs
             else cs\<lparr>csPaymentMsgs := csPaymentMsgs cs @
               [\<lparr>CurrentHeight = Height header, CoinbaseIndex = coinbaseIndex coinbaseTx\<rparr>]\<rparr>)) (\<lambda>_.
         bndc (if MaxReorgLimit < Height header then pruneAll cfg (Height header) else retc ()) (\<lambda>_.
         confirmParent cfg header block coinbaseTx)))))"

section \<open>Disconnected blocks\<close>

definition unconfirmWork :: "'db ChainStateConfig \<Rightarrow> AcceptedWork \<Rightarrow> ('db, unit) csop" where
  "unconfirmWork cfg work =
     map_errc Wrapped (cs_write (db_updateAcceptedWork (csD cfg) (work\<lparr>awConfirmed := False\<rparr>)))"

definition blockDisconnected :: "'db ChainStateConfig \<Rightarrow> bytes \<Rightarrow> ('db, unit) csop" where
  "blockDisconnected cfg msg = (case FromBytes (csWire cfg) msg of
       Err _ \<Rightarrow> retc ()
     | Panic \<Rightarrow> (\<lambda>cs. (Panic, cs))
     | Ok header \<Rightarrow>
         (let parentHash = HashString (csRules cfg) (PrevBlock header);
              parentID = AcceptedWorkID parentHash (Height header - 1);
              blockHash = HashString (csRules cfg) (BlockHash (csWire cfg) header);
              blockID = AcceptedWorkID blockHash (Height header)
          in bndc (\<lambda>cs. case db_fetchAcceptedWork (csD cfg) parentID (csDb cs) of
                 Err err \<Rightarrow> (if errors_is err ValueNotFound then Ok () else Err (Wrapped err), cs)
               | Panic \<Rightarrow> (Panic, cs)
               | Ok confirmedWork \<Rightarrow> unconfirmWork cfg confirmedWork cs) (\<lambda>_ cs.
             case db_fetchAcceptedWork (csD cfg) blockID (csDb cs) of
                 Err err \<Rightarrow> (if errors_is err ValueNotFound then Ok () else Err (Wrapped err), cs)
               | Panic \<Rightarrow> (Panic, cs)
               | Ok work \<Rightarrow> bndc (unconfirmWork cfg work) (\<lambda>_. cs_signal Unconfirmed) cs)))"

section \<open>The handler\<close>

text \<open>
  \<open>handleChainUpdates\<close> takes the notifications one at a time; which of the ready channels a
  \<open>select\<close> takes is open, so a list of events is one run. The result is \<open>None\<close> while it
  still waits, and the number of notifications whose channel \<open>Done\<close> has been closed.
\<close>

datatype chainEvent = CtxDone | BlockConn bytes | BlockDisc bytes

fun handleChainUpdates :: "'db ChainStateConfig \<Rightarrow> chainEvent list \<Rightarrow> nat \<Rightarrow> 'db ChainState
    \<Rightarrow> unit go option \<times> nat \<times> 'db ChainState" where
  "handleChainUpdates cfg [] nclosed cs = (None, nclosed, cs)"
| "handleChainUpdates cfg (CtxDone # evs) nclosed cs = (Some (Ok ()), nclosed, cs)"
| "handleChainUpdates cfg (BlockConn header # evs) nclosed cs =
     (case blockConnected cfg header cs of
        (Ok _, cs) \<Rightarrow> handleChainUpdates cfg evs (Suc nclosed) cs
      | (Err err, cs) \<Rightarrow> (Some (Err err), Suc nclosed, cs)
      | (Panic, cs) \<Rightarrow> (Some Panic, nclosed, cs))"
| "handleChainUpdates cfg (BlockDisc header # evs) nclosed cs =
     (case blockDisconnected cfg header cs of
        (Ok _, cs) \<Rightarrow> handleChainUpdates cfg evs (Suc nclosed) cs
      | (Err err, cs) \<Rightarrow> (Some (Err err), Suc nclosed, cs)
      | (Panic, cs) \<Rightarrow> (Some Panic, nclosed, cs))"

end
