(* ===== verification/Client.thy ===== *)
theory Client
  imports MinerID ChainState
begin

text \<open>
  The pool side of a mining connection (\<open>client.go\<close>): authorization, subscription, work
  submission, work notification and the periodic tasks of a client. The goroutines of a client
  share its state; every handler, and every tick of a periodic task, is one operation on that
  state. What is handed to the channel \<open>c.ch\<close> is the queue \<open>cOut\<close>, what the
  sending goroutine has encoded is \<open>cSent\<close>. The node, the clock, the request limiter and
  the text of an error are arguments.
\<close>

section \<open>State\<close>

record 'db ClientConfig =
  ccNet :: Params
  ccDb :: "'db Database"
  ccSoloPool :: bool
  NonceIterations :: rat
  FetchMinerDifficulty :: "string \<Rightarrow> DifficultyInfo go"
  SubmitWork :: "string \<Rightarrow> bool go"
  FetchCurrentWork :: "nat \<Rightarrow> string"
  HashCalcThreshold :: int
  ccMaxGenTime :: int
  MonitorCycle :: int
  MaxUpgradeTries :: "32 word"
  ccWire :: Wire
  ccRules :: TxRules
  ccEnv :: Env
  ccBlake256 :: "bytes \<Rightarrow> bytes"
  ccErrText :: "goerror \<Rightarrow> string"

record 'db Client =
  submissions :: int
  lastWorkTime :: int
  cMiner :: string
  cId :: string
  diffInfo :: "DifficultyInfo option"
  cAddr :: string
  extraNonce1 :: string
  cAccount :: string
  cName :: string
  authorized :: bool
  subscribed :: bool
  hashRate :: rat
  cCancelled :: bool
  cOut :: "Message list"
  cSent :: "json list"
  cSignals :: "CacheUpdateEvent list"
  cDb :: 'db
  cTick :: nat

type_synonym ('db, 'a) clop = "('db Client, goerror, 'a) comp"

definition zeroHashString :: string where "zeroHashString = replicate 64 CHR ''0''"

definition defaultAccountID :: "(bytes \<Rightarrow> bytes) \<Rightarrow> string" where
  "defaultAccountID blake256 = AccountID blake256 zeroHashString"

definition mainNetName :: string where "mainNetName = ''mainnet''"

definition NewClient :: "bytes \<Rightarrow> string \<Rightarrow> 'db \<Rightarrow> nat \<Rightarrow> 'db Client" where
  "NewClient random addr db tick = \<lparr>submissions = 0, lastWorkTime = 0, cMiner = [], cId = [], diffInfo = None,
     cAddr = addr, extraNonce1 = EncodeToString random, cAccount = [], cName = [], authorized = False,
     subscribed = False, hashRate = 0, cCancelled = False, cOut = [], cSent = [], cSignals = [], cDb = db,
     cTick = tick\<rparr>"

text \<open>\<open>c.cancel()\<close>; a message sent after it is not delivered.\<close>

definition cancelClient :: "'db Client \<Rightarrow> 'db Client" where
  "cancelClient c = c\<lparr>cCancelled := True\<rparr>"

definition sendMessage :: "Message \<Rightarrow> ('db, unit) clop" where
  "sendMessage msg = modc (\<lambda>c. if cCancelled c then c else c\<lparr>cOut := cOut c @ [msg]\<rparr>)"

text \<open>A write to the database, a read of it, and a reading of the clock.\<close>

definition cl_write :: "('db, goerror, 'a) comp \<Rightarrow> ('db, 'a) clop" where
  "cl_write op = (\<lambda>c. case op (cDb c) of (r, db) \<Rightarrow> (r, c\<lparr>cDb := db\<rparr>))"

definition cl_read :: "('db \<Rightarrow> 'a go) \<Rightarrow> ('db, 'a) clop" where
  "cl_read f = readc (\<lambda>c. f (cDb c))"

definition cl_now :: "'db ClientConfig \<Rightarrow> ('db, 64 word) clop" where
  "cl_now cfg = (\<lambda>c. (Ok (eNow (ccEnv cfg) (cTick c)), c\<lparr>cTick := Suc (cTick c)\<rparr>))"

definition nanosPerSec :: int where "nanosPerSec = 1000000000"

text \<open>\<open>time.Now().Unix()\<close> of a clock reading.\<close>

definition unixSecs :: "64 word \<Rightarrow> int" where
  "unixSecs now = sint now div nanosPerSec"

definition FetchHashRate :: "'db Client \<Rightarrow> rat" where "FetchHashRate c = hashRate c"
definition FetchIPAddr :: "'db Client \<Rightarrow> string" where "FetchIPAddr c = cAddr c"
definition FetchMinerType :: "'db Client \<Rightarrow> string" where "FetchMinerType c = cMiner c"
definition FetchAccountID :: "'db Client \<Rightarrow> string" where "FetchAccountID c = cAccount c"

definition setHashRate :: "rat \<Rightarrow> 'db Client \<Rightarrow> 'db Client" where
  "setHashRate hash c = c\<lparr>hashRate := (hashRate c + hash) / 2\<rparr>"

section \<open>Replies\<close>

text \<open>\<open>*req.ID\<close> of a request without an identifier is a nil dereference.\<close>

definition derefID :: "Request \<Rightarrow> 64 word go" where
  "derefID req = (case reqID req of None \<Rightarrow> Panic | Some n \<Rightarrow> Ok n)"

definition reply :: "Request \<Rightarrow> (64 word \<Rightarrow> Response) \<Rightarrow> ('db, unit) clop" where
  "reply req mk = bndc (liftc (derefID req)) (\<lambda>n. sendMessage (MResp (mk n)))"

text \<open>A reply followed by the return of an error.\<close>

definition refuse :: "Request \<Rightarrow> (64 word \<Rightarrow> Response) \<Rightarrow> goerror \<Rightarrow> ('db, 'a) clop" where
  "refuse req mk err = bndc (reply req mk) (\<lambda>_. failc err)"

definition unknownErr :: "string \<Rightarrow> StratumError option" where
  "unknownErr text = Some (NewStratumError Unknown (Some text))"

text \<open>A call whose error is sent to the client and returned.\<close>

definition orRefuse :: "'db ClientConfig \<Rightarrow> Request \<Rightarrow> (64 word \<Rightarrow> StratumError option \<Rightarrow> Response)
    \<Rightarrow> ('db, 'a) clop \<Rightarrow> ('db, 'a) clop" where
  "orRefuse cfg req mk m = (\<lambda>c. case m c of
     (Err err, c') \<Rightarrow> refuse req (\<lambda>n. mk n (unknownErr (ccErrText cfg err))) err c'
   | r \<Rightarrow> r)"

section \<open>Authorization\<close>

text \<open>\<open>strings.TrimSpace\<close>: the encodings of the characters Unicode calls white space.\<close>

definition spaces :: "string list" where
  "spaces = map (map char_of) ([[9], [10], [11], [12], [13], [32], [194, 133], [194, 160], [225, 154, 128]] @
     map (\<lambda>n. [226, 128, n]) ([128..<139] @ [168, 169, 175]) @ [[226, 129, 159], [227, 128, 128]] :: nat list list)"

function trimLeft :: "string list \<Rightarrow> string \<Rightarrow> string" where
  "trimLeft sp s = (case find (\<lambda>p. p \<noteq> [] \<and> take (length p) s = p) sp of
     None \<Rightarrow> s | Some p \<Rightarrow> trimLeft sp (drop (length p) s))"
  by pat_completeness auto
termination
proof (relation "measure (\<lambda>(sp, s). length s)", goal_cases)
  case (2 sp s p)
  then have "p \<noteq> []" "take (length p) s = p" by (auto simp: find_Some_iff)
  then have "s \<noteq> []" "0 < length p" by auto
  then show ?case by simp
qed simp

declare trimLeft.simps [simp del]

definition TrimSpace :: "string \<Rightarrow> string" where
  "TrimSpace s = rev (trimLeft (map rev spaces) (rev (trimLeft spaces s)))"

definition authAccount :: "'db ClientConfig \<Rightarrow> Request \<Rightarrow> string \<Rightarrow> ('db, unit) clop" where
  "authAccount cfg req username =
     (let parts = splitOn CHR ''.'' username in
      if length parts \<noteq> 2 then
        refuse req (\<lambda>n. AuthorizeResponse n False
            (unknownErr (''invalid username format, expected `address.clientid`, got '' @ username))) (MsgError Parse)
      else let name = TrimSpace (parts ! 1); address = TrimSpace (parts ! 0) in
        bndc (orRefuse cfg req (\<lambda>n. AuthorizeResponse n False) (liftc (DecodeAddress (ccRules cfg) address))) (\<lambda>_.
        let account = NewAccount (ccBlake256 cfg) address in
        bndc (orRefuse cfg req (\<lambda>n. AuthorizeResponse n False)
          (bndc (cl_now cfg) (\<lambda>now c. case cl_write (db_persistAccount (ccDb cfg) account now) c of
             (Err err, c') \<Rightarrow> (if errors_is err ValueFound then Ok () else Err err, c')
           | r \<Rightarrow> r))) (\<lambda>_.
        modc (\<lambda>c. c\<lparr>cAccount := acUUID account, cName := name\<rparr>))))"

definition handleAuthorizeRequest :: "'db ClientConfig \<Rightarrow> Request \<Rightarrow> bool \<Rightarrow> ('db, unit) clop" where
  "handleAuthorizeRequest cfg req allowed =
     (if \<not> allowed then
        refuse req (\<lambda>n. AuthorizeResponse n False
          (unknownErr ''unable to process authorize request, client request limit reached'')) (PoolError LimitExceeded)
      else
        bndc (orRefuse cfg req (\<lambda>n. AuthorizeResponse n False) (liftc (ParseAuthorizeRequest req))) (\<lambda>username.
        bndc (if \<not> ccSoloPool cfg then authAccount cfg req username
              else modc (\<lambda>c. c\<lparr>cAccount := defaultAccountID (ccBlake256 cfg), cName := username\<rparr>)) (\<lambda>_.
        bndc (modc (\<lambda>c. c\<lparr>authorized := True\<rparr>)) (\<lambda>_.
        reply req (\<lambda>n. AuthorizeResponse n True None)))))"

section \<open>Subscription\<close>

text \<open>
  The monitor a subscription starts is returned: the index of the client and the candidates.
\<close>

definition handleSubscribeRequest :: "'db ClientConfig \<Rightarrow> Request \<Rightarrow> bool \<Rightarrow> ('db, nat \<times> string list) clop" where
  "handleSubscribeRequest cfg req allowed =
     (let refusal = (\<lambda>n. SubscribeResponse n [] [] 0) in
      if \<not> allowed then
        refuse req (\<lambda>n. refusal n (unknownErr ''unable to process subscribe request, client request limit reached''))
          (PoolError LimitExceeded)
      else
        bndc (orRefuse cfg req refusal (liftc (ParseSubscribeRequest req))) (\<lambda>(userAgent, nid).
        bndc (map_errc (\<lambda>_. PoolError MinerUnknown)
          (orRefuse cfg req refusal (liftc (identifyMiningClients userAgent)))) (\<lambda>clients.
        bndc (liftc (index clients 0)) (\<lambda>miner.
        bndc (orRefuse cfg req refusal (liftc (FetchMinerDifficulty cfg miner))) (\<lambda>info.
        bndc (modc (\<lambda>c. c\<lparr>cMiner := miner, cId := extraNonce1 c @ ''/'' @ miner, diffInfo := Some info\<rparr>)) (\<lambda>_.
        bndc (modc (\<lambda>c. c\<lparr>subscribed := True\<rparr>)) (\<lambda>_ c.
        bndc (reply req (\<lambda>n. SubscribeResponse n (if nid = [] then ''mn'' @ extraNonce1 c else nid) (extraNonce1 c)
          ExtraNonce2Size None)) (\<lambda>_. retc (0, clients)) c)))))))"

definition handleExtraNonceSubscribeRequest :: "'db ClientConfig \<Rightarrow> Request \<Rightarrow> bool \<Rightarrow> ('db, unit) clop" where
  "handleExtraNonceSubscribeRequest cfg req allowed =
     (let refusal = (\<lambda>n. SubscribeResponse n [] [] 0) in
      if \<not> allowed then
        refuse req (\<lambda>n. refusal n
          (unknownErr ''unable to process extranonce subscribe request,client request limit reached''))
          (PoolError LimitExceeded)
      else
        bndc (orRefuse cfg req refusal (liftc (ParseExtraNonceSubscribeRequest req))) (\<lambda>_.
        reply req ExtraNonceSubscribeResponse))"

definition setDifficulty :: "('db, unit) clop" where
  "setDifficulty = (\<lambda>c. case diffInfo c of None \<Rightarrow> (Ok (), c)
     | Some info \<Rightarrow> sendMessage (MReq (SetDifficultyNotification (diDifficulty info))) c)"

section \<open>Work submission\<close>

text \<open>
  The weight of a miner that is not in the table is nil, which a share record cannot hold; the
  clients that reach this point have a miner that is.
\<close>

definition claimWeightedShare :: "'db ClientConfig \<Rightarrow> ('db, unit) clop" where
  "claimWeightedShare cfg = (\<lambda>c.
     if ccSoloPool cfg then (Err (PoolError ClaimShare), c)
     else let miner = cMiner c in
       if netName (ccNet cfg) = mainNetName \<and> miner = CPU then (Err (PoolError ClaimShare), c)
       else case map_of (ShareWeights (ccEnv cfg)) miner of
         None \<Rightarrow> (Panic, c)
       | Some weight \<Rightarrow>
           bndc (cl_now cfg) (\<lambda>now c'.
             cl_write (db_PersistShare (ccDb cfg)
               (NewShare (FetchAccountID c') weight now (eRand (ccEnv cfg) (cTick c)))) c') c)"

definition blake3BlkSize :: nat where "blake3BlkSize = 64"

definition getworkDataLenBlake3 :: nat where
  "getworkDataLenBlake3 = ((MaxBlockHeaderPayload + (blake3BlkSize - 1)) div blake3BlkSize) * blake3BlkSize"

definition submissionData :: "bytes \<Rightarrow> string" where
  "submissionData headerB = (let b = take MaxBlockHeaderPayload headerB in
     EncodeToString (b @ replicate (getworkDataLenBlake3 - length b) (char_of (0 :: nat))))"

text \<open>The work accepted by the node is recorded.\<close>

definition recordWork :: "'db ClientConfig \<Rightarrow> Request \<Rightarrow> BlockHeader \<Rightarrow> string \<Rightarrow> ('db, unit) clop" where
  "recordWork cfg req header miner =
     bndc (cl_now cfg) (\<lambda>now c.
       let work = NewAcceptedWork (HashString (ccRules cfg) (BlockHash (ccWire cfg) header))
             (HashString (ccRules cfg) (PrevBlock header)) (Height header) (FetchAccountID c) miner now in
       case cl_write (db_persistAcceptedWork (ccDb cfg) work) c of
         (Err err, c') \<Rightarrow>
           if errors_is err ValueFound then
             refuse req (\<lambda>n. SubmitWorkResponse n False
               (Some (NewStratumError DuplicateShare (Some (ccErrText cfg err))))) err c'
           else refuse req (\<lambda>n. SubmitWorkResponse n False (unknownErr (ccErrText cfg err))) err c'
       | (Ok _, c') \<Rightarrow> reply req (\<lambda>n. SubmitWorkResponse n True None) c'
       | (Panic, c') \<Rightarrow> (Panic, c'))"

text \<open>Work below the network target is sent to the node.\<close>

definition submitBlock :: "'db ClientConfig \<Rightarrow> Request \<Rightarrow> BlockHeader \<Rightarrow> string \<Rightarrow> ('db, unit) clop" where
  "submitBlock cfg req header miner =
     (let refusal = (\<lambda>n. SubmitWorkResponse n False) in
      bndc (orRefuse cfg req refusal (liftc (HeaderBytes (ccWire cfg) header))) (\<lambda>headerB.
      bndc (orRefuse cfg req refusal (liftc (SubmitWork cfg (submissionData headerB)))) (\<lambda>accepted.
      if \<not> accepted then refuse req (\<lambda>n. SubmitWorkResponse n False None) (PoolError WorkRejected)
      else recordWork cfg req header miner)))"

text \<open>A weighted share is claimed for the work, unless the pool is solo.\<close>

definition claimShare :: "'db ClientConfig \<Rightarrow> Request \<Rightarrow> string \<Rightarrow> ('db, unit) clop" where
  "claimShare cfg req clientID =
     (if ccSoloPool cfg then retc ()
      else (\<lambda>c. case claimWeightedShare cfg c of
          (Err err, c') \<Rightarrow> refuse req (\<lambda>n. SubmitWorkResponse n False
             (unknownErr (clientID @ '': '' @ ccErrText cfg err))) (PoolError ClaimShare) c'
        | (Panic, c') \<Rightarrow> (Panic, c')
        | (Ok _, c') \<Rightarrow> (Ok (), c'\<lparr>cSignals := cSignals c' @ [ClaimedShare]\<rparr>)))"

definition handleSubmitWorkRequest :: "'db ClientConfig \<Rightarrow> Request \<Rightarrow> bool \<Rightarrow> ('db, unit) clop" where
  "handleSubmitWorkRequest cfg req allowed =
     (let refusal = (\<lambda>n. SubmitWorkResponse n False) in
      if \<not> allowed then
        refuse req (\<lambda>n. refusal n (unknownErr ''unable to process submit work request, client request limit reached''))
          (PoolError LimitExceeded)
      else (\<lambda>c. case diffInfo c of None \<Rightarrow> (Panic, c) | Some info \<Rightarrow>
        let clientID = cId c; miner = cMiner c; powLimit = diPowLimit info; tgt = diTarget info in
        bndc (orRefuse cfg req refusal (liftc (ParseSubmitWorkRequest req))) (\<lambda>(_, jobId, extraNonce2E, nTimeE, nonceE).
        bndc (orRefuse cfg req refusal (cl_read (db_fetchJob (ccDb cfg) jobId))) (\<lambda>job.
        bndc (orRefuse cfg req refusal (liftc (GenerateSolvedBlockHeader (ccWire cfg) (jbHeader job) (extraNonce1 c)
          extraNonce2E nTimeE nonceE miner))) (\<lambda>header.
        let target = of_int (CompactToBig (ccWire cfg) (Bits header)) :: rat in
        if target \<le> 0 then
          refuse req (\<lambda>n. refusal n (unknownErr (ccErrText cfg (PoolError LowDifficulty)))) (PoolError LowDifficulty)
        else let hashTarget = of_int (HashToBig (ccWire cfg) (PowHashV2 (ccWire cfg) header)) :: rat in
          bndc (liftc (quo powLimit target)) (\<lambda>_.
          bndc (liftc (quo powLimit hashTarget)) (\<lambda>_.
          if tgt < hashTarget then
            refuse req (\<lambda>n. refusal n (Some (NewStratumError LowDifficultyShare
              (Some (ccErrText cfg (PoolError PoolDifficulty)))))) (PoolError PoolDifficulty)
          else
            bndc (modc (\<lambda>c. c\<lparr>submissions := i64 (submissions c + 1)\<rparr>)) (\<lambda>_.
            bndc (claimShare cfg req clientID) (\<lambda>_.
            if target < hashTarget then
              refuse req (\<lambda>n. SubmitWorkResponse n True None) (PoolError NetworkDifficulty)
            else submitBlock cfg req header miner))))))) c))"

section \<open>Work updates\<close>

text \<open>The current work with the time of the clock at its place.\<close>

definition rollTimestamp :: "64 word \<Rightarrow> string \<Rightarrow> string go" where
  "rollTimestamp now currWorkE =
     bnd (slice 0 272 currWorkE) (\<lambda>before.
     bnd (slice 280 (length currWorkE) currWorkE) (\<lambda>after.
     Ok (before @ EncodeToString (le32 (of_int (unixSecs now))) @ after)))"

text \<open>The parts of a work that a notification carries: version, previous block, generation transaction, bits and time.\<close>

definition notifyParts :: "string \<Rightarrow> (string \<times> string \<times> string \<times> string \<times> string) go" where
  "notifyParts workE =
     bnd (slice 0 8 workE) (\<lambda>blockVersion.
     bnd (slice 8 72 workE) (\<lambda>prevBlock.
     bnd (slice 72 360 workE) (\<lambda>genTx1.
     bnd (slice 232 240 workE) (\<lambda>nBits.
     bnd (slice 272 280 workE) (\<lambda>nTime.
     Ok (blockVersion, prevBlock, genTx1, nBits, nTime))))))"

definition issueJob :: "'db ClientConfig \<Rightarrow> string \<Rightarrow> 32 word \<Rightarrow> string \<times> string \<times> string \<times> string \<times> string
    \<Rightarrow> bool \<Rightarrow> ('db, unit) clop" where
  "issueJob cfg workE height = (\<lambda>(blockVersion, prevBlock, genTx1, nBits, nTime) cleanJob.
     bndc (cl_now cfg) (\<lambda>now c.
       let job = NewJob workE height now in
       case cl_write (db_persistJob (ccDb cfg) job) c of
         (Ok _, c') \<Rightarrow> sendMessage (MReq (WorkNotification (jbUUID job) prevBlock genTx1 blockVersion nBits nTime cleanJob)) c'
       | (Err _, c') \<Rightarrow> (Ok (), c')
       | (Panic, c') \<Rightarrow> (Panic, c')))"

definition updateWork :: "'db ClientConfig \<Rightarrow> bool \<Rightarrow> ('db, unit) clop" where
  "updateWork cfg cleanJob = (\<lambda>c.
     if \<not> subscribed c \<or> \<not> authorized c then (Ok (), c)
     else let currWorkE = FetchCurrentWork cfg (cTick c) in
       if currWorkE = [] then (Ok (), c)
       else bndc (cl_now cfg) (\<lambda>now.
         bndc (liftc (rollTimestamp now currWorkE)) (\<lambda>updatedWorkE.
         bndc (liftc (notifyParts updatedWorkE)) (\<lambda>parts.
         bndc (liftc (slice 256 264 updatedWorkE)) (\<lambda>heightE.
         case DecodeString heightE of
           Ok heightD \<Rightarrow> bndc (liftc (le32_val heightD)) (\<lambda>height. issueJob cfg updatedWorkE height parts cleanJob)
         | Err _ \<Rightarrow> retc ()
         | Panic \<Rightarrow> (\<lambda>c. (Panic, c)))))) c)"

text \<open>One tick of \<open>rollWork\<close>.\<close>

definition rollWork :: "'db ClientConfig \<Rightarrow> ('db, unit) clop" where
  "rollWork cfg = (\<lambda>c.
     if lastWorkTime c = 0 then (Ok (), c)
     else bndc (cl_now cfg) (\<lambda>now.
       if ccMaxGenTime cfg * 2 \<le> sint now - lastWorkTime c * nanosPerSec then updateWork cfg False else retc ()) c)"

section \<open>Miner upgrades and hash rates\<close>

record monitorState =
  moIdx :: nat
  moSubs :: "32 word"
  moTries :: "32 word"

text \<open>
  One tick of \<open>monitor\<close>; the result is \<open>None\<close> when monitoring ends. It is started only
  for more than one candidate.
\<close>

definition monitor :: "'db ClientConfig \<Rightarrow> string list \<Rightarrow> monitorState \<Rightarrow> ('db, monitorState option) clop" where
  "monitor cfg clients st = (\<lambda>c.
     if length clients \<le> 1 then (Ok None, c)
     else if ccMaxGenTime cfg = 0 then (Panic, c)
     else let expected = f64_of_int (trunc0 (of_int (MonitorCycle cfg) / of_int (ccMaxGenTime cfg))) in
       if moIdx st = length clients - 1 then (Ok None, c)
       else if moTries st = MaxUpgradeTries cfg then (Ok None, c)
       else let subs = of_int (submissions c) - moSubs st;
                delta = f64 (f64_of_int (uint subs) - expected) in
         if delta < 0 \<or> delta < f64_mul expected (f64 (3 / 10)) then
           (Ok (Some (st\<lparr>moSubs := subs, moTries := moTries st + 1\<rparr>)), c)
         else
           bndc (liftc (index clients (Suc (moIdx st)))) (\<lambda>miner.
           case FetchMinerDifficulty cfg miner of
             Err _ \<Rightarrow> retc (Some \<lparr>moIdx = Suc (moIdx st), moSubs = subs, moTries = moTries st + 1\<rparr>)
           | Panic \<Rightarrow> (\<lambda>c. (Panic, c))
           | Ok info \<Rightarrow>
               bndc (modc (\<lambda>c. c\<lparr>cMiner := miner, cId := extraNonce1 c @ ''/'' @ miner, diffInfo := Some info\<rparr>)) (\<lambda>_.
               bndc setDifficulty (\<lambda>_.
               bndc (updateWork cfg True) (\<lambda>_.
               retc (Some \<lparr>moIdx = Suc (moIdx st), moSubs = subs, moTries = 0\<rparr>))))) c)"

text \<open>One tick of \<open>hashMonitor\<close>, with the submissions and cycles it has counted.\<close>

definition storeHashRate :: "'db ClientConfig \<Rightarrow> rat \<Rightarrow> ('db, unit) clop" where
  "storeHashRate cfg hash = (\<lambda>c.
     let miner = cMiner c; account = FetchAccountID c; hashID = hashDataID account (extraNonce1 c) in
     case db_fetchHashData (ccDb cfg) hashID (cDb c) of
       Err err \<Rightarrow>
         if errors_is err ValueNotFound then
           bndc (cl_now cfg) (\<lambda>now c. case cl_write (db_persistHashData (ccDb cfg)
               (newHashData miner account (cAddr c) (extraNonce1 c) hash now)) c of
               (Panic, c') \<Rightarrow> (Panic, c') | (_, c') \<Rightarrow> (Ok (), c')) c
         else (Ok (), cancelClient c)
     | Panic \<Rightarrow> (Panic, c)
     | Ok hashData \<Rightarrow>
         bndc (cl_now cfg) (\<lambda>now c. case cl_write (db_updateHashData (ccDb cfg)
             (hashData\<lparr>hdHashRate := hash, hdUpdatedOn := now\<rparr>)) c of
             (Panic, c') \<Rightarrow> (Panic, c') | (_, c') \<Rightarrow> (Ok (), c')) c)"

definition hashMonitor :: "'db ClientConfig \<Rightarrow> int \<times> int \<Rightarrow> ('db, int \<times> int) clop" where
  "hashMonitor cfg = (\<lambda>(subs, cycle) c.
     let cycle = i64 (cycle + 1) in
     if submissions c = 0 then (Ok (subs, cycle), c)
     else case diffInfo c of None \<Rightarrow> (Ok (subs, cycle), c) | Some info \<Rightarrow>
       let delta = i64 (submissions c - subs) in
       if delta = 0 then (Ok (subs, cycle), c)
       else let secs = f64_of_int (trunc0 (of_int (HashCalcThreshold cfg) / of_int nanosPerSec));
                average = f64_div (f64_mul secs (f64_of_int cycle)) (f64_of_int delta);
                num = diDifficulty info * NonceIterations cfg in
         bndc (liftc (quo num average)) (\<lambda>hash.
         bndc (modc (setHashRate hash)) (\<lambda>_.
         bndc (storeHashRate cfg hash) (\<lambda>_. retc (submissions c, 0)))) c)"

section \<open>Receiving and sending\<close>

text \<open>
  What \<open>read\<close> does with a line: \<open>None\<close> is a failed read. The message it passes on, or
  nothing when the connection is cancelled.
\<close>

definition readLine :: "json option option \<Rightarrow> ('db, (Message \<times> nat) option) clop" where
  "readLine line = (\<lambda>c. case line of
     None \<Rightarrow> (Ok None, cancelClient c)
   | Some data \<Rightarrow> (case IdentifyMessage data of
       Ok payload \<Rightarrow> (Ok (Some payload), c)
     | Err _ \<Rightarrow> (Ok None, cancelClient c)
     | Panic \<Rightarrow> (Panic, c)))"

text \<open>
  One message taken by \<open>process\<close>. Errors are logged; a message that is no known request
  cancels the connection. The result is the monitor a subscription starts.
\<close>

definition logged :: "('db, 'a) clop \<Rightarrow> ('db, 'a option) clop" where
  "logged m = (\<lambda>c. case m c of
     (Ok x, c') \<Rightarrow> (Ok (Some x), c') | (Err _, c') \<Rightarrow> (Ok None, c') | (Panic, c') \<Rightarrow> (Panic, c'))"

definition processRequest :: "'db ClientConfig \<Rightarrow> Request \<Rightarrow> bool \<Rightarrow> ('db, (nat \<times> string list) option) clop" where
  "processRequest cfg req allowed =
     (if Method req = Authorize then
        bndc (logged (handleAuthorizeRequest cfg req allowed)) (\<lambda>r.
        if r \<noteq> None \<and> allowed then
          bndc setDifficulty (\<lambda>_. bndc (updateWork cfg True) (\<lambda>_. retc None))
        else retc None)
      else if Method req = Subscribe then logged (handleSubscribeRequest cfg req allowed)
      else if Method req = ExtraNonceSubscribe then
        bndc (logged (handleExtraNonceSubscribeRequest cfg req allowed)) (\<lambda>_. retc None)
      else if Method req = Submit then
        bndc (logged (handleSubmitWorkRequest cfg req allowed)) (\<lambda>_. retc None)
      else bndc (modc cancelClient) (\<lambda>_. retc None))"

definition process :: "'db ClientConfig \<Rightarrow> Message \<times> nat \<Rightarrow> bool \<Rightarrow> ('db, (nat \<times> string list) option) clop" where
  "process cfg payload allowed =
     (case payload of (msg, msgType) \<Rightarrow>
       if msgType = RequestMessage then
         (case msg of MReq req \<Rightarrow> processRequest cfg req allowed | MResp _ \<Rightarrow> (\<lambda>c. (Panic, c)))
       else bndc (modc cancelClient) (\<lambda>_. retc None))"

text \<open>One message taken by \<open>send\<close>; encoding it succeeds or fails.\<close>

definition sendWorkDefault :: "'db ClientConfig \<Rightarrow> Request \<Rightarrow> bool \<Rightarrow> ('db, unit) clop" where
  "sendWorkDefault cfg req encodes =
     (if encodes then
        bndc (modc (\<lambda>c. c\<lparr>cSent := cSent c @ [marshalRequest req]\<rparr>)) (\<lambda>_.
        bndc (cl_now cfg) (\<lambda>now. modc (\<lambda>c. c\<lparr>lastWorkTime := unixSecs now\<rparr>)))
      else modc cancelClient)"

definition encodeMessage :: "Message \<Rightarrow> bool \<Rightarrow> 'db Client \<Rightarrow> 'db Client" where
  "encodeMessage msg encodes c =
     (if encodes then c\<lparr>cSent := cSent c @ [marshalMessage msg]\<rparr> else cancelClient c)"

definition sendOne :: "'db ClientConfig \<Rightarrow> Message \<Rightarrow> bool \<Rightarrow> ('db, unit) clop" where
  "sendOne cfg msg encodes = (\<lambda>c. case msg of
     MResp _ \<Rightarrow> (Ok (), encodeMessage msg encodes c)
   | MReq req \<Rightarrow>
       if Method req = Notify then
         (if \<not> authorized c \<or> \<not> subscribed c then (Ok (), c)
          else if cMiner c \<in> {CPU, Gominer, NiceHashValidator} then sendWorkDefault cfg req encodes c
          else (Ok (), cancelClient c))
       else (Ok (), encodeMessage msg encodes c))"

definition send :: "'db ClientConfig \<Rightarrow> bool \<Rightarrow> ('db, unit) clop" where
  "send cfg encodes = (\<lambda>c. case cOut c of [] \<Rightarrow> (Ok (), c)
     | msg # rest \<Rightarrow> sendOne cfg msg encodes (c\<lparr>cOut := rest\<rparr>))"

end
