(* ===== verification/PayFees.thy ===== *)
theory PayFees
  imports PayShares
begin

text \<open>
  The transaction fee of a payout: the proportional shares computed in \<open>float64\<close>, and the
  leftover atoms, add up to the fee exactly.
\<close>

section \<open>Proportional shares\<close>

lemma f64_of_int_exact: "0 \<le> n \<Longrightarrow> n < 2 ^ 53 \<Longrightarrow> f64_of_int n = of_int n"
  by (simp add: f64_of_int_def f64_def)

lemma rnd_bounds:
  assumes "0 \<le> x"
  shows "x * (1 - 1 / 2 ^ 53) \<le> f64 x" "f64 x \<le> x * (1 + 1 / 2 ^ 53)"
proof -
  have "rnd 53 x - x \<le> x / 2 ^ 53" "- (rnd 53 x - x) \<le> x / 2 ^ 53"
    using rnd_error[OF assms, of 53] by (simp_all only: abs_le_iff)
  then show "x * (1 - 1 / 2 ^ 53) \<le> f64 x" "f64 x \<le> x * (1 + 1 / 2 ^ 53)"
    by (simp_all add: f64_def field_simps)
qed

lemma proportional_product:
  assumes "0 \<le> F" "F < 2 ^ 50" "0 \<le> v" "v \<le> S" "0 < S" "S < 2 ^ 53"
  defines "x \<equiv> of_int F * (of_int v / of_int S) :: rat"
  shows "\<exists>y. proportionalFee e F S v = \<lfloor>y\<rfloor> \<and> x * (1 - 1 / 2 ^ 51) \<le> y \<and> y \<le> x * (1 + 1 / 2 ^ 51) \<and> 0 \<le> y"
proof -
  let ?q = "of_int v / of_int S :: rat" and ?\<epsilon> = "1 / 2 ^ 53 :: rat"
  have q: "0 \<le> ?q" using assms by simp
  have F: "(0 :: rat) \<le> of_int F" using assms by simp
  have r: "?q * (1 - ?\<epsilon>) \<le> f64 ?q" "f64 ?q \<le> ?q * (1 + ?\<epsilon>)" using rnd_bounds[OF q] by simp_all
  have r0: "0 \<le> f64 ?q" using q by (simp add: f64_def rnd_nonneg)
  let ?y = "f64 (of_int F * f64 ?q)"
  have Fr: "0 \<le> of_int F * f64 ?q" using F r0 by simp
  have y: "of_int F * f64 ?q * (1 - ?\<epsilon>) \<le> ?y" "?y \<le> of_int F * f64 ?q * (1 + ?\<epsilon>)"
    using rnd_bounds[OF Fr] by simp_all
  have x0: "0 \<le> x" unfolding x_def using F q by (intro mult_nonneg_nonneg)
  have "x * (1 - ?\<epsilon>) \<le> of_int F * f64 ?q"
    using mult_left_mono[OF r(1) F] by (simp add: x_def mult.assoc)
  then have "x * (1 - ?\<epsilon>) * (1 - ?\<epsilon>) \<le> ?y"
    using y(1) by (intro order_trans[OF mult_right_mono y(1)]) simp_all
  moreover have "x * (1 - 1 / 2 ^ 51) \<le> x * (1 - ?\<epsilon>) * (1 - ?\<epsilon>)"
    unfolding mult.assoc using x0 by (intro mult_left_mono) simp_all
  ultimately have lo: "x * (1 - 1 / 2 ^ 51) \<le> ?y" by simp
  have "of_int F * f64 ?q \<le> x * (1 + ?\<epsilon>)"
    using mult_left_mono[OF r(2) F] by (simp add: x_def mult.assoc)
  then have "?y \<le> x * (1 + ?\<epsilon>) * (1 + ?\<epsilon>)"
    by (intro order_trans[OF y(2) mult_right_mono]) simp_all
  moreover have "x * (1 + ?\<epsilon>) * (1 + ?\<epsilon>) \<le> x * (1 + 1 / 2 ^ 51)"
    unfolding mult.assoc using x0 by (intro mult_left_mono) simp_all
  ultimately have hi: "?y \<le> x * (1 + 1 / 2 ^ 51)" by simp
  have "x \<le> of_int F * 1" unfolding x_def using assms by (intro mult_left_mono) simp_all
  then have "?y \<le> of_int F * (1 + 1 / 2 ^ 51)" using hi by (intro order_trans[OF hi mult_right_mono]) simp_all
  also have "\<dots> \<le> of_int F * 2" using F by (intro mult_left_mono) simp_all
  finally have "?y \<le> of_int (F * 2)" by simp
  then have "\<lfloor>?y\<rfloor> \<le> F * 2" by (metis floor_mono floor_of_int)
  moreover have "0 \<le> \<lfloor>?y\<rfloor>" using Fr by (simp add: f64_def rnd_nonneg)
  moreover have "in_i64 n" if "n \<le> F * 2" "0 \<le> n" for n using that assms(2) by (simp add: in_i64_def)
  ultimately have "in_i64 \<lfloor>?y\<rfloor>" by blast
  then have "proportionalFee e F S v = \<lfloor>?y\<rfloor>"
    using assms
    by (simp add: proportionalFee_def Let_def f64_div_def f64_mul_def f64_of_int_exact float_div_def floor_int64_def)
  then show ?thesis using lo hi Fr by (auto simp: f64_def rnd_nonneg)
qed

lemma sum_proportional:
  fixes e :: Env
  assumes F: "0 \<le> F" "F < 2 ^ 50" and S: "0 < S" "S < 2 ^ 53"
    and vs: "\<forall>v \<in> set vs. 0 \<le> v \<and> v \<le> S" and sum: "sum_list vs = S"
  defines "T \<equiv> (\<Sum>v\<leftarrow>vs. proportionalFee e F S v)"
  shows "T \<le> F" "F - int (length vs) \<le> T" "\<forall>v \<in> set vs. 0 \<le> proportionalFee e F S v \<and> proportionalFee e F S v \<le> F"
proof -
  have each: "of_int F * (of_int v / of_int S) * (1 - 1 / 2 ^ 51) - 1 < (of_int (proportionalFee e F S v) :: rat) \<and>
      (of_int (proportionalFee e F S v) :: rat) \<le> of_int F * (of_int v / of_int S) * (1 + 1 / 2 ^ 51) \<and>
      0 \<le> proportionalFee e F S v"
    if v: "v \<in> set vs" for v
  proof -
    obtain y :: rat where y: "proportionalFee e F S v = \<lfloor>y\<rfloor>"
      "of_int F * (of_int v / of_int S) * (1 - 1 / 2 ^ 51) \<le> y"
      "y \<le> of_int F * (of_int v / of_int S) * (1 + 1 / 2 ^ 51)" "0 \<le> y"
      using proportional_product[OF F _ _ S, of v] vs v by auto
    have fl: "of_int \<lfloor>y\<rfloor> \<le> y" "y < of_int \<lfloor>y\<rfloor> + 1" using floor_correct[of y] by simp_all
    show ?thesis unfolding y(1)
      by (intro conjI order_trans[OF fl(1) y(3)]) (use fl(2) y(2,4) in linarith, use y(4) in simp)
  qed
  have tot: "(of_int F * (of_int S / of_int S) :: rat) = of_int F" using S by simp
  have up: "(of_int (\<Sum>v\<leftarrow>ws. proportionalFee e F S v) :: rat) \<le> of_int F * (of_int (sum_list ws) / of_int S) * (1 + 1 / 2 ^ 51)"
    if "set ws \<subseteq> set vs" for ws
    using that
  proof (induction ws)
    case (Cons w ws)
    then show ?case using each[of w] by (simp add: add_divide_distrib distrib_left distrib_right)
  qed simp
  have lo: "of_int F * (of_int (sum_list ws) / of_int S) * (1 - 1 / 2 ^ 51) - of_nat (length ws)
      \<le> (of_int (\<Sum>v\<leftarrow>ws. proportionalFee e F S v) :: rat)"
    if "set ws \<subseteq> set vs" for ws
    using that
  proof (induction ws)
    case (Cons w ws)
    then show ?case using each[of w] by (simp add: add_divide_distrib distrib_left distrib_right)
  qed simp
  have Fr: "(of_int F :: rat) < 2 ^ 50" "(0 :: rat) \<le> of_int F"
    using F by (metis of_int_less_iff of_int_numeral of_int_power) (use F in simp)
  have small: "t \<le> f * (1 + 1 / 2 ^ 51) \<Longrightarrow> t < f + 1" "f - 1 < f * (1 - 1 / 2 ^ 51)"
    if "f < 2 ^ 50" "0 \<le> f" for t f :: rat
    using that by (simp_all add: field_simps)
  have S1: "(of_int S / of_int S :: rat) = 1" using S by simp
  have "(of_int T :: rat) \<le> of_int F * (1 + 1 / 2 ^ 51)"
    using up[of vs] unfolding T_def sum S1 by simp
  then have "(of_int T :: rat) < of_int (F + 1)"
    using small(1)[OF Fr] by simp
  then show "T \<le> F" by (simp only: of_int_less_iff)
  have "of_int F * (1 - 1 / 2 ^ 51) - of_nat (length vs) \<le> (of_int T :: rat)"
    using lo[of vs] unfolding T_def sum S1 by simp
  then have "(of_int (F - 1 - int (length vs)) :: rat) < of_int T"
    using small(2)[OF Fr] by simp
  then show "F - int (length vs) \<le> T" by (simp only: of_int_less_iff)
  have "proportionalFee e F S v \<le> F" if v: "v \<in> set vs" for v
  proof -
    have "(of_int v / of_int S :: rat) \<le> 1" using vs v S by (simp add: divide_le_eq)
    then have "of_int F * (of_int v / of_int S) \<le> (of_int F :: rat)" using Fr(2) by (rule mult_left_le)
    then have "of_int F * (of_int v / of_int S) * (1 + 1 / 2 ^ 51) \<le> (of_int F :: rat) * (1 + 1 / 2 ^ 51)"
      by (rule mult_right_mono) simp
    then have "(of_int (proportionalFee e F S v) :: rat) \<le> of_int F * (1 + 1 / 2 ^ 51)"
      using each[OF v] by (meson order_trans)
    then have "(of_int (proportionalFee e F S v) :: rat) < of_int (F + 1)" using small(1)[OF Fr] by simp
    then show ?thesis by (simp only: of_int_less_iff)
  qed
  then show "\<forall>v \<in> set vs. 0 \<le> proportionalFee e F S v \<and> proportionalFee e F S v \<le> F"
    using each by blast
qed

section \<open>Applying the fee\<close>

definition feeStep :: "string \<times> int \<Rightarrow> (string \<times> int) list \<times> int \<Rightarrow> (string \<times> int) list \<times> int" where
  "feeStep = (\<lambda>(addr, fee) (outs, remaining).
     let v = i64 (the (map_of outs addr) - fee) in
     if 0 < remaining then (put addr (i64 (v - 1)) outs, remaining - 1)
     else (put addr v outs, remaining))"

lemma feeStep_eq:
  assumes "map_of outs a = Some v" "0 \<le> v" "v < 2 ^ 53" "0 \<le> f" "f < 2 ^ 50"
  shows "feeStep (a, f) (outs, n) =
    (put a (v - f - (if 0 < n then 1 else 0)) outs, n - (if 0 < n then 1 else 0))"
  using assms by (simp add: feeStep_def Let_def in_i64_def)

lemma fold_feeStep:
  assumes "distinct (map fst xs)" "distinct_keys outs" "0 \<le> n" "n \<le> int (length xs)"
    "\<forall>(a, f) \<in> set xs. 0 \<le> f \<and> f < 2 ^ 50 \<and> (\<exists>v. map_of outs a = Some v \<and> 0 \<le> v \<and> v < 2 ^ 53)"
  shows "\<exists>outs'. fold feeStep xs (outs, n) = (outs', 0) \<and> distinct_keys outs' \<and>
    total outs' = total outs - (\<Sum>(a, f)\<leftarrow>xs. f) - n \<and>
    (\<forall>a. a \<notin> fst ` set xs \<longrightarrow> map_of outs' a = map_of outs a) \<and>
    (\<forall>(a, f) \<in> set xs. \<exists>v'. map_of outs' a = Some v' \<and>
       the (map_of outs a) - f - 1 \<le> v' \<and> v' \<le> the (map_of outs a) - f)"
  using assms
proof (induction xs arbitrary: outs n)
  case (Cons x xs)
  obtain a f where x: "x = (a, f)" by (cases x)
  obtain v where v: "map_of outs a = Some v" "0 \<le> v" "v < 2 ^ 53" and f: "0 \<le> f" "f < 2 ^ 50"
    using Cons.prems(5) x by auto
  define d where "d = (if 0 < n then 1 else 0 :: int)"
  let ?outs = "put a (v - f - d) outs"
  have na: "a \<notin> fst ` set xs" using Cons.prems(1) x by simp
  have step: "fold feeStep (x # xs) (outs, n) = fold feeStep xs (?outs, n - d)"
    using feeStep_eq[OF v f, of n] by (simp add: x d_def)
  have vals: "\<forall>(a, f) \<in> set xs. 0 \<le> f \<and> f < 2 ^ 50 \<and> (\<exists>v. map_of ?outs a = Some v \<and> 0 \<le> v \<and> v < 2 ^ 53)"
    using Cons.prems(5) na by (fastforce simp: image_iff)
  have n: "0 \<le> n - d" "n - d \<le> int (length xs)" using Cons.prems(3,4) by (auto simp: d_def)
  obtain outs' where o: "fold feeStep xs (?outs, n - d) = (outs', 0)" "distinct_keys outs'"
    "total outs' = total ?outs - (\<Sum>(a, f)\<leftarrow>xs. f) - (n - d)"
    "\<forall>a. a \<notin> fst ` set xs \<longrightarrow> map_of outs' a = map_of ?outs a"
    "\<forall>(a, f) \<in> set xs. \<exists>v'. map_of outs' a = Some v' \<and>
       the (map_of ?outs a) - f - 1 \<le> v' \<and> v' \<le> the (map_of ?outs a) - f"
    using Cons.IH[OF _ _ n vals] Cons.prems(1,2) by auto
  have "total outs' = total outs - (\<Sum>(a, f)\<leftarrow>x # xs. f) - n"
    using o(3) total_put_old[OF v(1), of "v - f - d"] by (simp add: x)
  moreover have "\<forall>b. b \<notin> fst ` set (x # xs) \<longrightarrow> map_of outs' b = map_of outs b"
    using o(4) x by auto
  moreover have "\<forall>(b, g) \<in> set (x # xs). \<exists>v'. map_of outs' b = Some v' \<and>
       the (map_of outs b) - g - 1 \<le> v' \<and> v' \<le> the (map_of outs b) - g"
  proof -
    have "map_of outs' a = Some (v - f - d)" using o(4) na by simp
    moreover have "\<exists>v'. map_of outs' b = Some v' \<and>
       the (map_of outs b) - g - 1 \<le> v' \<and> v' \<le> the (map_of outs b) - g" if "(b, g) \<in> set xs" for b g
    proof -
      have "b \<noteq> a" using that na by (force simp: image_iff)
      then show ?thesis using o(5) that by fastforce
    qed
    ultimately show ?thesis using v(1) by (auto simp: x d_def)
  qed
  ultimately show ?case using step o(1,2) by auto
qed simp

lemma foldl_i64_sum:
  assumes "0 \<le> c" "\<forall>x \<in> set xs. 0 \<le> f x" "c + (\<Sum>x\<leftarrow>xs. f x) < 2 ^ 63"
  shows "foldl (\<lambda>a x. i64 (a + f x)) c xs = c + (\<Sum>x\<leftarrow>xs. f x)"
  using assms
proof (induction xs arbitrary: c)
  case (Cons x xs)
  have "0 \<le> (\<Sum>x\<leftarrow>xs. f x)" using Cons.prems(2) by (intro sum_list_nonneg) auto
  then have "i64 (c + f x) = c + f x" using Cons.prems by (simp add: in_i64_def)
  then show ?case using Cons.IH[of "c + f x"] Cons.prems by simp
qed simp

lemma map_of_filter_key:
  "map_of (filter (\<lambda>(a, v). a \<noteq> k) m) a = (if a = k then None else map_of m a)"
  by (induction m) auto

lemma applyTxFees_exact:
  assumes e: "fair e" and "inputs \<noteq> []" and d: "distinct_keys outputs"
    and nn: "\<forall>(a, v) \<in> set outputs. 0 \<le> v"
    and S: "0 < total (filter (\<lambda>(a, v). a \<noteq> feeAddr) outputs)"
      "total (filter (\<lambda>(a, v). a \<noteq> feeAddr) outputs) < 2 ^ 53"
    and F: "0 \<le> estimateTxFee R (length inputs) (length outputs)"
      "estimateTxFee R (length inputs) (length outputs) < 2 ^ 50"
  defines "F \<equiv> estimateTxFee R (length inputs) (length outputs)"
  shows "\<exists>outs'. applyTxFees e R inputs outputs feeAddr = Ok (F, outs') \<and> distinct_keys outs' \<and>
    total outs' = total outputs - F \<and> map_of outs' feeAddr = map_of outputs feeAddr \<and>
    (\<forall>a v. a \<noteq> feeAddr \<longrightarrow> map_of outputs a = Some v \<longrightarrow>
       (\<exists>v'. map_of outs' a = Some v' \<and> v - F - 1 \<le> v' \<and> v' \<le> v))"
proof -
  define paying where "paying = filter (\<lambda>(a, v). a \<noteq> feeAddr) outputs"
  define T where "T = total paying"
  let ?p = "\<lambda>v. proportionalFee e F T v"
  let ?fees = "map (\<lambda>(a, v). (a, ?p v)) paying"
  have FF: "0 \<le> F" "F < 2 ^ 50" using F by (simp_all add: F_def)
  have TT: "0 < T" "T < 2 ^ 53" using S by (simp_all add: T_def paying_def)
  have pn: "\<forall>(a, v) \<in> set paying. 0 \<le> v" using nn by (auto simp: paying_def)
  have dp: "distinct_keys paying"
    using d distinct_filter by (auto simp: paying_def distinct_keys_def keys_def distinct_map inj_on_def)
  have mo: "map_of paying a = (if a = feeAddr then None else map_of outputs a)" for a
    by (simp add: paying_def map_of_filter_key)
  have le: "\<forall>v \<in> set (map snd paying). 0 \<le> v \<and> v \<le> T"
  proof -
    have nn: "\<And>v. v \<in> set (map snd paying) \<Longrightarrow> 0 \<le> v" using pn by auto
    then show ?thesis
      using member_le_sum_list[of _ "map snd paying"] unfolding T_def total_def by blast
  qed
  note P = sum_proportional[where e = e, OF FF TT le, unfolded total_def[symmetric] T_def[symmetric], OF refl]
  define U where "U = (\<Sum>v\<leftarrow>map snd paying. ?p v)"
  note PU = P(1,2)[folded U_def]
  have fees_sum: "(\<Sum>(a, f)\<leftarrow>?fees. f) = U"
    by (simp add: U_def comp_def case_prod_unfold)
  have U0: "0 \<le> U" unfolding U_def using P(3) by (intro sum_list_nonneg) auto
  have s1: "foldl (\<lambda>a (_, v). i64 (a + v)) 0 paying = T"
    using foldl_i64_sum[of 0 paying snd] pn TT by (simp add: T_def total_def case_prod_unfold)
  have s2: "foldl (\<lambda>a (_, fee). i64 (a + fee)) 0 ?fees = U"
  proof -
    have "(\<Sum>x\<leftarrow>?fees. snd x) = U" by (simp add: U_def comp_def case_prod_unfold)
    moreover have "\<forall>x \<in> set ?fees. 0 \<le> snd x" using P(3) by auto
    ultimately show ?thesis
      using foldl_i64_sum[of 0 ?fees snd] PU(1) FF by (simp add: case_prod_unfold)
  qed
  define n where "n = F - U"
  have n: "0 \<le> n" "n \<le> int (length ?fees)" "i64 n = n"
    using PU FF U0 by (simp_all add: n_def in_i64_def)
  have df: "distinct_keys ?fees"
    using dp by (simp add: distinct_keys_def keys_def comp_def case_prod_unfold)
  let ?xs = "range_map e ?fees"
  have xs: "distinct (map fst ?xs)" "set ?xs = set ?fees" "length ?xs = length ?fees"
    using range_map_keys(1)[OF e df] range_map_set[OF e df] range_map_length[OF e df]
    by (simp_all add: distinct_keys_def keys_def)
  have sumxs: "(\<Sum>(a, f)\<leftarrow>?xs. f) = U"
  proof -
    have "sum_mset (image_mset (\<lambda>(a, f). f) (mset ?xs)) = sum_mset (image_mset (\<lambda>(a, f). f) (mset ?fees))"
      using range_map_mset[OF e df] by simp
    then show ?thesis using fees_sum by (simp only: mset_map[symmetric] sum_mset_sum_list)
  qed
  have vals: "\<forall>(a, f) \<in> set ?xs. 0 \<le> f \<and> f < 2 ^ 50 \<and> (\<exists>v. map_of outputs a = Some v \<and> 0 \<le> v \<and> v < 2 ^ 53)"
  proof (clarsimp simp: xs(2))
    fix a v
    assume av: "(a, v) \<in> set paying"
    then have "map_of outputs a = Some v"
      using map_of_Some_distinct[OF d] by (auto simp: paying_def)
    then show "0 \<le> ?p v \<and> ?p v < 1125899906842624 \<and> (\<exists>v. map_of outputs a = Some v \<and> 0 \<le> v \<and> v < 9007199254740992)"
      using av P(3) le FF TT by fastforce
  qed
  obtain outs' where o: "fold feeStep ?xs (outputs, n) = (outs', 0)" "distinct_keys outs'"
    "total outs' = total outputs - (\<Sum>(a, f)\<leftarrow>?xs. f) - n"
    "\<forall>a. a \<notin> fst ` set ?xs \<longrightarrow> map_of outs' a = map_of outputs a"
    "\<forall>(a, f) \<in> set ?xs. \<exists>v'. map_of outs' a = Some v' \<and>
       the (map_of outputs a) - f - 1 \<le> v' \<and> v' \<le> the (map_of outputs a) - f"
    using fold_feeStep[OF xs(1) d n(1) _ vals] n(2) xs(3) by auto
  have "outputs \<noteq> []" using TT by (auto simp: T_def paying_def)
  then have "applyTxFees e R inputs outputs feeAddr = Ok (F, outs')"
    using assms(2) o(1) n(3)
    unfolding applyTxFees_def Let_def F_def[symmetric] paying_def[symmetric] s1 s2 n_def[symmetric] feeStep_def
    by simp
  moreover have "total outs' = total outputs - F" using o(3) sumxs by (simp add: n_def)
  moreover have "map_of outs' feeAddr = map_of outputs feeAddr"
  proof -
    have "feeAddr \<notin> fst ` set ?xs" unfolding xs(2) by (auto simp: paying_def)
    then show ?thesis using o(4) by simp
  qed
  moreover have "\<exists>v'. map_of outs' a = Some v' \<and> v - F - 1 \<le> v' \<and> v' \<le> v"
    if "a \<noteq> feeAddr" "map_of outputs a = Some v" for a v
  proof -
    have av: "(a, v) \<in> set paying" using that map_of_Some_distinct[OF d] by (auto simp: paying_def)
    then have "(a, ?p v) \<in> set ?xs" by (force simp: xs(2))
    then show ?thesis using o(5) that(2) P(3) av by fastforce
  qed
  ultimately show ?thesis using o(2) by blast
qed

section \<open>Properties\<close>

text \<open>
  C26: \<open>applyTxFees\<close> takes exactly the transaction fee from the outputs. With at least one
  output besides the pool fee, non-negative outputs below two to the 53 in total and a fee below
  two to the 50, the outputs lose the estimated fee to the atom in spite of the \<open>float64\<close>
  arithmetic; the pool fee output is not touched, and no output grows or loses more than the
  fee and an atom.
\<close>

theorem tx_fee_exact:
  assumes "fair e" "inputs \<noteq> []" "distinct_keys outputs" "\<forall>(a, v) \<in> set outputs. 0 \<le> v"
    and "0 < total (filter (\<lambda>(a, v). a \<noteq> feeAddr) outputs)"
      "total (filter (\<lambda>(a, v). a \<noteq> feeAddr) outputs) < 2 ^ 53"
    and "0 \<le> estimateTxFee R (length inputs) (length outputs)"
      "estimateTxFee R (length inputs) (length outputs) < 2 ^ 50"
  shows "\<exists>outs'. applyTxFees e R inputs outputs feeAddr =
      Ok (estimateTxFee R (length inputs) (length outputs), outs') \<and> distinct_keys outs' \<and>
    total outs' = total outputs - estimateTxFee R (length inputs) (length outputs) \<and>
    map_of outs' feeAddr = map_of outputs feeAddr \<and>
    (\<forall>a v. a \<noteq> feeAddr \<longrightarrow> map_of outputs a = Some v \<longrightarrow>
       (\<exists>v'. map_of outs' a = Some v' \<and>
          v - estimateTxFee R (length inputs) (length outputs) - 1 \<le> v' \<and> v' \<le> v))"
  using assms by (rule applyTxFees_exact)

text \<open>Transaction rules with round numbers, for the witnesses.\<close>

definition demoRules :: TxRules where
  "demoRules = \<lparr>MulF64 = (\<lambda>a f. case f of Finite q \<Rightarrow> \<lfloor>of_int a * q\<rfloor> | _ \<Rightarrow> 0), NewAmount = (\<lambda>v. Ok \<lfloor>v\<rfloor>),
     IsDustAmount = (\<lambda>a s f. a < 100), DefaultRelayFeePerKb = 10, P2PKHOutputSize = 36,
     RedeemP2PKHSigScriptSize = 100, EstimateSerializeSizeFromScriptSizes = (\<lambda>i t c. sum_list i + sum_list t + c),
     FeeForSerializeSize = (\<lambda>r s. s), NewHashFromStr = (\<lambda>s. Ok s), NewHash = (\<lambda>b. Ok b),
     HashString = (\<lambda>h. h), DecodeAddress = (\<lambda>s. Ok s)\<rparr>"

definition demoInputs :: "TransactionInput list" where
  "demoInputs = [\<lparr>tiAmount = 3000, tiTxid = ''cb'', tiVout = 2\<rparr>]"

lemma demo_fee: "estimateTxFee demoRules (Suc 0) (Suc (Suc (Suc 0))) = 208"
  by (simp add: estimateTxFee_def demoRules_def sum_list_replicate)

theorem tx_fee_exact_witness:
  "\<exists>outs'. applyTxFees plainEnv demoRules demoInputs [(''x'', 1000), (''y'', 2000), (''f'', 50)] ''f'' =
      Ok (208, outs') \<and> total outs' = 3050 - 208 \<and> map_of outs' ''f'' = Some 50"
  using tx_fee_exact[OF plainEnv_fair, of demoInputs "[(''x'', 1000), (''y'', 2000), (''f'', 50)]" "''f''" demoRules]
    demo_fee by (auto simp: demoInputs_def)

text \<open>
  A payout whose only output is the pool fee carries no transaction fee: the fee is
  estimated and reported, and the outputs are returned as they were.
\<close>

lemma fee_only_payout_pays_no_fee:
  assumes "fair e" "inputs \<noteq> []"
  shows "applyTxFees e R inputs [(feeAddr, v)] feeAddr = Ok (estimateTxFee R (length inputs) 1, [(feeAddr, v)])"
proof -
  have "mset (range_map e ([] :: (string \<times> int) list)) = mset []"
    by (rule range_map_mset[OF assms(1)]) simp
  then have "range_map e ([] :: (string \<times> int) list) = []" by simp
  then show ?thesis using assms(2) by (simp add: applyTxFees_def)
qed

end
