(* ===== verification/PayAmounts.thy ===== *)
theory PayAmounts
  imports PayFees
begin

text \<open>
  The payments of a block: every account is paid the integer part of its portion, nothing is
  paid twice or lost beyond rounding, dust goes to the pool fee, and identifiers are unique.
\<close>

section \<open>Portions\<close>

definition portion :: "int \<Rightarrow> rat \<Rightarrow> int" where
  "portion S r = \<lfloor>of_int S * r\<rfloor>"

abbreviation dust :: "TxRules \<Rightarrow> int \<Rightarrow> bool" where
  "dust R amt \<equiv> IsDustAmount R amt (P2PKHOutputSize R) (DefaultRelayFeePerKb R)"

lemma portion_nonneg: "0 \<le> S \<Longrightarrow> 0 \<le> r \<Longrightarrow> 0 \<le> portion S r"
  by (simp add: portion_def)

lemma less_floor: "(x :: rat) < of_int \<lfloor>x\<rfloor> + 1"
  using floor_correct[of x] by simp

lemma sum_portions:
  assumes "0 \<le> S" "\<forall>(a, r) \<in> set xs. 0 \<le> r"
  shows "of_int (\<Sum>(a, r)\<leftarrow>xs. portion S r) \<le> of_int S * total xs"
    "xs \<noteq> [] \<Longrightarrow> of_int S * total xs < of_int (\<Sum>(a, r)\<leftarrow>xs. portion S r) + of_nat (length xs)"
proof -
  show "of_int (\<Sum>(a, r)\<leftarrow>xs. portion S r) \<le> of_int S * total xs"
  proof (induction xs)
    case (Cons x xs)
    obtain a r where "x = (a, r)" by (cases x)
    then show ?case
      using Cons of_int_floor_le[of "of_int S * r"] by (simp add: portion_def distrib_left add_mono)
  qed simp
  show "of_int S * total xs < of_int (\<Sum>(a, r)\<leftarrow>xs. portion S r) + of_nat (length xs)" if "xs \<noteq> []"
    using that
  proof (induction xs rule: list_nonempty_induct)
    case (single x)
    then show ?case by (cases x) (simp add: portion_def less_floor)
  next
    case (cons x xs)
    obtain a r where x: "x = (a, r)" by (cases x)
    have "of_int S * r < of_int (portion S r) + 1" by (simp add: portion_def less_floor)
    then show ?case using cons.IH x by (simp add: distrib_left)
  qed
qed

lemma addPortion_eq:
  assumes S: "0 \<le> S" "S < 2 ^ 63" and r: "0 \<le> r" "r \<le> 1"
  shows "addPortion e R source S height estMaturity (a, r) st =
    (let amt = portion S r; st = st\<lparr>paymentTotal := i64 (paymentTotal st + amt)\<rparr> in
     if dust R amt then st\<lparr>dustTotal := i64 (dustTotal st + amt)\<rparr>
     else st\<lparr>payments := payments st @ [NewPayment a source amt height estMaturity
               (eNow e (poTick st)) (eRand e (poTick st))], poTick := Suc (poTick st)\<rparr>)"
proof -
  have "of_int S * r \<le> of_int S" using S r by (simp add: mult_left_le)
  also have "(of_int S :: rat) < 2 ^ 63" using S(2) by (metis of_int_less_iff of_int_numeral of_int_power)
  finally have x: "0 \<le> of_int S * r" "of_int S * r < (2 :: rat) ^ 63" using S r by simp_all
  have "fst (Float_Int64 (SetRat (of_int S * r))) = portion S r"
    "snd (Float_Int64 (SetRat (of_int S * r))) \<noteq> Above"
    using Float_Int64_SetRat[OF x] by (simp_all add: portion_def)
  then show ?thesis
    by (simp add: addPortion_def Let_def split_beta)
qed

definition portionPayment :: "Env \<Rightarrow> PaymentSource option \<Rightarrow> int \<Rightarrow> 32 word \<Rightarrow> 32 word
    \<Rightarrow> nat \<times> string \<times> rat \<Rightarrow> Payment" where
  "portionPayment e source S height estMaturity = (\<lambda>(t, a, r).
     NewPayment a source (portion S r) height estMaturity (eNow e t) (eRand e t))"

lemma fold_portions:
  assumes S: "0 \<le> S" "S < 2 ^ 63" and xs: "\<forall>(a, r) \<in> set xs. 0 \<le> r \<and> r \<le> 1"
    and st: "0 \<le> dustTotal st" "dustTotal st \<le> paymentTotal st"
      "paymentTotal st + (\<Sum>(a, r)\<leftarrow>xs. portion S r) \<le> S"
  shows "fold (addPortion e R source S height estMaturity) xs st =
    st\<lparr>payments := payments st @ map (portionPayment e source S height estMaturity)
         (enumerate (poTick st) (filter (\<lambda>(a, r). \<not> dust R (portion S r)) xs)),
       paymentTotal := paymentTotal st + (\<Sum>(a, r)\<leftarrow>xs. portion S r),
       dustTotal := dustTotal st + (\<Sum>(a, r)\<leftarrow>filter (\<lambda>(a, r). dust R (portion S r)) xs. portion S r),
       poTick := poTick st + length (filter (\<lambda>(a, r). \<not> dust R (portion S r)) xs)\<rparr>"
  using xs st
proof (induction xs arbitrary: st)
  case (Cons x xs)
  obtain a r where x: "x = (a, r)" by (cases x)
  let ?p = "portion S r" and ?T = "\<Sum>(a, r)\<leftarrow>xs. portion S r"
  have r: "0 \<le> r" "r \<le> 1" using Cons.prems(1) x by auto
  have p: "0 \<le> ?p" using S(1) r(1) by (rule portion_nonneg)
  have T: "0 \<le> ?T"
    using Cons.prems(1) S(1) by (intro sum_list_nonneg) (auto intro: portion_nonneg)
  have sm: "paymentTotal st + ?p \<le> S" "dustTotal st + ?p \<le> S" "0 \<le> paymentTotal st"
    using Cons.prems T by (simp_all add: x)
  then have id: "i64 (paymentTotal st + ?p) = paymentTotal st + ?p" "i64 (dustTotal st + ?p) = dustTotal st + ?p"
    using p S Cons.prems(2) by (simp_all add: in_i64_def)
  let ?st = "addPortion e R source S height estMaturity x st"
  have st': "0 \<le> dustTotal ?st" "dustTotal ?st \<le> paymentTotal ?st" "paymentTotal ?st + ?T \<le> S"
    using Cons.prems p id by (auto simp: x addPortion_eq[OF S r] Let_def)
  have IH: "fold (addPortion e R source S height estMaturity) xs ?st = ?st\<lparr>payments := payments ?st @
         map (portionPayment e source S height estMaturity)
           (enumerate (poTick ?st) (filter (\<lambda>(a, r). \<not> dust R (portion S r)) xs)),
       paymentTotal := paymentTotal ?st + ?T,
       dustTotal := dustTotal ?st + (\<Sum>(a, r)\<leftarrow>filter (\<lambda>(a, r). dust R (portion S r)) xs. portion S r),
       poTick := poTick ?st + length (filter (\<lambda>(a, r). \<not> dust R (portion S r)) xs)\<rparr>"
    using Cons.IH[OF _ st'] Cons.prems(1) by simp
  show ?case
    unfolding fold_Cons comp_def IH
    by (simp add: x addPortion_eq[OF S r] Let_def id portionPayment_def)
qed (simp add: enumerate_simps)

section \<open>Identifiers\<close>

text \<open>A payment's identifier determines everything it was made from.\<close>

lemma paymentID_inj:
  "paymentID h n a r = paymentID h' n' a' r' \<longleftrightarrow> h = h' \<and> n = n' \<and> a = a' \<and> r = r'"
proof
  assume eq: "paymentID h n a r = paymentID h' n' a' r'"
  have "EncodeToString (heightToBigEndianBytes h) = EncodeToString (heightToBigEndianBytes h')"
    "EncodeToString (nanoToBigEndianBytes n) @ a @ EncodeToString (randValEncoded r) =
     EncodeToString (nanoToBigEndianBytes n') @ a' @ EncodeToString (randValEncoded r')"
    using eq unfolding paymentID_def by (auto simp: append_eq_append_conv)
  moreover from this(2) have "EncodeToString (nanoToBigEndianBytes n) = EncodeToString (nanoToBigEndianBytes n')"
    "a @ EncodeToString (randValEncoded r) = a' @ EncodeToString (randValEncoded r')"
    by (auto simp: append_eq_append_conv)
  moreover from this(2) have "a = a'" "EncodeToString (randValEncoded r) = EncodeToString (randValEncoded r')"
    using append_eq_append_conv[of a a' "EncodeToString (randValEncoded r)" "EncodeToString (randValEncoded r')"]
    by (simp_all add: randValEncoded_def)
  ultimately show "h = h' \<and> n = n' \<and> a = a' \<and> r = r'"
    by (simp add: randValEncoded_def be_inj[OF unat64_be unat64_be] word_unat_eq_iff)
qed simp

section \<open>The payments of a block\<close>

lemma ratio_le_1:
  fixes xs :: "(string \<times> rat) list"
  assumes "\<forall>(a, r) \<in> set xs. 0 \<le> r" "total xs = 1" "(a, r) \<in> set xs"
  shows "r \<le> 1"
proof -
  have nn: "0 \<le> total ys" if "\<forall>(a, r) \<in> set ys. 0 \<le> (r :: rat)" for ys :: "(string \<times> rat) list"
    using that by (induction ys) auto
  obtain us vs where "xs = us @ (a, r) # vs" using assms(3) split_list by metis
  then show ?thesis
    using assms nn[of us] nn[of vs] by (auto simp: total_def)
qed

lemma sum_list_mset_eq:
  fixes f :: "'a \<Rightarrow> 'b :: comm_monoid_add"
  shows "mset xs = mset ys \<Longrightarrow> sum_list (map f xs) = sum_list (map f ys)"
  unfolding sum_mset_sum_list[symmetric] mset_map by simp

lemma sum_split_filter:
  "(\<Sum>x\<leftarrow>xs. f x) = (\<Sum>x\<leftarrow>filter P xs. f x) + (\<Sum>x\<leftarrow>filter (\<lambda>x. \<not> P x) xs. (f x :: int))"
  by (induction xs) auto

lemma calculatePayments_ok:
  assumes e: "fair e" and d: "distinct_keys ratios" and ne: "ratios \<noteq> []"
    and nn: "\<forall>(a, r) \<in> set ratios. 0 \<le> r" and one: "total ratios = 1"
    and fee: "0 \<le> MulF64 R tot poolFee" "MulF64 R tot poolFee \<le> tot" "tot < 2 ^ 63"
  defines "S \<equiv> tot - MulF64 R tot poolFee"
  defines "xs \<equiv> range_map e ratios"
  defines "paid \<equiv> filter (\<lambda>(a, r). \<not> dust R (portion S r)) xs"
  defines "dusts \<equiv> filter (\<lambda>(a, r). dust R (portion S r)) xs"
  shows "calculatePayments e R ratios source tot poolFee height estMaturity tick =
    Ok (map (portionPayment e source S height estMaturity) (enumerate tick paid) @
          [NewPayment PoolFeesK source (MulF64 R tot poolFee + (\<Sum>(a, r)\<leftarrow>dusts. portion S r)) height estMaturity
             (eNow e (tick + length paid)) (eRand e (tick + length paid))],
        eNow e (tick + length paid), Suc (tick + length paid))"
    "(\<Sum>(a, r)\<leftarrow>xs. portion S r) \<le> S" "S < (\<Sum>(a, r)\<leftarrow>xs. portion S r) + int (length ratios)"
    "mset xs = mset ratios"
proof -
  have ms: "mset xs = mset ratios" using range_map_mset[OF e d] by (simp add: xs_def)
  then show "mset xs = mset ratios" .
  have set: "set xs = set ratios" and len: "length xs = length ratios"
    using ms by (metis set_mset_mset, metis size_mset)
  have tot: "total xs = 1"
    using sum_list_mset_eq[OF ms, of snd] one by (simp add: total_def)
  have nn': "\<forall>(a, r) \<in> set xs. 0 \<le> r" using nn set by simp
  have r: "\<forall>(a, r) \<in> set xs. 0 \<le> r \<and> r \<le> 1" using nn' ratio_le_1[OF nn' tot] by auto
  have S: "0 \<le> S" "S < 2 ^ 63" using fee by (simp_all add: S_def)
  have sum1: "rat_of_int (\<Sum>(a, r)\<leftarrow>xs. portion S r) \<le> of_int S"
    using sum_portions(1)[OF S(1) nn'] tot by simp
  then show le: "(\<Sum>(a, r)\<leftarrow>xs. portion S r) \<le> S" by (simp only: of_int_le_iff)
  have "xs \<noteq> []" using ne len by (metis length_0_conv)
  then have "rat_of_int S < of_int ((\<Sum>(a, r)\<leftarrow>xs. portion S r) + int (length ratios))"
    using sum_portions(2)[OF S(1) nn'] tot len by simp
  then show "S < (\<Sum>(a, r)\<leftarrow>xs. portion S r) + int (length ratios)" by (simp only: of_int_less_iff)
  let ?D = "\<Sum>(a, r)\<leftarrow>dusts. portion S r"
  have "0 \<le> ?D" "0 \<le> (\<Sum>(a, r)\<leftarrow>filter (\<lambda>x. \<not> (case x of (a, r) \<Rightarrow> dust R (portion S r))) xs. portion S r)"
    using nn' S(1) by (auto simp: dusts_def intro!: sum_list_nonneg portion_nonneg)
  then have D: "0 \<le> ?D" "?D \<le> S"
    using sum_split_filter[of "\<lambda>(a, r). portion S r" xs "\<lambda>(a, r). dust R (portion S r)"] le
    by (simp_all add: dusts_def)
  then have i: "i64 (tot - MulF64 R tot poolFee) = S" "i64 (MulF64 R tot poolFee + ?D) = MulF64 R tot poolFee + ?D"
    using fee S by (simp_all add: S_def in_i64_def)
  have F: "fold (addPortion e R source S height estMaturity) xs
      \<lparr>payments = [], paymentTotal = 0, dustTotal = 0, poTick = tick\<rparr> =
      \<lparr>payments = map (portionPayment e source S height estMaturity) (enumerate tick paid),
       paymentTotal = (\<Sum>(a, r)\<leftarrow>xs. portion S r), dustTotal = ?D, poTick = tick + length paid\<rparr>"
    using fold_portions[OF S r, of "\<lparr>payments = [], paymentTotal = 0, dustTotal = 0, poTick = tick\<rparr>"
        e R source height estMaturity] le
    by (simp add: paid_def dusts_def)
  show "calculatePayments e R ratios source tot poolFee height estMaturity tick =
    Ok (map (portionPayment e source S height estMaturity) (enumerate tick paid) @
          [NewPayment PoolFeesK source (MulF64 R tot poolFee + ?D) height estMaturity
             (eNow e (tick + length paid)) (eRand e (tick + length paid))],
        eNow e (tick + length paid), Suc (tick + length paid))"
    unfolding calculatePayments_def Let_def i(1) xs_def[symmetric] F
    using ne le i(2) by (simp add: NewPayment_def)
qed

lemma map_portionPayment:
  "map (\<lambda>p. (pmAccount p, pmAmount p)) (map (portionPayment e source S h m) (enumerate t xs)) =
     map (\<lambda>(a, r). (a, portion S r)) xs"
  by (induction xs arbitrary: t) (auto simp: portionPayment_def NewPayment_def)

lemma sum_portionPayment:
  "(\<Sum>p\<leftarrow>map (portionPayment e source S h m) (enumerate t xs). pmAmount p) = (\<Sum>(a, r)\<leftarrow>xs. portion S r)"
  by (induction xs arbitrary: t) (auto simp: portionPayment_def NewPayment_def)

lemma calculate_payments_all:
  assumes "fair e" "distinct_keys ratios" "ratios \<noteq> []"
    and "\<forall>(a, r) \<in> set ratios. 0 \<le> r" "total ratios = 1"
    and "0 \<le> MulF64 R tot poolFee" "MulF64 R tot poolFee \<le> tot" "tot < 2 ^ 63"
  shows "\<exists>ps createdOn tick'.
    calculatePayments e R ratios source tot poolFee height estMaturity tick = Ok (ps, createdOn, tick') \<and>
    mset (map (\<lambda>p. (pmAccount p, pmAmount p)) (butlast ps)) =
      mset (filter (\<lambda>(a, amt). \<not> dust R amt)
        (map (\<lambda>(a, r). (a, portion (tot - MulF64 R tot poolFee) r)) ratios)) \<and>
    pmAccount (last ps) = PoolFeesK \<and>
    pmAmount (last ps) = MulF64 R tot poolFee +
      (\<Sum>(a, amt)\<leftarrow>filter (\<lambda>(a, amt). dust R amt)
        (map (\<lambda>(a, r). (a, portion (tot - MulF64 R tot poolFee) r)) ratios). amt) \<and>
    (\<Sum>p\<leftarrow>ps. pmAmount p) \<le> tot \<and> tot < (\<Sum>p\<leftarrow>ps. pmAmount p) + int (length ratios) \<and>
    (\<forall>p \<in> set ps. pmSource p = source \<and> pmHeight p = height \<and>
       pmEstimatedMaturity p = estMaturity \<and> pmPaidOnHeight p = 0)"
proof -
  define S where "S = tot - MulF64 R tot poolFee"
  define xs where "xs = range_map e ratios"
  define paid where "paid = filter (\<lambda>(a, r). \<not> dust R (portion S r)) xs"
  define dusts where "dusts = filter (\<lambda>(a, r). dust R (portion S r)) xs"
  note ok1 = calculatePayments_ok(1)[OF assms, of source height estMaturity tick,
      folded S_def, folded xs_def, folded paid_def dusts_def]
  note ok = calculatePayments_ok[OF assms, folded S_def, folded xs_def]
  let ?new = "map (portionPayment e source S height estMaturity) (enumerate tick paid)"
  let ?D = "\<Sum>(a, r)\<leftarrow>dusts. portion S r"
  let ?fee = "NewPayment PoolFeesK source (MulF64 R tot poolFee + ?D) height estMaturity
      (eNow e (tick + length paid)) (eRand e (tick + length paid))"
  have f1: "filter (\<lambda>(a, amt). P amt) (map (\<lambda>(a, r). (a, portion S r)) ys) =
      map (\<lambda>(a, r). (a, portion S r)) (filter (\<lambda>(a, r). P (portion S r)) ys)" for P ys
    by (induction ys) auto
  have "mset (map (\<lambda>p. (pmAccount p, pmAmount p)) ?new) =
      mset (filter (\<lambda>(a, amt). \<not> dust R amt) (map (\<lambda>(a, r). (a, portion S r)) ratios))"
    unfolding map_portionPayment f1 paid_def using ok(4) by simp
  moreover have "?D = (\<Sum>(a, amt)\<leftarrow>filter (\<lambda>(a, amt). dust R amt)
        (map (\<lambda>(a, r). (a, portion S r)) ratios). amt)"
  proof -
    have "?D = (\<Sum>(a, r)\<leftarrow>filter (\<lambda>(a, r). dust R (portion S r)) ratios. portion S r)"
      unfolding dusts_def using ok(4) by (intro sum_list_mset_eq) simp
    also have "\<dots> = (\<Sum>(a, amt)\<leftarrow>map (\<lambda>(a, r). (a, portion S r))
        (filter (\<lambda>(a, r). dust R (portion S r)) ratios). amt)"
      by (simp add: comp_def case_prod_unfold)
    finally show ?thesis unfolding f1 .
  qed
  moreover have "(\<Sum>p\<leftarrow>?new @ [?fee]. pmAmount p) = tot - S + (\<Sum>(a, r)\<leftarrow>xs. portion S r)"
  proof -
    have "(\<Sum>(a, r)\<leftarrow>xs. portion S r) = ?D + (\<Sum>(a, r)\<leftarrow>paid. portion S r)"
      using sum_split_filter[of "\<lambda>(a, r). portion S r" xs "\<lambda>(a, r). dust R (portion S r)"]
      by (simp add: dusts_def paid_def case_prod_unfold)
    then show ?thesis
      unfolding map_append sum_list_append sum_portionPayment by (simp add: NewPayment_def S_def)
  qed
  moreover have "\<forall>p \<in> set (?new @ [?fee]). pmSource p = source \<and> pmHeight p = height \<and>
       pmEstimatedMaturity p = estMaturity \<and> pmPaidOnHeight p = 0"
    by (auto simp: portionPayment_def NewPayment_def)
  ultimately show ?thesis
    unfolding ok1 using ok(2,3)
    by (intro exI[of _ "?new @ [?fee]"] exI conjI refl) (simp_all add: NewPayment_def S_def)
qed

text \<open>Every payment can be filed.\<close>

lemma Float_Int64_range: "in_i64 (fst (Float_Int64 x))"
  by (simp add: Float_Int64_def Let_def) (simp add: in_i64_def)

lemma wf_NewPayment:
  assumes "length a \<le> 32000" "in_i64 v" "source \<noteq> None"
  shows "wf_payment (NewPayment a source v h m n r)"
  using assms by (simp add: wf_payment_def NewPayment_def wf_key_def) (simp add: paymentID_def randValEncoded_def)

lemma addPortion_wf:
  assumes "\<forall>p \<in> set (payments st). wf_payment p" "length a \<le> 32000" "source \<noteq> None"
  shows "\<forall>p \<in> set (payments (addPortion e R source S h m (a, r) st)). wf_payment p"
  using assms Float_Int64_range[of "SetRat (of_int S * r)"]
  by (auto simp: addPortion_def Let_def split_beta intro!: wf_NewPayment)

lemma calculatePayments_wf:
  assumes c: "calculatePayments e R m source tot f h em tick = Ok (ps, c, t)" and src: "source \<noteq> None"
    and a: "\<forall>(a, r) \<in> set m. length a \<le> 32000" and e: "fair e" "distinct_keys m"
  shows "\<forall>p \<in> set ps. wf_payment p" "c = pmCreatedOn (last ps)"
proof -
  let ?S = "i64 (tot - MulF64 R tot f)"
  let ?st = "fold (addPortion e R source ?S h em) (range_map e m)
      \<lparr>payments = [], paymentTotal = 0, dustTotal = 0, poTick = tick\<rparr>"
  have "\<forall>p \<in> set (payments ?st). wf_payment p"
    by (rule fold_invariant[where Q = "\<lambda>(a, r). length a \<le> 32000"])
      (use a range_map_set[OF e] addPortion_wf[OF _ _ src] in auto)
  then show "\<forall>p \<in> set ps. wf_payment p" "c = pmCreatedOn (last ps)"
    using c src by (auto simp: calculatePayments_def Let_def PoolFeesK_def split: if_splits intro!: wf_NewPayment)
qed

section \<open>Properties\<close>

text \<open>
  C10: \<open>calculatePayments\<close> distributes a block exactly. For percentages that are
  non-negative and sum to one, a fee between zero and the total, and a total below two to the
  63, it returns; every account is paid the integer part of its percentage of the amount after
  fees unless that is dust; the last payment goes to the pool and is the fee plus all dust; the
  payments never exceed the total and fall short of it by fewer atoms than there are accounts;
  so the check for overspending never triggers.
\<close>

theorem calculate_payments_exact:
  assumes "fair e" "distinct_keys ratios" "ratios \<noteq> []"
    and "\<forall>(a, r) \<in> set ratios. 0 \<le> r" "total ratios = 1"
    and "0 \<le> MulF64 R tot poolFee" "MulF64 R tot poolFee \<le> tot" "tot < 2 ^ 63"
  shows "\<exists>ps createdOn tick'.
    calculatePayments e R ratios source tot poolFee height estMaturity tick = Ok (ps, createdOn, tick') \<and>
    mset (map (\<lambda>p. (pmAccount p, pmAmount p)) (butlast ps)) =
      mset (filter (\<lambda>(a, amt). \<not> dust R amt)
        (map (\<lambda>(a, r). (a, portion (tot - MulF64 R tot poolFee) r)) ratios)) \<and>
    pmAccount (last ps) = PoolFeesK \<and>
    pmAmount (last ps) = MulF64 R tot poolFee +
      (\<Sum>(a, amt)\<leftarrow>filter (\<lambda>(a, amt). dust R amt)
        (map (\<lambda>(a, r). (a, portion (tot - MulF64 R tot poolFee) r)) ratios). amt) \<and>
    (\<Sum>p\<leftarrow>ps. pmAmount p) \<le> tot \<and> tot < (\<Sum>p\<leftarrow>ps. pmAmount p) + int (length ratios) \<and>
    (\<forall>p \<in> set ps. pmSource p = source \<and> pmHeight p = height \<and>
       pmEstimatedMaturity p = estMaturity \<and> pmPaidOnHeight p = 0)"
  using assms by (rule calculate_payments_all)

definition demoRatios :: "(string \<times> rat) list" where
  "demoRatios = [(''x'', 2 / 3), (''y'', 1 / 4), (''z'', 1 / 12)]"

lemma demo_amounts:
  "MulF64 demoRules 1001 (Finite (1 / 100)) = 10" "portion 991 (2 / 3) = 660" "portion 991 (1 / 4) = 247"
  "portion 991 (1 / 12) = 82" "dust demoRules v \<longleftrightarrow> v < 100"
  by (simp_all add: portion_def floor_eq_iff demoRules_def)

theorem calculate_payments_exact_witness:
  "\<exists>ps c t. calculatePayments plainEnv demoRules demoRatios None 1001 (Finite (1 / 100)) 7 23 0 = Ok (ps, c, t) \<and>
     mset (map (\<lambda>p. (pmAccount p, pmAmount p)) (butlast ps)) = {#(''x'', 660), (''y'', 247)#} \<and>
     pmAmount (last ps) = 92 \<and> (\<Sum>p\<leftarrow>ps. pmAmount p) \<le> 1001"
  using calculate_payments_exact[OF plainEnv_fair, of demoRatios demoRules 1001 "Finite (1 / 100)" None 7 23 0]
  by (auto simp: demo_amounts demoRatios_def)

end
