(* ===== verification/PayDB.thy ===== *)
theory PayDB
  imports PayAmounts BoltProps
begin

text \<open>
  What the payment manager does to the database, for any database that keeps its contract.
\<close>

lemma on_db_live:
  assumes "writes \<alpha> I live op pre upd" "live" "I (pmDb pm)" "pre (\<alpha> (pmDb pm)) = None"
  shows "\<exists>db'. on_db op pm = (Ok (), pm\<lparr>pmDb := db'\<rparr>) \<and> I db' \<and> \<alpha> db' = upd (\<alpha> (pmDb pm))"
  using writes_live[OF assms] by (auto simp: on_db_def)

text \<open>The table of payments after a list of payments has been filed.\<close>

definition file_all :: "Payment list \<Rightarrow> (string \<rightharpoonup> Payment) \<Rightarrow> string \<rightharpoonup> Payment" where
  "file_all ps m = foldl (\<lambda>m p. m(pmUUID p \<mapsto> p)) m ps"

definition eligible :: "PoolDB \<Rightarrow> 64 word \<Rightarrow> Share set" where
  "eligible s t = {x \<in> ran (tShares s). shCreatedOn x \<le> t}"

definition weightOf :: "Share set \<Rightarrow> string \<Rightarrow> rat" where
  "weightOf E a = (\<Sum>s\<in>{s \<in> E. shAccount s = a}. shWeight s)"

definition weightAll :: "Share set \<Rightarrow> rat" where
  "weightAll E = (\<Sum>s\<in>E. shWeight s)"

lemma accWeight_set: "distinct ss \<Longrightarrow> accWeight a ss = weightOf (set ss) a"
  by (simp add: accWeight_def weightOf_def sum_list_distinct_conv_sum_set)

lemma totalWeight_set: "distinct ss \<Longrightarrow> totalWeight ss = weightAll (set ss)"
  by (simp add: totalWeight_def weightAll_def sum_list_distinct_conv_sum_set)

context database_spec
begin

lemma persist_all:
  assumes "live" "I (pmDb pm)" "\<forall>p \<in> set ps. wf_payment p"
  shows "\<exists>db'. forc ps (\<lambda>p. on_db (db_PersistPayment D p)) pm = (Ok (), pm\<lparr>pmDb := db'\<rparr>) \<and> I db' \<and>
    \<alpha> db' = (\<alpha> (pmDb pm))\<lparr>tPayments := file_all ps (tPayments (\<alpha> (pmDb pm)))\<rparr>"
  using assms
proof (induction ps arbitrary: pm)
  case Nil
  then show ?case by (auto simp: file_all_def intro!: exI[of _ "pmDb pm"])
next
  case (Cons p ps)
  obtain db1 where db1: "on_db (db_PersistPayment D p) pm = (Ok (), pm\<lparr>pmDb := db1\<rparr>)" "I db1"
    "\<alpha> db1 = (\<alpha> (pmDb pm))\<lparr>tPayments := (tPayments (\<alpha> (pmDb pm)))(pmUUID p \<mapsto> p)\<rparr>"
    using on_db_live[OF PersistPayment, of p] Cons.prems by auto
  obtain db2 where "forc ps (\<lambda>p. on_db (db_PersistPayment D p)) (pm\<lparr>pmDb := db1\<rparr>) = (Ok (), pm\<lparr>pmDb := db2\<rparr>)"
    "I db2" "\<alpha> db2 = (\<alpha> db1)\<lparr>tPayments := file_all ps (tPayments (\<alpha> db1))\<rparr>"
    using Cons.IH[of "pm\<lparr>pmDb := db1\<rparr>"] Cons.prems db1(2) by auto
  then show ?case using db1 by (auto simp: bndc_Ok file_all_def)
qed

lemma pps_percentages:
  assumes I: "I (pmDb pm)" and e: "fair e" and cfg: "cfgDb cfg = D"
    and E: "eligible (\<alpha> (pmDb pm)) t \<noteq> {}" and pos: "\<forall>s \<in> eligible (\<alpha> (pmDb pm)) t. 0 < shWeight s"
  defines "E \<equiv> eligible (\<alpha> (pmDb pm)) t"
  shows "\<exists>m. PPSSharePercentages e cfg t pm = (Ok m, pm) \<and> m \<noteq> [] \<and> distinct_keys m \<and>
    map_of m = (\<lambda>a. if a \<in> shAccount ` E then Some (weightOf E a / weightAll E) else None) \<and>
    (\<forall>(a, r) \<in> set m. 0 < r) \<and> total m = 1 \<and> length m = card (shAccount ` E)"
proof -
  obtain ss where ss: "db_ppsEligibleShares D t (pmDb pm) = Ok ss" "distinct ss" "set ss = E"
    using ppsEligibleShares[OF I, of t] by (auto simp: lists_rows_def E_def eligible_def)
  have ne: "ss \<noteq> []" using E ss(3) by (auto simp: E_def)
  obtain m where m: "sharePercentages e ss = Ok m" "distinct_keys m"
    "map_of m = (\<lambda>a. if a \<in> shAccount ` set ss
                    then Some (accWeight a ss / totalWeight ss) else None)"
    "\<forall>(a, r) \<in> set m. 0 < r" "total m = 1"
    using share_percentages_all[OF e ne] pos ss(3) by (auto simp: E_def)
  have "a \<in> set (keys m) \<longleftrightarrow> a \<in> shAccount ` E" for a
    using map_of_None_keys[of m a] unfolding m(3) ss(3) by (simp split: if_splits)
  then have "set (keys m) = shAccount ` E" by blast
  then have "length m = card (shAccount ` E)"
    using distinct_card[of "keys m"] m(2) by (simp add: distinct_keys_def Prelude.keys_def)
  moreover have "m \<noteq> []" using m(5) by auto
  ultimately show ?thesis
    using m ss ne by (auto simp: PPSSharePercentages_def bndc_def from_db_def cfg liftc_def
        accWeight_set totalWeight_set)
qed

lemma pps_payments:
  assumes live: "live" and I: "I (pmDb pm)" and e: "fair e" and cfg: "cfgDb cfg = D"
    and pps: "PaymentMethod cfg = PPS"
    and E: "eligible (\<alpha> (pmDb pm)) t \<noteq> {}"
    and pos: "\<forall>s \<in> eligible (\<alpha> (pmDb pm)) t. 0 < shWeight s"
    and src: "source \<noteq> None"
    and fee: "0 \<le> MulF64 (cfgRules cfg) amt (PoolFee cfg)" "MulF64 (cfgRules cfg) amt (PoolFee cfg) \<le> amt"
      "amt < 2 ^ 63"
  defines "E \<equiv> eligible (\<alpha> (pmDb pm)) t" and "R \<equiv> cfgRules cfg"
    and "S \<equiv> amt - MulF64 (cfgRules cfg) amt (PoolFee cfg)"
  shows "\<exists>pm' ps. generatePayments e cfg height source amt t pm = (Ok (), pm') \<and> I (pmDb pm') \<and>
    \<alpha> (pmDb pm') = (\<alpha> (pmDb pm))\<lparr>tPayments := file_all ps (tPayments (\<alpha> (pmDb pm))),
      tLastCreated := Some (pmCreatedOn (last ps)),
      tShares := (\<lambda>k. case tShares (\<alpha> (pmDb pm)) k of
         Some x \<Rightarrow> if shCreatedOn x < t then None else Some x | None \<Rightarrow> None)\<rparr> \<and>
    (\<forall>a \<in> shAccount ` E. let v = portion S (weightOf E a / weightAll E) in
       \<not> dust R v \<longrightarrow> (\<exists>p \<in> set ps. pmAccount p = a \<and> pmAmount p = v)) \<and>
    (\<Sum>p\<leftarrow>ps. pmAmount p) \<le> amt \<and> amt < (\<Sum>p\<leftarrow>ps. pmAmount p) + int (card (shAccount ` E)) \<and>
    length ps \<le> Suc (card (shAccount ` E))"
proof -
  obtain m where m: "PPSSharePercentages e cfg t pm = (Ok m, pm)" "m \<noteq> []" "distinct_keys m"
    "map_of m = (\<lambda>a. if a \<in> shAccount ` E then Some (weightOf E a / weightAll E) else None)"
    "\<forall>(a, r) \<in> set m. 0 < r" "total m = 1" "length m = card (shAccount ` E)"
    using pps_percentages[OF I e cfg E] pos unfolding E_def by auto
  have mem: "(a, r) \<in> set m \<longleftrightarrow> a \<in> shAccount ` E \<and> r = weightOf E a / weightAll E" for a r
    using map_of_Some_distinct[OF m(3), of a r] unfolding m(4) by (auto split: if_splits)
  have nn: "\<forall>(a, r) \<in> set m. 0 \<le> r" using m(5) by auto
  obtain ps c tick where ps:
    "calculatePayments e R m source amt (PoolFee cfg) height (height + ucast (CoinbaseMaturity cfg)) (pmTick pm)
       = Ok (ps, c, tick)"
    "mset (map (\<lambda>p. (pmAccount p, pmAmount p)) (butlast ps)) =
       mset (filter (\<lambda>(a, amt). \<not> dust R amt) (map (\<lambda>(a, r). (a, portion S r)) m))"
    "(\<Sum>p\<leftarrow>ps. pmAmount p) \<le> amt" "amt < (\<Sum>p\<leftarrow>ps. pmAmount p) + int (length m)"
    using calculate_payments_all[OF e m(3,2) nn m(6) fee, of source height "height + ucast (CoinbaseMaturity cfg)" "pmTick pm"]
    unfolding R_def S_def by blast
  have "length (shAccount s) \<le> 32000" if "s \<in> E" for s
    using that wf_rows[OF I] by (auto simp: E_def eligible_def ran_def wf_share_def)
  then have acc: "\<forall>(a, r) \<in> set m. length a \<le> 32000" using mem by auto
  note wf = calculatePayments_wf[OF ps(1) src acc e m(3)]
  let ?pm = "pm\<lparr>pmTick := tick\<rparr>"
  obtain db1 where db1: "forc ps (\<lambda>p. on_db (db_PersistPayment D p)) ?pm = (Ok (), ?pm\<lparr>pmDb := db1\<rparr>)" "I db1"
    "\<alpha> db1 = (\<alpha> (pmDb pm))\<lparr>tPayments := file_all ps (tPayments (\<alpha> (pmDb pm)))\<rparr>"
    using persist_all[of ?pm ps, OF live] I wf(1) by auto
  obtain db2 where db2: "on_db (db_persistLastPaymentCreatedOn D c) (?pm\<lparr>pmDb := db1\<rparr>) = (Ok (), ?pm\<lparr>pmDb := db2\<rparr>)"
    "I db2" "\<alpha> db2 = (\<alpha> db1)\<lparr>tLastCreated := Some c\<rparr>"
    using on_db_live[OF persistLastPaymentCreatedOn[of c] live, of "?pm\<lparr>pmDb := db1\<rparr>"] db1(2) by auto
  obtain db3 where db3: "on_db (db_pruneShares D t) (?pm\<lparr>pmDb := db2\<rparr>) = (Ok (), ?pm\<lparr>pmDb := db3\<rparr>)"
    "I db3" "\<alpha> db3 = (\<alpha> db2)\<lparr>tShares := (\<lambda>k. case tShares (\<alpha> db2) k of
         Some x \<Rightarrow> if shCreatedOn x < t then None else Some x | None \<Rightarrow> None)\<rparr>"
    using on_db_live[OF pruneShares[of t] live, of "?pm\<lparr>pmDb := db2\<rparr>"] db2(2) by auto
  have "generatePayments e cfg height source amt t pm = (Ok (), ?pm\<lparr>pmDb := db3\<rparr>)"
    using pps m(1) ps(1) db1(1) db2(1) db3(1)
    by (simp add: generatePayments_def payPerShare_def pm_calculatePayments_def cfg bndc_Ok R_def)
  moreover have "\<exists>p \<in> set ps. pmAccount p = a \<and> pmAmount p = portion S (weightOf E a / weightAll E)"
    if "a \<in> shAccount ` E" "\<not> dust R (portion S (weightOf E a / weightAll E))" for a
  proof -
    let ?v = "portion S (weightOf E a / weightAll E)"
    have "(a, ?v) \<in># mset (map (\<lambda>p. (pmAccount p, pmAmount p)) (butlast ps))"
      unfolding ps(2) using that mem[of a "weightOf E a / weightAll E"] by (auto intro!: image_eqI)
    then show ?thesis by (auto dest: in_set_butlastD)
  qed
  moreover have "length ps \<le> Suc (length m)"
    using mset_eq_length[OF ps(2)] length_filter_le[of "\<lambda>(a, amt). \<not> dust R amt" "map (\<lambda>(a, r). (a, portion S r)) m"]
    by (simp only: length_map length_butlast)
  ultimately show ?thesis
    using db3(2,3) db2(3) db1(3) ps(3,4) m(7) wf(2)
    by (intro exI[of _ "?pm\<lparr>pmDb := db3\<rparr>"] exI[of _ ps]) (simp add: Let_def)
qed

end

section \<open>Concrete state for the witnesses\<close>

definition demoShare :: "string \<Rightarrow> rat \<Rightarrow> 64 word \<Rightarrow> Share" where
  "demoShare a w t = NewShare a w t 0"

lemma demoShare_wf: "length a \<le> 32000 \<Longrightarrow> wf_share (demoShare a w t)"
  by (simp add: wf_share_def demoShare_def NewShare_def wf_key_def)
    (simp add: shareID_def randValEncoded_def)

definition sharedb :: memdb where
  "sharedb = snd (PersistShare mem_bolt (demoShare ''y'' 3 6) (snd (PersistShare mem_bolt (demoShare ''x'' 1 5) newdb)))"

lemmas mem_share_live = mem.b_PersistShare[THEN writes_live, OF _ mem.live]

lemma demoShare_neq: "shUUID (demoShare ''x'' 1 5) \<noteq> shUUID (demoShare ''y'' 3 6)"
  by (simp add: demoShare_def NewShare_def shareID_def)

lemma sharedb_abs:
  "boltInv mem_bolt sharedb"
  "absdb mem_bolt sharedb = emptyPoolDB\<lparr>tShares :=
     [shUUID (demoShare ''x'' 1 5) \<mapsto> demoShare ''x'' 1 5, shUUID (demoShare ''y'' 3 6) \<mapsto> demoShare ''y'' 3 6]\<rparr>"
proof -
  obtain db1 where db1: "PersistShare mem_bolt (demoShare ''x'' 1 5) newdb = (Ok (), db1)"
    "boltInv mem_bolt db1"
    "absdb mem_bolt db1 = emptyPoolDB\<lparr>tShares := [shUUID (demoShare ''x'' 1 5) \<mapsto> demoShare ''x'' 1 5]\<rparr>"
    using mem_share_live[OF demoShare_wf newdb_inv(1), of "''x''" 1 5]
    by (auto simp: newdb_inv(2) emptyPoolDB_def absent_def simp del: absdb_sel)
  obtain db2 where "PersistShare mem_bolt (demoShare ''y'' 3 6) db1 = (Ok (), db2)"
    "boltInv mem_bolt db2" "absdb mem_bolt db2 = emptyPoolDB\<lparr>tShares :=
     [shUUID (demoShare ''x'' 1 5) \<mapsto> demoShare ''x'' 1 5, shUUID (demoShare ''y'' 3 6) \<mapsto> demoShare ''y'' 3 6]\<rparr>"
    using mem_share_live[OF demoShare_wf db1(2), of "''y''" 3 6] demoShare_neq db1(3)
    by (auto simp: absent_def simp del: absdb_sel)
  then show "boltInv mem_bolt sharedb" "absdb mem_bolt sharedb = emptyPoolDB\<lparr>tShares :=
     [shUUID (demoShare ''x'' 1 5) \<mapsto> demoShare ''x'' 1 5, shUUID (demoShare ''y'' 3 6) \<mapsto> demoShare ''y'' 3 6]\<rparr>"
    using db1(1) by (simp_all add: sharedb_def del: absdb_sel)
qed

lemma sharedb_inv:
  "boltInv mem_bolt sharedb"
  "tShares (absdb mem_bolt sharedb) =
     [shUUID (demoShare ''x'' 1 5) \<mapsto> demoShare ''x'' 1 5, shUUID (demoShare ''y'' 3 6) \<mapsto> demoShare ''y'' 3 6]"
  using sharedb_abs by (simp_all del: absdb_sel)

lemma sharedb_eligible:
  "eligible (absdb mem_bolt sharedb) 10 = {demoShare ''x'' 1 5, demoShare ''y'' 3 6}"
  unfolding eligible_def sharedb_inv(2) using demoShare_neq
  by (auto simp: demoShare_def NewShare_def)

definition demoCfg :: "memdb PaymentMgrConfig" where
  "demoCfg = \<lparr>cfgDb = BoltDatabase mem_bolt, CoinbaseMaturity = 16, PoolFee = Finite (1 / 100),
     LastNPeriod = 100, SoloPool = False, PaymentMethod = PPS, PoolFeeAddrs = [''f''], WalletPass = [],
     GetBlockConfirmations = (\<lambda>h. Ok 20), FetchTxCreator = None, FetchTxBroadcaster = None,
     cfgRules = demoRules\<rparr>"

definition demoPm :: "memdb \<Rightarrow> memdb PaymentMgr" where
  "demoPm db = \<lparr>failedTxConfs = 0, txConfHashes = [], processing = False, pmDb = db, pmTick = 0\<rparr>"

section \<open>Properties\<close>

text \<open>
  C3: a block paid by the PPS scheme. For a database that keeps its contract on a medium that
  does not fail, with positive share weights, a source, and a fee between zero and the amount,
  \<open>generatePayments\<close> succeeds: every account with an eligible share is filed a payment of
  the integer part of its weight's portion of the amount after fees unless that is dust, the
  payments sum to the amount less fewer atoms than there are accounts, there is at most one of
  them for each account besides the pool's, the time of the last
  payment is recorded, and exactly the shares created before the work are removed.
\<close>

theorem pps_block_paid:
  assumes "database_spec (cfgDb cfg) \<alpha> I True" "I (pmDb pm)" "fair e" "PaymentMethod cfg = PPS"
    and "eligible (\<alpha> (pmDb pm)) t \<noteq> {}"
    and "\<forall>s \<in> eligible (\<alpha> (pmDb pm)) t. 0 < shWeight s"
    and "source \<noteq> None"
    and "0 \<le> MulF64 (cfgRules cfg) amt (PoolFee cfg)" "MulF64 (cfgRules cfg) amt (PoolFee cfg) \<le> amt"
      "amt < 2 ^ 63"
  shows "\<exists>pm' ps. generatePayments e cfg height source amt t pm = (Ok (), pm') \<and> I (pmDb pm') \<and>
    \<alpha> (pmDb pm') = (\<alpha> (pmDb pm))\<lparr>tPayments := file_all ps (tPayments (\<alpha> (pmDb pm))),
      tLastCreated := Some (pmCreatedOn (last ps)),
      tShares := (\<lambda>k. case tShares (\<alpha> (pmDb pm)) k of
         Some x \<Rightarrow> if shCreatedOn x < t then None else Some x | None \<Rightarrow> None)\<rparr> \<and>
    (\<forall>a \<in> shAccount ` eligible (\<alpha> (pmDb pm)) t.
       let v = portion (amt - MulF64 (cfgRules cfg) amt (PoolFee cfg))
                 (weightOf (eligible (\<alpha> (pmDb pm)) t) a / weightAll (eligible (\<alpha> (pmDb pm)) t)) in
       \<not> dust (cfgRules cfg) v \<longrightarrow> (\<exists>p \<in> set ps. pmAccount p = a \<and> pmAmount p = v)) \<and>
    (\<Sum>p\<leftarrow>ps. pmAmount p) \<le> amt \<and>
    amt < (\<Sum>p\<leftarrow>ps. pmAmount p) + int (card (shAccount ` eligible (\<alpha> (pmDb pm)) t)) \<and>
    length ps \<le> Suc (card (shAccount ` eligible (\<alpha> (pmDb pm)) t))"
  using database_spec.pps_payments[OF assms(1) TrueI assms(2,3) refl assms(4-)] .

lemma mem_db_spec: "database_spec (BoltDatabase mem_bolt) (absdb mem_bolt) (boltInv mem_bolt) True"
  using mem.bolt_is_database mem.live by (simp add: eq_True[THEN iffD2])

theorem pps_block_paid_witness:
  "\<exists>pm' ps. generatePayments plainEnv demoCfg 7 (Some \<lparr>srcBlockHash = ''b'', srcCoinbase = ''c''\<rparr>) 1001 10
      (demoPm sharedb) = (Ok (), pm') \<and> boltInv mem_bolt (pmDb pm') \<and>
    tPayments (absdb mem_bolt (pmDb pm')) = file_all ps (tPayments (absdb mem_bolt sharedb)) \<and>
    (\<exists>p \<in> set ps. pmAccount p = ''y'' \<and> pmAmount p = portion 991 (3 / 4)) \<and>
    (\<Sum>p\<leftarrow>ps. pmAmount p) \<le> 1001 \<and> 999 < (\<Sum>p\<leftarrow>ps. pmAmount p)"
proof -
  let ?E = "eligible (absdb mem_bolt sharedb) 10"
  have ne: "demoShare ''x'' 1 5 \<noteq> demoShare ''y'' 3 6" using demoShare_neq by auto
  have acc: "shAccount (demoShare a w t) = a" "shWeight (demoShare a w t) = w" for a w t
    by (simp_all add: demoShare_def NewShare_def)
  have W: "weightAll ?E = 4" "shAccount ` ?E = {''x'', ''y''}"
    using ne by (simp_all add: sharedb_eligible weightAll_def acc)
  have "{s \<in> ?E. shAccount s = ''y''} = {demoShare ''y'' 3 6}" by (auto simp: sharedb_eligible acc)
  then have Y: "weightOf ?E ''y'' = 3" by (simp add: weightOf_def acc)
  have v: "portion 991 (3 / 4) = 743" by (simp add: portion_def floor_eq_iff)
  have cfg: "cfgDb demoCfg = BoltDatabase mem_bolt" "cfgRules demoCfg = demoRules" "PoolFee demoCfg = Finite (1 / 100)"
    "PaymentMethod demoCfg = PPS" "pmDb (demoPm sharedb) = sharedb"
    by (simp_all add: demoCfg_def demoPm_def)
  have y: "''y'' \<in> shAccount ` ?E" unfolding W(2) by simp
  have pos: "\<forall>s \<in> ?E. 0 < shWeight s"
    by (simp add: sharedb_eligible acc)
  have E: "?E \<noteq> {}" by (simp add: sharedb_eligible)
  have paid: "\<exists>pm' ps. generatePayments plainEnv demoCfg 7 (Some \<lparr>srcBlockHash = ''b'', srcCoinbase = ''c''\<rparr>) 1001 10
      (demoPm sharedb) = (Ok (), pm') \<and> boltInv mem_bolt (pmDb pm') \<and>
    absdb mem_bolt (pmDb pm') = (absdb mem_bolt sharedb)\<lparr>tPayments := file_all ps (tPayments (absdb mem_bolt sharedb)),
      tLastCreated := Some (pmCreatedOn (last ps)),
      tShares := (\<lambda>k. case tShares (absdb mem_bolt sharedb) k of
         Some x \<Rightarrow> if shCreatedOn x < 10 then None else Some x | None \<Rightarrow> None)\<rparr> \<and>
    (\<forall>a \<in> shAccount ` ?E. let v = portion (1001 - 10) (weightOf ?E a / weightAll ?E) in
       \<not> dust demoRules v \<longrightarrow> (\<exists>p \<in> set ps. pmAccount p = a \<and> pmAmount p = v)) \<and>
    (\<Sum>p\<leftarrow>ps. pmAmount p) \<le> 1001 \<and> 1001 < (\<Sum>p\<leftarrow>ps. pmAmount p) + int (card (shAccount ` ?E)) \<and>
    length ps \<le> Suc (card (shAccount ` ?E))"
    by (rule pps_block_paid[of demoCfg "absdb mem_bolt" "boltInv mem_bolt" "demoPm sharedb" plainEnv 10
          "Some \<lparr>srcBlockHash = ''b'', srcCoinbase = ''c''\<rparr>" 1001 7, unfolded cfg demo_amounts(1),
          OF mem_db_spec sharedb_inv(1) plainEnv_fair refl E pos]) simp_all
  then show ?thesis
  proof (elim exE conjE, goal_cases)
    case (1 pm' ps)
    have "\<exists>p \<in> set ps. pmAccount p = ''y'' \<and> pmAmount p = portion 991 (3 / 4)"
      using bspec[OF 1(4) y] by (simp add: Let_def W(1) Y v demo_amounts)
    then show ?case using 1 W(2) by (intro exI[of _ pm'] exI[of _ ps]) (simp del: absdb_sel)
  qed
qed

end
