(* ===== verification/PayOut.thy ===== *)
theory PayOut
  imports PayDB
begin

text \<open>
  The payout of mature payments: what the payout transaction spends and pays, the rescan loop,
  and what \<open>payDividends\<close> leaves behind on every path.
\<close>

section \<open>Inputs and outputs of the payout\<close>

lemma i64_add_i64 [simp]: "i64 (i64 x + y) = i64 (x + y)"
  by (simp add: i64_def algebra_simps mod_simps)

lemma i64_0 [simp]: "i64 0 = 0"
  by (simp add: i64_def)

definition paidTo :: "(Payment \<Rightarrow> string) \<Rightarrow> Payment list \<Rightarrow> string \<Rightarrow> int" where
  "paidTo addrOf ps addr = (\<Sum>p\<leftarrow>filter (\<lambda>p. addrOf p = addr) ps. pmAmount p)"

definition amounts :: "Payment list \<Rightarrow> int" where
  "amounts ps = (\<Sum>p\<leftarrow>ps. pmAmount p)"

text \<open>
  The outputs of a payout collect the payments \<open>ps\<close>: one output per address, the values
  taken modulo the width of an amount.
\<close>

definition collects :: "(Payment \<Rightarrow> string) \<Rightarrow> Payment list \<Rightarrow> payout \<Rightarrow> bool" where
  "collects addrOf ps po \<longleftrightarrow> distinct_keys (poOutputs po) \<and> poOut po = i64 (amounts ps) \<and>
     map_of (poOutputs po) = (\<lambda>addr. if addr \<in> addrOf ` set ps then Some (i64 (paidTo addrOf ps addr)) else None)"

lemma collects_step:
  assumes "collects addrOf ps po" "payoutAddr cfg db feeAddr p = Ok (addrOf p)"
  shows "\<exists>po'. addOutput cfg db feeAddr p po = Ok po' \<and> collects addrOf (ps @ [p]) po' \<and>
    po' = po\<lparr>poOutputs := poOutputs po', poOut := poOut po'\<rparr>"
proof -
  have none: "paidTo addrOf ps a = 0" if "a \<notin> addrOf ` set ps" for a
    using that by (simp add: paidTo_def filter_False[of ps] image_iff) (metis (mono_tags) filter_False list.simps(8) sum_list.Nil)
  have "map_of (poOutputs po) (addrOf p) = (if addrOf p \<in> addrOf ` set ps
      then Some (i64 (paidTo addrOf ps (addrOf p))) else None)"
    using assms(1) by (simp add: collects_def)
  then show ?thesis
    using assms none
    by (auto simp: addOutput_def collects_def amounts_def paidTo_def fun_eq_iff Let_def)
qed

lemma collects_all:
  assumes "collects addrOf ps po" "\<forall>p \<in> set qs. payoutAddr cfg db feeAddr p = Ok (addrOf p)"
  shows "\<exists>po'. foldo (addOutput cfg db feeAddr) qs po = Ok po' \<and> collects addrOf (ps @ qs) po' \<and>
    po' = po\<lparr>poOutputs := poOutputs po', poOut := poOut po'\<rparr>"
  using assms
proof (induction qs arbitrary: ps po)
  case Nil
  then show ?case by (intro exI[of _ po]) simp
next
  case (Cons q qs)
  obtain po1 where po1: "addOutput cfg db feeAddr q po = Ok po1" "collects addrOf (ps @ [q]) po1"
    "po1 = po\<lparr>poOutputs := poOutputs po1, poOut := poOut po1\<rparr>"
    using collects_step[OF Cons.prems(1), of cfg db feeAddr q] Cons.prems(2) by auto
  obtain po2 where po2: "foldo (addOutput cfg db feeAddr) qs po1 = Ok po2" "collects addrOf ((ps @ [q]) @ qs) po2"
    "po2 = po1\<lparr>poOutputs := poOutputs po2, poOut := poOut po2\<rparr>"
    using Cons.IH[OF po1(2)] Cons.prems(2) by auto
  have "po2 = po\<lparr>poOutputs := poOutputs po2, poOut := poOut po2\<rparr>"
    by (subst po2(3), subst po1(3)) simp
  then show ?case using po1(1) po2(1,2) by (intro exI[of _ po2]) simp
qed

text \<open>
  A payment can be spent: its coinbase has a hash, an unspent output of the value \<open>v\<close>
  atoms at the index, and enough confirmations.
\<close>

definition spendable :: "'db PaymentMgrConfig \<Rightarrow> txCreator \<Rightarrow> 32 word \<Rightarrow> Payment \<Rightarrow> int \<Rightarrow> bool" where
  "spendable cfg txC coinbaseIndex p v \<longleftrightarrow> (\<exists>s txHash res. pmSource p = Some s \<and>
     NewHashFromStr (cfgRules cfg) (srcCoinbase s) = Ok txHash \<and>
     GetTxOut txC txHash coinbaseIndex = Ok (Some res) \<and>
     uint (CoinbaseMaturity cfg + 1) \<le> toConfirmations res \<and>
     NewAmount (cfgRules cfg) (toValue res) = Ok v)"

lemma addSet_ok:
  assumes po: "collects addrOf ps po" "poIn po = i64 n"
    and qs: "qs \<noteq> []" "\<forall>p \<in> set qs. payoutAddr cfg db feeAddr p = Ok (addrOf p)"
    and sp: "spendable cfg txC coinbaseIndex (hd qs) v"
  shows "\<exists>po'. addSet cfg db txC feeAddr coinbaseIndex (h, qs) po = Ok po' \<and>
    collects addrOf (ps @ qs) po' \<and> poIn po' = i64 (n + v) \<and> length (poInputs po') = Suc (length (poInputs po))"
proof -
  obtain s txHash res where s: "pmSource (hd qs) = Some s"
    "NewHashFromStr (cfgRules cfg) (srcCoinbase s) = Ok txHash"
    "GetTxOut txC txHash coinbaseIndex = Ok (Some res)"
    "uint (CoinbaseMaturity cfg + 1) \<le> toConfirmations res"
    "NewAmount (cfgRules cfg) (toValue res) = Ok v"
    using sp by (auto simp: spendable_def)
  let ?inp = "\<lparr>tiAmount = toValue res, tiTxid = HashString (cfgRules cfg) txHash, tiVout = coinbaseIndex\<rparr>"
  let ?po = "po\<lparr>poInputs := poInputs po @ [?inp],
      poInputTxHashes := put txHash (pmHeight (hd qs)) (poInputTxHashes po), poIn := i64 (poIn po + v)\<rparr>"
  have "collects addrOf ps ?po" using po(1) by (simp add: collects_def)
  from collects_all[OF this qs(2)] obtain po' where po': "foldo (addOutput cfg db feeAddr) qs ?po = Ok po'" "collects addrOf (ps @ qs) po'"
    "po' = ?po\<lparr>poOutputs := poOutputs po', poOut := poOut po'\<rparr>"
    by (elim exE conjE)
  have sel: "poIn po' = i64 (poIn po + v)" "poInputs po' = poInputs po @ [?inp]"
    using arg_cong[OF po'(3), of poIn] arg_cong[OF po'(3), of poInputs] by simp_all
  have "index qs 0 = (Ok (hd qs) :: _ go)" using qs(1) by (simp add: index_def hd_conv_nth)
  then have "addSet cfg db txC feeAddr coinbaseIndex (h, qs) po = Ok po'"
    using s po'(1) by (simp add: addSet_def Let_def del: bnd_eq_Ok)
  then show ?thesis using po'(2) sel po(2) by simp
qed

lemma addSets_ok:
  assumes "collects addrOf ps po" "poIn po = i64 n"
    and "\<forall>(h, qs) \<in> set xs. qs \<noteq> [] \<and> spendable cfg txC coinbaseIndex (hd qs) (coin h) \<and>
      (\<forall>p \<in> set qs. payoutAddr cfg db feeAddr p = Ok (addrOf p))"
  shows "\<exists>po'. foldo (addSet cfg db txC feeAddr coinbaseIndex) xs po = Ok po' \<and>
    collects addrOf (ps @ concat (map snd xs)) po' \<and> poIn po' = i64 (n + (\<Sum>(h, _)\<leftarrow>xs. coin h)) \<and>
    length (poInputs po') = length (poInputs po) + length xs"
  using assms
proof (induction xs arbitrary: ps po n)
  case Nil
  then show ?case by auto
next
  case (Cons x xs)
  obtain h qs where x: "x = (h, qs)" by (cases x)
  obtain po1 where po1: "addSet cfg db txC feeAddr coinbaseIndex (h, qs) po = Ok po1"
    "collects addrOf (ps @ qs) po1" "poIn po1 = i64 (n + coin h)" "length (poInputs po1) = Suc (length (poInputs po))"
    using addSet_ok[OF Cons.prems(1,2), of qs cfg db feeAddr txC coinbaseIndex "coin h" h] Cons.prems(3) x by auto
  obtain po2 where "foldo (addSet cfg db txC feeAddr coinbaseIndex) xs po1 = Ok po2"
    "collects addrOf ((ps @ qs) @ concat (map snd xs)) po2"
    "poIn po2 = i64 (n + coin h + (\<Sum>(h, _)\<leftarrow>xs. coin h))"
    "length (poInputs po2) = length (poInputs po1) + length xs"
    using Cons.IH[OF po1(2,3)] Cons.prems(3) by auto
  then show ?case using x po1 by (auto simp: add.assoc)
qed

lemma poHashes_mono:
  assumes "addSet cfg db txC feeAddr coinbaseIndex x po = Ok po'"
  shows "\<exists>th v. poInputTxHashes po' = put th v (poInputTxHashes po) \<and>
     (\<exists>p \<in> set (snd x). \<exists>s. pmSource p = Some s \<and> NewHashFromStr (cfgRules cfg) (srcCoinbase s) = Ok th)"
proof -
  have keep: "poInputTxHashes b' = poInputTxHashes b" if "foldo (addOutput cfg db feeAddr) qs b = Ok b'" for qs b b'
    by (rule foldo_invariant[OF that]) (auto simp: addOutput_def Let_def)
  obtain first src th v inp where f: "index (snd x) 0 = (Ok first :: _ go)" "pmSource first = Some src"
    "NewHashFromStr (cfgRules cfg) (srcCoinbase src) = Ok th"
    "foldo (addOutput cfg db feeAddr) (snd x) (po\<lparr>poInputs := poInputs po @ [inp],
        poInputTxHashes := put th (pmHeight first) (poInputTxHashes po), poIn := i64 (poIn po + v)\<rparr>) = Ok po'"
    using assms by (auto simp: addSet_def Let_def) (auto split: option.split_asm if_split_asm)
  have "first \<in> set (snd x)" using f(1) by (auto simp: index_def split: if_splits)
  moreover have "poInputTxHashes po' = put th (pmHeight first) (poInputTxHashes po)"
    using keep[OF f(4)] by simp
  ultimately show ?thesis using f(2,3) by blast
qed

lemma poHashes_from:
  assumes "foldo (addSet cfg db txC feeAddr coinbaseIndex) xs po = Ok po'"
    and "\<forall>th \<in> set (keys (poInputTxHashes po)). P th" "distinct_keys (poInputTxHashes po)"
    and "\<And>p s th. p \<in> set (concat (map snd xs)) \<Longrightarrow> pmSource p = Some s \<Longrightarrow>
        NewHashFromStr (cfgRules cfg) (srcCoinbase s) = Ok th \<Longrightarrow> P th"
  shows "(\<forall>th \<in> set (keys (poInputTxHashes po')). P th) \<and> distinct_keys (poInputTxHashes po')"
proof (rule foldo_invariant[OF assms(1)])
  fix x b b'
  assume x: "x \<in> set xs" "addSet cfg db txC feeAddr coinbaseIndex x b = Ok b'"
    "(\<forall>th \<in> set (keys (poInputTxHashes b)). P th) \<and> distinct_keys (poInputTxHashes b)"
  obtain th v p s where "poInputTxHashes b' = put th v (poInputTxHashes b)" "p \<in> set (snd x)"
    "pmSource p = Some s" "NewHashFromStr (cfgRules cfg) (srcCoinbase s) = Ok th"
    using poHashes_mono[OF x(2)] by auto
  moreover from this have "P th" using assms(4)[of p s th] x(1) by auto
  ultimately show "(\<forall>th \<in> set (keys (poInputTxHashes b')). P th) \<and> distinct_keys (poInputTxHashes b')"
    using x(3) by (simp add: keys_put)
qed (use assms(2,3) in simp)

section \<open>Orphans and groups\<close>

definition onChain :: "'db PaymentMgrConfig \<Rightarrow> string \<Rightarrow> bool" where
  "onChain cfg h \<longleftrightarrow> (\<exists>bh c. NewHashFromStr (cfgRules cfg) h = Ok bh \<and>
     GetBlockConfirmations cfg bh = Ok c \<and> 0 < c)"

definition locatable :: "'db PaymentMgrConfig \<Rightarrow> string \<Rightarrow> bool" where
  "locatable cfg h \<longleftrightarrow> (\<exists>bh c. NewHashFromStr (cfgRules cfg) h = Ok bh \<and> GetBlockConfirmations cfg bh = Ok c)"

lemma pruneOrphanedPayments_ok:
  assumes e: "fair e" "distinct_keys m" and loc: "\<forall>h \<in> set (keys m). locatable cfg h"
  shows "pruneOrphanedPayments e cfg m = Ok (filter (\<lambda>(h, _). onChain cfg h) m)"
proof -
  let ?f = "\<lambda>(key, _) toDelete.
     bnd (map_err (\<lambda>_. PoolError CreateHash) (NewHashFromStr (cfgRules cfg) key)) (\<lambda>blockHash.
     bnd (GetBlockConfirmations cfg blockHash) (\<lambda>confs.
     Ok (if confs \<le> 0 then toDelete @ [key] else toDelete)))"
  have "foldo ?f xs ks = Ok (ks @ filter (\<lambda>h. \<not> onChain cfg h) (map fst xs))"
    if "\<forall>x \<in> set xs. locatable cfg (fst x)" for xs :: "(string \<times> Payment list) list" and ks
    using that
  proof (induction xs arbitrary: ks)
    case (Cons x xs)
    obtain bh c where "NewHashFromStr (cfgRules cfg) (fst x) = Ok bh" "GetBlockConfirmations cfg bh = Ok c"
      using Cons.prems by (auto simp: locatable_def)
    then show ?case using Cons by (cases x) (simp add: onChain_def linorder_not_less del: bnd_eq_Ok)
  qed simp
  from this[of "range_map e m" "[]"]
  have "foldo ?f (range_map e m) [] = Ok (filter (\<lambda>h. \<not> onChain cfg h) (map fst (range_map e m)))"
    using loc range_map_set[OF e] by (auto simp: Prelude.keys_def)
  moreover have "filter (\<lambda>(k, _). k \<notin> set (filter (\<lambda>h. \<not> onChain cfg h) (map fst (range_map e m)))) m =
      filter (\<lambda>(h, _). onChain cfg h) m"
    by (rule filter_cong) (force simp: range_map_set[OF e])+
  ultimately show ?thesis unfolding pruneOrphanedPayments_def by (simp del: bnd_eq_Ok)
qed

lemma distinct_concat_groups:
  assumes "distinct_keys m" "\<forall>(h, ps) \<in> set m. distinct ps \<and> (\<forall>p \<in> set ps. pm_block p = h)"
  shows "distinct (concat (map snd m))"
  using assms
proof (induction m)
  case (Cons x m)
  obtain h ps where x: "x = (h, ps)" by (cases x)
  have "pm_block p \<noteq> h" if "(h', qs) \<in> set m" "p \<in> set qs" for h' qs p
  proof -
    have "pm_block p = h'" using that Cons.prems(2) by auto
    moreover have "h' \<in> set (keys m)" using that(1) by (force simp: Prelude.keys_def)
    ultimately show ?thesis using Cons.prems(1) x by auto
  qed
  then show ?case using Cons x by (force simp: disjoint_iff)
qed simp

lemma groups_range:
  fixes P :: "string \<Rightarrow> bool"
  assumes e: "fair e" and g: "groups qs m" and qs: "distinct qs"
  defines "xs \<equiv> range_map e (filter (\<lambda>(h, _). P h) m)"
  shows "distinct_keys xs" "(h, ps) \<in> set xs \<longleftrightarrow> P h \<and> ps \<noteq> [] \<and> ps = filter (\<lambda>p. pm_block p = h) qs"
    "distinct (concat (map snd xs))" "set (concat (map snd xs)) = {p \<in> set qs. P (pm_block p)}"
proof -
  have d: "distinct_keys (filter (\<lambda>(h, _). P h) m)"
    using g by (auto simp: groups_def distinct_keys_def Prelude.keys_def distinct_map_filter)
  show dk: "distinct_keys xs"
    unfolding xs_def distinct_keys_def by (metis d distinct_keys_def e range_map_keys)
  have mem: "(h, ps) \<in> set xs \<longleftrightarrow> P h \<and> ps \<noteq> [] \<and> ps = filter (\<lambda>p. pm_block p = h) qs" for h ps
  proof -
    have "(h, ps) \<in> set m \<longleftrightarrow> map_of m h = Some ps"
      using g map_of_Some_distinct[of m h ps] unfolding groups_def by blast
    also have "\<dots> \<longleftrightarrow> ps \<noteq> [] \<and> ps = filter (\<lambda>p. pm_block p = h) qs"
      using g by (auto simp: groups_def split: list.splits)
    finally show ?thesis by (auto simp: xs_def range_map_set[OF e d])
  qed
  show "(h, ps) \<in> set xs \<longleftrightarrow> P h \<and> ps \<noteq> [] \<and> ps = filter (\<lambda>p. pm_block p = h) qs" by (rule mem)
  show "distinct (concat (map snd xs))"
    using dk qs by (intro distinct_concat_groups) (auto simp: mem)
  show "set (concat (map snd xs)) = {p \<in> set qs. P (pm_block p)}"
  proof (rule set_eqI)
    fix p
    have "p \<in> set (concat (map snd xs)) \<longleftrightarrow> (\<exists>h ps. (h, ps) \<in> set xs \<and> p \<in> set ps)" by force
    also have "\<dots> \<longleftrightarrow> p \<in> {p \<in> set qs. P (pm_block p)}"
      unfolding mem by (auto simp: filter_empty_conv)
    finally show "p \<in> set (concat (map snd xs)) \<longleftrightarrow> p \<in> {p \<in> set qs. P (pm_block p)}" .
  qed
qed

section \<open>Confirmation and settlement\<close>

lemma confirmEach_all:
  assumes "\<forall>i. \<not> cancelled i" "\<forall>h \<in> set hs. \<exists>c. GetTransaction txB h = Confirmations c \<and> n \<le> c"
  shows "confirmEach cancelled txB n i hs ths = (Ok (), filter (\<lambda>(k, _). k \<notin> set hs) ths)"
  using assms(2)
proof (induction hs arbitrary: i ths)
  case (Cons h hs)
  then obtain c where "GetTransaction txB h = Confirmations c" "n \<le> c" by auto
  then show ?case using Cons assms(1) by (auto intro!: filter_cong)
qed (simp add: filter_True)

lemma confirmCoinbases_all:
  assumes e: "fair e" "\<forall>i. \<not> cancelled i"
    and all: "\<forall>h \<in> set (keys ths). \<exists>c. GetTransaction txB h = Confirmations c \<and> uint (CoinbaseMaturity cfg) + 1 \<le> c"
  shows "confirmCoinbases e cancelled cfg txB ths = (Ok (), [])"
proof -
  have k: "set (eOrder e (keys ths)) = set (keys ths)"
    using e(1) by (metis fair_def set_mset_mset)
  have "filter (\<lambda>(k, _). k \<notin> set (eOrder e (keys ths))) ths = []"
    unfolding k filter_empty_conv by (force simp: Prelude.keys_def)
  then show ?thesis
    using confirmEach_all[OF e(2), of "eOrder e (keys ths)" txB "uint (CoinbaseMaturity cfg) + 1" 0 ths] all k
    by (simp add: confirmCoinbases_def)
qed

lemma range_map_mem: "x \<in> set (range_map e m) \<Longrightarrow> fst x \<in> set (keys m)"
proof -
  assume "x \<in> set (range_map e m)"
  then have "map_of m (fst x) \<noteq> None" by (auto simp: range_map_def split: option.splits) metis
  then show ?thesis by (simp add: map_of_None_keys)
qed

lemma decodeOutputs_ok:
  assumes "\<forall>a \<in> set (keys m). \<exists>addr. DecodeAddress (cfgRules cfg) a = Ok addr"
  shows "\<exists>outs. decodeOutputs e cfg m = Ok outs"
proof -
  have "\<exists>outs. foldo (\<lambda>(sAddr, amt) outs.
       bnd (map_err (\<lambda>_. PoolError Decode) (DecodeAddress (cfgRules cfg) sAddr)) (\<lambda>addr.
       Ok (outs @ [(addr, amt)]))) xs b = Ok outs" if "\<forall>x \<in> set xs. fst x \<in> set (keys m)" for xs and b :: "(string \<times> int) list"
    using that
  proof (induction xs arbitrary: b)
    case (Cons x xs)
    obtain a where "DecodeAddress (cfgRules cfg) (fst x) = Ok a" using assms Cons.prems by auto
    then show ?case using Cons by (cases x) (simp del: bnd_eq_Ok)
  qed simp
  from this[of "range_map e m" "[]"] show ?thesis using range_map_mem[of _ e m] by (simp add: decodeOutputs_def)
qed

lemma applyTxFees_total:
  assumes "inputs \<noteq> []" "outputs \<noteq> []"
  shows "\<exists>fee outs. applyTxFees e R inputs outputs feeAddr = Ok (fee, outs)"
  using assms by (simp add: applyTxFees_def Let_def split: prod.splits)

text \<open>The fees are taken from the outputs there are.\<close>

lemma applyTxFees_keys:
  assumes "applyTxFees e R inputs outputs feeAddr = Ok (fee, outs)"
  shows "set (keys outs) \<subseteq> set (keys outputs)"
proof -
  define step :: "string \<times> int \<Rightarrow> (string \<times> int) list \<times> int \<Rightarrow> (string \<times> int) list \<times> int" where
    "step = (\<lambda>(addr, fee) (outs, remaining).
       if 0 < remaining then (put addr (i64 (i64 (the (map_of outs addr) - fee) - 1)) outs, remaining - 1)
       else (put addr (i64 (the (map_of outs addr) - fee)) outs, remaining))"
  have "set (keys (fst (fold step xs s))) \<subseteq> set (keys outputs)"
    if "\<forall>x \<in> set xs. fst x \<in> set (keys outputs)" "set (keys (fst s)) \<subseteq> set (keys outputs)" for xs s
    by (rule fold_invariant[where Q = "\<lambda>x. fst x \<in> set (keys outputs)"])
      (use that in \<open>auto simp: step_def keys_put split: prod.splits\<close>)
  moreover have "fst x \<in> set (keys outputs)"
    if "x \<in> set (range_map e (map (\<lambda>(addr, v). (addr, f v)) (filter (\<lambda>(addr, _). addr \<noteq> feeAddr) outputs)))" for x and f :: "int \<Rightarrow> int"
  proof -
    have "set (keys (map (\<lambda>(addr, v). (addr, f v)) (filter (\<lambda>(addr, _). addr \<noteq> feeAddr) outputs))) \<subseteq> set (keys outputs)"
      by (force simp: Prelude.keys_def)
    then show ?thesis using range_map_mem[OF that] by blast
  qed
  moreover have "\<exists>f remaining left. fold step (range_map e (map (\<lambda>(addr, v). (addr, f v))
      (filter (\<lambda>(addr, _). addr \<noteq> feeAddr) outputs))) (outputs, remaining) = (outs, left)"
    using assms unfolding applyTxFees_def Let_def step_def[symmetric]
    by (auto split: if_splits prod.splits)
  ultimately show ?thesis by (metis fst_conv order_refl)
qed

text \<open>The transaction of a payout: what it spends, and its outputs after the fee.\<close>

definition payoutTx :: "Env \<Rightarrow> 'db PaymentMgrConfig \<Rightarrow> 'db \<Rightarrow> txCreator \<Rightarrow> string \<Rightarrow> paymentSets \<Rightarrow> 32 word
    \<Rightarrow> (TransactionInput list \<times> (string \<times> int) list) go" where
  "payoutTx e cfg db txC feeAddr pmts coinbaseIndex =
     bnd (generatePayoutTxDetails e cfg db txC feeAddr pmts coinbaseIndex) (\<lambda>po.
     bnd (applyTxFees e (cfgRules cfg) (poInputs po) (poOutputs po) feeAddr) (\<lambda>(fee, outputs).
     bnd (decodeOutputs e cfg outputs) (\<lambda>outs. Ok (poInputs po, outs))))"

text \<open>The wallet and the daemon make, sign and publish this transaction.\<close>

definition publishes :: "'db PaymentMgrConfig \<Rightarrow> txCreator \<Rightarrow> txBroadcaster \<Rightarrow> TransactionInput list \<Rightarrow> (string \<times> int) list \<Rightarrow> bool" where
  "publishes cfg txC txB inputs outs \<longleftrightarrow> (\<exists>tx b signed h txid. CreateRawTransaction txC inputs outs = Ok tx \<and> TxBytes txC tx = Ok b \<and>
     SignTransaction txB b (WalletPass cfg) = Ok signed \<and> PublishTransaction txB signed = Ok h \<and> NewHash (cfgRules cfg) h = Ok txid)"

lemma publishPayout_ok: "publishes cfg txC txB inputs outs \<Longrightarrow> \<exists>txid. publishPayout cfg txC txB inputs outs = Ok txid"
  unfolding publishes_def publishPayout_def by (elim exE conjE) simp

text \<open>The addresses the accounts of payments are paid at.\<close>

definition payees :: "PoolDB \<Rightarrow> Payment set \<Rightarrow> string set" where
  "payees s due = {acAddress a | p a. p \<in> due \<and> pmAccount p \<noteq> PoolFeesK \<and> tAccounts s (pmAccount p) = Some a}"

text \<open>The wallet knows the coinbase of a payment as mature.\<close>

definition coinbaseConfirmed :: "'db PaymentMgrConfig \<Rightarrow> txBroadcaster \<Rightarrow> Payment \<Rightarrow> bool" where
  "coinbaseConfirmed cfg txB p \<longleftrightarrow> (\<forall>s h. pmSource p = Some s \<longrightarrow> NewHashFromStr (cfgRules cfg) (srcCoinbase s) = Ok h \<longrightarrow>
     (\<exists>c. GetTransaction txB h = Confirmations c \<and> uint (CoinbaseMaturity cfg) + 1 \<le> c))"

text \<open>The payments a payout at a height settles: the mature ones whose block is on the chain.\<close>

definition dueAt :: "'db PaymentMgrConfig \<Rightarrow> 32 word \<Rightarrow> PoolDB \<Rightarrow> Payment set" where
  "dueAt cfg height s = {p \<in> ran (tPayments s). pm_mature height p \<and> onChain cfg (pm_block p)}"

text \<open>The row a paid payment is archived as.\<close>

definition paidRows :: "Env \<Rightarrow> 32 word \<Rightarrow> string \<Rightarrow> nat \<Rightarrow> Payment list \<Rightarrow> Payment list" where
  "paidRows e height txid tick ps = map (\<lambda>i. archived
     ((ps ! i)\<lparr>pmPaidOnHeight := height, pmTransactionID := txid\<rparr>) (eNow e (tick + i)) (eRand e (tick + i)))
     [0 ..< length ps]"

lemma paidRows_Cons:
  "paidRows e height txid tick (p # ps) =
     archived (p\<lparr>pmPaidOnHeight := height, pmTransactionID := txid\<rparr>) (eNow e tick) (eRand e tick)
     # paidRows e height txid (Suc tick) ps"
  by (simp add: paidRows_def upt_conv_Cons map_Suc_upt[symmetric] comp_def del: upt_Suc)


context database_spec
begin

lemma archive_all:
  assumes "live" "cfgDb cfg = D" "I (pmDb pm)"
    and "\<forall>p \<in> set ps. wf_payment p \<and> length (pmAccount p) \<le> 32000"
  shows "\<exists>db'. forc ps (markPaid e cfg height txid) pm =
      (Ok (), pm\<lparr>pmDb := db', pmTick := pmTick pm + length ps\<rparr>) \<and> I db' \<and>
    \<alpha> db' = (\<alpha> (pmDb pm))\<lparr>tPayments := tPayments (\<alpha> (pmDb pm)) |` (- pmUUID ` set ps),
      tArchive := file_all (paidRows e height txid (pmTick pm) ps) (tArchive (\<alpha> (pmDb pm)))\<rparr>"
  using assms(3,4)
proof (induction ps arbitrary: pm)
  case Nil
  then show ?case by (intro exI[of _ "pmDb pm"]) (simp add: file_all_def paidRows_def)
next
  case (Cons p ps)
  let ?p = "p\<lparr>pmPaidOnHeight := height, pmTransactionID := txid\<rparr>"
  let ?q = "archived ?p (eNow e (pmTick pm)) (eRand e (pmTick pm))"
  have wf: "wf_payment ?p" "wf_payment ?q"
    using Cons.prems(2) by (simp_all add: wf_payment_def archived_def wf_key_def)
      (simp add: paymentID_def randValEncoded_def)
  obtain db1 where db1: "on_db (db_updatePayment D ?p) pm = (Ok (), pm\<lparr>pmDb := db1\<rparr>)" "I db1"
    "\<alpha> db1 = (\<alpha> (pmDb pm))\<lparr>tPayments := (tPayments (\<alpha> (pmDb pm)))(pmUUID ?p \<mapsto> ?p)\<rparr>"
    using on_db_live[OF updatePayment[OF wf(1)] assms(1), of pm] Cons.prems(1) by auto
  let ?pm = "pm\<lparr>pmDb := db1, pmTick := Suc (pmTick pm)\<rparr>"
  obtain db2 where db2: "on_db (db_ArchivePayment D ?p (eNow e (pmTick pm)) (eRand e (pmTick pm))) ?pm =
      (Ok (), ?pm\<lparr>pmDb := db2\<rparr>)" "I db2"
    "\<alpha> db2 = (\<alpha> db1)\<lparr>tPayments := (tPayments (\<alpha> db1))(pmUUID ?p := None),
       tArchive := (tArchive (\<alpha> db1))(pmUUID ?q \<mapsto> ?q)\<rparr>"
    using on_db_live[OF ArchivePayment[OF wf] assms(1), of ?pm] db1(2) by auto
  have step: "markPaid e cfg height txid p pm = (Ok (), ?pm\<lparr>pmDb := db2\<rparr>)"
    using db1(1) db2(1) by (simp add: markPaid_def Let_def assms(2) bndc_eq_Ok)
  obtain db3 where db3: "forc ps (markPaid e cfg height txid) (?pm\<lparr>pmDb := db2\<rparr>) =
      (Ok (), ?pm\<lparr>pmDb := db3, pmTick := Suc (pmTick pm) + length ps\<rparr>)" "I db3"
    "\<alpha> db3 = (\<alpha> db2)\<lparr>tPayments := tPayments (\<alpha> db2) |` (- pmUUID ` set ps),
      tArchive := file_all (paidRows e height txid (Suc (pmTick pm)) ps) (tArchive (\<alpha> db2))\<rparr>"
    using Cons.IH[of "?pm\<lparr>pmDb := db2\<rparr>"] db2(2) Cons.prems(2) by auto
  have "\<alpha> db3 = (\<alpha> (pmDb pm))\<lparr>tPayments := tPayments (\<alpha> (pmDb pm)) |` (- pmUUID ` set (p # ps)),
      tArchive := file_all (paidRows e height txid (pmTick pm) (p # ps)) (tArchive (\<alpha> (pmDb pm)))\<rparr>"
    unfolding db3(3) db2(3) db1(3) paidRows_Cons file_all_def
    by (simp add: fun_eq_iff restrict_map_def)
  then show ?case using step db3(1,2) by (intro exI[of _ db3]) (simp add: bndc_Ok)
qed

lemma details_ok:
  assumes I: "I (pmDb pm)" and cfg: "cfgDb cfg = D" and e: "fair e"
    and g: "groups qs m" "distinct qs"
    and ne: "due \<noteq> {}" and due: "due = {p \<in> set qs. onChain cfg (pm_block p)}"
    and acc: "\<forall>p \<in> due. spendable cfg txC coinbaseIndex p (coin (pm_block p)) \<and>
      (pmAccount p = PoolFeesK \<or> tAccounts (\<alpha> (pmDb pm)) (pmAccount p) \<noteq> None)"
    and bal: "- (2 ^ 63) \<le> (\<Sum>p\<in>due. pmAmount p)" "(\<Sum>p\<in>due. pmAmount p) \<le> (\<Sum>h\<in>pm_block ` due. coin h)"
      "(\<Sum>h\<in>pm_block ` due. coin h) \<le> (\<Sum>p\<in>due. pmAmount p) + maxRoundingDiff" "(\<Sum>h\<in>pm_block ` due. coin h) < 2 ^ 63"
  shows "\<exists>po. generatePayoutTxDetails e cfg (pmDb pm) txC feeAddr (filter (\<lambda>(h, _). onChain cfg h) m) coinbaseIndex = Ok po \<and>
    poInputs po \<noteq> [] \<and> poOutputs po \<noteq> [] \<and>
    set (keys (poOutputs po)) \<subseteq> insert feeAddr (payees (\<alpha> (pmDb pm)) due) \<and>
    (\<forall>h \<in> set (keys (poInputTxHashes po)). \<exists>p \<in> due. \<exists>s. pmSource p = Some s \<and>
      NewHashFromStr (cfgRules cfg) (srcCoinbase s) = Ok h) \<and>
    poIn po = (\<Sum>h\<in>pm_block ` due. coin h) \<and> poOut po = (\<Sum>p\<in>due. pmAmount p)"
proof -
  let ?xs = "range_map e (filter (\<lambda>(h, _). onChain cfg h) m)"
  note gr = groups_range[OF e g, where P = "onChain cfg"]
  define addrOf where "addrOf p = (if pmAccount p = PoolFeesK then feeAddr
      else acAddress (the (tAccounts (\<alpha> (pmDb pm)) (pmAccount p))))" for p :: Payment
  have mem: "p \<in> due" if "(h, ps) \<in> set ?xs" "p \<in> set ps" for h ps p
    using that gr(2)[of h ps] due by auto
  have addr: "payoutAddr cfg (pmDb pm) feeAddr p = Ok (addrOf p)" if "p \<in> due" for p
    using that acc fetchAccount[OF I] by (auto simp: payoutAddr_def addrOf_def cfg found_def)
  have each: "\<forall>(h, ps) \<in> set ?xs. ps \<noteq> [] \<and> spendable cfg txC coinbaseIndex (hd ps) (coin h) \<and>
      (\<forall>p \<in> set ps. payoutAddr cfg (pmDb pm) feeAddr p = Ok (addrOf p))"
  proof (intro ballI case_prodI2 conjI)
    fix x h ps assume x: "x \<in> set ?xs" "x = (h, ps)"
    then have ps: "ps \<noteq> []" "ps = filter (\<lambda>p. pm_block p = h) qs" using gr(2)[of h ps] by auto
    show "ps \<noteq> []" by (rule ps(1))
    have "hd ps \<in> due" using mem x ps(1) by (metis hd_in_set)
    moreover have "pm_block (hd ps) = h" using ps hd_in_set[OF ps(1)] by auto
    ultimately show "spendable cfg txC coinbaseIndex (hd ps) (coin h)" using acc by auto
    fix p assume "p \<in> set ps"
    then show "payoutAddr cfg (pmDb pm) feeAddr p = Ok (addrOf p)" using addr mem x by blast
  qed
  have "collects addrOf [] \<lparr>poInputs = [], poInputTxHashes = [], poOutputs = [], poIn = 0, poOut = 0\<rparr>"
    by (simp add: collects_def amounts_def)
  from addSets_ok[OF this, of 0, OF _ each]
  obtain po where po: "foldo (addSet cfg (pmDb pm) txC feeAddr coinbaseIndex) ?xs
      \<lparr>poInputs = [], poInputTxHashes = [], poOutputs = [], poIn = 0, poOut = 0\<rparr> = Ok po"
    "collects addrOf (concat (map snd ?xs)) po" "poIn po = i64 (\<Sum>(h, _)\<leftarrow>?xs. coin h)"
    "length (poInputs po) = length ?xs" by auto
  have blocks: "set (keys ?xs) = pm_block ` due"
  proof -
    have "h \<in> set (keys ?xs) \<longleftrightarrow> (\<exists>ps. (h, ps) \<in> set ?xs)" for h by (force simp: Prelude.keys_def)
    then show ?thesis unfolding gr(2) due by (force simp: filter_empty_conv)
  qed
  have "(\<Sum>(h, _)\<leftarrow>?xs. coin h) = (\<Sum>h\<leftarrow>keys ?xs. coin h)"
    by (simp add: Prelude.keys_def comp_def case_prod_unfold)
  then have sumIn: "(\<Sum>(h, _)\<leftarrow>?xs. coin h) = (\<Sum>h\<in>pm_block ` due. coin h)"
    using gr(1) blocks by (simp add: distinct_keys_def sum_list_distinct_conv_sum_set)
  have sumOut: "amounts (concat (map snd ?xs)) = (\<Sum>p\<in>due. pmAmount p)"
    using gr(3,4) due by (simp add: amounts_def sum_list_distinct_conv_sum_set)
  have io: "poIn po = (\<Sum>h\<in>pm_block ` due. coin h)" "poOut po = (\<Sum>p\<in>due. pmAmount p)"
    using po(2,3) bal by (simp_all add: sumIn sumOut collects_def in_i64_def)
  have "?xs \<noteq> []" using blocks ne by auto
  moreover have "poOutputs po \<noteq> []"
  proof -
    obtain p where "p \<in> set (concat (map snd ?xs))" using gr(4) due ne by blast
    then have "map_of (poOutputs po) (addrOf p) \<noteq> None" using po(2) by (auto simp: collects_def)
    then show ?thesis by auto
  qed
  moreover have "set (keys (poOutputs po)) \<subseteq> insert feeAddr (payees (\<alpha> (pmDb pm)) due)"
  proof
    fix a assume "a \<in> set (keys (poOutputs po))"
    then have "map_of (poOutputs po) a \<noteq> None" by (simp add: map_of_None_keys)
    then obtain p where p: "p \<in> due" "a = addrOf p" using po(2) gr(4) due by (auto simp: collects_def split: if_splits)
    then show "a \<in> insert feeAddr (payees (\<alpha> (pmDb pm)) due)"
      using acc p(1) unfolding p(2) addrOf_def payees_def by (cases "pmAccount p = PoolFeesK") fastforce+
  qed
  moreover have "\<forall>h \<in> set (keys (poInputTxHashes po)). \<exists>p \<in> due. \<exists>s. pmSource p = Some s \<and>
      NewHashFromStr (cfgRules cfg) (srcCoinbase s) = Ok h"
  proof (rule conjunct1[OF poHashes_from[OF po(1)]])
    fix p s th
    assume "p \<in> set (concat (map snd ?xs))" "pmSource p = Some s" "NewHashFromStr (cfgRules cfg) (srcCoinbase s) = Ok th"
    then show "\<exists>p \<in> due. \<exists>s. pmSource p = Some s \<and> NewHashFromStr (cfgRules cfg) (srcCoinbase s) = Ok th"
      using gr(4) due by blast
  qed simp_all
  moreover have "i64 (poIn po - poOut po) = poIn po - poOut po"
    using bal io by (intro i64_id) (simp add: in_i64_def maxRoundingDiff_def)
  ultimately show ?thesis
    using po(1,4) io bal by (auto simp: generatePayoutTxDetails_def simp del: bnd_eq_Ok)
qed

lemma settle_ok:
  assumes live: "live" and I: "I (pmDb pm)" and cfg: "cfgDb cfg = D" and e: "fair e"
    and g: "groups qs m" "lists_rows (tPayments (\<alpha> (pmDb pm))) (pm_mature height) qs"
    and ne: "dueAt cfg height (\<alpha> (pmDb pm)) \<noteq> {}"
    and loc: "\<forall>p \<in> set qs. locatable cfg (pm_block p)"
    and acc: "\<forall>p \<in> dueAt cfg height (\<alpha> (pmDb pm)). spendable cfg txC coinbaseIndex p (coin (pm_block p)) \<and>
      (pmAccount p = PoolFeesK \<or> tAccounts (\<alpha> (pmDb pm)) (pmAccount p) \<noteq> None)"
    and ext: "FetchTxCreator cfg = Some txC" "PoolFeeAddrs cfg \<noteq> []" "\<forall>i. \<not> cancelled i"
    and wallet: "\<forall>a \<in> set (PoolFeeAddrs cfg) \<union> payees (\<alpha> (pmDb pm)) (dueAt cfg height (\<alpha> (pmDb pm))).
        \<exists>x. DecodeAddress (cfgRules cfg) a = Ok x"
      "\<forall>p \<in> dueAt cfg height (\<alpha> (pmDb pm)). coinbaseConfirmed cfg txB p"
      "\<And>feeAddr inputs outs. feeAddr \<in> set (PoolFeeAddrs cfg) \<Longrightarrow>
        payoutTx e cfg (pmDb pm) txC feeAddr (filter (\<lambda>(h, _). onChain cfg h) m) coinbaseIndex = Ok (inputs, outs) \<Longrightarrow>
        publishes cfg txC txB inputs outs"
  defines "due \<equiv> dueAt cfg height (\<alpha> (pmDb pm))"
  assumes bal: "- (2 ^ 63) \<le> (\<Sum>p\<in>due. pmAmount p)" "(\<Sum>p\<in>due. pmAmount p) \<le> (\<Sum>h\<in>pm_block ` due. coin h)"
      "(\<Sum>h\<in>pm_block ` due. coin h) \<le> (\<Sum>p\<in>due. pmAmount p) + maxRoundingDiff" "(\<Sum>h\<in>pm_block ` due. coin h) < 2 ^ 63"
  shows "\<exists>pm' ps txid. settlePayments e cancelled cfg txB height coinbaseIndex m pm = (Ok (), pm') \<and> I (pmDb pm') \<and>
    processing pm' = processing pm \<and> failedTxConfs pm' = 0 \<and> txConfHashes pm' = [] \<and>
    distinct ps \<and> set ps = due \<and>
    (\<exists>feeAddr inputs outs. feeAddr \<in> set (PoolFeeAddrs cfg) \<and> publishPayout cfg txC txB inputs outs = Ok txid \<and>
      payoutTx e cfg (pmDb pm) txC feeAddr (filter (\<lambda>(h, _). onChain cfg h) m) coinbaseIndex = Ok (inputs, outs)) \<and>
    \<alpha> (pmDb pm') = (\<alpha> (pmDb pm))\<lparr>tPayments := tPayments (\<alpha> (pmDb pm)) |` (- pmUUID ` due),
      tArchive := file_all (paidRows e height txid (pmTick pm) ps) (tArchive (\<alpha> (pmDb pm))),
      tLastPaid := Some (height, eNow e (pmTick pm + length ps))\<rparr>"
proof -
  have dq: "distinct qs" "due = {p \<in> set qs. onChain cfg (pm_block p)}"
    using g(2) by (auto simp: lists_rows_def due_def dueAt_def)
  have mk: "distinct_keys m" using g(1) by (simp add: groups_def)
  have "\<forall>h \<in> set (keys m). locatable cfg h"
  proof
    fix h assume "h \<in> set (keys m)"
    then have "map_of m h \<noteq> None" by (simp add: map_of_None_keys)
    then have "filter (\<lambda>p. pm_block p = h) qs \<noteq> []"
      using g(1) by (auto simp: groups_def split: list.splits)
    then obtain p where "p \<in> set qs" "pm_block p = h" by (auto simp: filter_empty_conv)
    then show "locatable cfg h" using loc by auto
  qed
  note prune = pruneOrphanedPayments_ok[OF e mk this]
  let ?ms = "filter (\<lambda>(h, _). onChain cfg h) m"
  let ?ps = "concat (map snd (range_map e ?ms))"
  note gr = groups_range[OF e g(1) dq(1), where P = "onChain cfg"]
  let ?n = "length (PoolFeeAddrs cfg)"
  have pick: "index (PoolFeeAddrs cfg) (ePick e ?n) = (Ok (PoolFeeAddrs cfg ! ePick e ?n) :: _ go)"
    using e ext(2) by (simp add: index_def fair_def)
  define feeAddr where "feeAddr = PoolFeeAddrs cfg ! ePick e ?n"
  have feeIn: "feeAddr \<in> set (PoolFeeAddrs cfg)" using e ext(2) by (simp add: feeAddr_def fair_def)
  obtain po where po: "generatePayoutTxDetails e cfg (pmDb pm) txC feeAddr ?ms coinbaseIndex = Ok po"
    "poInputs po \<noteq> []" "poOutputs po \<noteq> []" "set (keys (poOutputs po)) \<subseteq> insert feeAddr (payees (\<alpha> (pmDb pm)) due)"
    "\<forall>h \<in> set (keys (poInputTxHashes po)). \<exists>p \<in> due. \<exists>s. pmSource p = Some s \<and> NewHashFromStr (cfgRules cfg) (srcCoinbase s) = Ok h"
    using details_ok[OF I cfg e g(1) dq(1) _ dq(2) _ bal, of txC coinbaseIndex feeAddr] ne acc by (auto simp: due_def)
  obtain fee outs where fee: "applyTxFees e (cfgRules cfg) (poInputs po) (poOutputs po) feeAddr = Ok (fee, outs)"
    using applyTxFees_total[OF po(2,3)] by blast
  obtain douts where douts: "decodeOutputs e cfg outs = Ok douts"
  proof -
    have "\<forall>a \<in> set (keys outs). \<exists>x. DecodeAddress (cfgRules cfg) a = Ok x"
      using wallet(1) feeIn applyTxFees_keys[OF fee] po(4) unfolding due_def by blast
    then show ?thesis using decodeOutputs_ok that by blast
  qed
  have conf: "confirmCoinbases e cancelled cfg txB (poInputTxHashes po) = (Ok (), [])"
    by (rule confirmCoinbases_all[OF e ext(3)]) (use po(5) wallet(2) in \<open>fastforce simp: coinbaseConfirmed_def due_def\<close>)
  have tx: "payoutTx e cfg (pmDb pm) txC feeAddr ?ms coinbaseIndex = Ok (poInputs po, douts)"
    using po(1) fee douts by (simp add: payoutTx_def del: bnd_eq_Ok)
  obtain txid where txid: "publishPayout cfg txC txB (poInputs po) douts = Ok txid"
    using publishPayout_ok[OF wallet(3)[OF feeIn tx]] by blast
  have due: "set ?ps = due" "distinct ?ps" using gr(3,4) dq(2) by simp_all
  have "\<forall>p \<in> set ?ps. wf_payment p \<and> length (pmAccount p) \<le> 32000"
    using wf_rows[OF I] unfolding due(1) by (auto simp: due_def dueAt_def ran_def wf_payment_def)
  from archive_all[OF live cfg I this, of e height txid]
  obtain db1 where db1: "forc ?ps (markPaid e cfg height txid) pm =
      (Ok (), pm\<lparr>pmDb := db1, pmTick := pmTick pm + length ?ps\<rparr>)" "I db1"
    "\<alpha> db1 = (\<alpha> (pmDb pm))\<lparr>tPayments := tPayments (\<alpha> (pmDb pm)) |` (- pmUUID ` set ?ps),
      tArchive := file_all (paidRows e height txid (pmTick pm) ?ps) (tArchive (\<alpha> (pmDb pm)))\<rparr>"
    by (elim exE conjE)
  let ?now = "eNow e (pmTick pm + length ?ps)"
  let ?pm1 = "pm\<lparr>pmDb := db1, pmTick := Suc (pmTick pm + length ?ps)\<rparr>"
  from on_db_live[OF persistLastPaymentInfo live, of ?pm1 height ?now]
  obtain db2 where db2: "on_db (db_persistLastPaymentInfo D height ?now) ?pm1 = (Ok (), ?pm1\<lparr>pmDb := db2\<rparr>)"
    "I db2" "\<alpha> db2 = (\<alpha> db1)\<lparr>tLastPaid := Some (height, ?now)\<rparr>" using db1(2) by auto
  have "settlePayments e cancelled cfg txB height coinbaseIndex m pm =
      (Ok (), ?pm1\<lparr>pmDb := db2, failedTxConfs := 0, txConfHashes := []\<rparr>)"
    using ext(1,2) prune pick po(1) fee douts conf txid db1(1) db2(1)
    by (simp add: settlePayments_def liftc_def bndc_def time_now_def cfg flip: feeAddr_def)
  then show ?thesis
    using db2(2,3) db1(3) due feeIn tx txid
    by (intro exI[of _ "?pm1\<lparr>pmDb := db2, failedTxConfs := 0, txConfHashes := []\<rparr>"] exI[of _ ?ps] exI[of _ txid]) auto
qed

end

section \<open>Properties\<close>

text \<open>
  C14: a payout that goes through. On a database that keeps its contract and does not fail, with
  no payout under way, every coinbase spendable, mature for the wallet too and worth at least
  the payments made from it and at most 500 atoms more in all, addresses that can be decoded
  for the pool's fee and the accounts that are due, and a wallet that signs and publishes the
  transaction made from them, \<open>payDividends\<close> returns without an error. Exactly the mature
  payments whose block is on the chain leave the payments table; each is archived with the
  height and the transaction that was published; the last payment is recorded, the counter of
  failed confirmations is reset and the processing flag is down.
\<close>

theorem payout_settles:
  fixes coin :: "string \<Rightarrow> int"
  assumes "database_spec (cfgDb cfg) \<alpha> I True" "I (pmDb pm)" "fair e" "\<forall>i. \<not> cancelled i"
    and "FetchTxCreator cfg = Some txC" "FetchTxBroadcaster cfg = Some txB"
    and "\<not> processing pm" "failedTxConfs pm < maxTxConfThreshold" "PoolFeeAddrs cfg \<noteq> []"
    and "due = dueAt cfg height (\<alpha> (pmDb pm))" "due \<noteq> {}"
    and "\<forall>p \<in> ran (tPayments (\<alpha> (pmDb pm))). pm_mature height p \<longrightarrow> locatable cfg (pm_block p)"
    and "\<forall>p \<in> due. spendable cfg txC coinbaseIndex p (coin (pm_block p)) \<and>
      (pmAccount p = PoolFeesK \<or> tAccounts (\<alpha> (pmDb pm)) (pmAccount p) \<noteq> None)"
    and "- (2 ^ 63) \<le> (\<Sum>p\<in>due. pmAmount p)" "(\<Sum>p\<in>due. pmAmount p) \<le> (\<Sum>h\<in>pm_block ` due. coin h)"
      "(\<Sum>h\<in>pm_block ` due. coin h) \<le> (\<Sum>p\<in>due. pmAmount p) + maxRoundingDiff" "(\<Sum>h\<in>pm_block ` due. coin h) < 2 ^ 63"
    and "\<forall>a \<in> set (PoolFeeAddrs cfg) \<union> payees (\<alpha> (pmDb pm)) due. \<exists>x. DecodeAddress (cfgRules cfg) a = Ok x"
    and "\<forall>p \<in> due. coinbaseConfirmed cfg txB p"
    and "\<And>m feeAddr inputs outs. db_maturePendingPayments (cfgDb cfg) height (pmDb pm) = Ok m \<Longrightarrow> feeAddr \<in> set (PoolFeeAddrs cfg) \<Longrightarrow>
      payoutTx e cfg (pmDb pm) txC feeAddr (filter (\<lambda>(h, _). onChain cfg h) m) coinbaseIndex = Ok (inputs, outs) \<Longrightarrow>
      publishes cfg txC txB inputs outs"
  shows "\<exists>pm' ps txid m feeAddr inputs outs. payDividends e cancelled cfg height coinbaseIndex pm = Some (Ok (), pm') \<and> I (pmDb pm') \<and>
    db_maturePendingPayments (cfgDb cfg) height (pmDb pm) = Ok m \<and> feeAddr \<in> set (PoolFeeAddrs cfg) \<and>
    payoutTx e cfg (pmDb pm) txC feeAddr (filter (\<lambda>(h, _). onChain cfg h) m) coinbaseIndex = Ok (inputs, outs) \<and>
    publishPayout cfg txC txB inputs outs = Ok txid \<and>
    \<not> processing pm' \<and> failedTxConfs pm' = 0 \<and> txConfHashes pm' = [] \<and> distinct ps \<and> set ps = due \<and>
    \<alpha> (pmDb pm') = (\<alpha> (pmDb pm))\<lparr>tPayments := tPayments (\<alpha> (pmDb pm)) |` (- pmUUID ` due),
      tArchive := file_all (paidRows e height txid (pmTick pm) ps) (tArchive (\<alpha> (pmDb pm))),
      tLastPaid := Some (height, eNow e (pmTick pm + length ps))\<rparr>"
proof -
  let ?pm = "pm\<lparr>processing := True\<rparr>"
  obtain qs m where m: "db_maturePendingPayments (cfgDb cfg) height (pmDb pm) = Ok m" "groups qs m"
    "lists_rows (tPayments (\<alpha> (pmDb pm))) (pm_mature height) qs"
    using database_spec.maturePendingPayments[OF assms(1,2), of height] by auto
  have qs: "set qs = {p \<in> ran (tPayments (\<alpha> (pmDb pm))). pm_mature height p}"
    using m(3) by (simp add: lists_rows_def)
  obtain p where "p \<in> set qs" using assms(10,11) qs by (auto simp: dueAt_def)
  then have "map_of m (pm_block p) \<noteq> None"
    using m(2) by (auto simp: groups_def filter_empty_conv split: list.splits)
  then have "m \<noteq> []" by auto
  have rescan: "requestRescan cfg txB height ?pm = Some (Ok ())"
    using assms(8) unfolding linorder_not_le[symmetric] by (simp add: requestRescan_def)
  have "\<exists>pm' ps txid. settlePayments e cancelled cfg txB height coinbaseIndex m ?pm = (Ok (), pm') \<and> I (pmDb pm') \<and>
    processing pm' = processing ?pm \<and> failedTxConfs pm' = 0 \<and> txConfHashes pm' = [] \<and>
    distinct ps \<and> set ps = dueAt cfg height (\<alpha> (pmDb ?pm)) \<and>
    (\<exists>feeAddr inputs outs. feeAddr \<in> set (PoolFeeAddrs cfg) \<and> publishPayout cfg txC txB inputs outs = Ok txid \<and>
      payoutTx e cfg (pmDb ?pm) txC feeAddr (filter (\<lambda>(h, _). onChain cfg h) m) coinbaseIndex = Ok (inputs, outs)) \<and>
    \<alpha> (pmDb pm') = (\<alpha> (pmDb ?pm))\<lparr>tPayments := tPayments (\<alpha> (pmDb ?pm)) |` (- pmUUID ` dueAt cfg height (\<alpha> (pmDb ?pm))),
      tArchive := file_all (paidRows e height txid (pmTick ?pm) ps) (tArchive (\<alpha> (pmDb ?pm))),
      tLastPaid := Some (height, eNow e (pmTick ?pm + length ps))\<rparr>"
    by (rule database_spec.settle_ok[OF assms(1) TrueI, where qs = qs and txC = txC and coin = coin])
      (use assms(2-5,9-) m qs in simp_all)
  then show ?thesis
  proof (elim exE conjE, goal_cases)
    case (1 pm' ps txid feeAddr inputs outs)
    then show ?case
      using m(1) assms(6,7,10) \<open>m \<noteq> []\<close> rescan
      by (intro exI[of _ "pm'\<lparr>processing := False\<rparr>"] exI[of _ ps] exI[of _ txid] exI[of _ m] exI[of _ feeAddr] exI[of _ inputs] exI[of _ outs])
        (simp add: payDividends_def Let_def)
  qed
qed

definition demoPay :: Payment where
  "demoPay = NewPayment PoolFeesK (Some \<lparr>srcBlockHash = ''b'', srcCoinbase = ''c''\<rparr>) 100 7 23 5 0"

definition paydb :: memdb where
  "paydb = snd (PersistPayment mem_bolt demoPay newdb)"

lemma paydb_inv: "boltInv mem_bolt paydb" "tPayments (absdb mem_bolt paydb) = [pmUUID demoPay \<mapsto> demoPay]"
proof -
  have "wf_payment demoPay" unfolding demoPay_def by (rule wf_NewPayment) (simp_all add: in_i64_def PoolFeesK_def)
  from mem.b_PersistPayment[OF this, THEN writes_live, OF mem.live newdb_inv(1)]
  show "boltInv mem_bolt paydb" "tPayments (absdb mem_bolt paydb) = [pmUUID demoPay \<mapsto> demoPay]"
    by (auto simp: newdb_inv(2) emptyPoolDB_def paydb_def simp del: absdb_sel)
qed

definition demoCreator :: txCreator where
  "demoCreator = \<lparr>GetTxOut = (\<lambda>_ _. Ok (Some \<lparr>toConfirmations = 20, toValue = 101\<rparr>)),
     CreateRawTransaction = (\<lambda>inputs _. if inputs = [] then Err Foreign else Ok ''t''), TxBytes = Ok\<rparr>"

definition demoBroadcaster :: "bytes go \<Rightarrow> txBroadcaster" where
  "demoBroadcaster publish = \<lparr>SignTransaction = (\<lambda>b _. Ok b), PublishTransaction = (\<lambda>_. publish),
     GetTransaction = (\<lambda>h. if h = ''c'' then Confirmations 20 else NotFound), Rescan = (\<lambda>_. Err Foreign)\<rparr>"

text \<open>Hashes have 32 bytes, and one address can be decoded.\<close>

definition payRules :: TxRules where
  "payRules = demoRules\<lparr>NewHash := (\<lambda>b. if length b = 32 then Ok b else Err Foreign),
     DecodeAddress := (\<lambda>a. if a = ''f'' then Ok a else Err Foreign)\<rparr>"

definition payCfg :: "bytes go \<Rightarrow> memdb PaymentMgrConfig" where
  "payCfg publish = demoCfg\<lparr>cfgRules := payRules, FetchTxCreator := Some demoCreator, FetchTxBroadcaster := Some (demoBroadcaster publish)\<rparr>"

lemmas payCfg_defs = payCfg_def demoCfg_def demoBroadcaster_def demoCreator_def payRules_def demoRules_def

definition paidHash :: bytes where "paidHash = replicate 32 CHR ''h''"

lemma demo_due: "dueAt (payCfg publish) 30 (absdb mem_bolt paydb) = {demoPay}"
  unfolding dueAt_def paydb_inv(2)
  by (auto simp: onChain_def payCfg_defs demoPay_def NewPayment_def pm_mature_def pm_pending_def)

theorem payout_settles_witness:
  "\<exists>pm' txid. payDividends plainEnv (\<lambda>_. False) (payCfg (Ok paidHash)) 30 0 (demoPm paydb) = Some (Ok (), pm') \<and>
     tPayments (absdb mem_bolt (pmDb pm')) = (\<lambda>_. None) \<and>
     tLastPaid (absdb mem_bolt (pmDb pm')) = Some (30, 1001)"
proof -
  let ?cfg = "payCfg (Ok paidHash)" and ?txB = "demoBroadcaster (Ok paidHash)"
  have cfg: "cfgDb ?cfg = BoltDatabase mem_bolt" "pmDb (demoPm paydb) = paydb" "\<forall>i. \<not> (\<lambda>_ :: nat. False) i"
    "FetchTxCreator ?cfg = Some demoCreator" "FetchTxBroadcaster ?cfg = Some ?txB"
    "\<not> processing (demoPm paydb)" "failedTxConfs (demoPm paydb) < maxTxConfThreshold" "PoolFeeAddrs ?cfg \<noteq> []"
    "pmTick (demoPm paydb) = 0"
    by (simp_all add: payCfg_def demoCfg_def demoPm_def maxTxConfThreshold_def)
  have amt: "pmAmount demoPay = 100" "pmAccount demoPay = PoolFeesK"
    "pmSource demoPay = Some \<lparr>srcBlockHash = ''b'', srcCoinbase = ''c''\<rparr>"
    by (simp_all add: demoPay_def NewPayment_def)
  have sp: "spendable ?cfg demoCreator 0 demoPay 101" "coinbaseConfirmed ?cfg ?txB demoPay"
    using amt(3) by (simp_all add: spendable_def coinbaseConfirmed_def payCfg_defs)
  have loc: "locatable ?cfg h" for h by (simp add: locatable_def payCfg_defs)
  have adr: "\<forall>a \<in> set (PoolFeeAddrs ?cfg) \<union> payees (absdb mem_bolt paydb) {demoPay}. \<exists>x. DecodeAddress (cfgRules ?cfg) a = Ok x"
    using amt(2) by (simp add: payees_def payCfg_defs)
  have pub: "publishes ?cfg demoCreator ?txB inputs outs"
    if "payoutTx plainEnv ?cfg (pmDb (demoPm paydb)) demoCreator feeAddr m 0 = Ok (inputs, outs)" for feeAddr m inputs outs
    using that by (auto simp: payoutTx_def applyTxFees_def publishes_def payCfg_defs paidHash_def split: if_splits)
  obtain pm' ps txid where "payDividends plainEnv (\<lambda>_. False) ?cfg 30 0 (demoPm paydb) = Some (Ok (), pm')"
    "distinct ps" "set ps = {demoPay}"
    "absdb mem_bolt (pmDb pm') = (absdb mem_bolt paydb)\<lparr>tPayments := tPayments (absdb mem_bolt paydb) |` (- pmUUID ` {demoPay}),
      tArchive := file_all (paidRows plainEnv 30 txid 0 ps) (tArchive (absdb mem_bolt paydb)),
      tLastPaid := Some (30, eNow plainEnv (0 + length ps))\<rparr>"
    using payout_settles[where cfg = ?cfg and \<alpha> = "absdb mem_bolt" and I = "boltInv mem_bolt" and pm = "demoPm paydb" and e = plainEnv
        and coin = "\<lambda>_. 101" and due = "{demoPay}" and height = 30 and coinbaseIndex = 0, OF _ _ plainEnv_fair cfg(3-8)]
      mem_db_spec paydb_inv(1) demo_due[of "Ok paidHash"] adr pub sp loc amt unfolding cfg(1,2,9)
    by (simp add: maxRoundingDiff_def del: absdb_sel) metis
  moreover have "length ps = 1" using \<open>distinct ps\<close> \<open>set ps = {demoPay}\<close> distinct_card[of ps] by simp
  ultimately show ?thesis
    by (intro exI[of _ pm'] exI[of _ txid])
      (simp add: paydb_inv(2) plainEnv_def restrict_map_def fun_eq_iff del: absdb_sel)
qed

section \<open>Without a publication\<close>

lemma publishPayout_fails:
  "\<forall>b h. PublishTransaction txB b \<noteq> Ok h \<Longrightarrow> publishPayout cfg txC txB inputs outs \<noteq> Ok txid"
  by (auto simp: publishPayout_def)

definition confirmationFailed :: "(hash \<times> 32 word) list \<Rightarrow> 'db PaymentMgr \<Rightarrow> 'db PaymentMgr" where
  "confirmationFailed unconfirmed pm = pm\<lparr>failedTxConfs := failedTxConfs pm + 1,
     txConfHashes := fold (\<lambda>(k, v). put k v) unconfirmed (txConfHashes pm)\<rparr>"

lemma bndc_reading:
  "bndc (liftc r) f = (case r of Ok x \<Rightarrow> f x | Err err \<Rightarrow> failc err | Panic \<Rightarrow> (\<lambda>s. (Panic, s)))"
  "bndc (readc g) f = (\<lambda>s. case g s of Ok x \<Rightarrow> f x s | Err err \<Rightarrow> (Err err, s) | Panic \<Rightarrow> (Panic, s))"
  by (auto simp: bndc_def liftc_def fun_eq_iff split: outcome.splits)

lemma settle_unpublished:
  assumes "\<forall>b h. PublishTransaction txB b \<noteq> Ok h"
  shows "snd (settlePayments e cancelled cfg txB height coinbaseIndex m pm) = pm \<or>
    (\<exists>unconfirmed. snd (settlePayments e cancelled cfg txB height coinbaseIndex m pm) = confirmationFailed unconfirmed pm)"
  using publishPayout_fails[OF assms]
  by (auto simp: settlePayments_def bndc_reading confirmationFailed_def split: outcome.split prod.split option.split) blast+

text \<open>
  C15: nothing is recorded as paid unless a transaction was published. Whatever the wallet and
  the daemon answer, when no publication succeeds a payout that returns leaves the database, the
  clock reading and the processing flag as they were; all it may do is count a failed
  confirmation and remember the coinbases concerned.
\<close>

theorem unpublished_payout_changes_nothing:
  assumes "payDividends e cancelled cfg height coinbaseIndex pm = Some (r, pm')"
    and "\<And>txB b h. FetchTxBroadcaster cfg = Some txB \<Longrightarrow> PublishTransaction txB b \<noteq> Ok h"
  shows "pm' = pm \<or> (\<exists>unconfirmed. pm' = confirmationFailed unconfirmed pm)"
proof (cases "processing pm \<or> (\<nexists>m. db_maturePendingPayments (cfgDb cfg) height (pmDb pm) = Ok m \<and> m \<noteq> [])")
  case True
  then show ?thesis
    using assms(1) by (auto simp: payDividends_def Let_def split: outcome.splits if_splits)
next
  case False
  then obtain m where m: "db_maturePendingPayments (cfgDb cfg) height (pmDb pm) = Ok m" "m \<noteq> []" "\<not> processing pm"
    by auto
  let ?pm = "pm\<lparr>processing := True\<rparr>"
  have down: "?pm\<lparr>processing := False\<rparr> = pm"
    "(confirmationFailed u ?pm)\<lparr>processing := False\<rparr> = confirmationFailed u pm" for u
    using m(3) by (simp_all add: confirmationFailed_def)
  show ?thesis
  proof (cases "FetchTxBroadcaster cfg")
    case None
    then show ?thesis using assms(1) m down by (simp add: payDividends_def Let_def)
  next
    case (Some txB)
    have "snd (settlePayments e cancelled cfg txB height coinbaseIndex m ?pm) = ?pm \<or>
      (\<exists>u. snd (settlePayments e cancelled cfg txB height coinbaseIndex m ?pm) = confirmationFailed u ?pm)"
      using settle_unpublished assms(2)[OF Some] by blast
    then show ?thesis
      using assms(1) m Some down
      by (auto simp: payDividends_def Let_def split: option.splits outcome.splits prod.splits)
  qed
qed

theorem unpublished_payout_changes_nothing_witness:
  "\<exists>r pm'. payDividends plainEnv (\<lambda>_. False) (payCfg (Err Foreign)) 30 0 (demoPm paydb) = Some (r, pm') \<and>
     (pm' = demoPm paydb \<or> (\<exists>u. pm' = confirmationFailed u (demoPm paydb)))"
proof -
  have "requestRescan (payCfg (Err Foreign)) txB 30 (demoPm paydb\<lparr>processing := True\<rparr>) = Some (Ok ())" for txB
    by (simp add: requestRescan_def demoPm_def maxTxConfThreshold_def)
  then have "payDividends plainEnv (\<lambda>_. False) (payCfg (Err Foreign)) 30 0 (demoPm paydb) \<noteq> None"
    by (auto simp: payDividends_def Let_def split: outcome.splits option.splits prod.splits)
  then obtain r pm' where "payDividends plainEnv (\<lambda>_. False) (payCfg (Err Foreign)) 30 0 (demoPm paydb) = Some (r, pm')"
    by auto
  moreover have "PublishTransaction txB b \<noteq> Ok h" if "FetchTxBroadcaster (payCfg (Err Foreign)) = Some txB" for txB b h
    using that by (auto simp: payCfg_def demoBroadcaster_def)
  ultimately show ?thesis using unpublished_payout_changes_nothing by blast
qed

section \<open>The rescan loop\<close>

lemma monitorRescan_more:
  "recv i = Some (Ok n) \<Longrightarrow> n < height \<Longrightarrow> monitorRescan recv height i = monitorRescan recv height (Suc i)"
  by (subst monitorRescan.simps) (simp add: fetchRescanResponse_def)

lemma monitorRescan_skip:
  assumes "\<forall>j < k. \<exists>n. recv (i + j) = Some (Ok n) \<and> n < height"
  shows "monitorRescan recv height i = monitorRescan recv height (i + k)"
  using assms
proof (induction k)
  case (Suc k)
  then obtain n where "recv (i + k) = Some (Ok n)" "n < height" by auto
  then show ?case using Suc monitorRescan_more[of recv "i + k"] by simp
qed simp

text \<open>
  C36: the rescan loop ends with the first response that is not a height below the target: it
  succeeds when the target is reached, and reports the end of the context or the failure of the
  stream as such, whatever comes later.
\<close>

theorem rescan_ends_at_target:
  assumes "\<forall>j < k. \<exists>n. recv j = Some (Ok n) \<and> n < height"
    and "\<forall>n. recv k = Some (Ok n) \<longrightarrow> height \<le> n"
  shows "monitorRescan recv height 0 = Some (case recv k of
      None \<Rightarrow> Err (PoolError ContextCancelled)
    | Some (Ok _) \<Rightarrow> Ok ()
    | Some (Err _) \<Rightarrow> Err (PoolError ErrorKind.Rescan)
    | Some Panic \<Rightarrow> Panic)"
proof -
  have "monitorRescan recv height 0 = monitorRescan recv height k"
    using monitorRescan_skip[of k recv 0 height] assms(1) by simp
  then show ?thesis
    using assms(2) by (subst (asm) (2) monitorRescan.simps)
      (auto simp: fetchRescanResponse_def split: option.splits outcome.splits)
qed

theorem rescan_ends_at_target_witness:
  "monitorRescan (\<lambda>i. if i < 2 then Some (Ok (int i)) else if i = 2 then Some (Ok 9) else None) 5 0 = Some (Ok ())"
  using rescan_ends_at_target[of 2 "\<lambda>i. if i < 2 then Some (Ok (int i)) else if i = 2 then Some (Ok 9) else None" 5]
  by simp

section \<open>Creation of the manager\<close>

context database_common
begin

lemma initialises:
  assumes live: "live" and cfg: "cfgDb cfg = D" and I: "I db"
  shows "\<exists>pm db'. NewPaymentMgr cfg db = (Ok pm, db') \<and> pmDb pm = db' \<and> I db' \<and>
    failedTxConfs pm = 0 \<and> txConfHashes pm = [] \<and> \<not> processing pm \<and>
    \<alpha> db' = (\<alpha> db)\<lparr>tLastPaid := Some (case tLastPaid (\<alpha> db) of None \<Rightarrow> (0, 0) | Some x \<Rightarrow> x),
      tLastCreated := Some (case tLastCreated (\<alpha> db) of None \<Rightarrow> 0 | Some t \<Rightarrow> t)\<rparr>"
proof -
  obtain db1 where db1: "(case db_loadLastPaymentInfo D db of Ok _ \<Rightarrow> (Ok (), db)
      | Err err \<Rightarrow> if errors_is err ValueNotFound then db_persistLastPaymentInfo D 0 0 db else (Err err, db)
      | Panic \<Rightarrow> (Panic, db)) = (Ok (), db1)" "I db1"
    "\<alpha> db1 = (\<alpha> db)\<lparr>tLastPaid := Some (case tLastPaid (\<alpha> db) of None \<Rightarrow> (0, 0) | Some x \<Rightarrow> x)\<rparr>"
    using loadLastPaymentInfo[OF I] writes_live[OF persistLastPaymentInfo[of 0 0] live I] I
    by (cases "tLastPaid (\<alpha> db)") (auto simp: found_def)
  obtain db2 where db2: "(case db_loadLastPaymentCreatedOn D db1 of Ok _ \<Rightarrow> (Ok (), db1)
      | Err err \<Rightarrow> if errors_is err ValueNotFound then db_persistLastPaymentCreatedOn D 0 db1 else (Err err, db1)
      | Panic \<Rightarrow> (Panic, db1)) = (Ok (), db2)" "I db2"
    "\<alpha> db2 = (\<alpha> db1)\<lparr>tLastCreated := Some (case tLastCreated (\<alpha> db1) of None \<Rightarrow> 0 | Some t \<Rightarrow> t)\<rparr>"
    using loadLastPaymentCreatedOn[OF db1(2)] writes_live[OF persistLastPaymentCreatedOn[of 0] live db1(2)] db1(2)
    by (cases "tLastCreated (\<alpha> db1)") (auto simp: found_def)
  show ?thesis
    unfolding NewPaymentMgr_def Let_def cfg db1(1) using db2 db1(3) by simp
qed

end

end
