(* ===== verification/PayGen.thy ===== *)
theory PayGen
  imports PayOut
begin

text \<open>
  What the chain state relies on when it asks for the payments of a block, as an interface, and
  the payment manager as its provider: it files payments for the block it is given and touches
  no accepted work, whatever fails on the way.
\<close>

section \<open>The interface\<close>

locale payment_generator = database_spec D \<alpha> I live
  for D :: "'db Database" and \<alpha> I live +
  fixes G :: "32 word \<Rightarrow> PaymentSource \<Rightarrow> int \<Rightarrow> 64 word \<Rightarrow> 'db dbop"
  assumes G_keeps: "I db \<Longrightarrow> I (snd (G height source amt createdOn db))"
    and G_work: "I db \<Longrightarrow> tWork (\<alpha> (snd (G height source amt createdOn db))) = tWork (\<alpha> db)"
    and G_files: "I db \<Longrightarrow> G height source amt createdOn db = (Ok (), db') \<Longrightarrow>
      \<exists>p \<in> ran (tPayments (\<alpha> db')). pm_pending p \<and> pm_block p = srcBlockHash source"
    and G_only: "I db \<Longrightarrow> tPayments (\<alpha> (snd (G height source amt createdOn db))) k = Some p \<Longrightarrow>
      tPayments (\<alpha> db) k = Some p \<or> pm_pending p \<and> pm_block p = srcBlockHash source"

section \<open>The payment manager\<close>

text \<open>\<open>GeneratePayments: h.paymentMgr.generatePayments\<close> of \<open>NewHub\<close>.\<close>

definition hubGeneratePayments :: "Env \<Rightarrow> 'db PaymentMgrConfig \<Rightarrow> 'db PaymentMgr \<Rightarrow> 32 word \<Rightarrow> PaymentSource
    \<Rightarrow> int \<Rightarrow> 64 word \<Rightarrow> 'db dbop" where
  "hubGeneratePayments e cfg pm height source amt workCreatedOn = (\<lambda>db.
     case generatePayments e cfg height (Some source) amt workCreatedOn (pm\<lparr>pmDb := db\<rparr>) of
       (r, pm') \<Rightarrow> (r, pmDb pm'))"

lemma foldo_keys:
  assumes "foldo f xs b = Ok b'"
    and "\<And>x b b'. x \<in> set xs \<Longrightarrow> f x b = Ok b' \<Longrightarrow> \<exists>v. b' = put (fst x) v b"
  shows "set (keys b') \<subseteq> set (keys b) \<union> fst ` set xs"
    "distinct_keys b \<Longrightarrow> distinct_keys b'"
proof -
  show "set (keys b') \<subseteq> set (keys b) \<union> fst ` set xs"
    by (rule foldo_invariant[OF assms(1)]) (use assms(2) in \<open>force simp: keys_put\<close>)+
  show "distinct_keys b \<Longrightarrow> distinct_keys b'"
    by (rule foldo_invariant[OF assms(1)]) (use assms(2) in force)+
qed

lemma sharePercentages_keys:
  assumes "fair e" "sharePercentages e shares = Ok m"
  shows "set (keys m) \<subseteq> shAccount ` set shares" "distinct_keys m"
proof -
  define t where "t = fold tallyShare (zip (map shAccount shares) [0 ..< length shares])
    \<lparr>totalShares = 0, weights = map shWeight shares, tally = []\<rparr>"
  note T = sharePercentages_tally[OF t_def]
  have f: "foldo (\<lambda>(account, p) percentages.
        if weights t ! p = 0 then Err (PoolError DivideByZero)
        else if totalShares t = 0 then Panic
        else Ok (put account (weights t ! p / totalShares t) percentages))
        (range_map e (tally t)) [] = Ok m"
    using assms(2) unfolding sharePercentages_def Let_def t_def .
  have "fst ` set (range_map e (tally t)) = shAccount ` set shares"
    using T(2,3) range_map_set[OF assms(1) T(2)] by (simp add: Prelude.keys_def)
  moreover have "set (keys m) \<subseteq> set (keys ([] :: (string \<times> rat) list)) \<union> fst ` set (range_map e (tally t))"
    by (rule foldo_keys(1)[OF f]) (auto split: if_splits)
  ultimately show "set (keys m) \<subseteq> shAccount ` set shares" by simp
  show "distinct_keys m"
    by (rule foldo_keys(2)[OF f]) (auto split: if_splits)
qed

text \<open>Every payment calculated for a source is pending and names it.\<close>

lemma addPortion_source:
  assumes "\<forall>p \<in> set (payments st). pmSource p = source \<and> pmPaidOnHeight p = 0"
  shows "\<forall>p \<in> set (payments (addPortion e R source S h m x st)). pmSource p = source \<and> pmPaidOnHeight p = 0"
  using assms by (cases x) (auto simp: addPortion_def Let_def split_beta NewPayment_def)

lemma calculatePayments_source:
  assumes c: "calculatePayments e R m source tot f h em tick = Ok (ps, c, t)"
  shows "\<forall>p \<in> set ps. pmSource p = source \<and> pmPaidOnHeight p = 0" "ps \<noteq> []"
proof -
  let ?st = "fold (addPortion e R source (i64 (tot - MulF64 R tot f)) h em) (range_map e m)
      \<lparr>payments = [], paymentTotal = 0, dustTotal = 0, poTick = tick\<rparr>"
  have "\<forall>p \<in> set (payments ?st). pmSource p = source \<and> pmPaidOnHeight p = 0"
    by (rule fold_invariant[where Q = "\<lambda>_. True"]) (auto dest: addPortion_source)
  then show "\<forall>p \<in> set ps. pmSource p = source \<and> pmPaidOnHeight p = 0" "ps \<noteq> []"
    using c by (auto simp: calculatePayments_def Let_def NewPayment_def split: if_splits)
qed

text \<open>What generating payments may do to the database, on success and on failure.\<close>

definition files_for :: "('db \<Rightarrow> PoolDB) \<Rightarrow> ('db \<Rightarrow> bool) \<Rightarrow> string \<Rightarrow> 'db \<Rightarrow> 'db \<Rightarrow> bool" where
  "files_for \<alpha> I h db db' \<longleftrightarrow> I db' \<and> tWork (\<alpha> db') = tWork (\<alpha> db) \<and>
     (\<forall>k p. tPayments (\<alpha> db') k = Some p \<longrightarrow>
        tPayments (\<alpha> db) k = Some p \<or> pm_pending p \<and> pm_block p = h)"

lemma files_for_refl: "I db \<Longrightarrow> files_for \<alpha> I h db db"
  by (simp add: files_for_def)

lemma files_for_trans: "files_for \<alpha> I h a b \<Longrightarrow> files_for \<alpha> I h b c \<Longrightarrow> files_for \<alpha> I h a c"
  unfolding files_for_def by metis

lemma writes_files:
  assumes "writes \<alpha> I live op pre upd" "I (pmDb pm)"
    and "\<And>s. tWork (upd s) = tWork s"
    and "\<And>s k p. tPayments (upd s) k = Some p \<Longrightarrow> tPayments s k = Some p \<or> pm_pending p \<and> pm_block p = h"
  shows "files_for \<alpha> I h (pmDb pm) (pmDb (snd (on_db op pm)))"
proof (cases "op (pmDb pm)")
  case (Pair r db')
  then have "I db' \<and> (\<alpha> db' = upd (\<alpha> (pmDb pm)) \<or> db' = pmDb pm)"
    using assms(1,2) unfolding writes_def by (cases r) force+
  then show ?thesis using Pair assms(3) by (auto simp: files_for_def on_db_def dest!: assms(4))
qed

lemma bndc_files:
  assumes "files_for \<alpha> I h (pmDb pm) (pmDb (snd (m pm)))"
    and "\<And>x pm'. m pm = (Ok x, pm') \<Longrightarrow> files_for \<alpha> I h (pmDb pm') (pmDb (snd (f x pm')))"
  shows "files_for \<alpha> I h (pmDb pm) (pmDb (snd (bndc m f pm)))"
  using assms by (cases "m pm"; cases "fst (m pm)") (auto simp: bndc_def intro: files_for_trans)


lemma readc_files: "I (pmDb pm) \<Longrightarrow> files_for \<alpha> I h (pmDb pm) (pmDb (snd (readc g pm)))"
  by (simp add: files_for_refl)

lemma time_now_files: "I (pmDb pm) \<Longrightarrow> files_for \<alpha> I h (pmDb pm) (pmDb (snd (time_now e pm)))"
  by (simp add: files_for_refl time_now_def)

lemma time_now_keeps: "time_now e pm = (Ok x, pm') \<Longrightarrow> pmDb pm' = pmDb pm"
  by (auto simp: time_now_def)

lemma files_for_I: "files_for \<alpha> I h a b \<Longrightarrow> I b"
  by (simp add: files_for_def)

text \<open>What both payment schemes do with the percentages, up to the shares they remove.\<close>

definition payTail :: "Env \<Rightarrow> 'db PaymentMgrConfig \<Rightarrow> PaymentSource \<Rightarrow> int \<Rightarrow> 32 word
    \<Rightarrow> ('db PaymentMgr, goerror, unit) comp \<Rightarrow> (string \<times> rat) list \<Rightarrow> ('db PaymentMgr, goerror, unit) comp" where
  "payTail e cfg source amt height prune m =
     bndc (pm_calculatePayments e cfg m (Some source) amt height) (\<lambda>(pmts, lastPmtCreatedOn).
     bndc (forc pmts (\<lambda>payment. on_db (db_PersistPayment (cfgDb cfg) payment))) (\<lambda>_.
     bndc (on_db (db_persistLastPaymentCreatedOn (cfgDb cfg) lastPmtCreatedOn)) (\<lambda>_. prune)))"

lemma pay_tails:
  "payPerShare e cfg (Some source) amt height t =
     bndc (PPSSharePercentages e cfg t) (payTail e cfg source amt height (on_db (db_pruneShares (cfgDb cfg) t)))"
  "payPerLastNShares e cfg (Some source) amt height =
     bndc (PPLNSSharePercentages e cfg) (payTail e cfg source amt height
       (bndc (time_now e) (\<lambda>now. on_db (db_pruneShares (cfgDb cfg) (now - LastNPeriod cfg)))))"
  by (simp_all add: payPerShare_def payPerLastNShares_def payTail_def[abs_def])

text \<open>A manager working on a database that keeps its contract.\<close>

locale payment_mgr = database_spec D \<alpha> I live
  for D :: "'db Database" and \<alpha> I live +
  fixes e :: Env and cfg :: "'db PaymentMgrConfig" and pm0 :: "'db PaymentMgr"
  assumes fair: "fair e" and cfgD: "cfgDb cfg = D"
begin

lemma percentages_short:
  assumes "I (pmDb pm)"
    and "PPSSharePercentages e cfg t pm = (Ok m, pm') \<or> PPLNSSharePercentages e cfg pm = (Ok m, pm')"
  shows "\<forall>(a, r) \<in> set m. length a \<le> 32000" "distinct_keys m" "pmDb pm' = pmDb pm"
proof -
  have wf: "length (shAccount s) \<le> 32000" if "s \<in> ran (tShares (\<alpha> (pmDb pm)))" for s
    using that wf_rows[OF assms(1)] unfolding ran_def wf_share_def by blast
  have rows: "set ss \<subseteq> ran (tShares (\<alpha> (pmDb pm)))"
    if "db_ppsEligibleShares D x (pmDb pm) = Ok ss \<or> db_pplnsEligibleShares D x (pmDb pm) = Ok ss" for x ss
    using that ppsEligibleShares[OF assms(1), of x] pplnsEligibleShares[OF assms(1), of x]
    by (auto simp: lists_rows_def)
  have ex: "(\<exists>x ss. (db_ppsEligibleShares D x (pmDb pm) = Ok ss \<or> db_pplnsEligibleShares D x (pmDb pm) = Ok ss) \<and>
      (m = [] \<or> sharePercentages e ss = Ok m)) \<and> pmDb pm' = pmDb pm"
    using assms(2)
    by (auto simp: PPSSharePercentages_def PPLNSSharePercentages_def bndc_eq_Ok from_db_def liftc_def
        time_now_def cfgD split: if_splits)
  then show "pmDb pm' = pmDb pm" by simp
  obtain x ss where ss: "db_ppsEligibleShares D x (pmDb pm) = Ok ss \<or> db_pplnsEligibleShares D x (pmDb pm) = Ok ss"
    "m = [] \<or> sharePercentages e ss = Ok m" using ex by auto
  show "distinct_keys m" using ss(2) sharePercentages_keys(2)[OF fair] by auto
  have "set (keys m) \<subseteq> shAccount ` set ss" using ss(2) sharePercentages_keys(1)[OF fair] by auto
  then have "length a \<le> 32000" if "a \<in> set (keys m)" for a using that rows[OF ss(1)] wf by auto
  then show "\<forall>(a, r) \<in> set m. length a \<le> 32000" by (force simp: Prelude.keys_def)
qed

lemma persist_files:
  assumes "I (pmDb pm)" "\<forall>p \<in> set ps. wf_payment p \<and> pm_pending p \<and> pm_block p = h"
  shows "files_for \<alpha> I h (pmDb pm) (pmDb (snd (forc ps (\<lambda>p. on_db (db_PersistPayment D p)) pm)))"
  using assms
proof (induction ps arbitrary: pm)
  case Nil
  then show ?case by (simp add: files_for_refl)
next
  case (Cons p ps)
  have one: "files_for \<alpha> I h (pmDb pm) (pmDb (snd (on_db (db_PersistPayment D p) pm)))"
    using Cons.prems by (intro writes_files[OF PersistPayment]) (auto split: if_splits)
  show ?case unfolding forc.simps
  proof (rule bndc_files)
    show "files_for \<alpha> I h (pmDb pm) (pmDb (snd (on_db (db_PersistPayment D p) pm)))" by (rule one)
    fix x pm' assume "on_db (db_PersistPayment D p) pm = (Ok x, pm')"
    then have "I (pmDb pm')" using files_for_I[OF one] by simp
    then show "files_for \<alpha> I h (pmDb pm') (pmDb (snd (forc ps (\<lambda>p. on_db (db_PersistPayment D p)) pm')))"
      using Cons by simp
  qed
qed

text \<open>On success the payments are there.\<close>

lemma persist_filed:
  assumes "I (pmDb pm)" "\<forall>p \<in> set ps. wf_payment p"
    and "forc ps (\<lambda>p. on_db (db_PersistPayment D p)) pm = (Ok (), pm')"
  shows "I (pmDb pm') \<and> tPayments (\<alpha> (pmDb pm')) = file_all ps (tPayments (\<alpha> (pmDb pm)))"
  using assms
proof (induction ps arbitrary: pm)
  case Nil
  then show ?case by (simp add: file_all_def)
next
  case (Cons p ps)
  obtain pm1 where pm1: "on_db (db_PersistPayment D p) pm = (Ok (), pm1)"
    "forc ps (\<lambda>p. on_db (db_PersistPayment D p)) pm1 = (Ok (), pm')"
    using Cons.prems(3) by (auto simp: bndc_eq_Ok)
  have "I (pmDb pm1) \<and> \<alpha> (pmDb pm1) = (\<alpha> (pmDb pm))\<lparr>tPayments := (tPayments (\<alpha> (pmDb pm)))(pmUUID p \<mapsto> p)\<rparr>"
    using pm1(1) PersistPayment[of p] Cons.prems(1,2) unfolding writes_def on_db_def
    by (cases "db_PersistPayment D p (pmDb pm)") force
  then show ?case using Cons.IH[OF _ _ pm1(2)] Cons.prems(2) by (simp add: file_all_def fun_upd_def)
qed

text \<open>The calculated payments can be filed and are the source's.\<close>

lemma calculated:
  assumes "pm_calculatePayments e cfg m (Some source) amt height pm = (Ok (ps, c), pm')"
    and "\<forall>(a, r) \<in> set m. length a \<le> 32000" "distinct_keys m"
  shows "\<forall>p \<in> set ps. wf_payment p \<and> pm_pending p \<and> pm_block p = srcBlockHash source" "ps \<noteq> []"
    "pmDb pm' = pmDb pm"
proof -
  obtain tick where c: "calculatePayments e (cfgRules cfg) m (Some source) amt (PoolFee cfg) height
      (height + ucast (CoinbaseMaturity cfg)) (pmTick pm) = Ok (ps, c, tick)" "pm' = pm\<lparr>pmTick := tick\<rparr>"
    using assms(1) by (auto simp: pm_calculatePayments_def split: outcome.splits)
  show "pmDb pm' = pmDb pm" using c(2) by simp
  show "ps \<noteq> []" "\<forall>p \<in> set ps. wf_payment p \<and> pm_pending p \<and> pm_block p = srcBlockHash source"
    using calculatePayments_source[OF c(1)] calculatePayments_wf(1)[OF c(1) _ assms(2) fair assms(3)]
    by (auto simp: pm_pending_def pm_block_def)
qed

lemma tail_files:
  assumes I: "I (pmDb pm)" and m: "\<forall>(a, r) \<in> set m. length a \<le> 32000" "distinct_keys m"
    and prune: "\<And>pm. I (pmDb pm) \<Longrightarrow> files_for \<alpha> I (srcBlockHash source) (pmDb pm) (pmDb (snd (prune pm)))"
  shows "files_for \<alpha> I (srcBlockHash source) (pmDb pm) (pmDb (snd (payTail e cfg source amt height prune m pm)))"
  unfolding payTail_def cfgD
proof (rule bndc_files)
  show "files_for \<alpha> I (srcBlockHash source) (pmDb pm)
      (pmDb (snd (pm_calculatePayments e cfg m (Some source) amt height pm)))"
    using I by (auto simp: pm_calculatePayments_def files_for_refl split: outcome.split)
  fix x pm1 assume x: "pm_calculatePayments e cfg m (Some source) amt height pm = (Ok x, pm1)"
  obtain ps c where ps: "x = (ps, c)" by (cases x)
  note calc = calculated[OF x[unfolded ps] m]
  let ?persist = "forc ps (\<lambda>p. on_db (db_PersistPayment D p))"
  have I1: "I (pmDb pm1)" using I calc(3) by simp
  have f1: "files_for \<alpha> I (srcBlockHash source) (pmDb pm1) (pmDb (snd (?persist pm1)))"
    using persist_files[OF I1] calc(1) by blast
  show "files_for \<alpha> I (srcBlockHash source) (pmDb pm1) (pmDb (snd ((case x of (pmts, lastPmtCreatedOn) \<Rightarrow>
      bndc (forc pmts (\<lambda>payment. on_db (db_PersistPayment D payment)))
       (\<lambda>_. bndc (on_db (db_persistLastPaymentCreatedOn D lastPmtCreatedOn)) (\<lambda>_. prune))) pm1)))"
    unfolding ps prod.case
  proof (rule bndc_files)
    show "files_for \<alpha> I (srcBlockHash source) (pmDb pm1) (pmDb (snd (?persist pm1)))" by (rule f1)
    fix y pm2 assume "?persist pm1 = (Ok y, pm2)"
    then have I2: "I (pmDb pm2)" using files_for_I[OF f1] by simp
    have f2: "files_for \<alpha> I (srcBlockHash source) (pmDb pm2) (pmDb (snd (on_db (db_persistLastPaymentCreatedOn D c) pm2)))"
      by (rule writes_files[OF persistLastPaymentCreatedOn I2]) simp_all
    show "files_for \<alpha> I (srcBlockHash source) (pmDb pm2)
        (pmDb (snd (bndc (on_db (db_persistLastPaymentCreatedOn D c)) (\<lambda>_. prune) pm2)))"
    proof (rule bndc_files)
      show "files_for \<alpha> I (srcBlockHash source) (pmDb pm2) (pmDb (snd (on_db (db_persistLastPaymentCreatedOn D c) pm2)))"
        by (rule f2)
      fix z pm3 assume "on_db (db_persistLastPaymentCreatedOn D c) pm2 = (Ok z, pm3)"
      then show "files_for \<alpha> I (srcBlockHash source) (pmDb pm3) (pmDb (snd (prune pm3)))"
        using prune files_for_I[OF f2] by simp
    qed
  qed
qed

lemma tail_filed:
  assumes I: "I (pmDb pm)" and m: "\<forall>(a, r) \<in> set m. length a \<le> 32000" "distinct_keys m"
    and prune: "\<And>pm pm'. I (pmDb pm) \<Longrightarrow> prune pm = (Ok (), pm') \<Longrightarrow> tPayments (\<alpha> (pmDb pm')) = tPayments (\<alpha> (pmDb pm))"
    and ok: "payTail e cfg source amt height prune m pm = (Ok (), pm')"
  shows "\<exists>p \<in> ran (tPayments (\<alpha> (pmDb pm'))). pm_pending p \<and> pm_block p = srcBlockHash source"
proof -
  obtain ps c pm1 pm2 pm3 where s:
    "pm_calculatePayments e cfg m (Some source) amt height pm = (Ok (ps, c), pm1)"
    "forc ps (\<lambda>p. on_db (db_PersistPayment D p)) pm1 = (Ok (), pm2)"
    "on_db (db_persistLastPaymentCreatedOn D c) pm2 = (Ok (), pm3)" "prune pm3 = (Ok (), pm')"
    using ok by (auto simp: payTail_def bndc_eq_Ok cfgD)
  note calc = calculated[OF s(1) m]
  have 2: "I (pmDb pm2)" "tPayments (\<alpha> (pmDb pm2)) = file_all ps (tPayments (\<alpha> (pmDb pm1)))"
    using persist_filed[OF _ _ s(2)] calc I by auto
  have "I (pmDb pm3) \<and> tPayments (\<alpha> (pmDb pm3)) = tPayments (\<alpha> (pmDb pm2))"
    using s(3) persistLastPaymentCreatedOn[of c] 2(1) unfolding writes_def on_db_def
    by (cases "db_persistLastPaymentCreatedOn D c (pmDb pm2)") force
  then have t: "tPayments (\<alpha> (pmDb pm')) = file_all ps (tPayments (\<alpha> (pmDb pm1)))" using prune s(4) 2(2) by auto
  have "file_all ps t (pmUUID (last ps)) = Some (last ps)" for t
    using calc(2) by (induction ps rule: rev_induct) (auto simp: file_all_def)
  then have "last ps \<in> ran (tPayments (\<alpha> (pmDb pm')))" unfolding t by (auto simp: ran_def)
  then show ?thesis using calc(1,2) last_in_set by blast
qed

lemma prune_payments:
  assumes "I (pmDb pm)"
  shows "files_for \<alpha> I h (pmDb pm) (pmDb (snd (on_db (db_pruneShares D t) pm)))"
    "on_db (db_pruneShares D t) pm = (Ok (), pm') \<Longrightarrow> tPayments (\<alpha> (pmDb pm')) = tPayments (\<alpha> (pmDb pm))"
proof -
  show "files_for \<alpha> I h (pmDb pm) (pmDb (snd (on_db (db_pruneShares D t) pm)))"
    by (rule writes_files[OF pruneShares assms]) simp_all
  show "tPayments (\<alpha> (pmDb pm')) = tPayments (\<alpha> (pmDb pm))" if "on_db (db_pruneShares D t) pm = (Ok (), pm')"
    using that pruneShares[of t] assms unfolding writes_def on_db_def
    by (cases "db_pruneShares D t (pmDb pm)") force
qed

lemma prune_now_payments:
  assumes "I (pmDb pm)"
  defines "prune \<equiv> bndc (time_now e) (\<lambda>now. on_db (db_pruneShares D (now - LastNPeriod cfg)))"
  shows "files_for \<alpha> I h (pmDb pm) (pmDb (snd (prune pm)))"
    "prune pm = (Ok (), pm') \<Longrightarrow> tPayments (\<alpha> (pmDb pm')) = tPayments (\<alpha> (pmDb pm))"
proof -
  let ?pm = "pm\<lparr>pmTick := Suc (pmTick pm)\<rparr>"
  have eq: "prune pm = on_db (db_pruneShares D (eNow e (pmTick pm) - LastNPeriod cfg)) ?pm"
    by (simp add: prune_def bndc_def time_now_def)
  show "files_for \<alpha> I h (pmDb pm) (pmDb (snd (prune pm)))"
    "prune pm = (Ok (), pm') \<Longrightarrow> tPayments (\<alpha> (pmDb pm')) = tPayments (\<alpha> (pmDb pm))"
    unfolding eq using prune_payments[of ?pm] assms(1) by auto
qed

lemma percentages_files:
  "I (pmDb pm) \<Longrightarrow> pmDb (snd (PPSSharePercentages e cfg t pm)) = pmDb pm"
  "I (pmDb pm) \<Longrightarrow> pmDb (snd (PPLNSSharePercentages e cfg pm)) = pmDb pm"
  by (auto simp: PPSSharePercentages_def PPLNSSharePercentages_def bndc_def from_db_def liftc_def time_now_def
      split: outcome.split)

lemma scheme_files:
  fixes amt :: int and height :: "32 word"
  assumes I: "I (pmDb pm)" and db: "pmDb (snd (pct pm)) = pmDb pm"
    and short: "\<forall>m pm'. pct pm = (Ok m, pm') \<longrightarrow>
      (\<forall>(a, r) \<in> set m. length a \<le> 32000) \<and> distinct_keys m"
    and prune: "\<forall>pm. I (pmDb pm) \<longrightarrow> files_for \<alpha> I (srcBlockHash source) (pmDb pm) (pmDb (snd (prune pm)))"
    "\<forall>pm pm'. I (pmDb pm) \<longrightarrow> prune pm = (Ok (), pm') \<longrightarrow> tPayments (\<alpha> (pmDb pm')) = tPayments (\<alpha> (pmDb pm))"
  defines "c \<equiv> bndc pct (payTail e cfg source amt height prune)"
  shows "files_for \<alpha> I (srcBlockHash source) (pmDb pm) (pmDb (snd (c pm)))"
    "c pm = (Ok (), pm') \<Longrightarrow>
      \<exists>p \<in> ran (tPayments (\<alpha> (pmDb pm'))). pm_pending p \<and> pm_block p = srcBlockHash source"
proof -
  show "files_for \<alpha> I (srcBlockHash source) (pmDb pm) (pmDb (snd (c pm)))"
    unfolding c_def
  proof (rule bndc_files)
    show "files_for \<alpha> I (srcBlockHash source) (pmDb pm) (pmDb (snd (pct pm)))"
      using I db by (simp add: files_for_refl)
    fix m pm1 assume m: "pct pm = (Ok m, pm1)"
    then have "I (pmDb pm1)" using I db by simp
    then show "files_for \<alpha> I (srcBlockHash source) (pmDb pm1)
        (pmDb (snd (payTail e cfg source amt height prune m pm1)))"
      using tail_files prune(1) short m by blast
  qed
  assume "c pm = (Ok (), pm')"
  then obtain m pm1 where m: "pct pm = (Ok m, pm1)" "payTail e cfg source amt height prune m pm1 = (Ok (), pm')"
    by (auto simp: c_def bndc_eq_Ok)
  have "I (pmDb pm1)" using I db m(1) by simp
  then show "\<exists>p \<in> ran (tPayments (\<alpha> (pmDb pm'))). pm_pending p \<and> pm_block p = srcBlockHash source"
    using tail_filed[OF _ _ _ _ m(2)] prune(2) short m(1) by blast
qed

lemma generate_files:
  assumes I: "I (pmDb pm)"
  shows "files_for \<alpha> I (srcBlockHash source) (pmDb pm)
      (pmDb (snd (generatePayments e cfg height (Some source) amt t pm)))"
    "generatePayments e cfg height (Some source) amt t pm = (Ok (), pm') \<Longrightarrow>
      \<exists>p \<in> ran (tPayments (\<alpha> (pmDb pm'))). pm_pending p \<and> pm_block p = srcBlockHash source"
proof -
  have short: "\<forall>m pm'. PPSSharePercentages e cfg t pm = (Ok m, pm') \<longrightarrow>
      (\<forall>(a, r) \<in> set m. length a \<le> 32000) \<and> distinct_keys m"
    "\<forall>m pm'. PPLNSSharePercentages e cfg pm = (Ok m, pm') \<longrightarrow>
      (\<forall>(a, r) \<in> set m. length a \<le> 32000) \<and> distinct_keys m"
    using percentages_short[OF I] by blast+
  let ?pps = "bndc (PPSSharePercentages e cfg t) (payTail e cfg source amt height (on_db (db_pruneShares D t)))"
  let ?pplns = "bndc (PPLNSSharePercentages e cfg) (payTail e cfg source amt height
      (bndc (time_now e) (\<lambda>now. on_db (db_pruneShares D (now - LastNPeriod cfg)))))"
  have pps: "\<forall>pm. I (pmDb pm) \<longrightarrow> files_for \<alpha> I (srcBlockHash source) (pmDb pm) (pmDb (snd (on_db (db_pruneShares D t) pm)))"
    "\<forall>pm pm'. I (pmDb pm) \<longrightarrow> on_db (db_pruneShares D t) pm = (Ok (), pm') \<longrightarrow>
      tPayments (\<alpha> (pmDb pm')) = tPayments (\<alpha> (pmDb pm))"
    using prune_payments by blast+
  let ?prune = "bndc (time_now e) (\<lambda>now. on_db (db_pruneShares D (now - LastNPeriod cfg)))"
  have pplns: "\<forall>pm. I (pmDb pm) \<longrightarrow> files_for \<alpha> I (srcBlockHash source) (pmDb pm) (pmDb (snd (?prune pm)))"
    "\<forall>pm pm'. I (pmDb pm) \<longrightarrow> ?prune pm = (Ok (), pm') \<longrightarrow> tPayments (\<alpha> (pmDb pm')) = tPayments (\<alpha> (pmDb pm))"
    using prune_now_payments by blast+
  note pf = percentages_files[OF I]
  have files: "files_for \<alpha> I (srcBlockHash source) (pmDb pm) (pmDb (snd (?pps pm)))"
    "files_for \<alpha> I (srcBlockHash source) (pmDb pm) (pmDb (snd (?pplns pm)))"
    by (rule scheme_files(1); use I pf short pps pplns in blast)+
  have filed: "?pps pm = (Ok (), pm') \<Longrightarrow>
      \<exists>p \<in> ran (tPayments (\<alpha> (pmDb pm'))). pm_pending p \<and> pm_block p = srcBlockHash source"
    "?pplns pm = (Ok (), pm') \<Longrightarrow>
      \<exists>p \<in> ran (tPayments (\<alpha> (pmDb pm'))). pm_pending p \<and> pm_block p = srcBlockHash source"
    by (rule scheme_files(2); use I pf short pps pplns in blast)+
  show "files_for \<alpha> I (srcBlockHash source) (pmDb pm)
      (pmDb (snd (generatePayments e cfg height (Some source) amt t pm)))"
    unfolding generatePayments_def pay_tails cfgD using files_for_refl[where I = I, OF I]
    by (cases "PaymentMethod cfg = PPS"; cases "PaymentMethod cfg = PPLNS") (simp_all add: files)
  show "\<exists>p \<in> ran (tPayments (\<alpha> (pmDb pm'))). pm_pending p \<and> pm_block p = srcBlockHash source"
    if "generatePayments e cfg height (Some source) amt t pm = (Ok (), pm')"
    using that filed unfolding generatePayments_def pay_tails cfgD by (simp split: if_splits)
qed

end

sublocale payment_mgr \<subseteq> gen: payment_generator D \<alpha> I live "hubGeneratePayments e cfg pm0"
proof unfold_locales
  fix db height source amt createdOn k p db'
  assume I: "I db"
  let ?pm = "pm0\<lparr>pmDb := db\<rparr>"
  have I': "I (pmDb ?pm)" using I by simp
  have eq: "snd (hubGeneratePayments e cfg pm0 height source amt createdOn db) =
      pmDb (snd (generatePayments e cfg height (Some source) amt createdOn ?pm))"
    by (simp add: hubGeneratePayments_def split: prod.split)
  note g = generate_files(1)[OF I', of source height amt createdOn, unfolded files_for_def eq[symmetric], simplified]
  show "I (snd (hubGeneratePayments e cfg pm0 height source amt createdOn db))"
    "tWork (\<alpha> (snd (hubGeneratePayments e cfg pm0 height source amt createdOn db))) = tWork (\<alpha> db)"
    using g by blast+
  show "tPayments (\<alpha> (snd (hubGeneratePayments e cfg pm0 height source amt createdOn db))) k = Some p \<Longrightarrow>
      tPayments (\<alpha> db) k = Some p \<or> pm_pending p \<and> pm_block p = srcBlockHash source"
    using g by blast
  show "\<exists>p \<in> ran (tPayments (\<alpha> db')). pm_pending p \<and> pm_block p = srcBlockHash source"
    if "hubGeneratePayments e cfg pm0 height source amt createdOn db = (Ok (), db')"
    using that generate_files(2)[OF I', of height source amt createdOn]
    by (auto simp: hubGeneratePayments_def split: prod.splits)
qed

text \<open>The bolt database with the manager of the witnesses.\<close>

interpretation demo: payment_mgr "BoltDatabase mem_bolt" "absdb mem_bolt" "boltInv mem_bolt" True plainEnv demoCfg "demoPm newdb"
  using mem_db_spec by (simp add: payment_mgr_def payment_mgr_axioms_def plainEnv_fair demoCfg_def)

end
