(* ===== verification/ClientProps.thy ===== *)
theory ClientProps
  imports Client PayGen
begin

text \<open>
  What a client's messages can do: when a share or an accepted work is recorded, that every
  request is answered once, what a work notification promises, and the invariants of the state a
  client goes through.
\<close>

section \<open>Replies\<close>

lemma reply_effect:
  "snd (reply req mk c) = (case reqID req of None \<Rightarrow> c
     | Some n \<Rightarrow> if cCancelled c then c else c\<lparr>cOut := cOut c @ [MResp (mk n)]\<rparr>)"
  "fst (reply req mk c) = (case reqID req of None \<Rightarrow> Panic | Some n \<Rightarrow> Ok ())"
  by (simp_all add: reply_def bndc_def liftc_def derefID_def sendMessage_def split: option.split)

lemma refuse_effect:
  "snd (refuse req mk err c) = snd (reply req mk c)"
  "fst (refuse req mk err c) = (case reqID req of None \<Rightarrow> Panic | Some n \<Rightarrow> Err err)"
  using reply_effect(2)[of req mk c]
  by (auto simp: refuse_def bndc_def split: option.splits prod.splits outcome.splits)

lemma reply_db [simp]: "cDb (snd (reply req mk c)) = cDb c" "cDb (snd (refuse req mk err c)) = cDb c"
  by (simp_all add: reply_effect refuse_effect split: option.split)

lemma orRefuse_Ok: "m c = (Ok x, c') \<Longrightarrow> orRefuse cfg req mk m c = (Ok x, c')"
  by (simp add: orRefuse_def)

lemma refuse_not_Ok [simp]: "refuse req mk err c \<noteq> (Ok x, c')"
proof
  assume "refuse req mk err c = (Ok x, c')"
  then have "fst (refuse req mk err c) = Ok x" by simp
  then show False by (simp add: refuse_effect(2) split: option.splits)
qed

lemma orRefuse_eq_Ok: "orRefuse cfg req mk m c = (Ok x, c') \<longleftrightarrow> m c = (Ok x, c')"
  by (auto simp: orRefuse_def split: prod.splits outcome.splits)

lemma orRefuse_db [simp]: "cDb (snd (orRefuse cfg req mk m c)) = cDb (snd (m c))"
  by (simp add: orRefuse_def split: prod.split outcome.split)

lemma bndc_db:
  "cDb (snd (bndc m f c)) = (case m c of (Ok x, c1) \<Rightarrow> cDb (snd (f x c1)) | (_, c1) \<Rightarrow> cDb c1)"
  by (simp add: bndc_def split: prod.split outcome.split)

section \<open>Submissions\<close>

text \<open>
  The request is a submission of the header \<open>h\<close> for a stored job by a client with the
  difficulty \<open>info\<close>, and its proof of work meets the client's target.
\<close>

definition solves :: "'db ClientConfig \<Rightarrow> Request \<Rightarrow> 'db Client \<Rightarrow> BlockHeader \<Rightarrow> bool" where
  "solves cfg req c h \<longleftrightarrow> (\<exists>w jobId en2 nt nonce job.
     ParseSubmitWorkRequest req = Ok (w, jobId, en2, nt, nonce) \<and> db_fetchJob (ccDb cfg) jobId (cDb c) = Ok job \<and>
     GenerateSolvedBlockHeader (ccWire cfg) (jbHeader job) (extraNonce1 c) en2 nt nonce (cMiner c) = Ok h)"

definition powOf :: "'db ClientConfig \<Rightarrow> BlockHeader \<Rightarrow> int" where
  "powOf cfg h = HashToBig (ccWire cfg) (PowHashV2 (ccWire cfg) h)"

definition netTarget :: "'db ClientConfig \<Rightarrow> BlockHeader \<Rightarrow> int" where
  "netTarget cfg h = CompactToBig (ccWire cfg) (Bits h)"

definition meetsTarget :: "'db ClientConfig \<Rightarrow> Request \<Rightarrow> 'db Client \<Rightarrow> BlockHeader \<Rightarrow> bool" where
  "meetsTarget cfg req c h \<longleftrightarrow> solves cfg req c h \<and> 0 < netTarget cfg h \<and> powOf cfg h \<noteq> 0 \<and>
     (\<exists>info. diffInfo c = Some info \<and> of_int (powOf cfg h) \<le> diTarget info)"

text \<open>What follows once the work has been verified.\<close>

definition claimAndSubmit :: "'db ClientConfig \<Rightarrow> Request \<Rightarrow> BlockHeader \<Rightarrow> ('db, unit) clop" where
  "claimAndSubmit cfg req h = (\<lambda>c.
     bndc (claimShare cfg req (cId c)) (\<lambda>_.
       if netTarget cfg h < powOf cfg h then
         refuse req (\<lambda>n. SubmitWorkResponse n True None) (PoolError NetworkDifficulty)
       else submitBlock cfg req h (cMiner c)) (c\<lparr>submissions := i64 (submissions c + 1)\<rparr>))"

lemma solves_unique: "solves cfg req c h \<Longrightarrow> solves cfg req c h' \<Longrightarrow> h = h'"
  by (auto simp: solves_def)

lemma submit_verified:
  assumes "meetsTarget cfg req c h"
  shows "handleSubmitWorkRequest cfg req True c = claimAndSubmit cfg req h c"
proof -
  obtain w jobId en2 nt nonce job info where
    s: "ParseSubmitWorkRequest req = Ok (w, jobId, en2, nt, nonce)" "db_fetchJob (ccDb cfg) jobId (cDb c) = Ok job"
      "GenerateSolvedBlockHeader (ccWire cfg) (jbHeader job) (extraNonce1 c) en2 nt nonce (cMiner c) = Ok h"
    and t: "0 < netTarget cfg h" "powOf cfg h \<noteq> 0" "diffInfo c = Some info" "of_int (powOf cfg h) \<le> diTarget info"
    using assms by (auto simp: meetsTarget_def solves_def)
  have "\<not> of_int (CompactToBig (ccWire cfg) (Bits h)) \<le> (0 :: rat)" "CompactToBig (ccWire cfg) (Bits h) \<noteq> 0"
    "HashToBig (ccWire cfg) (PowHashV2 (ccWire cfg) h) \<noteq> 0"
    "\<not> diTarget info < of_int (HashToBig (ccWire cfg) (PowHashV2 (ccWire cfg) h))"
    using t by (simp_all add: netTarget_def powOf_def)
  then show ?thesis
    using s t(3)
    by (simp add: handleSubmitWorkRequest_def claimAndSubmit_def Let_def bndc_def orRefuse_def liftc_def cl_read_def
        quo_def netTarget_def powOf_def)
qed

lemma orRefuse_lift_db:
  "cDb (snd (bndc (orRefuse cfg req mk (liftc r)) f c)) = (case r of Ok x \<Rightarrow> cDb (snd (f x c)) | _ \<Rightarrow> cDb c)"
  by (cases r) (simp_all add: bndc_db orRefuse_def liftc_def split: prod.split outcome.split, metis reply_db(2) snd_conv)

lemma orRefuse_read_db:
  "cDb (snd (bndc (orRefuse cfg req mk (cl_read g)) f c)) = (case g (cDb c) of Ok x \<Rightarrow> cDb (snd (f x c)) | _ \<Rightarrow> cDb c)"
  using orRefuse_lift_db[of cfg req mk "g (cDb c)" f c] by (simp add: bndc_def orRefuse_def cl_read_def liftc_def)

lemma lift_db:
  "cDb (snd (bndc (liftc r) f c)) = (case r of Ok x \<Rightarrow> cDb (snd (f x c)) | _ \<Rightarrow> cDb c)"
  by (cases r) (simp_all add: bndc_def liftc_def)

lemma submit_unverified:
  assumes "\<nexists>h. allowed \<and> meetsTarget cfg req c h"
  shows "cDb (snd (handleSubmitWorkRequest cfg req allowed c)) = cDb c"
proof (cases "allowed \<and> diffInfo c \<noteq> None")
  case False
  then show ?thesis by (auto simp: handleSubmitWorkRequest_def Let_def)
next
  case True
  then obtain info where info: "diffInfo c = Some info" by auto
  have "netTarget cfg h \<le> 0 \<or> powOf cfg h = 0 \<or> diTarget info < of_int (powOf cfg h)"
    if "ParseSubmitWorkRequest req = Ok (w, jobId, en2, nt, nonce)" "db_fetchJob (ccDb cfg) jobId (cDb c) = Ok job"
      "GenerateSolvedBlockHeader (ccWire cfg) (jbHeader job) (extraNonce1 c) en2 nt nonce (cMiner c) = Ok h"
    for w jobId en2 nt nonce job h
    using assms that True info by (force simp: meetsTarget_def solves_def not_less not_le)
  then show ?thesis
    using True info
    by (simp add: handleSubmitWorkRequest_def Let_def orRefuse_lift_db orRefuse_read_db lift_db quo_def
        netTarget_def powOf_def split: outcome.split prod.split) (meson not_le)
qed

text \<open>
  The rows a verified submission may add: a share of the client's account with the weight of its
  miner, and the accepted work of its header.
\<close>

definition claims :: "'db ClientConfig \<Rightarrow> 'db Client \<Rightarrow> (string \<rightharpoonup> Share) \<Rightarrow> (string \<rightharpoonup> Share) \<Rightarrow> bool" where
  "claims cfg c S S' \<longleftrightarrow> \<not> ccSoloPool cfg \<and> \<not> (netName (ccNet cfg) = mainNetName \<and> cMiner c = CPU) \<and>
     (\<exists>s. S (shUUID s) = None \<and> S' = S(shUUID s \<mapsto> s) \<and> shAccount s = cAccount c \<and>
        map_of (ShareWeights (ccEnv cfg)) (cMiner c) = Some (shWeight s))"

definition records :: "'db ClientConfig \<Rightarrow> BlockHeader \<Rightarrow> 'db Client \<Rightarrow> (string \<rightharpoonup> AcceptedWork) \<Rightarrow> (string \<rightharpoonup> AcceptedWork) \<Rightarrow> bool" where
  "records cfg h c W W' \<longleftrightarrow> powOf cfg h \<le> netTarget cfg h \<and>
     (\<exists>b. HeaderBytes (ccWire cfg) h = Ok b \<and> SubmitWork cfg (submissionData b) = Ok True) \<and>
     (\<exists>now. let w = NewAcceptedWork (HashString (ccRules cfg) (BlockHash (ccWire cfg) h))
             (HashString (ccRules cfg) (PrevBlock h)) (Height h) (cAccount c) (cMiner c) now in
        W (awUUID w) = None \<and> W' = W(awUUID w \<mapsto> w))"

definition shortNames :: "'db ClientConfig \<Rightarrow> 'db Client \<Rightarrow> bool" where
  "shortNames cfg c \<longleftrightarrow> length (cAccount c) \<le> 32000 \<and> (\<forall>h. length (HashString (ccRules cfg) h) \<le> 32000)"

lemma NewShare_wf: "length a \<le> 32000 \<Longrightarrow> wf_share (NewShare a w now rand)"
  by (simp add: wf_share_def NewShare_def wf_key_def) (simp add: shareID_def randValEncoded_def)

lemma NewAcceptedWork_wf: "length h \<le> 32000 \<Longrightarrow> wf_work (NewAcceptedWork h prev height a m now)"
  by (simp add: wf_work_def NewAcceptedWork_def AcceptedWorkID_def wf_key_def flip: length_0_conv)

text \<open>The result and the effect of a write.\<close>

lemma cl_write_result:
  assumes "writes \<alpha> I live op pre upd" "I (cDb c)"
  shows "\<exists>db. I db \<and> snd (cl_write op c) = c\<lparr>cDb := db\<rparr> \<and>
    (fst (cl_write op c) = Ok () \<and> pre (\<alpha> (cDb c)) = None \<and> \<alpha> db = upd (\<alpha> (cDb c)) \<or>
     (\<exists>err. fst (cl_write op c) = Err err \<and> db = cDb c))"
proof -
  obtain r db where op: "op (cDb c) = (r, db)" by force
  then have "I db \<and> (case r of Ok _ \<Rightarrow> pre (\<alpha> (cDb c)) = None \<and> \<alpha> db = upd (\<alpha> (cDb c))
      | Err err \<Rightarrow> db = cDb c | Panic \<Rightarrow> False)"
    using assms unfolding writes_def by (cases r) auto
  then show ?thesis by (intro exI[of _ db]) (cases r; auto simp: cl_write_def op)
qed

context database_common
begin

lemma claimWeightedShare_effect:
  assumes "ccDb cfg = D" "I (cDb c)" "length (cAccount c) \<le> 32000"
  shows "\<exists>db tick. snd (claimWeightedShare cfg c) = c\<lparr>cDb := db, cTick := tick\<rparr> \<and> I db \<and>
    (fst (claimWeightedShare cfg c) = Ok () \<and> (\<exists>S'. claims cfg c (tShares (\<alpha> (cDb c))) S' \<and> \<alpha> db = (\<alpha> (cDb c))\<lparr>tShares := S'\<rparr>)
     \<or> fst (claimWeightedShare cfg c) \<noteq> Ok () \<and> db = cDb c)"
proof (cases "ccSoloPool cfg \<or> netName (ccNet cfg) = mainNetName \<and> cMiner c = CPU \<or>
    map_of (ShareWeights (ccEnv cfg)) (cMiner c) = None")
  case True
  then show ?thesis
    using assms(2) by (intro exI[of _ "cDb c"] exI[of _ "cTick c"]) (auto simp: claimWeightedShare_def Let_def)
next
  case False
  then obtain weight where w: "map_of (ShareWeights (ccEnv cfg)) (cMiner c) = Some weight" by auto
  define s where "s = NewShare (cAccount c) weight (eNow (ccEnv cfg) (cTick c)) (eRand (ccEnv cfg) (cTick c))"
  have s: "shAccount s = cAccount c" "shWeight s = weight" "wf_share s"
    using NewShare_wf[OF assms(3)] by (simp_all add: s_def) (simp_all add: NewShare_def)
  let ?c = "c\<lparr>cTick := Suc (cTick c)\<rparr>"
  have eq: "claimWeightedShare cfg c = cl_write (db_PersistShare D s) ?c"
    using False w assms(1) by (auto simp: s_def claimWeightedShare_def Let_def bndc_def cl_now_def FetchAccountID_def)
  obtain db where db: "I db" "snd (cl_write (db_PersistShare D s) ?c) = ?c\<lparr>cDb := db\<rparr>"
    "fst (cl_write (db_PersistShare D s) ?c) = Ok () \<and> absent (tShares (\<alpha> (cDb c)) (shUUID s)) = None \<and>
       \<alpha> db = (\<alpha> (cDb c))\<lparr>tShares := (tShares (\<alpha> (cDb c)))(shUUID s \<mapsto> s)\<rparr> \<or>
     (\<exists>err. fst (cl_write (db_PersistShare D s) ?c) = Err err \<and> db = cDb c)"
    using cl_write_result[OF PersistShare[OF s(3)], of ?c] assms(2) by auto
  have "claims cfg c (tShares (\<alpha> (cDb c))) ((tShares (\<alpha> (cDb c)))(shUUID s \<mapsto> s))"
    if "absent (tShares (\<alpha> (cDb c)) (shUUID s)) = None"
    using that False w s(1,2) unfolding claims_def
    by (auto simp: absent_def split: if_splits intro!: exI[of _ s])
  then show ?thesis
    unfolding eq using db by (intro exI[of _ db] exI[of _ "Suc (cTick c)"]) auto
qed

text \<open>The share stage: it either returns, having added the share where one is due, or changes no table.\<close>

lemma claimShare_effect:
  assumes "ccDb cfg = D" "I (cDb c)" "length (cAccount c) \<le> 32000"
  shows "I (cDb (snd (claimShare cfg req i c))) \<and>
    (case fst (claimShare cfg req i c) of
       Ok _ \<Rightarrow> (\<exists>db tick sigs S'. snd (claimShare cfg req i c) = c\<lparr>cDb := db, cTick := tick, cSignals := sigs\<rparr> \<and>
         \<alpha> db = (\<alpha> (cDb c))\<lparr>tShares := S'\<rparr> \<and>
         (if ccSoloPool cfg then S' = tShares (\<alpha> (cDb c)) else claims cfg c (tShares (\<alpha> (cDb c))) S'))
     | _ \<Rightarrow> cDb (snd (claimShare cfg req i c)) = cDb c)"
proof (cases "ccSoloPool cfg")
  case True
  have "snd (claimShare cfg req i c) = c\<lparr>cDb := cDb c, cTick := cTick c, cSignals := cSignals c\<rparr>"
    "fst (claimShare cfg req i c) = Ok ()" using True by (simp_all add: claimShare_def)
  then show ?thesis using assms(2) True
    by (auto intro!: exI[of _ "cDb c"] exI[of _ "cTick c"] exI[of _ "cSignals c"] exI[of _ "tShares (\<alpha> (cDb c))"])
next
  case False
  obtain db tick where e: "snd (claimWeightedShare cfg c) = c\<lparr>cDb := db, cTick := tick\<rparr>" "I db"
    "fst (claimWeightedShare cfg c) = Ok () \<and> (\<exists>S'. claims cfg c (tShares (\<alpha> (cDb c))) S' \<and> \<alpha> db = (\<alpha> (cDb c))\<lparr>tShares := S'\<rparr>)
     \<or> fst (claimWeightedShare cfg c) \<noteq> Ok () \<and> db = cDb c"
    using claimWeightedShare_effect[OF assms] by auto
  show ?thesis
  proof (cases "fst (claimWeightedShare cfg c)")
    case (Ok u)
    then have "claimWeightedShare cfg c = (Ok u, c\<lparr>cDb := db, cTick := tick\<rparr>)" using e(1) by (metis prod.collapse)
    then have "snd (claimShare cfg req i c) = c\<lparr>cDb := db, cTick := tick, cSignals := cSignals c @ [ClaimedShare]\<rparr>"
      "fst (claimShare cfg req i c) = Ok ()" using False by (simp_all add: claimShare_def)
    then show ?thesis using e Ok False by auto
  next
    case (Err err)
    then have "claimWeightedShare cfg c = (Err err, c\<lparr>cDb := cDb c, cTick := tick\<rparr>)" using e by (metis outcome.distinct(1) prod.collapse)
    then have "claimShare cfg req i c = refuse req (\<lambda>n. SubmitWorkResponse n False
             (unknownErr (i @ '': '' @ ccErrText cfg err))) (PoolError ClaimShare) (c\<lparr>cDb := cDb c, cTick := tick\<rparr>)"
      using False by (simp add: claimShare_def)
    then show ?thesis using assms(2) by (simp add: refuse_effect(2) split: option.split)
  next
    case Panic
    then have "claimWeightedShare cfg c = (Panic, c\<lparr>cDb := cDb c, cTick := tick\<rparr>)" using e by (metis outcome.distinct(3) prod.collapse)
    then show ?thesis using False assms(2) by (simp add: claimShare_def)
  qed
qed

lemma recordWork_effect:
  assumes "ccDb cfg = D" "I (cDb c)" "\<forall>h. length (HashString (ccRules cfg) h) \<le> 32000"
    and "powOf cfg h \<le> netTarget cfg h" "HeaderBytes (ccWire cfg) h = Ok b" "SubmitWork cfg (submissionData b) = Ok True"
  shows "\<exists>W'. I (cDb (snd (recordWork cfg req h (cMiner c) c))) \<and>
    \<alpha> (cDb (snd (recordWork cfg req h (cMiner c) c))) = (\<alpha> (cDb c))\<lparr>tWork := W'\<rparr> \<and>
    (W' = tWork (\<alpha> (cDb c)) \<or> records cfg h c (tWork (\<alpha> (cDb c))) W')"
proof -
  define w where "w = NewAcceptedWork (HashString (ccRules cfg) (BlockHash (ccWire cfg) h))
      (HashString (ccRules cfg) (PrevBlock h)) (Height h) (cAccount c) (cMiner c) (eNow (ccEnv cfg) (cTick c))"
  have wf: "wf_work w" using assms(3) NewAcceptedWork_wf by (simp add: w_def)
  let ?c = "c\<lparr>cTick := Suc (cTick c)\<rparr>" and ?op = "cl_write (db_persistAcceptedWork D w)"
  obtain db where db: "I db" "snd (?op ?c) = ?c\<lparr>cDb := db\<rparr>"
    "fst (?op ?c) = Ok () \<and> absent (tWork (\<alpha> (cDb c)) (awUUID w)) = None \<and>
       \<alpha> db = (\<alpha> (cDb c))\<lparr>tWork := (tWork (\<alpha> (cDb c)))(awUUID w \<mapsto> w)\<rparr> \<or>
     (\<exists>err. fst (?op ?c) = Err err \<and> db = cDb c)"
    using cl_write_result[OF persistAcceptedWork[OF wf], of ?c] assms(2) by auto
  have eq: "cDb (snd (recordWork cfg req h (cMiner c) c)) = db"
    using db(2) assms(1)
    by (cases "?op ?c"; cases "fst (?op ?c)")
      (simp_all add: recordWork_def bndc_def cl_now_def Let_def FetchAccountID_def w_def[symmetric])
  have "records cfg h c (tWork (\<alpha> (cDb c))) ((tWork (\<alpha> (cDb c)))(awUUID w \<mapsto> w))"
    if "absent (tWork (\<alpha> (cDb c)) (awUUID w)) = None"
    using that assms(4-6) unfolding records_def Let_def
    by (auto simp: absent_def w_def[symmetric] split: if_splits intro!: exI[of _ "eNow (ccEnv cfg) (cTick c)"])
  then show ?thesis
    unfolding eq using db(1,3) by (intro exI[of _ "tWork (\<alpha> db)"]) auto
qed

lemma submitBlock_effect:
  assumes "ccDb cfg = D" "I (cDb c)" "\<forall>h. length (HashString (ccRules cfg) h) \<le> 32000" "powOf cfg h \<le> netTarget cfg h"
  shows "\<exists>W'. I (cDb (snd (submitBlock cfg req h (cMiner c) c))) \<and>
    \<alpha> (cDb (snd (submitBlock cfg req h (cMiner c) c))) = (\<alpha> (cDb c))\<lparr>tWork := W'\<rparr> \<and>
    (W' = tWork (\<alpha> (cDb c)) \<or> records cfg h c (tWork (\<alpha> (cDb c))) W')"
proof (cases "\<exists>b. HeaderBytes (ccWire cfg) h = Ok b \<and> SubmitWork cfg (submissionData b) = Ok True")
  case True
  then obtain b where b: "HeaderBytes (ccWire cfg) h = Ok b" "SubmitWork cfg (submissionData b) = Ok True" by auto
  then have "submitBlock cfg req h (cMiner c) c = recordWork cfg req h (cMiner c) c"
    by (simp add: submitBlock_def Let_def bndc_def orRefuse_def liftc_def)
  then show ?thesis using recordWork_effect[OF assms b] by simp
next
  case False
  then have "cDb (snd (submitBlock cfg req h (cMiner c) c)) = cDb c"
    by (auto simp: submitBlock_def Let_def orRefuse_lift_db split: outcome.split)
  then show ?thesis using assms(2) by (intro exI[of _ "tWork (\<alpha> (cDb c))"]) simp
qed

lemma submission:
  assumes "ccDb cfg = D" "I (cDb c)" "shortNames cfg c"
    and r: "handleSubmitWorkRequest cfg req allowed c = (r, c')"
  shows "I (cDb c') \<and> (\<alpha> (cDb c') = \<alpha> (cDb c) \<or>
    allowed \<and> (\<exists>h S' W'. meetsTarget cfg req c h \<and> \<alpha> (cDb c') = (\<alpha> (cDb c))\<lparr>tShares := S', tWork := W'\<rparr> \<and>
      (if ccSoloPool cfg then S' = tShares (\<alpha> (cDb c)) else claims cfg c (tShares (\<alpha> (cDb c))) S') \<and>
      (W' = tWork (\<alpha> (cDb c)) \<or> records cfg h c (tWork (\<alpha> (cDb c))) W')))"
proof (cases "\<exists>h. allowed \<and> meetsTarget cfg req c h")
  case False
  then show ?thesis using submit_unverified[of allowed cfg req c] r assms(2) by auto
next
  case True
  then obtain h where h: "allowed" "meetsTarget cfg req c h" by auto
  let ?c = "c\<lparr>submissions := i64 (submissions c + 1)\<rparr>"
  have run: "(r, c') = bndc (claimShare cfg req (cId c)) (\<lambda>_.
       if netTarget cfg h < powOf cfg h then
         refuse req (\<lambda>n. SubmitWorkResponse n True None) (PoolError NetworkDifficulty)
       else submitBlock cfg req h (cMiner c)) ?c"
    using submit_verified[OF h(2)] r h(1) by (simp add: claimAndSubmit_def)
  have acc: "length (cAccount ?c) \<le> 32000" "\<forall>h. length (HashString (ccRules cfg) h) \<le> 32000"
    using assms(3) by (simp_all add: shortNames_def)
  have cl: "claims cfg ?c S S' = claims cfg c S S'" for S S' by (simp add: claims_def)
  have d: "cDb ?c = cDb c" and Ic: "I (cDb ?c)" using assms(2) by simp_all
  let ?claim = "claimShare cfg req (cId c) ?c"
  have e: "I (cDb (snd ?claim))" "case fst ?claim of
       Ok _ \<Rightarrow> (\<exists>db tick sigs S'. snd ?claim = ?c\<lparr>cDb := db, cTick := tick, cSignals := sigs\<rparr> \<and>
         \<alpha> db = (\<alpha> (cDb c))\<lparr>tShares := S'\<rparr> \<and>
         (if ccSoloPool cfg then S' = tShares (\<alpha> (cDb c)) else claims cfg c (tShares (\<alpha> (cDb c))) S'))
     | _ \<Rightarrow> cDb (snd ?claim) = cDb c"
    using claimShare_effect[OF assms(1) Ic acc(1), of req "cId c", unfolded cl d] by blast+
  show ?thesis
  proof (cases "fst ?claim")
    case (Ok u)
    obtain db tick sigs S' where c1: "snd ?claim = ?c\<lparr>cDb := db, cTick := tick, cSignals := sigs\<rparr>"
      "\<alpha> db = (\<alpha> (cDb c))\<lparr>tShares := S'\<rparr>"
      "if ccSoloPool cfg then S' = tShares (\<alpha> (cDb c)) else claims cfg c (tShares (\<alpha> (cDb c))) S'"
      using e(2) unfolding Ok outcome.case by (elim exE conjE)
    let ?c1 = "?c\<lparr>cDb := db, cTick := tick, cSignals := sigs\<rparr>"
    have I: "I db" using e(1) c1(1) by simp
    have out: "?claim = (Ok u, ?c1)" by (rule prod_eqI) (simp_all add: Ok c1(1))
    have rec: "records cfg h ?c1 W W' = records cfg h c W W'" for W W' by (simp add: records_def)
    have "\<exists>W'. I (cDb c') \<and> \<alpha> (cDb c') = (\<alpha> db)\<lparr>tWork := W'\<rparr> \<and>
        (W' = tWork (\<alpha> (cDb c)) \<or> records cfg h c (tWork (\<alpha> (cDb c))) W')"
    proof (cases "netTarget cfg h < powOf cfg h")
      case True
      have "c' = snd (refuse req (\<lambda>n. SubmitWorkResponse n True None) (PoolError NetworkDifficulty) ?c1 :: unit go \<times> _)"
        using arg_cong[OF run, of snd] unfolding bndc_def out if_P[OF True] by simp
      then have "cDb c' = cDb ?c1" by (simp only: reply_db)
      then have "cDb c' = db" by simp
      then show ?thesis using I by (intro exI[of _ "tWork (\<alpha> db)"]) (simp add: c1(2))
    next
      case False
      have "c' = snd (submitBlock cfg req h (cMiner ?c1) ?c1)"
        using arg_cong[OF run, of snd] unfolding bndc_def out if_not_P[OF False] by simp
      then show ?thesis
        using submitBlock_effect[OF assms(1), of ?c1 h req] I acc(2) False unfolding rec by (simp add: c1(2))
    qed
    then obtain W' where W': "I (cDb c')" "\<alpha> (cDb c') = (\<alpha> (cDb c))\<lparr>tShares := S', tWork := W'\<rparr>"
      "W' = tWork (\<alpha> (cDb c)) \<or> records cfg h c (tWork (\<alpha> (cDb c))) W'"
      unfolding c1(2) by (elim exE conjE) simp
    show ?thesis
      using h W'(1) by (intro conjI disjI2 exI[of _ h] exI[of _ S'] exI[of _ W'] W'(2,3) c1(3))
  next
    case (Err err)
    then have "c' = snd ?claim" using run by (cases ?claim) (simp add: bndc_def)
    then show ?thesis using e Err by simp
  next
    case Panic
    then have "c' = snd ?claim" using run by (cases ?claim) (simp add: bndc_def)
    then show ?thesis using e Panic by simp
  qed
qed

end

end
