(* ===== verification/ClientReplies.thy ===== *)
theory ClientReplies
  imports ClientProps
begin

text \<open>
  A calculus for what a handler puts into the queue of its client: a step is quiet, it asks
  (it either goes on without a message or stops with exactly one answer), or it ends with exactly
  one answer. Every handler is a sequence of asking steps with one ending step.
\<close>

section \<open>The calculus\<close>

definition quiet :: "('db, 'a) clop \<Rightarrow> bool" where
  "quiet m \<longleftrightarrow> (\<forall>c. cOut (snd (m c)) = cOut c \<and> cCancelled (snd (m c)) = cCancelled c)"

definition answered :: "Request \<Rightarrow> 'db Client \<Rightarrow> 'db Client \<Rightarrow> bool" where
  "answered req c c' \<longleftrightarrow> (\<exists>resp. reqID req = Some (respID resp) \<and> cOut c' = cOut c @ [MResp resp]) \<and> \<not> cCancelled c'"

definition asked :: "Request \<Rightarrow> 'db Client \<Rightarrow> 'a go \<times> 'db Client \<Rightarrow> bool" where
  "asked req c p \<longleftrightarrow> (case fst p of
     Ok _ \<Rightarrow> cOut (snd p) = cOut c \<and> \<not> cCancelled (snd p) | Err _ \<Rightarrow> answered req c (snd p) | Panic \<Rightarrow> True)"

definition ended :: "Request \<Rightarrow> 'db Client \<Rightarrow> 'a go \<times> 'db Client \<Rightarrow> bool" where
  "ended req c p \<longleftrightarrow> fst p = Panic \<or> answered req c (snd p)"

definition asks :: "Request \<Rightarrow> ('db, 'a) clop \<Rightarrow> bool" where
  "asks req m \<longleftrightarrow> (\<forall>c. \<not> cCancelled c \<longrightarrow> asked req c (m c))"

definition ends :: "Request \<Rightarrow> ('db, 'a) clop \<Rightarrow> bool" where
  "ends req m \<longleftrightarrow> (\<forall>c. \<not> cCancelled c \<longrightarrow> ended req c (m c))"

lemma shift:
  assumes "cOut c1 = cOut c"
  shows "answered req c1 c' = answered req c c'" "asked req c1 p = asked req c p" "ended req c1 p = ended req c p"
  using assms by (simp_all add: answered_def asked_def ended_def split: outcome.split)

lemma quiet_steps [simp, intro]:
  "quiet (liftc r)" "quiet (cl_now cfg)" "quiet (cl_write op)" "quiet (cl_read g)" "quiet (retc x)"
  by (simp_all add: quiet_def liftc_def cl_now_def cl_write_def cl_read_def split: prod.split)

lemma quiet_bndc: "quiet m \<Longrightarrow> (\<And>x. quiet (f x)) \<Longrightarrow> quiet (bndc m f)"
  unfolding quiet_def bndc_def by (auto split: prod.splits outcome.splits) (metis snd_conv)+

lemma quiet_apply: "quiet m \<Longrightarrow> cOut (snd (m c)) = cOut c" "quiet m \<Longrightarrow> cCancelled (snd (m c)) = cCancelled c"
  by (simp_all add: quiet_def)

text \<open>The result of a sequence, by the result of its first step.\<close>

lemma asked_bndc:
  assumes "asks req m" "\<not> cCancelled c"
  shows "\<lbrakk>\<And>x c1. \<lbrakk>\<not> cCancelled c1; cOut c1 = cOut c\<rbrakk> \<Longrightarrow> asked req c (f x c1)\<rbrakk> \<Longrightarrow> asked req c (bndc m f c)"
    "\<lbrakk>\<And>x c1. \<lbrakk>\<not> cCancelled c1; cOut c1 = cOut c\<rbrakk> \<Longrightarrow> ended req c (f x c1)\<rbrakk> \<Longrightarrow> ended req c (bndc m f c)"
proof -
  have "asked req c (m c)" using assms by (simp add: asks_def)
  then show "\<lbrakk>\<And>x c1. \<lbrakk>\<not> cCancelled c1; cOut c1 = cOut c\<rbrakk> \<Longrightarrow> asked req c (f x c1)\<rbrakk> \<Longrightarrow> asked req c (bndc m f c)"
    "\<lbrakk>\<And>x c1. \<lbrakk>\<not> cCancelled c1; cOut c1 = cOut c\<rbrakk> \<Longrightarrow> ended req c (f x c1)\<rbrakk> \<Longrightarrow> ended req c (bndc m f c)"
    by (cases "m c"; cases "fst (m c)"; simp add: asked_def ended_def bndc_def)+
qed

lemma asks_bndc: "asks req m \<Longrightarrow> (\<And>x. asks req (f x)) \<Longrightarrow> asks req (bndc m f)"
  by (subst asks_def) (metis asked_bndc(1) asks_def shift(2))

lemma ends_bndc: "asks req m \<Longrightarrow> (\<And>x. ends req (f x)) \<Longrightarrow> ends req (bndc m f)"
  by (subst ends_def) (metis asked_bndc(2) ends_def shift(3))

lemma ended_bndc:
  "asks req m \<Longrightarrow> (\<And>x. ends req (f x)) \<Longrightarrow> \<not> cCancelled c \<Longrightarrow> ended req c (bndc m f c)"
  using ends_bndc[of req m f] by (simp add: ends_def)

lemma ended_reply: "(\<And>n. respID (mk n) = n) \<Longrightarrow> \<not> cCancelled c \<Longrightarrow> ended req c (reply req mk c)"
  by (simp add: ended_def answered_def reply_effect split: option.split)

lemma ended_refuse: "(\<And>n. respID (mk n) = n) \<Longrightarrow> \<not> cCancelled c \<Longrightarrow> ended req c (refuse req mk err c)"
  by (simp add: ended_def answered_def refuse_effect reply_effect split: option.split)

lemma asked_refuse: "(\<And>n. respID (mk n) = n) \<Longrightarrow> \<not> cCancelled c \<Longrightarrow> asked req c (refuse req mk err c)"
  by (simp add: asked_def answered_def refuse_effect reply_effect split: option.split)

lemma ends_reply: "(\<And>n. respID (mk n) = n) \<Longrightarrow> ends req (reply req mk)"
  by (simp add: ends_def ended_reply)

lemma ends_refuse: "(\<And>n. respID (mk n) = n) \<Longrightarrow> ends req (refuse req mk err)"
  by (simp add: ends_def ended_refuse)

lemma asks_refuse: "(\<And>n. respID (mk n) = n) \<Longrightarrow> asks req (refuse req mk err)"
  by (simp add: asks_def asked_refuse)

text \<open>A quiet step whose results are told apart.\<close>

lemma quiet_case:
  assumes "quiet m" "\<not> cCancelled c"
    "\<And>x c1. \<not> cCancelled c1 \<Longrightarrow> ended req c1 (f x c1)" "\<And>err c1. \<not> cCancelled c1 \<Longrightarrow> ended req c1 (g err c1)"
  shows "ended req c (case m c of (Ok x, c1) \<Rightarrow> f x c1 | (Err err, c1) \<Rightarrow> g err c1 | (Panic, c1) \<Rightarrow> (Panic, c1))"
proof -
  obtain r c1 where m: "m c = (r, c1)" by force
  have q: "cOut c1 = cOut c" "\<not> cCancelled c1" using quiet_apply[OF assms(1), of c] assms(2) by (simp_all add: m)
  show ?thesis
    using assms(3,4)[OF q(2)] unfolding shift(3)[OF q(1)] m by (cases r) (simp_all, simp add: ended_def)
qed

lemma asks_orRefuse:
  assumes "quiet m" "\<And>n e. respID (mk n e) = n"
  shows "asks req (orRefuse cfg req mk m)"
  unfolding asks_def
proof (intro allI impI)
  fix c :: "'a Client" assume c: "\<not> cCancelled c"
  obtain r c1 where m: "m c = (r, c1)" by force
  have q: "cOut c1 = cOut c" "\<not> cCancelled c1" using quiet_apply[OF assms(1), of c] c by (simp_all add: m)
  show "asked req c (orRefuse cfg req mk m c)"
    unfolding orRefuse_def m shift(2)[OF q(1), symmetric]
    using q(2) assms(2) by (cases r) (simp_all add: asked_refuse, simp_all add: asked_def)
qed

lemma asks_modc: "(\<And>c. cOut (f c) = cOut c \<and> cCancelled (f c) = cCancelled c) \<Longrightarrow> asks req (modc f)"
  by (simp add: asks_def asked_def)

lemma asks_now: "asks req (cl_now cfg)"
  by (simp add: asks_def asked_def cl_now_def)

lemma asks_map_errc: "asks req m \<Longrightarrow> asks req (map_errc f m)"
  unfolding asks_def
proof (intro allI impI)
  fix c :: "'a Client" assume a: "\<forall>c. \<not> cCancelled c \<longrightarrow> asked req c (m c)" "\<not> cCancelled c"
  then have "asked req c (m c)" by simp
  then show "asked req c (map_errc f m c)"
    by (cases "m c"; cases "fst (m c)") (simp_all add: asked_def map_errc_def)
qed

lemma asks_liftc: "(\<And>err. r \<noteq> Err err) \<Longrightarrow> asks req (liftc r)"
  by (cases r) (auto simp: asks_def asked_def liftc_def)

lemma response_ids [simp]:
  "respID (AuthorizeResponse n st err) = n" "respID (SubscribeResponse n i e1 sz err) = n"
  "respID (SubmitWorkResponse n st err) = n" "respID (ExtraNonceSubscribeResponse n) = n"
  by (simp_all add: AuthorizeResponse_def SubscribeResponse_def SubmitWorkResponse_def ExtraNonceSubscribeResponse_def)

lemmas reply_rules = ends_bndc asks_orRefuse asks_refuse ends_refuse ends_reply asks_modc asks_map_errc

section \<open>The handlers answer\<close>

lemma asks_authAccount: "asks req (authAccount cfg req username)"
proof -
  have q: "quiet (bndc (cl_now cfg) (\<lambda>now c. case cl_write (db_persistAccount (ccDb cfg) account now) c of
             (Err err, c') \<Rightarrow> (if errors_is err ValueFound then Ok () else Err err, c')
           | r \<Rightarrow> r))" for account
    by (rule quiet_bndc[OF quiet_steps(2)]) (auto simp: quiet_def cl_write_def split: prod.splits outcome.splits)
  show ?thesis unfolding authAccount_def Let_def
    by (auto intro!: asks_bndc asks_orRefuse asks_refuse asks_modc q)
qed

lemma ends_authorize: "ends req (handleAuthorizeRequest cfg req allowed)"
  unfolding handleAuthorizeRequest_def
  by (auto intro!: reply_rules asks_authAccount)

lemma index_not_Err: "index xs i \<noteq> Err e" "quo a b \<noteq> Err e"
  by (simp_all add: index_def quo_def)

lemma ends_retc: "ends req m \<Longrightarrow> ends req (bndc m (\<lambda>_. retc x))"
  by (simp add: ends_def ended_def bndc_def split: prod.split outcome.split) (metis fst_conv snd_conv outcome.distinct)

lemma ends_nonce1: "(\<And>e. ends req (m e)) \<Longrightarrow> ends req (\<lambda>c. m (extraNonce1 c) c)"
  by (simp add: ends_def)

lemma ends_subscribe: "ends req (handleSubscribeRequest cfg req allowed)"
proof -
  have "ends req (\<lambda>c. bndc (reply req (\<lambda>n. SubscribeResponse n (if nid = [] then ''mn'' @ extraNonce1 c else nid) (extraNonce1 c)
          ExtraNonce2Size None)) (\<lambda>_. retc y) c)" for nid and y :: 'b
    by (rule ends_nonce1[where m = "\<lambda>e. bndc (reply req (\<lambda>n. SubscribeResponse n (if nid = [] then ''mn'' @ e else nid) e
          ExtraNonce2Size None)) (\<lambda>_. retc y)"]) (intro ends_retc ends_reply, simp)
  then show ?thesis
    unfolding handleSubscribeRequest_def Let_def
    by (auto intro!: reply_rules asks_liftc simp: index_not_Err split: prod.split)
qed

lemma ends_extranonce: "ends req (handleExtraNonceSubscribeRequest cfg req allowed)"
  unfolding handleExtraNonceSubscribeRequest_def Let_def
  by (auto intro!: reply_rules)

lemma quiet_account: "quiet (\<lambda>c. cl_write (op (FetchAccountID c)) c)"
  by (simp add: quiet_def cl_write_def split: prod.split)

lemma ends_recordWork: "ends req (recordWork cfg req h miner)"
  unfolding recordWork_def Let_def
  by (rule ends_bndc[OF asks_now]) (auto simp: ends_def intro!: quiet_case ended_reply ended_refuse quiet_account)

lemma ends_submitBlock: "ends req (submitBlock cfg req h miner)"
  unfolding submitBlock_def Let_def
  by (auto intro!: reply_rules ends_recordWork)

lemma quiet_claim: "quiet (claimWeightedShare cfg)"
  unfolding quiet_def claimWeightedShare_def Let_def
  by (auto simp: bndc_def cl_now_def cl_write_def split: option.split prod.split)

lemma asks_claimShare: "asks req (claimShare cfg req clientID)"
proof -
  have "asked req c (case claimWeightedShare cfg c of
          (Err err, c') \<Rightarrow> refuse req (\<lambda>n. SubmitWorkResponse n False
             (unknownErr (clientID @ '': '' @ ccErrText cfg err))) (PoolError ClaimShare) c'
        | (Panic, c') \<Rightarrow> (Panic, c')
        | (Ok _, c') \<Rightarrow> (Ok (), c'\<lparr>cSignals := cSignals c' @ [ClaimedShare]\<rparr>))" if c: "\<not> cCancelled c" for c :: "'a Client"
  proof -
    obtain r c1 where m: "claimWeightedShare cfg c = (r, c1)" by force
    have q: "cOut c1 = cOut c" "\<not> cCancelled c1" using quiet_apply[OF quiet_claim, of cfg c] c by (simp_all add: m)
    show ?thesis
      unfolding m shift(2)[OF q(1), symmetric] using q(2)
      by (cases r) (simp_all add: asked_refuse, simp_all add: asked_def)
  qed
  then show ?thesis unfolding claimShare_def by (simp add: asks_def asked_def[of _ _ "(Ok (), c1)" for c1])
qed

lemma ends_submit: "ends req (handleSubmitWorkRequest cfg req allowed)"
  unfolding ends_def
proof (intro allI impI)
  fix c :: "'a Client" assume c: "\<not> cCancelled c"
  show "ended req c (handleSubmitWorkRequest cfg req allowed c)"
  proof (cases "allowed \<and> diffInfo c \<noteq> None")
    case True
    then obtain info where "allowed" "diffInfo c = Some info" by auto
    then show ?thesis
      unfolding handleSubmitWorkRequest_def Let_def using c
      by (auto intro!: reply_rules ended_bndc asks_liftc asks_claimShare ends_submitBlock simp: index_not_Err split: prod.split)
  next
    case False
    then show ?thesis
      using c by (auto simp: handleSubmitWorkRequest_def Let_def ended_refuse, simp add: ended_def)
  qed
qed

end
