(* ===== verification/MessageProps.thy ===== *)
theory MessageProps
  imports Message
begin

text \<open>
  Round trips of the stratum messages through their JSON documents, and the headers the pool and
  the miner build from them.
\<close>

section \<open>What arrives\<close>

lemma f64_small: "0 \<le> n \<Longrightarrow> n < 2 ^ 53 \<Longrightarrow> f64 (of_int n) = of_int n"
  by (simp add: f64_def)

lemma f64_u32 [simp]: "f64 (unsigned (w :: 32 word)) = unsigned w"
proof -
  have "uint w < 2 ^ 32" using unsigned_less[where 'a = int and w = w] by simp
  then have "f64 (of_int (uint w)) = of_int (uint w)" by (intro f64_small) simp_all
  then show ?thesis by simp
qed

lemma trunc0_of_int [simp]: "trunc0 (of_int n) = n"
  by (simp add: trunc0_def)

lemma to_u32_unsigned [simp]: "to_u32 (unsigned w) = w"
  using trunc0_of_int[of "uint w"] unfolding to_u32_def by simp

lemma keyIs_eq [simp]: "keyIs k k"
  by (simp add: keyIs_def)

lemma keyIs_names [simp]:
  "\<not> keyIs ''method'' ''id''" "\<not> keyIs ''params'' ''id''" "\<not> keyIs ''params'' ''method''"
  "\<not> keyIs ''error'' ''id''" "\<not> keyIs ''result'' ''id''" "\<not> keyIs ''result'' ''error''"
  "\<not> keyIs ''error'' ''method''" "\<not> keyIs ''error'' ''params''"
  "\<not> keyIs ''result'' ''method''" "\<not> keyIs ''result'' ''params''"
  by (simp_all add: keyIs_def upper_def)

definition received_val :: "goval \<Rightarrow> goval" where
  "received_val v = decode_any (marshal_val v)"

lemma enc_str_simps [simp]: "dec_gostr (enc_str s) = Ok (goText s)" "decode_any (enc_str s) = GStr (goText s)" "any_ok (enc_str s)"
  "enc_str s \<noteq> JNull"
  by (simp_all add: enc_str_def)

lemma request_document:
  assumes "any_ok (marshal_val (Params req))"
  shows "unmarshalRequest (marshalRequest req) =
    Ok (req\<lparr>Method := goText (Method req), Params := received_val (Params req)\<rparr>)"
  using assms
  by (cases "reqID req") (simp_all add: unmarshalRequest_def marshalRequest_def reqEntry_def received_val_def)

text \<open>A stratum error as it is received.\<close>

definition receivedError :: "StratumError \<Rightarrow> StratumError" where
  "receivedError e = e\<lparr>seMessage := goText (seMessage e), Traceback := map_option goText (Traceback e)\<rparr>"

lemma small_float: "0 \<le> n \<Longrightarrow> n < 2 ^ 64 \<Longrightarrow> \<bar>of_int n :: rat\<bar> < maxFloat"
proof -
  assume n: "0 \<le> n" "n < 2 ^ 64"
  have "n < 2 ^ 1024" by (rule less_le_trans[OF n(2)]) (rule power_increasing, simp_all)
  then have "(of_int n :: rat) < of_int (2 ^ 1024)" unfolding of_int_less_iff .
  then show ?thesis using n(1) unfolding maxFloat_def of_int_power of_int_numeral by simp
qed

lemma small_float_u32 [simp]: "\<bar>unsigned (w :: 32 word) :: rat\<bar> < maxFloat"
  using small_float[of "uint w"] unsigned_less[where 'a = int and w = w] by simp

lemma stratum_error_document:
  "unmarshalStratumError \<lparr>Code = 0, seMessage = [], Traceback = None\<rparr> (marshalStratumError e) = Ok (receivedError e)"
  by (cases "Traceback e")
    (simp_all add: unmarshalStratumError_def marshalStratumError_def enc_u32_def index_def receivedError_def)

lemma marshalStratumError_not_null [simp]: "marshalStratumError e \<noteq> JNull"
  by (simp add: marshalStratumError_def)

lemma respEntry_simps:
  "respEntry (''id'', enc_u64 n) (resp, bad) = Ok (resp\<lparr>respID := n\<rparr>, bad)"
  "respEntry (''error'', JNull) (resp, bad) = Ok (resp\<lparr>respError := None\<rparr>, bad)"
  "respError resp = None \<Longrightarrow> respEntry (''error'', marshalStratumError e) (resp, bad) = Ok (resp\<lparr>respError := Some (receivedError e)\<rparr>, bad)"
  "any_ok v \<Longrightarrow> respEntry (''result'', v) (resp, bad) = Ok (resp\<lparr>Result := decode_any v\<rparr>, bad)"
  by (simp_all add: respEntry_def stratum_error_document)

lemma reqEntry_other:
  "reqEntry (''error'', v) = (\<lambda>s. s)" "reqEntry (''result'', v) = (\<lambda>s. s)"
  "reqEntry (''id'', enc_u64 n) (req, bad) = (req\<lparr>reqID := Some n\<rparr>, bad)"
  by (simp_all add: reqEntry_def fun_eq_iff)

lemma response_document:
  assumes "any_ok (marshal_val (Result resp))"
  shows "unmarshalResponse (marshalResponse resp) =
      Ok (resp\<lparr>respError := map_option receivedError (respError resp), Result := received_val (Result resp)\<rparr>)"
    "unmarshalRequest (marshalResponse resp) = Ok \<lparr>reqID = Some (respID resp), Method = [], Params = GNil\<rparr>"
proof -
  note defs = marshalResponse_def respEntry_simps received_val_def
  show "unmarshalResponse (marshalResponse resp) =
      Ok (resp\<lparr>respError := map_option receivedError (respError resp), Result := received_val (Result resp)\<rparr>)"
    using assms unfolding unmarshalResponse_def
    by (cases "respError resp"; cases "Result resp = GNil") (simp_all add: defs)
  show "unmarshalRequest (marshalResponse resp) = Ok \<lparr>reqID = Some (respID resp), Method = [], Params = GNil\<rparr>"
    by (simp add: unmarshalRequest_def marshalResponse_def reqEntry_other)
qed

lemma four: "f64 4 = 4" "\<bar>4 :: rat\<bar> < maxFloat" "4 < maxFloat" "to_u64 4 = 4"
  using f64_small[of 4] small_float[of 4] trunc0_of_int[of 4] by (simp_all add: to_u64_def)

text \<open>The request or the response a peer reads when this one is sent.\<close>

definition receivedRequest :: "Request \<Rightarrow> Request go" where
  "receivedRequest req = bnd (IdentifyMessage (Some (marshalRequest req))) (\<lambda>(m, t).
     case m of MReq r \<Rightarrow> if t = (if reqID req = None then NotificationMessage else RequestMessage)
       then Ok r else Err Foreign | MResp _ \<Rightarrow> Err Foreign)"

definition receivedResponse :: "Response \<Rightarrow> Response go" where
  "receivedResponse resp = bnd (IdentifyMessage (Some (marshalResponse resp))) (\<lambda>(m, t).
     case m of MResp r \<Rightarrow> if t = ResponseMessage then Ok r else Err Foreign | MReq _ \<Rightarrow> Err Foreign)"

lemma receivedRequest_eq:
  assumes "any_ok (marshal_val (Params req))" "Method req \<noteq> []" "ascii (Method req)"
  shows "receivedRequest req = Ok (req\<lparr>Params := received_val (Params req)\<rparr>)"
  using assms by (simp add: receivedRequest_def IdentifyMessage_def request_document)

lemma receivedResponse_eq:
  assumes "any_ok (marshal_val (Result resp))"
  shows "receivedResponse resp = (if respID resp = 0 then Err Foreign
    else Ok (resp\<lparr>respError := map_option receivedError (respError resp), Result := received_val (Result resp)\<rparr>))"
  using assms by (simp add: receivedResponse_def IdentifyMessage_def response_document)

section \<open>Properties\<close>

text \<open>
  C32: every request and notification of the pool and its clients survives its JSON document. What
  the peer identifies and parses from an authorize, subscribe, submit or work message is what
  the sender built it from, with every string as the encoder writes it: a string of UTF-8 text is
  the string itself, and exactly those are; any other comes back as the UTF-8 text in which
  the replacement character stands for the bytes that are not valid.
\<close>

theorem requests_roundtrip:
  "bnd (receivedRequest (AuthorizeRequest i name address)) ParseAuthorizeRequest =
      Ok (goText (if name = [] \<or> address = [] then address @ name else address @ ''.'' @ name)) \<and>
   bnd (receivedRequest (SubscribeRequest i userAgent notifyID)) ParseSubscribeRequest = Ok (goText userAgent, goText notifyID) \<and>
   bnd (receivedRequest (SubmitWorkRequest i worker jobId extraNonce2 nTime nonce)) ParseSubmitWorkRequest =
      Ok (goText worker, goText jobId, goText extraNonce2, goText nTime, goText nonce) \<and>
   bnd (receivedRequest (WorkNotification jobId prevBlock genTx1 version nBits nTime cleanJob)) ParseWorkNotification =
      Ok (goText jobId, goText prevBlock, goText genTx1, goText version, goText nBits, goText nTime, cleanJob) \<and>
   utf8 (goText s) \<and> (goText s = s \<longleftrightarrow> utf8 s)"
  by (simp add: goText_same_iff receivedRequest_eq received_val_def AuthorizeRequest_def ParseAuthorizeRequest_def SubscribeRequest_def
      ParseSubscribeRequest_def SubmitWorkRequest_def ParseSubmitWorkRequest_def WorkNotification_def
      ParseWorkNotification_def method_defs strParam_def index_def del: bnd_eq_Ok)

lemma receivedError_same:
  "receivedError e = e \<longleftrightarrow> utf8 (seMessage e) \<and> (case Traceback e of None \<Rightarrow> True | Some t \<Rightarrow> utf8 t)"
  unfolding goText_same_iff[symmetric] by (cases e; cases "Traceback e") (simp_all add: receivedError_def)

text \<open>
  C33: responses survive their JSON documents, unless the request had the identifier zero, whose
  response no peer can identify. A stratum error keeps its code, message and traceback, and a
  subscribe response yields the notification identifier, the first extra nonce and the size of
  the second, every string as the encoder writes it: UTF-8 text as it is, and nothing else.
\<close>

theorem responses_roundtrip:
  "bnd (receivedResponse (AuthorizeResponse i status err)) ParseAuthorizeResponse =
      (if i = 0 then Err Foreign else Ok (status, map_option receivedError err)) \<and>
   bnd (receivedResponse (SubmitWorkResponse i status err)) ParseSubmitWorkResponse =
      (if i = 0 then Err Foreign else Ok (status, map_option receivedError err)) \<and>
   bnd (receivedResponse (SubscribeResponse i notifyID extraNonce1 ExtraNonce2Size err)) ParseSubscribeResponse =
      (if i = 0 then Err Foreign else if err \<noteq> None then Err (MsgError Parse) else Ok (goText notifyID, goText extraNonce1, 4)) \<and>
   (receivedError e = e \<longleftrightarrow> utf8 (seMessage e) \<and> (case Traceback e of None \<Rightarrow> True | Some t \<Rightarrow> utf8 t))"
  by (simp add: receivedError_same receivedResponse_eq received_val_def AuthorizeResponse_def ParseAuthorizeResponse_def SubmitWorkResponse_def
      ParseSubmitWorkResponse_def SubscribeResponse_def ParseSubscribeResponse_def strParam_def index_def
      ExtraNonce2Size_def Notify_def four del: bnd_eq_Ok)

text \<open>
  The difficulty a client is told is the integer part of its difficulty as a \<open>float64\<close>.
\<close>

lemma difficulty_notification_truncates:
  assumes "0 \<le> f64 d" "f64 d < 2 ^ 53"
  shows "bnd (receivedRequest (SetDifficultyNotification d)) ParseSetDifficultyNotification = Ok (of_int \<lfloor>f64 d\<rfloor>)"
proof -
  let ?n = "\<lfloor>f64 d\<rfloor>"
  have n: "0 \<le> ?n" "?n < 2 ^ 53" using assms by (simp_all add: floor_less_iff)
  have u: "uint (to_u64 (f64 d)) = ?n"
    using n assms(1) by (simp add: to_u64_def trunc0_def uint_word_of_int take_bit_int_eq_self)
  then have e: "enc_u64 (to_u64 (f64 d)) = JNum (of_int ?n)" unfolding enc_u64_def by simp
  have "receivedRequest (SetDifficultyNotification d) =
      Ok \<lparr>reqID = None, Method = SetDifficulty, Params = GArr [GFloat (of_int ?n)]\<rparr>"
    using n f64_small[OF n] small_float[of ?n]
    by (simp add: receivedRequest_eq received_val_def SetDifficultyNotification_def e SetDifficulty_def)
  then show ?thesis
    by (simp add: ParseSetDifficultyNotification_def index_def to_u64_def)
qed

section \<open>Headers\<close>

definition patch :: "nat \<Rightarrow> bytes \<Rightarrow> bytes \<Rightarrow> bytes" where
  "patch i bs hdr = take i hdr @ bs @ drop (i + length bs) hdr"

lemma take_EncodeToString: "take (2 * k) (EncodeToString bs) = EncodeToString (take k bs)"
proof (induction bs arbitrary: k)
  case (Cons b bs)
  then show ?case by (cases k) simp_all
qed simp

lemma drop_EncodeToString: "drop (2 * k) (EncodeToString bs) = EncodeToString (drop k bs)"
proof (induction bs arbitrary: k)
  case (Cons b bs)
  then show ?case by (cases k) simp_all
qed simp

lemma length_le32 [simp]: "length (le32 w) = 4"
  by (simp add: le32_def le_def del: be.simps)

lemma copyInto_hex:
  assumes "length bs = 4" "k + 4 \<le> length hdr"
  shows "copyInto (2 * k) (2 * k + 8) (EncodeToString bs) (EncodeToString hdr) = Ok (EncodeToString (patch k bs hdr))"
proof -
  have "drop (2 * (k + 4)) (EncodeToString hdr) = EncodeToString (drop (k + 4) hdr)" by (rule drop_EncodeToString)
  then show ?thesis
    using assms by (simp add: copyInto_def patch_def EncodeToString_append take_EncodeToString)
qed

lemma length_patch [simp]: "i + length bs \<le> length hdr \<Longrightarrow> length (patch i bs hdr) = length hdr"
  by (simp add: patch_def)

lemma nth_patch:
  assumes "i + length bs \<le> length hdr" "k < length hdr"
  shows "patch i bs hdr ! k = (if k < i then hdr ! k else if k < i + length bs then bs ! (k - i) else hdr ! k)"
  using assms by (auto simp: patch_def nth_append)

lemma patch_commute:
  assumes "i + length as \<le> length hdr" "j + length bs \<le> length hdr" "i + length as \<le> j \<or> j + length bs \<le> i"
  shows "patch i as (patch j bs hdr) = patch j bs (patch i as hdr)"
  using assms by (intro nth_equalityI) (auto simp: nth_patch)

text \<open>The header a miner builds from a notification.\<close>

lemma mined_bytes:
  assumes "length hdr = 180" "length en1 = 4"
  defines "workE \<equiv> EncodeToString hdr" and "mined \<equiv> patch 144 en1 hdr"
  shows "GenerateBlockHeader W (take 8 workE) (drop 8 (take 72 workE)) (drop 72 (take 360 workE)) (EncodeToString en1) =
      map_err (\<lambda>_. MsgError HeaderInvalid) (FromBytes W mined)"
proof -
  have len: "length workE = 360" using assms(1) by (simp add: workE_def)
  have a: "take 8 workE @ drop 8 (take 72 workE) = take 72 workE"
    using append_take_drop_id[of 8 "take 72 workE"] by simp
  have b: "take 72 workE @ take 216 (drop 72 workE) = EncodeToString (take 144 hdr)"
    using take_add[of 72 216 workE] take_EncodeToString[of 144 hdr] by (simp add: workE_def)
  have ab: "take 8 workE @ drop 8 (take 72 workE) @ take 216 (drop 72 workE) @ x = EncodeToString (take 144 hdr) @ x" for x
    by (simp only: append.assoc[symmetric] a b)
  have c: "drop 224 (drop 72 workE) = EncodeToString (drop 148 hdr)"
    using drop_EncodeToString[of 148 hdr] by (simp add: workE_def)
  have "EncodeToString mined = EncodeToString (take 144 hdr) @ EncodeToString en1 @ EncodeToString (drop 148 hdr)"
    using assms(2) by (simp add: mined_def patch_def EncodeToString_append)
  then have "take 8 workE @ drop 8 (take 72 workE) @ take 216 (drop 72 workE) @ EncodeToString en1 @
      drop 224 (drop 72 workE) = EncodeToString mined"
    using c ab by (simp only:)
  then show "GenerateBlockHeader W (take 8 workE) (drop 8 (take 72 workE)) (drop 72 (take 360 workE)) (EncodeToString en1) =
      map_err (\<lambda>_. MsgError HeaderInvalid) (FromBytes W mined)"
    using len by (simp add: GenerateBlockHeader_def minGenTx1ELen_def Let_def)
qed

text \<open>The header the pool rebuilds from a submission.\<close>

lemma solved_bytes:
  assumes "length hdr = 180" "length en1 = 4" "length en2 = 4" "length nt = 4" "length nonce = 4"
    and "miner = CPU \<or> miner = Gominer"
  shows "GenerateSolvedBlockHeader W (EncodeToString hdr) (EncodeToString en1) (EncodeToString en2) (EncodeToString nt)
        (EncodeToString nonce) miner =
      map_err (\<lambda>_. MsgError Parse) (FromBytes W (patch 148 en2 (patch 140 nonce (patch 136 nt (patch 144 en1 hdr)))))"
proof -
  let ?h1 = "patch 136 nt hdr" and ?h2 = "patch 140 nonce (patch 136 nt hdr)"
  let ?h3 = "patch 144 en1 (patch 140 nonce (patch 136 nt hdr))"
  have l: "length ?h1 = 180" "length ?h2 = 180" "length ?h3 = 180" using assms(1-5) by simp_all
  have "copyInto 272 280 (EncodeToString nt) (EncodeToString hdr) = Ok (EncodeToString ?h1)"
    "copyInto 280 288 (EncodeToString nonce) (EncodeToString ?h1) = Ok (EncodeToString ?h2)"
    "copyInto 288 296 (EncodeToString en1) (EncodeToString ?h2) = Ok (EncodeToString ?h3)"
    "copyInto 296 304 (EncodeToString en2) (EncodeToString ?h3) = Ok (EncodeToString (patch 148 en2 ?h3))"
    using copyInto_hex[of nt 136 hdr] copyInto_hex[of nonce 140 ?h1] copyInto_hex[of en1 144 ?h2]
      copyInto_hex[of en2 148 ?h3] assms(1-5) l by simp_all
  moreover have "patch 148 en2 ?h3 = patch 148 en2 (patch 140 nonce (patch 136 nt (patch 144 en1 hdr)))"
    using assms(1-5) l by (simp add: patch_commute[of 144])
  ultimately show "GenerateSolvedBlockHeader W (EncodeToString hdr) (EncodeToString en1) (EncodeToString en2) (EncodeToString nt)
        (EncodeToString nonce) miner =
      map_err (\<lambda>_. MsgError Parse) (FromBytes W (patch 148 en2 (patch 140 nonce (patch 136 nt (patch 144 en1 hdr)))))"
    using assms(6) by (auto simp: GenerateSolvedBlockHeader_def simp del: bnd_eq_Ok)
qed

text \<open>
  C18: the pool and the miner work on the same header. From the parts of a work notification and
  its extra nonce a miner builds the bytes of the work with that nonce at its place; from the
  submission the pool builds exactly those bytes with the time, the nonce and the second extra
  nonce the miner sent written over them.
\<close>

theorem headers_agree:
  assumes "length hdr = 180" "length en1 = 4" "length en2 = 4" "length nt = 4" "length nonce = 4"
    and "miner = CPU \<or> miner = Gominer"
  defines "workE \<equiv> EncodeToString hdr" and "mined \<equiv> patch 144 en1 hdr"
  shows "GenerateBlockHeader W (take 8 workE) (drop 8 (take 72 workE)) (drop 72 (take 360 workE)) (EncodeToString en1) =
      map_err (\<lambda>_. MsgError HeaderInvalid) (FromBytes W mined) \<and>
    GenerateSolvedBlockHeader W workE (EncodeToString en1) (EncodeToString en2) (EncodeToString nt)
        (EncodeToString nonce) miner =
      map_err (\<lambda>_. MsgError Parse) (FromBytes W (patch 148 en2 (patch 140 nonce (patch 136 nt mined))))"
proof
  show "GenerateBlockHeader W (take 8 workE) (drop 8 (take 72 workE)) (drop 72 (take 360 workE)) (EncodeToString en1) =
      map_err (\<lambda>_. MsgError HeaderInvalid) (FromBytes W mined)"
    unfolding workE_def mined_def by (rule mined_bytes[OF assms(1,2)])
  show "GenerateSolvedBlockHeader W workE (EncodeToString en1) (EncodeToString en2) (EncodeToString nt)
        (EncodeToString nonce) miner =
      map_err (\<lambda>_. MsgError Parse) (FromBytes W (patch 148 en2 (patch 140 nonce (patch 136 nt mined))))"
    unfolding workE_def mined_def by (rule solved_bytes[OF assms(1-6)])
qed

definition echoWire :: Wire where
  "echoWire = \<lparr>FromBytes = (\<lambda>b. Ok \<lparr>PrevBlock = b, Bits = 0, Height = 0, hdrOther = []\<rparr>), HeaderBytes = (\<lambda>h. Ok (PrevBlock h)),
     BlockHash = PrevBlock, PowHashV2 = PrevBlock, HashToBig = (\<lambda>h. 0), CompactToBig = uint\<rparr>"

theorem headers_agree_witness:
  "map_err (\<lambda>_. Foreign) (GenerateSolvedBlockHeader echoWire (EncodeToString (replicate 180 CHR ''a'')) (EncodeToString ''1111'')
      (EncodeToString ''2222'') (EncodeToString ''tttt'') (EncodeToString ''nnnn'') CPU) =
   Ok \<lparr>PrevBlock = replicate 136 CHR ''a'' @ ''ttttnnnn11112222'' @ replicate 28 CHR ''a'', Bits = 0, Height = 0, hdrOther = []\<rparr>"
  using headers_agree[of "replicate 180 CHR ''a''" "''1111''" "''2222''" "''tttt''" "''nnnn''" CPU echoWire]
  by (simp add: patch_def echoWire_def)

end
