(* ===== verification/ClientLife.thy ===== *)
theory ClientLife
  imports ClientReplies MessageProps
begin

text \<open>
  What a client gets: the share and the accepted work of a valid submission, the job and the
  notification of a work update, and the states a connection goes through as the steps of its
  goroutines interleave.
\<close>

section \<open>Valid submissions\<close>

text \<open>The share a submission of the client earns now, and the record of a block it solved.\<close>

definition dueShare :: "'db ClientConfig \<Rightarrow> 'db Client \<Rightarrow> Share option" where
  "dueShare cfg c = (if ccSoloPool cfg \<or> netName (ccNet cfg) = mainNetName \<and> cMiner c = CPU then None
     else map_option (\<lambda>weight. NewShare (cAccount c) weight (eNow (ccEnv cfg) (cTick c)) (eRand (ccEnv cfg) (cTick c)))
       (map_of (ShareWeights (ccEnv cfg)) (cMiner c)))"

definition minedWork :: "'db ClientConfig \<Rightarrow> BlockHeader \<Rightarrow> 'db Client \<Rightarrow> AcceptedWork" where
  "minedWork cfg h c = NewAcceptedWork (HashString (ccRules cfg) (BlockHash (ccWire cfg) h))
     (HashString (ccRules cfg) (PrevBlock h)) (Height h) (cAccount c) (cMiner c) (eNow (ccEnv cfg) (cTick c))"

definition nodeAccepts :: "'db ClientConfig \<Rightarrow> BlockHeader \<Rightarrow> bool" where
  "nodeAccepts cfg h = (case HeaderBytes (ccWire cfg) h of
     Ok b \<Rightarrow> SubmitWork cfg (submissionData b) = Ok True | _ \<Rightarrow> False)"

lemma cl_write_live:
  assumes "writes \<alpha> I live op pre upd" "live" "I (cDb c)" "pre (\<alpha> (cDb c)) = None"
  shows "\<exists>db. cl_write op c = (Ok (), c\<lparr>cDb := db\<rparr>) \<and> I db \<and> \<alpha> db = upd (\<alpha> (cDb c))"
  using writes_live[OF assms] by (auto simp: cl_write_def)

lemma refuse_frame [simp]:
  "cSignals (snd (reply req mk c)) = cSignals c" "submissions (snd (reply req mk c)) = submissions c"
  "cSignals (snd (refuse req mk err c)) = cSignals c" "submissions (snd (refuse req mk err c)) = submissions c"
  by (simp_all add: refuse_effect reply_effect split: option.split)

lemma recordWork_frame:
  "cSignals (snd (recordWork cfg req h miner c)) = cSignals c"
  "submissions (snd (recordWork cfg req h miner c)) = submissions c"
  by (simp_all add: recordWork_def bndc_def cl_now_def Let_def cl_write_def split: prod.split outcome.split)

lemma submitBlock_frame:
  "cSignals (snd (submitBlock cfg req h miner c)) = cSignals c"
  "submissions (snd (submitBlock cfg req h miner c)) = submissions c"
proof -
  have r: "bndc (orRefuse cfg req mk (liftc r)) f c = (case r of Ok x \<Rightarrow> f x c
     | Err err \<Rightarrow> refuse req (\<lambda>n. mk n (unknownErr (ccErrText cfg err))) err c | Panic \<Rightarrow> (Panic, c))"
    for mk :: "64 word \<Rightarrow> StratumError option \<Rightarrow> Response" and r :: "'b go" and f :: "'b \<Rightarrow> ('a, unit) clop"
    by (cases r) (auto simp: bndc_def orRefuse_def liftc_def refuse_def split: prod.split outcome.split)
  show "cSignals (snd (submitBlock cfg req h miner c)) = cSignals c"
    "submissions (snd (submitBlock cfg req h miner c)) = submissions c"
    unfolding submitBlock_def Let_def r by (simp_all add: recordWork_frame split: outcome.split)
qed

context database_common
begin

lemma claim_live:
  assumes "live" "ccDb cfg = D" "I (cDb c)" "length (cAccount c) \<le> 32000"
    and s: "dueShare cfg c = Some s" "tShares (\<alpha> (cDb c)) (shUUID s) = None"
  shows "\<exists>db. I db \<and> \<alpha> db = (\<alpha> (cDb c))\<lparr>tShares := (tShares (\<alpha> (cDb c)))(shUUID s \<mapsto> s)\<rparr> \<and>
    claimShare cfg req i c = (Ok (), c\<lparr>cDb := db, cTick := Suc (cTick c), cSignals := cSignals c @ [ClaimedShare]\<rparr>)"
proof -
  obtain w where w: "\<not> ccSoloPool cfg" "\<not> (netName (ccNet cfg) = mainNetName \<and> cMiner c = CPU)"
    "map_of (ShareWeights (ccEnv cfg)) (cMiner c) = Some w"
    "s = NewShare (cAccount c) w (eNow (ccEnv cfg) (cTick c)) (eRand (ccEnv cfg) (cTick c))"
    using s(1) by (auto simp: dueShare_def split: if_splits)
  have wf: "wf_share s" using NewShare_wf[OF assms(4)] w(4) by simp
  have pre: "absent (tShares (\<alpha> (cDb (c\<lparr>cTick := Suc (cTick c)\<rparr>))) (shUUID s)) = None"
    "I (cDb (c\<lparr>cTick := Suc (cTick c)\<rparr>))" using s(2) assms(3) by (simp_all add: absent_def)
  obtain db where db: "cl_write (db_PersistShare D s) (c\<lparr>cTick := Suc (cTick c)\<rparr>) = (Ok (), c\<lparr>cTick := Suc (cTick c), cDb := db\<rparr>)"
    "I db" "\<alpha> db = (\<alpha> (cDb c))\<lparr>tShares := (tShares (\<alpha> (cDb c)))(shUUID s \<mapsto> s)\<rparr>"
    using cl_write_live[OF PersistShare[OF wf] assms(1) pre(2,1)] by auto
  have "claimWeightedShare cfg c = cl_write (db_PersistShare D s) (c\<lparr>cTick := Suc (cTick c)\<rparr>)"
    using w assms(2) by (auto simp: claimWeightedShare_def Let_def bndc_def cl_now_def FetchAccountID_def)
  then show ?thesis
    using db w(1) by (intro exI[of _ db]) (simp add: claimShare_def)
qed

lemma record_live:
  assumes "live" "ccDb cfg = D" "I (cDb c)" "length (HashString (ccRules cfg) (BlockHash (ccWire cfg) h)) \<le> 32000"
    and "nodeAccepts cfg h" "tWork (\<alpha> (cDb c)) (awUUID (minedWork cfg h c)) = None"
    and "reqID req = Some n" "\<not> cCancelled c"
  shows "\<exists>db. I db \<and> \<alpha> db = (\<alpha> (cDb c))\<lparr>tWork := (tWork (\<alpha> (cDb c)))(awUUID (minedWork cfg h c) \<mapsto> minedWork cfg h c)\<rparr> \<and>
    submitBlock cfg req h (cMiner c) c =
      (Ok (), c\<lparr>cDb := db, cTick := Suc (cTick c), cOut := cOut c @ [MResp (SubmitWorkResponse n True None)]\<rparr>)"
proof -
  let ?w = "minedWork cfg h c" and ?c = "c\<lparr>cTick := Suc (cTick c)\<rparr>"
  have wf: "wf_work ?w" using NewAcceptedWork_wf[OF assms(4)] by (simp add: minedWork_def)
  have pre: "absent (tWork (\<alpha> (cDb ?c)) (awUUID ?w)) = None" "I (cDb ?c)" using assms(3,6) by (simp_all add: absent_def)
  obtain db where db: "cl_write (db_persistAcceptedWork D ?w) ?c = (Ok (), ?c\<lparr>cDb := db\<rparr>)"
    "I db" "\<alpha> db = (\<alpha> (cDb c))\<lparr>tWork := (tWork (\<alpha> (cDb c)))(awUUID ?w \<mapsto> ?w)\<rparr>"
    using cl_write_live[OF persistAcceptedWork[OF wf] assms(1) pre(2,1)] by auto
  have "recordWork cfg req h (cMiner c) c = reply req (\<lambda>n. SubmitWorkResponse n True None) (?c\<lparr>cDb := db\<rparr>)"
    using db(1) assms(2)
    by (simp add: recordWork_def bndc_def cl_now_def Let_def FetchAccountID_def minedWork_def)
  also have "\<dots> = (Ok (), c\<lparr>cDb := db, cTick := Suc (cTick c), cOut := cOut c @ [MResp (SubmitWorkResponse n True None)]\<rparr>)"
    using assms(7,8) by (intro prod_eqI) (simp_all add: reply_effect)
  finally show ?thesis
    using db(2,3) assms(5)
    by (intro exI[of _ db])
      (auto simp: submitBlock_def Let_def bndc_def orRefuse_def liftc_def nodeAccepts_def split: outcome.splits)
qed

lemma rewarded:
  assumes "live" "ccDb cfg = D" "I (cDb c)" "shortNames cfg c" "meetsTarget cfg req c h"
    and "reqID req = Some n" "\<not> cCancelled c" "dueShare cfg c = Some s" "tShares (\<alpha> (cDb c)) (shUUID s) = None"
  shows "\<exists>r c'. handleSubmitWorkRequest cfg req True c = (r, c') \<and> I (cDb c') \<and>
    tShares (\<alpha> (cDb c')) = (tShares (\<alpha> (cDb c)))(shUUID s \<mapsto> s) \<and>
    cSignals c' = cSignals c @ [ClaimedShare] \<and> submissions c' = i64 (submissions c + 1) \<and>
    (netTarget cfg h < powOf cfg h \<longrightarrow> r = Err (PoolError NetworkDifficulty) \<and>
       tWork (\<alpha> (cDb c')) = tWork (\<alpha> (cDb c)) \<and> cOut c' = cOut c @ [MResp (SubmitWorkResponse n True None)]) \<and>
    (powOf cfg h \<le> netTarget cfg h \<and> nodeAccepts cfg h \<and>
       tWork (\<alpha> (cDb c)) (awUUID (minedWork cfg h (c\<lparr>cTick := Suc (cTick c)\<rparr>))) = None \<longrightarrow> r = Ok () \<and>
       tWork (\<alpha> (cDb c')) = (tWork (\<alpha> (cDb c)))(awUUID (minedWork cfg h (c\<lparr>cTick := Suc (cTick c)\<rparr>)) \<mapsto>
         minedWork cfg h (c\<lparr>cTick := Suc (cTick c)\<rparr>)) \<and> cOut c' = cOut c @ [MResp (SubmitWorkResponse n True None)])"
proof -
  let ?c = "c\<lparr>submissions := i64 (submissions c + 1)\<rparr>"
  have "dueShare cfg ?c = dueShare cfg c" by (simp add: dueShare_def)
  then have d: "dueShare cfg ?c = Some s" using assms(8) by simp
  obtain db where db: "I db" "\<alpha> db = (\<alpha> (cDb c))\<lparr>tShares := (tShares (\<alpha> (cDb c)))(shUUID s \<mapsto> s)\<rparr>"
    "claimShare cfg req (cId c) ?c = (Ok (), ?c\<lparr>cDb := db, cTick := Suc (cTick c), cSignals := cSignals c @ [ClaimedShare]\<rparr>)"
    using claim_live[OF assms(1,2) _ _ d, of req "cId c"] assms(3,4,9) by (auto simp: shortNames_def)
  let ?c1 = "?c\<lparr>cDb := db, cTick := Suc (cTick c), cSignals := cSignals c @ [ClaimedShare]\<rparr>"
  have run: "handleSubmitWorkRequest cfg req True c =
      (if netTarget cfg h < powOf cfg h then
         refuse req (\<lambda>n. SubmitWorkResponse n True None) (PoolError NetworkDifficulty) ?c1
       else submitBlock cfg req h (cMiner ?c1) ?c1)"
    using submit_verified[OF assms(5)] db(3) by (simp add: claimAndSubmit_def bndc_def)
  show ?thesis
  proof (cases "netTarget cfg h < powOf cfg h")
    case True
    show ?thesis
      using True db assms(6,7) unfolding run
      by (intro exI[of _ "Err (PoolError NetworkDifficulty)"] exI[of _ "?c1\<lparr>cOut := cOut c @ [MResp (SubmitWorkResponse n True None)]\<rparr>"])
        (auto intro!: prod_eqI simp: refuse_effect reply_effect)
  next
    case False
    let ?w = "minedWork cfg h (c\<lparr>cTick := Suc (cTick c)\<rparr>)"
    have w: "minedWork cfg h ?c1 = ?w" by (simp add: minedWork_def)
    have short: "\<forall>h. length (HashString (ccRules cfg) h) \<le> 32000" using assms(4) by (simp add: shortNames_def)
    have pow: "powOf cfg h \<le> netTarget cfg h" "I (cDb ?c1)" using False db(1) by simp_all
    obtain W' where e: "I (cDb (snd (submitBlock cfg req h (cMiner ?c1) ?c1)))"
      "\<alpha> (cDb (snd (submitBlock cfg req h (cMiner ?c1) ?c1))) = (\<alpha> db)\<lparr>tWork := W'\<rparr>"
      using submitBlock_effect[OF assms(2) pow(2) short pow(1), of req] by auto
    have accepted: "\<exists>db'. I db' \<and> \<alpha> db' = (\<alpha> db)\<lparr>tWork := (tWork (\<alpha> (cDb c)))(awUUID ?w \<mapsto> ?w)\<rparr> \<and>
        submitBlock cfg req h (cMiner ?c1) ?c1 =
          (Ok (), ?c1\<lparr>cDb := db', cTick := Suc (Suc (cTick c)), cOut := cOut c @ [MResp (SubmitWorkResponse n True None)]\<rparr>)"
      if "nodeAccepts cfg h" "tWork (\<alpha> (cDb c)) (awUUID ?w) = None"
      using record_live[OF assms(1,2) pow(2) _ that(1) _ assms(6), unfolded w] short that(2) db(2) assms(7) by simp
    show ?thesis
    proof (cases "nodeAccepts cfg h \<and> tWork (\<alpha> (cDb c)) (awUUID ?w) = None")
      case True
      then show ?thesis using accepted False db(2) unfolding run by (elim conjE) (auto simp del: fun_upd_apply)
    next
      case rejected: False
      show ?thesis
        using e False rejected db(2) submitBlock_frame[of cfg req h "cMiner ?c1" ?c1] unfolding run
        by (intro exI[of _ "fst (submitBlock cfg req h (cMiner ?c1) ?c1)"] exI[of _ "snd (submitBlock cfg req h (cMiner ?c1) ?c1)"])
          auto
    qed
  qed
qed

lemma issue_live:
  assumes "live" "ccDb cfg = D" "I (cDb c)" "\<not> cCancelled c"
    and "job = NewJob workE height (eNow (ccEnv cfg) (cTick c))" "tJobs (\<alpha> (cDb c)) (jbUUID job) = None"
  shows "\<exists>db. I db \<and> \<alpha> db = (\<alpha> (cDb c))\<lparr>tJobs := (tJobs (\<alpha> (cDb c)))(jbUUID job \<mapsto> job)\<rparr> \<and>
    issueJob cfg workE height (v, prev, gen, nb, t) clean c = (Ok (), c\<lparr>cDb := db, cTick := Suc (cTick c),
      cOut := cOut c @ [MReq (WorkNotification (jbUUID job) prev gen v nb t clean)]\<rparr>)"
proof -
  let ?c = "c\<lparr>cTick := Suc (cTick c)\<rparr>"
  have wf: "wf_job job"
    by (simp add: assms(5) NewJob_def wf_job_def wf_key_def EncodeToString_append jobID_def flip: length_0_conv)
  have pre: "absent (tJobs (\<alpha> (cDb ?c)) (jbUUID job)) = None" "I (cDb ?c)" using assms(3,6) by (simp_all add: absent_def)
  obtain db where db: "cl_write (db_persistJob D job) ?c = (Ok (), ?c\<lparr>cDb := db\<rparr>)"
    "I db" "\<alpha> db = (\<alpha> (cDb c))\<lparr>tJobs := (tJobs (\<alpha> (cDb c)))(jbUUID job \<mapsto> job)\<rparr>"
    using cl_write_live[OF persistJob[OF wf] assms(1) pre(2,1)] by auto
  then show ?thesis
    using assms(2,4)
    by (intro exI[of _ db]) (simp add: issueJob_def bndc_def cl_now_def Let_def assms(5)[symmetric] sendMessage_def)
qed

end

text \<open>The work a client is sent: the current work with the time of its clock.\<close>

definition rolledWork :: "'db ClientConfig \<Rightarrow> 'db Client \<Rightarrow> bytes \<Rightarrow> bytes" where
  "rolledWork cfg c hdr = patch 136 (le32 (of_int (unixSecs (eNow (ccEnv cfg) (cTick c))))) hdr"

lemma rollTimestamp_hex:
  assumes "180 \<le> length hdr"
  shows "rollTimestamp now (EncodeToString hdr) = Ok (EncodeToString (patch 136 (le32 (of_int (unixSecs now))) hdr))"
  using assms take_EncodeToString[of 136 hdr] drop_EncodeToString[of 140 hdr]
  by (simp add: rollTimestamp_def slice_Ok patch_def EncodeToString_append)

lemma notifyParts_Ok:
  assumes "360 \<le> length w"
  shows "notifyParts w = Ok (take 8 w, drop 8 (take 72 w), drop 72 (take 360 w), drop 232 (take 240 w), drop 272 (take 280 w))"
  using assms by (simp add: notifyParts_def slice_Ok drop_take)

context database_common
begin

lemma update_live:
  assumes "live" "ccDb cfg = D" "I (cDb c)" "\<not> cCancelled c" "subscribed c" "authorized c"
    and "FetchCurrentWork cfg (cTick c) = EncodeToString hdr" "180 \<le> length hdr"
    and "le32_val (take 4 (drop 128 hdr)) = Ok height" "w = EncodeToString (rolledWork cfg c hdr)"
    and "job = NewJob w height (eNow (ccEnv cfg) (Suc (cTick c)))" "tJobs (\<alpha> (cDb c)) (jbUUID job) = None"
  shows "\<exists>db. I db \<and> \<alpha> db = (\<alpha> (cDb c))\<lparr>tJobs := (tJobs (\<alpha> (cDb c)))(jbUUID job \<mapsto> job)\<rparr> \<and>
    updateWork cfg clean c = (Ok (), c\<lparr>cDb := db, cTick := Suc (Suc (cTick c)),
      cOut := cOut c @ [MReq (WorkNotification (jbUUID job) (drop 8 (take 72 w)) (drop 72 (take 360 w)) (take 8 w)
        (drop 232 (take 240 w)) (drop 272 (take 280 w)) clean)]\<rparr>)"
proof -
  let ?c = "c\<lparr>cTick := Suc (cTick c)\<rparr>"
  have len: "length w = 2 * length hdr" "360 \<le> length w" using assms(8) by (simp_all add: assms(10) rolledWork_def)
  have "take 4 (drop 128 (rolledWork cfg c hdr)) = take 4 (drop 128 hdr)"
    using assms(8) by (simp add: rolledWork_def patch_def take_drop)
  then have "slice 256 264 w = (Ok (EncodeToString (take 4 (drop 128 hdr))) :: string go)"
    using len drop_EncodeToString[of 128 "rolledWork cfg c hdr"] take_EncodeToString[of 4 "drop 128 (rolledWork cfg c hdr)"]
    by (simp add: slice_Ok assms(10))
  moreover have "EncodeToString hdr \<noteq> []" using assms(8) by (simp flip: length_0_conv)
  ultimately have run: "updateWork cfg clean c = issueJob cfg w height (take 8 w, drop 8 (take 72 w), drop 72 (take 360 w),
      drop 232 (take 240 w), drop 272 (take 280 w)) clean ?c"
    using assms(5-9) notifyParts_Ok[OF len(2)] rollTimestamp_hex[OF assms(8), of "eNow (ccEnv cfg) (cTick c)"]
    by (auto simp: updateWork_def Let_def bndc_def cl_now_def liftc_def rolledWork_def[symmetric] assms(10)[symmetric])
  show ?thesis
    using issue_live[OF assms(1,2), of ?c job w height] assms(3,4,11,12) unfolding run by simp
qed

end

end
