(* ===== verification/ClientStates.thy ===== *)
theory ClientStates
  imports ClientLife
begin

text \<open>
  The states a connection goes through. The goroutines of a client and the rest of the pool
  interleave: a step is a received message, a message taken by the sender, a tick of a periodic
  task, a notification queued by the hub, a change of the shared database, or the end of the
  connection. An invariant of what the pool knows about the client holds in every state that can
  be reached.
\<close>

section \<open>Steps\<close>

inductive clientStep :: "'db ClientConfig \<Rightarrow> 'db Client \<Rightarrow> 'db Client \<Rightarrow> bool" for cfg where
  received: "IdentifyMessage data = Ok payload \<Longrightarrow> process cfg payload allowed c = (r, c') \<Longrightarrow> clientStep cfg c c'"
| sent: "send cfg encodes c = (r, c') \<Longrightarrow> clientStep cfg c c'"
| rolled: "rollWork cfg c = (r, c') \<Longrightarrow> clientStep cfg c c'"
| monitored: "subscribed c \<Longrightarrow> identifyMiningClients ua = Ok clients \<Longrightarrow> monitor cfg clients st c = (r, c') \<Longrightarrow>
    clientStep cfg c c'"
| measured: "hashMonitor cfg counts c = (r, c') \<Longrightarrow> clientStep cfg c c'"
| notified: "sendMessage (MReq req) c = (r, c') \<Longrightarrow> clientStep cfg c c'"
| shared: "clientStep cfg c (c\<lparr>cDb := db\<rparr>)"
| disconnected: "clientStep cfg c (cancelClient c)"

inductive reachable :: "'db ClientConfig \<Rightarrow> 'db Client \<Rightarrow> 'db Client \<Rightarrow> bool" for cfg c0 where
  start: "reachable cfg c0 c0"
| step: "reachable cfg c0 c \<Longrightarrow> clientStep cfg c c' \<Longrightarrow> reachable cfg c0 c'"

section \<open>The invariant\<close>

definition isWork :: "json \<Rightarrow> bool" where
  "isWork j \<longleftrightarrow> (\<exists>req. j = marshalRequest req \<and> Method req = Notify)"

definition knownAccount :: "'db ClientConfig \<Rightarrow> string \<Rightarrow> bool" where
  "knownAccount cfg a \<longleftrightarrow> (if ccSoloPool cfg then a = defaultAccountID (ccBlake256 cfg)
     else \<exists>address x. DecodeAddress (ccRules cfg) address = Ok x \<and> a = AccountID (ccBlake256 cfg) address)"

definition identified :: "'db ClientConfig \<Rightarrow> 'db Client \<Rightarrow> bool" where
  "identified cfg c \<longleftrightarrow> cMiner c \<in> {CPU, Gominer, NiceHashValidator} \<and> cId c = extraNonce1 c @ ''/'' @ cMiner c \<and>
     (\<exists>info. diffInfo c = Some info \<and> FetchMinerDifficulty cfg (cMiner c) = Ok info)"

definition clientOk :: "'db ClientConfig \<Rightarrow> string \<Rightarrow> 'db Client \<Rightarrow> bool" where
  "clientOk cfg en1 c \<longleftrightarrow> extraNonce1 c = en1 \<and>
     (if subscribed c then identified cfg c else diffInfo c = None) \<and>
     (authorized c \<longrightarrow> knownAccount cfg (cAccount c)) \<and>
     ((\<exists>j \<in> set (cSent c). isWork j) \<longrightarrow> authorized c \<and> subscribed c)"

text \<open>Steps that leave what the invariant speaks of alone.\<close>

definition same :: "'db Client \<Rightarrow> 'db Client \<Rightarrow> bool" where
  "same c c' \<longleftrightarrow> extraNonce1 c' = extraNonce1 c \<and> subscribed c' = subscribed c \<and> diffInfo c' = diffInfo c \<and>
     cMiner c' = cMiner c \<and> cId c' = cId c \<and> authorized c' = authorized c \<and> cAccount c' = cAccount c \<and> cSent c' = cSent c"

lemma same_refl [simp]: "same c c"
  by (simp add: same_def)

lemma same_trans: "same a b \<Longrightarrow> same b c \<Longrightarrow> same a c"
  by (simp add: same_def)

lemma same_ok: "same c c' \<Longrightarrow> clientOk cfg en1 c' = clientOk cfg en1 c"
  unfolding same_def clientOk_def identified_def by (elim conjE) (simp only:)

lemma same_identified: "same c c' \<Longrightarrow> identified cfg c' = identified cfg c"
  unfolding same_def identified_def by (elim conjE) (simp only:)

definition steady :: "('db, 'a) clop \<Rightarrow> bool" where
  "steady m \<longleftrightarrow> (\<forall>c. same c (snd (m c)))"

lemma steady_apply: "steady m \<Longrightarrow> m c = (r, c') \<Longrightarrow> same c c'"
  unfolding steady_def by (metis snd_conv)

lemma steady_bndc: "steady m \<Longrightarrow> (\<And>x. steady (f x)) \<Longrightarrow> steady (bndc m f)"
  unfolding steady_def bndc_def by (auto split: prod.splits outcome.splits) (metis same_trans snd_conv)+

lemma steady_steps [simp, intro]:
  "steady (liftc r)" "steady (cl_now cfg)" "steady (cl_write op)" "steady (cl_read g)" "steady (retc x)"
  "steady (sendMessage m)" "steady (reply req mk)" "steady (refuse req mk err)" "steady (modc cancelClient)"
  by (simp_all add: steady_def same_def liftc_def cl_now_def cl_write_def cl_read_def sendMessage_def
      reply_effect refuse_effect cancelClient_def split: prod.split option.split)

lemma steady_orRefuse [intro]: "steady m \<Longrightarrow> steady (orRefuse cfg req mk m)"
  unfolding steady_def
proof
  fix c assume "\<forall>c. same c (snd (m c))"
  then have "same c (snd (m c))" by simp
  moreover have "steady (refuse req (\<lambda>n. mk n (unknownErr (ccErrText cfg err))) err :: ('a, 'b) clop)" for err by simp
  ultimately show "same c (snd (orRefuse cfg req mk m c))"
    by (cases "m c"; cases "fst (m c)") (auto simp: orRefuse_def steady_def intro: same_trans)
qed

lemma steady_map_errc [intro]: "steady m \<Longrightarrow> steady (map_errc f m)"
  by (simp add: steady_def)

lemma steady_modc: "(\<And>c. same c (f c)) \<Longrightarrow> steady (modc f)"
  by (simp add: steady_def)

lemma steady_logged [intro]: "steady m \<Longrightarrow> steady (logged m)"
  unfolding steady_def logged_def by (auto split: prod.splits outcome.splits) (metis snd_conv)+

text \<open>A step that looks at the state to choose what to do.\<close>

lemma steady_choice: "(\<And>c0. steady (m c0)) \<Longrightarrow> steady (\<lambda>c. m c c)"
  by (simp add: steady_def)

section \<open>Steps that keep the identity of a client\<close>

lemma steady_update: "steady (updateWork cfg cleanJob)"
proof -
  have issue: "steady (issueJob cfg w height parts cleanJob)" for w height parts
    unfolding steady_def issueJob_def
    by (auto simp: bndc_def cl_now_def cl_write_def sendMessage_def same_def Let_def split: prod.splits outcome.splits)
  have d: "steady (case DecodeString heightE of
           Ok heightD \<Rightarrow> bndc (liftc (le32_val heightD)) (\<lambda>height. issueJob cfg w height parts cleanJob)
         | Err _ \<Rightarrow> retc () | Panic \<Rightarrow> (\<lambda>c. (Panic, c)))" for heightE w parts
    by (cases "DecodeString heightE") (auto intro!: steady_bndc issue, simp add: steady_def)
  have "steady (bndc (cl_now cfg) (\<lambda>now.
         bndc (liftc (rollTimestamp now currWorkE)) (\<lambda>updatedWorkE.
         bndc (liftc (notifyParts updatedWorkE)) (\<lambda>parts.
         bndc (liftc (slice 256 264 updatedWorkE)) (\<lambda>heightE.
         case DecodeString heightE of
           Ok heightD \<Rightarrow> bndc (liftc (le32_val heightD)) (\<lambda>height. issueJob cfg updatedWorkE height parts cleanJob)
         | Err _ \<Rightarrow> retc () | Panic \<Rightarrow> (\<lambda>c. (Panic, c)))))))" for currWorkE
    by (intro steady_bndc steady_steps d)
  then show ?thesis by (simp add: steady_def updateWork_def Let_def)
qed

lemma steady_setDifficulty: "steady setDifficulty"
  by (auto simp: steady_def setDifficulty_def sendMessage_def same_def split: option.split)

lemma steady_rollWork: "steady (rollWork cfg)"
proof -
  have "steady (bndc (cl_now cfg) (\<lambda>now. if ccMaxGenTime cfg * 2 \<le> sint now - lastWorkTime c * nanosPerSec
      then updateWork cfg False else retc ()))" for c :: "'a Client"
    by (intro steady_bndc steady_steps) (simp add: steady_update)
  then show ?thesis by (simp add: steady_def rollWork_def)
qed

lemma steady_hashMonitor: "steady (hashMonitor cfg counts)"
proof -
  have store: "steady (storeHashRate cfg hash)" for hash
    by (auto simp: steady_def storeHashRate_def same_def Let_def bndc_def cl_now_def cl_write_def cancelClient_def
        split: prod.splits outcome.splits)
  have m: "steady (modc (setHashRate hash))" for hash by (rule steady_modc) (simp add: same_def setHashRate_def)
  have "steady (bndc (liftc (quo num average)) (\<lambda>hash.
         bndc (modc (setHashRate hash)) (\<lambda>_.
         bndc (storeHashRate cfg hash) (\<lambda>_. retc x))))" for num average and x :: "int \<times> int"
    by (intro steady_bndc steady_steps store m)
  then show ?thesis by (auto simp: steady_def hashMonitor_def Let_def split: prod.split option.split)
qed

lemma steady_submit: "steady (handleSubmitWorkRequest cfg req allowed)"
proof -
  have weigh: "steady (claimWeightedShare cfg)"
    by (auto simp: steady_def claimWeightedShare_def same_def Let_def bndc_def cl_now_def cl_write_def
        split: prod.splits option.splits)
  have claim: "steady (claimShare cfg req i)" for i
    unfolding steady_def
  proof
    fix c :: "'a Client"
    have "same c (snd (claimWeightedShare cfg c))" using weigh by (simp add: steady_def)
    moreover have "steady (refuse req mk err :: ('a, unit) clop)" for mk err by simp
    ultimately show "same c (snd (claimShare cfg req i c))"
      by (cases "claimWeightedShare cfg c"; cases "fst (claimWeightedShare cfg c)")
        (auto simp: claimShare_def steady_def intro: same_trans, simp add: same_def)
  qed
  have rw: "steady (recordWork cfg req h miner)" for h miner
    by (auto simp: steady_def recordWork_def bndc_def cl_now_def Let_def cl_write_def same_def refuse_effect reply_effect
        split: prod.splits outcome.splits option.splits)
  have block: "steady (submitBlock cfg req h miner)" for h miner
    unfolding submitBlock_def Let_def by (auto intro!: steady_bndc rw)
  have count: "steady (modc (\<lambda>c. c\<lparr>submissions := f (submissions c)\<rparr>))" for f
    by (rule steady_modc) (simp add: same_def)
  show ?thesis
    unfolding steady_def
  proof
    fix c :: "'a Client"
    have s: "steady m \<Longrightarrow> (\<And>x. steady (f x)) \<Longrightarrow> same c (snd (bndc m f c))" for m :: "('a, 'b) clop" and f :: "'b \<Rightarrow> ('a, unit) clop"
      using steady_bndc[of m f] by (simp add: steady_def)
    have r: "same c (snd (refuse req mk err c :: unit go \<times> _))" for mk err
      by (rule steady_steps(8)[unfolded steady_def, rule_format])
    show "same c (snd (handleSubmitWorkRequest cfg req allowed c))"
      unfolding handleSubmitWorkRequest_def Let_def
      by (auto intro!: s r steady_bndc claim block count split: option.split prod.split)
  qed
qed

lemma steady_extranonce: "steady (handleExtraNonceSubscribeRequest cfg req allowed)"
  unfolding handleExtraNonceSubscribeRequest_def Let_def
  by (auto intro!: steady_bndc)

section \<open>Steps that set it\<close>

text \<open>After \<open>m\<close>, started where \<open>P\<close> holds: \<open>Q\<close> when it returns, \<open>E\<close> when it fails.\<close>

definition triple :: "('s \<Rightarrow> bool) \<Rightarrow> ('s \<Rightarrow> bool) \<Rightarrow> ('s, 'e, 'a) comp \<Rightarrow> ('a \<Rightarrow> 's \<Rightarrow> bool) \<Rightarrow> bool" where
  "triple E P m Q \<longleftrightarrow> (\<forall>s. P s \<longrightarrow> (case fst (m s) of Ok x \<Rightarrow> Q x (snd (m s)) | _ \<Rightarrow> E (snd (m s))))"

lemma triple_bndc: "triple E P m Q \<Longrightarrow> (\<And>x. triple E (Q x) (f x) R) \<Longrightarrow> triple E P (bndc m f) R"
  unfolding triple_def bndc_def by (fastforce split: prod.splits outcome.splits)

lemma triple_modc: "(\<And>s. P s \<Longrightarrow> Q () (f s)) \<Longrightarrow> triple E P (modc f) Q"
  by (simp add: triple_def)

lemma triple_steady:
  assumes "steady m" "\<And>c c'. P c \<Longrightarrow> same c c' \<Longrightarrow> P c'" "\<And>c. P c \<Longrightarrow> E c"
  shows "triple E P m (\<lambda>_. P)"
proof -
  have "same c (snd (m c))" for c using assms(1) by (simp add: steady_def)
  then have "P c \<Longrightarrow> P (snd (m c))" for c using assms(2) by blast
  then show ?thesis using assms(3) by (auto simp: triple_def split: outcome.split)
qed

lemma triple_lift: "(\<And>x. r = Ok x \<Longrightarrow> triple E P (f x) R) \<Longrightarrow> (\<And>s. P s \<Longrightarrow> E s) \<Longrightarrow> triple E P (bndc (liftc r) f) R"
  by (cases r) (simp_all add: triple_def bndc_def liftc_def)

lemma bndc_refuse:
  "snd (bndc (refuse req mk err) f c) = snd (reply req mk c)"
  "fst (bndc (refuse req mk err) f c) = (case reqID req of None \<Rightarrow> Panic | Some n \<Rightarrow> Err err)"
  by (simp_all add: bndc_def refuse_def reply_def liftc_def derefID_def sendMessage_def split: option.split)

lemma triple_orRefuse:
  assumes "\<And>x. r = Ok x \<Longrightarrow> triple E P (f x) R" "\<And>c c'. P c \<Longrightarrow> same c c' \<Longrightarrow> P c'" "\<And>c. P c \<Longrightarrow> E c"
  shows "triple E P (bndc (orRefuse cfg req mk (liftc r)) f) R"
proof (cases r)
  case (Ok x)
  then have "bndc (orRefuse cfg req mk (liftc r)) f = f x" by (simp add: fun_eq_iff bndc_def orRefuse_def liftc_def)
  then show ?thesis using assms(1) Ok by simp
next
  case (Err err)
  then have o: "orRefuse cfg req mk (liftc r) = refuse req (\<lambda>n. mk n (unknownErr (ccErrText cfg err))) err"
    by (simp add: fun_eq_iff orRefuse_def liftc_def)
  have "P c \<Longrightarrow> E (snd (reply req mk' c))" for c mk'
    using assms(2,3) steady_steps(7)[of req mk'] unfolding steady_def by meson
  then show ?thesis
    by (auto simp: o triple_def bndc_refuse split: outcome.split option.splits)
next
  case Panic
  then show ?thesis using assms(3) by (simp add: triple_def bndc_def orRefuse_def liftc_def)
qed

lemma triple_map_errc: "triple E P (bndc m f) R \<Longrightarrow> triple E P (bndc (map_errc g m) f) R"
proof -
  have "snd (bndc (map_errc g m) f s) = snd (bndc m f s) \<and>
      (case fst (bndc m f s) of Ok x \<Rightarrow> fst (bndc (map_errc g m) f s) = Ok x | _ \<Rightarrow> \<forall>x. fst (bndc (map_errc g m) f s) \<noteq> Ok x)" for s
    by (cases "m s"; cases "fst (m s)") (simp_all add: bndc_def map_errc_def split: outcome.split)
  then show "triple E P (bndc m f) R \<Longrightarrow> triple E P (bndc (map_errc g m) f) R"
    unfolding triple_def by (fastforce split: outcome.splits)
qed

lemma ok_setAccount:
  "clientOk cfg en1 c \<Longrightarrow> knownAccount cfg a \<Longrightarrow> clientOk cfg en1 (c\<lparr>cAccount := a, cName := n\<rparr>)"
  unfolding clientOk_def identified_def by (auto split: if_splits)

lemma ok_same: "clientOk cfg en1 c \<Longrightarrow> same c c' \<Longrightarrow> clientOk cfg en1 c'"
  by (simp add: same_ok)

lemma triple_ok: "steady m \<Longrightarrow> triple (clientOk cfg en1) (clientOk cfg en1) m (\<lambda>_. clientOk cfg en1)"
  by (rule triple_steady) (auto intro: ok_same)

lemma authAccount_ok:
  assumes "\<not> ccSoloPool cfg"
  shows "triple (clientOk cfg en1) (clientOk cfg en1) (authAccount cfg req username)
    (\<lambda>_ c. clientOk cfg en1 c \<and> knownAccount cfg (cAccount c))"
proof -
  have persist: "steady (orRefuse cfg req mk (bndc (cl_now cfg) (\<lambda>now c. case cl_write (db_persistAccount (ccDb cfg) account now) c of
             (Err err, c') \<Rightarrow> (if errors_is err ValueFound then Ok () else Err err, c')
           | r \<Rightarrow> r)))" for mk account
    by (rule steady_orRefuse, rule steady_bndc[OF steady_steps(2)])
      (auto simp: steady_def same_def cl_write_def split: prod.splits outcome.splits)
  have refused: "triple (clientOk cfg en1) (clientOk cfg en1) (refuse req mk err)
      (\<lambda>_ c. clientOk cfg en1 c \<and> knownAccount cfg (cAccount c))" for mk err
    using triple_ok[OF steady_steps(8), of cfg en1 req mk err]
    by (auto simp: triple_def refuse_effect split: outcome.splits option.splits)
  show ?thesis
    unfolding authAccount_def Let_def
  proof (split if_split, intro conjI impI refused triple_orRefuse)
    fix x assume x: "DecodeAddress (ccRules cfg) (TrimSpace (splitOn CHR ''.'' username ! 0)) = Ok x"
    let ?a = "NewAccount (ccBlake256 cfg) (TrimSpace (splitOn CHR ''.'' username ! 0))"
    have "knownAccount cfg (acUUID ?a)" using assms x by (auto simp: knownAccount_def NewAccount_def)
    then have "triple (clientOk cfg en1) (clientOk cfg en1)
       (modc (\<lambda>c. c\<lparr>cAccount := acUUID ?a, cName := TrimSpace (splitOn CHR ''.'' username ! 1)\<rparr>))
       (\<lambda>_ c. clientOk cfg en1 c \<and> knownAccount cfg (cAccount c))"
      by (intro triple_modc) (simp add: ok_setAccount)
    then show "triple (clientOk cfg en1) (clientOk cfg en1)
       (bndc (orRefuse cfg req (\<lambda>n. AuthorizeResponse n False)
          (bndc (cl_now cfg) (\<lambda>now c. case cl_write (db_persistAccount (ccDb cfg) ?a now) c of
             (Err err, c') \<Rightarrow> (if errors_is err ValueFound then Ok () else Err err, c')
           | r \<Rightarrow> r))) (\<lambda>_. modc (\<lambda>c. c\<lparr>cAccount := acUUID ?a, cName := TrimSpace (splitOn CHR ''.'' username ! 1)\<rparr>)))
       (\<lambda>_ c. clientOk cfg en1 c \<and> knownAccount cfg (cAccount c))"
      by (intro triple_bndc[OF triple_steady[OF persist]]) (simp_all add: same_ok)
  qed (simp_all add: same_ok)
qed

lemma triple_apply: "triple E P m (\<lambda>_. E) \<Longrightarrow> P c \<Longrightarrow> E (snd (m c))"
  by (cases "fst (m c)") (fastforce simp: triple_def split: outcome.splits)+

lemma authorize_ok: "triple (clientOk cfg en1) (clientOk cfg en1) (handleAuthorizeRequest cfg req allowed) (\<lambda>_. clientOk cfg en1)"
proof -
  have solo: "triple (clientOk cfg en1) (clientOk cfg en1) (modc (\<lambda>c. c\<lparr>cAccount := defaultAccountID (ccBlake256 cfg), cName := n\<rparr>))
      (\<lambda>_ c. clientOk cfg en1 c \<and> knownAccount cfg (cAccount c))" if "ccSoloPool cfg" for n
    using that by (intro triple_modc) (simp add: ok_setAccount knownAccount_def)
  have set: "triple (clientOk cfg en1) (\<lambda>c. clientOk cfg en1 c \<and> knownAccount cfg (cAccount c)) (modc (\<lambda>c. c\<lparr>authorized := True\<rparr>))
      (\<lambda>_. clientOk cfg en1)"
    by (rule triple_modc) (auto simp: clientOk_def identified_def split: if_splits)
  show ?thesis
    unfolding handleAuthorizeRequest_def
    by (auto simp: same_ok intro!: triple_ok[OF steady_steps(7)] triple_ok[OF steady_steps(8)] triple_orRefuse
        triple_bndc[OF authAccount_ok] triple_bndc[OF solo] triple_bndc[OF set])
qed

text \<open>The miner and its difficulty are set together, at the subscription or by the monitor.\<close>

lemma supported:
  "identifyMiningClients ua = Ok clients \<Longrightarrow> m \<in> set clients \<Longrightarrow> m \<in> {CPU, Gominer, NiceHashValidator}"
  by (auto simp: identify_table agentTable_def)

lemma index_mem: "index xs i = Ok x \<Longrightarrow> x \<in> set xs"
  by (auto simp: index_def split: if_splits)

definition withMiner :: "string \<Rightarrow> DifficultyInfo \<Rightarrow> 'db Client \<Rightarrow> 'db Client" where
  "withMiner miner info c = c\<lparr>cMiner := miner, cId := extraNonce1 c @ ''/'' @ miner, diffInfo := Some info\<rparr>"

lemma ok_withMiner:
  assumes "clientOk cfg en1 c" "miner \<in> {CPU, Gominer, NiceHashValidator}" "FetchMinerDifficulty cfg miner = Ok info"
  shows "clientOk cfg en1 ((withMiner miner info c)\<lparr>subscribed := True\<rparr>)"
  using assms unfolding clientOk_def identified_def withMiner_def by (auto split: if_splits)

lemma subscribe_ok: "triple (clientOk cfg en1) (clientOk cfg en1) (handleSubscribeRequest cfg req allowed) (\<lambda>_. clientOk cfg en1)"
proof -
  have answer: "steady (\<lambda>c. bndc (reply req (\<lambda>n. SubscribeResponse n (if nid = [] then ''mn'' @ extraNonce1 c else nid)
       (extraNonce1 c) ExtraNonce2Size None)) (\<lambda>_. retc x) c)" for nid and x :: "nat \<times> string list"
    by (simp add: steady_def bndc_def reply_def liftc_def derefID_def sendMessage_def same_def split: option.split)
  have set: "triple (clientOk cfg en1) (clientOk cfg en1)
      (bndc (modc (\<lambda>c. c\<lparr>cMiner := miner, cId := extraNonce1 c @ ''/'' @ miner, diffInfo := Some info\<rparr>)) (\<lambda>_.
       bndc (modc (\<lambda>c. c\<lparr>subscribed := True\<rparr>)) (\<lambda>_ c.
        bndc (reply req (\<lambda>n. SubscribeResponse n (if nid = [] then ''mn'' @ extraNonce1 c else nid) (extraNonce1 c)
          ExtraNonce2Size None)) (\<lambda>_. retc x) c))) (\<lambda>_. clientOk cfg en1)"
    if "miner \<in> {CPU, Gominer, NiceHashValidator}" "FetchMinerDifficulty cfg miner = Ok info"
    for miner info nid and x :: "nat \<times> string list"
    using ok_withMiner[OF _ that]
    by (intro triple_bndc[OF triple_modc, where Q = "\<lambda>_ c. clientOk cfg en1 (c\<lparr>subscribed := True\<rparr>)"]
        triple_bndc[OF triple_modc, where Q = "\<lambda>_. clientOk cfg en1"] triple_ok[OF answer])
      (auto simp: withMiner_def)
  show ?thesis
    unfolding handleSubscribeRequest_def Let_def
    by (auto simp: same_ok intro!: triple_ok[OF steady_steps(8)] triple_orRefuse triple_map_errc triple_lift set[simplified]
        dest: supported index_mem)
qed

lemma monitor_ok:
  assumes "identifyMiningClients ua = Ok clients" "clientOk cfg en1 c" "subscribed c"
  shows "clientOk cfg en1 (snd (monitor cfg clients st c))"
proof -
  have "length clients = 1" using assms(1) by (auto simp: identify_table)
  then show ?thesis using assms(2) by (simp add: monitor_def)
qed

lemma send_ok:
  assumes "clientOk cfg en1 c"
  shows "clientOk cfg en1 (snd (send cfg encodes c))"
proof -
  have more: "clientOk cfg en1 (c\<lparr>cOut := q, cSent := cSent c @ [j], cTick := t, lastWorkTime := w\<rparr>)"
    if "isWork j \<Longrightarrow> authorized c \<and> subscribed c" for j q t w
    using assms that unfolding clientOk_def identified_def by (auto split: if_splits)
  have notify: "ascii Notify" by (simp add: Notify_def)
  have other: "\<not> isWork (marshalMessage m)" if "\<And>req. m = MReq req \<Longrightarrow> Method req \<noteq> Notify" for m
    using that by (cases m) (auto simp: isWork_def marshalRequest_def marshalResponse_def enc_str_ascii notify)
  have cancel: "clientOk cfg en1 (cancelClient (c\<lparr>cOut := q\<rparr>))" "clientOk cfg en1 (c\<lparr>cOut := q\<rparr>)" for q
    using assms unfolding clientOk_def identified_def cancelClient_def by (auto split: if_splits)
  show ?thesis
  proof (cases "cOut c")
    case (Cons m rest)
    then show ?thesis
      using cancel[of rest] other[of m]
        more[where j = "marshalMessage m" and q = rest and t = "cTick c" and w = "lastWorkTime c"]
        more[where j = "marshalMessage m" and q = rest and t = "Suc (cTick c)" and w = "unixSecs (eNow (ccEnv cfg) (cTick c))"]
      by (cases m) (auto simp: send_def sendOne_def encodeMessage_def sendWorkDefault_def bndc_def cl_now_def)
  qed (simp add: send_def assms)
qed

lemma process_ok:
  "triple (clientOk cfg en1) (clientOk cfg en1) (process cfg payload allowed) (\<lambda>_. clientOk cfg en1)"
proof -
  have logged: "triple (clientOk cfg en1) (clientOk cfg en1) (logged m) (\<lambda>_. clientOk cfg en1)"
    if "triple (clientOk cfg en1) (clientOk cfg en1) m (\<lambda>_. clientOk cfg en1)" for m :: "('a, 'b) clop"
    using triple_apply[OF that] by (auto simp: triple_def logged_def split: prod.split outcome.split) (metis snd_conv)+
  have panic: "triple (clientOk cfg en1) (clientOk cfg en1) (\<lambda>c. (Panic, c)) (\<lambda>_. clientOk cfg en1)"
    by (simp add: triple_def)
  note rules = triple_bndc[OF logged] triple_bndc[OF triple_ok[OF steady_setDifficulty]]
    triple_bndc[OF triple_ok[OF steady_update]] triple_bndc[OF triple_ok[OF steady_steps(9)]] triple_ok[OF steady_steps(5)]
  have "triple (clientOk cfg en1) (clientOk cfg en1) (processRequest cfg req allowed) (\<lambda>_. clientOk cfg en1)" for req
    unfolding processRequest_def
    by (auto intro!: rules logged authorize_ok subscribe_ok triple_ok[OF steady_extranonce] triple_ok[OF steady_submit])
  then show ?thesis
    unfolding process_def by (auto intro!: rules panic split: prod.split Message.split)
qed

lemma step_ok:
  assumes "clientStep cfg c c'" "clientOk cfg en1 c"
  shows "clientOk cfg en1 c'"
  using assms
proof (induction rule: clientStep.induct)
  case (received data payload allowed c r c')
  then show ?case using triple_apply[OF process_ok, of cfg en1 c payload allowed] by simp
next
  case (sent encodes c r c')
  then show ?case using send_ok[of cfg en1 c encodes] by simp
next
  case (monitored c ua clients st r c')
  then show ?case using monitor_ok[of ua clients cfg en1 c st] by simp
next
  case (shared c db)
  then show ?case by (rule ok_same) (simp add: same_def)
next
  case (disconnected c)
  then show ?case by (rule ok_same) (simp add: same_def cancelClient_def)
qed (auto elim!: ok_same intro: steady_apply[OF steady_rollWork] steady_apply[OF steady_hashMonitor] steady_apply[OF steady_steps(6)])

lemma reachable_ok:
  assumes "reachable cfg c0 c" "clientOk cfg en1 c0"
  shows "clientOk cfg en1 c"
  using assms by (induction rule: reachable.induct) (auto intro: step_ok)

lemma new_ok: "clientOk cfg (EncodeToString random) (NewClient random addr db tick)"
  by (simp add: clientOk_def NewClient_def)

end
