(* ===== verification/Hub.thy ===== *)
theory Hub
  imports Limiter ClientStates
begin

text \<open>
  The hub (\<open>hub.go\<close>) and the endpoint it listens on (\<open>endpoint.go\<close>): creation, the
  registry of connected clients, the calls to the mining node, the notifications of blocks and
  work, and what the web pages ask of the pool. The clients are in a store, and the endpoint
  refers to them by their place in it, as the code does by pointers; the database is shared, and
  a client's operation runs on the hub's. The daemon, the listener, certificates and the wallet
  connection are arguments.
\<close>

section \<open>Configuration\<close>

record 'db HubConfig =
  hcNet :: Params
  hcCoinbaseMaturity :: "16 word"
  hcDb :: "'db Database"
  hcPoolFee :: gofloat
  hcMaxGenTime :: int
  hcPaymentMethod :: string
  hcLastNPeriod :: "64 word"
  hcWalletPass :: bytes
  hcSoloPool :: bool
  hcPoolFeeAddrs :: "string list"
  hcNonceIterations :: rat
  hcMaxConnectionsPerHost :: "32 word"
  hcMonitorCycle :: int
  hcMaxUpgradeTries :: "32 word"

text \<open>The packages the hub hands on, and the connection to the mining node.\<close>

record 'l Packages =
  pkEnv :: Env
  pkWire :: Wire
  pkRules :: TxRules
  pkBlake256 :: "bytes \<Rightarrow> bytes"
  pkErrText :: "goerror \<Rightarrow> string"
  pkRate :: "'l RateLib"

datatype verboseResult = VerboseConfirmations int | RPCBlockNotFound | VerboseFailed

record NodeConnection =
  GetWorkSubmit :: "string \<Rightarrow> bool go"
  GetWork :: "(string \<times> string) go"
  GetBlockVerbose :: "hash \<Rightarrow> verboseResult"
  nodeGetBlock :: "hash \<Rightarrow> MsgBlock go"
  nodeTx :: txCreator

definition NewParent :: string where "NewParent = ''newparent''"
definition NewVotes :: string where "NewVotes = ''newvotes''"
definition NewTxns :: string where "NewTxns = ''newtxns''"
definition soloMaxGenTime :: int where "soloMaxGenTime = 28000000000"
definition bufferSize :: nat where "bufferSize = 128"
definition hashCalcThreshold :: int where "hashCalcThreshold = 20000000000"

section \<open>State\<close>

record ('l, 'db) Hub =
  hClients :: "32 word"
  hConnections :: "string \<Rightarrow> 32 word"
  hEndpoint :: "(string \<times> nat) list"
  hStore :: "nat \<rightharpoonup> string \<times> 'db Client"
  hNext :: nat
  hLimiter :: "'l RateLimiter"
  hNode :: "NodeConnection option"
  hWallet :: "txBroadcaster option"
  hDiffs :: DifficultySet
  hPay :: "'db PaymentMgr"
  hChain :: "'db ChainState"
  hTick :: nat

type_synonym ('l, 'db, 'a) hop = "(('l, 'db) Hub, goerror, 'a) comp"

definition hubDb :: "('l, 'db) Hub \<Rightarrow> 'db" where
  "hubDb h = csDb (hChain h)"

definition setDb :: "'db \<Rightarrow> ('l, 'db) Hub \<Rightarrow> ('l, 'db) Hub" where
  "setDb db h = h\<lparr>hChain := (hChain h)\<lparr>csDb := db\<rparr>\<rparr>"

definition hub_write :: "('db, goerror, 'a) comp \<Rightarrow> ('l, 'db, 'a) hop" where
  "hub_write op = (\<lambda>h. case op (hubDb h) of (r, db) \<Rightarrow> (r, setDb db h))"

definition hub_now :: "'l Packages \<Rightarrow> ('l, 'db, 64 word) hop" where
  "hub_now pk = (\<lambda>h. (Ok (eNow (pkEnv pk) (hTick h)), h\<lparr>hTick := Suc (hTick h)\<rparr>))"

text \<open>\<open>SignalCache\<close> sends an event to the web pages if there is room for it.\<close>

definition SignalCache :: "CacheUpdateEvent \<Rightarrow> CacheUpdateEvent list \<Rightarrow> CacheUpdateEvent list" where
  "SignalCache event ch = (if length ch < bufferSize then ch @ [event] else ch)"

section \<open>The mining node\<close>

definition submitWork :: "NodeConnection option \<Rightarrow> string \<Rightarrow> bool go" where
  "submitWork nodeConn data = (case nodeConn of
     None \<Rightarrow> Err (PoolError Disconnected) | Some node \<Rightarrow> GetWorkSubmit node data)"

definition getWork :: "NodeConnection option \<Rightarrow> (string \<times> string) go" where
  "getWork nodeConn = (case nodeConn of
     None \<Rightarrow> Err (PoolError Disconnected)
   | Some node \<Rightarrow> map_err (\<lambda>_. PoolError ErrorKind.GetWork) (NodeConnection.GetWork node))"

text \<open>Here the connection is used without a check; a hub that is not connected panics.\<close>

definition getBlockConfirmations :: "NodeConnection option \<Rightarrow> hash \<Rightarrow> int go" where
  "getBlockConfirmations nodeConn hash = (case nodeConn of
     None \<Rightarrow> Panic
   | Some node \<Rightarrow> (case GetBlockVerbose node hash of
         VerboseConfirmations n \<Rightarrow> Ok n
       | RPCBlockNotFound \<Rightarrow> Err (PoolError BlockNotFound)
       | VerboseFailed \<Rightarrow> Err (PoolError BlockConf)))"

definition getBlock :: "NodeConnection option \<Rightarrow> hash \<Rightarrow> MsgBlock go" where
  "getBlock nodeConn blockHash = (case nodeConn of
     None \<Rightarrow> Err (PoolError Disconnected)
   | Some node \<Rightarrow> map_err (\<lambda>_. PoolError ErrorKind.GetBlock) (nodeGetBlock node blockHash))"

section \<open>Configuration of the parts\<close>

definition hubMaxGenTime :: "'db HubConfig \<Rightarrow> int" where
  "hubMaxGenTime cfg = (let maxGenTime = (if hcSoloPool cfg then soloMaxGenTime else hcMaxGenTime cfg) in
     if TargetTimePerBlock (hcNet cfg) < maxGenTime then TargetTimePerBlock (hcNet cfg) else maxGenTime)"

definition hubPaymentMgrConfig :: "'l Packages \<Rightarrow> 'db HubConfig \<Rightarrow> NodeConnection option \<Rightarrow> txBroadcaster option
    \<Rightarrow> 'db PaymentMgrConfig" where
  "hubPaymentMgrConfig pk cfg nodeConn walletConn = \<lparr>cfgDb = hcDb cfg, CoinbaseMaturity = hcCoinbaseMaturity cfg, PoolFee = hcPoolFee cfg,
     LastNPeriod = hcLastNPeriod cfg, SoloPool = hcSoloPool cfg, PaymentMethod = hcPaymentMethod cfg,
     PoolFeeAddrs = hcPoolFeeAddrs cfg, WalletPass = hcWalletPass cfg, GetBlockConfirmations = getBlockConfirmations nodeConn,
     FetchTxCreator = map_option nodeTx nodeConn, FetchTxBroadcaster = walletConn, cfgRules = pkRules pk\<rparr>"

definition hubChainStateConfig :: "'l Packages \<Rightarrow> 'db HubConfig \<Rightarrow> ('l, 'db) Hub \<Rightarrow> 'db ChainStateConfig" where
  "hubChainStateConfig pk cfg h = \<lparr>csD = hcDb cfg, csSoloPool = hcSoloPool cfg,
     GeneratePayments = (\<lambda>height source amt createdOn db.
       case generatePayments (pkEnv pk) (hubPaymentMgrConfig pk cfg (hNode h) (hWallet h)) height (Some source) amt createdOn ((hPay h)\<lparr>pmDb := db\<rparr>) of
         (r, pm) \<Rightarrow> (r, pmDb pm)),
     GetBlock = getBlock (hNode h), csGetBlockConfirmations = getBlockConfirmations (hNode h), csRules = pkRules pk, csWire = pkWire pk,
     csNow = eNow (pkEnv pk)\<rparr>"

text \<open>What the endpoint, configured by the hub, configures a client with.\<close>

definition hubClientConfig :: "'l Packages \<Rightarrow> 'db HubConfig \<Rightarrow> ('l, 'db) Hub \<Rightarrow> 'db ClientConfig" where
  "hubClientConfig pk cfg h = \<lparr>ccNet = hcNet cfg, ccDb = hcDb cfg, ccSoloPool = hcSoloPool cfg,
     NonceIterations = hcNonceIterations cfg, FetchMinerDifficulty = fetchMinerDifficulty (hDiffs h), SubmitWork = submitWork (hNode h),
     FetchCurrentWork = (\<lambda>_. fetchCurrentWork (hChain h)), HashCalcThreshold = hashCalcThreshold,
     ccMaxGenTime = hcMaxGenTime cfg, MonitorCycle = hcMonitorCycle cfg, MaxUpgradeTries = hcMaxUpgradeTries cfg,
     ccWire = pkWire pk, ccRules = pkRules pk, ccEnv = pkEnv pk, ccBlake256 = pkBlake256 pk, ccErrText = pkErrText pk\<rparr>"

section \<open>Creation\<close>

definition newHubState :: "DifficultySet \<Rightarrow> 'db PaymentMgr \<Rightarrow> 'db \<Rightarrow> ('l, 'db) Hub" where
  "newHubState poolDiffs pm db = \<lparr>hClients = 0, hConnections = (\<lambda>_. 0), hEndpoint = [], hStore = Map.empty, hNext = 0,
     hLimiter = NewRateLimiter, hNode = None, hWallet = None, hDiffs = poolDiffs, hPay = pm, hChain = NewChainState db, hTick = 0\<rparr>"

definition poolMode :: "'db HubConfig \<Rightarrow> 32 word" where
  "poolMode cfg = (if hcSoloPool cfg then 1 else 0)"

definition ensureMode :: "'db HubConfig \<Rightarrow> 'db dbop" where
  "ensureMode cfg = (\<lambda>db.
     let cfgMode = poolMode cfg in
     case (case db_fetchPoolMode (hcDb cfg) db of
         Ok dbMode \<Rightarrow> (Ok dbMode, db)
       | Err err \<Rightarrow> if errors_is err ValueNotFound then
             map_prod (map_err Wrapped) (\<lambda>x. x) (bndc (db_persistPoolMode (hcDb cfg) cfgMode) (\<lambda>_. retc cfgMode) db)
           else (Err err, db)
       | Panic \<Rightarrow> (Panic, db)) of
       (Ok dbMode, db) \<Rightarrow> if cfgMode \<noteq> dbMode then (Err Foreign, db) else (Ok (), db)
     | (Err err, db) \<Rightarrow> (Err err, db)
     | (Panic, db) \<Rightarrow> (Panic, db))"

text \<open>\<open>NewEndpoint\<close> fails when the address cannot be listened on.\<close>

definition NewEndpoint :: "bool \<Rightarrow> unit go" where
  "NewEndpoint listens = (if listens then Ok () else Err (PoolError Listener))"

definition NewHub :: "'l Packages \<Rightarrow> 'db HubConfig \<Rightarrow> bool \<Rightarrow> 'db \<Rightarrow> ('l, 'db) Hub go \<times> 'db" where
  "NewHub pk cfg listens db =
     (case NewDifficultySet (pkEnv pk) (hcNet cfg) (of_int (PowLimit (hcNet cfg))) (hubMaxGenTime cfg) of
        Ok poolDiffs \<Rightarrow>
          (case NewPaymentMgr (hubPaymentMgrConfig pk cfg None None) db of
             (Ok pm, db) \<Rightarrow>
               (case ensureMode cfg db of
                  (Ok _, db) \<Rightarrow> (bnd (NewEndpoint listens) (\<lambda>_. Ok (newHubState poolDiffs pm db)), db)
                | (Err err, db) \<Rightarrow> (Err err, db)
                | (Panic, db) \<Rightarrow> (Panic, db))
           | (Err err, db) \<Rightarrow> (Err err, db)
           | (Panic, db) \<Rightarrow> (Panic, db))
      | Err err \<Rightarrow> (Err err, db)
      | Panic \<Rightarrow> (Panic, db))"

section \<open>Connections\<close>

definition fetchHostConnections :: "string \<Rightarrow> ('l, 'db) Hub \<Rightarrow> 32 word" where
  "fetchHostConnections host h = hConnections h host"

definition addConnection :: "string \<Rightarrow> ('l, 'db) Hub \<Rightarrow> ('l, 'db) Hub" where
  "addConnection host h = h\<lparr>hConnections := (hConnections h)(host := hConnections h host + 1), hClients := hClients h + 1\<rparr>"

definition removeConnection :: "string \<Rightarrow> ('l, 'db) Hub \<Rightarrow> ('l, 'db) Hub" where
  "removeConnection host h = h\<lparr>hConnections := (hConnections h)(host := hConnections h host - 1), hClients := hClients h - 1\<rparr>"

text \<open>The counter is an \<open>int32\<close>.\<close>

definition HasClients :: "('l, 'db) Hub \<Rightarrow> bool" where
  "HasClients h \<longleftrightarrow> 0 < sint (hClients h)"

definition removeKey :: "'k \<Rightarrow> ('k \<times> 'v) list \<Rightarrow> ('k \<times> 'v) list" where
  "removeKey k m = filter (\<lambda>e. fst e \<noteq> k) m"

text \<open>A client is stored with the host of its address.\<close>

definition addClient :: "string \<Rightarrow> 'db Client \<Rightarrow> ('l, 'db) Hub \<Rightarrow> ('l, 'db) Hub" where
  "addClient host c h = addConnection host (h\<lparr>hStore := (hStore h)(hNext h \<mapsto> (host, c)), hNext := Suc (hNext h),
     hEndpoint := put (extraNonce1 c) (hNext h) (hEndpoint h)\<rparr>)"

definition removeClient :: "nat \<Rightarrow> ('l, 'db) Hub \<Rightarrow> ('l, 'db) Hub" where
  "removeClient p h = (case hStore h p of None \<Rightarrow> h
     | Some (host, c) \<Rightarrow> removeConnection host
         (h\<lparr>hEndpoint := removeKey (extraNonce1 c) (hEndpoint h), hStore := (hStore h)(p := None)\<rparr>))"

text \<open>
  One connection taken by \<open>connect\<close>: the host and the text of its address unless they cannot
  be resolved, and the random bytes unless they cannot be read. The result tells whether a client
  was added; otherwise the connection is closed or left.
\<close>

definition connect :: "'db HubConfig \<Rightarrow> (string \<times> string) option \<Rightarrow> bytes option \<Rightarrow> ('l, 'db) Hub \<Rightarrow> bool \<times> ('l, 'db) Hub" where
  "connect cfg addr random h = (case addr of
     None \<Rightarrow> (False, h)
   | Some (host, tcpAddr) \<Rightarrow>
       if hcMaxConnectionsPerHost cfg \<le> fetchHostConnections host h then (False, h)
       else (case random of
           None \<Rightarrow> (False, h)
         | Some bs \<Rightarrow> (True, addClient host (NewClient bs tcpAddr (hubDb h) 0) h)))"

definition endpointClients :: "Env \<Rightarrow> ('l, 'db) Hub \<Rightarrow> 'db Client list" where
  "endpointClients e h = concat (map (\<lambda>(_, p). case hStore h p of None \<Rightarrow> [] | Some (_, c) \<Rightarrow> [c]) (range_map e (hEndpoint h)))"

definition generateHashIDs :: "Env \<Rightarrow> ('l, 'db) Hub \<Rightarrow> string set" where
  "generateHashIDs e h = set (map (\<lambda>c. hashDataID (FetchAccountID c) (extraNonce1 c)) (endpointClients e h))"

text \<open>An operation of the client at a place of the store, on the shared database.\<close>

definition runClient :: "nat \<Rightarrow> ('db, 'a) clop \<Rightarrow> ('l, 'db) Hub \<Rightarrow> ('l, 'db) Hub" where
  "runClient p op h = (case hStore h p of None \<Rightarrow> h
     | Some (host, c) \<Rightarrow> (case op (c\<lparr>cDb := hubDb h\<rparr>) of
         (_, c') \<Rightarrow> setDb (cDb c') (h\<lparr>hStore := (hStore h)(p \<mapsto> (host, c'))\<rparr>)))"

section \<open>Work\<close>

definition notifyClients :: "Env \<Rightarrow> Request \<Rightarrow> ('l, 'db) Hub \<Rightarrow> ('l, 'db) Hub" where
  "notifyClients e notif h = fold (\<lambda>(_, p). runClient p (sendMessage (MReq notif))) (range_map e (hEndpoint h)) h"

definition dispatchJob :: "'l Packages \<Rightarrow> 'db HubConfig \<Rightarrow> string \<Rightarrow> 32 word \<Rightarrow> ('l, 'db, unit) hop" where
  "dispatchJob pk cfg headerE height =
     bndc (liftc (notifyParts headerE)) (\<lambda>(blockVersion, prevBlock, genTx1, nBits, nTime).
     bndc (hub_now pk) (\<lambda>now.
     let job = NewJob headerE height now in
     (\<lambda>h. case hub_write (db_persistJob (hcDb cfg) job) h of
        (Ok _, h) \<Rightarrow> (Ok (), notifyClients (pkEnv pk)
          (WorkNotification (jbUUID job) prevBlock genTx1 blockVersion nBits nTime True) h)
      | (Err _, h) \<Rightarrow> (Ok (), h)
      | (Panic, h) \<Rightarrow> (Panic, h))))"

definition processWork :: "'l Packages \<Rightarrow> 'db HubConfig \<Rightarrow> string \<Rightarrow> ('l, 'db, unit) hop" where
  "processWork pk cfg headerE =
     bndc (liftc (slice 256 264 headerE)) (\<lambda>heightE.
     case DecodeString heightE of
       Ok heightD \<Rightarrow>
         bndc (liftc (le32_val heightD)) (\<lambda>height.
         bndc (modc (\<lambda>h. h\<lparr>hChain := setLastWorkHeight height (hChain h)\<rparr>)) (\<lambda>_ h.
         if \<not> HasClients h then (Ok (), h) else dispatchJob pk cfg headerE height h))
     | Err _ \<Rightarrow> retc ()
     | Panic \<Rightarrow> (\<lambda>h. (Panic, h)))"

definition setHubWork :: "string \<Rightarrow> ('l, 'db) Hub \<Rightarrow> ('l, 'db) Hub" where
  "setHubWork work h = h\<lparr>hChain := setCurrentWork work (hChain h)\<rparr>"

definition OnWork :: "'l Packages \<Rightarrow> 'db HubConfig \<Rightarrow> bytes \<Rightarrow> string \<Rightarrow> ('l, 'db, unit) hop" where
  "OnWork pk cfg headerB reason = (let currWork = EncodeToString headerB in
     if reason = NewTxns then modc (setHubWork currWork)
     else if reason = NewParent \<or> reason = NewVotes then
       bndc (modc (setHubWork currWork)) (\<lambda>_. processWork pk cfg currWork)
     else retc ())"

definition FetchWork :: "('l, 'db, unit) hop" where
  "FetchWork = (\<lambda>h. bndc (liftc (getWork (hNode h))) (\<lambda>(work, _). modc (setHubWork work)) h)"

section \<open>Queries\<close>

definition FetchLastWorkHeight :: "('l, 'db) Hub \<Rightarrow> 32 word" where
  "FetchLastWorkHeight h = fetchLastWorkHeight (hChain h)"

definition FetchLastPaymentInfo :: "'db HubConfig \<Rightarrow> ('l, 'db) Hub \<Rightarrow> (32 word \<times> 64 word \<times> 64 word) go" where
  "FetchLastPaymentInfo cfg h =
     bnd (db_loadLastPaymentInfo (hcDb cfg) (hubDb h)) (\<lambda>(height, paidOn).
     bnd (db_loadLastPaymentCreatedOn (hcDb cfg) (hubDb h)) (\<lambda>createdOn. Ok (height, paidOn, createdOn)))"

definition fiveMinutes :: "64 word" where "fiveMinutes = 300000000000"

definition FetchHashData :: "'l Packages \<Rightarrow> 'db HubConfig \<Rightarrow> ('l, 'db, (string \<times> HashData list) list) hop" where
  "FetchHashData pk cfg =
     bndc (hub_now pk) (\<lambda>now.
     (\<lambda>h. bndc (liftc (db_listHashData (hcDb cfg) (now - fiveMinutes) (hubDb h))) (\<lambda>hashData.
       let ids = generateHashIDs (pkEnv pk) h;
           toRemove = map hdUUID (filter (\<lambda>d. hdUUID d \<notin> ids) (map snd (range_map (pkEnv pk) hashData)));
           kept = fold removeKey toRemove hashData
       in retc (fold (\<lambda>(_, d) toReturn. put (hdAccountID d)
            ((case map_of toReturn (hdAccountID d) of None \<Rightarrow> [] | Some ds \<Rightarrow> ds) @ [d]) toReturn)
          (range_map (pkEnv pk) kept) [])) h))"

definition FetchPendingPayments :: "'db HubConfig \<Rightarrow> ('l, 'db) Hub \<Rightarrow> Payment list go" where
  "FetchPendingPayments cfg h = db_fetchPendingPayments (hcDb cfg) (hubDb h)"

definition FetchArchivedPayments :: "'db HubConfig \<Rightarrow> ('l, 'db) Hub \<Rightarrow> Payment list go" where
  "FetchArchivedPayments cfg h = db_archivedPayments (hcDb cfg) (hubDb h)"

definition FetchMinedWork :: "'db HubConfig \<Rightarrow> ('l, 'db) Hub \<Rightarrow> AcceptedWork list go" where
  "FetchMinedWork cfg h = db_listMinedWork (hcDb cfg) (hubDb h)"

text \<open>With another payment method there are no percentages.\<close>

definition FetchWorkQuotas :: "'l Packages \<Rightarrow> 'db HubConfig \<Rightarrow> ('l, 'db, (string \<times> rat) list) hop" where
  "FetchWorkQuotas pk cfg = (\<lambda>h.
     if hcSoloPool cfg then (Ok [], h) else
       let pcfg = hubPaymentMgrConfig pk cfg (hNode h) (hWallet h); pm = (hPay h)\<lparr>pmDb := hubDb h\<rparr>;
           percentages =
             (if hcPaymentMethod cfg = PPS then fst (PPSSharePercentages (pkEnv pk) pcfg (eNow (pkEnv pk) (hTick h)) pm)
              else if hcPaymentMethod cfg = PPLNS then fst (PPLNSSharePercentages (pkEnv pk) pcfg pm)
              else Ok [])
       in (bnd percentages (\<lambda>ps. Ok (range_map (pkEnv pk) ps)), h\<lparr>hTick := Suc (hTick h)\<rparr>))"

definition AccountExists :: "'db HubConfig \<Rightarrow> string \<Rightarrow> ('l, 'db) Hub \<Rightarrow> bool" where
  "AccountExists cfg accountID h = (case db_fetchAccount (hcDb cfg) accountID (hubDb h) of Ok _ \<Rightarrow> True | _ \<Rightarrow> False)"

text \<open>The random bytes are an argument; reading them may fail.\<close>

definition CSRFSecret :: "'db HubConfig \<Rightarrow> bytes go \<Rightarrow> ('l, 'db, bytes) hop" where
  "CSRFSecret cfg random = (\<lambda>h. case db_fetchCSRFSecret (hcDb cfg) (hubDb h) of
     Ok secret \<Rightarrow> (Ok secret, h)
   | Err err \<Rightarrow> if errors_is err ValueNotFound then
         bndc (liftc random) (\<lambda>secret. bndc (hub_write (db_persistCSRFSecret (hcDb cfg) secret)) (\<lambda>_. retc secret)) h
       else (Err err, h)
   | Panic \<Rightarrow> (Panic, h))"

end
