(* ===== verification/GuiCache.thy ===== *)
theory GuiCache
  imports Hub
begin

text \<open>
  What the web pages show (\<open>internal/gui\<close>): the formatting of numbers and links
  (\<open>formatting.go\<close>) and the cache of formatted data (\<open>cache.go\<close>). The mutexes of the cache
  make each setter and getter one operation on the cache. \<open>dcrutil.Amount.ToCoin\<close> is an argument.
  \<open>sort.Slice\<close> is not stable: it sorts after a permutation that is an argument. Identifiers
  are ASCII, so that a precision in a format counts characters.
\<close>

record guiEnv =
  geEnv :: Env
  gePerm :: "nat \<Rightarrow> nat list"
  ToCoin :: "int \<Rightarrow> rat"

definition sortSlice :: "guiEnv \<Rightarrow> ('a \<Rightarrow> 'k :: linorder) \<Rightarrow> 'a list \<Rightarrow> 'a list" where
  "sortSlice g f xs = sort_key f (map (\<lambda>i. xs ! i) (gePerm g (length xs)))"

section \<open>Formatting\<close>

text \<open>A number of units of the last of \<open>prec\<close> decimal places.\<close>

definition decimals :: "nat \<Rightarrow> nat \<Rightarrow> string" where
  "decimals prec n = (let frac = show_nat (n mod 10 ^ prec) in
     show_nat (n div 10 ^ prec) @ ''.'' @ replicate (prec - length frac) CHR ''0'' @ frac)"

text \<open>\<open>big.Rat.FloatString\<close> rounds halves up, \<open>%.nf\<close> of a \<open>float64\<close> to the even digit.\<close>

definition FloatString :: "nat \<Rightarrow> rat \<Rightarrow> string" where
  "FloatString prec x = (if x < 0 then ''-'' else []) @ decimals prec (nat \<lfloor>\<bar>x\<bar> * 10 ^ prec + 1 / 2\<rfloor>)"

definition formatF :: "nat \<Rightarrow> rat \<Rightarrow> string" where
  "formatF prec x = (if x < 0 then ''-'' else []) @ decimals prec (nat (round_half_even (\<bar>x\<bar> * 10 ^ prec)))"

definition truncateAccountID :: "string \<Rightarrow> string" where
  "truncateAccountID accountID = take 12 accountID @ ''...''"

definition KiloHash :: rat where "KiloHash = 1000"
definition MegaHash :: rat where "MegaHash = 1000000"
definition GigaHash :: rat where "GigaHash = 1000000000"
definition TeraHash :: rat where "TeraHash = 1000000000000"
definition PetaHash :: rat where "PetaHash = 1000000000000000"

definition hashString :: "rat \<Rightarrow> string" where
  "hashString hash =
     (if hash = 0 then ''0 H/s''
      else if hash > PetaHash then FloatString 2 (hash / PetaHash) @ '' PH/s''
      else if hash > TeraHash then FloatString 2 (hash / TeraHash) @ '' TH/s''
      else if hash > GigaHash then FloatString 2 (hash / GigaHash) @ '' GH/s''
      else if hash > MegaHash then FloatString 2 (hash / MegaHash) @ '' MH/s''
      else if hash > KiloHash then FloatString 2 (hash / KiloHash) @ '' KH/s''
      else ''< 1KH/s'')"

definition blockURL :: "string \<Rightarrow> 32 word \<Rightarrow> string" where
  "blockURL blockExplorerURL blockHeight = blockExplorerURL @ ''/block/'' @ show_nat (unat blockHeight)"

definition txURL :: "string \<Rightarrow> string \<Rightarrow> string" where
  "txURL blockExplorerURL txID = blockExplorerURL @ ''/tx/'' @ txID"

definition amount :: "guiEnv \<Rightarrow> int \<Rightarrow> string" where
  "amount g amt = formatF 3 (ToCoin g amt) @ '' DCR''"

definition floatToPercent :: "rat \<Rightarrow> string" where
  "floatToPercent x = formatF 1 (f64_mul x 100) @ ''%''"

definition ratToPercent :: "rat \<Rightarrow> string" where
  "ratToPercent x = floatToPercent (f64 x)"

section \<open>The cache\<close>

record guiClient =
  gclMiner :: string
  gclIP :: string
  gclHashRate :: string

record minedWork =
  mwBlockHeight :: "32 word"
  mwBlockURL :: string
  mwMinedBy :: string
  mwMiner :: string
  mwConfirmed :: bool
  mwAccountID :: string

record rewardQuota =
  rqAccountID :: string
  rqPercent :: string

record pendingPayment =
  ppWorkHeight :: string
  ppWorkHeightURL :: string
  ppAmount :: string
  ppEstimatedPaymentHeight :: string

record archivedPayment =
  apWorkHeight :: string
  apWorkHeightURL :: string
  apAmount :: string
  apPaidHeight :: string
  apPaidHeightURL :: string
  apTxURL :: string
  apTxID :: string

record Cache =
  blockExplorerURL :: string
  chMinedWork :: "minedWork list"
  chRewardQuotas :: "rewardQuota list"
  chPoolHash :: string
  chClients :: "(string \<times> guiClient list) list"
  chPending :: "(string \<times> pendingPayment list) list"
  chPendingTotals :: "(string \<times> int) list"
  chArchived :: "(string \<times> archivedPayment list) list"
  chArchivedTotals :: "(string \<times> int) list"
  chLastHeight :: "32 word"
  chLastPaidOn :: "64 word"
  chLastCreatedOn :: "64 word"

text \<open>\<open>m[k] = append(m[k], x)\<close>, and a read of a missing key, which is the zero value.\<close>

definition appendAt :: "'k \<Rightarrow> 'v \<Rightarrow> ('k \<times> 'v list) list \<Rightarrow> ('k \<times> 'v list) list" where
  "appendAt k x m = put k ((case map_of m k of None \<Rightarrow> [] | Some xs \<Rightarrow> xs) @ [x]) m"

definition entriesAt :: "('k \<times> 'v list) list \<Rightarrow> 'k \<Rightarrow> 'v list" where
  "entriesAt m k = (case map_of m k of None \<Rightarrow> [] | Some xs \<Rightarrow> xs)"

definition totalAt :: "('k \<times> int) list \<Rightarrow> 'k \<Rightarrow> int" where
  "totalAt m k = (case map_of m k of None \<Rightarrow> 0 | Some n \<Rightarrow> n)"

subsection \<open>Setters\<close>

definition showWork :: "string \<Rightarrow> AcceptedWork \<Rightarrow> minedWork" where
  "showWork url w = \<lparr>mwBlockHeight = awHeight w, mwBlockURL = blockURL url (awHeight w),
     mwMinedBy = truncateAccountID (awMinedBy w), mwMiner = awMiner w, mwConfirmed = awConfirmed w, mwAccountID = awMinedBy w\<rparr>"

definition updateMinedWork :: "AcceptedWork list \<Rightarrow> Cache \<Rightarrow> Cache" where
  "updateMinedWork work c = c\<lparr>chMinedWork := map (showWork (blockExplorerURL c)) work\<rparr>"

definition updateRewardQuotas :: "guiEnv \<Rightarrow> (string \<times> rat) list \<Rightarrow> Cache \<Rightarrow> Cache" where
  "updateRewardQuotas g quotas c = c\<lparr>chRewardQuotas :=
     map (\<lambda>(accountID, percentage). \<lparr>rqAccountID = truncateAccountID accountID, rqPercent = ratToPercent percentage\<rparr>)
       (sortSlice g (\<lambda>q. - snd q) quotas)\<rparr>"

definition showClient :: "HashData \<Rightarrow> guiClient" where
  "showClient d = \<lparr>gclMiner = hdMiner d, gclIP = hdIP d, gclHashRate = hashString (hdHashRate d)\<rparr>"

definition updateHashData_gui :: "guiEnv \<Rightarrow> (string \<times> HashData list) list \<Rightarrow> Cache \<Rightarrow> Cache" where
  "updateHashData_gui g hashData c =
     (let (clientInfo, poolHashRate) = fold (\<lambda>entry (clientInfo, poolHashRate).
            (appendAt (hdAccountID entry) (showClient entry) clientInfo, poolHashRate + hdHashRate entry))
          (concat (map snd (range_map (geEnv g) hashData))) ([], 0)
      in c\<lparr>chPoolHash := hashString poolHashRate, chClients := clientInfo\<rparr>)"

definition showPending :: "guiEnv \<Rightarrow> string \<Rightarrow> Payment \<Rightarrow> pendingPayment" where
  "showPending g url p = \<lparr>ppWorkHeight = show_nat (unat (pmHeight p)), ppWorkHeightURL = blockURL url (pmHeight p),
     ppAmount = amount g (pmAmount p), ppEstimatedPaymentHeight = show_nat (unat (pmEstimatedMaturity p + 1))\<rparr>"

definition showArchived :: "guiEnv \<Rightarrow> string \<Rightarrow> Payment \<Rightarrow> archivedPayment" where
  "showArchived g url p = \<lparr>apWorkHeight = show_nat (unat (pmHeight p)), apWorkHeightURL = blockURL url (pmHeight p),
     apAmount = amount g (pmAmount p), apPaidHeight = show_nat (unat (pmPaidOnHeight p)),
     apPaidHeightURL = blockURL url (pmPaidOnHeight p), apTxURL = txURL url (pmTransactionID p),
     apTxID = take 10 (pmTransactionID p) @ ''...''\<rparr>"

text \<open>One pass over the sorted payments fills the lists and the totals.\<close>

definition groupPayments :: "(Payment \<Rightarrow> 'a) \<Rightarrow> Payment list \<Rightarrow> (string \<times> 'a list) list \<times> (string \<times> int) list" where
  "groupPayments render pmts = fold (\<lambda>p (lists, totals).
     (appendAt (pmAccount p) (render p) lists, put (pmAccount p) (i64 (totalAt totals (pmAccount p) + pmAmount p)) totals))
     pmts ([], [])"

definition updatePayments :: "guiEnv \<Rightarrow> Payment list \<Rightarrow> Payment list \<Rightarrow> Cache \<Rightarrow> Cache" where
  "updatePayments g pendingPmts archivedPmts c =
     (let newest = sortSlice g (\<lambda>p. - uint (pmHeight p));
          (pendingPayments, pendingPaymentTotals) = groupPayments (showPending g (blockExplorerURL c)) (newest pendingPmts);
          (archivedPayments, archivedPaymentTotals) = groupPayments (showArchived g (blockExplorerURL c)) (newest archivedPmts)
      in c\<lparr>chPending := pendingPayments, chPendingTotals := pendingPaymentTotals, chArchived := archivedPayments,
           chArchivedTotals := archivedPaymentTotals\<rparr>)"

definition updateLastPaymentInfo :: "32 word \<Rightarrow> 64 word \<Rightarrow> 64 word \<Rightarrow> Cache \<Rightarrow> Cache" where
  "updateLastPaymentInfo height paidOn createdOn c =
     c\<lparr>chLastHeight := height, chLastPaidOn := paidOn, chLastCreatedOn := createdOn\<rparr>"

subsection \<open>Getters\<close>

text \<open>The slice expression \<open>xs[first:min(last, count)]\<close> on signed indices.\<close>

definition pageOf :: "int \<Rightarrow> int \<Rightarrow> 'a list \<Rightarrow> (nat \<times> 'a list) go" where
  "pageOf first lastIx xs = (let count = length xs in
     if count = 0 then Ok (count, [])
     else if first \<ge> int count then Err Foreign
     else let upper = min lastIx (int count) in
       if 0 \<le> first \<and> first \<le> upper then bnd (slice (nat first) (nat upper) xs) (\<lambda>ys. Ok (count, ys)) else Panic)"

definition getConfirmedMinedWork :: "int \<Rightarrow> int \<Rightarrow> Cache \<Rightarrow> (nat \<times> minedWork list) go" where
  "getConfirmedMinedWork first lastIx c = pageOf first lastIx (filter mwConfirmed (chMinedWork c))"

definition getMinedWorkByAccount :: "int \<Rightarrow> int \<Rightarrow> string \<Rightarrow> Cache \<Rightarrow> (nat \<times> minedWork list) go" where
  "getMinedWorkByAccount first lastIx accountID c = pageOf first lastIx (filter (\<lambda>w. mwAccountID w = accountID) (chMinedWork c))"

definition getRewardQuotas :: "int \<Rightarrow> int \<Rightarrow> Cache \<Rightarrow> (nat \<times> rewardQuota list) go" where
  "getRewardQuotas first lastIx c = pageOf first lastIx (chRewardQuotas c)"

definition getPoolHash :: "Cache \<Rightarrow> string" where
  "getPoolHash c = chPoolHash c"

definition getClientsForAccount :: "int \<Rightarrow> int \<Rightarrow> string \<Rightarrow> Cache \<Rightarrow> (nat \<times> guiClient list) go" where
  "getClientsForAccount first lastIx accountID c = pageOf first lastIx (entriesAt (chClients c) accountID)"

definition getClients :: "Cache \<Rightarrow> (string \<times> guiClient list) list" where
  "getClients c = chClients c"

definition getLastPaymentInfo :: "Cache \<Rightarrow> 32 word \<times> 64 word \<times> 64 word" where
  "getLastPaymentInfo c = (chLastHeight c, chLastPaidOn c, chLastCreatedOn c)"

definition getPendingPayments :: "int \<Rightarrow> int \<Rightarrow> string \<Rightarrow> Cache \<Rightarrow> (nat \<times> pendingPayment list) go" where
  "getPendingPayments first lastIx accountID c = pageOf first lastIx (entriesAt (chPending c) accountID)"

definition getArchivedPayments :: "int \<Rightarrow> int \<Rightarrow> string \<Rightarrow> Cache \<Rightarrow> (nat \<times> archivedPayment list) go" where
  "getArchivedPayments first lastIx accountID c = pageOf first lastIx (entriesAt (chArchived c) accountID)"

definition getArchivedPaymentsTotal :: "guiEnv \<Rightarrow> string \<Rightarrow> Cache \<Rightarrow> string" where
  "getArchivedPaymentsTotal g accountID c = amount g (totalAt (chArchivedTotals c) accountID)"

definition getPendingPaymentsTotal :: "guiEnv \<Rightarrow> string \<Rightarrow> Cache \<Rightarrow> string" where
  "getPendingPaymentsTotal g accountID c = amount g (totalAt (chPendingTotals c) accountID)"

end
