(* ===== verification/Gui.thy ===== *)
theory Gui
  imports GuiCache
begin

text \<open>
  The web interface (\<open>internal/gui\<close>): the routes and their handlers (\<open>gui.go\<close>,
  \<open>index.go\<close>, \<open>account.go\<close>, \<open>admin.go\<close>, \<open>pagination.go\<close>), what runs before them
  (\<open>middleware.go\<close>), the sockets that are pushed updates (\<open>websocket.go\<close>) and the update of the
  cache. The functions of the configuration run on the state of the pool. A session is what the
  browser's cookie holds; whether the cookie is valid and can be saved, and whether a template
  executes, are arguments. A payload stands for its JSON text. The protection
  against forged requests and the file server of the assets are left out.
\<close>

section \<open>Configuration and state\<close>

record 'h guiConfig =
  gcSoloPool :: bool
  gcPaymentMethod :: string
  gcAdminPass :: string
  gcDomain :: string
  gcActiveNetName :: string
  gcBlockExplorerURL :: string
  gcDesignation :: string
  gcPoolFee :: gofloat
  gcMinerListen :: string
  gcGUIListen :: string
  gcUseLEHTTPS :: bool
  gcNoGUITLS :: bool
  gcWithinLimit :: "string \<Rightarrow> int \<Rightarrow> 'h \<Rightarrow> bool \<times> 'h"
  gcFetchLastWorkHeight :: "'h \<Rightarrow> 32 word"
  gcFetchLastPaymentInfo :: "'h \<Rightarrow> (32 word \<times> 64 word \<times> 64 word) go"
  gcFetchMinedWork :: "'h \<Rightarrow> AcceptedWork list go"
  gcFetchWorkQuotas :: "('h, goerror, (string \<times> rat) list) comp"
  gcHTTPBackupDB :: "('h \<Rightarrow> bytes go) option"
  gcFetchHashData :: "('h, goerror, (string \<times> HashData list) list) comp"
  gcAccountExists :: "string \<Rightarrow> 'h \<Rightarrow> bool"
  gcFetchArchivedPayments :: "'h \<Rightarrow> Payment list go"
  gcFetchPendingPayments :: "'h \<Rightarrow> Payment list go"
  gcRenders :: "string \<Rightarrow> bool"

record payload =
  plPoolHashRate :: string
  plLastWorkHeight :: "32 word"
  plLastPaymentHeight :: "32 word"

definition noPayload :: payload where
  "noPayload = \<lparr>plPoolHashRate = [], plLastWorkHeight = 0, plLastPaymentHeight = 0\<rparr>"

record 'h GUI =
  uiCache :: Cache
  uiSockets :: "nat list"
  uiPushed :: "(nat \<times> payload) list"
  uiPool :: 'h

record session =
  sessID :: string
  sessIsAdmin :: bool

record request =
  FormValue :: "string \<Rightarrow> string"
  rqSaves :: bool

section \<open>Responses\<close>

record headerData =
  hdDesignation :: string
  hdShowMenu :: bool
  hdSoloPool :: bool

record poolStatsData =
  psSoloPool :: bool
  psPoolFee :: gofloat
  psNetwork :: string
  psPaymentMethod :: string
  psLastWorkHeight :: "32 word"
  psLastPaymentHeight :: "32 word"
  psPoolHashRate :: string

record indexPageData =
  ixHeader :: headerData
  ixPoolStats :: poolStatsData
  ixMinerPort :: string
  ixMinedWork :: "minedWork list"
  ixRewardQuotas :: "rewardQuota list"
  ixAddress :: string
  ixModalError :: string

record accountPageData =
  acHeader :: headerData
  acMinedWork :: "minedWork list"
  acArchivedTotal :: string
  acArchived :: "archivedPayment list"
  acPendingTotal :: string
  acPending :: "pendingPayment list"
  acClients :: "guiClient list"
  acAccountID :: string
  acPageAddress :: string
  acBlockExplorerURL :: string

record adminPageData =
  adHeader :: headerData
  adPoolStats :: poolStatsData
  adClients :: "(string \<times> guiClient list) list"
  adArchivedTotal :: string
  adArchived :: "archivedPayment list"
  adPendingTotal :: string
  adPending :: "pendingPayment list"
  adBackupAvailable :: bool

datatype page = IndexPage indexPageData | AccountPage accountPageData | AdminPage adminPageData

datatype entries = WorkEntries "minedWork list" | QuotaEntries "rewardQuota list" | ClientEntries "guiClient list"
  | PendingEntries "pendingPayment list" | ArchivedEntries "archivedPayment list"

datatype response = Status nat | HttpError string nat | Redirect string | Rendered page | Json nat entries | BackupFile bytes

definition StatusOK :: nat where "StatusOK = 200"
definition StatusBadRequest :: nat where "StatusBadRequest = 400"
definition StatusUnauthorized :: nat where "StatusUnauthorized = 401"
definition StatusNotFound :: nat where "StatusNotFound = 404"
definition StatusMethodNotAllowed :: nat where "StatusMethodNotAllowed = 405"
definition StatusTooManyRequests :: nat where "StatusTooManyRequests = 429"
definition StatusInternalServerError :: nat where "StatusInternalServerError = 500"

type_synonym 'h handler = "(session \<times> 'h GUI, goerror, response) comp"

definition onUI :: "('h GUI \<Rightarrow> response) \<Rightarrow> 'h handler" where
  "onUI f = readc (\<lambda>(session, ui). Ok (f ui))"

definition renderTemplate :: "'h guiConfig \<Rightarrow> string \<Rightarrow> page \<Rightarrow> response" where
  "renderTemplate cfg name data =
     (if gcRenders cfg name then Rendered data else HttpError ''template error'' StatusInternalServerError)"

section \<open>Pages\<close>

text \<open>\<open>net.SplitHostPort\<close> and \<open>net.JoinHostPort\<close>.\<close>

definition indexOf :: "char \<Rightarrow> string \<Rightarrow> nat option" where
  "indexOf c s = (if c \<in> set s then Some (length (takeWhile (\<lambda>x. x \<noteq> c) s)) else None)"

definition lastIndexOf :: "char \<Rightarrow> string \<Rightarrow> nat option" where
  "lastIndexOf c s = map_option (\<lambda>i. length s - 1 - i) (indexOf c (rev s))"

definition SplitHostPort :: "string \<Rightarrow> (string \<times> string) option" where
  "SplitHostPort hostport = (case lastIndexOf CHR '':'' hostport of
     None \<Rightarrow> None
   | Some i \<Rightarrow>
       (let parts = (if hd hostport = CHR ''['' then
              (case indexOf CHR '']'' hostport of
                 None \<Rightarrow> None
               | Some rb \<Rightarrow> if rb + 1 = i then Some (take (rb - 1) (drop 1 hostport), 1, rb + 1) else None)
            else if CHR '':'' \<in> set (take i hostport) then None else Some (take i hostport, 0, 0))
        in case parts of
             None \<Rightarrow> None
           | Some (host, j, k) \<Rightarrow>
               if CHR ''['' \<in> set (drop j hostport) \<or> CHR '']'' \<in> set (drop k hostport) then None
               else Some (host, drop (i + 1) hostport)))"

definition JoinHostPort :: "string \<Rightarrow> string \<Rightarrow> string" where
  "JoinHostPort host port =
     (if CHR '':'' \<in> set host then ''['' @ host @ '']:'' @ port else host @ '':'' @ port)"

text \<open>The entries of a getter whose error and count the handlers ignore.\<close>

definition entriesOf :: "(nat \<times> 'a list) go \<Rightarrow> ('a list \<Rightarrow> 'r go) \<Rightarrow> 'r go" where
  "entriesOf res f = (case res of Ok (_, xs) \<Rightarrow> f xs | Err _ \<Rightarrow> f [] | Panic \<Rightarrow> Panic)"

definition guiHeader :: "'h guiConfig \<Rightarrow> bool \<Rightarrow> headerData" where
  "guiHeader cfg showMenu = \<lparr>hdDesignation = gcDesignation cfg, hdShowMenu = showMenu, hdSoloPool = gcSoloPool cfg\<rparr>"

definition poolStats :: "'h guiConfig \<Rightarrow> 'h GUI \<Rightarrow> poolStatsData" where
  "poolStats cfg ui = (case getLastPaymentInfo (uiCache ui) of (lastPmtHt, _, _) \<Rightarrow>
     \<lparr>psSoloPool = gcSoloPool cfg, psPoolFee = gcPoolFee cfg, psNetwork = gcActiveNetName cfg,
      psPaymentMethod = gcPaymentMethod cfg, psLastWorkHeight = gcFetchLastWorkHeight cfg (uiPool ui),
      psLastPaymentHeight = lastPmtHt, psPoolHashRate = getPoolHash (uiCache ui)\<rparr>)"

definition renderIndex :: "'h guiConfig \<Rightarrow> string \<Rightarrow> 'h GUI \<Rightarrow> response go" where
  "renderIndex cfg modalError ui =
     entriesOf (getConfirmedMinedWork 0 9 (uiCache ui)) (\<lambda>confirmedWork.
     entriesOf (getRewardQuotas 0 9 (uiCache ui)) (\<lambda>rewardQuotas.
     Ok (renderTemplate cfg ''index'' (IndexPage
       \<lparr>ixHeader = guiHeader cfg True, ixPoolStats = poolStats cfg ui,
        ixMinerPort = (case SplitHostPort (gcMinerListen cfg) of Some (_, minerPort) \<Rightarrow> minerPort | None \<Rightarrow> []),
        ixMinedWork = confirmedWork, ixRewardQuotas = rewardQuotas,
        ixAddress = (if gcDomain cfg \<noteq> [] then gcDomain cfg else ''127.0.0.1''), ixModalError = modalError\<rparr>))))"

definition homepage :: "'h guiConfig \<Rightarrow> 'h handler" where
  "homepage cfg = readc (\<lambda>(session, ui). renderIndex cfg [] ui)"

definition account :: "(bytes \<Rightarrow> bytes) \<Rightarrow> guiEnv \<Rightarrow> 'h guiConfig \<Rightarrow> request \<Rightarrow> 'h handler" where
  "account hash g cfg r = readc (\<lambda>(session, ui).
     let address = FormValue r ''address''; accountID = AccountID hash address; c = uiCache ui in
     if address = [] then renderIndex cfg ''No address provided'' ui
     else if \<not> gcAccountExists cfg accountID (uiPool ui) then renderIndex cfg ''Nothing found for address'' ui
     else
       entriesOf (getMinedWorkByAccount 0 9 accountID c) (\<lambda>recentWork.
       entriesOf (getPendingPayments 0 9 accountID c) (\<lambda>pendingPmts.
       entriesOf (getArchivedPayments 0 9 accountID c) (\<lambda>archivedPmts.
       entriesOf (getClientsForAccount 0 9 accountID c) (\<lambda>clients.
       Ok (renderTemplate cfg ''account'' (AccountPage
         \<lparr>acHeader = guiHeader cfg True, acMinedWork = recentWork, acArchivedTotal = getArchivedPaymentsTotal g accountID c,
          acArchived = archivedPmts, acPendingTotal = getPendingPaymentsTotal g accountID c, acPending = pendingPmts,
          acClients = clients, acAccountID = accountID, acPageAddress = address,
          acBlockExplorerURL = gcBlockExplorerURL cfg\<rparr>)))))))"

definition isPoolAccount :: "(bytes \<Rightarrow> bytes) \<Rightarrow> 'h guiConfig \<Rightarrow> request \<Rightarrow> 'h handler" where
  "isPoolAccount hash cfg r = onUI (\<lambda>ui.
     if gcAccountExists cfg (AccountID hash (FormValue r ''address'')) (uiPool ui) then Status StatusOK else Status StatusNotFound)"

section \<open>Administration\<close>

definition adminPage :: "guiEnv \<Rightarrow> 'h guiConfig \<Rightarrow> 'h handler" where
  "adminPage g cfg = readc (\<lambda>(session, ui). let c = uiCache ui in
     if \<not> sessIsAdmin session then Ok (Redirect ''/'')
     else
       entriesOf (getPendingPayments 0 9 PoolFeesK c) (\<lambda>pendingPmts.
       entriesOf (getArchivedPayments 0 9 PoolFeesK c) (\<lambda>archivedPmts.
       Ok (renderTemplate cfg ''admin'' (AdminPage
         \<lparr>adHeader = guiHeader cfg False, adPoolStats = poolStats cfg ui, adClients = getClients c,
          adArchivedTotal = getArchivedPaymentsTotal g PoolFeesK c, adArchived = archivedPmts,
          adPendingTotal = getPendingPaymentsTotal g PoolFeesK c, adPending = pendingPmts,
          adBackupAvailable = (gcHTTPBackupDB cfg \<noteq> None)\<rparr>)))))"

text \<open>A session that cannot be saved is logged; the response is then the empty one with status 200.\<close>

definition adminLogin :: "'h guiConfig \<Rightarrow> request \<Rightarrow> 'h handler" where
  "adminLogin cfg r = (\<lambda>(session, ui).
     if gcAdminPass cfg \<noteq> FormValue r ''password''
     then (Ok (HttpError ''Incorrect password'' StatusUnauthorized), (session, ui))
     else (Ok (Status StatusOK), (if rqSaves r then session\<lparr>sessIsAdmin := True\<rparr> else session, ui)))"

definition adminLogout :: "request \<Rightarrow> 'h handler" where
  "adminLogout r = (\<lambda>(session, ui).
     if rqSaves r then (Ok (Redirect ''/''), (session\<lparr>sessIsAdmin := False\<rparr>, ui))
     else (Ok (Status StatusOK), (session, ui)))"

text \<open>Without a backup function the call is a nil dereference.\<close>

definition downloadDatabaseBackup :: "'h guiConfig \<Rightarrow> 'h handler" where
  "downloadDatabaseBackup cfg = readc (\<lambda>(session, ui).
     if \<not> sessIsAdmin session then Ok (HttpError ''Not authenticated'' StatusUnauthorized)
     else case gcHTTPBackupDB cfg of
       None \<Rightarrow> Panic
     | Some backup \<Rightarrow> (case backup (uiPool ui) of
         Ok file \<Rightarrow> Ok (BackupFile file) | Err _ \<Rightarrow> Ok (Status StatusInternalServerError) | Panic \<Rightarrow> Panic))"

section \<open>Pagination\<close>

definition Atoi :: "string \<Rightarrow> int go" where
  "Atoi s = (case parseInt s of Some i \<Rightarrow> if in_i64 i then Ok i else Err Foreign | None \<Rightarrow> Err Foreign)"

definition getPaginationParams :: "request \<Rightarrow> (int \<times> int) go" where
  "getPaginationParams r =
     bnd (Atoi (FormValue r ''pageNumber'')) (\<lambda>pageNumber.
     bnd (Atoi (FormValue r ''pageSize'')) (\<lambda>pageSize.
     if pageNumber < 1 \<or> pageSize < 1 then Err Foreign
     else let first = i64 ((pageNumber - 1) * pageSize); lastIx = i64 (first + pageSize) in Ok (first, lastIx)))"

definition paginated :: "request \<Rightarrow> (int \<Rightarrow> int \<Rightarrow> Cache \<Rightarrow> (nat \<times> 'a list) go) \<Rightarrow> ('a list \<Rightarrow> entries) \<Rightarrow> 'h handler" where
  "paginated r get kind = readc (\<lambda>(session, ui).
     case bnd (getPaginationParams r) (\<lambda>(first, lastIx). get first lastIx (uiCache ui)) of
       Ok (n, xs) \<Rightarrow> Ok (Json n (kind xs))
     | Err _ \<Rightarrow> Ok (Status StatusBadRequest)
     | Panic \<Rightarrow> Panic)"

definition paginatedBlocks :: "request \<Rightarrow> 'h handler" where
  "paginatedBlocks r = paginated r getConfirmedMinedWork WorkEntries"

definition paginatedRewardQuotas :: "request \<Rightarrow> 'h handler" where
  "paginatedRewardQuotas r = paginated r getRewardQuotas QuotaEntries"

definition paginatedBlocksByAccount :: "string \<Rightarrow> request \<Rightarrow> 'h handler" where
  "paginatedBlocksByAccount accountID r = paginated r (\<lambda>first lastIx. getMinedWorkByAccount first lastIx accountID) WorkEntries"

definition paginatedClientsByAccount :: "string \<Rightarrow> request \<Rightarrow> 'h handler" where
  "paginatedClientsByAccount accountID r = paginated r (\<lambda>first lastIx. getClientsForAccount first lastIx accountID) ClientEntries"

definition paginatedPendingPaymentsByAccount :: "string \<Rightarrow> request \<Rightarrow> 'h handler" where
  "paginatedPendingPaymentsByAccount accountID r =
     paginated r (\<lambda>first lastIx. getPendingPayments first lastIx accountID) PendingEntries"

definition paginatedArchivedPaymentsByAccount :: "string \<Rightarrow> request \<Rightarrow> 'h handler" where
  "paginatedArchivedPaymentsByAccount accountID r =
     paginated r (\<lambda>first lastIx. getArchivedPayments first lastIx accountID) ArchivedEntries"

definition adminOnly :: "'h handler \<Rightarrow> 'h handler" where
  "adminOnly h = (\<lambda>(session, ui).
     if sessIsAdmin session then h (session, ui) else (Ok (Status StatusUnauthorized), (session, ui)))"

definition paginatedArchivedPoolPayments :: "request \<Rightarrow> 'h handler" where
  "paginatedArchivedPoolPayments r =
     adminOnly (paginated r (\<lambda>first lastIx. getArchivedPayments first lastIx PoolFeesK) ArchivedEntries)"

definition paginatedPendingPoolPayments :: "request \<Rightarrow> 'h handler" where
  "paginatedPendingPoolPayments r =
     adminOnly (paginated r (\<lambda>first lastIx. getPendingPayments first lastIx PoolFeesK) PendingEntries)"

section \<open>Sockets\<close>

text \<open>Upgrading the connection of a request gives a socket, or has already answered with an error
  status. A socket that cannot be written to is closed and forgotten.\<close>

definition registerClient :: "nat + nat \<Rightarrow> 'h handler" where
  "registerClient upgrade = (\<lambda>(session, ui). case upgrade of
     Inl status \<Rightarrow> (Ok (Status status), (session, ui))
   | Inr ws \<Rightarrow> (Ok (Status 101), (session, ui\<lparr>uiSockets := uiSockets ui @ [ws]\<rparr>)))"

definition send_ws :: "(nat \<Rightarrow> bool) \<Rightarrow> payload \<Rightarrow> 'h GUI \<Rightarrow> 'h GUI" where
  "send_ws writeOk p ui = (let open_ws = filter writeOk (uiSockets ui) in
     ui\<lparr>uiSockets := open_ws, uiPushed := uiPushed ui @ map (\<lambda>ws. (ws, p)) open_ws\<rparr>)"

section \<open>Routes\<close>

datatype httpMethod = GET | HEAD | POST

text \<open>The path is the list of its segments; \<open>{accountID}\<close> is any nonempty segment.\<close>

definition routeAccount :: "httpMethod \<Rightarrow> string \<Rightarrow> string list \<Rightarrow> request \<Rightarrow> 'h handler option" where
  "routeAccount m accountID rest r =
     (if m \<noteq> GET \<or> accountID = [] then None
      else if rest = [''blocks''] then Some (paginatedBlocksByAccount accountID r)
      else if rest = [''clients''] then Some (paginatedClientsByAccount accountID r)
      else if rest = [''payments'', ''pending''] then Some (paginatedPendingPaymentsByAccount accountID r)
      else if rest = [''payments'', ''archived''] then Some (paginatedArchivedPaymentsByAccount accountID r)
      else None)"

definition route :: "(bytes \<Rightarrow> bytes) \<Rightarrow> guiEnv \<Rightarrow> 'h guiConfig \<Rightarrow> nat + nat \<Rightarrow> httpMethod \<Rightarrow> string list \<Rightarrow> request
    \<Rightarrow> 'h handler option" where
  "route hash g cfg upgrade m path r =
     (if m = GET \<and> path = [] then Some (homepage cfg)
      else if m = GET \<and> path = [''account''] then Some (account hash g cfg r)
      else if m = HEAD \<and> path = [''account''] then Some (isPoolAccount hash cfg r)
      else if m = GET \<and> path = [''admin''] then Some (adminPage g cfg)
      else if m = POST \<and> path = [''admin''] then Some (adminLogin cfg r)
      else if m = POST \<and> path = [''backup''] then Some (downloadDatabaseBackup cfg)
      else if m = POST \<and> path = [''logout''] then Some (adminLogout r)
      else if m = GET \<and> path = [''blocks''] then Some (paginatedBlocks r)
      else if m = GET \<and> path = [''rewardquotas''] then Some (paginatedRewardQuotas r)
      else if m = GET \<and> path = [''admin'', ''payments'', ''pending''] then Some (paginatedPendingPoolPayments r)
      else if m = GET \<and> path = [''admin'', ''payments'', ''archived''] then Some (paginatedArchivedPoolPayments r)
      else if m = GET \<and> path = [''ws''] then
        Some (registerClient upgrade)
      else (case path of a # accountID # rest \<Rightarrow> if a = ''account'' then routeAccount m accountID rest r else None | _ \<Rightarrow> None))"

section \<open>Middleware\<close>

text \<open>What the cookie store makes of the cookie of a request: a session, a new session for a value
  signed with another secret, or another error.\<close>

datatype cookie = Valid session | Replaced session | Broken

definition rateLimitMiddleware :: "'h guiConfig \<Rightarrow> 'h handler \<Rightarrow> 'h handler" where
  "rateLimitMiddleware cfg nxt = (\<lambda>(session, ui).
     case gcWithinLimit cfg (sessID session) GUIClient (uiPool ui) of (ok, pool) \<Rightarrow>
       if ok then nxt (session, ui\<lparr>uiPool := pool\<rparr>)
       else (Ok (HttpError ''Request limit exceeded'' StatusTooManyRequests), (session, ui\<lparr>uiPool := pool\<rparr>)))"

definition sessionMiddleware :: "cookie \<Rightarrow> request \<Rightarrow> 'h handler \<Rightarrow> session \<times> 'h GUI \<Rightarrow> response go \<times> session \<times> 'h GUI" where
  "sessionMiddleware cookie r nxt = (\<lambda>(browser, ui). case cookie of
     Valid session \<Rightarrow> nxt (session, ui)
   | Replaced session \<Rightarrow> if rqSaves r then nxt (session, ui)
       else (Ok (HttpError ''Session error'' StatusInternalServerError), (browser, ui))
   | Broken \<Rightarrow> (Ok (HttpError ''Session error'' StatusInternalServerError), (browser, ui)))"

text \<open>A request without a route is answered by the router, and no middleware runs: the method is not
  allowed when the path has a route for another one.\<close>

definition noRoute :: "(httpMethod \<Rightarrow> 'h handler option) \<Rightarrow> response" where
  "noRoute routes = (if \<exists>m \<in> set [GET, HEAD, POST]. routes m \<noteq> None then Status StatusMethodNotAllowed
     else HttpError ''404 page not found'' StatusNotFound)"

definition serve :: "(bytes \<Rightarrow> bytes) \<Rightarrow> guiEnv \<Rightarrow> 'h guiConfig \<Rightarrow> nat + nat \<Rightarrow> cookie \<Rightarrow> httpMethod \<Rightarrow> string list \<Rightarrow> request
    \<Rightarrow> 'h handler" where
  "serve hash g cfg upgrade cookie m path r = (\<lambda>(browser, ui). case route hash g cfg upgrade m path r of
     None \<Rightarrow> (Ok (noRoute (\<lambda>m. route hash g cfg upgrade m path r)), (browser, ui))
   | Some h \<Rightarrow> sessionMiddleware cookie r (rateLimitMiddleware cfg h) (browser, ui))"

section \<open>Creation and updates\<close>

definition emptyCache :: "string \<Rightarrow> Cache" where
  "emptyCache url = \<lparr>blockExplorerURL = url, chMinedWork = [], chRewardQuotas = [], chPoolHash = [], chClients = [],
     chPending = [], chPendingTotals = [], chArchived = [], chArchivedTotals = [], chLastHeight = 0, chLastPaidOn = 0,
     chLastCreatedOn = 0\<rparr>"

definition initCache :: "guiEnv \<Rightarrow> 'h guiConfig \<Rightarrow> ('h, goerror, Cache) comp" where
  "initCache g cfg =
     bndc (readc (gcFetchMinedWork cfg)) (\<lambda>work.
     bndc (gcFetchWorkQuotas cfg) (\<lambda>quotas.
     bndc (gcFetchHashData cfg) (\<lambda>hashData.
     bndc (readc (gcFetchPendingPayments cfg)) (\<lambda>pendingPmts.
     bndc (readc (gcFetchArchivedPayments cfg)) (\<lambda>archivedPmts.
     bndc (readc (gcFetchLastPaymentInfo cfg)) (\<lambda>(lastPmtHeight, lastPmtPaidOn, lastPmtCreatedOn).
     retc (updateLastPaymentInfo lastPmtHeight lastPmtPaidOn lastPmtCreatedOn
       (updatePayments g pendingPmts archivedPmts (updateHashData_gui g hashData
       (updateRewardQuotas g quotas (updateMinedWork work (emptyCache (gcBlockExplorerURL cfg)))))))))))))"

datatype guiEvent = Tick | Signal CacheUpdateEvent

definition onPool :: "('h, goerror, 'a) comp \<Rightarrow> ('h GUI, goerror, 'a) comp" where
  "onPool m = (\<lambda>ui. case m (uiPool ui) of (res, pool) \<Rightarrow> (res, ui\<lparr>uiPool := pool\<rparr>))"

definition setCache :: "(Cache \<Rightarrow> Cache) \<Rightarrow> ('h GUI, goerror, unit) comp" where
  "setCache f = modc (\<lambda>ui. ui\<lparr>uiCache := f (uiCache ui)\<rparr>)"

text \<open>An error is logged, and the loop goes on with the next event.\<close>

definition updateStep :: "guiEnv \<Rightarrow> 'h guiConfig \<Rightarrow> (nat \<Rightarrow> bool) \<Rightarrow> guiEvent \<Rightarrow> ('h GUI, goerror, unit) comp" where
  "updateStep g cfg writeOk event = (case event of
     Tick \<Rightarrow>
       bndc (onPool (gcFetchHashData cfg)) (\<lambda>hashData.
       bndc (setCache (updateHashData_gui g hashData)) (\<lambda>_.
       modc (\<lambda>ui. send_ws writeOk (noPayload\<lparr>plPoolHashRate := getPoolHash (uiCache ui)\<rparr>) ui)))
   | Signal Confirmed \<Rightarrow>
       bndc (onPool (readc (gcFetchMinedWork cfg))) (\<lambda>work.
       bndc (setCache (updateMinedWork work)) (\<lambda>_.
       modc (\<lambda>ui. send_ws writeOk (noPayload\<lparr>plLastWorkHeight := gcFetchLastWorkHeight cfg (uiPool ui)\<rparr>) ui)))
   | Signal Unconfirmed \<Rightarrow>
       bndc (onPool (readc (gcFetchMinedWork cfg))) (\<lambda>work.
       bndc (setCache (updateMinedWork work)) (\<lambda>_.
       modc (\<lambda>ui. send_ws writeOk (noPayload\<lparr>plLastWorkHeight := gcFetchLastWorkHeight cfg (uiPool ui)\<rparr>) ui)))
   | Signal ClaimedShare \<Rightarrow>
       bndc (onPool (gcFetchWorkQuotas cfg)) (\<lambda>quotas. setCache (updateRewardQuotas g quotas))
   | Signal DividendsPaid \<Rightarrow>
       bndc (onPool (readc (gcFetchPendingPayments cfg))) (\<lambda>pendingPayments.
       bndc (onPool (readc (gcFetchArchivedPayments cfg))) (\<lambda>archivedPayments.
       bndc (setCache (updatePayments g pendingPayments archivedPayments)) (\<lambda>_.
       bndc (onPool (readc (gcFetchLastPaymentInfo cfg))) (\<lambda>(lastPmtHeight, lastPmtPaidOn, lastPmtCreatedOn).
       bndc (setCache (updateLastPaymentInfo lastPmtHeight lastPmtPaidOn lastPmtCreatedOn)) (\<lambda>_.
       modc (send_ws writeOk (noPayload\<lparr>plLastPaymentHeight := lastPmtHeight\<rparr>))))))))"

definition updateCacheAndNotifyWebsocketClients ::
    "guiEnv \<Rightarrow> 'h guiConfig \<Rightarrow> (nat \<Rightarrow> bool) \<Rightarrow> guiEvent list \<Rightarrow> ('h GUI, goerror, unit) comp" where
  "updateCacheAndNotifyWebsocketClients g cfg writeOk events = forc events (\<lambda>event ui.
     case updateStep g cfg writeOk event ui of (Err _, ui) \<Rightarrow> (Ok (), ui) | r \<Rightarrow> r)"

text \<open>The files below a directory in the order of \<open>filepath.Walk\<close>, which may fail: path, name and
  whether it is a directory. The files of the templates are parsed.\<close>

record guiOs =
  goWalk :: "(string \<times> string \<times> bool) list option"
  goParseFiles :: "string list \<Rightarrow> bool"
  goLoadKeyPair :: bool
  goListen :: "bool \<Rightarrow> string \<Rightarrow> bool"

definition HasSuffix :: "string \<Rightarrow> string \<Rightarrow> bool" where
  "HasSuffix s suff \<longleftrightarrow> drop (length s - length suff) s = suff"

definition loadTemplates :: "guiOs \<Rightarrow> unit go" where
  "loadTemplates os = (case goWalk os of
     None \<Rightarrow> Err Foreign
   | Some files \<Rightarrow>
       if goParseFiles os (map fst (filter (\<lambda>(_, name, isDir). \<not> isDir \<and> HasSuffix name ''.html'') files)) then Ok ()
       else Err Foreign)"

text \<open>The listener uses TLS unless that is turned off; with certificates from Let's Encrypt it
  is that of the https port.\<close>

definition guiListener :: "guiOs \<Rightarrow> 'h guiConfig \<Rightarrow> unit go" where
  "guiListener os cfg =
     (let (tls, listenAddr) =
        (if gcUseLEHTTPS cfg then (True, '':https'') else if gcNoGUITLS cfg then (False, gcGUIListen cfg) else (True, gcGUIListen cfg))
      in if \<not> gcUseLEHTTPS cfg \<and> \<not> gcNoGUITLS cfg \<and> \<not> goLoadKeyPair os then Err Foreign
         else if goListen os tls listenAddr then Ok () else Err Foreign)"

definition NewGUI :: "guiOs \<Rightarrow> guiEnv \<Rightarrow> 'h guiConfig \<Rightarrow> 'h \<Rightarrow> 'h GUI go \<times> 'h" where
  "NewGUI os g cfg =
     bndc (liftc (guiListener os cfg)) (\<lambda>_.
     bndc (liftc (loadTemplates os)) (\<lambda>_.
     bndc (initCache g cfg) (\<lambda>cache pool.
     (Ok \<lparr>uiCache = cache, uiSockets = [], uiPushed = [], uiPool = pool\<rparr>, pool))))"

end
