(* ===== verification/Config.thy ===== *)
theory Config
  imports Gui
begin

text \<open>
  The start of the pool: its configuration (\<open>config.go\<close>, \<open>params.go\<close>, the log levels of
  \<open>log.go\<close>) and how \<open>dcrpool.go\<close> configures hub and web interface with it. The flags parser, the
  certificate generator, the decoding of addresses and the log levels are packages, and arguments;
  so are the environment, the home directories and which writes the file system accepts. Paths are
  Unix paths. Durations are in nanoseconds.
\<close>

section \<open>Paths\<close>

text \<open>\<open>filepath.Clean\<close> and \<open>filepath.Join\<close>.\<close>

fun cleanSegs :: "bool \<Rightarrow> string list \<Rightarrow> string list \<Rightarrow> string list" where
  "cleanSegs rooted [] out = rev out"
| "cleanSegs rooted (seg # segs) out =
     (if seg = [] \<or> seg = ''.'' then cleanSegs rooted segs out
      else if seg = ''..'' then
        (case out of
           o1 # out' \<Rightarrow> if o1 = ''..'' then cleanSegs rooted segs (seg # out) else cleanSegs rooted segs out'
         | [] \<Rightarrow> if rooted then cleanSegs rooted segs [] else cleanSegs rooted segs [seg])
      else cleanSegs rooted segs (seg # out))"

definition joinSegs :: "string list \<Rightarrow> string" where
  "joinSegs segs = concat (case segs of [] \<Rightarrow> [] | s # ss \<Rightarrow> s # map (\<lambda>x. ''/'' @ x) ss)"

definition Clean :: "string \<Rightarrow> string" where
  "Clean path = (case path of
     [] \<Rightarrow> ''.''
   | c # _ \<Rightarrow> (let rooted = (c = CHR ''/''); body = joinSegs (cleanSegs rooted (splitOn CHR ''/'' path) []) in
       if rooted then ''/'' @ body else if body = [] then ''.'' else body))"

definition Join :: "string \<Rightarrow> string \<Rightarrow> string" where
  "Join a b = (if a = [] \<and> b = [] then [] else if a = [] then Clean b else if b = [] then Clean a else Clean (a @ ''/'' @ b))"

section \<open>The host\<close>

record osLib =
  oAbs :: "string \<Rightarrow> string"
  oExpandEnv :: "string \<Rightarrow> string"
  oHomeOf :: "string \<Rightarrow> string option"
  oMkdirAll :: "string \<Rightarrow> bool"
  oNewCertPair :: bool
  oWriteFile :: "string \<Rightarrow> bool"
  oReadFile :: "string \<Rightarrow> bytes option"
  oLevelFromString :: "string \<Rightarrow> bool"
  oDecodeAddress :: "string \<Rightarrow> string \<Rightarrow> bool"

record host =
  hoFiles :: "string \<Rightarrow> bool"
  hoLevels :: "string \<Rightarrow> string option"

text \<open>A start that ends: with the name of the option or step at fault, or with an exit status.\<close>

datatype startError = Fails string | Exits nat

type_synonym 'a start = "(host, startError, 'a) comp"

definition fileExists :: "string \<Rightarrow> host \<Rightarrow> bool" where
  "fileExists name h = hoFiles h name"

definition writeFile :: "osLib \<Rightarrow> string \<Rightarrow> string \<Rightarrow> unit start" where
  "writeFile os name what = (\<lambda>h. if oWriteFile os name then (Ok (), h\<lparr>hoFiles := (hoFiles h)(name := True)\<rparr>)
     else (Err (Fails what), h))"

definition mkdirAll :: "osLib \<Rightarrow> string \<Rightarrow> string \<Rightarrow> unit start" where
  "mkdirAll os dir what = (\<lambda>h. if oMkdirAll os dir then (Ok (), h\<lparr>hoFiles := (hoFiles h)(dir := True)\<rparr>)
     else (Err (Fails what), h))"

text \<open>A certificate whose key cannot be written is removed again.\<close>

definition genCertPair :: "osLib \<Rightarrow> string \<Rightarrow> string \<Rightarrow> string \<Rightarrow> unit start" where
  "genCertPair os certFile keyFile what = (\<lambda>h.
     if \<not> oNewCertPair os \<or> \<not> oWriteFile os certFile then (Err (Fails what), h)
     else if \<not> oWriteFile os keyFile then (Err (Fails what), h\<lparr>hoFiles := (hoFiles h)(certFile := False)\<rparr>)
     else (Ok (), h\<lparr>hoFiles := (hoFiles h)(certFile := True, keyFile := True)\<rparr>))"

definition cleanAndExpandPath :: "osLib \<Rightarrow> string \<Rightarrow> string" where
  "cleanAndExpandPath os path = (if path = [] then path else
     case oExpandEnv os path of
       [] \<Rightarrow> Clean []
     | c # rest \<Rightarrow> if c \<noteq> CHR ''~'' then Clean (c # rest) else
         (let userName = (case indexOf CHR ''/'' rest of None \<Rightarrow> [] | Some i \<Rightarrow> take i rest);
              path = (case indexOf CHR ''/'' rest of None \<Rightarrow> rest | Some i \<Rightarrow> drop i rest);
              homeDir = (case oHomeOf os userName of None \<Rightarrow> [] | Some d \<Rightarrow> d)
          in Join (if homeDir = [] then ''.'' else homeDir) path))"

definition normalizeAddress :: "string \<Rightarrow> string \<Rightarrow> string" where
  "normalizeAddress addr defaultPort =
     (case SplitHostPort addr of None \<Rightarrow> JoinHostPort addr defaultPort | Some _ \<Rightarrow> addr)"

section \<open>Log levels\<close>

definition subsystemLoggers :: "string list" where
  "subsystemLoggers = [''MP'', ''NET'', ''GUI'']"

definition validLogLevel :: "osLib \<Rightarrow> string \<Rightarrow> bool" where
  "validLogLevel os logLevel = oLevelFromString os logLevel"

text \<open>The two programs have different loggers and treat them alike.\<close>

definition setLogLevel :: "string list \<Rightarrow> string \<Rightarrow> string \<Rightarrow> host \<Rightarrow> host" where
  "setLogLevel loggers subsystemID logLevel h =
     (if subsystemID \<in> set loggers then h\<lparr>hoLevels := (hoLevels h)(subsystemID \<mapsto> logLevel)\<rparr> else h)"

definition setLogLevels :: "string list \<Rightarrow> string \<Rightarrow> host \<Rightarrow> host" where
  "setLogLevels loggers logLevel h = fold (\<lambda>subsystemID. setLogLevel loggers subsystemID logLevel) loggers h"

definition setLevelPair :: "osLib \<Rightarrow> string list \<Rightarrow> string \<Rightarrow> unit start" where
  "setLevelPair os loggers logLevelPair = (case splitOn CHR ''='' logLevelPair of
     subsysID # logLevel # _ \<Rightarrow>
       if subsysID \<notin> set loggers then failc (Fails ''debuglevel'')
       else if \<not> validLogLevel os logLevel then failc (Fails ''debuglevel'')
       else modc (setLogLevel loggers subsysID logLevel)
   | _ \<Rightarrow> failc (Fails ''debuglevel''))"

definition parseAndSetDebugLevels :: "osLib \<Rightarrow> string list \<Rightarrow> string \<Rightarrow> unit start" where
  "parseAndSetDebugLevels os loggers debugLevel =
     (if CHR '','' \<notin> set debugLevel \<and> CHR ''='' \<notin> set debugLevel then
        if \<not> validLogLevel os debugLevel then failc (Fails ''debuglevel'') else modc (setLogLevels loggers debugLevel)
      else forc (splitOn CHR '','' debugLevel) (setLevelPair os loggers))"

section \<open>Networks\<close>

record poolParams =
  ppParams :: Params
  ppMaturity :: "16 word"
  dcrdRPCServerPort :: string
  walletGRPCServerPort :: string
  ppExplorerURL :: string

text \<open>The parameters of the chains are a package.\<close>

record chaincfg =
  chMainNet :: "Params \<times> 16 word"
  chTestNet3 :: "Params \<times> 16 word"
  chSimNet :: "Params \<times> 16 word"

definition mainNetParams :: "chaincfg \<Rightarrow> poolParams" where
  "mainNetParams ch = \<lparr>ppParams = fst (chMainNet ch), ppMaturity = snd (chMainNet ch), dcrdRPCServerPort = ''9109'',
     walletGRPCServerPort = ''9111'', ppExplorerURL = ''https://dcrdata.decred.org''\<rparr>"

definition testNet3Params :: "chaincfg \<Rightarrow> poolParams" where
  "testNet3Params ch = \<lparr>ppParams = fst (chTestNet3 ch), ppMaturity = snd (chTestNet3 ch), dcrdRPCServerPort = ''19109'',
     walletGRPCServerPort = ''19111'', ppExplorerURL = ''https://testnet.dcrdata.org''\<rparr>"

definition simNetParams :: "chaincfg \<Rightarrow> poolParams" where
  "simNetParams ch = \<lparr>ppParams = fst (chSimNet ch), ppMaturity = snd (chSimNet ch), dcrdRPCServerPort = ''19556'',
     walletGRPCServerPort = ''19558'', ppExplorerURL = ''...''\<rparr>"

definition ppName :: "poolParams \<Rightarrow> string" where
  "ppName p = netName (ppParams p)"

section \<open>The configuration\<close>

record config =
  ShowVersion :: bool
  HomeDir :: string
  ConfigFile :: string
  DataDir :: string
  ActiveNet :: string
  GUIListen :: string
  DebugLevel :: string
  LogDir :: string
  DBFile :: string
  DcrdRPCHost :: string
  DcrdRPCCert :: string
  WalletGRPCHost :: string
  WalletRPCCert :: string
  RPCUser :: string
  RPCPass :: string
  cfPoolFeeAddrs :: "string list"
  cfPoolFee :: gofloat
  MaxGenTime :: int
  cfPaymentMethod :: string
  cfLastNPeriod :: "64 word"
  cfWalletPass :: string
  WalletAccount :: "32 word"
  cfSoloPool :: bool
  AdminPass :: string
  GUIDir :: string
  Domain :: string
  UseLEHTTPS :: bool
  GUITLSCert :: string
  GUITLSKey :: string
  WalletTLSCert :: string
  WalletTLSKey :: string
  Designation :: string
  MaxConnectionsPerHost :: "32 word"
  Profile :: string
  MinerListen :: string
  CoinbaseConfTimeout :: int
  GenCertsOnly :: bool
  UsePostgres :: bool
  PGHost :: string
  PGPort :: "32 word"
  PGUser :: string
  PGPass :: string
  PGDBName :: string
  PurgeDB :: bool
  cfMonitorCycle :: int
  cfMaxUpgradeTries :: "32 word"
  NoGUITLS :: bool
  feeAddrs :: "string list"
  cfDcrdRPCCerts :: bytes
  cfNet :: "poolParams option"
  clientTimeout :: int

definition sec :: int where "sec = 1000000000"

definition defaultConfigFilename :: string where "defaultConfigFilename = ''dcrpool.conf''"
definition defaultDataDirname :: string where "defaultDataDirname = ''data''"
definition defaultLogDirname :: string where "defaultLogDirname = ''log''"
definition defaultLogFilename :: string where "defaultLogFilename = ''dcrpool.log''"
definition defaultDBFilename :: string where "defaultDBFilename = ''dcrpool.kv''"
definition defaultGUITLSCertFilename :: string where "defaultGUITLSCertFilename = ''dcrpool.cert''"
definition defaultGUITLSKeyFilename :: string where "defaultGUITLSKeyFilename = ''dcrpool.key''"
definition defaultWalletTLSCertFilename :: string where "defaultWalletTLSCertFilename = ''wallet.cert''"
definition defaultWalletTLSKeyFilename :: string where "defaultWalletTLSKeyFilename = ''wallet.key''"
definition defaultMinerPort :: string where "defaultMinerPort = ''5550''"
definition defaultGUIPort :: string where "defaultGUIPort = ''8080''"

text \<open>The home directory is what \<open>dcrutil.AppDataDir\<close> returns.\<close>

definition defaultConfig :: "chaincfg \<Rightarrow> string \<Rightarrow> config" where
  "defaultConfig ch home = \<lparr>ShowVersion = False, HomeDir = home, ConfigFile = Join home defaultConfigFilename,
     DataDir = Join home defaultDataDirname, ActiveNet = ppName (simNetParams ch), GUIListen = ''0.0.0.0'', DebugLevel = ''info'',
     LogDir = Join home defaultLogDirname, DBFile = Join (Join home defaultDataDirname) defaultDBFilename,
     DcrdRPCHost = ''127.0.0.1'', DcrdRPCCert = [], WalletGRPCHost = ''127.0.0.1'', WalletRPCCert = [], RPCUser = [], RPCPass = [],
     cfPoolFeeAddrs = [], cfPoolFee = Finite (f64 (1 / 100)), MaxGenTime = 15 * sec, cfPaymentMethod = PPLNS,
     cfLastNPeriod = of_int (86400 * sec), cfWalletPass = [], WalletAccount = 0, cfSoloPool = False, AdminPass = [], GUIDir = ''gui'',
     Domain = [], UseLEHTTPS = False, GUITLSCert = Join home defaultGUITLSCertFilename, GUITLSKey = Join home defaultGUITLSKeyFilename,
     WalletTLSCert = Join home defaultWalletTLSCertFilename, WalletTLSKey = Join home defaultWalletTLSKeyFilename,
     Designation = ''YourPoolNameHere'', MaxConnectionsPerHost = 100, Profile = [], MinerListen = ''0.0.0.0'',
     CoinbaseConfTimeout = 300 * sec, GenCertsOnly = False, UsePostgres = False, PGHost = ''127.0.0.1'', PGPort = 5432,
     PGUser = ''dcrpooluser'', PGPass = ''12345'', PGDBName = ''dcrpooldb'', PurgeDB = False, cfMonitorCycle = 120 * sec,
     cfMaxUpgradeTries = 10, NoGUITLS = False, feeAddrs = [], cfDcrdRPCCerts = [], cfNet = None, clientTimeout = 0\<rparr>"

text \<open>A path that was left at its default follows the home directory.\<close>

definition updateHome :: "osLib \<Rightarrow> config \<Rightarrow> config \<Rightarrow> config" where
  "updateHome os pre cfg = (if HomeDir pre = [] then cfg else
     let home = oAbs os (HomeDir pre);
         follow = (\<lambda>sel dir name. if sel pre = sel cfg then Join dir name else sel pre);
         dataDir = follow DataDir home defaultDataDirname in
     cfg\<lparr>HomeDir := home, ConfigFile := follow ConfigFile home defaultConfigFilename, DataDir := dataDir,
       LogDir := follow LogDir home defaultLogDirname, DBFile := follow DBFile dataDir defaultDBFilename,
       GUITLSCert := follow GUITLSCert home defaultGUITLSCertFilename, GUITLSKey := follow GUITLSKey home defaultGUITLSKeyFilename,
       WalletTLSCert := follow WalletTLSCert home defaultWalletTLSCertFilename,
       WalletTLSKey := follow WalletTLSKey home defaultWalletTLSKeyFilename\<rparr>)"

definition requireThat :: "bool \<Rightarrow> string \<Rightarrow> unit start" where
  "requireThat ok what = (if ok then retc () else failc (Fails what))"

definition activeNet :: "chaincfg \<Rightarrow> config \<Rightarrow> poolParams option" where
  "activeNet ch cfg =
     (if ActiveNet cfg = ppName (testNet3Params ch) then Some (testNet3Params ch)
      else if ActiveNet cfg = ppName (mainNetParams ch) then Some (mainNetParams ch)
      else if ActiveNet cfg = ppName (simNetParams ch) then Some (simNetParams ch) else None)"

definition initLogRotator :: "osLib \<Rightarrow> string \<Rightarrow> string \<Rightarrow> unit start" where
  "initLogRotator os logDir name = (\<lambda>h.
     if oMkdirAll os logDir \<and> oWriteFile os (Join logDir name)
     then (Ok (), h\<lparr>hoFiles := (hoFiles h)(logDir := True, Join logDir name := True)\<rparr>)
     else (Err (Exits 1), h))"

text \<open>The checks of a pool that pays others.\<close>

definition minPoolFee :: rat where "minPoolFee = f64 (2 / 1000)"
definition maxPoolFee :: rat where "maxPoolFee = f64 (5 / 100)"

definition checkPublic :: "osLib \<Rightarrow> poolParams \<Rightarrow> config \<Rightarrow> config start" where
  "checkPublic os net cfg = (if cfSoloPool cfg then retc cfg else
     bndc (requireThat (cfPaymentMethod cfg = PPS \<or> cfPaymentMethod cfg = PPLNS) ''paymentmethod'') (\<lambda>_.
     bndc (requireThat (\<not> (float_less (cfPoolFee cfg) (Finite minPoolFee) \<or> float_less (Finite maxPoolFee) (cfPoolFee cfg))) ''poolfee'') (\<lambda>_.
     bndc (requireThat (cfWalletPass cfg \<noteq> []) ''walletpass'') (\<lambda>_.
     case cfPoolFeeAddrs cfg of
       [] \<Rightarrow> failc (Fails ''poolfeeaddrs'')
     | text1 # _ \<Rightarrow> if text1 = [] then failc (Fails ''poolfeeaddrs'') else
         let addrs = splitOn CHR '','' text1 in
         bndc (requireThat (\<forall>a \<in> set addrs. oDecodeAddress os (ppName net) a) ''poolfeeaddrs'') (\<lambda>_.
         retc (cfg\<lparr>cfPoolFeeAddrs := addrs, feeAddrs := feeAddrs cfg @ addrs\<rparr>))))))"

text \<open>A port that is no number reads as zero, one too long as the largest integer.\<close>

definition portIn :: "string \<Rightarrow> bool" where
  "portIn s = (case Atoi s of Ok port \<Rightarrow> \<not> (port < 1024 \<or> port > 65535) | _ \<Rightarrow> False)"

definition checkProfile :: "string \<Rightarrow> string start" where
  "checkProfile profile = (if profile = [] then retc profile else
     let profile = (case Atoi profile of Ok _ \<Rightarrow> JoinHostPort ''127.0.0.1'' profile | _ \<Rightarrow> profile) in
     case SplitHostPort profile of
       None \<Rightarrow> failc (Fails ''profile'')
     | Some (_, portStr) \<Rightarrow> bndc (requireThat (portIn portStr) ''profile'') (\<lambda>_. retc profile))"

definition ensureCerts :: "osLib \<Rightarrow> string \<Rightarrow> string \<Rightarrow> string \<Rightarrow> unit start" where
  "ensureCerts os cert key what = (\<lambda>h.
     if \<not> fileExists cert h \<or> \<not> fileExists key h then genCertPair os cert key what h else (Ok (), h))"

definition fileRequired :: "string \<Rightarrow> string \<Rightarrow> unit start" where
  "fileRequired name what = (\<lambda>h. requireThat (fileExists name h) what h)"

text \<open>What the flags parser makes of the command line, and of a configuration file.\<close>

datatype 'c parsed = Parsed 'c | HelpAsked | BadFlags

datatype 'c iniResult = IniRead 'c | IniPathError | IniBad

record 'c flagsLib =
  cmdline :: "'c \<Rightarrow> 'c parsed"
  iniFile :: "string \<Rightarrow> 'c \<Rightarrow> 'c iniResult"

text \<open>The options of defaults, file and command line, the later ones before the earlier.\<close>

definition readConfig :: "osLib \<Rightarrow> config flagsLib \<Rightarrow> chaincfg \<Rightarrow> string \<Rightarrow> config start" where
  "readConfig os fl ch home =
     (let cfg = defaultConfig ch home in
      case cmdline fl cfg of
        HelpAsked \<Rightarrow> failc (Exits 0)
      | BadFlags \<Rightarrow> failc (Exits 1)
      | Parsed pre \<Rightarrow> if ShowVersion pre then failc (Exits 0) else
          let cfg = updateHome os pre cfg; file = (if HomeDir pre = [] then ConfigFile pre else ConfigFile cfg) in
          bndc (mkdirAll os (HomeDir cfg) ''appdata'') (\<lambda>_.
          bndc (\<lambda>h. if fileExists file h then (Ok (), h) else writeFile os file ''configfile'' h) (\<lambda>_.
          bndc (case iniFile fl file cfg of IniRead cfg \<Rightarrow> retc cfg | IniPathError \<Rightarrow> retc cfg | IniBad \<Rightarrow> failc (Fails ''configfile'')) (\<lambda>cfg.
          case cmdline fl cfg of Parsed cfg \<Rightarrow> retc cfg | _ \<Rightarrow> failc (Fails ''flags'')))))"

text \<open>The checks of the options that were read.\<close>

definition checkNetwork :: "osLib \<Rightarrow> chaincfg \<Rightarrow> config \<Rightarrow> (poolParams \<times> config) start" where
  "checkNetwork os ch cfg =
     bndc (case activeNet ch cfg of None \<Rightarrow> failc (Fails ''activenet'') | Some net \<Rightarrow> retc net) (\<lambda>net.
     let cfg = cfg\<lparr>cfNet := Some net, DataDir := cleanAndExpandPath os (Join (DataDir cfg) (ppName net)),
           LogDir := cleanAndExpandPath os (Join (LogDir cfg) (ppName net))\<rparr> in
     bndc (initLogRotator os (LogDir cfg) defaultLogFilename) (\<lambda>_.
     bndc (if DebugLevel cfg = ''show'' then failc (Exits 0) else retc ()) (\<lambda>_.
     bndc (parseAndSetDebugLevels os subsystemLoggers (DebugLevel cfg)) (\<lambda>_.
     retc (net, cfg)))))"

definition checkAccess :: "osLib \<Rightarrow> poolParams \<Rightarrow> config \<Rightarrow> config start" where
  "checkAccess os net cfg =
     bndc (requireThat (AdminPass cfg \<noteq> []) ''adminpass'') (\<lambda>_.
     bndc (requireThat (RPCUser cfg \<noteq> []) ''rpcuser'') (\<lambda>_.
     bndc (requireThat (RPCPass cfg \<noteq> []) ''rpcpass'') (\<lambda>_.
     bndc (mkdirAll os (DataDir cfg) ''datadir'') (\<lambda>_.
     bndc (requireThat (UsePostgres cfg \<longrightarrow> PGHost cfg \<noteq> []) ''postgreshost'') (\<lambda>_.
     bndc (requireThat (UsePostgres cfg \<longrightarrow> PGUser cfg \<noteq> []) ''postgresuser'') (\<lambda>_.
     bndc (requireThat (UsePostgres cfg \<longrightarrow> PGDBName cfg \<noteq> []) ''postgresdbname'') (\<lambda>_.
     retc (cfg\<lparr>DcrdRPCHost := normalizeAddress (DcrdRPCHost cfg) (dcrdRPCServerPort net),
       WalletGRPCHost := normalizeAddress (WalletGRPCHost cfg) (walletGRPCServerPort net),
       MinerListen := normalizeAddress (MinerListen cfg) defaultMinerPort,
       GUIListen := normalizeAddress (GUIListen cfg) defaultGUIPort\<rparr>))))))))"

definition checkInterface :: "osLib \<Rightarrow> config \<Rightarrow> unit start" where
  "checkInterface os cfg =
     bndc (requireThat (\<not> MaxGenTime cfg < 2 * sec) ''maxgentime'') (\<lambda>_.
     bndc (requireThat (\<not> sint (cfLastNPeriod cfg) < 60 * sec) ''lastnperiod'') (\<lambda>_.
     bndc (requireThat (\<not> (NoGUITLS cfg \<and> UseLEHTTPS cfg)) ''noguitls'') (\<lambda>_.
     bndc (requireThat (\<not> (UseLEHTTPS cfg \<and> Domain cfg = [])) ''domain'') (\<lambda>_.
     if UseLEHTTPS cfg then retc () else ensureCerts os (GUITLSCert cfg) (GUITLSKey cfg) ''tlscert''))))"

definition checkNode :: "osLib \<Rightarrow> config \<Rightarrow> config start" where
  "checkNode os cfg =
     bndc (fileRequired (DcrdRPCCert cfg) ''dcrdrpccert'') (\<lambda>_.
     case oReadFile os (DcrdRPCCert cfg) of
       None \<Rightarrow> failc (Fails ''dcrdrpccert'')
     | Some certs \<Rightarrow>
         bndc (checkProfile (Profile cfg)) (\<lambda>profile.
         bndc (if cfSoloPool cfg then retc () else
           bndc (if GenCertsOnly cfg then retc () else fileRequired (WalletRPCCert cfg) ''walletrpccert'') (\<lambda>_.
           ensureCerts os (WalletTLSCert cfg) (WalletTLSKey cfg) ''wallettlscert'')) (\<lambda>_.
         retc (cfg\<lparr>cfDcrdRPCCerts := certs, Profile := profile\<rparr>))))"

definition checkLast :: "chaincfg \<Rightarrow> poolParams \<Rightarrow> config \<Rightarrow> config start" where
  "checkLast ch net cfg =
     bndc (requireThat (\<not> (ActiveNet cfg \<noteq> ppName (simNetParams ch) \<and> PurgeDB cfg)) ''purgedb'') (\<lambda>_.
     bndc (requireThat (\<not> GenCertsOnly cfg) ''gencertsonly'') (\<lambda>_.
     retc (cfg\<lparr>clientTimeout :=
       (if ActiveNet cfg = ppName (testNet3Params ch) \<or> ActiveNet cfg = ppName (mainNetParams ch)
        then i64 (TargetTimePerBlock (ppParams net) * 4) else 30 * sec)\<rparr>)))"

definition checkConfig :: "osLib \<Rightarrow> chaincfg \<Rightarrow> config \<Rightarrow> config start" where
  "checkConfig os ch cfg =
     bndc (checkNetwork os ch cfg) (\<lambda>(net, cfg).
     bndc (checkAccess os net cfg) (\<lambda>cfg.
     bndc (checkPublic os net cfg) (\<lambda>cfg.
     bndc (checkInterface os cfg) (\<lambda>_.
     bndc (checkNode os cfg) (checkLast ch net)))))"

definition loadConfig :: "osLib \<Rightarrow> config flagsLib \<Rightarrow> chaincfg \<Rightarrow> string \<Rightarrow> config start" where
  "loadConfig os fl ch home = bndc (readConfig os fl ch home) (checkConfig os ch)"

section \<open>The parts of the pool\<close>

definition newHubConfig :: "config \<Rightarrow> poolParams \<Rightarrow> 'db Database \<Rightarrow> 'db HubConfig" where
  "newHubConfig cfg net db = \<lparr>hcNet = ppParams net, hcCoinbaseMaturity = ppMaturity net, hcDb = db, hcPoolFee = cfPoolFee cfg,
     hcMaxGenTime = MaxGenTime cfg, hcPaymentMethod = cfPaymentMethod cfg, hcLastNPeriod = cfLastNPeriod cfg,
     hcWalletPass = cfWalletPass cfg, hcSoloPool = cfSoloPool cfg, hcPoolFeeAddrs = feeAddrs cfg,
     hcNonceIterations = 2 ^ (256 - BitLen (PowLimit (ppParams net))), hcMaxConnectionsPerHost = MaxConnectionsPerHost cfg,
     hcMonitorCycle = cfMonitorCycle cfg, hcMaxUpgradeTries = cfMaxUpgradeTries cfg\<rparr>"

text \<open>The request limiter of the hub serves the web interface too; postgres has no backup.\<close>

definition newGUIConfig :: "'l Packages \<Rightarrow> 'db HubConfig \<Rightarrow> (nat \<Rightarrow> int) \<Rightarrow> (string \<Rightarrow> bool) \<Rightarrow> (('l, 'db) Hub \<Rightarrow> bytes go) \<Rightarrow>
    config \<Rightarrow> poolParams \<Rightarrow> ('l, 'db) Hub guiConfig" where
  "newGUIConfig pk hcfg clock renders backup cfg net = \<lparr>gcSoloPool = cfSoloPool cfg, gcPaymentMethod = cfPaymentMethod cfg,
     gcAdminPass = AdminPass cfg, gcDomain = Domain cfg, gcActiveNetName = ppName net, gcBlockExplorerURL = ppExplorerURL net,
     gcDesignation = Designation cfg, gcPoolFee = cfPoolFee cfg, gcMinerListen = MinerListen cfg, gcGUIListen = GUIListen cfg, gcUseLEHTTPS = UseLEHTTPS cfg,
     gcNoGUITLS = NoGUITLS cfg,
     gcWithinLimit = (\<lambda>ip kind h. case withinLimit (pkRate pk) (clock (hTick h)) ip kind (hLimiter h) of
       (ok, l) \<Rightarrow> (ok, h\<lparr>hLimiter := l, hTick := Suc (hTick h)\<rparr>)),
     gcFetchLastWorkHeight = FetchLastWorkHeight, gcFetchLastPaymentInfo = FetchLastPaymentInfo hcfg,
     gcFetchMinedWork = FetchMinedWork hcfg, gcFetchWorkQuotas = FetchWorkQuotas pk hcfg,
     gcHTTPBackupDB = (if UsePostgres cfg then None else Some backup), gcFetchHashData = FetchHashData pk hcfg,
     gcAccountExists = AccountExists hcfg, gcFetchArchivedPayments = FetchArchivedPayments hcfg,
     gcFetchPendingPayments = FetchPendingPayments hcfg, gcRenders = renders\<rparr>"

end
