(* ===== verification/Miner.thy ===== *)
theory Miner
  imports Difficulty MessageProps
begin

text \<open>
  The mining client that comes with the pool (\<open>cmd/miner\<close>): its side of the stratum
  protocol (\<open>client.go\<close>) and the search for a nonce (\<open>cpuminer.go\<close>). Every
  received line and every turn of a goroutine is an operation on the miner's state; whether the
  socket takes a message, and the events the search sees, are arguments. The count of hashes,
  which is only displayed, is left out.
\<close>

section \<open>State\<close>

record work =
  wkJobID :: string
  wkHeader :: "bytes option"
  wkTarget :: "rat option"

record submitWorkData =
  wdNTime :: string
  wdNonce :: string
  wdExtraNonce2 :: string

text \<open>The configuration, with the decoding of headers and the time a header carries.\<close>

record minerConfig =
  mcUser :: string
  mcAddress :: string
  mcUserAgent :: string
  mcNet :: Params
  mcStall :: bool
  mcWire :: Wire
  mcTimestamp :: "BlockHeader \<Rightarrow> 32 word"

record miner =
  mId :: "64 word"
  mWork :: work
  mReq :: "64 word \<rightharpoonup> string"
  mAuthorized :: bool
  mSubscribed :: bool
  mConnected :: bool
  mExtraNonce1E :: string
  mExtraNonce2Size :: "64 word"
  mNotifyID :: string
  mCancelled :: bool
  mChainSignals :: nat
  mWorkData :: submitWorkData
  mSent :: "json list"

type_synonym 'a mop = "(miner, goerror, 'a) comp"

definition noWork :: work where "noWork = \<lparr>wkJobID = [], wkHeader = None, wkTarget = None\<rparr>"

definition newMiner :: miner where
  "newMiner = \<lparr>mId = 0, mWork = noWork, mReq = Map.empty, mAuthorized = False, mSubscribed = False,
     mConnected = False, mExtraNonce1E = [], mExtraNonce2Size = 0, mNotifyID = [], mCancelled = False, mChainSignals = 0,
     mWorkData = \<lparr>wdNTime = [], wdNonce = [], wdExtraNonce2 = []\<rparr>, mSent = []\<rparr>"

definition recordRequest :: "64 word \<Rightarrow> string \<Rightarrow> miner \<Rightarrow> miner" where
  "recordRequest i method m = m\<lparr>mReq := (mReq m)(i \<mapsto> method)\<rparr>"

definition fetchRequest :: "64 word \<Rightarrow> miner \<Rightarrow> string" where
  "fetchRequest i m = (case mReq m i of None \<Rightarrow> [] | Some method \<Rightarrow> method)"

definition deleteRequest :: "64 word \<Rightarrow> miner \<Rightarrow> miner" where
  "deleteRequest i m = m\<lparr>mReq := (mReq m)(i := None)\<rparr>"

definition nextID :: "64 word mop" where
  "nextID m = (Ok (mId m + 1), m\<lparr>mId := mId m + 1\<rparr>)"

definition cancelMiner :: "miner \<Rightarrow> miner" where "cancelMiner m = m\<lparr>mCancelled := True\<rparr>"

text \<open>\<open>m.encoder.Encode\<close>, where the socket takes the message or fails.\<close>

definition encodeReq :: "bool \<Rightarrow> Request \<Rightarrow> unit mop" where
  "encodeReq encodes req m = (if encodes then (Ok (), m\<lparr>mSent := mSent m @ [marshalRequest req]\<rparr>) else (Err Foreign, m))"

definition authenticate :: "minerConfig \<Rightarrow> bool \<Rightarrow> unit mop" where
  "authenticate cfg encodes =
     bndc nextID (\<lambda>i.
     let req = AuthorizeRequest (Some i) (mcUser cfg) (mcAddress cfg) in
     bndc (encodeReq encodes req) (\<lambda>_.
     modc (recordRequest i (Method req))))"

definition subscribeMiner :: "minerConfig \<Rightarrow> bool \<Rightarrow> unit mop" where
  "subscribeMiner cfg encodes =
     bndc nextID (\<lambda>i m.
     let req = SubscribeRequest (Some i) (mcUserAgent cfg) (mNotifyID m) in
     bndc (encodeReq encodes req) (\<lambda>_.
     modc (recordRequest i (Method req))) m)"

text \<open>One turn of \<open>keepAlive\<close>; an error is logged.\<close>

definition keepAlive :: "minerConfig \<Rightarrow> bool \<Rightarrow> bool \<Rightarrow> miner \<Rightarrow> miner" where
  "keepAlive cfg dials encodes m =
     (if mConnected m then m
      else if \<not> dials then m
      else snd (subscribeMiner cfg encodes (m\<lparr>mConnected := True\<rparr>)))"

text \<open>A failed read: the miner is disconnected, has no work, and the search is told to stop.\<close>

definition readFails :: "miner \<Rightarrow> miner" where
  "readFails m = m\<lparr>mConnected := False, mWork := noWork, mChainSignals := Suc (mChainSignals m)\<rparr>"

section \<open>Messages from the pool\<close>

text \<open>A parser's error is logged and cancels the miner.\<close>

definition orCancel :: "'a go \<Rightarrow> ('a \<Rightarrow> unit mop) \<Rightarrow> unit mop" where
  "orCancel r f m = (case r of Ok x \<Rightarrow> f x m | Err _ \<Rightarrow> (Ok (), cancelMiner m) | Panic \<Rightarrow> (Panic, m))"

definition processResponse :: "minerConfig \<Rightarrow> bool \<Rightarrow> Response \<Rightarrow> unit mop" where
  "processResponse cfg encodes resp m =
     (let method = fetchRequest (respID resp) m in
      if method = [] then (Ok (), cancelMiner m)
      else bndc (modc (deleteRequest (respID resp))) (\<lambda>_.
        if method = Authorize then
          orCancel (ParseAuthorizeResponse resp) (\<lambda>(status, sErr).
            if sErr \<noteq> None \<or> \<not> status then modc cancelMiner
            else modc (\<lambda>m. m\<lparr>mAuthorized := True\<rparr>))
        else if method = Subscribe then
          orCancel (ParseSubscribeResponse resp) (\<lambda>(notifyID, extraNonce1E, extraNonce2Size).
            bndc (modc (\<lambda>m. m\<lparr>mExtraNonce1E := extraNonce1E, mExtraNonce2Size := extraNonce2Size,
              mNotifyID := notifyID, mSubscribed := True\<rparr>)) (\<lambda>_ m.
            case authenticate cfg encodes m of
              (Err _, m') \<Rightarrow> (Ok (), cancelMiner m')
            | r \<Rightarrow> r))
        else if method = Submit then
          orCancel (ParseSubmitWorkResponse resp) (\<lambda>_. retc ())
        else retc ()) m)"

definition processNotification :: "minerConfig \<Rightarrow> Request \<Rightarrow> unit mop" where
  "processNotification cfg notif =
     (if Method notif = SetDifficulty then
        orCancel (ParseSetDifficultyNotification notif) (\<lambda>difficulty.
        bndc (liftc (DifficultyToTarget (mcNet cfg) (of_nat (unat difficulty)))) (\<lambda>target.
        modc (\<lambda>m. m\<lparr>mWork := (mWork m)\<lparr>wkTarget := Some target\<rparr>\<rparr>)))
      else if Method notif = Notify then (\<lambda>m.
        if \<not> mAuthorized m \<or> \<not> mSubscribed m then (Ok (), m)
        else orCancel (ParseWorkNotification notif) (\<lambda>(job, prevBlockE, genTx1E, blockVersionE, _, _, cleanJob).
          orCancel (GenerateBlockHeader (mcWire cfg) blockVersionE prevBlockE genTx1E (mExtraNonce1E m)) (\<lambda>blockHeader.
          orCancel (HeaderBytes (mcWire cfg) blockHeader) (\<lambda>headerB.
          bndc (modc (\<lambda>m. m\<lparr>mWork := (mWork m)\<lparr>wkJobID := job, wkHeader := Some headerB\<rparr>\<rparr>)) (\<lambda>_.
          if cleanJob \<and> \<not> mcStall cfg then modc (\<lambda>m. m\<lparr>mChainSignals := Suc (mChainSignals m)\<rparr>) else retc ())))) m)
      else retc ())"

definition processMiner :: "minerConfig \<Rightarrow> bool \<Rightarrow> json option \<Rightarrow> unit mop" where
  "processMiner cfg encodes data = orCancel (IdentifyMessage data) (\<lambda>(msg, reqType).
     case msg of
       MResp resp \<Rightarrow> processResponse cfg encodes resp
     | MReq req \<Rightarrow> if reqType = NotificationMessage then processNotification cfg req else retc ())"

section \<open>The search\<close>

definition maxNonce :: "32 word" where "maxNonce = - 1"

text \<open>What the select of the search sees before a candidate is tried.\<close>

datatype solveEvent = CtxCancelled | ChainUpdate | Idle

definition putUint32 :: "nat \<Rightarrow> 32 word \<Rightarrow> bytes \<Rightarrow> bytes go" where
  "putUint32 i w b = (if i + 4 \<le> length b then Ok (patch i (le32 w) b) else Panic)"

partial_function (option) solveBlock :: "minerConfig \<Rightarrow> rat \<Rightarrow> (nat \<Rightarrow> solveEvent) \<Rightarrow> nat \<Rightarrow> 32 word \<Rightarrow> 32 word \<Rightarrow> bytes
    \<Rightarrow> submitWorkData \<Rightarrow> (bool \<times> submitWorkData) go option" where
  "solveBlock cfg target ev i extraNonce2 nonce headerB wd =
     (if ev i \<noteq> Idle then Some (Ok (False, wd))
      else case bnd (putUint32 140 nonce headerB) (putUint32 148 extraNonce2) of
        Ok headerB \<Rightarrow> (case FromBytes (mcWire cfg) headerB of
            Ok header \<Rightarrow>
              if of_int (HashToBig (mcWire cfg) (PowHashV2 (mcWire cfg) header)) < target then
                (let nonceE = EncodeToString (take 4 (drop 140 headerB)); extraNonce2E = EncodeToString (take 4 (drop 148 headerB)) in
                 if nonceE = wdNonce wd \<and> extraNonce2E = wdExtraNonce2 wd then
                   solveBlock cfg target ev (Suc i) extraNonce2 (nonce + 1) headerB wd
                 else Some (Ok (True, \<lparr>wdNTime = EncodeToString (le32 (mcTimestamp cfg header)), wdNonce = nonceE,
                   wdExtraNonce2 = extraNonce2E\<rparr>)))
              else if nonce = maxNonce then solveBlock cfg target ev (Suc i) (extraNonce2 + 1) 0 headerB wd
              else solveBlock cfg target ev (Suc i) extraNonce2 (nonce + 1) headerB wd
          | Err _ \<Rightarrow> Some (Ok (False, wd))
          | Panic \<Rightarrow> Some Panic)
      | Err err \<Rightarrow> Some (Err err)
      | Panic \<Rightarrow> Some Panic)"

text \<open>One turn of \<open>solve\<close>: the submission it hands over, if it found one.\<close>

definition solve :: "minerConfig \<Rightarrow> (nat \<Rightarrow> solveEvent) \<Rightarrow> miner \<Rightarrow> (Request option go \<times> miner) option" where
  "solve cfg ev m = (case (wkTarget (mWork m), wkHeader (mWork m)) of
       (Some target, Some header) \<Rightarrow>
         if wkJobID (mWork m) = [] then Some (Ok None, m)
         else (case solveBlock cfg target ev 0 0 0 header (mWorkData m) of
             None \<Rightarrow> None
           | Some (Ok (True, wd)) \<Rightarrow>
               let m = m\<lparr>mWorkData := wd\<rparr> in
               if \<not> mConnected m then Some (Ok None, m)
               else (case nextID m of
                   (Ok i, m') \<Rightarrow> Some (Ok (Some (SubmitWorkRequest (Some i) (mcAddress cfg @ ''.'' @ mcUser cfg) (wkJobID (mWork m))
                     (wdExtraNonce2 wd) (wdNTime wd) (wdNonce wd))), m')
                 | (_, m') \<Rightarrow> Some (Panic, m'))
           | Some (Ok (False, wd)) \<Rightarrow> Some (Ok None, m\<lparr>mWorkData := wd\<rparr>)
           | Some (Err e) \<Rightarrow> Some (Err e, m)
           | Some Panic \<Rightarrow> Some (Panic, m))
     | _ \<Rightarrow> Some (Ok None, m))"

datatype encodeResult = Encoded | EncEOF | EncWrite | EncOther

text \<open>One submission taken by \<open>generateBlocks\<close>; the result tells whether the goroutine goes on.\<close>

definition generateBlocks :: "Request \<Rightarrow> encodeResult \<Rightarrow> bool mop" where
  "generateBlocks wrk result =
     bndc (\<lambda>m. case reqID wrk of None \<Rightarrow> (Panic, m) | Some i \<Rightarrow> (Ok (), recordRequest i Submit m)) (\<lambda>_.
     case result of
       Encoded \<Rightarrow> bndc (modc (\<lambda>m. m\<lparr>mSent := mSent m @ [marshalRequest wrk]\<rparr>)) (\<lambda>_. retc True)
     | EncEOF \<Rightarrow> retc False
     | EncWrite \<Rightarrow> retc True
     | EncOther \<Rightarrow> bndc (modc cancelMiner) (\<lambda>_. retc True))"

end
