(* ===== verification/MinerProps.thy ===== *)
theory MinerProps
  imports Miner
begin

text \<open>
  The search for a nonce: the candidates it tries, that it stops when it is told to, and that
  what it returns is the first candidate whose proof of work is below the target.
\<close>

section \<open>Candidates\<close>

definition candidate :: "bytes \<Rightarrow> 32 word \<Rightarrow> 32 word \<Rightarrow> bytes" where
  "candidate b en2 n = patch 148 (le32 en2) (patch 140 (le32 n) b)"

lemma candidate_Ok:
  "152 \<le> length b \<Longrightarrow> bnd (putUint32 140 n b) (putUint32 148 en2) = Ok (candidate b en2 n)"
  by (simp add: putUint32_def candidate_def)

lemma candidate_length [simp]: "152 \<le> length b \<Longrightarrow> length (candidate b en2 n) = length b"
  by (simp add: candidate_def)

lemma candidate_again [simp]: "152 \<le> length b \<Longrightarrow> candidate (candidate b en2 n) en2' n' = candidate b en2' n'"
  by (intro nth_equalityI) (auto simp: candidate_def nth_patch)

lemma candidate_parts:
  assumes "152 \<le> length b"
  shows "take 4 (drop 140 (candidate b en2 n)) = le32 n" "take 4 (drop 148 (candidate b en2 n)) = le32 en2"
  using assms by (simp_all add: candidate_def patch_def)

text \<open>The candidate is a header whose proof of work is below the target, and the header.\<close>

definition below :: "minerConfig \<Rightarrow> rat \<Rightarrow> bytes \<Rightarrow> 32 word \<Rightarrow> 32 word \<Rightarrow> BlockHeader \<Rightarrow> bool" where
  "below cfg target b en2 n h \<longleftrightarrow> FromBytes (mcWire cfg) (candidate b en2 n) = Ok h \<and>
     of_int (HashToBig (mcWire cfg) (PowHashV2 (mcWire cfg) h)) < target"

definition foundWork :: "minerConfig \<Rightarrow> 32 word \<Rightarrow> 32 word \<Rightarrow> BlockHeader \<Rightarrow> submitWorkData" where
  "foundWork cfg en2 n h = \<lparr>wdNTime = EncodeToString (le32 (mcTimestamp cfg h)), wdNonce = EncodeToString (le32 n),
     wdExtraNonce2 = EncodeToString (le32 en2)\<rparr>"

definition known :: "submitWorkData \<Rightarrow> 32 word \<Rightarrow> 32 word \<Rightarrow> bool" where
  "known wd en2 n \<longleftrightarrow> wdNonce wd = EncodeToString (le32 n) \<and> wdExtraNonce2 wd = EncodeToString (le32 en2)"

text \<open>One turn of the search.\<close>

lemma solveBlock_turn:
  assumes "152 \<le> length b" "ev i = Idle" "FromBytes (mcWire cfg) (candidate b en2 n) = Ok h"
  shows "solveBlock cfg target ev i en2 n b wd =
    (if below cfg target b en2 n h then
       if known wd en2 n then solveBlock cfg target ev (Suc i) en2 (n + 1) (candidate b en2 n) wd
       else Some (Ok (True, foundWork cfg en2 n h))
     else if n = maxNonce then solveBlock cfg target ev (Suc i) (en2 + 1) 0 (candidate b en2 n) wd
     else solveBlock cfg target ev (Suc i) en2 (n + 1) (candidate b en2 n) wd)"
  by (subst solveBlock.simps)
    (auto simp: assms(2,3) candidate_Ok[OF assms(1)] candidate_parts[OF assms(1)] below_def known_def foundWork_def Let_def)

section \<open>Termination\<close>

lemma solveBlock_stops:
  assumes "ev k \<noteq> Idle" "i \<le> k"
  shows "\<exists>r. solveBlock cfg target ev i en2 n b wd = Some r"
  using assms(2)
proof (induction "k - i" arbitrary: i en2 n b)
  case 0
  then show ?case using assms(1) by (simp add: solveBlock.simps)
next
  case (Suc d)
  have IH: "\<exists>r. solveBlock cfg target ev (Suc i) en2' n' b' wd = Some r" for en2' n' b'
    using Suc by (intro Suc.hyps(1)) simp_all
  then show ?case
    by (subst solveBlock.simps) (auto simp: Let_def split: outcome.split)
qed

lemma word_Suc: "(n :: 32 word) \<noteq> maxNonce \<Longrightarrow> unat (n + 1) = Suc (unat n)"
  using unatSuc[of n] by (metis add.commute add_eq_0_iff maxNonce_def minus_equation_iff)

text \<open>Without an event the search passes over the candidates that do not solve the block.\<close>

lemma solveBlock_skips:
  assumes "152 \<le> length b" "\<And>j. i \<le> j \<Longrightarrow> j < i + d \<Longrightarrow> ev j = Idle" "unat n + d < 2 ^ 32"
    and "\<And>m. n \<le> m \<Longrightarrow> unat m < unat n + d \<Longrightarrow>
      \<exists>h. FromBytes (mcWire cfg) (candidate b en2 m) = Ok h \<and> (below cfg target b en2 m h \<longrightarrow> known wd en2 m)"
  shows "\<exists>b'. length b' = length b \<and> (\<forall>en2' n'. candidate b' en2' n' = candidate b en2' n') \<and>
    solveBlock cfg target ev i en2 n b wd = solveBlock cfg target ev (i + d) en2 (n + of_nat d) b' wd"
  using assms
proof (induction d arbitrary: i n b)
  case 0
  then show ?case by auto
next
  case (Suc d)
  obtain h where h: "FromBytes (mcWire cfg) (candidate b en2 n) = Ok h" "below cfg target b en2 n h \<longrightarrow> known wd en2 n"
    using Suc.prems(4)[of n] by auto
  have "unat maxNonce = 2 ^ 32 - 1" by (simp add: maxNonce_def unsigned_minus_1_eq_mask mask_eq_exp_minus_1)
  then have "unat n \<noteq> unat maxNonce" using Suc.prems(3) by simp
  then have "n \<noteq> maxNonce" by auto
  then have n: "n \<noteq> maxNonce" "unat (n + 1) = Suc (unat n)" using word_Suc[of n] by simp_all
  let ?b = "candidate b en2 n"
  have "solveBlock cfg target ev i en2 n b wd = solveBlock cfg target ev (Suc i) en2 (n + 1) ?b wd"
    using solveBlock_turn[of b ev i cfg en2 n h target wd] Suc.prems(1,2) h n(1) by auto
  moreover have "\<exists>b'. length b' = length ?b \<and> (\<forall>en2' n'. candidate b' en2' n' = candidate ?b en2' n') \<and>
    solveBlock cfg target ev (Suc i) en2 (n + 1) ?b wd = solveBlock cfg target ev (Suc i + d) en2 (n + 1 + of_nat d) b' wd"
  proof (rule Suc.IH)
    show "\<exists>h. FromBytes (mcWire cfg) (candidate ?b en2 m) = Ok h \<and> (below cfg target ?b en2 m h \<longrightarrow> known wd en2 m)"
      if "n + 1 \<le> m" "unat m < unat (n + 1) + d" for m
      using Suc.prems(4)[of m] that n Suc.prems(1) by (auto simp: word_le_nat_alt below_def)
  qed (use Suc.prems(1-3) n in auto)
  ultimately show ?case using Suc.prems(1) by (auto simp: add.commute add.left_commute)
qed

section \<open>What is found\<close>

lemma solveBlock_sound:
  assumes "solveBlock cfg target ev i en2 n b wd = Some r" "152 \<le> length b" "r = Ok (True, wd')"
  shows "\<exists>en2 n h. below cfg target b en2 n h \<and> \<not> known wd en2 n \<and> wd' = foundWork cfg en2 n h"
proof -
  let ?P = "\<lambda>cfg target ev i en2 n b wd r. 152 \<le> length b \<longrightarrow> r = Ok (True, wd') \<longrightarrow>
    (\<exists>en2 n h. below cfg target b en2 n h \<and> \<not> known wd en2 n \<and> wd' = foundWork cfg en2 n h)"
  have "?P cfg target ev i en2 n b wd r"
  proof (rule solveBlock.raw_induct[where P = ?P, OF _ assms(1)], intro impI, goal_cases)
    case (1 f cfg target ev i en2 n b wd r)
    have IH: "\<exists>en2 n h. below cfg target b en2 n h \<and> \<not> known wd en2 n \<and> wd' = foundWork cfg en2 n h"
      if "f cfg target ev j en2' n' (candidate b en2 n) wd = Some r" for j en2' n'
      using 1(1)[OF that] 1(3,4) by (auto simp: below_def)
    obtain h where h: "FromBytes (mcWire cfg) (candidate b en2 n) = Ok h" and idle: "ev i = Idle"
      using 1(2,4) by (auto simp: candidate_Ok[OF 1(3)] split: if_splits outcome.splits)
    have "(if below cfg target b en2 n h then
         if known wd en2 n then f cfg target ev (Suc i) en2 (n + 1) (candidate b en2 n) wd
         else Some (Ok (True, foundWork cfg en2 n h))
       else if n = maxNonce then f cfg target ev (Suc i) (en2 + 1) 0 (candidate b en2 n) wd
       else f cfg target ev (Suc i) en2 (n + 1) (candidate b en2 n) wd) = Some r"
      using 1(2) idle h
      by (auto simp: candidate_Ok[OF 1(3)] candidate_parts[OF 1(3)] below_def known_def foundWork_def Let_def
          split: if_splits)
    then show ?case using IH 1(4) by (auto split: if_splits)
  qed
  then show ?thesis using assms(2,3) by blast
qed

section \<open>Properties\<close>

text \<open>
  C16: the search stops and is right. Whenever the chain changes or the miner is cancelled, at
  whatever turn, the search returns; and when it returns a submission, that is the time, nonce and
  second extra nonce of a candidate, not the one submitted last, that is a header whose proof of
  work is below the target.
\<close>

theorem search_stops_with_solution:
  assumes "ev k \<noteq> Idle" "152 \<le> length b"
  shows "\<exists>r. solveBlock cfg target ev 0 0 0 b wd = Some r \<and>
    (\<forall>wd'. r = Ok (True, wd') \<longrightarrow>
      (\<exists>en2 n h. below cfg target b en2 n h \<and> \<not> known wd en2 n \<and> wd' = foundWork cfg en2 n h))"
  using solveBlock_stops[of ev k 0 cfg target 0 0 b wd] assms(1) solveBlock_sound[OF _ assms(2)] by blast

text \<open>
  C27: the search finds the first solution. While nothing disturbs it, the search returns the first
  nonce, in order, whose candidate is below the target and was not submitted last.
\<close>

theorem search_finds_first:
  assumes "152 \<le> length b" "k < 2 ^ 32" "\<forall>j \<le> k. ev j = Idle"
    and "\<forall>m. unat m < k \<longrightarrow> (\<exists>h. FromBytes (mcWire cfg) (candidate b 0 m) = Ok h \<and> (below cfg target b 0 m h \<longrightarrow> known wd 0 m))"
    and "below cfg target b 0 (of_nat k) h" "\<not> known wd 0 (of_nat k)"
  shows "solveBlock cfg target ev 0 0 0 b wd = Some (Ok (True, foundWork cfg 0 (of_nat k) h))"
proof -
  obtain b' where b': "length b' = length b" "\<And>en2' n'. candidate b' en2' n' = candidate b en2' n'"
    "solveBlock cfg target ev 0 0 0 b wd = solveBlock cfg target ev k 0 (of_nat k) b' wd"
    using solveBlock_skips[of b 0 k ev 0 cfg 0 target wd] assms(1-4) by auto
  have l: "152 \<le> length b'" and i: "ev k = Idle" and h: "FromBytes (mcWire cfg) (candidate b' 0 (of_nat k)) = Ok h"
    using assms(1,3,5) b'(1,2) by (auto simp: below_def)
  show ?thesis
    using solveBlock_turn[of b' ev k cfg 0 "of_nat k" h target wd] l i h assms(5,6) b'(2,3) by (simp add: below_def)
qed

lemma newMiner_unknown: "\<not> known (mWorkData newMiner) en2 n"
proof -
  have "length (EncodeToString (le32 n)) = 8" by simp
  then have "EncodeToString (le32 n) \<noteq> []" by (metis list.size(3) zero_neq_numeral)
  then show ?thesis by (auto simp: known_def newMiner_def)
qed

definition echoMiner :: minerConfig where
  "echoMiner = \<lparr>mcUser = ''u'', mcAddress = ''a'', mcUserAgent = ''cpuminer/1.0.0'', mcNet = demoNet, mcStall = False,
     mcWire = echoWire\<lparr>HashToBig := (\<lambda>b. if take 4 (drop 140 b) = le32 2 then 5 else 50)\<rparr>, mcTimestamp = (\<lambda>h. 7)\<rparr>"

lemma echo_below: "below echoMiner 10 b en2 n h \<longleftrightarrow>
    h = \<lparr>PrevBlock = candidate b en2 n, Bits = 0, Height = 0, hdrOther = []\<rparr> \<and> n = 2" if "152 \<le> length b"
proof -
  have "le32 n = le32 2 \<Longrightarrow> n = 2" for n using le32_roundtrip[of n] le32_roundtrip[of 2] by simp
  then show ?thesis by (auto simp: below_def echoMiner_def echoWire_def candidate_parts[OF that])
qed

theorem search_stops_with_solution_witness:
  "\<exists>r. solveBlock echoMiner 10 (\<lambda>i. if i < 9 then Idle else ChainUpdate) 0 0 0 (replicate 180 CHR ''a'') (mWorkData newMiner) = Some r"
  using search_stops_with_solution[of "\<lambda>i. if i < 9 then Idle else ChainUpdate" 9 "replicate 180 CHR ''a''" echoMiner 10
    "mWorkData newMiner"] by auto

theorem search_finds_first_witness:
  "\<exists>h. solveBlock echoMiner 10 (\<lambda>_. Idle) 0 0 0 (replicate 180 CHR ''a'') (mWorkData newMiner) =
     Some (Ok (True, foundWork echoMiner 0 2 h))"
proof -
  let ?b = "replicate 180 CHR ''a''"
  have f: "FromBytes (mcWire echoMiner) x = Ok \<lparr>PrevBlock = x, Bits = 0, Height = 0, hdrOther = []\<rparr>" for x
    by (simp add: echoMiner_def echoWire_def)
  have "\<exists>h. FromBytes (mcWire echoMiner) (candidate ?b 0 m) = Ok h \<and> (below echoMiner 10 ?b 0 m h \<longrightarrow> known (mWorkData newMiner) 0 m)"
    if "unat m < 2" for m
  proof -
    have "m \<noteq> 2" using that by auto
    then have "\<not> below echoMiner 10 ?b 0 m h" for h by (simp add: echo_below)
    then show ?thesis using f by blast
  qed
  then show ?thesis
    using search_finds_first[of ?b 2 "\<lambda>_. Idle" echoMiner 10 "mWorkData newMiner"] echo_below[of ?b 0 2] newMiner_unknown[of 0 2]
    by auto
qed

end
