(* ===== verification/GuiProps.thy ===== *)
theory GuiProps
  imports Gui MinerProps
begin

text \<open>
  What the web interface shows and to whom: the cached payments and totals of an account, the pages
  of a listing, who sees the pages of the administrator, and the cache after an update.
\<close>

section \<open>Sorting and grouping\<close>

definition permOk :: "guiEnv \<Rightarrow> bool" where
  "permOk g \<longleftrightarrow> (\<forall>n. mset (gePerm g n) = mset [0 ..< n])"

lemma sortSlice_mset: "permOk g \<Longrightarrow> mset (sortSlice g f xs) = mset xs"
proof -
  assume "permOk g"
  then have "mset (map ((!) xs) (gePerm g (length xs))) = mset (map ((!) xs) [0 ..< length xs])"
    by (simp add: permOk_def)
  then show ?thesis by (simp add: sortSlice_def map_nth)
qed

lemma sortSlice_sorted: "sorted (map f (sortSlice g f xs))"
  by (simp add: sortSlice_def)

lemma i64_add [simp]: "i64 (i64 a + b) = i64 (a + b)"
proof -
  have "(i64 a + b + 2 ^ 63) mod 2 ^ 64 = ((a + 2 ^ 63) mod 2 ^ 64 + b) mod 2 ^ 64" by (simp add: i64_def algebra_simps)
  also have "\<dots> = (a + b + 2 ^ 63) mod 2 ^ 64" using mod_add_left_eq[of "a + 2 ^ 63" "2 ^ 64" b] by (simp only: ac_simps)
  finally show ?thesis by (simp add: i64_def)
qed

lemma entriesAt_append [simp]:
  "entriesAt (appendAt k x m) a = (if a = k then entriesAt m a @ [x] else entriesAt m a)"
  by (simp add: entriesAt_def appendAt_def)

lemma totalAt_put [simp]: "totalAt (put k v m) a = (if a = k then v else totalAt m a)"
  by (simp add: totalAt_def)

lemma groupPayments_fold:
  fixes render :: "Payment \<Rightarrow> 'a"
  defines "step \<equiv> \<lambda>p (ls, ts). (appendAt (pmAccount p) (render p) ls,
    put (pmAccount p) (i64 (totalAt ts (pmAccount p) + pmAmount p)) ts)"
  assumes "fold step pmts (ls, ts) = (ls', ts')" "\<forall>a. totalAt ts a = i64 (totalAt ts a)"
  shows "entriesAt ls' a = entriesAt ls a @ map render (filter (\<lambda>p. pmAccount p = a) pmts) \<and>
    totalAt ts' a = i64 (totalAt ts a + sum_list (map pmAmount (filter (\<lambda>p. pmAccount p = a) pmts)))"
  using assms(2,3)
proof (induction pmts arbitrary: ls ts)
  case (Cons p pmts)
  let ?ts = "put (pmAccount p) (i64 (totalAt ts (pmAccount p) + pmAmount p)) ts"
  have "\<forall>a. totalAt ?ts a = i64 (totalAt ?ts a)" using Cons.prems(2) i64_add[of _ 0] by (auto simp: algebra_simps)
  from Cons.IH[OF _ this] Cons.prems(1) show ?case by (auto simp: step_def algebra_simps)
qed simp

lemma groupPayments_result:
  assumes "groupPayments render pmts = (ls, ts)"
  shows "entriesAt ls a = map render (filter (\<lambda>p. pmAccount p = a) pmts)"
    and "totalAt ts a = i64 (sum_list (map pmAmount (filter (\<lambda>p. pmAccount p = a) pmts)))"
  using groupPayments_fold[of render pmts "[]" "[]" ls ts a] assms
  by (simp_all add: groupPayments_def entriesAt_def totalAt_def i64_def)

text \<open>The payments of an account, newest first.\<close>

definition newestFirst :: "guiEnv \<Rightarrow> string \<Rightarrow> Payment list \<Rightarrow> Payment list" where
  "newestFirst g a pmts = filter (\<lambda>p. pmAccount p = a) (sortSlice g (\<lambda>p. - uint (pmHeight p)) pmts)"

lemma newestFirst_mset: "permOk g \<Longrightarrow> mset (newestFirst g a pmts) = mset (filter (\<lambda>p. pmAccount p = a) pmts)"
  by (simp add: newestFirst_def sortSlice_mset)

lemma newestFirst_sorted: "sorted_wrt (\<lambda>p q. pmHeight q \<le> pmHeight p) (newestFirst g a pmts)"
proof -
  have "sorted_wrt (\<lambda>p q. - uint (pmHeight p) \<le> - uint (pmHeight q))
      (sortSlice g (\<lambda>p. - uint (pmHeight p)) pmts)"
    using sortSlice_sorted[of "\<lambda>p. - uint (pmHeight p)" g pmts] unfolding sorted_map .
  then show ?thesis unfolding newestFirst_def by (intro sorted_wrt_filter) (simp add: word_le_def)
qed

lemma updatePayments_shows:
  assumes "c' = updatePayments g pend arch c"
  shows "entriesAt (chPending c') a = map (showPending g (blockExplorerURL c)) (newestFirst g a pend)"
    and "entriesAt (chArchived c') a = map (showArchived g (blockExplorerURL c)) (newestFirst g a arch)"
    and "totalAt (chPendingTotals c') a = i64 (sum_list (map pmAmount (newestFirst g a pend)))"
    and "totalAt (chArchivedTotals c') a = i64 (sum_list (map pmAmount (newestFirst g a arch)))"
  unfolding assms updatePayments_def newestFirst_def Let_def
  by (auto simp: groupPayments_result split: prod.split)

lemma newestFirst_total:
  assumes "permOk g"
  shows "sum_list (map pmAmount (newestFirst g a pmts)) = sum_list (map pmAmount (filter (\<lambda>p. pmAccount p = a) pmts))"
proof -
  have "mset (map pmAmount (newestFirst g a pmts)) = mset (map pmAmount (filter (\<lambda>p. pmAccount p = a) pmts))"
    unfolding mset_map newestFirst_mset[OF assms] ..
  from arg_cong[OF this, of sum_mset] show ?thesis by (simp only: sum_mset_sum_list)
qed

lemma updatePayments_getters:
  assumes "permOk g"
  shows "getPendingPayments first lastIx a (updatePayments g pend arch c) =
      pageOf first lastIx (map (showPending g (blockExplorerURL c)) (newestFirst g a pend))"
    and "getArchivedPayments first lastIx a (updatePayments g pend arch c) =
      pageOf first lastIx (map (showArchived g (blockExplorerURL c)) (newestFirst g a arch))"
    and "getPendingPaymentsTotal g a (updatePayments g pend arch c) =
      amount g (i64 (sum_list (map pmAmount (filter (\<lambda>p. pmAccount p = a) pend))))"
    and "getArchivedPaymentsTotal g a (updatePayments g pend arch c) =
      amount g (i64 (sum_list (map pmAmount (filter (\<lambda>p. pmAccount p = a) arch))))"
  by (simp_all add: getPendingPayments_def getArchivedPayments_def getPendingPaymentsTotal_def getArchivedPaymentsTotal_def
      updatePayments_shows[OF refl] newestFirst_total[OF assms])

section \<open>Pages\<close>

lemma pageOf_empty [simp]: "pageOf first lastIx [] = Ok (0, [])"
  by (simp add: pageOf_def)

lemma pageOf_range:
  assumes "xs \<noteq> []" "0 \<le> first" "first \<le> lastIx"
  shows "pageOf first lastIx xs = (if int (length xs) \<le> first then Err Foreign
    else Ok (length xs, take (nat (lastIx - first)) (drop (nat first) xs)))"
proof (cases "int (length xs) \<le> first")
  case False
  have "take (nat (min lastIx (int (length xs))) - nat first) (drop (nat first) xs) = take (nat (lastIx - first)) (drop (nat first) xs)"
    using False assms by (cases "lastIx \<le> int (length xs)") (auto simp: min_def nat_diff_distrib)
  moreover have "nat first \<le> nat (min lastIx (int (length xs)))" "nat (min lastIx (int (length xs))) \<le> length xs"
    using False assms by auto
  ultimately show ?thesis using False assms by (simp add: pageOf_def slice_def)
qed (use assms in \<open>simp add: pageOf_def\<close>)

lemma Atoi_show: "int n < 2 ^ 63 \<Longrightarrow> Atoi (show_nat n) = Ok (int n)"
  by (simp add: Atoi_def parseInt_show_nat in_i64_def)







section \<open>Handlers\<close>

text \<open>Most handlers change neither the session nor the interface.\<close>

definition readOnly :: "'h handler \<Rightarrow> bool" where
  "readOnly h \<longleftrightarrow> (\<forall>st. snd (h st) = st)"

lemma readOnly_readc [simp]: "readOnly (readc f)"
  by (simp add: readOnly_def)

lemma readOnly_handlers [simp]:
  "readOnly (homepage cfg)" "readOnly (account hash g cfg r)" "readOnly (isPoolAccount hash cfg r)" "readOnly (adminPage g cfg)"
  "readOnly (downloadDatabaseBackup cfg)" "readOnly (paginated r get kind)"
  by (simp_all add: homepage_def account_def isPoolAccount_def onUI_def adminPage_def downloadDatabaseBackup_def paginated_def)

lemma readOnly_adminOnly [simp]: "readOnly h \<Longrightarrow> readOnly (adminOnly h)"
  by (auto simp: readOnly_def adminOnly_def)

lemma readOnly_pages [simp]:
  "readOnly (paginatedBlocks r)" "readOnly (paginatedRewardQuotas r)" "readOnly (paginatedBlocksByAccount a r)"
  "readOnly (paginatedClientsByAccount a r)" "readOnly (paginatedPendingPaymentsByAccount a r)"
  "readOnly (paginatedArchivedPaymentsByAccount a r)" "readOnly (paginatedArchivedPoolPayments r)"
  "readOnly (paginatedPendingPoolPayments r)"
  by (simp_all add: paginatedBlocks_def paginatedRewardQuotas_def paginatedBlocksByAccount_def paginatedClientsByAccount_def
      paginatedPendingPaymentsByAccount_def paginatedArchivedPaymentsByAccount_def paginatedArchivedPoolPayments_def
      paginatedPendingPoolPayments_def)

text \<open>What only an administrator is meant to see.\<close>

definition adminData :: "response \<Rightarrow> bool" where
  "adminData res \<longleftrightarrow> (case res of Rendered (AdminPage _) \<Rightarrow> True | BackupFile _ \<Rightarrow> True | _ \<Rightarrow> False)"

lemma adminData_simps [simp]:
  "\<not> adminData (Status n)" "\<not> adminData (HttpError e n)" "\<not> adminData (Redirect u)" "\<not> adminData (Json n es)"
  "\<not> adminData (renderTemplate cfg name (IndexPage d))" "\<not> adminData (renderTemplate cfg name (AccountPage d'))"
  by (simp_all add: adminData_def renderTemplate_def)

lemma noRoute_plain [simp]: "\<not> adminData (noRoute rs)" "noRoute rs \<noteq> Json n es"
  by (simp_all add: noRoute_def)

definition publicOnly :: "'h handler \<Rightarrow> bool" where
  "publicOnly h \<longleftrightarrow> (\<forall>session ui res. fst (h (session, ui)) = Ok res \<longrightarrow> adminData res \<longrightarrow> sessIsAdmin session)"

lemma entriesOf_Ok: "entriesOf res f = Ok y \<Longrightarrow> \<exists>xs. f xs = Ok y"
  by (auto simp: entriesOf_def split: outcome.splits prod.splits)

lemma renderIndex_public: "renderIndex cfg e ui = Ok res \<Longrightarrow> \<not> adminData res"
  by (auto simp: renderIndex_def dest!: entriesOf_Ok)

lemma publicOnly_paginated [simp]: "publicOnly (paginated r get kind)"
  by (auto simp: publicOnly_def paginated_def split: outcome.splits)

lemma publicOnly_adminOnly [simp]: "publicOnly (adminOnly h)"
  by (auto simp: publicOnly_def adminOnly_def)

lemma publicOnly_handlers [simp]:
  "publicOnly (homepage cfg)" "publicOnly (account hash g cfg r)" "publicOnly (isPoolAccount hash cfg r)" "publicOnly (adminPage g cfg)"
  "publicOnly (downloadDatabaseBackup cfg)" "publicOnly (adminLogin cfg r)" "publicOnly (adminLogout r)" "publicOnly (registerClient up)"
  by (auto simp: publicOnly_def homepage_def account_def isPoolAccount_def onUI_def adminPage_def downloadDatabaseBackup_def
      adminLogin_def adminLogout_def registerClient_def Let_def dest!: entriesOf_Ok renderIndex_public split: if_splits sum.splits)

lemma publicOnly_pages [simp]:
  "publicOnly (paginatedBlocks r)" "publicOnly (paginatedRewardQuotas r)" "publicOnly (paginatedBlocksByAccount a r)"
  "publicOnly (paginatedClientsByAccount a r)" "publicOnly (paginatedPendingPaymentsByAccount a r)"
  "publicOnly (paginatedArchivedPaymentsByAccount a r)" "publicOnly (paginatedArchivedPoolPayments r)"
  "publicOnly (paginatedPendingPoolPayments r)"
  by (simp_all add: paginatedBlocks_def paginatedRewardQuotas_def paginatedBlocksByAccount_def paginatedClientsByAccount_def
      paginatedPendingPaymentsByAccount_def paginatedArchivedPaymentsByAccount_def paginatedArchivedPoolPayments_def
      paginatedPendingPoolPayments_def)

text \<open>Every route leads to one of these.\<close>

lemma route_cases:
  assumes "route hash g cfg up m path r = Some h"
  shows "publicOnly h \<and> (readOnly h \<or> h = registerClient up \<or> h = adminLogout r \<or>
    m = POST \<and> path = [''admin''] \<and> h = adminLogin cfg r)"
  using assms unfolding route_def routeAccount_def by (auto split: if_splits list.splits)

section \<open>Updates\<close>

text \<open>The payments of the pool are fetched, and no fetch fails.\<close>

definition fetchedPayments :: "'h guiConfig \<Rightarrow> 'h \<Rightarrow> Payment list \<Rightarrow> Payment list \<Rightarrow> 32 word \<times> 64 word \<times> 64 word \<Rightarrow> bool" where
  "fetchedPayments cfg pool pend arch info \<longleftrightarrow> gcFetchPendingPayments cfg pool = Ok pend \<and>
     gcFetchArchivedPayments cfg pool = Ok arch \<and> gcFetchLastPaymentInfo cfg pool = Ok info"

lemma dividends_update:
  assumes "fetchedPayments cfg (uiPool ui) pend arch (ht, paidOn, createdOn)"
  shows "updateStep g cfg writeOk (Signal DividendsPaid) ui =
    (Ok (), send_ws writeOk (noPayload\<lparr>plLastPaymentHeight := ht\<rparr>)
      (ui\<lparr>uiCache := updateLastPaymentInfo ht paidOn createdOn (updatePayments g pend arch (uiCache ui))\<rparr>))"
  using assms by (simp add: fetchedPayments_def updateStep_def bndc_def onPool_def setCache_def)

lemma send_ws_cache [simp]: "uiCache (send_ws writeOk p ui) = uiCache ui"
  by (simp add: send_ws_def Let_def)

lemma send_ws_pushed:
  "uiPushed (send_ws writeOk p ui) = uiPushed ui @ map (\<lambda>ws. (ws, p)) (filter writeOk (uiSockets ui))"
  "uiSockets (send_ws writeOk p ui) = filter writeOk (uiSockets ui)"
  by (simp_all add: send_ws_def Let_def)

lemma updateLastPaymentInfo_keeps [simp]:
  "getPendingPayments first lastIx a (updateLastPaymentInfo ht p cr c) = getPendingPayments first lastIx a c"
  "getArchivedPayments first lastIx a (updateLastPaymentInfo ht p cr c) = getArchivedPayments first lastIx a c"
  "getPendingPaymentsTotal g a (updateLastPaymentInfo ht p cr c) = getPendingPaymentsTotal g a c"
  "getArchivedPaymentsTotal g a (updateLastPaymentInfo ht p cr c) = getArchivedPaymentsTotal g a c"
  by (simp_all add: getPendingPayments_def getArchivedPayments_def getPendingPaymentsTotal_def getArchivedPaymentsTotal_def
      updateLastPaymentInfo_def)

section \<open>An interface to try\<close>

definition demoGuiEnv :: guiEnv where
  "demoGuiEnv = \<lparr>geEnv = \<lparr>eNow = (\<lambda>_. 0), eRand = (\<lambda>_. 0), eOrder = (\<lambda>ks. ks), ePick = (\<lambda>_. 0), eConv = (\<lambda>_. 0)\<rparr>,
     gePerm = (\<lambda>n. [0 ..< n]), ToCoin = (\<lambda>a. of_int a / 100000000)\<rparr>"

definition demoWork :: "32 word \<Rightarrow> bool \<Rightarrow> AcceptedWork" where
  "demoWork ht conf = \<lparr>awUUID = [], awBlockHash = [], awPrevHash = [], awHeight = ht, awMinedBy = ''x'', awMiner = ''cpu'',
     awCreatedOn = 0, awConfirmed = conf\<rparr>"

definition demoCache :: Cache where
  "demoCache = updateMinedWork [demoWork 9 False, demoWork 8 True, demoWork 7 True, demoWork 6 True] (emptyCache ''e'')"

definition demoUI :: "unit GUI" where
  "demoUI = \<lparr>uiCache = demoCache, uiSockets = [], uiPushed = [], uiPool = ()\<rparr>"

definition demoGuiCfg :: "unit guiConfig" where
  "demoGuiCfg = \<lparr>gcSoloPool = False, gcPaymentMethod = PPLNS, gcAdminPass = ''pw'', gcDomain = [], gcActiveNetName = ''simnet'',
     gcBlockExplorerURL = ''e'', gcDesignation = [], gcPoolFee = Finite 0, gcMinerListen = [], gcGUIListen = [], gcUseLEHTTPS = False, gcNoGUITLS = True, gcWithinLimit = (\<lambda>_ _ h. (True, h)),
     gcFetchLastWorkHeight = (\<lambda>_. 9), gcFetchLastPaymentInfo = (\<lambda>_. Ok (0, 0, 0)), gcFetchMinedWork = (\<lambda>_. Ok []),
     gcFetchWorkQuotas = retc [], gcHTTPBackupDB = None, gcFetchHashData = retc [], gcAccountExists = (\<lambda>_ _. True),
     gcFetchArchivedPayments = (\<lambda>_. Ok []), gcFetchPendingPayments = (\<lambda>_. Ok []), gcRenders = (\<lambda>_. True)\<rparr>"

definition demoVisitor :: session where
  "demoVisitor = \<lparr>sessID = ''s'', sessIsAdmin = False\<rparr>"

definition demoForm :: "string \<Rightarrow> string \<Rightarrow> request" where
  "demoForm n s = \<lparr>FormValue = (\<lambda>k. if k = ''pageNumber'' then n else if k = ''pageSize'' then s else []), rqSaves = True\<rparr>"

lemma demo_confirmed:
  "filter mwConfirmed (chMinedWork (uiCache demoUI)) = map (\<lambda>ht. showWork ''e'' (demoWork ht True)) [8, 7, 6]"
  by (simp add: demoUI_def demoCache_def updateMinedWork_def emptyCache_def demoWork_def showWork_def)

lemma demo_permOk: "permOk demoGuiEnv"
  by (simp add: permOk_def demoGuiEnv_def)

section \<open>Pages whose indices wrap around\<close>

lemma i64_mod: "i64 x = (if x mod 2 ^ 64 < 2 ^ 63 then x mod 2 ^ 64 else x mod 2 ^ 64 - 2 ^ 64)"
proof -
  define r where "r = x mod 2 ^ 64"
  have r: "0 \<le> r" "r < 2 ^ 64" by (simp_all add: r_def)
  have "i64 x = (r + 2 ^ 63) mod 2 ^ 64 - 2 ^ 63" by (simp add: i64_def r_def mod_simps)
  moreover have "(r + 2 ^ 63) mod 2 ^ 64 = (if r < 2 ^ 63 then r + 2 ^ 63 else r + 2 ^ 63 - 2 ^ 64)"
    using r minus_mod_self2[of "r + 2 ^ 63" "2 ^ 64"] by (cases "r < 2 ^ 63") (simp_all add: mod_pos_pos_trivial)
  ultimately show ?thesis unfolding r_def by (simp split: if_splits)
qed

lemma pageOf_any:
  assumes "in_i64 s" "1 \<le> s" "xs \<noteq> []" and first_def: "first = x mod 2 ^ 64"
  shows "pageOf (i64 x) (i64 (i64 x + s)) xs = (if 2 ^ 63 \<le> first then Panic else if int (length xs) \<le> first then Err Foreign
    else if 2 ^ 63 \<le> first + s then Panic else Ok (length xs, take (nat s) (drop (nat first) xs)))"
proof (cases "2 ^ 63 \<le> first")
  case True
  have "first < 2 ^ 64" by (simp add: first_def)
  then have "i64 x < 0" using True i64_mod[of x] unfolding first_def by simp
  then show ?thesis using True assms(3) by (simp add: pageOf_def)
next
  case False
  have f: "0 \<le> first" "i64 x = first" using False i64_mod[of x] by (simp_all add: first_def)
  have l: "i64 (first + s) = (if first + s < 2 ^ 63 then first + s else first + s - 2 ^ 64)"
    using i64_mod[of "first + s"] assms(1,2) f(1) False by (auto simp: in_i64_def)
  show ?thesis
  proof (cases "first + s < 2 ^ 63")
    case True
    then show ?thesis using pageOf_range[of xs first "first + s"] False f assms(2,3) l by simp
  next
    case out: False
    then have "first + s - 2 ^ 64 < 0" using False assms(1) by (simp add: in_i64_def)
    then show ?thesis using out False f assms(3) l by (simp add: pageOf_def)
  qed
qed

section \<open>Properties\<close>



text \<open>
  C39: any page number and size. The first index of a page and the one after its last are
  computed modulo two to the 64, and of every number and size that is an \<open>int64\<close> it is known
  what becomes of the request: numbers below one are refused; a first index of two to the 63 or
  more reads as a negative one and the handler panics; one beyond the list is refused; if the
  other index leaves the range, the handler panics too; else the part of the list
  is answered that starts at the first index, also when the product wrapped around to it.
\<close>

theorem page_of_any_number:
  assumes "Atoi (FormValue r ''pageNumber'') = Ok n" "Atoi (FormValue r ''pageSize'') = Ok s"
    and "confirmed = filter mwConfirmed (chMinedWork (uiCache ui))" "first = (n - 1) * s mod 2 ^ 64"
  shows "paginatedBlocks r (session, ui) =
    (if n < 1 \<or> s < 1 then Ok (Status StatusBadRequest)
     else if confirmed = [] then Ok (Json 0 (WorkEntries []))
     else if 2 ^ 63 \<le> first then Panic
     else if int (length confirmed) \<le> first then Ok (Status StatusBadRequest)
     else if 2 ^ 63 \<le> first + s then Panic
     else Ok (Json (length confirmed) (WorkEntries (take (nat s) (drop (nat first) confirmed)))), (session, ui))"
proof (cases "n < 1 \<or> s < 1")
  case True
  then show ?thesis using assms(1,2) by (simp add: paginatedBlocks_def paginated_def getPaginationParams_def)
next
  case False
  have "in_i64 s" using assms(2) by (auto simp: Atoi_def split: option.splits if_splits)
  then have "pageOf (i64 ((n - 1) * s)) (i64 (i64 ((n - 1) * s) + s)) confirmed = (if confirmed = [] then Ok (0, [])
      else if 2 ^ 63 \<le> first then Panic else if int (length confirmed) \<le> first then Err Foreign
      else if 2 ^ 63 \<le> first + s then Panic else Ok (length confirmed, take (nat s) (drop (nat first) confirmed)))"
    using pageOf_any[of s confirmed first "(n - 1) * s"] False assms(4) by simp
  then show ?thesis
    using False assms(1-3) by (simp add: paginatedBlocks_def paginated_def getPaginationParams_def getConfirmedMinedWork_def Let_def)
qed

theorem page_of_any_number_witness:
  "paginatedBlocks (demoForm ''2305843009213693953'' ''4'') (demoVisitor, demoUI) = (Panic, (demoVisitor, demoUI)) \<and>
   paginatedBlocks (demoForm ''4611686018427387905'' ''4'') (demoVisitor, demoUI) =
     (Ok (Json 3 (WorkEntries (map (\<lambda>ht. showWork ''e'' (demoWork ht True)) [8, 7, 6]))), (demoVisitor, demoUI))"
proof -
  have n: "Atoi ''2305843009213693953'' = Ok 2305843009213693953" "Atoi ''4611686018427387905'' = Ok 4611686018427387905" "Atoi ''4'' = Ok 4"
    using Atoi_show[of 2305843009213693953] Atoi_show[of 4611686018427387905] Atoi_show[of 4]
    by (simp_all add: show_nat.simps char_of_def bit_0)
  show ?thesis
    using page_of_any_number[OF _ _ refl refl, where r = "demoForm ''2305843009213693953'' ''4''"
          and n = 2305843009213693953 and s = 4 and ui = demoUI and session = demoVisitor]
      page_of_any_number[OF _ _ refl refl, where r = "demoForm ''4611686018427387905'' ''4''"
          and n = 4611686018427387905 and s = 4 and ui = demoUI and session = demoVisitor] n
    by (simp add: demoForm_def demo_confirmed)
qed

text \<open>
  C22: what is shown of an account's payments. After dividends were paid, and as long as the
  database can be read, the pending and the archived payments shown of an account are the
  payments of the account, each once and those of the highest blocks first, the total is the sum
  of their amounts, and every socket that can be written to is told the height of the last payment.
\<close>

theorem account_payments_shown:
  assumes "permOk g" "fetchedPayments cfg (uiPool ui) pend arch (ht, paidOn, createdOn)"
  shows "\<exists>ui' ps qs. updateStep g cfg writeOk (Signal DividendsPaid) ui = (Ok (), ui') \<and>
      getPendingPayments first lastIx a (uiCache ui') = pageOf first lastIx (map (showPending g (blockExplorerURL (uiCache ui))) ps) \<and>
      getArchivedPayments first lastIx a (uiCache ui') = pageOf first lastIx (map (showArchived g (blockExplorerURL (uiCache ui))) qs) \<and>
      mset ps = mset (filter (\<lambda>p. pmAccount p = a) pend) \<and> mset qs = mset (filter (\<lambda>p. pmAccount p = a) arch) \<and>
      sorted_wrt (\<lambda>p q. pmHeight q \<le> pmHeight p) ps \<and> sorted_wrt (\<lambda>p q. pmHeight q \<le> pmHeight p) qs \<and>
      getPendingPaymentsTotal g a (uiCache ui') = amount g (i64 (sum_list (map pmAmount (filter (\<lambda>p. pmAccount p = a) pend)))) \<and>
      getArchivedPaymentsTotal g a (uiCache ui') = amount g (i64 (sum_list (map pmAmount (filter (\<lambda>p. pmAccount p = a) arch)))) \<and>
      getLastPaymentInfo (uiCache ui') = (ht, paidOn, createdOn) \<and> uiSockets ui' = filter writeOk (uiSockets ui) \<and>
      uiPushed ui' = uiPushed ui @ map (\<lambda>ws. (ws, noPayload\<lparr>plLastPaymentHeight := ht\<rparr>)) (uiSockets ui')"
  unfolding dividends_update[OF assms(2)]
  by (rule exI, rule exI[of _ "newestFirst g a pend"], rule exI[of _ "newestFirst g a arch"], rule conjI[OF refl])
    (simp add: send_ws_pushed updatePayments_getters[OF assms(1)] newestFirst_mset[OF assms(1)] newestFirst_sorted,
      simp add: getLastPaymentInfo_def updateLastPaymentInfo_def)

theorem account_payments_shown_witness:
  "\<exists>ui'. updateStep demoGuiEnv (demoGuiCfg\<lparr>gcFetchPendingPayments := (\<lambda>_. Ok
       [NewPayment ''a'' None 5 7 23 5 0, NewPayment ''b'' None 6 7 23 5 0, NewPayment ''a'' None 10 8 24 5 0])\<rparr>)
       (\<lambda>_. True) (Signal DividendsPaid) demoUI = (Ok (), ui') \<and>
     getPendingPaymentsTotal demoGuiEnv ''a'' (uiCache ui') = amount demoGuiEnv 15"
proof -
  let ?pend = "[NewPayment ''a'' None 5 7 23 5 0, NewPayment ''b'' None 6 7 23 5 0, NewPayment ''a'' None 10 8 24 5 0]"
  have "fetchedPayments (demoGuiCfg\<lparr>gcFetchPendingPayments := (\<lambda>_. Ok ?pend)\<rparr>) (uiPool demoUI) ?pend [] (0, 0, 0)"
    by (simp add: fetchedPayments_def demoGuiCfg_def)
  from account_payments_shown[OF demo_permOk this, of "\<lambda>_. True" 0 9 "''a''"] show ?thesis
    by (auto simp: NewPayment_def i64_def)
qed

text \<open>
  C11: the pages of the administrator. Whatever request is served, the page of the administrator and
  the backup are answered only in a session that is an administrator's, the pages of the pool's
  payments refuse other sessions, a session becomes an administrator's only by the
  administrator's password, and the cached data is not changed.
\<close>

theorem admin_pages_protected:
  assumes "serve hash g cfg up (Valid session) m path r (session, ui) = (res, (session', ui'))"
  shows "(\<forall>x. res = Ok x \<longrightarrow> adminData x \<longrightarrow> sessIsAdmin session) \<and>
    (\<not> sessIsAdmin session \<longrightarrow> path = [''admin'', ''payments'', kind] \<longrightarrow> (\<forall>n es. res \<noteq> Ok (Json n es))) \<and>
    (sessIsAdmin session' \<longrightarrow> sessIsAdmin session \<or>
      m = POST \<and> path = [''admin''] \<and> FormValue r ''password'' = gcAdminPass cfg) \<and>
    uiCache ui' = uiCache ui"
proof (cases "route hash g cfg up m path r")
  case None
  then show ?thesis using assms by (auto simp: serve_def)
next
  case (Some h)
  obtain ok pool where l: "gcWithinLimit cfg (sessID session) GUIClient (uiPool ui) = (ok, pool)" by fastforce
  let ?ui = "ui\<lparr>uiPool := pool\<rparr>"
  show ?thesis
  proof (cases ok)
    case True
    then have run: "h (session, ?ui) = (res, (session', ui'))"
      using assms Some l by (simp add: serve_def sessionMiddleware_def rateLimitMiddleware_def)
    note h = route_cases[OF Some]
    have "session' = session \<and> ui' = ?ui" if "readOnly h" using that run unfolding readOnly_def by (metis prod.inject snd_conv)
    then have "(sessIsAdmin session' \<longrightarrow> sessIsAdmin session \<or>
        m = POST \<and> path = [''admin''] \<and> FormValue r ''password'' = gcAdminPass cfg) \<and> uiCache ui' = uiCache ui"
      using h run by (auto simp: registerClient_def adminLogout_def adminLogin_def split: sum.splits if_splits)
    moreover have "\<forall>x. res = Ok x \<longrightarrow> adminData x \<longrightarrow> sessIsAdmin session"
      using h run unfolding publicOnly_def by (metis fst_conv)
    moreover have "res \<noteq> Ok (Json n es)" if "\<not> sessIsAdmin session" "path = [''admin'', ''payments'', kind]" for n es
      using that Some run unfolding route_def
      by (auto simp: paginatedPendingPoolPayments_def paginatedArchivedPoolPayments_def adminOnly_def split: if_splits)
    ultimately show ?thesis by blast
  next
    case False
    then show ?thesis using assms Some l by (auto simp: serve_def sessionMiddleware_def rateLimitMiddleware_def)
  qed
qed

theorem admin_pages_protected_witness:
  "\<not> adminData (Redirect ''/'') \<and>
   serve (\<lambda>x. x) demoGuiEnv demoGuiCfg (Inl 400) (Valid demoVisitor) GET [''admin''] (demoForm [] []) (demoVisitor, demoUI) =
     (Ok (Redirect ''/''), (demoVisitor, demoUI))"
proof -
  have run: "serve (\<lambda>x. x) demoGuiEnv demoGuiCfg (Inl 400) (Valid demoVisitor) GET [''admin''] (demoForm [] []) (demoVisitor, demoUI) =
      (Ok (Redirect ''/''), (demoVisitor, demoUI))"
    by (simp add: serve_def route_def sessionMiddleware_def rateLimitMiddleware_def adminPage_def demoGuiCfg_def demoVisitor_def demoUI_def)
  from admin_pages_protected[OF run] run show ?thesis by (simp add: demoVisitor_def)
qed

text \<open>
  The pool's own payments are shown to anyone. The account of the pool fees is an account like
  others for the public pages: in any session they answer for it what the pages of the
  administrator answer in an administrator's session.
\<close>

lemma pool_fees_shown_to_anyone:
  "\<exists>h k. route hash g cfg up GET [''account'', PoolFeesK, ''payments'', ''pending''] r = Some h \<and>
     route hash g cfg up GET [''admin'', ''payments'', ''pending''] r = Some k \<and>
     fst (h (session, ui)) = fst (k (session\<lparr>sessIsAdmin := True\<rparr>, ui))"
  by (simp add: route_def routeAccount_def PoolFeesK_def paginatedPendingPaymentsByAccount_def paginatedPendingPoolPayments_def
      adminOnly_def paginated_def)

end
