(* ===== verification/ConfigProps.thy ===== *)
theory ConfigProps
  imports Config GuiProps
begin

text \<open>
  What the checks of the configuration promise to the rest of the pool: the options of a
  configuration that was accepted, the files that are then present, and the levels of the
  loggers.
\<close>

section \<open>Steps that succeed\<close>

named_theorems start_Ok

lemma requireThat_Ok [start_Ok]: "requireThat ok what h = (Ok u, h') \<longleftrightarrow> ok \<and> h' = h"
  by (auto simp: requireThat_def)

lemma fileRequired_Ok [start_Ok]: "fileRequired name what h = (Ok u, h') \<longleftrightarrow> hoFiles h name \<and> h' = h"
  by (auto simp: fileRequired_def start_Ok fileExists_def)

lemma mkdirAll_Ok [start_Ok]:
  "mkdirAll os dir what h = (Ok u, h') \<longleftrightarrow> oMkdirAll os dir \<and> h' = h\<lparr>hoFiles := (hoFiles h)(dir := True)\<rparr>"
  by (auto simp: mkdirAll_def)

lemma ensureCerts_Ok [start_Ok]:
  "ensureCerts os cert key what h = (Ok u, h') \<longleftrightarrow>
     (if hoFiles h cert \<and> hoFiles h key then h' = h
      else oNewCertPair os \<and> oWriteFile os cert \<and> oWriteFile os key \<and>
        h' = h\<lparr>hoFiles := (hoFiles h)(cert := True, key := True)\<rparr>)"
  by (auto simp: ensureCerts_def genCertPair_def fileExists_def)

lemma initLogRotator_Ok [start_Ok]:
  "initLogRotator os dir name h = (Ok u, h') \<longleftrightarrow> oMkdirAll os dir \<and> oWriteFile os (Join dir name) \<and>
     h' = h\<lparr>hoFiles := (hoFiles h)(dir := True, Join dir name := True)\<rparr>"
  by (auto simp: initLogRotator_def)

text \<open>The fees the configuration accepts: those within the limits, and what is no number.\<close>

definition feeAccepted :: "gofloat \<Rightarrow> bool" where
  "feeAccepted fee \<longleftrightarrow> fee = NaN \<or> (\<exists>q. fee = Finite q \<and> minPoolFee \<le> q \<and> q \<le> maxPoolFee)"

lemma feeAccepted_iff:
  "\<not> (float_less fee (Finite minPoolFee) \<or> float_less (Finite maxPoolFee) fee) \<longleftrightarrow> feeAccepted fee"
  by (cases fee) (auto simp: feeAccepted_def not_less)

lemma checkPublic_Ok [start_Ok]:
  "checkPublic os net cfg h = (Ok cfg', h') \<longleftrightarrow> h' = h \<and>
     (if cfSoloPool cfg then cfg' = cfg
      else (cfPaymentMethod cfg = PPS \<or> cfPaymentMethod cfg = PPLNS) \<and> feeAccepted (cfPoolFee cfg) \<and>
        cfWalletPass cfg \<noteq> [] \<and> (\<exists>text1 rest. cfPoolFeeAddrs cfg = text1 # rest \<and> text1 \<noteq> [] \<and>
          (\<forall>a \<in> set (splitOn CHR '','' text1). oDecodeAddress os (ppName net) a) \<and>
          cfg' = cfg\<lparr>cfPoolFeeAddrs := splitOn CHR '','' text1, feeAddrs := feeAddrs cfg @ splitOn CHR '','' text1\<rparr>))"
  unfolding checkPublic_def feeAccepted_iff by (auto simp: bndc_eq_Ok start_Ok Let_def split: list.splits)

lemma checkProfile_Ok [start_Ok]:
  "checkProfile profile h = (Ok p, h') \<longleftrightarrow> h' = h \<and>
     (if profile = [] then p = [] else
        p = (case Atoi profile of Ok _ \<Rightarrow> JoinHostPort ''127.0.0.1'' profile | _ \<Rightarrow> profile) \<and>
        (\<exists>hst port. SplitHostPort p = Some (hst, port) \<and> portIn port))"
  unfolding checkProfile_def by (auto simp: bndc_eq_Ok start_Ok Let_def split: option.splits)

section \<open>Log levels\<close>

text \<open>The levels that are set are levels, and they are set for loggers that exist.\<close>

definition levelsFrom :: "osLib \<Rightarrow> string list \<Rightarrow> host \<Rightarrow> host \<Rightarrow> bool" where
  "levelsFrom os loggers h h' \<longleftrightarrow> hoFiles h' = hoFiles h \<and>
     (\<forall>s. hoLevels h' s = hoLevels h s \<or> s \<in> set loggers \<and> (\<exists>l. hoLevels h' s = Some l \<and> validLogLevel os l))"

lemma levelsFrom_trans: "levelsFrom os loggers h h1 \<Longrightarrow> levelsFrom os loggers h1 h2 \<Longrightarrow> levelsFrom os loggers h h2"
  unfolding levelsFrom_def by metis

lemma setLogLevel_levels: "validLogLevel os l \<Longrightarrow> levelsFrom os loggers h (setLogLevel loggers s l h)"
  by (simp add: levelsFrom_def setLogLevel_def)

lemma fold_levels:
  "validLogLevel os l \<Longrightarrow> levelsFrom os loggers h (fold (\<lambda>s. setLogLevel loggers s l) xs h)"
proof (induction xs arbitrary: h)
  case (Cons s xs)
  then show ?case using levelsFrom_trans[OF setLogLevel_levels[of os l loggers h s]] by simp
qed (simp add: levelsFrom_def)

lemma setLevelPair_levels:
  assumes "setLevelPair os loggers pair h = (Ok u, h')"
  shows "levelsFrom os loggers h h'"
proof -
  obtain s l where "validLogLevel os l" "h' = setLogLevel loggers s l h"
    using assms by (auto simp: setLevelPair_def split: list.splits if_splits)
  then show ?thesis using setLogLevel_levels by simp
qed

lemma setLevelPairs_levels: "forc pairs (setLevelPair os loggers) h = (Ok u, h') \<Longrightarrow> levelsFrom os loggers h h'"
proof (induction pairs arbitrary: h)
  case (Cons pair pairs)
  then show ?case by (auto simp: bndc_eq_Ok intro: levelsFrom_trans setLevelPair_levels)
qed (simp add: levelsFrom_def)

lemma parseAndSetDebugLevels_levels:
  assumes "parseAndSetDebugLevels os loggers lvl h = (Ok u, h')"
  shows "levelsFrom os loggers h h'"
proof (cases "CHR '','' \<notin> set lvl \<and> CHR ''='' \<notin> set lvl")
  case True
  with assms have "validLogLevel os lvl" "h' = setLogLevels loggers lvl h" by (auto simp: parseAndSetDebugLevels_def split: if_splits)
  then show ?thesis by (simp add: setLogLevels_def fold_levels)
next
  case False
  then show ?thesis using assms setLevelPairs_levels by (auto simp: parseAndSetDebugLevels_def split: if_splits)
qed

section \<open>Addresses\<close>

lemma takeWhile_neq: "c \<notin> set a \<Longrightarrow> takeWhile (\<lambda>x. x \<noteq> c) (a @ c # b) = a"
  by (induction a) auto

lemma lastIndexOf_append: "c \<notin> set port \<Longrightarrow> lastIndexOf c (hst @ c # port) = Some (length hst)"
  by (simp add: lastIndexOf_def indexOf_def takeWhile_neq)

lemma indexOf_append: "c \<notin> set a \<Longrightarrow> indexOf c (a @ c # b) = Some (length a)"
  by (simp add: indexOf_def takeWhile_neq)

text \<open>A host joined with a port splits into them again, an IPv6 address as any other.\<close>

lemma SplitHostPort_JoinHostPort:
  assumes "CHR ''['' \<notin> set hst" "CHR '']'' \<notin> set hst" "CHR '':'' \<notin> set port" "CHR ''['' \<notin> set port" "CHR '']'' \<notin> set port"
  shows "SplitHostPort (JoinHostPort hst port) = Some (hst, port)"
proof (cases "CHR '':'' \<in> set hst")
  case True
  let ?s = "CHR ''['' # hst @ CHR '']'' # CHR '':'' # port"
  have "lastIndexOf CHR '':'' ?s = Some (length hst + 2)" "indexOf CHR '']'' ?s = Some (length hst + 1)"
    using assms lastIndexOf_append[of "CHR '':''" port "CHR ''['' # hst @ [CHR '']'']"]
      indexOf_append[of "CHR '']''" "CHR ''['' # hst" "CHR '':'' # port"] by simp_all
  then show ?thesis using assms True by (simp add: SplitHostPort_def JoinHostPort_def)
next
  case False
  have "hd (hst @ CHR '':'' # port) \<noteq> CHR ''[''" using assms(1) by (cases hst) auto
  then show ?thesis using assms False by (simp add: SplitHostPort_def JoinHostPort_def lastIndexOf_append)
qed

definition noBrackets :: "string \<Rightarrow> bool" where
  "noBrackets s \<longleftrightarrow> CHR ''['' \<notin> set s \<and> CHR '']'' \<notin> set s"

lemma normalizeAddress_splits:
  assumes "noBrackets addr \<or> SplitHostPort addr \<noteq> None" "noBrackets port" "CHR '':'' \<notin> set port"
  shows "SplitHostPort (normalizeAddress addr port) =
    (case SplitHostPort addr of None \<Rightarrow> Some (addr, port) | Some hp \<Rightarrow> Some hp)"
  using assms by (auto simp: normalizeAddress_def noBrackets_def SplitHostPort_JoinHostPort split: option.splits)

section \<open>Accepted configurations\<close>

text \<open>The parser sets the options only, not the fields that are no options.\<close>

definition setsOptions :: "config flagsLib \<Rightarrow> bool" where
  "setsOptions fl \<longleftrightarrow> (\<forall>c c'. cmdline fl c = Parsed c' \<longrightarrow> feeAddrs c' = feeAddrs c) \<and>
     (\<forall>file c c'. iniFile fl file c = IniRead c' \<longrightarrow> feeAddrs c' = feeAddrs c)"

lemma parsed_Ok [start_Ok]:
  "(case p of Parsed c \<Rightarrow> retc c | HelpAsked \<Rightarrow> failc a | BadFlags \<Rightarrow> failc b) h = (Ok cfg, h') \<longleftrightarrow> p = Parsed cfg \<and> h' = h"
  by (cases p) auto

lemma ini_Ok [start_Ok]:
  "(case i of IniRead c \<Rightarrow> retc c | IniPathError \<Rightarrow> retc d | IniBad \<Rightarrow> failc a) h = (Ok cfg, h') \<longleftrightarrow>
     (i = IniRead cfg \<or> i = IniPathError \<and> cfg = d) \<and> h' = h"
  by (cases i) auto

lemma readConfig_Ok:
  assumes "readConfig os fl ch home h = (Ok cfg, h')" "setsOptions fl"
  shows "feeAddrs cfg = [] \<and> hoLevels h' = hoLevels h"
proof -
  have "feeAddrs (defaultConfig ch home) = []" "feeAddrs (updateHome os pre c) = feeAddrs c" for pre c
    by (simp_all add: defaultConfig_def updateHome_def Let_def)
  then show ?thesis using assms unfolding readConfig_def setsOptions_def
    by (auto simp: bndc_eq_Ok start_Ok writeFile_def Let_def split: parsed.splits(2) if_splits)
qed

text \<open>The options of a pool that pays others, and those of every pool.\<close>

definition publicOptions :: "osLib \<Rightarrow> poolParams \<Rightarrow> config \<Rightarrow> bool" where
  "publicOptions os net cfg \<longleftrightarrow> (cfPaymentMethod cfg = PPS \<or> cfPaymentMethod cfg = PPLNS) \<and>
     feeAccepted (cfPoolFee cfg) \<and> cfWalletPass cfg \<noteq> [] \<and>
     feeAddrs cfg \<noteq> [] \<and> (\<forall>a \<in> set (feeAddrs cfg). oDecodeAddress os (ppName net) a)"

definition validOptions :: "chaincfg \<Rightarrow> poolParams \<Rightarrow> config \<Rightarrow> bool" where
  "validOptions ch net cfg \<longleftrightarrow> activeNet ch cfg = Some net \<and> cfNet cfg = Some net \<and>
     AdminPass cfg \<noteq> [] \<and> RPCUser cfg \<noteq> [] \<and> RPCPass cfg \<noteq> [] \<and>
     2 * sec \<le> MaxGenTime cfg \<and> 60 * sec \<le> sint (cfLastNPeriod cfg) \<and>
     (UsePostgres cfg \<longrightarrow> PGHost cfg \<noteq> [] \<and> PGUser cfg \<noteq> [] \<and> PGDBName cfg \<noteq> []) \<and>
     (UseLEHTTPS cfg \<longrightarrow> \<not> NoGUITLS cfg \<and> Domain cfg \<noteq> []) \<and>
     (Profile cfg \<noteq> [] \<longrightarrow> (\<exists>hst port. SplitHostPort (Profile cfg) = Some (hst, port) \<and> portIn port)) \<and>
     (PurgeDB cfg \<longrightarrow> ActiveNet cfg = ppName (simNetParams ch)) \<and> \<not> GenCertsOnly cfg"

definition filesPresent :: "config \<Rightarrow> host \<Rightarrow> bool" where
  "filesPresent cfg h \<longleftrightarrow> hoFiles h (DataDir cfg) \<and> hoFiles h (LogDir cfg) \<and> hoFiles h (DcrdRPCCert cfg) \<and>
     (\<not> UseLEHTTPS cfg \<longrightarrow> hoFiles h (GUITLSCert cfg) \<and> hoFiles h (GUITLSKey cfg)) \<and>
     (\<not> cfSoloPool cfg \<longrightarrow> hoFiles h (WalletRPCCert cfg) \<and> hoFiles h (WalletTLSCert cfg) \<and> hoFiles h (WalletTLSKey cfg))"

lemma checkPublic_keeps:
  assumes "checkPublic os net c h = (Ok c', h')"
  shows "h' = h \<and> (\<exists>addrs fees. c' = c\<lparr>cfPoolFeeAddrs := addrs, feeAddrs := fees\<rparr>) \<and>
    (\<not> cfSoloPool c \<longrightarrow> feeAddrs c = [] \<longrightarrow> publicOptions os net c')"
proof (cases "cfSoloPool c")
  case True
  then have "c' = c\<lparr>cfPoolFeeAddrs := cfPoolFeeAddrs c, feeAddrs := feeAddrs c\<rparr>" "h' = h" using assms by (simp_all add: checkPublic_Ok)
  then show ?thesis using True by blast
next
  case False
  with assms obtain text1 where t: "c' = c\<lparr>cfPoolFeeAddrs := splitOn CHR '','' text1, feeAddrs := feeAddrs c @ splitOn CHR '','' text1\<rparr>"
      "\<forall>a \<in> set (splitOn CHR '','' text1). oDecodeAddress os (ppName net) a" "h' = h"
      "cfPaymentMethod c = PPS \<or> cfPaymentMethod c = PPLNS" "feeAccepted (cfPoolFee c)" "cfWalletPass c \<noteq> []"
    by (auto simp: checkPublic_Ok)
  have "feeAddrs c = [] \<longrightarrow> publicOptions os net c'" using t by (simp add: publicOptions_def splitOn_ne)
  then show ?thesis using t(1,3) by blast
qed

lemma checkNetwork_Ok:
  assumes "checkNetwork os ch cfg0 h = (Ok (net, cfg), h')"
  shows "activeNet ch cfg0 = Some net" "hoFiles h' (LogDir cfg)" "levelsFrom os subsystemLoggers (h\<lparr>hoFiles := hoFiles h'\<rparr>) h'"
    "\<exists>dataDir logDir. cfg = cfg0\<lparr>cfNet := Some net, DataDir := dataDir, LogDir := logDir\<rparr>"
  using assms unfolding checkNetwork_def Let_def
  by (auto simp: bndc_eq_Ok start_Ok levelsFrom_def split: option.splits if_splits dest!: parseAndSetDebugLevels_levels)

lemma checkAccess_Ok:
  assumes "checkAccess os net cfg0 h = (Ok cfg, h')"
  shows "AdminPass cfg0 \<noteq> []" "RPCUser cfg0 \<noteq> []" "RPCPass cfg0 \<noteq> []"
    "UsePostgres cfg0 \<longrightarrow> PGHost cfg0 \<noteq> [] \<and> PGUser cfg0 \<noteq> [] \<and> PGDBName cfg0 \<noteq> []"
    "h' = h\<lparr>hoFiles := (hoFiles h)(DataDir cfg0 := True)\<rparr>"
    "\<exists>d w g. cfg = cfg0\<lparr>DcrdRPCHost := d, WalletGRPCHost := w, MinerListen := normalizeAddress (MinerListen cfg0) defaultMinerPort, GUIListen := g\<rparr>"
  using assms unfolding checkAccess_def by (auto simp: bndc_eq_Ok start_Ok)

lemma checkInterface_Ok:
  assumes "checkInterface os cfg h = (Ok u, h')"
  shows "2 * sec \<le> MaxGenTime cfg" "60 * sec \<le> sint (cfLastNPeriod cfg)" "UseLEHTTPS cfg \<longrightarrow> \<not> NoGUITLS cfg \<and> Domain cfg \<noteq> []"
    "\<not> UseLEHTTPS cfg \<longrightarrow> hoFiles h' (GUITLSCert cfg) \<and> hoFiles h' (GUITLSKey cfg)"
    "hoLevels h' = hoLevels h" "\<forall>f. hoFiles h f \<longrightarrow> hoFiles h' f"
  using assms unfolding checkInterface_def by (auto simp: bndc_eq_Ok start_Ok split: if_splits)

lemma checkNode_Ok:
  assumes "checkNode os cfg0 h = (Ok cfg, h')"
  shows "hoFiles h' (DcrdRPCCert cfg0)"
    "\<not> cfSoloPool cfg0 \<longrightarrow> hoFiles h' (WalletTLSCert cfg0) \<and> hoFiles h' (WalletTLSKey cfg0)"
    "\<not> cfSoloPool cfg0 \<longrightarrow> \<not> GenCertsOnly cfg0 \<longrightarrow> hoFiles h' (WalletRPCCert cfg0)"
    "hoLevels h' = hoLevels h" "\<forall>f. hoFiles h f \<longrightarrow> hoFiles h' f"
    "\<exists>certs p. cfg = cfg0\<lparr>cfDcrdRPCCerts := certs, Profile := p\<rparr> \<and>
      (p \<noteq> [] \<longrightarrow> (\<exists>hst port. SplitHostPort p = Some (hst, port) \<and> portIn port))"
proof -
  obtain certs p u where cfg: "cfg = cfg0\<lparr>cfDcrdRPCCerts := certs, Profile := p\<rparr>" and node: "hoFiles h (DcrdRPCCert cfg0)"
    and p: "checkProfile (Profile cfg0) h = (Ok p, h)"
    and w: "(if cfSoloPool cfg0 then retc () else bndc (if GenCertsOnly cfg0 then retc () else fileRequired (WalletRPCCert cfg0) ''walletrpccert'')
        (\<lambda>_. ensureCerts os (WalletTLSCert cfg0) (WalletTLSKey cfg0) ''wallettlscert'')) h = (Ok u, h')"
    using assms unfolding checkNode_def bndc_eq_Ok fileRequired_Ok
    by (fastforce simp: bndc_eq_Ok checkProfile_Ok simp del: if_split_asm split: option.splits)
  show "\<exists>certs p. cfg = cfg0\<lparr>cfDcrdRPCCerts := certs, Profile := p\<rparr> \<and>
      (p \<noteq> [] \<longrightarrow> (\<exists>hst port. SplitHostPort p = Some (hst, port) \<and> portIn port))"
    using cfg p unfolding checkProfile_Ok by (metis (full_types))
  show "hoFiles h' (DcrdRPCCert cfg0)"
    "\<not> cfSoloPool cfg0 \<longrightarrow> hoFiles h' (WalletTLSCert cfg0) \<and> hoFiles h' (WalletTLSKey cfg0)"
    "\<not> cfSoloPool cfg0 \<longrightarrow> \<not> GenCertsOnly cfg0 \<longrightarrow> hoFiles h' (WalletRPCCert cfg0)"
    "hoLevels h' = hoLevels h" "\<forall>f. hoFiles h f \<longrightarrow> hoFiles h' f"
    using w node by (auto simp: bndc_eq_Ok start_Ok split: if_splits)
qed

lemma checkLast_Ok:
  assumes "checkLast ch net cfg0 h = (Ok cfg, h')"
  shows "PurgeDB cfg0 \<longrightarrow> ActiveNet cfg0 = ppName (simNetParams ch)" "\<not> GenCertsOnly cfg0" "h' = h"
    "\<exists>t. cfg = cfg0\<lparr>clientTimeout := t\<rparr>"
  using assms unfolding checkLast_def by (auto simp: bndc_eq_Ok start_Ok)

lemma checkConfig_Ok:
  assumes "checkConfig os ch cfg0 h = (Ok cfg, h')"
  shows "\<exists>net. validOptions ch net cfg \<and> (\<not> cfSoloPool cfg \<longrightarrow> feeAddrs cfg0 = [] \<longrightarrow> publicOptions os net cfg)"
    and "filesPresent cfg h'" and "levelsFrom os subsystemLoggers (h\<lparr>hoFiles := hoFiles h'\<rparr>) h'"
    and "MinerListen cfg = normalizeAddress (MinerListen cfg0) defaultMinerPort"
proof -
  obtain net c1 h1 c2 h2 c3 h3 u h4 c5 h5 where n: "checkNetwork os ch cfg0 h = (Ok (net, c1), h1)"
    and a: "checkAccess os net c1 h1 = (Ok c2, h2)" and p: "checkPublic os net c2 h2 = (Ok c3, h3)"
    and i: "checkInterface os c3 h3 = (Ok u, h4)" and d: "checkNode os c3 h4 = (Ok c5, h5)" and l: "checkLast ch net c5 h5 = (Ok cfg, h')"
    using assms unfolding checkConfig_def bndc_eq_Ok by (auto simp: bndc_eq_Ok)
  note n = checkNetwork_Ok[OF n] and a = checkAccess_Ok[OF a] and i = checkInterface_Ok[OF i] and d = checkNode_Ok[OF d]
    and l = checkLast_Ok[OF l]
  from checkPublic_keeps[OF p] obtain addrs fees where c3: "c3 = c2\<lparr>cfPoolFeeAddrs := addrs, feeAddrs := fees\<rparr>" and h3: "h3 = h2"
    and pub: "\<not> cfSoloPool c2 \<Longrightarrow> feeAddrs c2 = [] \<Longrightarrow> publicOptions os net c3" by blast
  obtain x1 x2 where c1: "c1 = cfg0\<lparr>cfNet := Some net, DataDir := x1, LogDir := x2\<rparr>" using n(4) by blast
  obtain y1 y2 y3 where c2: "c2 = c1\<lparr>DcrdRPCHost := y1, WalletGRPCHost := y2,
      MinerListen := normalizeAddress (MinerListen c1) defaultMinerPort, GUIListen := y3\<rparr>" using a(6) by blast
  obtain z1 z2 where c5: "c5 = c3\<lparr>cfDcrdRPCCerts := z1, Profile := z2\<rparr>"
    and prof: "z2 \<noteq> [] \<longrightarrow> (\<exists>hst port. SplitHostPort z2 = Some (hst, port) \<and> portIn port)" using d(6) by blast
  obtain t where cfg: "cfg = c5\<lparr>clientTimeout := t\<rparr>" using l(4) by blast
  have "ActiveNet cfg = ActiveNet cfg0" unfolding cfg c5 c3 c2 c1 by simp
  then have net: "activeNet ch cfg = Some net" using n(1) unfolding activeNet_def by (simp only:)
  show "\<exists>net. validOptions ch net cfg \<and> (\<not> cfSoloPool cfg \<longrightarrow> feeAddrs cfg0 = [] \<longrightarrow> publicOptions os net cfg)"
    using net a(1-4) i(1-3) l(1,2) prof pub unfolding cfg c5 c3 c2 c1
    by (intro exI[of _ net]) (simp add: validOptions_def publicOptions_def)
  show "filesPresent cfg h'"
    using n(2) a(5) i(4,6) d(1-3,5) l(2,3) h3 unfolding cfg c5 c3 c2 c1 by (simp add: filesPresent_def)
  show "levelsFrom os subsystemLoggers (h\<lparr>hoFiles := hoFiles h'\<rparr>) h'"
    using n(3) a(5) i(5) d(4) l(3) h3 by (simp add: levelsFrom_def)
  show "MinerListen cfg = normalizeAddress (MinerListen cfg0) defaultMinerPort" unfolding cfg c5 c3 c2 c1 by simp
qed

lemma loaded_options:
  assumes "loadConfig os fl ch home h = (Ok cfg, h')" "setsOptions fl"
  shows "filesPresent cfg h'" "levelsFrom os subsystemLoggers (h\<lparr>hoFiles := hoFiles h'\<rparr>) h'"
    "\<exists>net. validOptions ch net cfg \<and> (\<not> cfSoloPool cfg \<longrightarrow> publicOptions os net cfg)"
proof -
  obtain c h1 where r: "readConfig os fl ch home h = (Ok c, h1)" and k: "checkConfig os ch c h1 = (Ok cfg, h')"
    using assms(1) by (auto simp: loadConfig_def bndc_eq_Ok)
  show "filesPresent cfg h'" "levelsFrom os subsystemLoggers (h\<lparr>hoFiles := hoFiles h'\<rparr>) h'"
    "\<exists>net. validOptions ch net cfg \<and> (\<not> cfSoloPool cfg \<longrightarrow> publicOptions os net cfg)"
    using checkConfig_Ok(1-3)[OF k] readConfig_Ok[OF r assms(2)] by (auto simp: levelsFrom_def)
qed

section \<open>Properties\<close>

text \<open>
  C21: an accepted configuration. When the configuration loads, the network is one of the three,
  the passwords are set, the periods are long enough, the options agree with each other, a pool
  that pays others has a payment method, addresses of the network for its fee and a fee within its
  limits or one that is no number, which the comparisons let pass; the directories and
  certificates are there, the log levels set are levels of loggers that exist, and the hub gets
  the fee, the method and the addresses that were checked.
\<close>

theorem accepted_config:
  assumes "loadConfig os fl ch home h = (Ok cfg, h')" "setsOptions fl"
  shows "filesPresent cfg h' \<and>
    (\<forall>s. hoLevels h' s = hoLevels h s \<or> s \<in> set subsystemLoggers \<and> (\<exists>l. hoLevels h' s = Some l \<and> validLogLevel os l)) \<and>
    (\<exists>net. validOptions ch net cfg \<and> (\<not> cfSoloPool cfg \<longrightarrow> publicOptions os net cfg \<and>
      (hcPoolFee (newHubConfig cfg net db) = NaN \<or>
        (\<exists>fee. hcPoolFee (newHubConfig cfg net db) = Finite fee \<and> 0 < fee \<and> fee < 1)) \<and>
      hcPoolFeeAddrs (newHubConfig cfg net db) \<noteq> [] \<and> hcPaymentMethod (newHubConfig cfg net db) \<in> {PPS, PPLNS}))"
proof -
  have "0 < minPoolFee" "maxPoolFee < 1" by (simp_all add: minPoolFee_def maxPoolFee_def) code_simp+
  then show ?thesis using loaded_options[OF assms] by (fastforce simp: levelsFrom_def newHubConfig_def publicOptions_def feeAccepted_def)
qed

definition demoOs :: osLib where
  "demoOs = \<lparr>oAbs = (\<lambda>p. p), oExpandEnv = (\<lambda>p. p), oHomeOf = (\<lambda>_. None), oMkdirAll = (\<lambda>_. True), oNewCertPair = True,
     oWriteFile = (\<lambda>_. True), oReadFile = (\<lambda>_. Some []), oLevelFromString = (\<lambda>l. l = ''info''), oDecodeAddress = (\<lambda>_ _. True)\<rparr>"

definition demoChains :: chaincfg where
  "demoChains = (let net = (\<lambda>name. (demoNet\<lparr>netName := name\<rparr>, 16)) in
     \<lparr>chMainNet = net ''mainnet'', chTestNet3 = net ''testnet3'', chSimNet = net ''simnet''\<rparr>)"

definition demoFlags :: "config flagsLib" where
  "demoFlags = \<lparr>cmdline = (\<lambda>c. Parsed (c\<lparr>AdminPass := ''a'', RPCUser := ''u'', RPCPass := ''p'', cfWalletPass := ''w'',
     cfPoolFeeAddrs := [''x,y''], DcrdRPCCert := ''d'', WalletRPCCert := ''c''\<rparr>)), iniFile = (\<lambda>_ c. IniRead c)\<rparr>"

definition demoHost :: host where
  "demoHost = \<lparr>hoFiles = (\<lambda>f. f \<in> {''d'', ''c''}), hoLevels = Map.empty\<rparr>"

lemma demoFlags_options: "setsOptions demoFlags"
  by (auto simp: setsOptions_def demoFlags_def)

theorem accepted_config_witness:
  "\<exists>cfg h'. loadConfig demoOs demoFlags demoChains ''/h'' demoHost = (Ok cfg, h') \<and> filesPresent cfg h' \<and>
     (\<exists>net. validOptions demoChains net cfg)"
proof -
  have "(case fst (loadConfig demoOs demoFlags demoChains ''/h'' demoHost) of Ok _ \<Rightarrow> True | _ \<Rightarrow> False)" by code_simp
  then obtain cfg h' where "loadConfig demoOs demoFlags demoChains ''/h'' demoHost = (Ok cfg, h')"
    by (cases "loadConfig demoOs demoFlags demoChains ''/h'' demoHost") (auto split: outcome.splits)
  from accepted_config[OF this demoFlags_options] this show ?thesis by blast
qed

text \<open>A fee that is no number is accepted.\<close>

definition nanFlags :: "config flagsLib" where
  "nanFlags = demoFlags\<lparr>cmdline := (\<lambda>c. map_parsed (\<lambda>c. c\<lparr>cfPoolFee := NaN\<rparr>) (cmdline demoFlags c))\<rparr>"

lemma nan_fee_accepted:
  "\<exists>cfg h'. loadConfig demoOs nanFlags demoChains ''/h'' demoHost = (Ok cfg, h') \<and> cfPoolFee cfg = NaN"
proof -
  have "(case fst (loadConfig demoOs nanFlags demoChains ''/h'' demoHost) of Ok cfg \<Rightarrow> cfPoolFee cfg = NaN | _ \<Rightarrow> False)" by code_simp
  then show ?thesis
    by (cases "loadConfig demoOs nanFlags demoChains ''/h'' demoHost") (auto split: outcome.splits)
qed

end
