(* ===== verification/ClientTheorems.thy ===== *)
theory ClientTheorems
  imports ClientStates
begin

text \<open>
  The properties of a mining connection, over any database that keeps its contract, and their
  witnesses on the bolt database.
\<close>

section \<open>A concrete client for the witnesses\<close>

definition demoJob :: Job where
  "demoJob = NewJob (EncodeToString (replicate 180 CHR ''a'')) 9 1"

definition jobdb :: memdb where
  "jobdb = snd (persistJob mem_bolt demoJob newdb)"

lemma jobdb_inv:
  "boltInv mem_bolt jobdb"
  "absdb mem_bolt jobdb = emptyPoolDB\<lparr>tJobs := [jbUUID demoJob \<mapsto> demoJob]\<rparr>"
proof -
  have "wf_job demoJob"
    by (simp add: demoJob_def NewJob_def wf_job_def wf_key_def EncodeToString_append jobID_def flip: length_0_conv)
  then obtain db where "persistJob mem_bolt demoJob newdb = (Ok (), db)" "boltInv mem_bolt db"
    "absdb mem_bolt db = emptyPoolDB\<lparr>tJobs := [jbUUID demoJob \<mapsto> demoJob]\<rparr>"
    using mem.b_persistJob[THEN writes_live, OF _ mem.live newdb_inv(1), of demoJob]
    by (auto simp: absent_def newdb_inv(2) emptyPoolDB_def simp del: absdb_sel)
  then show "boltInv mem_bolt jobdb" "absdb mem_bolt jobdb = emptyPoolDB\<lparr>tJobs := [jbUUID demoJob \<mapsto> demoJob]\<rparr>"
    by (simp_all add: jobdb_def del: absdb_sel)
qed

definition clientWire :: Wire where
  "clientWire = \<lparr>FromBytes = (\<lambda>b. Ok (if b = [] then \<lparr>PrevBlock = ''z'', Bits = 1, Height = 10, hdrOther = []\<rparr>
       else \<lparr>PrevBlock = ''p'', Bits = 1, Height = 9, hdrOther = b\<rparr>)), HeaderBytes = (\<lambda>h. Ok (hdrOther h)),
     BlockHash = (\<lambda>h. ''z''), PowHashV2 = (\<lambda>h. ''w''), HashToBig = (\<lambda>h. 5), CompactToBig = (\<lambda>b. 10)\<rparr>"

definition demoHdr :: bytes where
  "demoHdr = replicate 128 CHR ''a'' @ le32 9 @ replicate 48 CHR ''a''"

lemma demoHdr_height: "180 \<le> length demoHdr" "le32_val (take 4 (drop 128 demoHdr)) = Ok 9"
  by (simp_all add: demoHdr_def le32_roundtrip)

definition clientCfg :: "memdb ClientConfig" where
  "clientCfg = \<lparr>ccNet = demoNet, ccDb = BoltDatabase mem_bolt, ccSoloPool = False, NonceIterations = 2 ^ 32,
     FetchMinerDifficulty = (\<lambda>m. Ok \<lparr>diTarget = 100, diDifficulty = 2, diPowLimit = 200\<rparr>), SubmitWork = (\<lambda>d. Ok True),
     FetchCurrentWork = (\<lambda>t. EncodeToString demoHdr), HashCalcThreshold = 20000000000,
     ccMaxGenTime = 20000000000, MonitorCycle = 120000000000, MaxUpgradeTries = 5, ccWire = clientWire,
     ccRules = demoRules\<lparr>HashString := take 64\<rparr>, ccEnv = plainEnv, ccBlake256 = (\<lambda>b. take 32 b), ccErrText = (\<lambda>e. ''error'')\<rparr>"

definition demoClient :: "memdb Client" where
  "demoClient = (NewClient ''abcd'' ''10.0.0.1'' jobdb 0)\<lparr>cMiner := Gominer,
     diffInfo := Some \<lparr>diTarget = 100, diDifficulty = 2, diPowLimit = 200\<rparr>, subscribed := True, authorized := True,
     cAccount := ''account''\<rparr>"

definition demoSubmit :: Request where
  "demoSubmit = \<lparr>reqID = Some 3, Method = Submit, Params = GArr [GStr ''worker'', GStr (jbUUID demoJob),
     GStr (EncodeToString ''2222''), GStr (EncodeToString ''tttt''), GStr (EncodeToString ''nnnn'')]\<rparr>"

lemma demoClient_sel:
  "cDb demoClient = jobdb" "cMiner demoClient = Gominer" "extraNonce1 demoClient = EncodeToString ''abcd''"
  "diffInfo demoClient = Some \<lparr>diTarget = 100, diDifficulty = 2, diPowLimit = 200\<rparr>" "cTick demoClient = 0"
  "cAccount demoClient = ''account''" "\<not> cCancelled demoClient" "cOut demoClient = []" "cSignals demoClient = []"
  "submissions demoClient = 0" "subscribed demoClient" "authorized demoClient"
  by (simp_all add: demoClient_def NewClient_def)

lemma clientCfg_sel:
  "ccDb clientCfg = BoltDatabase mem_bolt" "ccWire clientCfg = clientWire" "\<not> ccSoloPool clientCfg"
  "netName (ccNet clientCfg) \<noteq> mainNetName" "ccEnv clientCfg = plainEnv"
  "FetchCurrentWork clientCfg t = EncodeToString demoHdr"
  by (simp_all add: clientCfg_def demoNet_def mainNetName_def)

lemma clientCfg_db: "database_common (ccDb clientCfg) (absdb mem_bolt) (boltInv mem_bolt) True"
  using database_spec.axioms(1)[OF mem_db_spec] by (simp add: clientCfg_sel)

lemma demo_short: "shortNames clientCfg demoClient"
proof -
  have "min (length h) 64 \<le> 32000" for h :: string by linarith
  then show ?thesis by (simp add: shortNames_def demoClient_sel clientCfg_def)
qed

definition demoSolved :: BlockHeader where
  "demoSolved = \<lparr>PrevBlock = ''p'', Bits = 1, Height = 9,
     hdrOther = replicate 136 CHR ''a'' @ ''ttttnnnnabcd2222'' @ replicate 28 CHR ''a''\<rparr>"

lemma demo_solved:
  "GenerateSolvedBlockHeader clientWire (EncodeToString (replicate 180 CHR ''a'')) (EncodeToString ''abcd'')
     (EncodeToString ''2222'') (EncodeToString ''tttt'') (EncodeToString ''nnnn'') Gominer = Ok demoSolved"
  by (subst solved_bytes) (simp_all add: patch_def clientWire_def demoSolved_def)

lemma demo_fetch: "db_fetchJob (ccDb clientCfg) (jbUUID demoJob) (cDb demoClient) = Ok demoJob"
  using database_common.fetchJob[OF clientCfg_db, of jobdb "jbUUID demoJob"] jobdb_inv(1)
  by (simp add: demoClient_sel jobdb_inv(2) found_def emptyPoolDB_def del: absdb_sel)

lemma demo_meets: "meetsTarget clientCfg demoSubmit demoClient demoSolved"
proof -
  have "ParseSubmitWorkRequest demoSubmit =
      Ok (''worker'', jbUUID demoJob, EncodeToString ''2222'', EncodeToString ''tttt'', EncodeToString ''nnnn'')"
    by (simp add: demoSubmit_def ParseSubmitWorkRequest_def strParam_def index_def)
  moreover have "jbHeader demoJob = EncodeToString (replicate 180 CHR ''a'')" by (simp add: demoJob_def NewJob_def)
  ultimately show ?thesis
    using demo_fetch demo_solved
    by (simp add: meetsTarget_def solves_def demoClient_sel clientCfg_sel powOf_def netTarget_def clientWire_def)
qed

lemma demo_share:
  "\<exists>s. dueShare clientCfg demoClient = Some s \<and> tShares (absdb mem_bolt (cDb demoClient)) (shUUID s) = None"
proof -
  have "map_of (ShareWeights plainEnv) Gominer \<noteq> None" by code_simp
  then show ?thesis
    by (auto simp: dueShare_def clientCfg_sel demoClient_sel jobdb_inv(2) emptyPoolDB_def simp del: absdb_sel)
qed

section \<open>Properties\<close>

text \<open>
  C5: what a submission may change. Whatever the miner sends, on any database that keeps its
  contract and also when the medium fails, the database keeps its invariant and either nothing of
  it changes, or the request was within the limits and its header, rebuilt from a stored job, has
  a proof of work that meets the client's target. Then one share of the client's account with the
  weight of its miner is added (none in solo mode), and at most one accepted work, of that very
  header, and this only if the proof of work also meets the network target and the node accepted
  the block.
\<close>

theorem submission_effects:
  assumes "database_common (ccDb cfg) \<alpha> I live" "I (cDb c)" "shortNames cfg c"
    and "handleSubmitWorkRequest cfg req allowed c = (r, c')"
  shows "I (cDb c') \<and> (\<alpha> (cDb c') = \<alpha> (cDb c) \<or>
    allowed \<and> (\<exists>h S' W'. meetsTarget cfg req c h \<and> \<alpha> (cDb c') = (\<alpha> (cDb c))\<lparr>tShares := S', tWork := W'\<rparr> \<and>
      (if ccSoloPool cfg then S' = tShares (\<alpha> (cDb c)) else claims cfg c (tShares (\<alpha> (cDb c))) S') \<and>
      (W' = tWork (\<alpha> (cDb c)) \<or> records cfg h c (tWork (\<alpha> (cDb c))) W')))"
  by (rule database_common.submission[OF assms(1) refl assms(2-4)])

theorem submission_effects_witness:
  "boltInv mem_bolt (cDb (snd (handleSubmitWorkRequest clientCfg demoSubmit True demoClient)))"
  using submission_effects[OF clientCfg_db, of demoClient demoSubmit True] jobdb_inv(1) demo_short
  by (cases "handleSubmitWorkRequest clientCfg demoSubmit True demoClient") (auto simp: demoClient_sel simp del: absdb_sel)

text \<open>
  C12: valid work is rewarded. On a medium that does not fail, a submission within the limits whose
  proof of work meets the client's target adds the share that is due and signals it, counts the
  submission, and is answered: work above the network target with success and the error
  \<open>NetworkDifficulty\<close>, work at or below it that the node accepts with success, no error, and
  the accepted work recorded.
\<close>

theorem valid_submission_rewarded:
  assumes "database_common (ccDb cfg) \<alpha> I True" "I (cDb c)" "shortNames cfg c" "meetsTarget cfg req c h"
    and "reqID req = Some n" "\<not> cCancelled c" "dueShare cfg c = Some s" "tShares (\<alpha> (cDb c)) (shUUID s) = None"
  shows "\<exists>r c'. handleSubmitWorkRequest cfg req True c = (r, c') \<and> I (cDb c') \<and>
    tShares (\<alpha> (cDb c')) = (tShares (\<alpha> (cDb c)))(shUUID s \<mapsto> s) \<and>
    cSignals c' = cSignals c @ [ClaimedShare] \<and> submissions c' = i64 (submissions c + 1) \<and>
    (netTarget cfg h < powOf cfg h \<longrightarrow> r = Err (PoolError NetworkDifficulty) \<and>
       tWork (\<alpha> (cDb c')) = tWork (\<alpha> (cDb c)) \<and> cOut c' = cOut c @ [MResp (SubmitWorkResponse n True None)]) \<and>
    (powOf cfg h \<le> netTarget cfg h \<and> nodeAccepts cfg h \<and>
       tWork (\<alpha> (cDb c)) (awUUID (minedWork cfg h (c\<lparr>cTick := Suc (cTick c)\<rparr>))) = None \<longrightarrow> r = Ok () \<and>
       tWork (\<alpha> (cDb c')) = (tWork (\<alpha> (cDb c)))(awUUID (minedWork cfg h (c\<lparr>cTick := Suc (cTick c)\<rparr>)) \<mapsto>
         minedWork cfg h (c\<lparr>cTick := Suc (cTick c)\<rparr>)) \<and> cOut c' = cOut c @ [MResp (SubmitWorkResponse n True None)])"
  by (rule database_common.rewarded[OF assms(1) TrueI refl assms(2-)])

theorem valid_submission_rewarded_witness:
  "\<exists>c'. handleSubmitWorkRequest clientCfg demoSubmit True demoClient = (Ok (), c') \<and>
     cOut c' = [MResp (SubmitWorkResponse 3 True None)] \<and> cSignals c' = [ClaimedShare]"
proof -
  obtain s where s: "dueShare clientCfg demoClient = Some s" "tShares (absdb mem_bolt (cDb demoClient)) (shUUID s) = None"
    using demo_share by auto
  have I: "boltInv mem_bolt (cDb demoClient)" "reqID demoSubmit = Some 3" "nodeAccepts clientCfg demoSolved"
    "powOf clientCfg demoSolved \<le> netTarget clientCfg demoSolved" "tWork (absdb mem_bolt (cDb demoClient)) k = None" for k
    by (simp_all add: demoClient_sel jobdb_inv emptyPoolDB_def demoSubmit_def nodeAccepts_def clientCfg_def clientWire_def
        powOf_def netTarget_def del: absdb_sel)
  show ?thesis
    using valid_submission_rewarded[OF clientCfg_db, OF I(1) demo_short demo_meets I(2) demoClient_sel(7) s] I(3-5)
    unfolding demoClient_sel by (elim exE conjE) (auto simp del: absdb_sel)
qed

text \<open>
  C28: every request is answered once. A handler that is given a request with an identifier on a
  live connection and does not panic puts exactly one message into the client's queue, a response
  that carries the identifier of the request, whether it succeeds or fails.
\<close>

theorem requests_answered_once:
  assumes "reqID req = Some n" "\<not> cCancelled c"
  shows "(fst (handleAuthorizeRequest cfg req allowed c) = Panic \<or>
      (\<exists>resp. respID resp = n \<and> cOut (snd (handleAuthorizeRequest cfg req allowed c)) = cOut c @ [MResp resp])) \<and>
    (fst (handleSubscribeRequest cfg req allowed c) = Panic \<or>
      (\<exists>resp. respID resp = n \<and> cOut (snd (handleSubscribeRequest cfg req allowed c)) = cOut c @ [MResp resp])) \<and>
    (\<exists>resp. respID resp = n \<and> cOut (snd (handleExtraNonceSubscribeRequest cfg req allowed c)) = cOut c @ [MResp resp]) \<and>
    (fst (handleSubmitWorkRequest cfg req allowed c) = Panic \<or>
      (\<exists>resp. respID resp = n \<and> cOut (snd (handleSubmitWorkRequest cfg req allowed c)) = cOut c @ [MResp resp]))"
proof -
  have "fst (handleExtraNonceSubscribeRequest cfg req allowed c) \<noteq> Panic"
    using assms(1) by (simp add: handleExtraNonceSubscribeRequest_def Let_def refuse_def reply_def bndc_def derefID_def
        liftc_def sendMessage_def orRefuse_def ParseExtraNonceSubscribeRequest_def)
  then show ?thesis
    using assms ends_authorize[of req cfg allowed] ends_subscribe[of req cfg allowed] ends_extranonce[of req cfg allowed]
      ends_submit[of req cfg allowed]
    by (auto simp: ends_def ended_def answered_def)
qed

theorem requests_answered_once_witness:
  "\<exists>resp. respID resp = 3 \<and> cOut (snd (handleExtraNonceSubscribeRequest clientCfg demoSubmit True demoClient)) = [MResp resp]"
  using requests_answered_once[of demoSubmit 3 demoClient clientCfg True] by (simp add: demoSubmit_def demoClient_sel)

text \<open>
  C29: a work update. For a subscribed and authorized client, on a medium that does not fail, the
  current work with the time of the clock is stored as a new job, and the client is sent one
  notification with that job's identifier whose parts are those of the stored header; nothing
  else changes. A client that is not subscribed or not authorized gets nothing.
\<close>

theorem work_update_stores_job:
  assumes "database_common (ccDb cfg) \<alpha> I True" "I (cDb c)" "\<not> cCancelled c"
    and "FetchCurrentWork cfg (cTick c) = EncodeToString hdr" "180 \<le> length hdr"
    and "le32_val (take 4 (drop 128 hdr)) = Ok height" "w = EncodeToString (rolledWork cfg c hdr)"
    and "job = NewJob w height (eNow (ccEnv cfg) (Suc (cTick c)))" "tJobs (\<alpha> (cDb c)) (jbUUID job) = None"
  shows "if subscribed c \<and> authorized c then
      (\<exists>db. I db \<and> \<alpha> db = (\<alpha> (cDb c))\<lparr>tJobs := (tJobs (\<alpha> (cDb c)))(jbUUID job \<mapsto> job)\<rparr> \<and>
        updateWork cfg clean c = (Ok (), c\<lparr>cDb := db, cTick := Suc (Suc (cTick c)),
          cOut := cOut c @ [MReq (WorkNotification (jbUUID job) (drop 8 (take 72 w)) (drop 72 (take 360 w)) (take 8 w)
            (drop 232 (take 240 w)) (drop 272 (take 280 w)) clean)]\<rparr>))
    else updateWork cfg clean c = (Ok (), c)"
  using database_common.update_live[OF assms(1) TrueI refl assms(2,3) _ _ assms(4-)] by (simp add: updateWork_def)

theorem work_update_stores_job_witness:
  "\<exists>c' j. updateWork clientCfg True demoClient = (Ok (), c') \<and> length (cOut c') = 1 \<and>
     jbHeight j = 9 \<and> tJobs (absdb mem_bolt (cDb c')) (jbUUID j) = Some j"
proof -
  define j where "j = NewJob (EncodeToString (rolledWork clientCfg demoClient demoHdr)) 9
      (eNow (ccEnv clientCfg) (Suc (cTick demoClient)))"
  have "jbUUID demoJob \<noteq> jbUUID j"
    by (simp add: j_def demoJob_def NewJob_def jobID_def EncodeToString_append clientCfg_sel demoClient_sel plainEnv_def)
  then have fresh: "tJobs (absdb mem_bolt (cDb demoClient)) (jbUUID j) = None"
    by (auto simp: demoClient_sel jobdb_inv(2) emptyPoolDB_def simp del: absdb_sel)
  have I: "boltInv mem_bolt (cDb demoClient)" by (simp add: demoClient_sel jobdb_inv(1))
  from work_update_stores_job[OF clientCfg_db, OF I demoClient_sel(7) clientCfg_sel(6) demoHdr_height refl j_def fresh, of True]
  show ?thesis
    unfolding demoClient_sel(8) if_P[OF conjI[OF demoClient_sel(11,12)]]
  proof (elim exE conjE, goal_cases)
    case (1 db)
    have "jbHeight j = 9" "tJobs (absdb mem_bolt db) (jbUUID j) = Some j"
      using 1(2) by (simp_all del: absdb_sel) (simp add: j_def NewJob_def)
    then show ?case
      using 1(3) by (intro exI[of _ "snd (updateWork clientCfg True demoClient)"] exI[of _ j]) (simp del: absdb_sel)
  qed
qed

text \<open>
  C17: the states of a connection. However the steps of a client's goroutines, of the hub and of
  the other clients interleave, from a new connection on: the extra nonce never changes; a
  subscribed client has a supported miner, the difficulty of that miner and the name made from
  both, and a client that is not subscribed has no difficulty; an authorized client has the
  account of an address the network accepts (in solo mode the pool's own); and work notifications
  are only ever written to the connection of an authorized and subscribed client.
\<close>

theorem connection_states:
  assumes "reachable cfg (NewClient random addr db tick) c"
  shows "extraNonce1 c = EncodeToString random \<and>
    (if subscribed c then cMiner c \<in> {CPU, Gominer, NiceHashValidator} \<and> cId c = extraNonce1 c @ ''/'' @ cMiner c \<and>
       (\<exists>info. diffInfo c = Some info \<and> FetchMinerDifficulty cfg (cMiner c) = Ok info)
     else diffInfo c = None) \<and>
    (authorized c \<longrightarrow> knownAccount cfg (cAccount c)) \<and>
    (\<forall>j \<in> set (cSent c). isWork j \<longrightarrow> authorized c \<and> subscribed c)"
  using reachable_ok[OF assms new_ok] unfolding clientOk_def identified_def by auto

definition demoSubscribe :: Request where
  "demoSubscribe = SubscribeRequest (Some 1) ''decred-gominer/2.0.0'' []"

lemma digits: "char_of (50 :: nat) = CHR ''2''" "char_of (48 :: nat) = CHR ''0''"
  by code_simp+

theorem connection_states_witness:
  "\<exists>c. reachable clientCfg (NewClient ''abcd'' ''10.0.0.1'' jobdb 0) c \<and> subscribed c \<and>
     cId c = EncodeToString ''abcd'' @ ''/decred-gominer'' \<and> diffInfo c \<noteq> None"
proof -
  let ?c = "NewClient ''abcd'' ''10.0.0.1'' jobdb 0"
  let ?m = "demoSubscribe\<lparr>Params := received_val (Params demoSubscribe)\<rparr>"
  have "IdentifyMessage (Some (marshalRequest demoSubscribe)) = Ok (MReq ?m, RequestMessage)"
    by (simp add: IdentifyMessage_def request_document demoSubscribe_def SubscribeRequest_def Subscribe_def)
  then have "clientStep clientCfg ?c (snd (process clientCfg (MReq ?m, RequestMessage) True ?c))"
    using clientStep.received[of _ _ clientCfg True ?c] by (metis prod.collapse)
  then have r: "reachable clientCfg ?c (snd (process clientCfg (MReq ?m, RequestMessage) True ?c))"
    by (rule reachable.step[OF reachable.start])
  define v where "v = \<lparr>Major = 2, Minor = 0, Patch = 0, PreRelease = [], BuildMetadata = []\<rparr>"
  have "parseUserAgent ''decred-gominer/2.0.0'' = Some \<lparr>uaVer = v, clientName = ''decred-gominer''\<rparr>"
    unfolding parseUserAgent_eq by (simp add: v_def wfSemVer_def formatSemVer_def show_nat.simps digits)
  then have i: "identifyMiningClients ''decred-gominer/2.0.0'' = Ok [Gominer]"
    unfolding identify_table by (auto simp: v_def agentTable_def)
  have p: "ParseSubscribeRequest ?m = Ok (''decred-gominer/2.0.0'', [])" "Method ?m = Subscribe" "reqID ?m = Some 1"
    by (simp_all add: demoSubscribe_def SubscribeRequest_def ParseSubscribeRequest_def received_val_def strParam_def index_def)
  have "subscribed (snd (process clientCfg (MReq ?m, RequestMessage) True ?c)) \<and>
      cMiner (snd (process clientCfg (MReq ?m, RequestMessage) True ?c)) = Gominer"
    using p i by (simp add: process_def processRequest_def method_defs logged_def handleSubscribeRequest_def Let_def bndc_def
        orRefuse_def liftc_def map_errc_def index_def clientCfg_def reply_def derefID_def sendMessage_def NewClient_def)
  then show ?thesis
    using connection_states[OF r] r by (intro exI) (auto simp: Gominer_def)
qed

end
