(* ===== verification/ChainProps.thy ===== *)
theory ChainProps
  imports ChainState PayGen
begin

text \<open>
  What connected and disconnected blocks do to a database that keeps its contract: pruning, the
  confirmation of mined work, the payments that follow, and reorganisations.
\<close>

section \<open>Database calls of the chain state\<close>

lemma cs_write_live:
  assumes "writes \<alpha> I live op pre upd" "live" "I (csDb cs)" "pre (\<alpha> (csDb cs)) = None"
  shows "\<exists>db'. cs_write op cs = (Ok (), cs\<lparr>csDb := db'\<rparr>) \<and> I db' \<and> \<alpha> db' = upd (\<alpha> (csDb cs))"
  using writes_live[OF assms] by (auto simp: cs_write_def)

lemma csDb_cs_write: "csDb (snd (cs_write op cs)) = snd (op (csDb cs))"
  by (simp add: cs_write_def split: prod.splits)

text \<open>
  The confirmations the pruning sees: those the daemon reports, zero for a block it does not
  know, none when looking them up fails.
\<close>

definition chainConfs :: "'db ChainStateConfig \<Rightarrow> string \<Rightarrow> int option" where
  "chainConfs cfg blockHash = (case NewHashFromStr (csRules cfg) blockHash of
     Ok hash \<Rightarrow> (case csGetBlockConfirmations cfg hash of
         Ok c \<Rightarrow> Some c
       | Err err \<Rightarrow> if errors_is err BlockNotFound then Some 0 else None
       | Panic \<Rightarrow> None)
   | _ \<Rightarrow> None)"

definition prunedRow :: "'db ChainStateConfig \<Rightarrow> AcceptedWork \<Rightarrow> AcceptedWork option" where
  "prunedRow cfg w = (if the (chainConfs cfg (awBlockHash w)) \<le> 0 then None
     else Some (w\<lparr>awConfirmed := True\<rparr>))"

text \<open>What pruning leaves of the accepted work and of the payments.\<close>

definition prunedWork :: "'db ChainStateConfig \<Rightarrow> 32 word \<Rightarrow> (string \<rightharpoonup> AcceptedWork) \<Rightarrow> string \<rightharpoonup> AcceptedWork" where
  "prunedWork cfg height t = (\<lambda>k. case t k of None \<Rightarrow> None
     | Some w \<Rightarrow> if awHeight w < height \<and> \<not> awConfirmed w then prunedRow cfg w else Some w)"

definition prunedPayments :: "'db ChainStateConfig \<Rightarrow> 32 word \<Rightarrow> (string \<rightharpoonup> Payment) \<Rightarrow> string \<rightharpoonup> Payment" where
  "prunedPayments cfg height t = (\<lambda>k. case t k of None \<Rightarrow> None
     | Some p \<Rightarrow> if pm_pending p \<and> pmEstimatedMaturity p + 1 < height \<and> the (chainConfs cfg (pm_block p)) \<le> 0
                 then None else Some p)"

text \<open>The database after the pruning a block at a height triggers at a time.\<close>

definition prunedDB :: "'db ChainStateConfig \<Rightarrow> 32 word \<Rightarrow> 64 word \<Rightarrow> PoolDB \<Rightarrow> PoolDB" where
  "prunedDB cfg height now s = s\<lparr>
     tJobs := (\<lambda>k. case tJobs s k of
       Some b \<Rightarrow> if jbHeight b < height - MaxReorgLimit then None else Some b | None \<Rightarrow> None),
     tHashData := (\<lambda>k. case tHashData s k of
       Some d \<Rightarrow> if sint (hdUpdatedOn d) < sint (now - tenMinutes) then None else Some d | None \<Rightarrow> None),
     tWork := prunedWork cfg (height - MaxReorgLimit) (tWork s),
     tPayments := prunedPayments cfg height (tPayments s)\<rparr>"

definition knownBlock :: "'db ChainStateConfig \<Rightarrow> string \<Rightarrow> bool" where
  "knownBlock cfg h \<longleftrightarrow> (\<exists>bh c. NewHashFromStr (csRules cfg) h = Ok bh \<and> csGetBlockConfirmations cfg bh = Ok c)"

text \<open>The daemon can tell about every block the database names.\<close>

definition knownRows :: "'db ChainStateConfig \<Rightarrow> PoolDB \<Rightarrow> bool" where
  "knownRows cfg s \<longleftrightarrow> (\<forall>w \<in> ran (tWork s). chainConfs cfg (awBlockHash w) \<noteq> None) \<and>
     (\<forall>p \<in> ran (tPayments s). pm_pending p \<longrightarrow> knownBlock cfg (pm_block p))"

definition connectedDB :: "'db ChainStateConfig \<Rightarrow> BlockHeader \<Rightarrow> 64 word \<Rightarrow> PoolDB \<Rightarrow> PoolDB" where
  "connectedDB cfg header now s =
     (if MaxReorgLimit < Height header then prunedDB cfg (Height header) now s else s)"

text \<open>The source the payments of a block name.\<close>

definition blockSource :: "'db ChainStateConfig \<Rightarrow> MsgBlock \<Rightarrow> MsgTx \<Rightarrow> PaymentSource" where
  "blockSource cfg block cb =
     \<lparr>srcBlockHash = HashString (csRules cfg) (BlockHash (csWire cfg) (bkHeader block)),
      srcCoinbase = HashString (csRules cfg) (txHash cb)\<rparr>"

definition unconfirmed :: "string \<Rightarrow> (string \<rightharpoonup> AcceptedWork) \<Rightarrow> string \<rightharpoonup> AcceptedWork" where
  "unconfirmed k t = (case t k of None \<Rightarrow> t | Some w \<Rightarrow> t(k \<mapsto> w\<lparr>awConfirmed := False\<rparr>))"

text \<open>The identifier of the work a connected block confirms.\<close>

definition parentHash :: "'db ChainStateConfig \<Rightarrow> BlockHeader \<Rightarrow> string" where
  "parentHash cfg header = HashString (csRules cfg) (PrevBlock header)"

definition parentID :: "'db ChainStateConfig \<Rightarrow> BlockHeader \<Rightarrow> string" where
  "parentID cfg header = AcceptedWorkID (parentHash cfg header) (Height header - 1)"

text \<open>
  The message is a header whose parent the daemon knows as \<open>block\<close>, with the coinbase
  \<open>cb\<close>, and is the unconfirmed accepted work \<open>w\<close>.
\<close>

definition minedParent :: "'db ChainStateConfig \<Rightarrow> PoolDB \<Rightarrow> bytes \<Rightarrow> BlockHeader \<Rightarrow> MsgBlock \<Rightarrow> MsgTx
    \<Rightarrow> AcceptedWork \<Rightarrow> bool" where
  "minedParent cfg s msg header block cb w \<longleftrightarrow>
     FromBytes (csWire cfg) msg = Ok header \<and> GetBlock cfg (PrevBlock header) = Ok block \<and>
     BlockHash (csWire cfg) (bkHeader block) = PrevBlock header \<and>
     (\<exists>txs. bkTransactions block = cb # txs) \<and> unat (coinbaseIndex cb) < length (txOuts cb) \<and>
     tWork s (parentID cfg header) = Some w \<and> \<not> awConfirmed w \<and>
     card {p \<in> ran (tPayments s). pm_pending p \<and> pm_block p = parentHash cfg header} < 2 ^ 32"

text \<open>The tables after the rows of a list have been pruned.\<close>

definition pruneRows :: "'db ChainStateConfig \<Rightarrow> AcceptedWork list \<Rightarrow> (string \<rightharpoonup> AcceptedWork) \<Rightarrow> string \<rightharpoonup> AcceptedWork" where
  "pruneRows cfg ws t = (\<lambda>k. if k \<in> awUUID ` set ws then prunedRow cfg (the (t k)) else t k)"

definition dropRows :: "'db ChainStateConfig \<Rightarrow> Payment list \<Rightarrow> (string \<rightharpoonup> Payment) \<Rightarrow> string \<rightharpoonup> Payment" where
  "dropRows cfg ps t = (\<lambda>k. if \<exists>p \<in> set ps. pmUUID p = k \<and> the (chainConfs cfg (pm_block p)) \<le> 0 then None else t k)"

lemma wf_work_confirmed [simp]: "wf_work (w\<lparr>awConfirmed := b\<rparr>) = wf_work w"
  by (simp add: wf_work_def)

lemma pruneWork_step:
  assumes "chainConfs cfg (awBlockHash w) = Some c"
  shows "pruneWork cfg w = (if c \<le> 0 then cs_write (db_deleteAcceptedWork (csD cfg) (awUUID w))
     else cs_write (db_updateAcceptedWork (csD cfg) (w\<lparr>awConfirmed := True\<rparr>)))"
  using assms unfolding chainConfs_def pruneWork_def bndc_reading
  by (auto split: outcome.splits if_splits)

context database_spec
begin

lemma pruneWork_live:
  assumes "live" "csD cfg = D" "I (csDb cs)" "chainConfs cfg (awBlockHash w) \<noteq> None"
    and w: "tWork (\<alpha> (csDb cs)) (awUUID w) = Some w"
  shows "\<exists>db'. pruneWork cfg w cs = (Ok (), cs\<lparr>csDb := db'\<rparr>) \<and> I db' \<and>
    \<alpha> db' = (\<alpha> (csDb cs))\<lparr>tWork := (tWork (\<alpha> (csDb cs)))(awUUID w := prunedRow cfg w)\<rparr>"
proof -
  obtain c where c: "chainConfs cfg (awBlockHash w) = Some c" using assms(4) by auto
  have "wf_work w" using wf_rows[OF assms(3)] w by blast
  then have "wf_work (w\<lparr>awConfirmed := True\<rparr>)" by simp
  note upd = cs_write_live[OF updateAcceptedWork[OF this] assms(1,3)]
  show ?thesis
  proof (cases "c \<le> 0")
    case True
    then show ?thesis
      using cs_write_live[OF deleteAcceptedWork assms(1,3), of "awUUID w"] c
      by (simp add: pruneWork_step[OF c] assms(2) prunedRow_def)
  next
    case False
    then show ?thesis
      using upd c w by (simp add: pruneWork_step[OF c] assms(2) prunedRow_def present_def)
  qed
qed

lemma pruneWork_loop:
  assumes "live" "csD cfg = D" "I (csDb cs)" "\<forall>w \<in> set ws. chainConfs cfg (awBlockHash w) \<noteq> None"
    and "\<forall>w \<in> set ws. tWork (\<alpha> (csDb cs)) (awUUID w) = Some w" "distinct (map awUUID ws)"
  shows "\<exists>db'. forc ws (pruneWork cfg) cs = (Ok (), cs\<lparr>csDb := db'\<rparr>) \<and> I db' \<and>
    \<alpha> db' = (\<alpha> (csDb cs))\<lparr>tWork := pruneRows cfg ws (tWork (\<alpha> (csDb cs)))\<rparr>"
  using assms(3-)
proof (induction ws arbitrary: cs)
  case Nil
  then show ?case by (intro exI[of _ "csDb cs"]) (simp add: pruneRows_def)
next
  case (Cons w ws)
  obtain db1 where db1: "pruneWork cfg w cs = (Ok (), cs\<lparr>csDb := db1\<rparr>)" "I db1"
    "\<alpha> db1 = (\<alpha> (csDb cs))\<lparr>tWork := (tWork (\<alpha> (csDb cs)))(awUUID w := prunedRow cfg w)\<rparr>"
    using pruneWork_live[OF assms(1,2) Cons.prems(1), of w] Cons.prems(2,3) by auto
  have "\<forall>v \<in> set ws. tWork (\<alpha> db1) (awUUID v) = Some v"
  proof
    fix v assume "v \<in> set ws"
    then have "awUUID v \<noteq> awUUID w" "tWork (\<alpha> (csDb cs)) (awUUID v) = Some v" using Cons.prems(3,4) by force+
    then show "tWork (\<alpha> db1) (awUUID v) = Some v" by (simp add: db1(3))
  qed
  then obtain db2 where db2: "forc ws (pruneWork cfg) (cs\<lparr>csDb := db1\<rparr>) = (Ok (), cs\<lparr>csDb := db2\<rparr>)" "I db2"
    "\<alpha> db2 = (\<alpha> db1)\<lparr>tWork := pruneRows cfg ws (tWork (\<alpha> db1))\<rparr>"
    using Cons.IH[of "cs\<lparr>csDb := db1\<rparr>"] Cons.prems(2,4) db1(2) by auto
  have "pruneRows cfg ws ((tWork (\<alpha> (csDb cs)))(awUUID w := prunedRow cfg w)) =
      pruneRows cfg (w # ws) (tWork (\<alpha> (csDb cs)))"
    using Cons.prems(3,4) by (auto simp: pruneRows_def fun_eq_iff)
  then show ?case using db1(1) db2 unfolding db1(3) by (intro exI[of _ db2]) (simp add: bndc_Ok)
qed

lemma pruneAcceptedWork_live:
  assumes "live" "csD cfg = D" "I (csDb cs)"
    and conf: "\<forall>w \<in> ran (tWork (\<alpha> (csDb cs))). awHeight w < height \<and> \<not> awConfirmed w \<longrightarrow>
      chainConfs cfg (awBlockHash w) \<noteq> None"
  shows "\<exists>db'. pruneAcceptedWork cfg height cs = (Ok (), cs\<lparr>csDb := db'\<rparr>) \<and> I db' \<and>
    \<alpha> db' = (\<alpha> (csDb cs))\<lparr>tWork := prunedWork cfg height (tWork (\<alpha> (csDb cs)))\<rparr>"
proof -
  let ?t = "tWork (\<alpha> (csDb cs))"
  obtain ws where ws: "db_fetchUnconfirmedWork D height (csDb cs) = Ok ws" "distinct ws"
    "set ws = {w \<in> ran ?t. awHeight w < height \<and> \<not> awConfirmed w}"
    using fetchUnconfirmedWork[OF assms(3), of height] by (auto simp: lists_rows_def)
  have rows: "?t k = Some w \<Longrightarrow> awUUID w = k" for k w using wf_rows[OF assms(3)] by blast
  have mem: "?t (awUUID w) = Some w" if "w \<in> set ws" for w
    using that ws(3) rows by (auto simp: ran_def)
  have d: "distinct (map awUUID ws)"
    using ws(2) mem by (simp add: distinct_map inj_on_def) (metis option.inject)
  have uu: "k \<in> awUUID ` set ws \<longleftrightarrow> (\<exists>w. ?t k = Some w \<and> awHeight w < height \<and> \<not> awConfirmed w)" for k
    using rows mem by (force simp: ws(3) image_iff ran_def)
  obtain db' where db': "forc ws (pruneWork cfg) cs = (Ok (), cs\<lparr>csDb := db'\<rparr>)" "I db'"
    "\<alpha> db' = (\<alpha> (csDb cs))\<lparr>tWork := pruneRows cfg ws ?t\<rparr>"
    using pruneWork_loop[OF assms(1-3), of ws] mem d conf ws(3) by auto
  have "pruneRows cfg ws ?t = prunedWork cfg height ?t"
    by (rule ext) (auto simp: pruneRows_def uu prunedWork_def split: option.splits)
  then show ?thesis
    using db' ws(1) by (intro exI[of _ db']) (simp add: pruneAcceptedWork_def bndc_def cs_read_def assms(2))
qed

lemma prunePayment_live:
  assumes "live" "csD cfg = D" "I (csDb cs)" "pmSource p \<noteq> None" "knownBlock cfg (pm_block p)"
  shows "\<exists>db'. prunePayment cfg p cs = (Ok (), cs\<lparr>csDb := db'\<rparr>) \<and> I db' \<and>
    \<alpha> db' = (\<alpha> (csDb cs))\<lparr>tPayments := (if the (chainConfs cfg (pm_block p)) \<le> 0
      then (tPayments (\<alpha> (csDb cs)))(pmUUID p := None) else tPayments (\<alpha> (csDb cs)))\<rparr>"
proof -
  obtain h c where h: "NewHashFromStr (csRules cfg) (pm_block p) = Ok h" "csGetBlockConfirmations cfg h = Ok c"
    using assms(5) by (auto simp: knownBlock_def)
  obtain s where s: "pmSource p = Some s" "pm_block p = srcBlockHash s" using assms(4) by (auto simp: pm_block_def)
  have step: "prunePayment cfg p = (if c \<le> 0 then cs_write (db_deletePayment D (pmUUID p)) else retc ())"
    using h s by (simp add: prunePayment_def bndc_reading assms(2))
  show ?thesis
    using cs_write_live[OF deletePayment assms(1,3), of "pmUUID p"] h assms(3)
    by (cases "c \<le> 0") (auto simp: step chainConfs_def intro!: exI[of _ "csDb cs"])
qed

lemma prunePayment_loop:
  assumes "live" "csD cfg = D" "I (csDb cs)" "\<forall>p \<in> set ps. pmSource p \<noteq> None \<and> knownBlock cfg (pm_block p)"
  shows "\<exists>db'. forc ps (prunePayment cfg) cs = (Ok (), cs\<lparr>csDb := db'\<rparr>) \<and> I db' \<and>
    \<alpha> db' = (\<alpha> (csDb cs))\<lparr>tPayments := dropRows cfg ps (tPayments (\<alpha> (csDb cs)))\<rparr>"
  using assms(3-)
proof (induction ps arbitrary: cs)
  case Nil
  then show ?case by (intro exI[of _ "csDb cs"]) (simp add: dropRows_def)
next
  case (Cons p ps)
  have one: "(if the (chainConfs cfg (pm_block p)) \<le> 0 then t(pmUUID p := None) else t) = dropRows cfg [p] t" for t
    by (auto simp: dropRows_def fun_eq_iff)
  have two: "dropRows cfg ps (dropRows cfg [p] t) = dropRows cfg (p # ps) t" for t
    by (auto simp: dropRows_def fun_eq_iff)
  obtain db1 where db1: "prunePayment cfg p cs = (Ok (), cs\<lparr>csDb := db1\<rparr>)" "I db1"
    "\<alpha> db1 = (\<alpha> (csDb cs))\<lparr>tPayments := dropRows cfg [p] (tPayments (\<alpha> (csDb cs)))\<rparr>"
    using prunePayment_live[OF assms(1,2) Cons.prems(1), of p] Cons.prems(2) unfolding one by auto
  obtain db2 where "forc ps (prunePayment cfg) (cs\<lparr>csDb := db1\<rparr>) = (Ok (), cs\<lparr>csDb := db2\<rparr>)" "I db2"
    "\<alpha> db2 = (\<alpha> db1)\<lparr>tPayments := dropRows cfg ps (tPayments (\<alpha> db1))\<rparr>"
    using Cons.IH[of "cs\<lparr>csDb := db1\<rparr>"] Cons.prems(2) db1(2) by auto
  then show ?case using db1(1,3) two by (intro exI[of _ db2]) (simp add: bndc_Ok)
qed

lemma prunePayments_live:
  assumes "live" "csD cfg = D" "I (csDb cs)"
    and loc: "\<forall>p \<in> ran (tPayments (\<alpha> (csDb cs))). pm_pending p \<and> pmEstimatedMaturity p + 1 < height \<longrightarrow>
      knownBlock cfg (pm_block p)"
  shows "\<exists>db'. prunePayments cfg height cs = (Ok (), cs\<lparr>csDb := db'\<rparr>) \<and> I db' \<and>
    \<alpha> db' = (\<alpha> (csDb cs))\<lparr>tPayments := prunedPayments cfg height (tPayments (\<alpha> (csDb cs)))\<rparr>"
proof -
  let ?t = "tPayments (\<alpha> (csDb cs))"
  let ?P = "\<lambda>p. pm_pending p \<and> pmEstimatedMaturity p + 1 < height"
  obtain ps where ps: "db_fetchPaymentsAtHeight D height (csDb cs) = (Ok ps, csDb cs)"
    "set ps = {p \<in> ran ?t. ?P p}"
    using fetchPaymentsAtHeight[OF assms(3), of height] assms(1)
    by (cases "db_fetchPaymentsAtHeight D height (csDb cs)") (auto simp: lists_rows_def split: outcome.splits)
  have rows: "?t k = Some p \<Longrightarrow> pmUUID p = k \<and> pmSource p \<noteq> None" for k p
    using wf_rows[OF assms(3)] unfolding wf_payment_def by blast
  have "\<forall>p \<in> set ps. pmSource p \<noteq> None \<and> knownBlock cfg (pm_block p)"
    using loc rows unfolding ps(2) ran_def by blast
  from prunePayment_loop[OF assms(1-3) this]
  obtain db' where db': "forc ps (prunePayment cfg) cs = (Ok (), cs\<lparr>csDb := db'\<rparr>)" "I db'"
    "\<alpha> db' = (\<alpha> (csDb cs))\<lparr>tPayments := dropRows cfg ps ?t\<rparr>"
    by (elim exE conjE)
  have "dropRows cfg ps ?t = prunedPayments cfg height ?t"
  proof
    fix k
    have "(\<exists>p \<in> set ps. pmUUID p = k \<and> the (chainConfs cfg (pm_block p)) \<le> 0) \<longleftrightarrow>
        (\<exists>p. ?t k = Some p \<and> ?P p \<and> the (chainConfs cfg (pm_block p)) \<le> 0)"
      unfolding ps(2) using rows by (auto simp: ran_def)
    then show "dropRows cfg ps ?t k = prunedPayments cfg height ?t k"
      by (auto simp: dropRows_def prunedPayments_def split: option.splits)
  qed
  then show ?thesis
    using db' ps(1) by (intro exI[of _ db']) (simp add: prunePayments_def bndc_def cs_write_def assms(2))
qed

text \<open>The pruning of a connected block.\<close>

lemma pruneAll_live:
  assumes "live" "csD cfg = D" "I (csDb cs)"
    and "\<forall>w \<in> ran (tWork (\<alpha> (csDb cs))). awHeight w < height - MaxReorgLimit \<and> \<not> awConfirmed w \<longrightarrow>
      chainConfs cfg (awBlockHash w) \<noteq> None"
    and "\<forall>p \<in> ran (tPayments (\<alpha> (csDb cs))). pm_pending p \<and> pmEstimatedMaturity p + 1 < height \<longrightarrow>
      knownBlock cfg (pm_block p)"
  shows "\<exists>db'. pruneAll cfg height cs = (Ok (), cs\<lparr>csTick := Suc (csTick cs), csDb := db'\<rparr>) \<and> I db' \<and>
    \<alpha> db' = prunedDB cfg height (csNow cfg (csTick cs)) (\<alpha> (csDb cs))"
proof -
  let ?l = "height - MaxReorgLimit"
  obtain db1 where db1: "cs_write (db_deleteJobsBeforeHeight D ?l) cs = (Ok (), cs\<lparr>csDb := db1\<rparr>)" "I db1"
    "\<alpha> db1 = (\<alpha> (csDb cs))\<lparr>tJobs := (\<lambda>k. case tJobs (\<alpha> (csDb cs)) k of
       Some b \<Rightarrow> if jbHeight b < ?l then None else Some b | None \<Rightarrow> None)\<rparr>"
    using cs_write_live[OF deleteJobsBeforeHeight assms(1,3), of ?l] by auto
  let ?t = "csNow cfg (csTick cs) - tenMinutes"
  let ?cs1 = "cs\<lparr>csDb := db1, csTick := Suc (csTick cs)\<rparr>"
  obtain db2 where db2: "cs_write (db_pruneHashData D ?t) ?cs1 = (Ok (), ?cs1\<lparr>csDb := db2\<rparr>)" "I db2"
    "\<alpha> db2 = (\<alpha> db1)\<lparr>tHashData := (\<lambda>k. case tHashData (\<alpha> db1) k of
       Some d \<Rightarrow> if sint (hdUpdatedOn d) < sint ?t then None else Some d | None \<Rightarrow> None)\<rparr>"
    using cs_write_live[OF pruneHashData assms(1), of ?cs1 ?t] db1(2) by auto
  let ?cs2 = "cs\<lparr>csTick := Suc (csTick cs), csDb := db2\<rparr>"
  obtain db3 where db3: "pruneAcceptedWork cfg ?l ?cs2 = (Ok (), ?cs2\<lparr>csDb := db3\<rparr>)" "I db3"
    "\<alpha> db3 = (\<alpha> db2)\<lparr>tWork := prunedWork cfg ?l (tWork (\<alpha> db2))\<rparr>"
    using pruneAcceptedWork_live[OF assms(1,2), of ?cs2 ?l] db2(2,3) db1(3) assms(4) by auto
  let ?cs3 = "cs\<lparr>csTick := Suc (csTick cs), csDb := db3\<rparr>"
  obtain db4 where db4: "prunePayments cfg height ?cs3 = (Ok (), ?cs3\<lparr>csDb := db4\<rparr>)" "I db4"
    "\<alpha> db4 = (\<alpha> db3)\<lparr>tPayments := prunedPayments cfg height (tPayments (\<alpha> db3))\<rparr>"
    using prunePayments_live[OF assms(1,2), of ?cs3 height] db3(2,3) db2(3) db1(3) assms(5) by auto
  show ?thesis
    using db1 db2 db3 db4
    by (intro exI[of _ db4]) (simp add: pruneAll_def Let_def bndc_def map_errc_def prunedDB_def assms(2))
qed

end

section \<open>The invariant of the database\<close>

definition cs_keeps :: "('db \<Rightarrow> bool) \<Rightarrow> ('db, 'a) csop \<Rightarrow> bool" where
  "cs_keeps I c \<longleftrightarrow> (\<forall>cs. I (csDb cs) \<longrightarrow> I (csDb (snd (c cs))))"

lemma keepsD: "cs_keeps I c \<Longrightarrow> I (csDb cs) \<Longrightarrow> I (csDb (snd (c cs)))"
  by (simp add: cs_keeps_def)

lemma keeps_pure [simp]:
  "cs_keeps I (retc x)" "cs_keeps I (failc err)" "cs_keeps I (liftc r)" "cs_keeps I (readc g)"
  "cs_keeps I (cs_read f)" "cs_keeps I (cs_signal event)" "cs_keeps I (\<lambda>cs. (r, cs))"
  by (simp_all add: cs_keeps_def liftc_def cs_read_def cs_signal_def)

lemma keeps_map_errc [simp]: "cs_keeps I (map_errc f c) = cs_keeps I c"
  by (simp add: cs_keeps_def)

lemma keeps_write: "writes \<alpha> I live op pre upd \<Longrightarrow> cs_keeps I (cs_write op)"
  by (simp add: cs_keeps_def csDb_cs_write writes_keeps)

lemma keeps_bndc_result:
  assumes "cs_keeps I m"
    and "\<And>cs x cs'. I (csDb cs) \<Longrightarrow> m cs = (Ok x, cs') \<Longrightarrow> I (csDb cs') \<Longrightarrow> I (csDb (snd (f x cs')))"
  shows "cs_keeps I (bndc m f)"
  unfolding cs_keeps_def
proof (intro allI impI)
  fix cs :: "'a ChainState" assume I: "I (csDb cs)"
  then have "I (csDb (snd (m cs)))" using assms(1) by (rule keepsD[rotated])
  then show "I (csDb (snd (bndc m f cs)))"
    using assms(2)[OF I] by (cases "m cs"; cases "fst (m cs)") (auto simp: bndc_def)
qed

lemma keeps_bndc: "cs_keeps I m \<Longrightarrow> (\<And>x. cs_keeps I (f x)) \<Longrightarrow> cs_keeps I (bndc m f)"
  by (rule keeps_bndc_result) (auto simp: cs_keeps_def)

lemma keeps_forc: "(\<And>x. x \<in> set xs \<Longrightarrow> cs_keeps I (f x)) \<Longrightarrow> cs_keeps I (forc xs f)"
  by (induction xs) (auto intro: keeps_bndc)

lemma keeps_modc: "(\<And>cs. csDb (g cs) = csDb cs) \<Longrightarrow> cs_keeps I (modc g)"
  by (simp add: cs_keeps_def)

context database_spec
begin

lemma pruneWork_keeps:
  assumes "csD cfg = D" "wf_work w"
  shows "cs_keeps I (pruneWork cfg w)"
  unfolding pruneWork_def assms(1) using assms(2)
  by (intro keeps_bndc) (auto intro: keeps_write[OF deleteAcceptedWork] keeps_write[OF updateAcceptedWork])

lemma pruneAcceptedWork_keeps: "csD cfg = D \<Longrightarrow> cs_keeps I (pruneAcceptedWork cfg height)"
  unfolding pruneAcceptedWork_def
proof (rule keeps_bndc_result)
  fix cs ws cs'
  assume *: "csD cfg = D" "I (csDb cs)" "cs_read (db_fetchUnconfirmedWork (csD cfg) height) cs = (Ok ws, cs')" "I (csDb cs')"
  have "db_fetchUnconfirmedWork D height (csDb cs) = Ok ws" using *(1,3) by (auto simp: cs_read_def)
  then have "set ws \<subseteq> ran (tWork (\<alpha> (csDb cs)))"
    using fetchUnconfirmedWork[OF *(2), of height] by (auto simp: lists_rows_def)
  then have "\<forall>w \<in> set ws. wf_work w" using wf_rows[OF *(2)] unfolding ran_def by blast
  then have "cs_keeps I (forc ws (pruneWork cfg))" using pruneWork_keeps[OF *(1)] by (intro keeps_forc) auto
  then show "I (csDb (snd (forc ws (pruneWork cfg) cs')))" using *(4) by (rule keepsD)
qed simp

lemma prunePayments_keeps: "csD cfg = D \<Longrightarrow> cs_keeps I (prunePayments cfg height)"
  unfolding prunePayments_def
proof (rule keeps_bndc)
  assume D: "csD cfg = D"
  show "cs_keeps I (cs_write (db_fetchPaymentsAtHeight (csD cfg) height))"
    using fetchPaymentsAtHeight[of _ height] unfolding cs_keeps_def csDb_cs_write D by (metis prod.collapse)
  show "cs_keeps I (forc ps (prunePayment cfg))" for ps
    unfolding prunePayment_def D
    by (intro keeps_forc keeps_bndc) (auto intro: keeps_write[OF deletePayment] split: option.split)
qed

lemma pruneAll_keeps: "csD cfg = D \<Longrightarrow> cs_keeps I (pruneAll cfg height)"
proof -
  assume D: "csD cfg = D"
  have "I (csDb (snd (cs_write (db_pruneHashData D t) (cs\<lparr>csTick := n\<rparr>))))" if "I (csDb cs)" for cs t n
    using keepsD[OF keeps_write[OF pruneHashData], of "cs\<lparr>csTick := n\<rparr>" t] that by simp
  then have "cs_keeps I (\<lambda>cs. map_errc Wrapped (cs_write (db_pruneHashData D (csNow cfg (csTick cs) - tenMinutes)))
      (cs\<lparr>csTick := Suc (csTick cs)\<rparr>))"
    by (simp add: cs_keeps_def)
  then show ?thesis
    unfolding pruneAll_def Let_def D
    using pruneAcceptedWork_keeps[OF D] prunePayments_keeps[OF D]
    by (intro keeps_bndc) (auto intro: keeps_write[OF deleteJobsBeforeHeight])
qed

lemma fetched_work_wf:
  "I db \<Longrightarrow> db_fetchAcceptedWork D uuid db = Ok w \<Longrightarrow> tWork (\<alpha> db) uuid = Some w \<and> awUUID w = uuid \<and> wf_work w"
  using wf_rows[of db] fetchAcceptedWork[of db uuid] by (auto simp: found_def split: option.splits)

lemma update_keeps: "wf_work w \<Longrightarrow> cs_keeps I (cs_write (db_updateAcceptedWork D (w\<lparr>awConfirmed := b\<rparr>)))"
  by (rule keeps_write[OF updateAcceptedWork]) simp

lemma blockDisconnected_keeps:
  assumes "csD cfg = D"
  shows "cs_keeps I (blockDisconnected cfg msg)"
proof -
  have un: "cs_keeps I (\<lambda>cs. case db_fetchAcceptedWork D uuid (csDb cs) of
        Err err \<Rightarrow> (if errors_is err ValueNotFound then Ok () else Err (Wrapped err), cs)
      | Panic \<Rightarrow> (Panic, cs)
      | Ok work \<Rightarrow> bndc (unconfirmWork cfg work) (\<lambda>_. c) cs)" if "cs_keeps I c" for uuid c
    unfolding cs_keeps_def
  proof (intro allI impI)
    fix cs :: "'db ChainState" assume I: "I (csDb cs)"
    have "I (csDb (snd (bndc (unconfirmWork cfg work) (\<lambda>_. c) cs)))"
      if "db_fetchAcceptedWork D uuid (csDb cs) = Ok work" for work
    proof -
      have "cs_keeps I (unconfirmWork cfg work)"
        using update_keeps fetched_work_wf[OF I that] by (simp add: unconfirmWork_def assms)
      then have "cs_keeps I (bndc (unconfirmWork cfg work) (\<lambda>_. c))"
        using \<open>cs_keeps I c\<close> by (rule keeps_bndc)
      then show ?thesis using I by (rule keepsD)
    qed
    then show "I (csDb (snd (case db_fetchAcceptedWork D uuid (csDb cs) of
        Err err \<Rightarrow> (if errors_is err ValueNotFound then Ok () else Err (Wrapped err), cs)
      | Panic \<Rightarrow> (Panic, cs)
      | Ok work \<Rightarrow> bndc (unconfirmWork cfg work) (\<lambda>_. c) cs)))"
      using I by (auto split: outcome.split)
  qed
  have ret: "unconfirmWork cfg work = bndc (unconfirmWork cfg work) (\<lambda>_. retc ())" for work
    by (auto simp: bndc_def fun_eq_iff split: prod.split outcome.split)
  show ?thesis
    unfolding blockDisconnected_def Let_def assms
    by (auto split: outcome.split intro!: keeps_bndc un) (subst ret, rule un, simp)
qed

section \<open>Effects\<close>

lemma pending_count:
  assumes "I db" "card {p \<in> ran (tPayments (\<alpha> db)). pm_pending p \<and> pm_block p = h} < 2 ^ 32"
  shows "\<exists>count. db_pendingPaymentsForBlockHash D h db = Ok count \<and>
    (0 < count \<longleftrightarrow> (\<exists>p \<in> ran (tPayments (\<alpha> db)). pm_pending p \<and> pm_block p = h))"
proof -
  let ?S = "{p \<in> ran (tPayments (\<alpha> db)). pm_pending p \<and> pm_block p = h}"
  obtain ps where "set ps = {p \<in> ran (tPayments (\<alpha> db)). pm_pending p}"
    using fetchPendingPayments[OF assms(1)] unfolding lists_rows_def by blast
  then have "?S = set (filter (\<lambda>p. pm_block p = h) ps)" by auto
  then have "finite ?S" by (simp only: finite_set)
  then have "?S \<noteq> {} \<longleftrightarrow> 0 < card ?S" by (simp add: card_gt_0_iff)
  moreover have "0 < (of_nat (card ?S) :: 32 word) \<longleftrightarrow> 0 < card ?S"
    using assms(2) by (simp add: word_less_nat_alt unat_of_nat)
  ultimately show ?thesis using pendingPaymentsForBlockHash[OF assms(1), of h] by auto
qed

lemma confirmParent_none:
  assumes "csD cfg = D" "I (csDb cs)"
    and "\<forall>w. tWork (\<alpha> (csDb cs)) (parentID cfg header) = Some w \<longrightarrow> awConfirmed w"
  shows "confirmParent cfg header block coinbaseTx cs = (Ok (), cs)"
  using fetchAcceptedWork[OF assms(2), of "parentID cfg header"] assms(1,3)
  by (cases "tWork (\<alpha> (csDb cs)) (parentID cfg header)")
    (simp_all add: confirmParent_def Let_def parentHash_def[symmetric] parentID_def[symmetric] found_def)

text \<open>The source of the payments of a block.\<close>

lemma confirmParent_live:
  assumes live: "live" and D: "csD cfg = D" and I: "I (csDb cs)"
    and w: "tWork (\<alpha> (csDb cs)) (parentID cfg header) = Some w" "\<not> awConfirmed w"
    and cb: "unat (coinbaseIndex cb) < length (txOuts cb)"
    and few: "card {p \<in> ran (tPayments (\<alpha> (csDb cs))). pm_pending p \<and> pm_block p = parentHash cfg header} < 2 ^ 32"
  shows "\<exists>db1. I db1 \<and>
    \<alpha> db1 = (\<alpha> (csDb cs))\<lparr>tWork := (tWork (\<alpha> (csDb cs)))(parentID cfg header \<mapsto> w\<lparr>awConfirmed := True\<rparr>)\<rparr> \<and>
    confirmParent cfg header block cb cs =
      (let cs1 = cs\<lparr>csDb := db1, csSignals := csSignals cs @ [Confirmed]\<rparr> in
       if csSoloPool cfg \<or> (\<exists>p \<in> ran (tPayments (\<alpha> (csDb cs))). pm_pending p \<and> pm_block p = parentHash cfg header) then (Ok (), cs1)
       else cs_write (GeneratePayments cfg (Height (bkHeader block)) (blockSource cfg block cb)
              (txOuts cb ! unat (coinbaseIndex cb)) (awCreatedOn w)) cs1)"
proof -
  have row: "awUUID w = parentID cfg header" "wf_work (w\<lparr>awConfirmed := True\<rparr>)" using wf_rows[OF I] w(1) by auto
  obtain db1 where db1: "cs_write (db_updateAcceptedWork D (w\<lparr>awConfirmed := True\<rparr>)) cs = (Ok (), cs\<lparr>csDb := db1\<rparr>)"
    "I db1" "\<alpha> db1 = (\<alpha> (csDb cs))\<lparr>tWork := (tWork (\<alpha> (csDb cs)))(parentID cfg header \<mapsto> w\<lparr>awConfirmed := True\<rparr>)\<rparr>"
    using cs_write_live[OF updateAcceptedWork[OF row(2)] live I] w(1) row(1) by (auto simp: present_def)
  obtain count where count: "db_pendingPaymentsForBlockHash D (parentHash cfg header) db1 = Ok count"
    "0 < count \<longleftrightarrow> (\<exists>p \<in> ran (tPayments (\<alpha> (csDb cs))). pm_pending p \<and> pm_block p = parentHash cfg header)"
    using pending_count[OF db1(2), of "parentHash cfg header"] few db1(3) by auto
  have fetch: "db_fetchAcceptedWork D (parentID cfg header) (csDb cs) = Ok w" using fetchAcceptedWork[OF I, of "parentID cfg header"] w(1) by (simp add: found_def)
  have amt: "index (txOuts cb) (unat (coinbaseIndex cb)) = (Ok (txOuts cb ! unat (coinbaseIndex cb)) :: _ go)"
    using cb by (simp add: index_def)
  have pay: "payForBlock cfg (parentHash cfg header) block cb w (cs\<lparr>csDb := db1, csSignals := csSignals cs @ [Confirmed]\<rparr>) =
    (if 0 < count then (Ok (), cs\<lparr>csDb := db1, csSignals := csSignals cs @ [Confirmed]\<rparr>)
     else cs_write (GeneratePayments cfg (Height (bkHeader block)) (blockSource cfg block cb)
              (txOuts cb ! unat (coinbaseIndex cb)) (awCreatedOn w))
            (cs\<lparr>csDb := db1, csSignals := csSignals cs @ [Confirmed]\<rparr>))"
    using count(1) amt
    by (simp add: payForBlock_def bndc_def map_errc_def cs_read_def liftc_def D Let_def blockSource_def)
  have "confirmParent cfg header block cb cs =
      (if csSoloPool cfg then retc () else payForBlock cfg (parentHash cfg header) block cb w)
        (cs\<lparr>csDb := db1, csSignals := csSignals cs @ [Confirmed]\<rparr>)"
    using fetch w(2) db1(1)
    by (simp add: confirmParent_def Let_def D parentHash_def[symmetric] parentID_def[symmetric] bndc_def map_errc_def cs_signal_def)
  then show ?thesis
    using db1(2,3) unfolding Let_def pay count(2)[symmetric]
    by (intro exI[of _ db1]) (simp add: pay)
qed

lemma connect_prunes:
  assumes live: "live" and D: "csD cfg = D" and I: "I (csDb cs)"
    and b: "FromBytes (csWire cfg) msg = Ok header" "GetBlock cfg (PrevBlock header) = Ok block"
      "bkTransactions block = cb # txs"
    and known: "knownRows cfg (\<alpha> (csDb cs))"
  shows "\<exists>db1 tick msgs. I db1 \<and> \<alpha> db1 = connectedDB cfg header (csNow cfg (csTick cs)) (\<alpha> (csDb cs)) \<and>
    blockConnected cfg msg cs = confirmParent cfg header block cb
      (cs\<lparr>csPaymentMsgs := msgs, csTick := tick, csDb := db1\<rparr>)"
proof -
  let ?msgs = "if csSoloPool cfg then csPaymentMsgs cs else csPaymentMsgs cs @
      [\<lparr>CurrentHeight = Height header, CoinbaseIndex = coinbaseIndex cb\<rparr>]"
  let ?cs = "cs\<lparr>csPaymentMsgs := ?msgs\<rparr>"
  have step: "blockConnected cfg msg cs =
      bndc (if MaxReorgLimit < Height header then pruneAll cfg (Height header) else retc ()) (\<lambda>_.
        confirmParent cfg header block cb) ?cs"
    using b by (simp add: blockConnected_def bndc_def map_errc_def liftc_def index_def)
  show ?thesis
  proof (cases "MaxReorgLimit < Height header")
    case True
    obtain db1 where "pruneAll cfg (Height header) ?cs = (Ok (), ?cs\<lparr>csTick := Suc (csTick cs), csDb := db1\<rparr>)" "I db1"
      "\<alpha> db1 = prunedDB cfg (Height header) (csNow cfg (csTick cs)) (\<alpha> (csDb cs))"
      using pruneAll_live[OF live D, of ?cs "Height header"] I known by (auto simp: knownRows_def)
    then show ?thesis
      using True step by (intro exI[of _ db1] exI[of _ "Suc (csTick cs)"] exI[of _ ?msgs])
        (simp add: bndc_Ok connectedDB_def)
  next
    case False
    then show ?thesis
      using step I by (intro exI[of _ "csDb cs"] exI[of _ "csTick cs"] exI[of _ ?msgs])
        (simp add: bndc_Ok connectedDB_def)
  qed
qed

lemma knownRows_unconfirmed:
  assumes "knownRows cfg s"
  shows "knownRows cfg (s\<lparr>tWork := unconfirmed k' (unconfirmed k (tWork s))\<rparr>)"
proof -
  have "\<exists>v \<in> ran t. awBlockHash v = awBlockHash w" if "w \<in> ran (unconfirmed x t)" for w x t
    using that by (auto simp: unconfirmed_def ran_def split: option.splits if_splits)
  then have "\<exists>v \<in> ran (tWork s). awBlockHash v = awBlockHash w"
    if "w \<in> ran (unconfirmed k' (unconfirmed k (tWork s)))" for w
    using that by metis
  then show ?thesis using assms unfolding knownRows_def by simp metis
qed

lemma unconfirm_live:
  assumes "live" "csD cfg = D" "I (csDb cs)" "tWork (\<alpha> (csDb cs)) k = Some w"
  shows "\<exists>db1. unconfirmWork cfg w cs = (Ok (), cs\<lparr>csDb := db1\<rparr>) \<and> I db1 \<and>
    \<alpha> db1 = (\<alpha> (csDb cs))\<lparr>tWork := unconfirmed k (tWork (\<alpha> (csDb cs)))\<rparr>"
proof -
  have row: "awUUID w = k" "wf_work (w\<lparr>awConfirmed := False\<rparr>)" using wf_rows[OF assms(3)] assms(4) by auto
  show ?thesis
    using cs_write_live[OF updateAcceptedWork[OF row(2)] assms(1,3)] assms(2,4) row(1)
    by (auto simp: present_def unconfirmWork_def map_errc_def unconfirmed_def)
qed

lemma disconnect_live:
  assumes live: "live" and D: "csD cfg = D" and I: "I (csDb cs)"
    and b: "FromBytes (csWire cfg) msg = Ok header"
    and k: "k = AcceptedWorkID (HashString (csRules cfg) (PrevBlock header)) (Height header - 1)"
    and k': "k' = AcceptedWorkID (HashString (csRules cfg) (BlockHash (csWire cfg) header)) (Height header)"
  shows "\<exists>db1. I db1 \<and> \<alpha> db1 = (\<alpha> (csDb cs))\<lparr>tWork := unconfirmed k' (unconfirmed k (tWork (\<alpha> (csDb cs))))\<rparr> \<and>
    blockDisconnected cfg msg cs = (Ok (), cs\<lparr>csDb := db1, csSignals := csSignals cs @
      (if tWork (\<alpha> (csDb cs)) k' = None then [] else [Unconfirmed])\<rparr>)"
proof -
  have one: "\<exists>db1. (case db_fetchAcceptedWork D x (csDb c) of
        Err err \<Rightarrow> (if errors_is err ValueNotFound then Ok () else Err (Wrapped err), c)
      | Panic \<Rightarrow> (Panic, c)
      | Ok work \<Rightarrow> bndc (unconfirmWork cfg work) (\<lambda>_. nxt) c) =
      (if tWork (\<alpha> (csDb c)) x = None then (Ok (), c\<lparr>csDb := db1\<rparr>) else nxt (c\<lparr>csDb := db1\<rparr>)) \<and> I db1 \<and>
      \<alpha> db1 = (\<alpha> (csDb c))\<lparr>tWork := unconfirmed x (tWork (\<alpha> (csDb c)))\<rparr>"
    if Ic: "I (csDb c)" for x c and nxt :: "('db, unit) csop"
  proof (cases "tWork (\<alpha> (csDb c)) x")
    case None
    then show ?thesis
      using fetchAcceptedWork[OF Ic, of x] Ic by (intro exI[of _ "csDb c"]) (simp add: found_def unconfirmed_def)
  next
    case (Some w)
    then show ?thesis
      using fetchAcceptedWork[OF Ic, of x] unconfirm_live[OF live D Ic Some] by (auto simp: found_def bndc_Ok)
  qed
  have ret: "unconfirmWork cfg w c = bndc (unconfirmWork cfg w) (\<lambda>_. retc ()) c" for w c
    by (auto simp: bndc_def split: prod.split outcome.split)
  obtain db1 where db1: "(case db_fetchAcceptedWork D k (csDb cs) of
        Err err \<Rightarrow> (if errors_is err ValueNotFound then Ok () else Err (Wrapped err), cs)
      | Panic \<Rightarrow> (Panic, cs)
      | Ok work \<Rightarrow> unconfirmWork cfg work cs) = (Ok (), cs\<lparr>csDb := db1\<rparr>)" "I db1"
    "\<alpha> db1 = (\<alpha> (csDb cs))\<lparr>tWork := unconfirmed k (tWork (\<alpha> (csDb cs)))\<rparr>"
    using one[OF I, where x = k and nxt = "retc ()"] unfolding ret[symmetric] retc_apply if_cancel by auto
  have some: "unconfirmed k t x = None \<longleftrightarrow> t x = None" for t x
    by (auto simp: unconfirmed_def split: option.splits)
  obtain db2 where db2: "(case db_fetchAcceptedWork D k' db1 of
        Err err \<Rightarrow> (if errors_is err ValueNotFound then Ok () else Err (Wrapped err), cs\<lparr>csDb := db1\<rparr>)
      | Panic \<Rightarrow> (Panic, cs\<lparr>csDb := db1\<rparr>)
      | Ok work \<Rightarrow> bndc (unconfirmWork cfg work) (\<lambda>_. cs_signal Unconfirmed) (cs\<lparr>csDb := db1\<rparr>)) =
      (if tWork (\<alpha> (csDb cs)) k' = None then (Ok (), cs\<lparr>csDb := db2\<rparr>) else cs_signal Unconfirmed (cs\<lparr>csDb := db2\<rparr>))"
    "I db2" "\<alpha> db2 = (\<alpha> db1)\<lparr>tWork := unconfirmed k' (tWork (\<alpha> db1))\<rparr>"
    using one[where c = "cs\<lparr>csDb := db1\<rparr>" and x = k' and nxt = "cs_signal Unconfirmed"] db1(2,3) by (auto simp: some cong: if_cong)
  have "blockDisconnected cfg msg cs =
      (if tWork (\<alpha> (csDb cs)) k' = None then (Ok (), cs\<lparr>csDb := db2\<rparr>) else cs_signal Unconfirmed (cs\<lparr>csDb := db2\<rparr>))"
    unfolding blockDisconnected_def Let_def b outcome.case D k[symmetric] k'[symmetric]
    unfolding bndc_def db1(1) using db2(1) unfolding bndc_def by simp
  then show ?thesis
    using db2(2,3) db1(3) by (intro exI[of _ db2]) (simp add: cs_signal_def)
qed

end

context payment_generator
begin

lemma payForBlock_keeps:
  assumes "csD cfg = D" "GeneratePayments cfg = G"
  shows "cs_keeps I (payForBlock cfg ph block coinbaseTx work)"
proof -
  have "cs_keeps I (cs_write (G height source amt createdOn))" for height source amt createdOn
    using G_keeps by (simp add: cs_keeps_def csDb_cs_write)
  then show ?thesis
    unfolding payForBlock_def assms Let_def by (intro keeps_bndc) (auto intro!: keeps_bndc)
qed

lemma confirmParent_keeps:
  assumes "csD cfg = D" "GeneratePayments cfg = G"
  shows "cs_keeps I (confirmParent cfg header block coinbaseTx)"
  unfolding cs_keeps_def
proof (intro allI impI)
  fix cs :: "'db ChainState"
  assume I: "I (csDb cs)"
  let ?h = "HashString (csRules cfg) (PrevBlock header)"
  have "I (csDb (snd (bndc (map_errc Wrapped (cs_write (db_updateAcceptedWork D (w\<lparr>awConfirmed := True\<rparr>))))
      (\<lambda>_. bndc (cs_signal Confirmed) (\<lambda>_. if csSoloPool cfg then retc () else payForBlock cfg ?h block coinbaseTx w)) cs)))"
    if "db_fetchAcceptedWork D (AcceptedWorkID ?h (Height header - 1)) (csDb cs) = Ok w" for w
  proof -
    have "cs_keeps I (bndc (map_errc Wrapped (cs_write (db_updateAcceptedWork D (w\<lparr>awConfirmed := True\<rparr>))))
      (\<lambda>_. bndc (cs_signal Confirmed) (\<lambda>_. if csSoloPool cfg then retc () else payForBlock cfg ?h block coinbaseTx w)))"
      using update_keeps fetched_work_wf[OF I that] payForBlock_keeps[OF assms] by (intro keeps_bndc) auto
    then show ?thesis using I by (rule keepsD)
  qed
  then show "I (csDb (snd (confirmParent cfg header block coinbaseTx cs)))"
    using I unfolding confirmParent_def Let_def assms(1) by (auto split: outcome.split)
qed

lemma blockConnected_keeps:
  assumes "csD cfg = D" "GeneratePayments cfg = G"
  shows "cs_keeps I (blockConnected cfg msg)"
  unfolding blockConnected_def
  using confirmParent_keeps[OF assms] pruneAll_keeps[OF assms(1)]
  by (auto split: outcome.split intro!: keeps_bndc keeps_modc)

lemma handleChainUpdates_keeps:
  assumes "csD cfg = D" "GeneratePayments cfg = G" "I (csDb cs)"
  shows "I (csDb (snd (snd (handleChainUpdates cfg evs n cs))))"
  using assms(3)
proof (induction evs arbitrary: n cs)
  case (Cons ev evs)
  have conn: "I (csDb (snd (blockConnected cfg header cs)))" "I (csDb (snd (blockDisconnected cfg header cs)))" for header
    using keepsD[OF blockConnected_keeps[OF assms(1,2)]] keepsD[OF blockDisconnected_keeps[OF assms(1)]] Cons.prems by auto
  show ?case
  proof (cases ev)
    case (BlockConn header)
    then show ?thesis using conn(1)[of header] Cons.IH by (auto split: prod.split outcome.split)
  next
    case (BlockDisc header)
    then show ?thesis using conn(2)[of header] Cons.IH by (auto split: prod.split outcome.split)
  qed (simp add: Cons.prems)
qed simp

text \<open>A block connected, disconnected and connected again is paid once.\<close>

lemma prunedPayments_stable:
  assumes "\<And>k p. t k = Some p \<Longrightarrow> prunedPayments cfg height t' k = Some p \<or> pm_block p = h"
    and "0 < the (chainConfs cfg h)"
  shows "prunedPayments cfg height t = t"
proof
  fix k
  show "prunedPayments cfg height t k = t k"
  proof (cases "t k")
    case (Some p)
    consider "prunedPayments cfg height t' k = Some p" | "pm_block p = h" using assms(1)[OF Some] by blast
    then show ?thesis
      using Some assms(2) by cases (auto simp: prunedPayments_def split: option.splits if_splits)
  qed (simp add: prunedPayments_def)
qed

lemma parent_row_height:
  assumes "I db" "tWork (\<alpha> db) (AcceptedWorkID h n) = Some w"
  shows "awHeight w = n"
proof -
  have "take 8 (AcceptedWorkID h n) = EncodeToString (heightToBigEndianBytes (awHeight w))"
    using wf_rows[OF assms(1)] assms(2) unfolding wf_work_def by metis
  moreover have "take 8 (AcceptedWorkID h n) = EncodeToString (heightToBigEndianBytes n)"
    by (simp add: AcceptedWorkID_def)
  ultimately show ?thesis by simp
qed

lemma parent_above_limit: "MaxReorgLimit < height \<Longrightarrow> \<not> height - 1 < height - MaxReorgLimit"
  by (simp add: MaxReorgLimit_def) unat_arith

lemma first_connect:
  assumes live: "live" and D: "csD cfg = D" "GeneratePayments cfg = G" and I: "I (csDb cs)" and solo: "\<not> csSoloPool cfg"
    and known: "knownRows cfg (\<alpha> (csDb cs))"
    and s1: "s1 = connectedDB cfg header (csNow cfg (csTick cs)) (\<alpha> (csDb cs))"
    and mined: "minedParent cfg s1 msg header block cb w"
    and ok: "blockConnected cfg msg cs = (Ok (), cs1)"
  shows "I (csDb cs1)" "tWork (\<alpha> (csDb cs1)) (parentID cfg header) = Some (w\<lparr>awConfirmed := True\<rparr>)"
    "\<exists>p \<in> ran (tPayments (\<alpha> (csDb cs1))). pm_pending p \<and> pm_block p = parentHash cfg header"
    "\<And>j p. tPayments (\<alpha> (csDb cs1)) j = Some p \<Longrightarrow> tPayments s1 j = Some p \<or> pm_block p = parentHash cfg header"
proof -
  obtain txs where b: "FromBytes (csWire cfg) msg = Ok header" "GetBlock cfg (PrevBlock header) = Ok block"
      "bkTransactions block = cb # txs" "unat (coinbaseIndex cb) < length (txOuts cb)"
      "BlockHash (csWire cfg) (bkHeader block) = PrevBlock header"
    and w: "tWork s1 (parentID cfg header) = Some w" "\<not> awConfirmed w"
    and few: "card {p \<in> ran (tPayments s1). pm_pending p \<and> pm_block p = parentHash cfg header} < 2 ^ 32"
    using mined by (auto simp: minedParent_def)
  obtain db0 tick msgs where p: "I db0" "\<alpha> db0 = s1"
    "blockConnected cfg msg cs = confirmParent cfg header block cb (cs\<lparr>csPaymentMsgs := msgs, csTick := tick, csDb := db0\<rparr>)"
    using connect_prunes[OF live D(1) I b(1-3) known] s1 by auto
  let ?cs = "cs\<lparr>csPaymentMsgs := msgs, csTick := tick, csDb := db0\<rparr>"
  let ?src = "blockSource cfg block cb" and ?k = "parentID cfg header" and ?h = "parentHash cfg header"
  have src: "srcBlockHash ?src = ?h" using b(5) by (simp add: blockSource_def parentHash_def)
  obtain db1 where c: "I db1" "\<alpha> db1 = s1\<lparr>tWork := (tWork s1)(?k \<mapsto> w\<lparr>awConfirmed := True\<rparr>)\<rparr>"
    "confirmParent cfg header block cb ?cs =
      (let cs1 = ?cs\<lparr>csDb := db1, csSignals := csSignals ?cs @ [Confirmed]\<rparr> in
       if csSoloPool cfg \<or> (\<exists>p \<in> ran (tPayments s1). pm_pending p \<and> pm_block p = ?h) then (Ok (), cs1)
       else cs_write (G (Height (bkHeader block)) ?src (txOuts cb ! unat (coinbaseIndex cb)) (awCreatedOn w)) cs1)"
    using confirmParent_live[OF live D(1) _ _ w(2) b(4), of ?cs] p(1,2) w(1) few D(2) by auto
  let ?G = "G (Height (bkHeader block)) ?src (txOuts cb ! unat (coinbaseIndex cb)) (awCreatedOn w)"
  have cases: "csDb cs1 = db1 \<and> (\<exists>p \<in> ran (tPayments s1). pm_pending p \<and> pm_block p = ?h) \<or> ?G db1 = (Ok (), csDb cs1)"
    using ok c(3) solo unfolding p(3) Let_def by (auto simp: cs_write_def split: if_splits prod.splits)
  have sG: "csDb cs1 = snd (?G db1)" if "?G db1 = (Ok (), csDb cs1)" using that by simp
  show "I (csDb cs1)" using cases c(1) G_keeps[OF c(1)] sG by metis
  have "tWork (\<alpha> (csDb cs1)) = tWork (\<alpha> db1)" using cases G_work[OF c(1)] sG by metis
  then show "tWork (\<alpha> (csDb cs1)) ?k = Some (w\<lparr>awConfirmed := True\<rparr>)" using c(2) by simp
  show "\<exists>p \<in> ran (tPayments (\<alpha> (csDb cs1))). pm_pending p \<and> pm_block p = ?h"
  proof (cases "?G db1 = (Ok (), csDb cs1)")
    case True
    show ?thesis using G_files[OF c(1) True] src by simp
  next
    case False
    then show ?thesis using cases c(2) by simp
  qed
  have "tPayments (\<alpha> db1) = tPayments s1" using c(2) by simp
  then show "tPayments s1 j = Some p \<or> pm_block p = ?h" if "tPayments (\<alpha> (csDb cs1)) j = Some p" for j p
    using cases that G_only[OF c(1)] sG src by metis
qed

text \<open>The block disconnected and connected again.\<close>

lemma reconnect:
  assumes live: "live" and D: "csD cfg = D" and I: "I (csDb cs)"
    and known: "knownRows cfg (\<alpha> (csDb cs))"
    and b: "FromBytes (csWire cfg) msg = Ok header" "GetBlock cfg (PrevBlock header) = Ok block"
      "bkTransactions block = cb # txs" "unat (coinbaseIndex cb) < length (txOuts cb)"
    and row: "tWork (\<alpha> (csDb cs)) (parentID cfg header) = Some v"
    and pend: "\<exists>p \<in> ran (tPayments (\<alpha> (csDb cs))). pm_pending p \<and> pm_block p = parentHash cfg header"
    and few: "card {p \<in> ran (tPayments (\<alpha> (csDb cs))). pm_pending p \<and> pm_block p = parentHash cfg header} < 2 ^ 32"
    and stable: "MaxReorgLimit < Height header \<Longrightarrow>
      prunedPayments cfg (Height header) (tPayments (\<alpha> (csDb cs))) = tPayments (\<alpha> (csDb cs))"
  shows "\<exists>cs'. handleChainUpdates cfg [BlockDisc msg, BlockConn msg] n cs = (None, Suc (Suc n), cs') \<and> I (csDb cs') \<and>
    tPayments (\<alpha> (csDb cs')) = tPayments (\<alpha> (csDb cs)) \<and>
    tWork (\<alpha> (csDb cs')) (parentID cfg header) = Some (v\<lparr>awConfirmed := True\<rparr>)"
proof -
  let ?k = "parentID cfg header" and ?h = "parentHash cfg header"
  let ?k' = "AcceptedWorkID (HashString (csRules cfg) (BlockHash (csWire cfg) header)) (Height header)"
  obtain db2 sigs where d: "I db2" "\<alpha> db2 = (\<alpha> (csDb cs))\<lparr>tWork := unconfirmed ?k' (unconfirmed ?k (tWork (\<alpha> (csDb cs))))\<rparr>"
    "blockDisconnected cfg msg cs = (Ok (), cs\<lparr>csDb := db2, csSignals := sigs\<rparr>)"
    using disconnect_live[OF live D I b(1) refl refl]
    unfolding parentID_def[symmetric] parentHash_def[symmetric] by blast
  let ?cs2 = "cs\<lparr>csDb := db2, csSignals := sigs\<rparr>"
  have row2: "tWork (\<alpha> db2) ?k = Some (v\<lparr>awConfirmed := False\<rparr>)"
    using row d(2) by (auto simp: unconfirmed_def split: option.splits)
  obtain db3 tick msgs where c: "I db3" "\<alpha> db3 = connectedDB cfg header (csNow cfg (csTick cs)) (\<alpha> db2)"
    "blockConnected cfg msg ?cs2 = confirmParent cfg header block cb (?cs2\<lparr>csPaymentMsgs := msgs, csTick := tick, csDb := db3\<rparr>)"
    using connect_prunes[OF live D _ b(1-3), of ?cs2] d(1) knownRows_unconfirmed[OF known] d(2) by auto
  have "awHeight v = Height header - 1"
    using parent_row_height[OF I] row by (simp add: parentID_def)
  then have row3: "tWork (\<alpha> db3) ?k = Some (v\<lparr>awConfirmed := False\<rparr>)"
    using row2 parent_above_limit[of "Height header"]
    by (auto simp: c(2) connectedDB_def prunedDB_def prunedWork_def)
  have pay: "tPayments (\<alpha> db3) = tPayments (\<alpha> (csDb cs))"
    using stable by (simp add: c(2) connectedDB_def prunedDB_def d(2))
  let ?cs3 = "?cs2\<lparr>csPaymentMsgs := msgs, csTick := tick, csDb := db3\<rparr>"
  obtain db4 where "I db4"
    "\<alpha> db4 = (\<alpha> db3)\<lparr>tWork := (tWork (\<alpha> db3))(?k \<mapsto> v\<lparr>awConfirmed := True\<rparr>)\<rparr>"
    "confirmParent cfg header block cb ?cs3 = (Ok (), ?cs3\<lparr>csDb := db4, csSignals := csSignals ?cs3 @ [Confirmed]\<rparr>)"
    using confirmParent_live[OF live D _ _ _ b(4), of ?cs3 header "v\<lparr>awConfirmed := False\<rparr>" block] c(1) row3 pay few pend
    by (auto simp: Let_def)
  then show ?thesis using d(3) c(3) pay by simp
qed

lemma reorg_once:
  assumes "live" "csD cfg = D" "GeneratePayments cfg = G" "I (csDb cs)" "\<not> csSoloPool cfg"
    and known: "knownRows cfg (\<alpha> (csDb cs))" "knownRows cfg (\<alpha> (csDb cs1))"
    and s1: "s1 = connectedDB cfg header (csNow cfg (csTick cs)) (\<alpha> (csDb cs))"
    and mined: "minedParent cfg s1 msg header block cb w"
    and ok: "blockConnected cfg msg cs = (Ok (), cs1)"
    and chain: "0 < the (chainConfs cfg (parentHash cfg header))"
    and few: "card {p \<in> ran (tPayments (\<alpha> (csDb cs1))). pm_pending p \<and> pm_block p = parentHash cfg header} < 2 ^ 32"
  shows "\<exists>cs'. handleChainUpdates cfg [BlockDisc msg, BlockConn msg] n cs1 = (None, Suc (Suc n), cs') \<and> I (csDb cs') \<and>
    tPayments (\<alpha> (csDb cs')) = tPayments (\<alpha> (csDb cs1)) \<and>
    tWork (\<alpha> (csDb cs')) (parentID cfg header) = Some (w\<lparr>awConfirmed := True\<rparr>)"
proof -
  note f = first_connect[OF assms(1-5) known(1) s1 mined ok]
  have "prunedPayments cfg (Height header) (tPayments (\<alpha> (csDb cs1))) = tPayments (\<alpha> (csDb cs1))"
    if "MaxReorgLimit < Height header"
    using f(4) chain that
    by (intro prunedPayments_stable[where t' = "tPayments (\<alpha> (csDb cs))"]) (auto simp: s1 connectedDB_def prunedDB_def)
  moreover obtain txs where "FromBytes (csWire cfg) msg = Ok header" "GetBlock cfg (PrevBlock header) = Ok block"
      "bkTransactions block = cb # txs" "unat (coinbaseIndex cb) < length (txOuts cb)"
    using mined by (auto simp: minedParent_def)
  ultimately show ?thesis
    using reconnect[OF assms(1,2) f(1) known(2) _ _ _ _ f(2,3) few] by simp
qed

end

end
