(* ===== verification/ChainTheorems.thy ===== *)
theory ChainTheorems
  imports ChainProps
begin

text \<open>
  The properties of the chain state, over any database and any payment generator that keep their
  contracts, and their witnesses on the bolt database with the payment manager.
\<close>

section \<open>Concrete chain for the witnesses\<close>

definition chaindb :: memdb where
  "chaindb = snd (persistAcceptedWork mem_bolt (demo_work 7) sharedb)"

lemma chaindb_inv:
  "boltInv mem_bolt chaindb"
  "absdb mem_bolt chaindb = (absdb mem_bolt sharedb)\<lparr>tWork := [awUUID (demo_work 7) \<mapsto> demo_work 7]\<rparr>"
proof -
  obtain db where "persistAcceptedWork mem_bolt (demo_work 7) sharedb = (Ok (), db)" "boltInv mem_bolt db"
    "absdb mem_bolt db = (absdb mem_bolt sharedb)\<lparr>tWork := [awUUID (demo_work 7) \<mapsto> demo_work 7]\<rparr>"
    using mem_work_live[OF demo_work_wf sharedb_abs(1), of 7]
    by (auto simp: absent_def sharedb_abs(2) emptyPoolDB_def simp del: absdb_sel)
  then show "boltInv mem_bolt chaindb"
    "absdb mem_bolt chaindb = (absdb mem_bolt sharedb)\<lparr>tWork := [awUUID (demo_work 7) \<mapsto> demo_work 7]\<rparr>"
    by (simp_all add: chaindb_def del: absdb_sel)
qed

definition demoHeader :: "32 word \<Rightarrow> hash \<Rightarrow> BlockHeader" where
  "demoHeader h prev = \<lparr>PrevBlock = prev, Bits = 0, Height = h, hdrOther = []\<rparr>"

definition demoCoinbase :: MsgTx where
  "demoCoinbase = \<lparr>txVersion = 3, txOuts = [0, 1001], txHash = ''c'', txIsCoinBase = True\<rparr>"

definition demoBlock :: MsgBlock where
  "demoBlock = \<lparr>bkHeader = demoHeader 7 ''a'', bkTransactions = [demoCoinbase]\<rparr>"

definition demoWire :: Wire where
  "demoWire = \<lparr>FromBytes = (\<lambda>b. if b = ''h'' then Ok (demoHeader 8 ''b'') else Err Foreign),
     HeaderBytes = (\<lambda>h. Ok []), BlockHash = (\<lambda>h. if Height h = 7 then ''b'' else ''z''),
     PowHashV2 = (\<lambda>h. []), HashToBig = (\<lambda>h. 0), CompactToBig = (\<lambda>b. 0)\<rparr>"

definition chainCfg :: "memdb ChainStateConfig" where
  "chainCfg = \<lparr>csD = BoltDatabase mem_bolt, csSoloPool = False,
     GeneratePayments = hubGeneratePayments plainEnv demoCfg (demoPm newdb), GetBlock = (\<lambda>h. Ok demoBlock),
     csGetBlockConfirmations = (\<lambda>h. Ok 20), csRules = demoRules, csWire = demoWire, csNow = (\<lambda>i. 0)\<rparr>"

lemma chainCfg_known: "knownBlock chainCfg h" "chainConfs chainCfg h = Some 20"
  by (simp_all add: knownBlock_def chainCfg_def chainConfs_def demoRules_def)

lemma chainCfg_sel:
  "csD chainCfg = BoltDatabase mem_bolt" "\<not> csSoloPool chainCfg"
  "GeneratePayments chainCfg = hubGeneratePayments plainEnv demoCfg (demoPm newdb)"
  "FromBytes (csWire chainCfg) ''h'' = Ok (demoHeader 8 ''b'')"
  "GetBlock chainCfg x = Ok demoBlock"
  "parentHash chainCfg (demoHeader 8 ''b'') = ''b''"
  "parentID chainCfg (demoHeader 8 ''b'') = awUUID (demo_work 7)"
  "csNow chainCfg i = 0"
  by (simp_all add: chainCfg_def demoWire_def parentHash_def parentID_def demoHeader_def demoRules_def
      demo_work_def NewAcceptedWork_def)

definition chainNow :: "PoolDB" where
  "chainNow = connectedDB chainCfg (demoHeader 8 ''b'') 0 (absdb mem_bolt chaindb)"

definition demoChain :: "memdb ChainState" where
  "demoChain = NewChainState chaindb"

lemma demoChain_sel: "csDb demoChain = chaindb" "csTick demoChain = 0" "csSignals demoChain = []"
  by (simp_all add: demoChain_def NewChainState_def)

lemma chainCfg_gen:
  "payment_generator (csD chainCfg) (absdb mem_bolt) (boltInv mem_bolt) True (GeneratePayments chainCfg)"
  using demo.gen.payment_generator_axioms by (simp add: chainCfg_sel)

lemma chainCfg_rows: "knownRows chainCfg s"
  by (simp add: knownRows_def chainCfg_known)

lemma chainNow_tables:
  "tWork chainNow = [awUUID (demo_work 7) \<mapsto> demo_work 7]" "tPayments chainNow = Map.empty"
  "tShares chainNow = tShares (absdb mem_bolt sharedb)"
  by (simp_all add: chainNow_def connectedDB_def demoHeader_def MaxReorgLimit_def prunedDB_def chaindb_inv(2)
      sharedb_abs(2) emptyPoolDB_def prunedPayments_def prunedWork_def fun_eq_iff demo_work_def NewAcceptedWork_def
      del: absdb_sel split: option.split)

lemma chainNow_eq:
  "chainNow = connectedDB chainCfg (demoHeader 8 ''b'') (csNow chainCfg (csTick demoChain)) (absdb mem_bolt (csDb demoChain))"
  by (simp add: chainNow_def demoChain_sel chainCfg_sel)

lemma demo_mined: "minedParent chainCfg chainNow ''h'' (demoHeader 8 ''b'') demoBlock demoCoinbase (demo_work 7)"
  unfolding minedParent_def chainCfg_sel chainNow_tables
  by (simp add: demoBlock_def demoCoinbase_def demoHeader_def chainCfg_def demoWire_def coinbaseIndex_def
      isTreasuryActive_def TxVersionTreasury_def demo_work_def NewAcceptedWork_def)

lemma ran_file_all: "ran (file_all ps t) \<subseteq> ran t \<union> set ps"
proof (induction ps arbitrary: t)
  case (Cons p ps)
  have "ran (t(pmUUID p \<mapsto> p)) \<subseteq> insert p (ran t)" by (auto simp: ran_def split: if_splits)
  moreover have eq: "file_all (p # ps) t = file_all ps (t(pmUUID p \<mapsto> p))" by (simp add: file_all_def)
  ultimately show ?case using Cons[of "t(pmUUID p \<mapsto> p)"] unfolding eq list.set(2) by blast
qed (simp add: file_all_def)

text \<open>The payment manager pays for the block of the witnesses.\<close>

lemma demo_pays:
  assumes "boltInv mem_bolt db" "tShares (absdb mem_bolt db) = tShares (absdb mem_bolt sharedb)"
    "tPayments (absdb mem_bolt db) = Map.empty"
  shows "\<exists>db'. GeneratePayments chainCfg 7 source 1001 7 db = (Ok (), db') \<and>
    (\<forall>S \<subseteq> ran (tPayments (absdb mem_bolt db')). card S \<le> 3)"
proof -
  have cfg: "cfgDb demoCfg = BoltDatabase mem_bolt" "cfgRules demoCfg = demoRules" "PoolFee demoCfg = Finite (1 / 100)"
    "PaymentMethod demoCfg = PPS" by (simp_all add: demoCfg_def)
  have E: "eligible (absdb mem_bolt db) 7 = {demoShare ''x'' 1 5, demoShare ''y'' 3 6}"
    unfolding eligible_def assms(2) sharedb_inv(2) using demoShare_neq
    by (auto simp: demoShare_def NewShare_def)
  have "card (shAccount ` eligible (absdb mem_bolt db) 7) \<le> 2"
    unfolding E by (rule card_image_le[THEN order_trans]) (simp_all add: card_insert_if)
  moreover obtain pm' ps where "generatePayments plainEnv demoCfg 7 (Some source) 1001 7 ((demoPm newdb)\<lparr>pmDb := db\<rparr>) = (Ok (), pm')"
    "absdb mem_bolt (pmDb pm') = (absdb mem_bolt db)\<lparr>tPayments := file_all ps (tPayments (absdb mem_bolt db)),
      tLastCreated := Some (pmCreatedOn (last ps)),
      tShares := (\<lambda>k. case tShares (absdb mem_bolt db) k of
         Some x \<Rightarrow> if shCreatedOn x < 7 then None else Some x | None \<Rightarrow> None)\<rparr>"
    "length ps \<le> Suc (card (shAccount ` eligible (absdb mem_bolt db) 7))"
    using database_spec.pps_payments[OF mem_db_spec TrueI _ plainEnv_fair cfg(1,4),
        of "(demoPm newdb)\<lparr>pmDb := db\<rparr>" 7 "Some source" 1001 7] assms(1) E
    unfolding cfg demo_amounts(1) by (auto simp: demoShare_def NewShare_def simp del: absdb_sel)
  moreover have "ran (file_all ps Map.empty) \<subseteq> set ps" using ran_file_all[of ps Map.empty] by simp
  moreover have "card S \<le> 3" if "S \<subseteq> ran (file_all ps Map.empty)" for S
    using card_mono[OF finite_set order_trans[OF that calculation(5)]] card_length[of ps] calculation(1,4) by linarith
  ultimately show ?thesis
    using assms(3) by (auto simp: chainCfg_sel hubGeneratePayments_def simp del: absdb_sel)
qed

lemma connected_block:
  assumes "payment_generator (csD cfg) \<alpha> I True (GeneratePayments cfg)" "I (csDb cs)"
    and "knownRows cfg (\<alpha> (csDb cs))"
    and "s1 = connectedDB cfg header (csNow cfg (csTick cs)) (\<alpha> (csDb cs))"
    and "minedParent cfg s1 msg header block cb w"
  shows "\<exists>db1 cs'. I db1 \<and>
    \<alpha> db1 = s1\<lparr>tWork := (tWork s1)(parentID cfg header \<mapsto> w\<lparr>awConfirmed := True\<rparr>)\<rparr> \<and>
    csSignals cs' = csSignals cs @ [Confirmed] \<and> I (csDb cs') \<and>
    (if csSoloPool cfg \<or> (\<exists>p \<in> ran (tPayments s1). pm_pending p \<and> pm_block p = parentHash cfg header)
     then blockConnected cfg msg cs = (Ok (), cs') \<and> csDb cs' = db1
     else blockConnected cfg msg cs =
       (fst (GeneratePayments cfg (Height (bkHeader block)) (blockSource cfg block cb)
          (txOuts cb ! unat (coinbaseIndex cb)) (awCreatedOn w) db1), cs') \<and>
       csDb cs' = snd (GeneratePayments cfg (Height (bkHeader block)) (blockSource cfg block cb)
          (txOuts cb ! unat (coinbaseIndex cb)) (awCreatedOn w) db1))"
proof -
  have gen: "database_spec (csD cfg) \<alpha> I True" using assms(1) by (rule payment_generator.axioms(1))
  obtain txs where b: "FromBytes (csWire cfg) msg = Ok header" "GetBlock cfg (PrevBlock header) = Ok block"
      "bkTransactions block = cb # txs" "unat (coinbaseIndex cb) < length (txOuts cb)"
    and w: "tWork s1 (parentID cfg header) = Some w" "\<not> awConfirmed w"
    and few: "card {p \<in> ran (tPayments s1). pm_pending p \<and> pm_block p = parentHash cfg header} < 2 ^ 32"
    using assms(5) by (auto simp: minedParent_def)
  obtain db0 tick msgs where p: "I db0" "\<alpha> db0 = s1"
    "blockConnected cfg msg cs = confirmParent cfg header block cb (cs\<lparr>csPaymentMsgs := msgs, csTick := tick, csDb := db0\<rparr>)"
    using database_spec.connect_prunes[OF gen TrueI refl assms(2) b(1-3) assms(3)] assms(4) by auto
  let ?cs = "cs\<lparr>csPaymentMsgs := msgs, csTick := tick, csDb := db0\<rparr>"
  let ?G = "GeneratePayments cfg (Height (bkHeader block)) (blockSource cfg block cb)
      (txOuts cb ! unat (coinbaseIndex cb)) (awCreatedOn w)"
  obtain db1 where c: "I db1" "\<alpha> db1 = s1\<lparr>tWork := (tWork s1)(parentID cfg header \<mapsto> w\<lparr>awConfirmed := True\<rparr>)\<rparr>"
    "blockConnected cfg msg cs =
      (let cs1 = ?cs\<lparr>csDb := db1, csSignals := csSignals ?cs @ [Confirmed]\<rparr> in
       if csSoloPool cfg \<or> (\<exists>p \<in> ran (tPayments s1). pm_pending p \<and> pm_block p = parentHash cfg header)
       then (Ok (), cs1) else cs_write ?G cs1)"
    using database_spec.confirmParent_live[OF gen TrueI refl _ _ w(2) b(4), of ?cs] p w(1) few by auto
  have "I (snd (?G db1))" by (rule payment_generator.G_keeps[OF assms(1) c(1)])
  then show ?thesis
    using c unfolding Let_def
    by (intro exI[of _ db1] exI[of _ "snd (blockConnected cfg msg cs)"])
      (cases "csSoloPool cfg \<or> (\<exists>p \<in> ran (tPayments s1). pm_pending p \<and> pm_block p = parentHash cfg header)";
       auto simp: cs_write_def split_beta)
qed

lemma demo_call:
  "Height (bkHeader demoBlock) = 7" "txOuts demoCoinbase ! unat (coinbaseIndex demoCoinbase) = 1001"
  "awCreatedOn (demo_work 7) = 7"
  by (simp_all add: demoBlock_def demoCoinbase_def demoHeader_def coinbaseIndex_def
      isTreasuryActive_def TxVersionTreasury_def demo_work_def NewAcceptedWork_def)

lemma demo_connects:
  "\<exists>cs1. blockConnected chainCfg ''h'' demoChain = (Ok (), cs1) \<and>
     (\<forall>S \<subseteq> ran (tPayments (absdb mem_bolt (csDb cs1))). card S \<le> 3)"
proof -
  obtain db1 cs1 where c: "boltInv mem_bolt db1"
    "absdb mem_bolt db1 = chainNow\<lparr>tWork := (tWork chainNow)(awUUID (demo_work 7) \<mapsto> (demo_work 7)\<lparr>awConfirmed := True\<rparr>)\<rparr>"
    "blockConnected chainCfg ''h'' demoChain =
      (fst (GeneratePayments chainCfg 7 (blockSource chainCfg demoBlock demoCoinbase) 1001 7 db1), cs1)"
    "csDb cs1 = snd (GeneratePayments chainCfg 7 (blockSource chainCfg demoBlock demoCoinbase) 1001 7 db1)"
    using connected_block[OF chainCfg_gen _ chainCfg_rows chainNow_eq demo_mined, unfolded demoChain_sel, OF chaindb_inv(1)]
    unfolding chainCfg_sel chainNow_tables demo_call
  proof (elim exE conjE, goal_cases)
    case (1 db1 cs1)
    show ?case using 1(2,3,6) chainCfg_sel(2) by (intro 1(1)[of db1 cs1]) (simp_all del: absdb_sel)
  qed
  have "tShares (absdb mem_bolt db1) = tShares (absdb mem_bolt sharedb)" "tPayments (absdb mem_bolt db1) = Map.empty"
    using c(2) chainNow_tables by (simp_all del: absdb_sel)
  from demo_pays[OF c(1) this, of "blockSource chainCfg demoBlock demoCoinbase"]
  obtain db' where db': "GeneratePayments chainCfg 7 (blockSource chainCfg demoBlock demoCoinbase) 1001 7 db1 = (Ok (), db')"
    "\<forall>S \<subseteq> ran (tPayments (absdb mem_bolt db')). card S \<le> 3" by (elim exE conjE)
  show ?thesis
    using c(3,4) db'(2) unfolding db'(1) fst_conv snd_conv by metis
qed

section \<open>Properties\<close>

text \<open>
  C13: a connected block whose parent the pool mined. For a database that keeps its contract on a
  medium that does not fail, when the daemon can tell about every block the database names, the
  jobs, hash data, work and payments that are due are pruned, the work is recorded as
  confirmed, the cache is signalled once, and in a pool that is not solo and has no pending
  payment for that block the payment generator is called exactly once, with the height, the
  block's source, the coinbase output at the index its version asks for and the creation time of
  the work; the result is the generator's.
\<close>

theorem connected_block_confirms_and_pays:
  assumes "payment_generator (csD cfg) \<alpha> I True (GeneratePayments cfg)" "I (csDb cs)"
    and "knownRows cfg (\<alpha> (csDb cs))"
    and "s1 = connectedDB cfg header (csNow cfg (csTick cs)) (\<alpha> (csDb cs))"
    and "minedParent cfg s1 msg header block cb w"
  shows "\<exists>db1 cs'. I db1 \<and>
    \<alpha> db1 = s1\<lparr>tWork := (tWork s1)(parentID cfg header \<mapsto> w\<lparr>awConfirmed := True\<rparr>)\<rparr> \<and>
    csSignals cs' = csSignals cs @ [Confirmed] \<and> I (csDb cs') \<and>
    (if csSoloPool cfg \<or> (\<exists>p \<in> ran (tPayments s1). pm_pending p \<and> pm_block p = parentHash cfg header)
     then blockConnected cfg msg cs = (Ok (), cs') \<and> csDb cs' = db1
     else blockConnected cfg msg cs =
       (fst (GeneratePayments cfg (Height (bkHeader block)) (blockSource cfg block cb)
          (txOuts cb ! unat (coinbaseIndex cb)) (awCreatedOn w) db1), cs') \<and>
       csDb cs' = snd (GeneratePayments cfg (Height (bkHeader block)) (blockSource cfg block cb)
          (txOuts cb ! unat (coinbaseIndex cb)) (awCreatedOn w) db1))"
  using connected_block[OF assms] .

theorem connected_block_confirms_and_pays_witness:
  "\<exists>db1 cs'. blockConnected chainCfg ''h'' demoChain =
      (fst (GeneratePayments chainCfg 7 (blockSource chainCfg demoBlock demoCoinbase) 1001 7 db1), cs') \<and>
     csDb cs' = snd (GeneratePayments chainCfg 7 (blockSource chainCfg demoBlock demoCoinbase) 1001 7 db1) \<and>
     csSignals cs' = [Confirmed] \<and>
     tWork (absdb mem_bolt db1) (awUUID (demo_work 7)) = Some ((demo_work 7)\<lparr>awConfirmed := True\<rparr>)"
proof -
  have "boltInv mem_bolt (csDb demoChain)" by (simp add: demoChain_sel chaindb_inv(1))
  from connected_block_confirms_and_pays[OF chainCfg_gen this chainCfg_rows chainNow_eq demo_mined]
  show ?thesis
    unfolding demoChain_sel chainCfg_sel chainNow_tables demo_call
  proof (elim exE conjE, goal_cases)
    case (1 db1 cs')
    then show ?case
      by (intro exI[of _ db1] exI[of _ cs']) (simp add: chainCfg_sel(2) del: absdb_sel)
  qed
qed

text \<open>
  C7: a reorganisation pays once. After a block the pool mined has been connected, confirmed and
  paid, disconnecting its child and connecting it again leaves the payments exactly as they
  were, returns without an error, answers both notifications, and the work is confirmed again.
\<close>

theorem reorg_pays_once:
  assumes "payment_generator (csD cfg) \<alpha> I True (GeneratePayments cfg)" "I (csDb cs)" "\<not> csSoloPool cfg"
    and "knownRows cfg (\<alpha> (csDb cs))" "knownRows cfg (\<alpha> (csDb cs1))"
    and "minedParent cfg (connectedDB cfg header (csNow cfg (csTick cs)) (\<alpha> (csDb cs))) msg header block cb w"
    and "blockConnected cfg msg cs = (Ok (), cs1)"
    and "0 < the (chainConfs cfg (parentHash cfg header))"
    and "card {p \<in> ran (tPayments (\<alpha> (csDb cs1))). pm_pending p \<and> pm_block p = parentHash cfg header} < 2 ^ 32"
  shows "\<exists>cs'. handleChainUpdates cfg [BlockConn msg, BlockDisc msg, BlockConn msg] n cs = (None, n + 3, cs') \<and>
    tPayments (\<alpha> (csDb cs')) = tPayments (\<alpha> (csDb cs1)) \<and>
    tWork (\<alpha> (csDb cs')) (parentID cfg header) = Some (w\<lparr>awConfirmed := True\<rparr>)"
  using payment_generator.reorg_once[OF assms(1) TrueI refl refl assms(2-5) refl assms(6-), of "Suc n"] assms(7)
  by auto

theorem reorg_pays_once_witness:
  "\<exists>cs1 cs'. blockConnected chainCfg ''h'' demoChain = (Ok (), cs1) \<and>
     handleChainUpdates chainCfg [BlockConn ''h'', BlockDisc ''h'', BlockConn ''h''] 0 demoChain = (None, 3, cs') \<and>
     tPayments (absdb mem_bolt (csDb cs')) = tPayments (absdb mem_bolt (csDb cs1))"
proof -
  obtain cs1 where cs1: "blockConnected chainCfg ''h'' demoChain = (Ok (), cs1)"
    "\<forall>S \<subseteq> ran (tPayments (absdb mem_bolt (csDb cs1))). card S \<le> 3" using demo_connects by auto
  have "card {p \<in> ran (tPayments (absdb mem_bolt (csDb cs1))). pm_pending p \<and>
      pm_block p = parentHash chainCfg (demoHeader 8 ''b'')} \<le> 3"
    by (rule cs1(2)[rule_format]) blast
  then show ?thesis
    using reorg_pays_once[OF chainCfg_gen _ chainCfg_sel(2) chainCfg_rows chainCfg_rows _ cs1(1),
        of "demoHeader 8 ''b''" demoBlock demoCoinbase "demo_work 7" 0] demo_mined chaindb_inv(1) cs1(1)
    unfolding demoChain_sel chainCfg_sel(8) chainNow_def[symmetric]
    by (auto simp: chainCfg_known simp del: absdb_sel)
qed

text \<open>
  No chain notification corrupts the database: whatever notifications arrive, whatever the daemon
  answers and whatever fails on the way, the handler keeps the database invariant.
\<close>

lemma chain_updates_keep_database:
  assumes "payment_generator (csD cfg) \<alpha> I live (GeneratePayments cfg)" "I (csDb cs)"
  shows "I (csDb (snd (snd (handleChainUpdates cfg evs n cs))))"
  by (rule payment_generator.handleChainUpdates_keeps[OF assms(1) refl refl assms(2)])

text \<open>
  C24: a disconnected block. For a database that keeps its contract on a medium that does not
  fail, the accepted work of the block's parent and that of the block itself, where the pool
  mined them, are unconfirmed, no other row of any table changes, and the cache is signalled
  once when the block itself was the pool's and not at all otherwise.
\<close>

theorem disconnected_block_unconfirms:
  assumes "database_spec (csD cfg) \<alpha> I True" "I (csDb cs)" "FromBytes (csWire cfg) msg = Ok header"
    and "blockID = AcceptedWorkID (HashString (csRules cfg) (BlockHash (csWire cfg) header)) (Height header)"
  shows "\<exists>db1. blockDisconnected cfg msg cs = (Ok (), cs\<lparr>csDb := db1, csSignals := csSignals cs @
      (if tWork (\<alpha> (csDb cs)) blockID = None then [] else [Unconfirmed])\<rparr>) \<and> I db1 \<and>
    \<alpha> db1 = (\<alpha> (csDb cs))\<lparr>tWork := (\<lambda>k. if k = parentID cfg header \<or> k = blockID
      then map_option (awConfirmed_update (\<lambda>_. False)) (tWork (\<alpha> (csDb cs)) k)
      else tWork (\<alpha> (csDb cs)) k)\<rparr>"
proof -
  have eq: "unconfirmed k' (unconfirmed k t) = (\<lambda>x. if x = k \<or> x = k'
      then map_option (awConfirmed_update (\<lambda>_. False)) (t x) else t x)" for k k' t
    by (auto simp: unconfirmed_def fun_eq_iff split: option.splits)
  show ?thesis
    using database_spec.disconnect_live[OF assms(1) TrueI refl assms(2,3) refl assms(4)]
    unfolding parentID_def[symmetric] parentHash_def[symmetric] eq by blast
qed

theorem disconnected_block_unconfirms_witness:
  "\<exists>db db1. tWork (absdb mem_bolt db) (awUUID (demo_work 7)) = Some ((demo_work 7)\<lparr>awConfirmed := True\<rparr>) \<and>
     blockDisconnected chainCfg ''h'' (NewChainState db) = (Ok (), (NewChainState db)\<lparr>csDb := db1\<rparr>) \<and>
     tWork (absdb mem_bolt db1) (awUUID (demo_work 7)) = Some ((demo_work 7)\<lparr>awConfirmed := False\<rparr>)"
proof -
  have "boltInv mem_bolt (csDb demoChain)" by (simp add: demoChain_sel chaindb_inv(1))
  from connected_block[OF chainCfg_gen this chainCfg_rows chainNow_eq demo_mined]
  obtain db where db: "boltInv mem_bolt db"
    "absdb mem_bolt db = chainNow\<lparr>tWork := (tWork chainNow)(awUUID (demo_work 7) \<mapsto> (demo_work 7)\<lparr>awConfirmed := True\<rparr>)\<rparr>"
    unfolding chainCfg_sel by blast
  have w: "tWork (absdb mem_bolt db) = [awUUID (demo_work 7) \<mapsto> (demo_work 7)\<lparr>awConfirmed := True\<rparr>]"
    unfolding db(2) by (simp add: chainNow_tables)
  have spec: "database_spec (csD chainCfg) (absdb mem_bolt) (boltInv mem_bolt) True"
    using chainCfg_gen by (rule payment_generator.axioms(1))
  have own: "AcceptedWorkID (HashString (csRules chainCfg) (BlockHash (csWire chainCfg) (demoHeader 8 ''b''))) 8 \<noteq> awUUID (demo_work 7)"
    by (simp add: chainCfg_def demoWire_def demoRules_def demoHeader_def demo_work_def NewAcceptedWork_def AcceptedWorkID_def)
  have "boltInv mem_bolt (csDb (NewChainState db))" "Height (demoHeader 8 ''b'') = 8"
    using db(1) by (simp_all add: NewChainState_def demoHeader_def)
  from disconnected_block_unconfirms[OF spec this(1) chainCfg_sel(4) refl, unfolded this(2)]
  show ?thesis
  proof (elim exE conjE, goal_cases)
    case (1 db1)
    have c: "csDb (NewChainState db) = db" "csSignals (NewChainState db) = []" by (simp_all add: NewChainState_def)
    show ?case
      using 1 own unfolding c w chainCfg_sel
      by (intro exI[of _ db] exI[of _ db1] conjI) (simp_all add: w NewChainState_def del: absdb_sel)
  qed
qed

end
