(* ===== verification/Mining.thy ===== *)
theory Mining
  imports ClientTheorems ChainTheorems MinerProps
begin

text \<open>
  The miner and the pool together: the submission a miner makes for a work notification is the
  one the pool verifies, and the block it solves is the one the chain state pays for.
\<close>

section \<open>From a notification to a submission\<close>

text \<open>
  Documented behaviour of headers: the serialization of a decoded header is what it was decoded
  from, and its timestamp is the four bytes at their place.
\<close>

definition headerLaws :: "Wire \<Rightarrow> (BlockHeader \<Rightarrow> 32 word) \<Rightarrow> bool" where
  "headerLaws W ts \<longleftrightarrow> (\<forall>b h. length b = 180 \<longrightarrow> FromBytes W b = Ok h \<longrightarrow>
     HeaderBytes W h = Ok b \<and> le32 (ts h) = take 4 (drop 136 b))"

lemma candidate_time: "152 \<le> length b \<Longrightarrow> take 4 (drop 136 (candidate b en2 n)) = take 4 (drop 136 b)"
  by (intro nth_equalityI) (auto simp: candidate_def nth_patch)

lemma patch_same: "i + 4 \<le> length b \<Longrightarrow> patch i (take 4 (drop i b)) b = b"
  by (intro nth_equalityI) (auto simp: nth_patch)

text \<open>The work notification of a job, and what a miner makes of it.\<close>

definition jobNotification :: "Job \<Rightarrow> bool \<Rightarrow> Request" where
  "jobNotification job clean = (let w = jbHeader job in
     WorkNotification (jbUUID job) (drop 8 (take 72 w)) (drop 72 (take 360 w)) (take 8 w)
       (drop 232 (take 240 w)) (drop 272 (take 280 w)) clean)"

lemma parse_work:
  "\<exists>notif. receivedRequest (WorkNotification j p g v nb t clean) = Ok notif \<and> Method notif = Notify \<and>
     ParseWorkNotification notif = Ok (goText j, goText p, goText g, goText v, goText nb, goText t, clean)"
  by (simp add: receivedRequest_eq WorkNotification_def method_defs received_val_def ParseWorkNotification_def
      strParam_def index_def del: bnd_eq_Ok)

lemma parse_submit:
  "\<exists>req. receivedRequest (SubmitWorkRequest i w j e t n) = Ok req \<and> reqID req = i \<and>
     ParseSubmitWorkRequest req = Ok (goText w, goText j, goText e, goText t, goText n)"
  by (simp add: receivedRequest_eq SubmitWorkRequest_def method_defs received_val_def ParseSubmitWorkRequest_def
      strParam_def index_def del: bnd_eq_Ok)

text \<open>The miner takes the job's header, with its extra nonce, as its work.\<close>

lemma notified_work:
  assumes "headerLaws (mcWire mcfg) ts" "length hdr = 180" "length en1 = 4" "jbHeader job = EncodeToString hdr"
    and "mAuthorized m" "mSubscribed m" "mExtraNonce1E m = EncodeToString en1"
    and "FromBytes (mcWire mcfg) (patch 144 en1 hdr) = Ok h0"
    and "receivedRequest (jobNotification job clean) = Ok notif" "utf8 (jbUUID job)"
  shows "\<exists>m'. processNotification mcfg notif m = (Ok (), m') \<and> mConnected m' = mConnected m \<and> mId m' = mId m \<and>
    mWorkData m' = mWorkData m \<and>
    mWork m' = (mWork m)\<lparr>wkJobID := jbUUID job, wkHeader := Some (patch 144 en1 hdr)\<rparr>"
proof -
  let ?w = "EncodeToString hdr"
  have n: "ParseWorkNotification notif = Ok (jbUUID job, drop 8 (take 72 ?w), drop 72 (take 360 ?w), take 8 ?w,
      drop 232 (take 240 ?w), drop 272 (take 280 ?w), clean)" "Method notif = Notify"
    using parse_work[of "jbUUID job" "drop 8 (take 72 ?w)" "drop 72 (take 360 ?w)" "take 8 ?w"
        "drop 232 (take 240 ?w)" "drop 272 (take 280 ?w)" clean] assms(9) goText_utf8[OF assms(10)]
    by (auto simp: jobNotification_def assms(4) Let_def)
  have g: "GenerateBlockHeader (mcWire mcfg) (take 8 ?w) (drop 8 (take 72 ?w)) (drop 72 (take 360 ?w)) (EncodeToString en1) = Ok h0"
    using mined_bytes[OF assms(2,3)] assms(8) by simp
  have b: "HeaderBytes (mcWire mcfg) h0 = Ok (patch 144 en1 hdr)"
    using assms(1,2,3,8) by (auto simp: headerLaws_def)
  show ?thesis
    using assms(5-7) n g b
    by (auto simp: processNotification_def orCancel_def bndc_def method_defs)
qed

text \<open>What the pool rebuilds from a solution is the candidate the miner tried.\<close>

lemma rebuilt_candidate:
  assumes "headerLaws W ts" "length hdr = 180" "length en1 = 4" "miner = CPU \<or> miner = Gominer"
    and "FromBytes W (candidate (patch 144 en1 hdr) en2 n) = Ok h"
  shows "GenerateSolvedBlockHeader W (EncodeToString hdr) (EncodeToString en1) (EncodeToString (le32 en2))
    (EncodeToString (le32 (ts h))) (EncodeToString (le32 n)) miner = Ok h"
proof -
  let ?b = "patch 144 en1 hdr"
  have l: "length ?b = 180" using assms(2,3) by simp
  have c: "length (candidate ?b en2 n) = 180" "take 4 (drop 136 (candidate ?b en2 n)) = take 4 (drop 136 ?b)"
    using l by (simp_all add: candidate_time)
  then have t: "le32 (ts h) = take 4 (drop 136 ?b)"
    using assms(1,5) unfolding headerLaws_def by metis
  have "patch 136 (le32 (ts h)) ?b = ?b" unfolding t by (rule patch_same) (simp add: l)
  then show ?thesis
    using solved_bytes[OF assms(2,3) _ _ _ assms(4), of "le32 en2" "le32 (ts h)" "le32 n" W] assms(5)
    by (simp add: candidate_def)
qed

lemma mined_submission:
  assumes "headerLaws (ccWire cfg) (mcTimestamp mcfg)" "mcWire mcfg = ccWire cfg"
    and "length hdr = 180" "length en1 = 4" "jbHeader job = EncodeToString hdr" "jbUUID job \<noteq> []"
    and "db_fetchJob (ccDb cfg) (jbUUID job) (cDb c) = Ok job" "extraNonce1 c = EncodeToString en1"
    and "cMiner c = CPU \<or> cMiner c = Gominer"
    and "mWork m = \<lparr>wkJobID = jbUUID job, wkHeader = Some (patch 144 en1 hdr), wkTarget = Some target\<rparr>"
    and "solve mcfg ev m = Some (Ok (Some sub), m')" "receivedRequest sub = Ok req" "utf8 (jbUUID job)"
  shows "\<exists>h en2 n. FromBytes (ccWire cfg) (candidate (patch 144 en1 hdr) en2 n) = Ok h \<and> solves cfg req c h \<and>
    of_int (powOf cfg h) < target \<and> reqID req = Some (mId m + 1)"
proof -
  have l: "152 \<le> length (patch 144 en1 hdr)" using assms(3,4) by simp
  obtain wd where wd: "solveBlock mcfg target ev 0 0 0 (patch 144 en1 hdr) (mWorkData m) = Some (Ok (True, wd))"
    "sub = SubmitWorkRequest (Some (mId m + 1)) (mcAddress mcfg @ ''.'' @ mcUser mcfg) (jbUUID job)
       (wdExtraNonce2 wd) (wdNTime wd) (wdNonce wd)"
    using assms(10,11,6)
    by (auto simp: solve_def nextID_def Let_def split: option.splits outcome.splits bool.splits if_splits)
  obtain en2 n h where h: "below mcfg target (patch 144 en1 hdr) en2 n h" "wd = foundWork mcfg en2 n h"
    using solveBlock_sound[OF wd(1) l refl] by blast
  have p: "ParseSubmitWorkRequest req = Ok (goText (mcAddress mcfg @ ''.'' @ mcUser mcfg), jbUUID job, EncodeToString (le32 en2),
      EncodeToString (le32 (mcTimestamp mcfg h)), EncodeToString (le32 n))" "reqID req = Some (mId m + 1)"
    using parse_submit[of "Some (mId m + 1)" "mcAddress mcfg @ ''.'' @ mcUser mcfg" "jbUUID job" "EncodeToString (le32 en2)"
        "EncodeToString (le32 (mcTimestamp mcfg h))" "EncodeToString (le32 n)"] assms(12) goText_utf8[OF assms(13)]
    by (auto simp: wd(2) h(2) foundWork_def)
  have f: "FromBytes (ccWire cfg) (candidate (patch 144 en1 hdr) en2 n) = Ok h" "of_int (powOf cfg h) < target"
    using h(1) by (simp_all add: below_def assms(2) powOf_def)
  have "solves cfg req c h"
    using rebuilt_candidate[OF assms(1,3,4,9) f(1)] p(1) assms(5,7,8) unfolding solves_def by auto
  then show ?thesis using f p(2) by (intro exI[of _ h] exI[of _ en2] exI[of _ n]) simp
qed

section \<open>From a solved block to its payments\<close>

text \<open>The work recorded for a solved header is the one its child's connection looks for.\<close>

lemma mined_parent_id:
  assumes "PrevBlock h2 = BlockHash (ccWire cfg) h" "Height h2 = Height h + 1" "csRules ccfg = ccRules cfg"
  shows "parentID ccfg h2 = awUUID (minedWork cfg h c)"
    "parentHash ccfg h2 = HashString (ccRules cfg) (BlockHash (ccWire cfg) h)"
  using assms by (simp_all add: parentID_def parentHash_def minedWork_def NewAcceptedWork_def)

lemma pruning_keeps_recent:
  assumes "tWork s k = Some w" "awHeight w = Height header - 1"
  shows "tWork (connectedDB cfg header now s) k = Some w"
proof (cases "MaxReorgLimit < Height header")
  case True
  then have le: "6 < unat (Height header)" by (simp add: MaxReorgLimit_def word_less_nat_alt)
  then have "unat (Height header - 1) = unat (Height header) - 1" "unat (Height header - MaxReorgLimit) = unat (Height header) - 6"
    unfolding MaxReorgLimit_def by (subst unat_sub; simp add: word_le_nat_alt)+
  then have "\<not> Height header - 1 < Height header - MaxReorgLimit" using le by (simp add: word_less_nat_alt)
  then show ?thesis using assms(1,2) True by (simp add: connectedDB_def prunedDB_def prunedWork_def)
qed (simp add: connectedDB_def assms(1))

lemma connectedDB_payments: "ran (tPayments (connectedDB cfg header now s)) \<subseteq> ran (tPayments s)"
  by (auto simp: connectedDB_def prunedDB_def prunedPayments_def ran_def split: option.splits if_splits)

lemma block_paid:
  assumes gen: "payment_generator (csD ccfg) \<alpha> I True (GeneratePayments ccfg)" "\<not> csSoloPool ccfg" "csRules ccfg = ccRules cfg"
    "csWire ccfg = ccWire cfg"
    and db: "I (csDb cs)" "knownRows ccfg (\<alpha> (csDb cs))" "tWork (\<alpha> (csDb cs)) (awUUID w) = Some w" "w = minedWork cfg h c"
    and child: "FromBytes (csWire ccfg) msg = Ok h2" "PrevBlock h2 = BlockHash (ccWire cfg) h" "Height h2 = Height h + 1"
    and block: "GetBlock ccfg (PrevBlock h2) = Ok block" "BlockHash (csWire ccfg) (bkHeader block) = PrevBlock h2"
      "bkTransactions block = cb # txs" "unat (coinbaseIndex cb) < length (txOuts cb)"
    and none: "\<forall>p \<in> ran (tPayments (\<alpha> (csDb cs))). pm_pending p \<longrightarrow> pm_block p \<noteq> parentHash ccfg h2"
  shows "\<exists>db1 r cs'. blockConnected ccfg msg cs = (r, cs') \<and> I (csDb cs') \<and>
    tWork (\<alpha> (csDb cs')) (awUUID w) = Some (w\<lparr>awConfirmed := True\<rparr>) \<and>
    GeneratePayments ccfg (Height (bkHeader block)) (blockSource ccfg block cb)
      (txOuts cb ! unat (coinbaseIndex cb)) (awCreatedOn w) db1 = (r, csDb cs') \<and>
    (r = Ok () \<longrightarrow> (\<exists>p \<in> ran (tPayments (\<alpha> (csDb cs'))). pm_pending p \<and> pm_block p = awBlockHash w))"
proof -
  let ?s1 = "connectedDB ccfg h2 (csNow ccfg (csTick cs)) (\<alpha> (csDb cs))"
  let ?G = "GeneratePayments ccfg (Height (bkHeader block)) (blockSource ccfg block cb)
      (txOuts cb ! unat (coinbaseIndex cb)) (awCreatedOn w)"
  have pid: "parentID ccfg h2 = awUUID w" "parentHash ccfg h2 = awBlockHash w"
    using mined_parent_id[OF child(2,3) gen(3)] by (simp_all add: db(4)) (simp add: minedWork_def NewAcceptedWork_def)
  have "awHeight w = Height h2 - 1" by (simp add: db(4) minedWork_def NewAcceptedWork_def child(3))
  then have s1: "tWork ?s1 (awUUID w) = Some w" using pruning_keeps_recent db(3) by blast
  have no: "{p \<in> ran (tPayments ?s1). pm_pending p \<and> pm_block p = parentHash ccfg h2} = {}"
    using none connectedDB_payments by blast
  have few: "card {p \<in> ran (tPayments ?s1). pm_pending p \<and> pm_block p = parentHash ccfg h2} < 2 ^ 32"
    unfolding no by simp
  have "\<not> awConfirmed w" by (simp add: db(4) minedWork_def NewAcceptedWork_def)
  then have mp: "minedParent ccfg ?s1 msg h2 block cb w"
    unfolding minedParent_def pid(1) using child(1) block s1 few by blast
  obtain db1 cs' where c: "I db1" "\<alpha> db1 = ?s1\<lparr>tWork := (tWork ?s1)(awUUID w \<mapsto> w\<lparr>awConfirmed := True\<rparr>)\<rparr>" "I (csDb cs')"
    "blockConnected ccfg msg cs = (fst (?G db1), cs')" "csDb cs' = snd (?G db1)"
    using connected_block[OF gen(1) db(1,2) refl mp] gen(2) no unfolding pid(1) by auto
  have run: "?G db1 = (fst (?G db1), csDb cs')" using c(5) by simp
  have src: "srcBlockHash (blockSource ccfg block cb) = awBlockHash w"
    using pid(2) block(2) by (simp add: blockSource_def parentHash_def)
  have "tWork (\<alpha> (csDb cs')) (awUUID w) = Some (w\<lparr>awConfirmed := True\<rparr>)"
    unfolding c(5) payment_generator.G_work[OF gen(1) c(1)] c(2) by simp
  moreover have "\<exists>p \<in> ran (tPayments (\<alpha> (csDb cs'))). pm_pending p \<and> pm_block p = awBlockHash w" if "fst (?G db1) = Ok ()"
    using payment_generator.G_files[OF gen(1) c(1), of "Height (bkHeader block)" "blockSource ccfg block cb"] run that src by simp
  ultimately show ?thesis using c(3,4) run by blast
qed

end
