(* ===== verification/HubProps.thy ===== *)
theory HubProps
  imports Hub Mining
begin

text \<open>
  What the hub keeps true of its connections as clients come, work and go in any order, and what
  it does with new work.
\<close>

section \<open>Steps of the pool\<close>

text \<open>
  The goroutines of the hub interleave: a connection is taken, a client's goroutine ends, a client
  makes one of its steps on the shared database, the node announces work or a block, mature
  payments are paid, the node or the wallet is connected, or a query writes to the database.
\<close>

inductive hubStep :: "'l Packages \<Rightarrow> 'db HubConfig \<Rightarrow> ('l, 'db) Hub \<Rightarrow> ('l, 'db) Hub \<Rightarrow> bool" for pk cfg where
  connection: "connect cfg addr random h = (ok, h') \<Longrightarrow> hubStep pk cfg h h'"
| ended: "hStore h p = Some (host, c) \<Longrightarrow> hubStep pk cfg h (removeClient p h)"
| clientMoves: "hStore h p = Some (host, c) \<Longrightarrow> clientStep (hubClientConfig pk cfg h) (c\<lparr>cDb := hubDb h\<rparr>) c' \<Longrightarrow>
    hubStep pk cfg h (setDb (cDb c') (h\<lparr>hStore := (hStore h)(p \<mapsto> (host, c'))\<rparr>))"
| work: "OnWork pk cfg headerB reason h = (r, h') \<Longrightarrow> hubStep pk cfg h h'"
| fetched: "FetchWork h = (r, h') \<Longrightarrow> hubStep pk cfg h h'"
| blockUp: "blockConnected (hubChainStateConfig pk cfg h) msg (hChain h) = (r, cs) \<Longrightarrow> hubStep pk cfg h (h\<lparr>hChain := cs\<rparr>)"
| blockDown: "blockDisconnected (hubChainStateConfig pk cfg h) msg (hChain h) = (r, cs) \<Longrightarrow> hubStep pk cfg h (h\<lparr>hChain := cs\<rparr>)"
| paid: "handlePayments (pkEnv pk) cancelled (hubPaymentMgrConfig pk cfg (hNode h) (hWallet h)) msg ((hPay h)\<lparr>pmDb := hubDb h\<rparr>)
      = Some (Ok res) \<Longrightarrow> hubStep pk cfg h (setDb (pmDb (hdPm res)) (h\<lparr>hPay := hdPm res\<rparr>))"
| limited: "withinLimit (pkRate pk) now ip k (hLimiter h) = (ok, l) \<Longrightarrow> hubStep pk cfg h (h\<lparr>hLimiter := l\<rparr>)"
| connectedTo: "hubStep pk cfg h (h\<lparr>hNode := node, hWallet := wallet\<rparr>)"
| hashQuery: "FetchHashData pk cfg h = (r, h') \<Longrightarrow> hubStep pk cfg h h'"
| quotaQuery: "FetchWorkQuotas pk cfg h = (r, h') \<Longrightarrow> hubStep pk cfg h h'"
| secretQuery: "CSRFSecret cfg random h = (r, h') \<Longrightarrow> hubStep pk cfg h h'"

inductive hubReachable :: "'l Packages \<Rightarrow> 'db HubConfig \<Rightarrow> ('l, 'db) Hub \<Rightarrow> ('l, 'db) Hub \<Rightarrow> bool" for pk cfg h0 where
  hubStart: "hubReachable pk cfg h0 h0"
| hubMore: "hubReachable pk cfg h0 h \<Longrightarrow> hubStep pk cfg h h' \<Longrightarrow> hubReachable pk cfg h0 h'"

section \<open>The registry of clients\<close>

text \<open>The running clients of a host.\<close>

definition clientsOf :: "('l, 'db) Hub \<Rightarrow> string \<Rightarrow> nat set" where
  "clientsOf h host = {p. \<exists>c. hStore h p = Some (host, c)}"

definition counted :: "'db HubConfig \<Rightarrow> ('l, 'db) Hub \<Rightarrow> bool" where
  "counted cfg h \<longleftrightarrow> finite (dom (hStore h)) \<and> (\<forall>p \<in> dom (hStore h). p < hNext h) \<and>
     (\<forall>host. hConnections h host = of_nat (card (clientsOf h host)) \<and>
        card (clientsOf h host) \<le> unat (hcMaxConnectionsPerHost cfg)) \<and>
     hClients h = of_nat (card (dom (hStore h)))"

definition registered :: "('l, 'db) Hub \<Rightarrow> bool" where
  "registered h \<longleftrightarrow> distinct_keys (hEndpoint h) \<and>
     (\<forall>(en, p) \<in> set (hEndpoint h). \<exists>host c. hStore h p = Some (host, c) \<and> extraNonce1 c = en)"

definition hubOk :: "'l Packages \<Rightarrow> 'db HubConfig \<Rightarrow> ('l, 'db) Hub \<Rightarrow> bool" where
  "hubOk pk cfg h \<longleftrightarrow> counted cfg h \<and> registered h \<and>
     (\<forall>p host c. hStore h p = Some (host, c) \<longrightarrow> clientOk (hubClientConfig pk cfg h) (extraNonce1 c) c)"

lemma registeredD: "registered h \<Longrightarrow> (en, p) \<in> set (hEndpoint h) \<Longrightarrow> \<exists>host c. hStore h p = Some (host, c) \<and> extraNonce1 c = en"
  by (auto simp: registered_def)

lemma clientsOf_dom: "clientsOf h host \<subseteq> dom (hStore h)"
  by (auto simp: clientsOf_def)

lemma clientOk_hub: "hDiffs h' = hDiffs h \<Longrightarrow> clientOk (hubClientConfig pk cfg h') en c = clientOk (hubClientConfig pk cfg h) en c"
  by (simp add: clientOk_def identified_def knownAccount_def hubClientConfig_def)

text \<open>Steps that leave the registry alone, and steps that change what a client holds.\<close>

definition sameRegistry :: "('l, 'db) Hub \<Rightarrow> ('l, 'db) Hub \<Rightarrow> bool" where
  "sameRegistry h h' \<longleftrightarrow> hClients h' = hClients h \<and> hConnections h' = hConnections h \<and> hEndpoint h' = hEndpoint h \<and>
     hNext h' = hNext h \<and> hDiffs h' = hDiffs h"

lemma sameRegistry_ok:
  assumes "hubOk pk cfg h" "sameRegistry h h'"
    and "\<And>p. hStore h' p = hStore h p \<or> (\<exists>host c c'. hStore h p = Some (host, c) \<and> hStore h' p = Some (host, c') \<and>
      clientOk (hubClientConfig pk cfg h) (extraNonce1 c) c')"
  shows "hubOk pk cfg h'"
proof -
  have host: "(\<exists>c. hStore h' p = Some (host, c)) = (\<exists>c. hStore h p = Some (host, c))" for p host
    using assms(3)[of p] by (elim disjE exE conjE) simp_all
  then have of: "clientsOf h' host = clientsOf h host" for host by (simp add: clientsOf_def)
  have "p \<in> dom (hStore h') \<longleftrightarrow> p \<in> dom (hStore h)" for p using assms(3)[of p] by (elim disjE exE conjE) (simp_all add: dom_def)
  then have d: "dom (hStore h') = dom (hStore h)" by blast
  have "counted cfg h'" using assms(1,2) by (simp add: hubOk_def counted_def sameRegistry_def of d)
  moreover have "\<exists>host c'. hStore h' p = Some (host, c') \<and> extraNonce1 c' = extraNonce1 c"
    if "hStore h p = Some (host, c)" for p host c
    using that assms(3)[of p] by (auto simp: clientOk_def)
  then have "registered h'" using assms(1,2) by (fastforce simp: hubOk_def registered_def sameRegistry_def)
  moreover have "clientOk (hubClientConfig pk cfg h') (extraNonce1 c) c" if "hStore h' p = Some (host, c)" for p host c
  proof -
    have "clientOk (hubClientConfig pk cfg h) (extraNonce1 c) c"
      using assms(3)[of p]
    proof (elim disjE exE conjE)
      assume "hStore h' p = hStore h p"
      then have "hStore h p = Some (host, c)" using that by simp
      then show ?thesis using assms(1) unfolding hubOk_def by blast
    next
      fix host0 c0 c1 assume "hStore h' p = Some (host0, c1)" "clientOk (hubClientConfig pk cfg h) (extraNonce1 c0) c1"
      then show ?thesis using that by (auto simp: clientOk_def)
    qed
    then show ?thesis using clientOk_hub[of h' h] assms(2) by (simp add: sameRegistry_def)
  qed
  ultimately show ?thesis by (simp add: hubOk_def)
qed

lemma sameStore_ok: "hubOk pk cfg h \<Longrightarrow> sameRegistry h h' \<Longrightarrow> hStore h' = hStore h \<Longrightarrow> hubOk pk cfg h'"
  by (rule sameRegistry_ok) auto

lemma chain_ok: "hubOk pk cfg h \<Longrightarrow> hubOk pk cfg (h\<lparr>hChain := cs\<rparr>)"
  by (erule sameStore_ok) (simp_all add: sameRegistry_def)

section \<open>Adding and removing clients\<close>

lemma card_insert_of:
  assumes "counted cfg h" "hStore h' = (hStore h)(hNext h \<mapsto> (host, c))"
  shows "card (clientsOf h' host') = card (clientsOf h host') + (if host' = host then 1 else 0)"
    "card (dom (hStore h')) = Suc (card (dom (hStore h)))"
proof -
  have f: "finite (dom (hStore h))" "hNext h \<notin> dom (hStore h)" using assms(1) by (auto simp: counted_def)
  have "clientsOf h' host' = (if host' = host then insert (hNext h) (clientsOf h host') else clientsOf h host')"
    using f(2) by (auto simp: clientsOf_def assms(2))
  moreover have "finite (clientsOf h host')" "hNext h \<notin> clientsOf h host'"
    using f finite_subset[OF clientsOf_dom] clientsOf_dom[of h host'] by blast+
  ultimately show "card (clientsOf h' host') = card (clientsOf h host') + (if host' = host then 1 else 0)"
    by (cases "host' = host") simp_all
  show "card (dom (hStore h')) = Suc (card (dom (hStore h)))" using f by (simp add: assms(2) card_insert_if)
qed

lemma addClient_ok:
  assumes "hubOk pk cfg h" "fetchHostConnections host h < hcMaxConnectionsPerHost cfg"
    and "c = NewClient bs addr db 0"
  shows "hubOk pk cfg (addClient host c h)"
proof -
  let ?h = "addClient host c h"
  have ok: "counted cfg h" "registered h" using assms(1) by (simp_all add: hubOk_def)
  have st: "hStore ?h = (hStore h)(hNext h \<mapsto> (host, c))" "hNext ?h = Suc (hNext h)" "hDiffs ?h = hDiffs h"
    "hEndpoint ?h = put (extraNonce1 c) (hNext h) (hEndpoint h)" "hClients ?h = hClients h + 1"
    "hConnections ?h = (hConnections h)(host := hConnections h host + 1)"
    by (simp_all add: addClient_def addConnection_def)
  note card = card_insert_of[OF ok(1) st(1)]
  have cnt: "hConnections h host' = of_nat (card (clientsOf h host'))" "card (clientsOf h host') \<le> unat (hcMaxConnectionsPerHost cfg)"
    for host' using ok(1) by (simp_all add: counted_def)
  have "card (clientsOf h host) < 2 ^ 32"
    using cnt(2)[of host] unsigned_less[where 'a = nat and w = "hcMaxConnectionsPerHost cfg"] by simp
  then have "unat (hConnections h host) = card (clientsOf h host)"
    by (simp add: cnt(1) unsigned_of_nat take_bit_nat_eq_self)
  then have "card (clientsOf h host) < unat (hcMaxConnectionsPerHost cfg)"
    using assms(2) by (simp add: fetchHostConnections_def word_less_nat_alt)
  then have "hConnections ?h host' = of_nat (card (clientsOf ?h host')) \<and> card (clientsOf ?h host') \<le> unat (hcMaxConnectionsPerHost cfg)"
    for host' unfolding card(1) using cnt[of host'] by (cases "host' = host") (simp_all add: st add.commute)
  moreover have "hClients ?h = of_nat (card (dom (hStore ?h)))"
    unfolding card(2) using ok(1) by (simp add: st(5) counted_def add.commute)
  moreover have "finite (dom (hStore ?h))" "\<forall>p \<in> dom (hStore ?h). p < hNext ?h"
    using ok(1) unfolding st(1,2) counted_def by (simp_all add: less_SucI)
  ultimately have "counted cfg ?h" by (simp add: counted_def)
  moreover have fresh: "(en, p) \<in> set (hEndpoint h) \<Longrightarrow> p \<noteq> hNext h" for en p
    using ok by (fastforce simp: counted_def registered_def)
  have "registered ?h"
    unfolding registered_def
  proof (intro conjI ballI)
    show "distinct_keys (hEndpoint ?h)" using ok(2) by (simp add: st registered_def)
    fix x assume x: "x \<in> set (hEndpoint ?h)"
    have "set (put k v m) \<subseteq> insert (k, v) (set m)" for k v and m :: "(string \<times> nat) list"
      by (induction k v m rule: put.induct) auto
    then have "x = (extraNonce1 c, hNext h) \<or> x \<in> set (hEndpoint h)" using x by (auto simp: st)
    then show "case x of (en, p) \<Rightarrow> \<exists>host c. hStore ?h p = Some (host, c) \<and> extraNonce1 c = en"
      using ok(2) fresh by (auto simp: st registered_def)
  qed
  moreover have "clientOk (hubClientConfig pk cfg ?h) (extraNonce1 d) d" if "hStore ?h p = Some (host', d)" for p host' d
  proof -
    have "extraNonce1 c = EncodeToString bs" by (simp add: assms(3) NewClient_def)
    then have "clientOk (hubClientConfig pk cfg h) (extraNonce1 d) d"
      using that assms(1) new_ok[of "hubClientConfig pk cfg h" bs addr db 0] unfolding st(1)
      by (auto simp: hubOk_def assms(3)[symmetric] split: if_splits)
    then show ?thesis using clientOk_hub[of ?h h] by (simp add: st)
  qed
  ultimately show ?thesis by (simp add: hubOk_def)
qed

lemma removeClient_ok:
  assumes "hubOk pk cfg h" "hStore h p = Some (host, c)"
  shows "hubOk pk cfg (removeClient p h)"
proof -
  let ?h = "removeClient p h"
  have ok: "counted cfg h" "registered h" using assms(1) by (simp_all add: hubOk_def)
  have st: "hStore ?h = (hStore h)(p := None)" "hNext ?h = hNext h" "hDiffs ?h = hDiffs h"
    "hEndpoint ?h = removeKey (extraNonce1 c) (hEndpoint h)" "hClients ?h = hClients h - 1"
    "hConnections ?h = (hConnections h)(host := hConnections h host - 1)"
    by (simp_all add: removeClient_def removeConnection_def assms(2))
  have f: "finite (dom (hStore h))" "p \<in> dom (hStore h)" "p \<in> clientsOf h host"
    using ok(1) assms(2) by (auto simp: counted_def clientsOf_def)
  have "clientsOf ?h host' = (if host' = host then clientsOf h host - {p} else clientsOf h host')" for host'
    using assms(2) by (auto simp: clientsOf_def st)
  moreover have "card (clientsOf h host) = Suc (card (clientsOf h host - {p}))"
    using f finite_subset[OF clientsOf_dom] by (metis card.remove)
  moreover have "card (dom (hStore h)) = Suc (card (dom (hStore h) - {p}))" using f by (metis card.remove)
  ultimately have "counted cfg ?h" using ok(1) by (auto simp: counted_def st dom_fun_upd) (metis Suc_leD)
  moreover have "\<exists>host d. hStore ?h q = Some (host, d) \<and> extraNonce1 d = en" if "(en, q) \<in> set (hEndpoint ?h)" for en q
  proof -
    have q: "(en, q) \<in> set (hEndpoint h)" "en \<noteq> extraNonce1 c" using that by (auto simp: st removeKey_def)
    then obtain host' d where d: "hStore h q = Some (host', d)" "extraNonce1 d = en" using ok(2) by (auto simp: registered_def)
    then have "q \<noteq> p" using q(2) assms(2) by auto
    then show ?thesis using d by (simp add: st)
  qed
  moreover have "distinct_keys (hEndpoint ?h)"
    using ok(2) unfolding st(4) registered_def removeKey_def distinct_keys_def Prelude.keys_def by (intro distinct_map_filter) simp
  ultimately have "counted cfg ?h" "registered ?h" by (auto simp: registered_def)
  moreover have "clientOk (hubClientConfig pk cfg ?h) (extraNonce1 d) d" if "hStore ?h q = Some (host', d)" for q host' d
    using that assms(1) clientOk_hub[of ?h h] by (auto simp: st hubOk_def split: if_splits)
  ultimately show ?thesis by (simp add: hubOk_def)
qed

section \<open>Notifying the clients\<close>

lemma setDb_same [simp]: "setDb (hubDb h) h = h"
  by (simp add: setDb_def hubDb_def)

lemma hubDb_setDb [simp]: "hubDb (setDb db h) = db"
  by (simp add: setDb_def hubDb_def)

lemma hubDb_store [simp]: "hubDb (h\<lparr>hStore := s\<rparr>) = hubDb h"
  by (simp add: hubDb_def)

lemma setDb_frame [simp]:
  "hStore (setDb db h) = hStore h" "hClients (setDb db h) = hClients h" "hConnections (setDb db h) = hConnections h"
  "hEndpoint (setDb db h) = hEndpoint h" "hNext (setDb db h) = hNext h" "hDiffs (setDb db h) = hDiffs h"
  "lastWorkHeight (hChain (setDb db h)) = lastWorkHeight (hChain h)" "currentWork (hChain (setDb db h)) = currentWork (hChain h)"
  by (simp_all add: setDb_def)

definition withMessage :: "Message \<Rightarrow> 'db \<Rightarrow> 'db Client \<Rightarrow> 'db Client" where
  "withMessage msg db c = c\<lparr>cDb := db, cOut := cOut c @ (if cCancelled c then [] else [msg])\<rparr>"

lemma runClient_send:
  "runClient p (sendMessage msg) h = h\<lparr>hStore := (hStore h)(p := map_option (map_prod (\<lambda>x. x) (withMessage msg (hubDb h))) (hStore h p))\<rparr>"
proof (cases "hStore h p")
  case None
  then have "(hStore h)(p := None) = hStore h" by (simp add: fun_upd_idem)
  then show ?thesis using None by (simp add: runClient_def)
next
  case (Some x)
  then show ?thesis
    by (cases x) (auto simp: runClient_def sendMessage_def withMessage_def setDb_def hubDb_def)
qed

lemma notify_fold:
  assumes "distinct (map snd es)"
  shows "fold (\<lambda>(_, p). runClient p (sendMessage msg)) es h =
    h\<lparr>hStore := (\<lambda>p. if p \<in> snd ` set es then map_option (map_prod (\<lambda>x. x) (withMessage msg (hubDb h))) (hStore h p) else hStore h p)\<rparr>"
  using assms
proof (induction es arbitrary: h)
  case (Cons e es)
  obtain k p where e: "e = (k, p)" by (cases e)
  let ?h = "runClient p (sendMessage msg) h"
  have h: "?h = h\<lparr>hStore := (hStore h)(p := map_option (map_prod (\<lambda>x. x) (withMessage msg (hubDb h))) (hStore h p))\<rparr>"
    by (rule runClient_send)
  have db: "hubDb ?h = hubDb h" by (simp add: h hubDb_def)
  have "p \<notin> snd ` set es" using Cons.prems by (simp add: e)
  then show ?case
    using Cons.IH[of ?h] Cons.prems unfolding db
    by (simp add: e) (auto simp: fun_eq_iff h intro!: arg_cong[where f = "\<lambda>s. h\<lparr>hStore := s\<rparr>"])
qed simp

lemma notifyClients_eq:
  assumes "fair e" "registered h"
  shows "notifyClients e notif h = h\<lparr>hStore := (\<lambda>p. if p \<in> snd ` set (hEndpoint h)
    then map_option (map_prod (\<lambda>x. x) (withMessage (MReq notif) (hubDb h))) (hStore h p) else hStore h p)\<rparr>"
proof -
  have d: "distinct_keys (hEndpoint h)" using assms(2) by (simp add: registered_def)
  note r = range_map_set[OF assms(1) d] range_map_keys(1)[OF assms(1) d]
  have "inj_on snd (set (hEndpoint h))"
  proof (rule inj_onI, clarsimp)
    fix en en' p assume "(en, p) \<in> set (hEndpoint h)" "(en', p) \<in> set (hEndpoint h)"
    from this[THEN registeredD[OF assms(2)]] show "en = en'" by auto
  qed
  then have "distinct (map snd (range_map e (hEndpoint h)))"
    using r distinct_map[of fst "range_map e (hEndpoint h)"] by (simp add: distinct_map distinct_keys_def Prelude.keys_def)
  from notify_fold[OF this] show ?thesis by (simp add: notifyClients_def r(1))
qed

lemma notify_ok:
  assumes "fair (pkEnv pk)" "hubOk pk cfg h"
  shows "hubOk pk cfg (notifyClients (pkEnv pk) notif h)"
proof -
  have eq: "notifyClients (pkEnv pk) notif h = h\<lparr>hStore := (\<lambda>p. if p \<in> snd ` set (hEndpoint h)
    then map_option (map_prod (\<lambda>x. x) (withMessage (MReq notif) (hubDb h))) (hStore h p) else hStore h p)\<rparr>"
    using assms(2) unfolding hubOk_def by (intro notifyClients_eq[OF assms(1)]) simp
  have "clientOk (hubClientConfig pk cfg h) (extraNonce1 c) (withMessage (MReq notif) (hubDb h) c)"
    if "hStore h p = Some (host, c)" for p host c
    using that assms(2) same_ok[of c "withMessage (MReq notif) (hubDb h) c" "hubClientConfig pk cfg h" "extraNonce1 c"]
    by (simp add: hubOk_def same_def withMessage_def)
  then show ?thesis
    unfolding eq by (intro sameRegistry_ok[OF assms(2)]) (auto simp: sameRegistry_def map_option_case split: option.splits)
qed

section \<open>The invariant\<close>

lemma newHub_ok: "hubOk pk cfg (newHubState ds pm db)"
  by (simp add: hubOk_def counted_def registered_def newHubState_def clientsOf_def distinct_keys_def Prelude.keys_def)

lemma hub_write_same: "hub_write op h = (r, h') \<Longrightarrow> sameRegistry h h' \<and> hStore h' = hStore h"
  by (auto simp: hub_write_def sameRegistry_def setDb_def split: prod.splits)

lemma dispatch_ok:
  assumes "fair (pkEnv pk)" "hubOk pk cfg h" "dispatchJob pk cfg headerE height h = (r, h')"
  shows "hubOk pk cfg h'"
proof -
  have w: "hubOk pk cfg h2" if "hub_write op (h\<lparr>hTick := t\<rparr>) = (r2, h2)" for op r2 h2 t
    using hub_write_same[OF that] by (intro sameStore_ok[OF assms(2)]) (auto simp: sameRegistry_def)
  have t: "hubOk pk cfg (h\<lparr>hTick := t\<rparr>)" for t by (rule sameStore_ok[OF assms(2)]) (simp_all add: sameRegistry_def)
  show ?thesis
    using assms(2,3)
    by (auto simp: dispatchJob_def bndc_def liftc_def hub_now_def Let_def split: prod.splits outcome.splits
        intro: w notify_ok[OF assms(1) w])
qed

lemma processWork_ok:
  assumes "fair (pkEnv pk)" "hubOk pk cfg h" "processWork pk cfg headerE h = (r, h')"
  shows "hubOk pk cfg h'"
proof -
  have t: "hubOk pk cfg (h\<lparr>hChain := cs\<rparr>)" for cs by (rule sameStore_ok[OF assms(2)]) (simp_all add: sameRegistry_def)
  show ?thesis
    using assms(2,3)
    by (auto simp: processWork_def bndc_def liftc_def split: prod.splits outcome.splits if_splits
        intro: t dispatch_ok[OF assms(1) t])
qed

lemma hubStep_ok:
  assumes "hubStep pk cfg h h'" "fair (pkEnv pk)" "hubOk pk cfg h"
  shows "hubOk pk cfg h'"
  using assms
proof (induction rule: hubStep.induct)
  case (connection addr random h ok h')
  then show ?case by (auto simp: connect_def not_le split: option.splits if_splits intro: addClient_ok)
next
  case (ended h p host c)
  then show ?case by (intro removeClient_ok)
next
  case (clientMoves h p host c c')
  then have "clientOk (hubClientConfig pk cfg h) (extraNonce1 c) c" by (simp add: hubOk_def)
  then have "clientOk (hubClientConfig pk cfg h) (extraNonce1 c) (c\<lparr>cDb := hubDb h\<rparr>)"
    using same_ok[of c "c\<lparr>cDb := hubDb h\<rparr>"] by (simp add: same_def)
  then have "clientOk (hubClientConfig pk cfg h) (extraNonce1 c) c'" using clientMoves(2) step_ok by blast
  then show ?case
    using clientMoves by (intro sameRegistry_ok[OF clientMoves(4)]) (auto simp: sameRegistry_def)
next
  case (work headerB reason h r h')
  have t: "hubOk pk cfg (setHubWork w h)" for w
    by (rule sameStore_ok[OF work(3)]) (simp_all add: sameRegistry_def setHubWork_def)
  show ?case
    using work(1,3) by (auto simp: OnWork_def bndc_def Let_def split: if_splits intro: t processWork_ok[OF work(2) t])
next
  case (fetched h r h')
  then show ?case
    by (auto simp: FetchWork_def bndc_def liftc_def setHubWork_def split: outcome.splits intro: chain_ok)
next
  case (secretQuery random h r h')
  then show ?case
    by (auto simp: CSRFSecret_def bndc_def liftc_def split: outcome.splits if_splits prod.splits
        dest!: hub_write_same intro: sameStore_ok)
next
  case (hashQuery h r h')
  then show ?case
    by (auto simp: FetchHashData_def bndc_def liftc_def hub_now_def Let_def split: outcome.splits
        intro: sameStore_ok simp: sameRegistry_def)
qed (auto simp: FetchWorkQuotas_def Let_def sameRegistry_def split: if_splits intro: sameStore_ok)

lemma hubReachable_ok:
  assumes "hubReachable pk cfg h0 h" "fair (pkEnv pk)" "hubOk pk cfg h0"
  shows "hubOk pk cfg h"
  using assms by (induction rule: hubReachable.induct) (auto intro: hubStep_ok)

end
