(* ===== verification/HubTheorems.thy ===== *)
theory HubTheorems
  imports HubProps
begin

text \<open>
  The properties of the hub: its creation, its count of connections, and the work it hands out.
\<close>

section \<open>Creation\<close>

context database_common
begin

lemma ensure_mode:
  assumes live: "live" and cfg: "hcDb cfg = D" and I: "I db"
  shows "if tMode (\<alpha> db) = None \<or> tMode (\<alpha> db) = Some (poolMode cfg)
    then \<exists>db'. ensureMode cfg db = (Ok (), db') \<and> I db' \<and> \<alpha> db' = (\<alpha> db)\<lparr>tMode := Some (poolMode cfg)\<rparr>
    else ensureMode cfg db = (Err Foreign, db)"
proof (cases "tMode (\<alpha> db)")
  case None
  then show ?thesis
    using fetchPoolMode[OF I] writes_live[OF persistPoolMode[of "poolMode cfg"] live I]
    by (auto simp: ensureMode_def cfg found_def Let_def bndc_def)
next
  case (Some m)
  then have "\<alpha> db = (\<alpha> db)\<lparr>tMode := Some m\<rparr>" by simp
  then show ?thesis
    using Some fetchPoolMode[OF I] I by (auto simp: ensureMode_def cfg found_def Let_def)
qed

lemma hub_starts:
  assumes live: "live" and cfg: "hcDb cfg = D" and I: "I db" and net: "0 \<le> PowLimit (hcNet cfg)"
    and s1: "s1 = (\<alpha> db)\<lparr>tLastPaid := Some (case tLastPaid (\<alpha> db) of None \<Rightarrow> (0, 0) | Some x \<Rightarrow> x),
      tLastCreated := Some (case tLastCreated (\<alpha> db) of None \<Rightarrow> 0 | Some t \<Rightarrow> t)\<rparr>"
  shows "\<exists>db'. I db' \<and> (if tMode (\<alpha> db) = None \<or> tMode (\<alpha> db) = Some (poolMode cfg)
    then \<alpha> db' = s1\<lparr>tMode := Some (poolMode cfg)\<rparr> \<and>
      (if listens then \<exists>ds pm. NewHub pk cfg listens db = (Ok (newHubState ds pm db'), db')
       else NewHub pk cfg listens db = (Err (PoolError Listener), db'))
    else \<alpha> db' = s1 \<and> NewHub pk cfg listens db = (Err Foreign, db'))"
proof -
  have "\<exists>ds. NewDifficultySet (pkEnv pk) (hcNet cfg) (of_int (PowLimit (hcNet cfg))) (hubMaxGenTime cfg) = Ok ds"
    unfolding NewDifficultySet_def Let_def
    by (rule exI, rule foldo_total[where h = "\<lambda>(k, v). put k (let d = poolDifficulty (hcNet cfg) v (genTimeSecs (hubMaxGenTime cfg)) in
         \<lparr>diTarget = of_int (PowLimit (hcNet cfg)) / d, diDifficulty = d, diPowLimit = of_int (PowLimit (hcNet cfg))\<rparr>)"])
      (auto simp: calculatePoolTarget_eq[OF net] Let_def simp del: bnd_eq_Ok)
  then obtain ds where ds: "NewDifficultySet (pkEnv pk) (hcNet cfg) (of_int (PowLimit (hcNet cfg))) (hubMaxGenTime cfg) = Ok ds" ..
  have "cfgDb (hubPaymentMgrConfig pk cfg None None) = D" by (simp add: hubPaymentMgrConfig_def cfg)
  from initialises[OF live this I]
  obtain pm db1 where pm: "NewPaymentMgr (hubPaymentMgrConfig pk cfg None None) db = (Ok pm, db1)" "I db1" "\<alpha> db1 = s1"
    by (auto simp: s1)
  have m: "tMode s1 = tMode (\<alpha> db)" by (simp add: s1)
  have run: "NewHub pk cfg listens db = (case ensureMode cfg db1 of
        (Ok _, db) \<Rightarrow> (bnd (NewEndpoint listens) (\<lambda>_. Ok (newHubState ds pm db)), db)
      | (Err err, db) \<Rightarrow> (Err err, db) | (Panic, db) \<Rightarrow> (Panic, db))"
    by (simp add: NewHub_def ds pm(1))
  show ?thesis
  proof (cases "tMode (\<alpha> db) = None \<or> tMode (\<alpha> db) = Some (poolMode cfg)")
    case True
    then obtain db' where "ensureMode cfg db1 = (Ok (), db')" "I db'" "\<alpha> db' = s1\<lparr>tMode := Some (poolMode cfg)\<rparr>"
      using ensure_mode[OF live cfg pm(2)] pm(3) m by auto
    then show ?thesis using True unfolding run by (intro exI[of _ db']) (auto simp: NewEndpoint_def)
  next
    case False
    then show ?thesis
      using ensure_mode[OF live cfg pm(2)] pm(2,3) m unfolding run by (intro exI[of _ db1]) auto
  qed
qed

end

section \<open>New work\<close>

text \<open>The parts of the work the pool reads from its hexadecimal form.\<close>

lemma height_part:
  assumes "length hdr = 180"
  shows "slice 256 264 (EncodeToString hdr) = (Ok (EncodeToString (take 4 (drop 128 hdr))) :: string go)"
  using assms drop_EncodeToString[of 128 hdr] take_EncodeToString[of 4 "drop 128 hdr"] by (simp add: slice_Ok)

context database_common
begin

lemma new_work:
  assumes live: "live" and cfg: "hcDb cfg = D" and I: "I (hubDb h)" and ok: "fair (pkEnv pk)" "registered h" "HasClients h"
    and hdr: "length hdr = 180" "le32_val (take 4 (drop 128 hdr)) = Ok height"
    and job: "job = NewJob (EncodeToString hdr) height (eNow (pkEnv pk) (hTick h))" "tJobs (\<alpha> (hubDb h)) (jbUUID job) = None"
    and reason: "reason = NewParent \<or> reason = NewVotes"
  shows "\<exists>h'. OnWork pk cfg hdr reason h = (Ok (), h') \<and> I (hubDb h') \<and>
    \<alpha> (hubDb h') = (\<alpha> (hubDb h))\<lparr>tJobs := (tJobs (\<alpha> (hubDb h)))(jbUUID job \<mapsto> job)\<rparr> \<and>
    lastWorkHeight (hChain h') = height \<and> currentWork (hChain h') = EncodeToString hdr \<and> hEndpoint h' = hEndpoint h \<and>
    hStore h' = (\<lambda>p. if p \<in> snd ` set (hEndpoint h)
      then map_option (map_prod (\<lambda>x. x) (withMessage (MReq (jobNotification job True)) (hubDb h'))) (hStore h p) else hStore h p)"
proof -
  let ?w = "EncodeToString hdr"
  let ?h1 = "h\<lparr>hChain := setLastWorkHeight height (setCurrentWork ?w (hChain h)), hTick := Suc (hTick h)\<rparr>"
  have db1: "hubDb ?h1 = hubDb h" by (simp add: hubDb_def setLastWorkHeight_def setCurrentWork_def)
  have wf: "wf_job job"
    by (simp add: job(1) NewJob_def wf_job_def wf_key_def EncodeToString_append jobID_def flip: length_0_conv)
  have pre: "absent (tJobs (\<alpha> (hubDb h)) (jbUUID job)) = None" using job(2) by (simp add: absent_def)
  obtain db where db: "db_persistJob D job (hubDb h) = (Ok (), db)" "I db"
    "\<alpha> db = (\<alpha> (hubDb h))\<lparr>tJobs := (tJobs (\<alpha> (hubDb h)))(jbUUID job \<mapsto> job)\<rparr>"
    using writes_live[OF persistJob[OF wf] live I pre] by auto
  have parts: "notifyParts ?w = Ok (take 8 ?w, drop 8 (take 72 ?w), drop 72 (take 360 ?w), drop 232 (take 240 ?w), drop 272 (take 280 ?w))"
    using hdr(1) by (intro notifyParts_Ok) simp
  have w: "hub_write (db_persistJob D job) ?h1 = (Ok (), setDb db ?h1)" by (simp add: hub_write_def db1 db(1))
  have "dispatchJob pk cfg ?w height (h\<lparr>hChain := setLastWorkHeight height (setCurrentWork ?w (hChain h))\<rparr>) =
      (Ok (), notifyClients (pkEnv pk) (jobNotification job True) (setDb db ?h1))"
    using w by (simp add: dispatchJob_def bndc_def liftc_def parts hub_now_def Let_def cfg job(1)[symmetric])
      (simp add: job(1) jobNotification_def NewJob_def Let_def)
  then have run: "OnWork pk cfg hdr reason h = (Ok (), notifyClients (pkEnv pk) (jobNotification job True) (setDb db ?h1))"
    using reason ok(3) hdr(2)
    by (auto simp: OnWork_def NewTxns_def NewParent_def NewVotes_def Let_def bndc_def setHubWork_def processWork_def liftc_def
        height_part[OF hdr(1)] HasClients_def)
  have reg: "registered (setDb db ?h1)" using ok(2) by (simp add: registered_def setDb_def)
  show ?thesis
    unfolding run notifyClients_eq[OF ok(1) reg]
    using db(2,3) by (simp add: setLastWorkHeight_def setCurrentWork_def cong: if_cong)
qed

end

section \<open>Properties\<close>

text \<open>
  C31: the pool's mode is fixed. On a database that keeps its contract and does not fail, a hub
  starts exactly if the database has no mode yet or the mode of the configuration: it then has
  recorded the mode and filled in the payment metadata a new database lacks. With the other mode
  it fails, and with an address it cannot listen on too, and nothing else is written.
\<close>

theorem pool_mode_fixed:
  assumes "database_common (hcDb cfg) \<alpha> I True" "I db" "0 \<le> PowLimit (hcNet cfg)"
    and "s1 = (\<alpha> db)\<lparr>tLastPaid := Some (case tLastPaid (\<alpha> db) of None \<Rightarrow> (0, 0) | Some x \<Rightarrow> x),
      tLastCreated := Some (case tLastCreated (\<alpha> db) of None \<Rightarrow> 0 | Some t \<Rightarrow> t)\<rparr>"
  shows "\<exists>db'. I db' \<and> (if tMode (\<alpha> db) = None \<or> tMode (\<alpha> db) = Some (poolMode cfg)
    then \<alpha> db' = s1\<lparr>tMode := Some (poolMode cfg)\<rparr> \<and>
      (if listens then \<exists>ds pm. NewHub pk cfg listens db = (Ok (newHubState ds pm db'), db')
       else NewHub pk cfg listens db = (Err (PoolError Listener), db'))
    else \<alpha> db' = s1 \<and> NewHub pk cfg listens db = (Err Foreign, db'))"
  by (rule database_common.hub_starts[OF assms(1) TrueI refl assms(2-)])

text \<open>A pool with two connections for each host.\<close>

definition demoPk :: "int Packages" where
  "demoPk = \<lparr>pkEnv = plainEnv, pkWire = clientWire, pkRules = demoRules, pkBlake256 = (\<lambda>b. take 32 b),
     pkErrText = (\<lambda>e. ''error''), pkRate = burstLib\<rparr>"

definition hubCfg :: "bool \<Rightarrow> memdb HubConfig" where
  "hubCfg solo = \<lparr>hcNet = demoNet, hcCoinbaseMaturity = 16, hcDb = BoltDatabase mem_bolt, hcPoolFee = Finite (1 / 100),
     hcMaxGenTime = 15000000000, hcPaymentMethod = PPS, hcLastNPeriod = 86400000000000, hcWalletPass = [], hcSoloPool = solo,
     hcPoolFeeAddrs = [''f''], hcNonceIterations = 2 ^ 32, hcMaxConnectionsPerHost = 2, hcMonitorCycle = 120000000000,
     hcMaxUpgradeTries = 5\<rparr>"

lemma hubCfg_sel: "hcDb (hubCfg solo) = BoltDatabase mem_bolt" "0 \<le> PowLimit (hcNet (hubCfg solo))"
  "poolMode (hubCfg solo) = (if solo then 1 else 0)" "hcMaxConnectionsPerHost (hubCfg solo) = 2"
  by (simp_all add: hubCfg_def demoNet_def poolMode_def)

lemma hubCfg_db: "database_common (hcDb (hubCfg solo)) (absdb mem_bolt) (boltInv mem_bolt) True"
  using database_spec.axioms(1)[OF mem_db_spec] by (simp add: hubCfg_sel)

lemma demo_starts:
  "\<exists>ds pm db1. NewHub demoPk (hubCfg False) True newdb = (Ok (newHubState ds pm db1), db1) \<and> boltInv mem_bolt db1 \<and>
     tMode (absdb mem_bolt db1) = Some 0 \<and> tJobs (absdb mem_bolt db1) = Map.empty"
  using database_common.hub_starts[OF hubCfg_db TrueI refl newdb_inv(1) hubCfg_sel(2) refl, of False True demoPk]
  by (auto simp: newdb_inv(2) emptyPoolDB_def hubCfg_sel(3) simp del: absdb_sel) blast

theorem pool_mode_fixed_witness:
  "\<exists>h db1 db2. NewHub demoPk (hubCfg False) True newdb = (Ok h, db1) \<and> NewHub demoPk (hubCfg True) True db1 = (Err Foreign, db2)"
proof -
  obtain ds pm db1 where h: "NewHub demoPk (hubCfg False) True newdb = (Ok (newHubState ds pm db1), db1)" "boltInv mem_bolt db1"
    "tMode (absdb mem_bolt db1) = Some 0" using demo_starts by blast
  show ?thesis
    using pool_mode_fixed[OF hubCfg_db, OF h(2) hubCfg_sel(2) refl, of True True demoPk] h(1,3)
    by (auto simp: hubCfg_sel(3) simp del: absdb_sel)
qed

text \<open>
  C19: connections are counted and limited. In every state a hub can reach, the count of a host is
  the number of its running clients, and that is at most the configured maximum; the count of all
  is their number, so while there are less than \<open>2 ^ 31\<close> of them the hub has clients exactly
  if there are any; and what the endpoint lists are running clients, under their extra nonces.
\<close>

theorem connections_counted:
  assumes "fair (pkEnv pk)" "NewHub pk cfg listens db = (Ok h0, db0)" "hubReachable pk cfg h0 h"
  shows "(\<forall>host. unat (fetchHostConnections host h) = card (clientsOf h host) \<and>
      card (clientsOf h host) \<le> unat (hcMaxConnectionsPerHost cfg)) \<and>
    hClients h = of_nat (card (dom (hStore h))) \<and>
    (card (dom (hStore h)) < 2 ^ 31 \<longrightarrow> HasClients h = (hStore h \<noteq> Map.empty)) \<and>
    (\<forall>(en, p) \<in> set (hEndpoint h). \<exists>host c. hStore h p = Some (host, c) \<and> extraNonce1 c = en)"
proof -
  have "\<exists>ds pm db. h0 = newHubState ds pm db"
    using assms(2) by (auto simp: NewHub_def split: outcome.splits prod.splits)
  then have ok: "counted cfg h" "registered h"
    using hubReachable_ok[OF assms(3,1)] newHub_ok[of pk cfg] by (auto simp: hubOk_def)
  have "unat (fetchHostConnections host h) = card (clientsOf h host) \<and>
      card (clientsOf h host) \<le> unat (hcMaxConnectionsPerHost cfg)" for host
  proof -
    have c: "hConnections h host = of_nat (card (clientsOf h host))" "card (clientsOf h host) \<le> unat (hcMaxConnectionsPerHost cfg)"
      using ok(1) by (simp_all add: counted_def)
    then have "card (clientsOf h host) < 2 ^ 32"
      using unsigned_less[where 'a = nat and w = "hcMaxConnectionsPerHost cfg"] by simp
    then show ?thesis using c by (simp add: fetchHostConnections_def unsigned_of_nat take_bit_nat_eq_self)
  qed
  moreover have "HasClients h = (hStore h \<noteq> Map.empty)" if "card (dom (hStore h)) < 2 ^ 31"
  proof -
    have "sint (of_nat (card (dom (hStore h))) :: 32 word) = int (card (dom (hStore h)))"
      using that by (simp add: signed_of_nat signed_take_bit_int_eq_self)
    then show ?thesis using ok(1) by (auto simp: HasClients_def counted_def card_gt_0_iff)
  qed
  ultimately show ?thesis using ok by (simp add: counted_def registered_def)
qed

lemma demo_connects_two:
  assumes "h0 = newHubState ds pm db1"
  shows "\<exists>h1. connect (hubCfg False) (Some (''10.0.0.1'', ''10.0.0.1:4'')) (Some ''abcd'') h0 = (True, h1) \<and>
    hStore h1 = [0 \<mapsto> (''10.0.0.1'', NewClient ''abcd'' ''10.0.0.1:4'' db1 0)] \<and> HasClients h1 \<and> hTick h1 = 0 \<and>
    hEndpoint h1 = [(EncodeToString ''abcd'', 0)] \<and> hubDb h1 = db1"
  by (simp add: assms connect_def newHubState_def hubCfg_sel fetchHostConnections_def addClient_def addConnection_def
      HasClients_def hubDb_def NewChainState_def NewClient_def)

theorem connections_counted_witness:
  "\<exists>h :: (int, memdb) Hub. unat (fetchHostConnections ''10.0.0.1'' h) = 1 \<and> HasClients h"
proof -
  obtain ds pm db1 where h: "NewHub demoPk (hubCfg False) True newdb = (Ok (newHubState ds pm db1), db1)" using demo_starts by blast
  obtain h1 :: "(int, memdb) Hub" where h1:
    "connect (hubCfg False) (Some (''10.0.0.1'', ''10.0.0.1:4'')) (Some ''abcd'') (newHubState ds pm db1) = (True, h1)"
    "hStore h1 = [0 \<mapsto> (''10.0.0.1'', NewClient ''abcd'' ''10.0.0.1:4'' db1 0)]" "HasClients h1"
    using demo_connects_two[OF refl] by blast
  have r: "hubReachable demoPk (hubCfg False) (newHubState ds pm db1) h1"
    using hubReachable.hubMore[OF hubReachable.hubStart hubStep.connection[OF h1(1)]] .
  have "clientsOf h1 ''10.0.0.1'' = {0}" by (auto simp: clientsOf_def h1(2))
  moreover have "fair (pkEnv demoPk)" by (simp add: demoPk_def plainEnv_fair)
  ultimately show ?thesis using connections_counted[OF _ h r] h1(3) by (intro exI[of _ h1]) simp
qed

text \<open>
  C20: new work reaches every client. When the node announces work for a new parent or new votes to
  a hub that can be reached and has clients, on a database that does not fail, the work's height
  and the work itself become the current ones, the work is stored as a job, and every client the
  endpoint lists whose connection has not ended is sent exactly the notification of that job; no
  other client is sent anything.
\<close>

theorem new_work_broadcast:
  assumes "database_common (hcDb cfg) \<alpha> I True" "I (hubDb h)" "fair (pkEnv pk)"
    and "NewHub pk cfg listens db = (Ok h0, db0)" "hubReachable pk cfg h0 h" "HasClients h"
    and "length hdr = 180" "le32_val (take 4 (drop 128 hdr)) = Ok height"
    and "job = NewJob (EncodeToString hdr) height (eNow (pkEnv pk) (hTick h))" "tJobs (\<alpha> (hubDb h)) (jbUUID job) = None"
    and "reason = NewParent \<or> reason = NewVotes"
  shows "\<exists>h'. OnWork pk cfg hdr reason h = (Ok (), h') \<and>
    \<alpha> (hubDb h') = (\<alpha> (hubDb h))\<lparr>tJobs := (tJobs (\<alpha> (hubDb h)))(jbUUID job \<mapsto> job)\<rparr> \<and>
    FetchLastWorkHeight h' = height \<and> fetchCurrentWork (hChain h') = EncodeToString hdr \<and>
    (\<forall>p host c. hStore h p = Some (host, c) \<longrightarrow> (\<exists>c'. hStore h' p = Some (host, c') \<and>
       cOut c' = cOut c @ (if p \<in> snd ` set (hEndpoint h) \<and> \<not> cCancelled c then [MReq (jobNotification job True)] else [])))"
proof -
  have "\<exists>ds pm db. h0 = newHubState ds pm db"
    using assms(4) by (auto simp: NewHub_def split: outcome.splits prod.splits)
  then have "registered h" using hubReachable_ok[OF assms(5,3)] newHub_ok[of pk cfg] by (auto simp: hubOk_def)
  from database_common.new_work[OF assms(1) TrueI refl assms(2,3) this assms(6-)]
  obtain h' where h': "OnWork pk cfg hdr reason h = (Ok (), h')"
    "\<alpha> (hubDb h') = (\<alpha> (hubDb h))\<lparr>tJobs := (tJobs (\<alpha> (hubDb h)))(jbUUID job \<mapsto> job)\<rparr>"
    "lastWorkHeight (hChain h') = height" "currentWork (hChain h') = EncodeToString hdr"
    "hStore h' = (\<lambda>p. if p \<in> snd ` set (hEndpoint h)
      then map_option (map_prod (\<lambda>x. x) (withMessage (MReq (jobNotification job True)) (hubDb h'))) (hStore h p) else hStore h p)"
    by blast
  have "\<exists>c'. hStore h' p = Some (host, c') \<and>
       cOut c' = cOut c @ (if p \<in> snd ` set (hEndpoint h) \<and> \<not> cCancelled c then [MReq (jobNotification job True)] else [])"
    if "hStore h p = Some (host, c)" for p host c
    using that by (simp add: h'(5) withMessage_def)
  then show ?thesis using h'(1-4) by (auto simp: FetchLastWorkHeight_def fetchLastWorkHeight_def fetchCurrentWork_def)
qed

theorem new_work_broadcast_witness:
  "\<exists>h h' host c. OnWork demoPk (hubCfg False) demoHdr NewParent h = (Ok (), h') \<and> FetchLastWorkHeight h' = 9 \<and>
     hStore h' 0 = Some (host, c) \<and> length (cOut c) = 1"
proof -
  obtain ds pm db1 where h: "NewHub demoPk (hubCfg False) True newdb = (Ok (newHubState ds pm db1), db1)" "boltInv mem_bolt db1"
    "tJobs (absdb mem_bolt db1) = Map.empty" using demo_starts by blast
  obtain h1 :: "(int, memdb) Hub" where h1:
    "connect (hubCfg False) (Some (''10.0.0.1'', ''10.0.0.1:4'')) (Some ''abcd'') (newHubState ds pm db1) = (True, h1)"
    "hStore h1 = [0 \<mapsto> (''10.0.0.1'', NewClient ''abcd'' ''10.0.0.1:4'' db1 0)]" "HasClients h1" "hubDb h1 = db1"
    "hEndpoint h1 = [(EncodeToString ''abcd'', 0)]"
    using demo_connects_two[OF refl] by blast
  have r: "hubReachable demoPk (hubCfg False) (newHubState ds pm db1) h1"
    using hubReachable.hubMore[OF hubReachable.hubStart hubStep.connection[OF h1(1)]] .
  have p: "boltInv mem_bolt (hubDb h1)" "fair (pkEnv demoPk)" "length demoHdr = 180" "NewParent = NewParent \<or> NewParent = NewVotes"
    "tJobs (absdb mem_bolt (hubDb h1)) k = None" for k
    using h(2,3) by (simp_all add: h1(4) demoPk_def plainEnv_fair demoHdr_def del: absdb_sel)
  from new_work_broadcast[OF hubCfg_db, OF p(1,2) h(1) r h1(3) p(3) demoHdr_height(2) refl p(5,4)]
  show ?thesis
  proof (elim exE conjE, goal_cases)
    case (1 h')
    have "hStore h1 0 = Some (''10.0.0.1'', NewClient ''abcd'' ''10.0.0.1:4'' db1 0)" by (simp add: h1(2))
    from 1(5)[rule_format, OF this] obtain c where "hStore h' 0 = Some (''10.0.0.1'', c)" "length (cOut c) = 1"
      by (auto simp: h1(5) NewClient_def)
    then show ?case using 1(1,3) by blast
  qed
qed

end
