(* ===== verification/Startup.thy ===== *)
theory Startup
  imports ConfigProps HubTheorems
begin

text \<open>
  The start of the pool (\<open>realMain\<close>, \<open>newHub\<close> and \<open>newGUI\<close> of \<open>dcrpool.go\<close>, \<open>Connect\<close> of
  \<open>hub.go\<close>): the configuration is loaded, the database opened, the hub created and connected to
  node and wallet, work fetched, and the web interface created on the hub. What the packages and
  the machine answer to each of these steps is an argument. The theorem of this theory says what
  a pool that has started is like.
\<close>

section \<open>Connections of the hub\<close>

text \<open>The results of dialling the node and of subscribing to its notifications.\<close>

record nodeDial =
  ndNew :: "NodeConnection option"
  ndNotifyWork :: bool
  ndNotifyBlocks :: bool

text \<open>The steps to the wallet, its client, and the stream of confirmations.\<close>

record walletDial =
  wdReadCert :: bool
  wdAppendCerts :: bool
  wdKeyPair :: bool
  wdNewClient :: bool
  wdClient :: txBroadcaster
  wdBalance :: bool
  wdNotifications :: bool

definition Connect :: "'db HubConfig \<Rightarrow> nodeDial \<Rightarrow> walletDial \<Rightarrow> ('l, 'db, unit) hop" where
  "Connect cfg nd wd = (\<lambda>h. case ndNew nd of
     None \<Rightarrow> (Err Foreign, h)
   | Some nodeConn \<Rightarrow>
       if \<not> ndNotifyWork nd then (Err Foreign, h)
       else if \<not> ndNotifyBlocks nd then (Err Foreign, h)
       else let h = h\<lparr>hNode := Some nodeConn\<rparr> in
         if hcSoloPool cfg then (Ok (), h)
         else if \<not> wdReadCert wd then (Err Foreign, h)
         else if \<not> wdAppendCerts wd then (Err Foreign, h)
         else if \<not> wdKeyPair wd then (Err Foreign, h)
         else if \<not> wdNewClient wd then (Err Foreign, h)
         else if \<not> wdBalance wd then (Err Foreign, h)
         else let h = h\<lparr>hWallet := Some (wdClient wd)\<rparr> in
           if \<not> wdNotifications wd then (Err Foreign, h) else (Ok (), h))"

section \<open>The program\<close>

text \<open>The steps that can end a start, with the error of each.\<close>

datatype stage = AtConfig startError | AtDatabase goerror | AtHub goerror | AtConnect goerror | AtWork goerror | AtGUI goerror

record ('l, 'db) machine =
  maOs :: osLib
  maFlags :: "config flagsLib"
  maChains :: chaincfg
  maHome :: string
  maPostgres :: "string \<Rightarrow> 32 word \<Rightarrow> string \<Rightarrow> string \<Rightarrow> string \<Rightarrow> bool \<Rightarrow> ('db Database \<times> 'db) go"
  maBolt :: "string \<Rightarrow> ('db Database \<times> 'db) go"
  maPackages :: "'l Packages"
  maListens :: "string \<Rightarrow> bool"
  maNode :: nodeDial
  maWallet :: walletDial
  maRandom :: "bytes go"
  maGuiOs :: guiOs
  maGuiEnv :: guiEnv
  maClock :: "nat \<Rightarrow> int"
  maRenders :: "string \<Rightarrow> bool"
  maBackup :: "('l, 'db) Hub \<Rightarrow> bytes go"

definition initDB :: "('l, 'db) machine \<Rightarrow> config \<Rightarrow> ('db Database \<times> 'db) go" where
  "initDB M cfg = (if UsePostgres cfg
     then maPostgres M (PGHost cfg) (PGPort cfg) (PGUser cfg) (PGPass cfg) (PGDBName cfg) (PurgeDB cfg)
     else maBolt M (DBFile cfg))"

definition newHub :: "('l, 'db) machine \<Rightarrow> config \<Rightarrow> poolParams \<Rightarrow> 'db Database \<Rightarrow> 'db \<Rightarrow> ('l, 'db) Hub go \<times> 'db" where
  "newHub M cfg net D db = NewHub (maPackages M) (newHubConfig cfg net D) (maListens M (MinerListen cfg)) db"

definition newGUI :: "('l, 'db) machine \<Rightarrow> config \<Rightarrow> poolParams \<Rightarrow> 'db Database \<Rightarrow> ('l, 'db, ('l, 'db) Hub GUI) hop" where
  "newGUI M cfg net D =
     (let hcfg = newHubConfig cfg net D in
      bndc (CSRFSecret hcfg (maRandom M)) (\<lambda>csrfSecret.
      NewGUI (maGuiOs M) (maGuiEnv M)
        (newGUIConfig (maPackages M) hcfg (maClock M) (maRenders M) (maBackup M) cfg net)))"

text \<open>A step of the start, with its error marked.\<close>

definition at_stage :: "(goerror \<Rightarrow> stage) \<Rightarrow> 'a go \<Rightarrow> ('a \<Rightarrow> (stage, 'b) outcome) \<Rightarrow> (stage, 'b) outcome" where
  "at_stage st r f = (case r of Ok x \<Rightarrow> f x | Err err \<Rightarrow> Err (st err) | Panic \<Rightarrow> Panic)"

text \<open>Until hub and interface run: the configuration and the interface, which has the hub.\<close>

definition realMain :: "('l, 'db) machine \<Rightarrow> host \<Rightarrow> (stage, config \<times> ('l, 'db) Hub GUI) outcome" where
  "realMain M host = (case fst (loadConfig (maOs M) (maFlags M) (maChains M) (maHome M) host) of
     Err err \<Rightarrow> Err (AtConfig err)
   | Panic \<Rightarrow> Panic
   | Ok cfg \<Rightarrow> (case cfNet cfg of
       None \<Rightarrow> Panic
     | Some net \<Rightarrow>
         at_stage AtDatabase (initDB M cfg) (\<lambda>(D, db).
         at_stage AtHub (fst (newHub M cfg net D db)) (\<lambda>hub.
         case Connect (newHubConfig cfg net D) (maNode M) (maWallet M) hub of (dialled, hub) \<Rightarrow>
         at_stage AtConnect dialled (\<lambda>_.
         case FetchWork hub of (fetched, hub) \<Rightarrow>
         at_stage AtWork fetched (\<lambda>_.
         at_stage AtGUI (fst (newGUI M cfg net D hub)) (\<lambda>ui. Ok (cfg, ui))))))))"

section \<open>A pool that has started\<close>

lemma at_stage_Ok [simp]: "at_stage st r f = Ok y \<longleftrightarrow> (\<exists>x. r = Ok x \<and> f x = Ok y)"
  by (cases r) (simp_all add: at_stage_def)

lemma fst_Ok: "fst r = Ok x \<Longrightarrow> (\<And>s. r = (Ok x, s) \<Longrightarrow> P) \<Longrightarrow> P"
  by (cases r) auto

lemma case_prod_Ok: "(case r of (a, b) \<Rightarrow> f a b) = Ok y \<longleftrightarrow> (\<exists>a b. r = (a, b) \<and> f a b = Ok y)"
  by (cases r) simp

lemma Connect_Ok:
  assumes "Connect cfg nd wd h = (Ok u, h')"
  shows "\<exists>node w. h' = h\<lparr>hNode := Some node, hWallet := w\<rparr> \<and> (if hcSoloPool cfg then w = hWallet h else w = Some (wdClient wd))"
  using assms by (auto simp: Connect_def Let_def split: option.splits if_splits intro: exI[of _ "hWallet h"])

lemma FetchWork_Ok:
  assumes "FetchWork h = (Ok u, h')" "hNode h = Some node"
  shows "\<exists>work tgt. NodeConnection.GetWork node = Ok (work, tgt) \<and> h' = setHubWork work h"
  using assms by (cases "NodeConnection.GetWork node") (auto simp: FetchWork_def getWork_def bndc_def liftc_def)


lemma FetchHashData_keeps: "\<exists>t. snd (FetchHashData pk cfg h) = h\<lparr>hTick := t\<rparr>"
  by (auto simp: FetchHashData_def bndc_def hub_now_def liftc_def Let_def split: outcome.splits)

lemma FetchWorkQuotas_keeps: "\<exists>t. snd (FetchWorkQuotas pk cfg h) = h\<lparr>hTick := t\<rparr>"
  by (auto simp: FetchWorkQuotas_def Let_def intro: exI[of _ "hTick h"])

lemma NewGUI_Ok:
  assumes "NewGUI os g gcfg h = (Ok ui, h')" "gcfg = newGUIConfig pk hcfg clock renders backup cfg net"
  shows "\<exists>t work pend arch info. uiPool ui = h\<lparr>hTick := t\<rparr> \<and> FetchMinedWork hcfg h = Ok work \<and> FetchPendingPayments hcfg h = Ok pend \<and>
    FetchArchivedPayments hcfg h = Ok arch \<and> FetchLastPaymentInfo hcfg h = Ok info \<and>
    chMinedWork (uiCache ui) = map (showWork (ppExplorerURL net)) work \<and> getLastPaymentInfo (uiCache ui) = info \<and>
    (\<forall>first lastIx a. getPendingPayments first lastIx a (uiCache ui) =
      getPendingPayments first lastIx a (updatePayments g pend arch (emptyCache (ppExplorerURL net))))"
proof -
  obtain h1 where r: "initCache g gcfg h = (Ok (uiCache ui), h1)" "uiPool ui = h1"
    using assms(1) by (auto simp: NewGUI_def bndc_eq_Ok liftc_def)
  obtain work quotas hd h2 h3 pend arch info where s: "FetchMinedWork hcfg h = Ok work" "FetchWorkQuotas pk hcfg h = (Ok quotas, h2)"
    "FetchHashData pk hcfg h2 = (Ok hd, h3)" "FetchPendingPayments hcfg h3 = Ok pend" "FetchArchivedPayments hcfg h3 = Ok arch"
    "FetchLastPaymentInfo hcfg h3 = Ok info" "h1 = h3"
    and c: "uiCache ui = updateLastPaymentInfo (fst info) (fst (snd info)) (snd (snd info))
       (updatePayments g pend arch (updateHashData_gui g hd
       (updateRewardQuotas g quotas (updateMinedWork work (emptyCache (ppExplorerURL net))))))"
    using r(1) unfolding assms(2) initCache_def newGUIConfig_def by (auto simp: bndc_eq_Ok split: prod.splits)
  obtain t where t: "h3 = h\<lparr>hTick := t\<rparr>"
    using FetchWorkQuotas_keeps[of pk hcfg h] FetchHashData_keeps[of pk hcfg h2] s(2,3) by auto
  have keep: "FetchPendingPayments hcfg (h\<lparr>hTick := t\<rparr>) = FetchPendingPayments hcfg h"
    "FetchArchivedPayments hcfg (h\<lparr>hTick := t\<rparr>) = FetchArchivedPayments hcfg h"
    "FetchLastPaymentInfo hcfg (h\<lparr>hTick := t\<rparr>) = FetchLastPaymentInfo hcfg h"
    by (simp_all add: FetchPendingPayments_def FetchArchivedPayments_def FetchLastPaymentInfo_def hubDb_def)
  show ?thesis
    using s(1,4-7) r(2) unfolding t keep
    by (intro exI[of _ t] exI[of _ work] exI[of _ pend] exI[of _ arch] exI[of _ info])
      (auto simp: c getLastPaymentInfo_def updateLastPaymentInfo_def getPendingPayments_def updatePayments_def updateHashData_gui_def
        updateRewardQuotas_def updateMinedWork_def emptyCache_def Let_def split: prod.splits)
qed

lemma guiListener_Ok: "goLoadKeyPair os \<Longrightarrow> \<forall>tls addr. goListen os tls addr \<Longrightarrow> guiListener os gcfg = Ok ()"
  by (simp add: guiListener_def)

context database_common
begin

lemma csrf_secret_stored:
  assumes "hcDb cfg = D" "I (hubDb h)" "CSRFSecret cfg random h = (Ok secret, h')"
  shows "I (hubDb h') \<and> h' = setDb (hubDb h') h \<and> \<alpha> (hubDb h') = (\<alpha> (hubDb h))\<lparr>tCSRF := Some secret\<rparr>"
proof (cases "tCSRF (\<alpha> (hubDb h))")
  case None
  then have "errors_is (DBError ValueNotFound) ValueNotFound" "db_fetchCSRFSecret D (hubDb h) = Err (DBError ValueNotFound)"
    using fetchCSRFSecret[OF assms(2)] by (simp_all add: found_def)
  then obtain db where db: "db_persistCSRFSecret D secret (hubDb h) = (Ok (), db)" "h' = setDb db h"
    using assms(1,3) unfolding CSRFSecret_def by (auto simp: bndc_eq_Ok liftc_def hub_write_def split: prod.splits)
  then show ?thesis using persistCSRFSecret[of secret] assms(2) unfolding writes_def by fastforce
next
  case (Some s)
  then have "h' = h" "secret = s" using assms fetchCSRFSecret[OF assms(2)] by (simp_all add: CSRFSecret_def found_def)
  then show ?thesis using assms(2) Some by simp
qed

lemma hub_created:
  assumes "live" "hcDb cfg = D" "I db" "0 \<le> PowLimit (hcNet cfg)" "NewHub pk cfg listens db = (Ok h, db')"
  shows "I (hubDb h) \<and> tMode (\<alpha> (hubDb h)) = Some (poolMode cfg) \<and> hWallet h = None \<and> hClients h = 0 \<and>
    tLastPaid (\<alpha> (hubDb h)) \<noteq> None \<and> tLastCreated (\<alpha> (hubDb h)) \<noteq> None"
  using hub_starts[OF assms(1-4) refl, of listens pk] assms(5)
  by (auto simp: newHubState_def hubDb_def NewChainState_def split: if_splits)

lemma started:
  assumes "live" "newHub M cfg net D db = (Ok hub, db')" "Connect (newHubConfig cfg net D) nd wd hub = (Ok u, hub1)"
    "FetchWork hub1 = (Ok v, hub2)" "newGUI M cfg net D hub2 = (Ok ui, hub3)" "I db" "0 \<le> PowLimit (ppParams net)"
    and perm: "permOk (maGuiEnv M)"
  shows "\<exists>node tgt pend. I (hubDb (uiPool ui)) \<and> tMode (\<alpha> (hubDb (uiPool ui))) = Some (if cfSoloPool cfg then 1 else 0) \<and>
    tCSRF (\<alpha> (hubDb (uiPool ui))) \<noteq> None \<and> hNode (uiPool ui) = Some node \<and>
    NodeConnection.GetWork node = Ok (currentWork (hChain (uiPool ui)), tgt) \<and>
    (hWallet (uiPool ui) = None \<longleftrightarrow> cfSoloPool cfg) \<and> \<not> HasClients (uiPool ui) \<and>
    lists_rows (tPayments (\<alpha> (hubDb (uiPool ui)))) pm_pending pend \<and>
    getPendingPayments first lastIx a (uiCache ui) =
      pageOf first lastIx (map (showPending (maGuiEnv M) (ppExplorerURL net)) (newestFirst (maGuiEnv M) a pend))"
proof -
  let ?hcfg = "newHubConfig cfg net D"
  have sel: "hcDb ?hcfg = D" "hcNet ?hcfg = ppParams net" "hcSoloPool ?hcfg = cfSoloPool cfg" by (simp_all add: newHubConfig_def)
  have hub: "I (hubDb hub)" "tMode (\<alpha> (hubDb hub)) = Some (poolMode ?hcfg)" "hWallet hub = None" "hClients hub = 0"
    using hub_created[OF assms(1) sel(1) assms(6), of "maPackages M" "maListens M (MinerListen cfg)"] assms(2,7) by (simp_all add: newHub_def sel)
  obtain node w where c: "hub1 = hub\<lparr>hNode := Some node, hWallet := w\<rparr>" "w = None \<longleftrightarrow> cfSoloPool cfg"
    using Connect_Ok[OF assms(3)] hub(3) by (auto simp: sel split: if_splits)
  obtain work tgt where f: "NodeConnection.GetWork node = Ok (work, tgt)" "hub2 = setHubWork work hub1"
    using FetchWork_Ok[OF assms(4)] c(1) by auto
  have db2: "hubDb hub2 = hubDb hub" by (simp add: f(2) c(1) setHubWork_def setCurrentWork_def hubDb_def)
  obtain secret hub4 where s: "CSRFSecret ?hcfg (maRandom M) hub2 = (Ok secret, hub4)"
    and g: "NewGUI (maGuiOs M) (maGuiEnv M) (newGUIConfig (maPackages M) ?hcfg (maClock M) (maRenders M) (maBackup M) cfg net) hub4 = (Ok ui, hub3)"
    using assms(5) by (auto simp: newGUI_def Let_def bndc_eq_Ok)
  have h4: "I (hubDb hub4)" "hub4 = setDb (hubDb hub4) hub2" "\<alpha> (hubDb hub4) = (\<alpha> (hubDb hub))\<lparr>tCSRF := Some secret\<rparr>"
    using csrf_secret_stored[OF sel(1) _ s] hub(1) by (simp_all add: db2)
  obtain t pend arch where ui: "uiPool ui = hub4\<lparr>hTick := t\<rparr>" "FetchPendingPayments ?hcfg hub4 = Ok pend"
    "getPendingPayments first lastIx a (uiCache ui) =
      getPendingPayments first lastIx a (updatePayments (maGuiEnv M) pend arch (emptyCache (ppExplorerURL net)))"
    using NewGUI_Ok[OF g refl] by blast
  have "hNode hub4 = Some node" "hWallet hub4 = w" "hClients hub4 = 0" "currentWork (hChain hub4) = work"
    by (subst h4(2), simp add: setDb_def f(2) c(1) setHubWork_def setCurrentWork_def hub(4))+
  moreover have "hubDb (uiPool ui) = hubDb hub4" by (simp add: ui(1) hubDb_def)
  moreover have "lists_rows (tPayments (\<alpha> (hubDb hub4))) pm_pending pend"
    using fetchPendingPayments[OF h4(1)] ui(2) by (auto simp: FetchPendingPayments_def sel)
  ultimately show ?thesis using h4(1,3) hub(2) f(1) c(2) ui
    by (intro exI[of _ node] exI[of _ tgt] exI[of _ pend])
      (simp add: poolMode_def sel HasClients_def updatePayments_getters[OF perm] emptyCache_def)
qed

lemma newGUI_solo:
  assumes "live" "I (hubDb h)" "tLastPaid (\<alpha> (hubDb h)) \<noteq> None" "tLastCreated (\<alpha> (hubDb h)) \<noteq> None" "cfSoloPool cfg"
    "maRandom M = Ok secret" "goLoadKeyPair (maGuiOs M)" "\<forall>tls addr. goListen (maGuiOs M) tls addr" "goWalk (maGuiOs M) = Some files"
    "\<forall>paths. goParseFiles (maGuiOs M) paths"
  shows "\<exists>ui h'. newGUI M cfg net D h = (Ok ui, h')"
proof -
  let ?hcfg = "newHubConfig cfg net D"
  have sel: "hcDb ?hcfg = D" "hcSoloPool ?hcfg" using assms(5) by (simp_all add: newHubConfig_def)
  obtain s h1 where c: "CSRFSecret ?hcfg (maRandom M) h = (Ok s, h1)"
  proof (cases "tCSRF (\<alpha> (hubDb h))")
    case None
    with fetchCSRFSecret[OF assms(2)] writes_live[OF persistCSRFSecret assms(1,2) refl, of secret] assms(6) that show ?thesis
      by (auto simp: CSRFSecret_def sel found_def bndc_def liftc_def hub_write_def)
  next
    case (Some x)
    with fetchCSRFSecret[OF assms(2)] that show ?thesis by (auto simp: CSRFSecret_def sel found_def)
  qed
  have h1: "I (hubDb h1)" "\<alpha> (hubDb h1) = (\<alpha> (hubDb h))\<lparr>tCSRF := Some s\<rparr>" using csrf_secret_stored[OF sel(1) assms(2) c] by auto
  obtain m where "db_listHashData D (eNow (pkEnv (maPackages M)) (hTick h1) - fiveMinutes) (hubDb h1) = Ok m"
    using listHashData[OF h1(1)] by blast
  then obtain hd h2 where hd: "FetchHashData (maPackages M) ?hcfg h1 = (Ok hd, h2)"
    by (auto simp: FetchHashData_def bndc_def hub_now_def liftc_def sel hubDb_def Let_def)
  then have h2: "hubDb h2 = hubDb h1" using FetchHashData_keeps[of "maPackages M" ?hcfg h1] by (auto simp: hubDb_def)
  have "loadTemplates (maGuiOs M) = Ok ()" using assms(9,10) by (simp add: loadTemplates_def)
  then show ?thesis
    using c hd h2 listMinedWork[OF h1(1)] fetchPendingPayments[OF h1(1)] archivedPayments[OF h1(1)] loadLastPaymentInfo[OF h1(1)]
      loadLastPaymentCreatedOn[OF h1(1)] h1(2) assms(3,4)
    by (auto simp: newGUI_def Let_def NewGUI_def guiListener_Ok[OF assms(7,8)] initCache_def newGUIConfig_def FetchMinedWork_def FetchWorkQuotas_def
        FetchPendingPayments_def FetchArchivedPayments_def FetchLastPaymentInfo_def bndc_def liftc_def sel found_def split: outcome.splits)
qed

end

section \<open>Property\<close>

text \<open>
  C4: what a pool that has started is like. Its configuration was accepted, where the fee of a
  public pool lies within its limits or is no number at all; its database, on a medium that does
  not fail, keeps its invariant and has the mode of the configuration and a secret for the sessions, the hub is connected to the node, and to a wallet exactly if the
  pool pays others, it hands out the work the node gave, has no clients yet, and the web
  interface shows the payments of the database.
\<close>

theorem pool_starts:
  assumes "realMain M host = Ok (cfg, ui)" "setsOptions (maFlags M)" "permOk (maGuiEnv M)"
    and "initDB M cfg = Ok (D, db)" "database_common D \<alpha> I True" "I db"
    and "\<forall>net. activeNet (maChains M) cfg = Some net \<longrightarrow> 0 \<le> PowLimit (ppParams net)"
  shows "\<exists>net node tgt pend. validOptions (maChains M) net cfg \<and> (\<not> cfSoloPool cfg \<longrightarrow> publicOptions (maOs M) net cfg) \<and>
    I (hubDb (uiPool ui)) \<and> tMode (\<alpha> (hubDb (uiPool ui))) = Some (if cfSoloPool cfg then 1 else 0) \<and>
    tCSRF (\<alpha> (hubDb (uiPool ui))) \<noteq> None \<and> hNode (uiPool ui) = Some node \<and>
    NodeConnection.GetWork node = Ok (currentWork (hChain (uiPool ui)), tgt) \<and>
    (hWallet (uiPool ui) = None \<longleftrightarrow> cfSoloPool cfg) \<and> \<not> HasClients (uiPool ui) \<and>
    lists_rows (tPayments (\<alpha> (hubDb (uiPool ui)))) pm_pending pend \<and>
    getPendingPayments first lastIx a (uiCache ui) =
      pageOf first lastIx (map (showPending (maGuiEnv M) (ppExplorerURL net)) (newestFirst (maGuiEnv M) a pend))"
proof -
  obtain net h' hub db' u hub1 v hub2 hub3 where
    l: "loadConfig (maOs M) (maFlags M) (maChains M) (maHome M) host = (Ok cfg, h')" "cfNet cfg = Some net"
    and run: "newHub M cfg net D db = (Ok hub, db')" "Connect (newHubConfig cfg net D) (maNode M) (maWallet M) hub = (Ok u, hub1)"
      "FetchWork hub1 = (Ok v, hub2)" "newGUI M cfg net D hub2 = (Ok ui, hub3)"
    using assms(1,4) unfolding realMain_def
    by (auto simp: case_prod_Ok split: outcome.splits option.splits elim!: fst_Ok)
  have v: "validOptions (maChains M) net cfg" "\<not> cfSoloPool cfg \<longrightarrow> publicOptions (maOs M) net cfg"
    using loaded_options[OF l(1) assms(2)] l(2) by (auto simp: validOptions_def)
  then have "0 \<le> PowLimit (ppParams net)" using assms(7) by (simp add: validOptions_def)
  from database_common.started[OF assms(5) TrueI run assms(6) this assms(3), of first lastIx a] v show ?thesis
    by (elim exE conjE) (intro exI conjI; assumption)
qed

text \<open>A solo pool on a new database.\<close>

definition soloFlags :: "config flagsLib" where
  "soloFlags = \<lparr>cmdline = (\<lambda>c. Parsed (c\<lparr>AdminPass := ''a'', RPCUser := ''u'', RPCPass := ''p'', DcrdRPCCert := ''d'', cfSoloPool := True\<rparr>)),
     iniFile = (\<lambda>_ c. IniRead c)\<rparr>"

definition demoNode :: NodeConnection where
  "demoNode = \<lparr>GetWorkSubmit = (\<lambda>_. Ok True), GetWork = Ok (''w'', ''t''), GetBlockVerbose = (\<lambda>_. VerboseFailed),
     nodeGetBlock = (\<lambda>_. Err Foreign), nodeTx = demoCreator\<rparr>"

definition demoMachine :: "(int, memdb) machine" where
  "demoMachine = \<lparr>maOs = demoOs, maFlags = soloFlags, maChains = demoChains, maHome = ''/h'',
     maPostgres = (\<lambda>_ _ _ _ _ _. Ok (BoltDatabase mem_bolt, newdb)), maBolt = (\<lambda>_. Ok (BoltDatabase mem_bolt, newdb)),
     maPackages = demoPk, maListens = (\<lambda>_. True), maNode = \<lparr>ndNew = Some demoNode, ndNotifyWork = True, ndNotifyBlocks = True\<rparr>,
     maWallet = \<lparr>wdReadCert = False, wdAppendCerts = False, wdKeyPair = False, wdNewClient = False, wdClient = demoBroadcaster (Ok []),
       wdBalance = False, wdNotifications = False\<rparr>,
     maRandom = Ok (replicate 32 CHR ''r''), maGuiOs = \<lparr>goWalk = Some [], goParseFiles = (\<lambda>_. True), goLoadKeyPair = True, goListen = (\<lambda>_ _. True)\<rparr>,
     maGuiEnv = demoGuiEnv, maClock = int, maRenders = (\<lambda>_. True), maBackup = (\<lambda>_. Ok [])\<rparr>"

lemma demoMachine_sel:
  "maOs demoMachine = demoOs" "maFlags demoMachine = soloFlags" "maChains demoMachine = demoChains" "maHome demoMachine = ''/h''"
  "initDB demoMachine cfg = Ok (BoltDatabase mem_bolt, newdb)" "maGuiEnv demoMachine = demoGuiEnv" "setsOptions soloFlags"
  "activeNet demoChains cfg = Some net \<Longrightarrow> 0 \<le> PowLimit (ppParams net)"
  by (auto simp: demoMachine_def initDB_def setsOptions_def soloFlags_def activeNet_def demoChains_def demoNet_def Let_def
      mainNetParams_def testNet3Params_def simNetParams_def split: if_splits)

lemma demo_db: "database_common (BoltDatabase mem_bolt) (absdb mem_bolt) (boltInv mem_bolt) True"
  using hubCfg_db by (simp add: hubCfg_sel)

lemma demo_config:
  "\<exists>cfg h'. loadConfig demoOs soloFlags demoChains ''/h'' demoHost = (Ok cfg, h') \<and> cfSoloPool cfg"
proof -
  have "(case fst (loadConfig demoOs soloFlags demoChains ''/h'' demoHost) of Ok cfg \<Rightarrow> cfSoloPool cfg | _ \<Rightarrow> False)" by code_simp
  then show ?thesis by (cases "loadConfig demoOs soloFlags demoChains ''/h'' demoHost") (auto split: outcome.splits)
qed

lemma demo_runs: "\<exists>cfg ui. realMain demoMachine demoHost = Ok (cfg, ui) \<and> cfSoloPool cfg"
proof -
  obtain cfg h' where l: "loadConfig demoOs soloFlags demoChains ''/h'' demoHost = (Ok cfg, h')" "cfSoloPool cfg"
    using demo_config by blast
  obtain net where net: "activeNet demoChains cfg = Some net" "cfNet cfg = Some net"
    using loaded_options(3)[OF l(1) demoMachine_sel(7)] by (auto simp: validOptions_def)
  let ?hcfg = "newHubConfig cfg net (BoltDatabase mem_bolt)"
  have sel: "hcDb ?hcfg = BoltDatabase mem_bolt" "hcSoloPool ?hcfg" "0 \<le> PowLimit (hcNet ?hcfg)"
    using l(2) demoMachine_sel(8)[OF net(1)] by (simp_all add: newHubConfig_def)
  obtain hub db' where hub: "newHub demoMachine cfg net (BoltDatabase mem_bolt) newdb = (Ok hub, db')"
    using database_common.hub_starts[OF demo_db TrueI sel(1) newdb_inv(1) sel(3) refl, of True demoPk]
    by (auto simp: newdb_inv(2) emptyPoolDB_def newHub_def demoMachine_def simp del: absdb_sel)
  have h: "boltInv mem_bolt (hubDb hub)" "tLastPaid (absdb mem_bolt (hubDb hub)) \<noteq> None" "tLastCreated (absdb mem_bolt (hubDb hub)) \<noteq> None"
    using database_common.hub_created[OF demo_db TrueI sel(1) newdb_inv(1) sel(3)] hub unfolding newHub_def by blast+
  let ?hub = "setHubWork ''w'' (hub\<lparr>hNode := Some demoNode\<rparr>)"
  have db: "hubDb ?hub = hubDb hub" by (simp add: setHubWork_def setCurrentWork_def hubDb_def)
  have c: "Connect ?hcfg (maNode demoMachine) (maWallet demoMachine) hub = (Ok (), hub\<lparr>hNode := Some demoNode\<rparr>)"
    using sel(2) by (simp add: Connect_def demoMachine_def)
  have f: "FetchWork (hub\<lparr>hNode := Some demoNode\<rparr>) = (Ok (), ?hub)"
    by (simp add: FetchWork_def getWork_def demoNode_def bndc_def liftc_def)
  have "\<exists>ui hub3. newGUI demoMachine cfg net (BoltDatabase mem_bolt) ?hub = (Ok ui, hub3)"
    by (rule database_common.newGUI_solo[OF demo_db TrueI]) (use h l(2) in \<open>simp_all only: db\<close>, simp_all add: demoMachine_def)
  then show ?thesis using l net hub c f by (auto simp: realMain_def demoMachine_sel at_stage_def)
qed

theorem pool_starts_witness:
  "\<exists>cfg ui. realMain demoMachine demoHost = Ok (cfg, ui) \<and> hWallet (uiPool ui) = None \<and> hNode (uiPool ui) \<noteq> None \<and>
     tMode (absdb mem_bolt (hubDb (uiPool ui))) = Some 1 \<and> \<not> HasClients (uiPool ui)"
proof -
  obtain cfg ui where run: "realMain demoMachine demoHost = Ok (cfg, ui)" "cfSoloPool cfg" using demo_runs by blast
  have "setsOptions (maFlags demoMachine)" "permOk (maGuiEnv demoMachine)"
    "\<forall>net. activeNet (maChains demoMachine) cfg = Some net \<longrightarrow> 0 \<le> PowLimit (ppParams net)"
    using demoMachine_sel(7,8) demo_permOk by (simp_all add: demoMachine_sel(1-6))
  from pool_starts[where \<alpha> = "absdb mem_bolt" and I = "boltInv mem_bolt" and D = "BoltDatabase mem_bolt" and db = newdb
      and first = 0 and lastIx = 9 and a = "[]", OF run(1) this(1,2) demoMachine_sel(5) demo_db newdb_inv(1) this(3)]
  have "hWallet (uiPool ui) = None" "hNode (uiPool ui) \<noteq> None" "tMode (absdb mem_bolt (hubDb (uiPool ui))) = Some 1"
    "\<not> HasClients (uiPool ui)" using run(2) by (auto simp del: absdb_sel)
  then show ?thesis using run(1) by blast
qed

end
