(* ===== verification/Version.thy ===== *)
theory Version
  imports MinerID
begin

text \<open>
  The version strings of the pool (\<open>version.go\<close>, \<open>version_buildinfo.go\<close>) and of the miner
  (\<open>cmd/miner/version.go\<close>). The build information of the runtime is an argument, and so are
  the two strings of the miner that the linker may set.
\<close>

section \<open>The pool\<close>

text \<open>The settings of the build in their order; a later one wins.\<close>

definition vcsCommitID :: "(string \<times> string) list option \<Rightarrow> string" where
  "vcsCommitID info = (case info of
     None \<Rightarrow> []
   | Some settings \<Rightarrow>
       (let (vcs, revision) = fold (\<lambda>(key, val) (vcs, revision).
              if key = ''vcs'' then (val, revision) else if key = ''vcs.revision'' then (vcs, val) else (vcs, revision))
            settings ([], [])
        in if vcs = [] then [] else if vcs = ''git'' \<and> 9 < length revision then take 9 revision else revision))"

definition poolVersion :: string where
  "poolVersion = ''2.1.0-pre''"

text \<open>The version and its parts after \<open>init\<close>, which panics on a version it cannot parse.\<close>

definition initVersion :: "string \<Rightarrow> (string \<times> string) list option \<Rightarrow> (string \<times> ParsedSemVer) go" where
  "initVersion ver info = (case Parse_semver ver of
     Ok p \<Rightarrow>
       if BuildMetadata p = [] then
         (let buildMetadata = vcsCommitID info in
          if buildMetadata \<noteq> [] then
            Ok (show_nat (unat (Major p)) @ ''.'' @ show_nat (unat (Minor p)) @ ''.'' @ show_nat (unat (Patch p)) @
                (if PreRelease p \<noteq> [] then ''-'' @ PreRelease p else []) @ ''+'' @ buildMetadata,
              p\<lparr>BuildMetadata := buildMetadata\<rparr>)
          else Ok (ver, p))
       else Ok (ver, p)
   | _ \<Rightarrow> Panic)"

section \<open>The miner\<close>

definition minerSemanticAlphabet :: string where
  "minerSemanticAlphabet = ''0123456789ABCDEFGHIJKLMNOPQRSTUVWXYZabcdefghijklmnopqrstuvwxyz-''"

definition semanticBuildAlphabet :: string where
  "semanticBuildAlphabet = ''0123456789ABCDEFGHIJKLMNOPQRSTUVWXYZabcdefghijklmnopqrstuvwxyz-.''"

definition appMajor :: nat where "appMajor = 1"
definition appMinor :: nat where "appMinor = 0"
definition appPatch :: nat where "appPatch = 0"

definition minerVersion :: string where
  "minerVersion = show_nat appMajor @ ''.'' @ show_nat appMinor @ ''.'' @ show_nat appPatch"

definition normalizeSemString :: "string \<Rightarrow> string \<Rightarrow> string" where
  "normalizeSemString str alphabet = filter (\<lambda>r. r \<in> set alphabet) str"

definition normalizePreRelString :: "string \<Rightarrow> string" where
  "normalizePreRelString str = normalizeSemString str minerSemanticAlphabet"

definition normalizeBuildString :: "string \<Rightarrow> string" where
  "normalizeBuildString str = normalizeSemString str semanticBuildAlphabet"

definition versionOf :: "string \<Rightarrow> string \<Rightarrow> string" where
  "versionOf appPreRelease appBuild =
     (let preRelease = normalizePreRelString appPreRelease; build = normalizeBuildString appBuild;
          ver = (if preRelease \<noteq> [] then minerVersion @ ''-'' @ preRelease else minerVersion)
      in if build \<noteq> [] then ver @ ''+'' @ build else ver)"

text \<open>The user agent the miner subscribes with unless it is configured with another.\<close>

definition defaultUserAgent :: string where
  "defaultUserAgent = ''cpuminer'' @ ''/'' @ minerVersion"

section \<open>What the versions are\<close>

lemma splitOn_single: "c \<notin> set s \<Longrightarrow> splitOn c s = [s]"
  by (induction c s rule: splitOn.induct) auto

lemma initVersion_parses:
  assumes "Parse_semver ver = Ok p" "list_all isIdChar (vcsCommitID info)"
  shows "\<exists>v q. initVersion ver info = Ok (v, q) \<and> Parse_semver v = Ok q \<and>
    q = p\<lparr>BuildMetadata := (if BuildMetadata p = [] then vcsCommitID info else BuildMetadata p)\<rparr>"
proof (cases "BuildMetadata p = [] \<and> vcsCommitID info \<noteq> []")
  case True
  let ?q = "p\<lparr>BuildMetadata := vcsCommitID info\<rparr>"
  have "CHR ''.'' \<notin> set (vcsCommitID info)" using assms(2) alphabet(2) by (auto simp: list_all_iff)
  then have "splitOn CHR ''.'' (vcsCommitID info) = [vcsCommitID info]" by (rule splitOn_single)
  then have "wfSemVer ?q" using assms True parse_exact[of ver p] by (simp add: wfSemVer_def buildId_def)
  then have "Parse_semver (formatSemVer ?q) = Ok ?q" using parse_exact by blast
  then show ?thesis using True assms(1)
    by (cases "PreRelease p = []") (simp_all add: initVersion_def formatSemVer_def Let_def)
qed (use assms(1) in \<open>auto simp: initVersion_def Let_def\<close>)

text \<open>The version of the source, with the commit of the build, and the user agent of the miner.\<close>

lemma poolVersion_parses:
  "Parse_semver poolVersion = Ok \<lparr>Major = 2, Minor = 1, Patch = 0, PreRelease = ''pre'', BuildMetadata = []\<rparr>"
proof -
  have "list_all preId (splitOn CHR ''.'' ''pre'')" by (simp add: preId_def isDigit_def isLetterHyphen_def isIdChar_def Let_def)
  moreover have "show_nat 2 = ''2''" "show_nat 1 = ''1''" "show_nat 0 = ''0''" by (simp_all add: show_nat.simps char_of_def bit_0)
  ultimately show ?thesis by (simp add: parse_exact wfSemVer_def formatSemVer_def poolVersion_def)
qed

lemma defaultUserAgent_identified: "identifyMiningClients defaultUserAgent = Ok [CPU]"
  unfolding identify_table parseUserAgent_eq
  by (intro exI[of _ "\<lparr>uaVer = \<lparr>Major = 1, Minor = 0, Patch = 0, PreRelease = [], BuildMetadata = []\<rparr>, clientName = ''cpuminer''\<rparr>"]
      exI[of _ 1] exI[of _ 0] exI[of _ CPU])
    (simp add: defaultUserAgent_def minerVersion_def appMajor_def appMinor_def appPatch_def agentTable_def wfSemVer_def formatSemVer_def)

text \<open>A miner built with other strings still has a version that parses, if the first is one
  identifier and the second identifiers with dots between them.\<close>

lemma versionOf_parses:
  assumes "normalizePreRelString pre = [] \<or> preId (normalizePreRelString pre)"
    and "normalizeBuildString build = [] \<or> list_all buildId (splitOn CHR ''.'' (normalizeBuildString build))"
  shows "Parse_semver (versionOf pre build) =
    Ok \<lparr>Major = 1, Minor = 0, Patch = 0, PreRelease = normalizePreRelString pre, BuildMetadata = normalizeBuildString build\<rparr>"
proof -
  have "CHR ''.'' \<notin> set (normalizePreRelString pre)"
    by (simp add: normalizePreRelString_def normalizeSemString_def minerSemanticAlphabet_def)
  then have "splitOn CHR ''.'' (normalizePreRelString pre) = [normalizePreRelString pre]" by (rule splitOn_single)
  then show ?thesis
    using assms unfolding parse_exact by (auto simp: wfSemVer_def formatSemVer_def versionOf_def minerVersion_def appMajor_def
        appMinor_def appPatch_def Let_def)
qed

end
