(* ===== verification/MinerConfig.thy ===== *)
theory MinerConfig
  imports ConfigProps Version MinerProps
begin

text \<open>
  The start of the miner (\<open>config.go\<close>, \<open>log.go\<close> and \<open>main.go\<close> of \<open>cmd/miner\<close>): its options, their
  checks, and the miner that is created with them. Host, paths, log levels and the flags parser are
  those of the pool's configuration.
\<close>

section \<open>Options\<close>

record minerOptions =
  moHomeDir :: string
  moConfigFile :: string
  moActiveNet :: string
  moUser :: string
  moAddress :: string
  moPool :: string
  moDebugLevel :: string
  moLogDir :: string
  moMaxProcs :: int
  moProfile :: string
  moStall :: bool
  moUserAgent :: string
  moNet :: "Params option"

definition minerConfigFilename :: string where "minerConfigFilename = ''miner.conf''"
definition minerLogDirname :: string where "minerLogDirname = ''log''"
definition minerLogFilename :: string where "minerLogFilename = ''miner.log''"

definition minerLoggers :: "string list" where
  "minerLoggers = [''CL'']"

definition defaultOptions :: "chaincfg \<Rightarrow> string \<Rightarrow> minerOptions" where
  "defaultOptions ch home = \<lparr>moHomeDir = home, moConfigFile = Join home minerConfigFilename, moActiveNet = netName (fst (chSimNet ch)),
     moUser = [], moAddress = [], moPool = [], moDebugLevel = ''debug'', moLogDir = Join home minerLogDirname, moMaxProcs = 0,
     moProfile = [], moStall = False, moUserAgent = defaultUserAgent, moNet = None\<rparr>"

text \<open>The default configuration file, and the file that is used: both follow the home directory
  if no other file is given. Only a file that is not the default is read.\<close>

definition configFiles :: "osLib \<Rightarrow> minerOptions \<Rightarrow> minerOptions \<Rightarrow> string \<times> string" where
  "configFiles os pre cfg =
     (if moHomeDir pre \<noteq> [] \<and> moConfigFile pre = moConfigFile cfg
      then let file = Join (oAbs os (moHomeDir pre)) minerConfigFilename in (file, file)
      else (moConfigFile cfg, moConfigFile pre))"

definition updateMinerHome :: "osLib \<Rightarrow> minerOptions \<Rightarrow> minerOptions \<Rightarrow> minerOptions" where
  "updateMinerHome os pre cfg = (if moHomeDir pre = [] then cfg else
     let home = oAbs os (moHomeDir pre) in
     cfg\<lparr>moHomeDir := home, moConfigFile := snd (configFiles os pre cfg),
       moLogDir := (if moLogDir pre = moLogDir cfg then Join home minerLogDirname else moLogDir pre)\<rparr>)"

definition readOptions :: "osLib \<Rightarrow> minerOptions flagsLib \<Rightarrow> chaincfg \<Rightarrow> string \<Rightarrow> minerOptions start" where
  "readOptions os fl ch home =
     (let cfg = defaultOptions ch home in
      case cmdline fl cfg of
        HelpAsked \<Rightarrow> failc (Exits 0)
      | BadFlags \<Rightarrow> failc (Exits 1)
      | Parsed pre \<Rightarrow>
          let (defaultFile, file) = configFiles os pre cfg; cfg = updateMinerHome os pre cfg in
          bndc (\<lambda>h. if fileExists file h then (Ok (), h) else writeFile os file ''configfile'' h) (\<lambda>_.
          bndc (if file = defaultFile then retc cfg else
            case iniFile fl file cfg of IniRead cfg \<Rightarrow> retc cfg | IniPathError \<Rightarrow> retc cfg | IniBad \<Rightarrow> failc (Fails ''configfile'')) (\<lambda>cfg.
          case cmdline fl cfg of Parsed cfg \<Rightarrow> retc cfg | _ \<Rightarrow> failc (Fails ''flags''))))"

section \<open>Checks\<close>

definition minerNet :: "chaincfg \<Rightarrow> minerOptions \<Rightarrow> Params option" where
  "minerNet ch cfg =
     (if moActiveNet cfg = netName (fst (chSimNet ch)) then Some (fst (chSimNet ch))
      else if moActiveNet cfg = netName (fst (chTestNet3 ch)) then Some (fst (chTestNet3 ch))
      else if moActiveNet cfg = netName (fst (chMainNet ch)) then Some (fst (chMainNet ch)) else None)"

text \<open>\<open>strings.Replace(s, old, "", 1)\<close>\<close>

fun removeFirst :: "string \<Rightarrow> string \<Rightarrow> string" where
  "removeFirst old [] = []"
| "removeFirst old (c # s) =
     (if take (length old) (c # s) = old then drop (length old) (c # s) else c # removeFirst old s)"

definition checkPool :: "string \<Rightarrow> string start" where
  "checkPool pool = (if pool = [] then failc (Fails ''pool'') else
     let pool = removeFirst ''stratum+tcp://'' pool in
     case SplitHostPort pool of
       None \<Rightarrow> failc (Fails ''pool'')
     | Some (_, poolPort) \<Rightarrow> bndc (requireThat (portIn poolPort) ''pool'') (\<lambda>_. retc pool))"

definition clampProcs :: "int \<Rightarrow> int \<Rightarrow> int" where
  "clampProcs availableCPUs n = (if n < 1 \<or> n > availableCPUs then availableCPUs else n)"

definition checkOptions :: "osLib \<Rightarrow> chaincfg \<Rightarrow> int \<Rightarrow> minerOptions \<Rightarrow> minerOptions start" where
  "checkOptions os ch cpus cfg =
     bndc (mkdirAll os (moHomeDir cfg) ''appdata'') (\<lambda>_.
     let cfg = cfg\<lparr>moLogDir := cleanAndExpandPath os (moLogDir cfg)\<rparr> in
     bndc (initLogRotator os (moLogDir cfg) minerLogFilename) (\<lambda>_.
     bndc (if moDebugLevel cfg = ''show'' then failc (Exits 0) else retc ()) (\<lambda>_.
     bndc (parseAndSetDebugLevels os minerLoggers (moDebugLevel cfg)) (\<lambda>_.
     bndc (case minerNet ch cfg of None \<Rightarrow> failc (Fails ''activenet'') | Some net \<Rightarrow> retc net) (\<lambda>net.
     bndc (checkProfile (moProfile cfg)) (\<lambda>profile.
     bndc (checkPool (moPool cfg)) (\<lambda>pool.
     retc (cfg\<lparr>moNet := Some net, moProfile := profile, moPool := pool, moMaxProcs := clampProcs cpus (moMaxProcs cfg)\<rparr>))))))))"

definition loadOptions :: "osLib \<Rightarrow> minerOptions flagsLib \<Rightarrow> chaincfg \<Rightarrow> int \<Rightarrow> string \<Rightarrow> minerOptions start" where
  "loadOptions os fl ch cpus home = bndc (readOptions os fl ch home) (checkOptions os ch cpus)"

section \<open>The program\<close>

text \<open>The miner that runs, with its configuration; the decoding of headers is an argument.\<close>

definition mainMiner :: "osLib \<Rightarrow> minerOptions flagsLib \<Rightarrow> chaincfg \<Rightarrow> int \<Rightarrow> string \<Rightarrow> Wire \<Rightarrow> (BlockHeader \<Rightarrow> 32 word)
    \<Rightarrow> (minerConfig \<times> miner) start" where
  "mainMiner os fl ch cpus home wire timestamp = (\<lambda>h. case loadOptions os fl ch cpus home h of
     (Ok cfg, h) \<Rightarrow> (case moNet cfg of
       None \<Rightarrow> (Panic, h)
     | Some net \<Rightarrow> (Ok (\<lparr>mcUser = moUser cfg, mcAddress = moAddress cfg, mcUserAgent = moUserAgent cfg, mcNet = net,
         mcStall = moStall cfg, mcWire = wire, mcTimestamp = timestamp\<rparr>, newMiner), h))
   | (Err (Exits n), h) \<Rightarrow> (Err (Exits n), h)
   | (Err (Fails _), h) \<Rightarrow> (Err (Exits 1), h)
   | (Panic, h) \<Rightarrow> (Panic, h))"

section \<open>Accepted options\<close>

lemma checkPool_Ok [start_Ok]:
  "checkPool pool h = (Ok p, h') \<longleftrightarrow> h' = h \<and> pool \<noteq> [] \<and> p = removeFirst ''stratum+tcp://'' pool \<and>
     (\<exists>hst port. SplitHostPort p = Some (hst, port) \<and> portIn port)"
  unfolding checkPool_def by (auto simp: bndc_eq_Ok start_Ok Let_def split: option.splits)

lemma checkProfileD:
  "checkProfile profile h = (Ok p, h') \<Longrightarrow> h' = h \<and> (p \<noteq> [] \<longrightarrow> (\<exists>hst port. SplitHostPort p = Some (hst, port) \<and> portIn port))"
  by (auto simp: checkProfile_Ok split: if_splits)

lemma checkPoolD:
  "checkPool pool h = (Ok p, h') \<Longrightarrow> h' = h \<and> (\<exists>hst port. SplitHostPort p = Some (hst, port) \<and> portIn port)"
  by (auto simp: checkPool_Ok)

lemma minerNet_cong: "moActiveNet c = moActiveNet c' \<Longrightarrow> minerNet ch c = minerNet ch c'"
  unfolding minerNet_def by (simp only:)

lemma clampProcs_range: "1 \<le> cpus \<Longrightarrow> 1 \<le> clampProcs cpus n \<and> clampProcs cpus n \<le> cpus"
  by (simp add: clampProcs_def)

definition validMiner :: "chaincfg \<Rightarrow> int \<Rightarrow> minerOptions \<Rightarrow> bool" where
  "validMiner ch cpus cfg \<longleftrightarrow> minerNet ch cfg = moNet cfg \<and> moNet cfg \<noteq> None \<and>
     1 \<le> moMaxProcs cfg \<and> moMaxProcs cfg \<le> cpus \<and>
     (\<exists>hst port. SplitHostPort (moPool cfg) = Some (hst, port) \<and> portIn port) \<and>
     (moProfile cfg \<noteq> [] \<longrightarrow> (\<exists>hst port. SplitHostPort (moProfile cfg) = Some (hst, port) \<and> portIn port))"

lemma checkOptions_Ok:
  assumes "checkOptions os ch cpus cfg0 h = (Ok cfg, h')" "1 \<le> cpus"
  shows "validMiner ch cpus cfg" and "hoFiles h' (moLogDir cfg)" and "hoFiles h' (moHomeDir cfg)"
    and "levelsFrom os minerLoggers (h\<lparr>hoFiles := hoFiles h'\<rparr>) h'" and "moUserAgent cfg = moUserAgent cfg0"
proof -
  let ?log = "cleanAndExpandPath os (moLogDir cfg0)"
  let ?h1 = "h\<lparr>hoFiles := (hoFiles h)(moHomeDir cfg0 := True, ?log := True, Join ?log minerLogFilename := True)\<rparr>"
  have run: "parseAndSetDebugLevels os minerLoggers (moDebugLevel cfg0) ?h1 = (Ok (), h')" "validMiner ch cpus cfg"
    "moLogDir cfg = ?log" "moHomeDir cfg = moHomeDir cfg0" "moUserAgent cfg = moUserAgent cfg0"
    using assms(1) clampProcs_range[OF assms(2)] unfolding checkOptions_def Let_def
    by (auto simp: bndc_eq_Ok mkdirAll_Ok initLogRotator_Ok validMiner_def split: option.splits if_splits
        dest!: checkProfileD checkPoolD cong: minerNet_cong)
  have v: "levelsFrom os minerLoggers ?h1 h'" using parseAndSetDebugLevels_levels[OF run(1)] .
  then show "hoFiles h' (moLogDir cfg)" "hoFiles h' (moHomeDir cfg)" "levelsFrom os minerLoggers (h\<lparr>hoFiles := hoFiles h'\<rparr>) h'"
    by (simp_all add: levelsFrom_def run(3,4))
  show "validMiner ch cpus cfg" "moUserAgent cfg = moUserAgent cfg0" using run by simp_all
qed

text \<open>The default configuration file is written but never read.\<close>

lemma default_file_ignored:
  assumes "cmdline fl (defaultOptions ch home) = Parsed pre" "moConfigFile pre = Join home minerConfigFilename"
  shows "readOptions os (fl\<lparr>iniFile := f\<rparr>) ch home = readOptions os fl ch home"
proof -
  have "fst (configFiles os pre (defaultOptions ch home)) = snd (configFiles os pre (defaultOptions ch home))"
    using assms(2) by (simp add: configFiles_def defaultOptions_def Let_def)
  then show ?thesis using assms(1) by (auto simp: readOptions_def Let_def split: prod.splits)
qed

section \<open>Property\<close>

text \<open>
  C40: the miner's options. Options that are accepted name a network, a pool with a port within the
  limits, and as many processors as there are at most; the directories are there. Where the user
  agent is the default the pool identifies the miner. And a configuration file in the
  default place has no effect on what is read.
\<close>

theorem accepted_options:
  assumes "loadOptions os fl ch cpus home h = (Ok cfg, h')" "1 \<le> cpus"
  shows "validMiner ch cpus cfg \<and> hoFiles h' (moHomeDir cfg) \<and> hoFiles h' (moLogDir cfg) \<and>
    (\<exists>mcfg. mainMiner os fl ch cpus home wire timestamp h = (Ok (mcfg, newMiner), h') \<and> Some (mcNet mcfg) = moNet cfg \<and>
      (moUserAgent cfg = defaultUserAgent \<longrightarrow> identifyMiningClients (mcUserAgent mcfg) = Ok [CPU])) \<and>
    (\<forall>pre f. cmdline fl (defaultOptions ch home) = Parsed pre \<longrightarrow> moConfigFile pre = moConfigFile (defaultOptions ch home) \<longrightarrow>
      loadOptions os (fl\<lparr>iniFile := f\<rparr>) ch cpus home h = (Ok cfg, h'))"
proof -
  obtain c h1 where k: "checkOptions os ch cpus c h1 = (Ok cfg, h')"
    using assms(1) by (auto simp: loadOptions_def bndc_eq_Ok)
  note ok = checkOptions_Ok[OF k assms(2)]
  then obtain net where "moNet cfg = Some net" by (auto simp: validMiner_def)
  then show ?thesis using ok assms(1) default_file_ignored[of fl ch home _ os]
    by (auto simp: mainMiner_def defaultUserAgent_identified loadOptions_def defaultOptions_def)
qed

definition minerFlags :: "minerOptions flagsLib" where
  "minerFlags = \<lparr>cmdline = (\<lambda>c. Parsed (c\<lparr>moPool := ''stratum+tcp://pool:5550'', moDebugLevel := ''info''\<rparr>)), iniFile = (\<lambda>_ _. IniBad)\<rparr>"

theorem accepted_options_witness:
  "\<exists>cfg h'. loadOptions demoOs minerFlags demoChains 4 ''/h'' demoHost = (Ok cfg, h') \<and> validMiner demoChains 4 cfg \<and>
     moPool cfg = ''pool:5550''"
proof -
  have "(case fst (loadOptions demoOs minerFlags demoChains 4 ''/h'' demoHost) of Ok cfg \<Rightarrow> moPool cfg = ''pool:5550'' | _ \<Rightarrow> False)"
    by code_simp
  then obtain cfg h' where l: "loadOptions demoOs minerFlags demoChains 4 ''/h'' demoHost = (Ok cfg, h')" "moPool cfg = ''pool:5550''"
    by (cases "loadOptions demoOs minerFlags demoChains 4 ''/h'' demoHost") (auto split: outcome.splits)
  with accepted_options[OF l(1)] show ?thesis by auto
qed

end
