(* ===== verification/Spec2Isabelle.thy ===== *)
theory Spec2Isabelle
  imports PostgresTheorems Startup MinerConfig Mining
begin

text \<open>
  A verification development for dcrpool, the Decred mining pool (\<open>src/internal/pool\<close>), and
  the miner that comes with it (\<open>src/cmd/miner\<close>).

  \<^bold>\<open>The program.\<close> Miners connect to an endpoint of the hub. A client authorizes, subscribes
  and gets work that the hub has from the daemon; what it submits is checked against its target
  and earns a share, and a solved block goes to the daemon and is recorded as accepted work.
  The chain state follows connected and disconnected blocks: the child of a recorded block
  confirms it, and the payment manager then files payments for the shares, by PPS or PPLNS,
  which it pays out through the wallet once they are mature. All of it is kept in a database
  behind one interface with two implementations, bolt and postgres. A web interface shows
  blocks, payments and clients from a cache the pool keeps up to date.

  \<^bold>\<open>How the code is modelled.\<close> A Go call returns \<open>Ok\<close>, \<open>Err\<close> with a kind of error, or
  \<open>Panic\<close> for a run-time panic; stateful code is a function on an explicit state, a record
  with the fields of the struct, that returns the state on every path (\<open>Prelude\<close>,
  \<open>PoolErrors\<close>). Integers keep their width as words, or are integers with the wrap-around
  written out; \<open>float64\<close> and \<open>big.Float\<close> are rounded rationals. A range over a Go map takes
  its order from an argument. Goroutines are step relations over the shared state, one step per
  handled message or tick, in any order. Loops over slices are recursion on the list; the two
  loops that need not end, the search for a nonce and the rescan, are \<open>partial_function (option)\<close>
  over the events they see, so no fuel is chosen, and when they end is proved.

  \<^bold>\<open>Foundations.\<close> \<open>GoBytes\<close> (byte strings, big and little endian numbers, hexadecimal),
  \<open>GoFloat\<close> (rounding), \<open>GoJson\<close> (documents and fields), \<open>Wire\<close> (the operations of the
  Decred packages the pool calls, as an argument).

  \<^bold>\<open>Data and database.\<close> \<open>PoolData\<close> has the stored records with their identifiers and documents
  (\<open>payment.go\<close>, \<open>share.go\<close>, \<open>account.go\<close>, \<open>job.go\<close>, \<open>acceptedwork.go\<close>, \<open>hashdata.go\<close>).
  \<open>Database\<close> has the interface of \<open>database.go\<close>, the abstract database of finite maps, and
  its contract: the locale \<open>database_common\<close>, which both implementations keep, and
  \<open>database_spec\<close>, which adds what bolt does with payments, and its unsigned comparison of times.
  \<open>Bolt\<close> states what the pool relies on of the package bbolt, \<open>BoltDB\<close> is \<open>boltdb.go\<close> and
  \<open>boltupgrades.go\<close> method by method over it, \<open>DocTable\<close>, \<open>BoltSpec\<close> and \<open>BoltProps\<close> prove that it
  implements \<open>database_spec\<close>, from an invariant of the file that opening a file establishes.
  \<open>Sql\<close> has the tables and statements of \<open>sql_queries.go\<close>, \<open>Postgres\<close> is \<open>postgres.go\<close> over them,
  with a connection that may fail at any statement; \<open>PostgresProps\<close> and \<open>PostgresTheorems\<close> prove
  that it implements \<open>database_common\<close>, how its payments differ from bolt's, and that a failed
  write changes no table.

  \<^bold>\<open>Payments.\<close> \<open>PaymentMgr\<close> is \<open>paymentmgr.go\<close>. \<open>PayShares\<close> shows the percentages of a batch of
  shares, \<open>PayFees\<close> the division of the transaction fee, \<open>PayAmounts\<close> the amounts of a block's
  payments, \<open>PayDB\<close> what is stored for a block, \<open>PayOut\<close> the payout, \<open>PayGen\<close> the contract the
  chain state relies on and that the payment manager keeps it.

  \<^bold>\<open>Chain.\<close> \<open>ChainState\<close> is \<open>chainstate.go\<close>; \<open>ChainProps\<close> and \<open>ChainTheorems\<close> show that a connected
  block confirms its parent and pays for it once, through reorganisations too, that a disconnected
  block undoes the confirmation, and that every sequence of notifications keeps the database.

  \<^bold>\<open>Clients.\<close> \<open>Message\<close> is \<open>message.go\<close>, with the round trips and the agreement of the headers in
  \<open>MessageProps\<close>; \<open>Difficulty\<close> is \<open>difficulty.go\<close> and the weights of \<open>share.go\<close>; \<open>MinerID\<close> is
  \<open>minerid.go\<close> and \<open>semver.go\<close>; \<open>Client\<close> is \<open>client.go\<close>. \<open>ClientProps\<close>, \<open>ClientReplies\<close>,
  \<open>ClientLife\<close>, \<open>ClientStates\<close> and \<open>ClientTheorems\<close> show what a submission can change, that every
  request is answered once, and the invariant of a connection under any interleaving.

  \<^bold>\<open>Hub.\<close> \<open>Limiter\<close> is \<open>limiter.go\<close>; \<open>Hub\<close> is \<open>hub.go\<close> and \<open>endpoint.go\<close>; \<open>HubProps\<close> and
  \<open>HubTheorems\<close> show the count of connections in every reachable state, the fixed mode of a
  database and the broadcast of new work.

  \<^bold>\<open>Web interface.\<close> \<open>GuiCache\<close> is \<open>formatting.go\<close> and \<open>cache.go\<close> of \<open>internal/gui\<close>, \<open>Gui\<close> the
  handlers, routes, middleware, sockets and the update loop of the other files. \<open>GuiProps\<close> shows what
  the pages hold of an account's payments, that the pages of a listing are its parts, where the
  arithmetic of page numbers overflows, and who gets the pages of the administrator.

  \<^bold>\<open>Start.\<close> \<open>Config\<close> is \<open>config.go\<close>, \<open>log.go\<close> and \<open>params.go\<close>, with how \<open>dcrpool.go\<close> configures hub
  and interface; \<open>ConfigProps\<close> shows what an accepted configuration is like. \<open>Startup\<close> is \<open>realMain\<close>
  and \<open>Connect\<close>, from the configuration to a hub that is connected and an interface on it, and what
  a pool that has started is like. \<open>Version\<close> has the version strings of both programs.

  \<^bold>\<open>Miner.\<close> \<open>Miner\<close> is \<open>client.go\<close> and \<open>cpuminer.go\<close> of \<open>cmd/miner\<close>; \<open>MinerProps\<close> shows that the
  search ends and what it returns; \<open>MinerConfig\<close> is its \<open>config.go\<close> and \<open>main.go\<close>; \<open>Mining\<close> joins the
  miner to the pool. This theory holds the two properties that span the whole: work that is mined is
  rewarded, and a block that is solved is paid for.

  \<^bold>\<open>Interfaces.\<close> The laws of the store (\<open>bolt_store\<close>, \<open>bolt_live\<close>), of the database
  (\<open>database_common\<close>, \<open>database_spec\<close>), of a table of documents and of an SQL table, and what the chain
  state relies on of the payment manager are locales. The clients' lemmas are proved inside them, and
  they are interpreted on the models of \<open>boltdb.go\<close>, \<open>postgres.go\<close> and \<open>paymentmgr.go\<close>.

  \<^bold>\<open>Not modelled.\<close> Reading and writing sockets and files, the start and join of goroutines, the
  shutdown, the profiler, signal handling and log lines. Of the web interface the templates, the
  protection against forged requests and the file server. The code of other packages, the
  daemon, the wallet, bbolt, the token bucket, header hashing, the flags parser, the cookie store and
  the postgres server, is an argument of the definitions with its documented behaviour as a hypothesis.
\<close>

section \<open>A concrete miner and chain\<close>

definition headerTime :: "BlockHeader \<Rightarrow> 32 word" where
  "headerTime h = of_nat (le_val (take 4 (drop 136 (hdrOther h))))"

lemma clientWire_laws: "headerLaws clientWire headerTime"
proof -
  have "le32 (of_nat (le_val x)) = x" if "length x = 4" for x
  proof -
    have "be_val (rev x) < 256 ^ 4" using be_val_bound[of "rev x"] that by simp
    then have "unat (of_nat (be_val (rev x)) :: 32 word) = be_val (rev x)" by (simp add: take_bit_nat_eq_self unsigned_of_nat)
    then show ?thesis using be_be_val[of "rev x"] that by (simp add: le32_def le_def le_val_def del: be.simps)
  qed
  then show ?thesis by (auto simp: headerLaws_def clientWire_def headerTime_def)
qed

definition demoMinerCfg :: minerConfig where
  "demoMinerCfg = \<lparr>mcUser = ''u'', mcAddress = ''a'', mcUserAgent = ''cpuminer/1.0.0'', mcNet = demoNet, mcStall = False,
     mcWire = clientWire, mcTimestamp = headerTime\<rparr>"

definition demoMiner :: miner where
  "demoMiner = newMiner\<lparr>mAuthorized := True, mSubscribed := True, mConnected := True,
     mExtraNonce1E := EncodeToString ''abcd'', mWork := noWork\<lparr>wkTarget := Some 100\<rparr>\<rparr>"

definition poolChainCfg :: "memdb ChainStateConfig" where
  "poolChainCfg = chainCfg\<lparr>csRules := ccRules clientCfg, csWire := clientWire\<rparr>"

section \<open>The miner and the pool\<close>

text \<open>
  C2: mined work is rewarded. A miner that is subscribed and authorized gets the notification of a
  stored job, whose identifier is UTF-8 text as those of the pool's jobs, which are hexadecimal,
  searches, and sends the solution it finds; the pool, on a medium that does not fail, rebuilds the
  very header the miner hashed, whose proof of work is below the miner's target, and if that
  target is at most the client's it adds the due share and answers with success, unless the work
  also meets the network target and the node refuses the block.
\<close>

theorem mined_work_rewarded:
  assumes db: "database_common (ccDb cfg) \<alpha> I True" "I (cDb c)" "shortNames cfg c"
    and wire: "headerLaws (ccWire cfg) (mcTimestamp mcfg)" "mcWire mcfg = ccWire cfg"
    and job: "tJobs (\<alpha> (cDb c)) (jbUUID job) = Some job" "jbUUID job \<noteq> []" "jbHeader job = EncodeToString hdr" "length hdr = 180"
      "utf8 (jbUUID job)"
    and client: "extraNonce1 c = EncodeToString en1" "length en1 = 4" "cMiner c = CPU \<or> cMiner c = Gominer"
      "diffInfo c = Some info" "\<not> cCancelled c" "dueShare cfg c = Some s" "tShares (\<alpha> (cDb c)) (shUUID s) = None"
    and miner: "mAuthorized m" "mSubscribed m" "mExtraNonce1E m = extraNonce1 c" "wkTarget (mWork m) = Some target"
      "target \<le> diTarget info"
    and header: "FromBytes (ccWire cfg) (patch 144 en1 hdr) = Ok h0"
      "\<forall>en2 n h. FromBytes (ccWire cfg) (candidate (patch 144 en1 hdr) en2 n) = Ok h \<longrightarrow> 0 < netTarget cfg h \<and> powOf cfg h \<noteq> 0"
    and run: "receivedRequest (jobNotification job clean) = Ok notif" "processNotification mcfg notif m = (r1, m1)"
      "solve mcfg ev m1 = Some (Ok (Some sub), m2)" "receivedRequest sub = Ok req"
  shows "\<exists>en2 n h r c'. FromBytes (ccWire cfg) (candidate (patch 144 en1 hdr) en2 n) = Ok h \<and> of_int (powOf cfg h) < target \<and>
    handleSubmitWorkRequest cfg req True c = (r, c') \<and> I (cDb c') \<and>
    tShares (\<alpha> (cDb c')) = (tShares (\<alpha> (cDb c)))(shUUID s \<mapsto> s) \<and> cSignals c' = cSignals c @ [ClaimedShare] \<and>
    (netTarget cfg h < powOf cfg h \<longrightarrow> cOut c' = cOut c @ [MResp (SubmitWorkResponse (mId m + 1) True None)])"
proof -
  obtain m' where m': "processNotification mcfg notif m = (Ok (), m')" "mId m' = mId m"
    "mWork m' = (mWork m)\<lparr>wkJobID := jbUUID job, wkHeader := Some (patch 144 en1 hdr)\<rparr>"
    using notified_work[OF _ job(4) client(2) job(3) miner(1,2) _ _ run(1) job(5), of mcfg "mcTimestamp mcfg" h0]
      wire miner(3) client(1) header(1) by auto
  then have m1: "m1 = m'" and wk: "mWork m1 = \<lparr>wkJobID = jbUUID job, wkHeader = Some (patch 144 en1 hdr), wkTarget = Some target\<rparr>"
    using run(2) miner(4) by auto
  have "db_fetchJob (ccDb cfg) (jbUUID job) (cDb c) = Ok job"
    using database_common.fetchJob[OF db(1,2), of "jbUUID job"] job(1) by (simp add: found_def)
  from mined_submission[OF wire job(4) client(2) job(3,2) this client(1,3) wk run(3,4) job(5)]
  obtain h en2 n where h: "FromBytes (ccWire cfg) (candidate (patch 144 en1 hdr) en2 n) = Ok h" "solves cfg req c h"
    "of_int (powOf cfg h) < target" "reqID req = Some (mId m + 1)" unfolding m1 m'(2) by blast
  then have "meetsTarget cfg req c h" using header(2) client(4) miner(5) by (auto simp: meetsTarget_def)
  from database_common.rewarded[OF db(1) TrueI refl db(2,3) this h(4) client(5-7)] show ?thesis using h(1,3) by blast
qed

theorem mined_work_rewarded_witness:
  "\<exists>req r c'. handleSubmitWorkRequest clientCfg req True demoClient = (r, c') \<and> cSignals c' = [ClaimedShare]"
proof -
  let ?b = "patch 144 ''abcd'' (replicate 180 CHR ''a'')"
  obtain s where s: "dueShare clientCfg demoClient = Some s" "tShares (absdb mem_bolt (cDb demoClient)) (shUUID s) = None"
    using demo_share by auto
  have db: "boltInv mem_bolt (cDb demoClient)" "tJobs (absdb mem_bolt (cDb demoClient)) (jbUUID demoJob) = Some demoJob"
    by (simp_all add: demoClient_sel jobdb_inv emptyPoolDB_def del: absdb_sel)
  have job: "jbUUID demoJob \<noteq> []" "jbHeader demoJob = EncodeToString (replicate 180 CHR ''a'')"
    by (simp_all add: demoJob_def NewJob_def jobID_def EncodeToString_append flip: length_0_conv)
  have plain: "utf8 (jbUUID demoJob)" by (simp add: demoJob_def NewJob_def jobID_def flip: goText_same_iff)
  have m: "mAuthorized demoMiner" "mSubscribed demoMiner" "mExtraNonce1E demoMiner = extraNonce1 demoClient"
    "wkTarget (mWork demoMiner) = Some 100" "mConnected demoMiner"
    "mWorkData demoMiner = mWorkData newMiner"
    by (simp_all add: demoMiner_def demoClient_sel newMiner_def)
  have wire: "headerLaws (ccWire clientCfg) (mcTimestamp demoMinerCfg)" "mcWire demoMinerCfg = ccWire clientCfg"
    using clientWire_laws by (simp_all add: clientCfg_sel demoMinerCfg_def)
  have hdr: "\<exists>h0. FromBytes (ccWire clientCfg) x = Ok h0" "netTarget clientCfg h = 10" "powOf clientCfg h = 5" for x h
    by (simp_all add: clientCfg_sel clientWire_def netTarget_def powOf_def)
  obtain notif where n: "receivedRequest (jobNotification demoJob True) = Ok notif"
    using parse_work by (metis jobNotification_def)
  obtain h0 where h0: "FromBytes (ccWire clientCfg) ?b = Ok h0" using hdr(1) by blast
  obtain m1 where m1: "processNotification demoMinerCfg notif demoMiner = (Ok (), m1)" "mConnected m1"
    "mWorkData m1 = mWorkData demoMiner" "mWork m1 = (mWork demoMiner)\<lparr>wkJobID := jbUUID demoJob, wkHeader := Some ?b\<rparr>"
    using notified_work[OF wire(1)[folded wire(2)] _ _ job(2) m(1,2) m(3)[unfolded demoClient_sel] h0[folded wire(2)] n plain] m(5) by auto
  obtain h where h: "below demoMinerCfg 100 ?b 0 0 h"
    by (auto simp: below_def demoMinerCfg_def clientWire_def)
  then have "solveBlock demoMinerCfg 100 (\<lambda>_. Idle) 0 0 0 ?b (mWorkData m1) = Some (Ok (True, foundWork demoMinerCfg 0 0 h))"
    using solveBlock_turn[of ?b "\<lambda>_. Idle" 0 demoMinerCfg 0 0 h 100 "mWorkData m1"] newMiner_unknown m1(3) m(6)
    by (auto simp: below_def)
  then have "\<exists>i u j e t n m2. solve demoMinerCfg (\<lambda>_. Idle) m1 = Some (Ok (Some (SubmitWorkRequest i u j e t n)), m2)"
    using m1(2,4) job(1) m(4) by (simp add: solve_def nextID_def Let_def) blast
  then obtain sub m2 req where sol: "solve demoMinerCfg (\<lambda>_. Idle) m1 = Some (Ok (Some sub), m2)"
    and req: "receivedRequest sub = Ok req" using parse_submit by metis
  from mined_work_rewarded[OF clientCfg_db, OF db(1) demo_short wire db(2) job _ plain demoClient_sel(3) _ _ demoClient_sel(4,7) s
      m(1-4) _ h0 _ n m1(1) sol req]
  show ?thesis using hdr(2,3) by (auto simp: demoClient_sel simp del: absdb_sel)
qed

text \<open>
  C1: a solved block is paid. A client submits work that meets its target and the network's and
  that the node accepts; when then, with nothing else in between, a child of that block is
  connected, the accepted work recorded for the submission is confirmed and the payment generator
  is called for the block, once, with the time the work was accepted; if it succeeds a pending
  payment for that block has been stored.
\<close>

theorem solved_block_is_paid:
  assumes gen: "payment_generator (csD ccfg) \<alpha> I True (GeneratePayments ccfg)" "\<not> csSoloPool ccfg"
    and shared: "csD ccfg = ccDb cfg" "csRules ccfg = ccRules cfg" "csWire ccfg = ccWire cfg"
    and client: "I (cDb c)" "shortNames cfg c" "meetsTarget cfg req c h" "reqID req = Some n" "\<not> cCancelled c"
      "dueShare cfg c = Some s" "tShares (\<alpha> (cDb c)) (shUUID s) = None"
    and solved: "powOf cfg h \<le> netTarget cfg h" "nodeAccepts cfg h"
      "w = minedWork cfg h (c\<lparr>cTick := Suc (cTick c)\<rparr>)" "tWork (\<alpha> (cDb c)) (awUUID w) = None"
      "\<forall>p \<in> ran (tPayments (\<alpha> (cDb c))). pm_pending p \<longrightarrow> pm_block p \<noteq> awBlockHash w"
    and child: "FromBytes (csWire ccfg) msg = Ok h2" "PrevBlock h2 = BlockHash (ccWire cfg) h" "Height h2 = Height h + 1"
    and block: "GetBlock ccfg (PrevBlock h2) = Ok block" "BlockHash (csWire ccfg) (bkHeader block) = PrevBlock h2"
      "bkTransactions block = cb # txs" "unat (coinbaseIndex cb) < length (txOuts cb)"
    and known: "knownRows ccfg (\<alpha> (cDb c))" "chainConfs ccfg (awBlockHash w) \<noteq> None"
  shows "\<exists>c' db1 r cs'. handleSubmitWorkRequest cfg req True c = (Ok (), c') \<and>
    tWork (\<alpha> (cDb c')) (awUUID w) = Some w \<and>
    blockConnected ccfg msg (cs\<lparr>csDb := cDb c'\<rparr>) = (r, cs') \<and> I (csDb cs') \<and>
    tWork (\<alpha> (csDb cs')) (awUUID w) = Some (w\<lparr>awConfirmed := True\<rparr>) \<and>
    GeneratePayments ccfg (Height (bkHeader block)) (blockSource ccfg block cb)
      (txOuts cb ! unat (coinbaseIndex cb)) (awCreatedOn w) db1 = (r, csDb cs') \<and>
    (r = Ok () \<longrightarrow> (\<exists>p \<in> ran (tPayments (\<alpha> (csDb cs'))). pm_pending p \<and> pm_block p = awBlockHash w))"
proof -
  have spec: "database_common (ccDb cfg) \<alpha> I True"
    using database_spec.axioms(1)[OF payment_generator.axioms(1)[OF gen(1)]] by (simp add: shared(1))
  obtain c' where c': "handleSubmitWorkRequest cfg req True c = (Ok (), c')" "I (cDb c')"
    "tWork (\<alpha> (cDb c')) = (tWork (\<alpha> (cDb c)))(awUUID w \<mapsto> w)"
    using database_common.rewarded[OF spec TrueI refl client] solved(1-4) by (auto simp del: fun_upd_apply)
  have pays: "tPayments (\<alpha> (cDb c')) = tPayments (\<alpha> (cDb c))"
    using database_common.submission[OF spec refl client(1,2) c'(1)] by auto
  let ?cs = "cs\<lparr>csDb := cDb c'\<rparr>"
  have "parentHash ccfg h2 = awBlockHash w"
    using mined_parent_id(2)[OF child(2,3) shared(2)] solved(3) by (simp add: minedWork_def NewAcceptedWork_def)
  then have "\<forall>p \<in> ran (tPayments (\<alpha> (csDb ?cs))). pm_pending p \<longrightarrow> pm_block p \<noteq> parentHash ccfg h2"
    using solved(5) pays by simp
  moreover have "ran (tWork (\<alpha> (cDb c'))) = insert w (ran (tWork (\<alpha> (cDb c))))"
    unfolding c'(3) by (rule ran_map_upd) (rule solved(4))
  then have "I (csDb ?cs)" "knownRows ccfg (\<alpha> (csDb ?cs))" "tWork (\<alpha> (csDb ?cs)) (awUUID w) = Some w"
    using c'(2,3) known pays by (simp_all add: knownRows_def)
  ultimately show ?thesis
    using block_paid[OF gen(1,2) shared(2,3) _ _ _ solved(3) child block, of ?cs] c'(1) by auto
qed

theorem solved_block_is_paid_witness:
  "\<exists>c' r cs' w. handleSubmitWorkRequest clientCfg demoSubmit True demoClient = (Ok (), c') \<and>
     blockConnected poolChainCfg [] (demoChain\<lparr>csDb := cDb c'\<rparr>) = (r, cs') \<and> awConfirmed w \<and>
     tWork (absdb mem_bolt (csDb cs')) (awUUID w) = Some w"
proof -
  let ?w = "minedWork clientCfg demoSolved (demoClient\<lparr>cTick := Suc (cTick demoClient)\<rparr>)"
  let ?h2 = "\<lparr>PrevBlock = ''z'', Bits = 1, Height = 10, hdrOther = []\<rparr>"
  obtain s where s: "dueShare clientCfg demoClient = Some s" "tShares (absdb mem_bolt (cDb demoClient)) (shUUID s) = None"
    using demo_share by auto
  have gen: "payment_generator (csD poolChainCfg) (absdb mem_bolt) (boltInv mem_bolt) True (GeneratePayments poolChainCfg)"
    "\<not> csSoloPool poolChainCfg" "csD poolChainCfg = ccDb clientCfg" "csRules poolChainCfg = ccRules clientCfg"
    "csWire poolChainCfg = ccWire clientCfg"
    using chainCfg_gen by (simp_all add: poolChainCfg_def chainCfg_sel clientCfg_sel)
  have I: "boltInv mem_bolt (cDb demoClient)" "reqID demoSubmit = Some 3" "nodeAccepts clientCfg demoSolved"
    "powOf clientCfg demoSolved \<le> netTarget clientCfg demoSolved" "tWork (absdb mem_bolt (cDb demoClient)) k = None"
    "\<forall>p \<in> ran (tPayments (absdb mem_bolt (cDb demoClient))). pm_pending p \<longrightarrow> pm_block p \<noteq> awBlockHash ?w"
    "knownRows poolChainCfg (absdb mem_bolt (cDb demoClient))" for k
    by (simp_all add: demoClient_sel jobdb_inv emptyPoolDB_def demoSubmit_def nodeAccepts_def clientCfg_def clientWire_def
        powOf_def netTarget_def knownRows_def del: absdb_sel)
  have child: "FromBytes (csWire poolChainCfg) [] = Ok ?h2" "PrevBlock ?h2 = BlockHash (ccWire clientCfg) demoSolved"
    "Height ?h2 = Height demoSolved + 1" "GetBlock poolChainCfg (PrevBlock ?h2) = Ok demoBlock"
    "BlockHash (csWire poolChainCfg) (bkHeader demoBlock) = PrevBlock ?h2" "bkTransactions demoBlock = demoCoinbase # []"
    "unat (coinbaseIndex demoCoinbase) < length (txOuts demoCoinbase)" "chainConfs poolChainCfg x \<noteq> None" for x
    by (simp_all add: poolChainCfg_def chainCfg_def clientCfg_sel clientWire_def demoSolved_def demoBlock_def demoCoinbase_def
        coinbaseIndex_def isTreasuryActive_def TxVersionTreasury_def chainConfs_def clientCfg_def demoRules_def)
  from solved_block_is_paid[OF gen(1), OF gen(2-5) I(1) demo_short demo_meets I(2) demoClient_sel(7) s I(4,3) refl I(5,6)
      child(1-7) I(7) child(8), of demoChain]
  show ?thesis
  proof (elim exE conjE, goal_cases)
    case (1 c' db1 r cs')
    then show ?case
      by (intro exI[of _ c'] exI[of _ r] exI[of _ cs'] exI[of _ "?w\<lparr>awConfirmed := True\<rparr>"])
        (simp add: minedWork_def NewAcceptedWork_def del: absdb_sel)
  qed
qed

end
